(* ===== verification/Prelude.thy ===== *)
theory Prelude
  imports "HOL-Library.List_Lexorder" "HOL-Library.Char_ord" "HOL-Library.Product_Lexorder"
begin

text \<open>
  Shared vocabulary of the development: Python exceptions as values, the result type of
  a fallible call, SQL tables as lists of rows in insertion order with the three
  statements the sources use on them (\<open>UPDATE ... WHERE\<close>, \<open>SELECT ... ORDER BY ... LIMIT 1\<close>,
  \<open>SELECT ... WHERE\<close>), comparisons against a column that may be \<open>NULL\<close>, and the list lemmas
  the component theories share. The collections \<open>outcome_simps\<close> and \<open>table_simps\<close> are what
  the component proofs hand to the simplifier.
\<close>

named_theorems outcome_simps \<open>evaluation of fallible calls\<close>
named_theorems table_simps \<open>membership and keys of updated tables\<close>

section \<open>Exceptions and fallible calls\<close>

datatype py_error =
    ValueError string
  | PermissionError string
  | KeyError string
  | RuntimeError string
  | IntegrityError string
  | JSONDecodeError
  | OtherError string

type_synonym 'a outcome = "py_error + 'a"

definition outcome_bind :: "'a outcome \<Rightarrow> ('a \<Rightarrow> 'b outcome) \<Rightarrow> 'b outcome" where
  "outcome_bind m f = (case m of Inl e \<Rightarrow> Inl e | Inr x \<Rightarrow> f x)"

definition ensure :: "bool \<Rightarrow> py_error \<Rightarrow> unit outcome" where
  "ensure b e = (if b then Inr () else Inl e)"

lemma outcome_bind_Inl [simp]: "outcome_bind (Inl e) f = Inl e"
  by (simp add: outcome_bind_def)

lemma outcome_bind_Inr [simp]: "outcome_bind (Inr x) f = f x"
  by (simp add: outcome_bind_def)

lemma outcome_bind_eq_Inr [outcome_simps]:
  "outcome_bind m f = Inr y \<longleftrightarrow> (\<exists>x. m = Inr x \<and> f x = Inr y)"
  by (cases m) auto

lemma outcome_bind_eq_Inl [outcome_simps]:
  "outcome_bind m f = Inl e \<longleftrightarrow> m = Inl e \<or> (\<exists>x. m = Inr x \<and> f x = Inl e)"
  by (cases m) auto

lemma ensure_eq_Inr [outcome_simps]: "ensure b e = Inr u \<longleftrightarrow> b"
  by (simp add: ensure_def)

lemma ensure_eq_Inl [outcome_simps]: "ensure b e = Inl e' \<longleftrightarrow> \<not> b \<and> e' = e"
  by (auto simp: ensure_def)

lemma ensure_True [simp]: "ensure True e = Inr ()"
  by (simp add: ensure_def)

lemma ensure_False [simp]: "ensure False e = Inl e"
  by (simp add: ensure_def)

text \<open>
  A database transaction: the body works on a copy of the tables; an exception leaves the
  connection without \<open>commit\<close>, so the tables stay as they were.
\<close>

definition transact :: "'s \<Rightarrow> ('s \<times> 'a) outcome \<Rightarrow> 'a outcome \<times> 's" where
  "transact s body = (case body of Inl e \<Rightarrow> (Inl e, s) | Inr (s', x) \<Rightarrow> (Inr x, s'))"

lemma transact_Inl [simp]: "transact s (Inl e) = (Inl e, s)"
  by (simp add: transact_def)

lemma transact_Inr [simp]: "transact s (Inr (s', x)) = (Inr x, s')"
  by (simp add: transact_def)

lemma transact_eq_Inr [outcome_simps]:
  "transact s body = (Inr x, s') \<longleftrightarrow> body = Inr (s', x)"
  by (auto simp: transact_def split: sum.splits prod.splits)

lemma transact_eq_Inl [outcome_simps]:
  "transact s body = (Inl e, s') \<longleftrightarrow> body = Inl e \<and> s' = s"
  by (auto simp: transact_def split: sum.splits prod.splits)

section \<open>Tables\<close>

definition update_where :: "('r \<Rightarrow> bool) \<Rightarrow> ('r \<Rightarrow> 'r) \<Rightarrow> 'r list \<Rightarrow> 'r list" where
  "update_where P f t = map (\<lambda>r. if P r then f r else r) t"

definition rowcount :: "('r \<Rightarrow> bool) \<Rightarrow> 'r list \<Rightarrow> nat" where
  "rowcount P t = length (filter P t)"

definition select_first :: "('r \<Rightarrow> 'k::linorder) \<Rightarrow> ('r \<Rightarrow> bool) \<Rightarrow> 'r list \<Rightarrow> 'r option" where
  "select_first k P t =
     (case sort_key k (filter P t) of [] \<Rightarrow> None | r # _ \<Rightarrow> Some r)"

text \<open>
  \<open>INSERT\<close> under uniqueness constraints: each constraint is its column list, for the message, and
  the test that two rows agree on those columns.
\<close>

definition insert_row :: "(string \<times> ('r \<Rightarrow> 'r \<Rightarrow> bool)) list \<Rightarrow> 'r \<Rightarrow> 'r list \<Rightarrow> 'r list outcome" where
  "insert_row unique r t =
     (case List.find (\<lambda>(cols, same). list_ex (same r) t) unique of
        Some (cols, same) \<Rightarrow> Inl (IntegrityError (''UNIQUE constraint failed: '' @ cols))
      | None \<Rightarrow> Inr (t @ [r]))"

lemma insert_row_ok [outcome_simps]:
  "insert_row unique r t = Inr t' \<longleftrightarrow>
     t' = t @ [r] \<and> (\<forall>(cols, same) \<in> set unique. \<forall>x \<in> set t. \<not> same r x)"
proof (cases "List.find (\<lambda>(cols, same). list_ex (same r) t) unique")
  case None
  then have "\<forall>(cols, same) \<in> set unique. \<forall>x \<in> set t. \<not> same r x"
    by (auto simp: find_None_iff list_ex_iff)
  with None show ?thesis by (auto simp only: insert_row_def option.case sum.inject)
next
  case (Some p)
  then have "p \<in> set unique" "list_ex (snd p r) t" by (auto simp: find_Some_iff split_beta)
  with Some show ?thesis by (cases p) (fastforce simp: insert_row_def list_ex_iff)
qed

lemma insert_row_error:
  "insert_row unique r t = Inl e \<Longrightarrow> \<exists>msg. e = IntegrityError (''UNIQUE constraint failed: '' @ msg)"
  by (auto simp: insert_row_def split: option.splits)

lemma length_update_where [simp]: "length (update_where P f t) = length t"
  by (simp add: update_where_def)

lemma update_where_Nil [simp]: "update_where P f [] = []"
  by (simp add: update_where_def)

lemma update_where_Cons [simp]:
  "update_where P f (r # t) = (if P r then f r else r) # update_where P f t"
  by (simp add: update_where_def)

lemma update_where_append [simp]:
  "update_where P f (t @ u) = update_where P f t @ update_where P f u"
  by (simp add: update_where_def)

lemma set_update_where [table_simps]:
  "r \<in> set (update_where P f t) \<longleftrightarrow> (\<exists>r' \<in> set t. r = (if P r' then f r' else r'))"
  by (auto simp: update_where_def)

lemma map_update_where [table_simps]:
  "(\<And>r. g (f r) = g r) \<Longrightarrow> map g (update_where P f t) = map g t"
  by (induction t) auto

lemma update_where_none: "(\<And>r. r \<in> set t \<Longrightarrow> \<not> P r) \<Longrightarrow> update_where P f t = t"
  by (induction t) auto

lemma update_where_keeps: "r \<in> set t \<Longrightarrow> \<not> P r \<Longrightarrow> r \<in> set (update_where P f t)"
  by (induction t) auto

lemma rowcount_zero: "rowcount P t = 0 \<longleftrightarrow> (\<forall>r \<in> set t. \<not> P r)"
  by (simp add: rowcount_def filter_empty_conv)

lemma filter_key_distinct:
  "distinct (map key t) \<Longrightarrow> r \<in> set t \<Longrightarrow> filter (\<lambda>x. key x = key r) t = [r]"
proof (induction t)
  case (Cons a t)
  have fresh: "key x \<noteq> key a" if "x \<in> set t" for x
    using Cons.prems(1) that by (metis distinct.simps(2) image_eqI list.map(2) list.set_map)
  then have none: "filter (\<lambda>x. key x = key a) t = []"
    by (simp add: filter_empty_conv)
  show ?case
  proof (cases "r = a")
    case False
    with Cons.prems have "r \<in> set t" by simp
    moreover from this have "key a \<noteq> key r" using fresh by metis
    ultimately show ?thesis using Cons by simp
  qed (simp add: none)
qed simp

lemma rowcount_key:
  assumes "distinct (map key t)"
  shows "rowcount (\<lambda>x. key x = k \<and> Q x) t = 1 \<longleftrightarrow> (\<exists>r \<in> set t. key r = k \<and> Q r)"
proof (cases "\<exists>r \<in> set t. key r = k")
  case True
  then obtain r where r: "r \<in> set t" "key r = k" by blast
  have "filter (\<lambda>x. key x = k \<and> Q x) t = filter Q (filter (\<lambda>x. key x = k) t)"
    by (simp add: conj_commute)
  also have "\<dots> = filter Q [r]"
    using filter_key_distinct [OF assms r(1)] r(2) by simp
  finally show ?thesis
    using r assms by (auto simp: rowcount_def dest: distinct_map [THEN iffD1]
        inj_onD split: if_splits)
next
  case False
  then have "filter (\<lambda>x. key x = k \<and> Q x) t = []" by (auto simp: filter_empty_conv)
  with False show ?thesis by (auto simp: rowcount_def)
qed

lemma key_unique:
  "distinct (map key t) \<Longrightarrow> a \<in> set t \<Longrightarrow> b \<in> set t \<Longrightarrow> key a = key b \<Longrightarrow> a = b"
  by (simp add: distinct_map inj_on_def)

lemma select_first_Some:
  assumes "select_first k P t = Some r"
  shows "r \<in> set t" and "P r" and "\<And>x. x \<in> set t \<Longrightarrow> P x \<Longrightarrow> k r \<le> k x"
proof -
  obtain rest where s: "sort_key k (filter P t) = r # rest"
    using assms by (auto simp: select_first_def split: list.splits)
  have "set (sort_key k (filter P t)) = set (filter P t)" by simp
  with s have set_eq: "insert r (set rest) = {x \<in> set t. P x}" by auto
  then show "r \<in> set t" and "P r" by auto
  fix x assume "x \<in> set t" "P x"
  with set_eq have "x = r \<or> x \<in> set rest" by auto
  moreover have "sorted (map k (r # rest))" using s by (metis sorted_sort_key)
  ultimately show "k r \<le> k x" by auto
qed

lemma select_first_None: "select_first k P t = None \<longleftrightarrow> (\<forall>r \<in> set t. \<not> P r)"
proof -
  have "select_first k P t = None \<longleftrightarrow> filter P t = []"
    by (metis (no_types, lifting) length_sort length_0_conv list.case_eq_if option.distinct(1)
        select_first_def)
  then show ?thesis by (simp add: filter_empty_conv)
qed

lemma find_Some_mem: "List.find P t = Some r \<Longrightarrow> r \<in> set t \<and> P r"
  by (auto simp: find_Some_iff)

lemma find_None_mem: "List.find P t = None \<longleftrightarrow> (\<forall>r \<in> set t. \<not> P r)"
  by (auto simp: find_None_iff)

lemma find_append:
  "List.find P (xs @ ys) = (case List.find P xs of None \<Rightarrow> List.find P ys | Some x \<Rightarrow> Some x)"
  by (induction xs) auto

lemma find_key:
  assumes "distinct (map key t)" and "r \<in> set t"
  shows "List.find (\<lambda>x. key x = key r) t = Some r"
proof (cases "List.find (\<lambda>x. key x = key r) t")
  case None
  with assms(2) show ?thesis by (auto simp: find_None_mem)
next
  case (Some r')
  then have "r' \<in> set t" "key r' = key r" by (auto dest: find_Some_mem)
  with assms Some show ?thesis by (metis key_unique)
qed

section \<open>Columns that may be NULL\<close>

text \<open>In SQL a comparison with \<open>NULL\<close> is not true; both tests are false on \<open>None\<close>.\<close>

fun col_le :: "'a::linorder option \<Rightarrow> 'a \<Rightarrow> bool" where
  "col_le None x = False"
| "col_le (Some c) x = (c \<le> x)"

fun col_gt :: "'a::linorder option \<Rightarrow> 'a \<Rightarrow> bool" where
  "col_gt None x = False"
| "col_gt (Some c) x = (c > x)"

lemma col_gt_iff [table_simps]: "col_gt c x \<longleftrightarrow> (\<exists>y. c = Some y \<and> x < y)"
  by (cases c) auto

lemma col_le_iff [table_simps]: "col_le c x \<longleftrightarrow> (\<exists>y. c = Some y \<and> y \<le> x)"
  by (cases c) auto

end
