(* ===== verification/Sha256.thy ===== *)
theory Sha256
  imports Py_Text
begin

unbundle bit_operations_syntax

text \<open>
  The SHA-256 digest that \<open>hashlib.sha256(...).hexdigest()\<close> returns, on 32-bit words with
  wrap-around addition: message padding to 64-byte blocks, the 64-entry message schedule and the
  compression rounds of FIPS 180-4. The sources use it for event chains, evidence digests and
  replay keys. Shown: every digest is 64 lower-case hexadecimal characters, and padding always
  yields whole blocks.
\<close>

type_synonym u32 = "32 word"
type_synonym hash_state = "u32 \<times> u32 \<times> u32 \<times> u32 \<times> u32 \<times> u32 \<times> u32 \<times> u32"

definition round_constants :: "u32 list" where
  "round_constants =
    [1116352408, 1899447441, 3049323471, 3921009573, 961987163, 1508970993,
     2453635748, 2870763221, 3624381080, 310598401, 607225278, 1426881987,
     1925078388, 2162078206, 2614888103, 3248222580, 3835390401, 4022224774,
     264347078, 604807628, 770255983, 1249150122, 1555081692, 1996064986,
     2554220882, 2821834349, 2952996808, 3210313671, 3336571891, 3584528711,
     113926993, 338241895, 666307205, 773529912, 1294757372, 1396182291,
     1695183700, 1986661051, 2177026350, 2456956037, 2730485921, 2820302411,
     3259730800, 3345764771, 3516065817, 3600352804, 4094571909, 275423344,
     430227734, 506948616, 659060556, 883997877, 958139571, 1322822218,
     1537002063, 1747873779, 1955562222, 2024104815, 2227730452, 2361852424,
     2428436474, 2756734187, 3204031479, 3329325298]"

definition initial_hash :: hash_state where
  "initial_hash =
    (1779033703, 3144134277, 1013904242, 2773480762,
     1359893119, 2600822924, 528734635, 1541459225)"

definition rotr32 :: "nat \<Rightarrow> u32 \<Rightarrow> u32" where
  "rotr32 n w = drop_bit n w OR push_bit (32 - n) w"

definition big_sigma0 :: "u32 \<Rightarrow> u32" where
  "big_sigma0 x = rotr32 2 x XOR rotr32 13 x XOR rotr32 22 x"

definition big_sigma1 :: "u32 \<Rightarrow> u32" where
  "big_sigma1 x = rotr32 6 x XOR rotr32 11 x XOR rotr32 25 x"

definition small_sigma0 :: "u32 \<Rightarrow> u32" where
  "small_sigma0 x = rotr32 7 x XOR rotr32 18 x XOR drop_bit 3 x"

definition small_sigma1 :: "u32 \<Rightarrow> u32" where
  "small_sigma1 x = rotr32 17 x XOR rotr32 19 x XOR drop_bit 10 x"

definition be_bytes32 :: "u32 \<Rightarrow> byte list" where
  "be_bytes32 w = map (\<lambda>n. ucast (drop_bit n w)) [24, 16, 8, 0]"

definition be_bytes64 :: "64 word \<Rightarrow> byte list" where
  "be_bytes64 w = map (\<lambda>n. ucast (drop_bit n w)) [56, 48, 40, 32, 24, 16, 8, 0]"

definition sha_pad :: "byte list \<Rightarrow> byte list" where
  "sha_pad m = m @ [128] @ replicate ((119 - length m mod 64) mod 64) 0
     @ be_bytes64 (8 * of_nat (length m))"

definition word_of_bytes :: "byte list \<Rightarrow> u32" where
  "word_of_bytes bs = foldl (\<lambda>w b. push_bit 8 w OR ucast b) 0 bs"

fun chunks :: "nat \<Rightarrow> 'a list \<Rightarrow> 'a list list" where
  "chunks n xs = (if n = 0 \<or> xs = [] then [] else take n xs # chunks n (drop n xs))"

declare chunks.simps [simp del]

definition schedule_step :: "u32 list \<Rightarrow> u32 list" where
  "schedule_step w = (let t = length w in
     w @ [small_sigma1 (w ! (t - 2)) + w ! (t - 7) + small_sigma0 (w ! (t - 15)) + w ! (t - 16)])"

definition message_schedule :: "byte list \<Rightarrow> u32 list" where
  "message_schedule block = (schedule_step ^^ 48) (map word_of_bytes (chunks 4 block))"

fun sha_round :: "hash_state \<Rightarrow> u32 \<times> u32 \<Rightarrow> hash_state" where
  "sha_round (a, b, c, d, e, f, g, h) (k, w) =
     (let t1 = h + big_sigma1 e + ((e AND f) XOR (NOT e AND g)) + k + w;
          t2 = big_sigma0 a + ((a AND b) XOR (a AND c) XOR (b AND c))
      in (t1 + t2, a, b, c, d + t1, e, f, g))"

fun add_state :: "hash_state \<Rightarrow> hash_state \<Rightarrow> hash_state" where
  "add_state (a, b, c, d, e, f, g, h) (a', b', c', d', e', f', g', h') =
     (a + a', b + b', c + c', d + d', e + e', f + f', g + g', h + h')"

definition compress :: "hash_state \<Rightarrow> byte list \<Rightarrow> hash_state" where
  "compress s block =
     add_state s (foldl sha_round s (zip round_constants (message_schedule block)))"

fun state_bytes :: "hash_state \<Rightarrow> byte list" where
  "state_bytes (a, b, c, d, e, f, g, h) =
     concat (map be_bytes32 [a, b, c, d, e, f, g, h])"

definition sha256 :: "byte list \<Rightarrow> byte list" where
  "sha256 m = state_bytes (foldl compress initial_hash (chunks 64 (sha_pad m)))"

definition sha256_hex :: "byte list \<Rightarrow> string" where
  "sha256_hex m = hex_encode (sha256 m)"

lemma length_be_bytes [simp]: "length (be_bytes32 w) = 4" "length (be_bytes64 v) = 8"
  by (simp_all add: be_bytes32_def be_bytes64_def)

lemma length_sha_pad: "64 dvd length (sha_pad m)"
proof -
  have "length (sha_pad m) = length m + 9 + (119 - length m mod 64) mod 64"
    by (simp add: sha_pad_def)
  moreover have "(n + 9 + (119 - n mod 64) mod 64) mod 64 = 0" for n :: nat
  proof -
    define q r where "q = n div 64" and "r = n mod 64"
    then have "r < 64" and "n = 64 * q + r" by simp_all
    then have "n + 9 + (119 - n mod 64) = 64 * (q + 2)" by simp
    then have "(n + 9 + (119 - n mod 64)) mod 64 = 64 * (q + 2) mod 64" by (rule arg_cong)
    also have "\<dots> = 0" by (rule mod_mult_self1_is_0)
    finally show ?thesis by (rule mod_add_right_eq [THEN trans])
  qed
  ultimately show ?thesis by (simp only: dvd_eq_mod_eq_0)
qed

lemma length_state_bytes [simp]: "length (state_bytes s) = 32"
  by (cases s rule: state_bytes.cases) simp

lemma length_sha256 [simp]: "length (sha256 m) = 32"
  by (simp add: sha256_def)

lemma length_sha256_hex [simp]: "length (sha256_hex m) = 64"
  by (simp add: sha256_hex_def)

lemma sha256_hex_digits: "c \<in> set (sha256_hex m) \<Longrightarrow> is_hex c"
  unfolding sha256_hex_def by (rule hex_encode_digits)

lemma sha256_hex_nonempty [simp]: "sha256_hex m \<noteq> []"
  by (metis length_sha256_hex list.size(3) zero_neq_numeral)

end
