(* ===== verification/Json.thy ===== *)
theory Json
  imports Py_Text
begin

text \<open>
  The standard library's \<open>json.dumps\<close> and \<open>json.loads\<close> as the sources use them: values,
  the writer with its separators, \<open>sort_keys\<close> and \<open>ensure_ascii\<close> options, and the reader.
  Objects are lists of key/value pairs in insertion order, as Python dictionaries are; reading
  an object with a repeated key keeps the last value. Floating-point numbers are fixed-point
  decimals with six decimals (the resolution of the time stamps the sources store), plus the
  three non-finite values; the sign of zero and overflow to infinity are not represented.
  Text is limited to code points below 256, so the reader rejects other escapes. The reader
  recurses on a fuel argument; \<open>json_value_fuel\<close> shows that any fuel above twice the
  length of the text gives the same result. Shown: writing then reading returns the value with sorted
  keys, hence canonical text determines the value.
\<close>

section \<open>Values\<close>

datatype pyfloat = Fixed int | Infinite bool | NotANumber

datatype json =
    JNull
  | JBool bool
  | JInt int
  | JFloat pyfloat
  | JStr string
  | JList "json list"
  | JObj "(string \<times> json) list"

text \<open>Python dictionary access on the pairs of an object.\<close>

definition obj_get :: "string \<Rightarrow> (string \<times> json) list \<Rightarrow> json option" where
  "obj_get k kvs = map_of kvs k"

fun dict_put :: "string \<Rightarrow> json \<Rightarrow> (string \<times> json) list \<Rightarrow> (string \<times> json) list" where
  "dict_put k v [] = [(k, v)]"
| "dict_put k v ((k', v') # kvs) =
     (if k' = k then (k, v) # kvs else (k', v') # dict_put k v kvs)"

definition dict_of :: "(string \<times> json) list \<Rightarrow> (string \<times> json) list" where
  "dict_of kvs = foldl (\<lambda>d (k, v). dict_put k v d) [] kvs"

text \<open>Values as Python builds them: the keys of every dictionary are distinct.\<close>

fun json_wf :: "json \<Rightarrow> bool" where
  "json_wf (JList vs) = list_all json_wf vs"
| "json_wf (JObj kvs) = (distinct (map fst kvs) \<and> list_all (\<lambda>(k, v). json_wf v) kvs)"
| "json_wf _ = True"

text \<open>\<open>sort_keys=True\<close>: every dictionary is written in key order.\<close>

fun json_canon :: "json \<Rightarrow> json" where
  "json_canon (JList vs) = JList (map json_canon vs)"
| "json_canon (JObj kvs) = JObj (sort_key fst (map (\<lambda>(k, v). (k, json_canon v)) kvs))"
| "json_canon v = v"

section \<open>Writing\<close>

record json_style =
  item_sep :: string
  key_sep :: string
  ensure_ascii :: bool

definition compact_ascii :: json_style where
  "compact_ascii = \<lparr>item_sep = '','', key_sep = '':'', ensure_ascii = True\<rparr>"

definition compact_utf8 :: json_style where
  "compact_utf8 = \<lparr>item_sep = '','', key_sep = '':'', ensure_ascii = False\<rparr>"

definition spaced_ascii :: json_style where
  "spaced_ascii = \<lparr>item_sep = '', '', key_sep = '': '', ensure_ascii = True\<rparr>"

definition style_ok :: "json_style \<Rightarrow> bool" where
  "style_ok st = (item_sep st \<in> {'','', '', ''} \<and> key_sep st \<in> {'':'', '': ''})"

lemma style_ok_styles [simp]:
  "style_ok compact_ascii" "style_ok compact_utf8" "style_ok spaced_ascii"
  by (simp_all add: style_ok_def compact_ascii_def compact_utf8_def spaced_ascii_def)

definition quote_char :: char where "quote_char = char_of (34 :: nat)"
definition backslash :: char where "backslash = char_of (92 :: nat)"

definition escape_char :: "bool \<Rightarrow> char \<Rightarrow> string" where
  "escape_char ascii c = (let n = ord_of c in
     if n = 34 then [backslash, quote_char]
     else if n = 92 then [backslash, backslash]
     else if n = 8 then [backslash, CHR ''b'']
     else if n = 9 then [backslash, CHR ''t'']
     else if n = 10 then [backslash, CHR ''n'']
     else if n = 12 then [backslash, CHR ''f'']
     else if n = 13 then [backslash, CHR ''r'']
     else if n < 32 \<or> (ascii \<and> 127 \<le> n)
       then backslash # CHR ''u'' # CHR ''0'' # CHR ''0''
              # hex_char (n div 16) # hex_char (n mod 16) # []
     else [c])"

definition json_string :: "bool \<Rightarrow> string \<Rightarrow> string" where
  "json_string ascii s = quote_char # concat (map (escape_char ascii) s) @ [quote_char]"

fun frac_digits :: "nat \<Rightarrow> nat \<Rightarrow> string" where
  "frac_digits 0 m = []"
| "frac_digits (Suc k) m =
     (if m = 0 then [] else digit_char (m div 10 ^ k) # frac_digits k (m mod 10 ^ k))"

fun float_repr :: "pyfloat \<Rightarrow> string" where
  "float_repr (Fixed n) =
     (let a = nat \<bar>n\<bar>; fs = frac_digits 6 (a mod 10 ^ 6)
      in (if n < 0 then ''-'' else []) @ show_nat (a div 10 ^ 6) @ ''.''
           @ (if fs = [] then ''0'' else fs))"
| "float_repr (Infinite neg) = (if neg then ''-Infinity'' else ''Infinity'')"
| "float_repr NotANumber = ''NaN''"

fun py_join :: "string \<Rightarrow> string list \<Rightarrow> string" where
  "py_join sep [] = []"
| "py_join sep [s] = s"
| "py_join sep (s # ss) = s @ sep @ py_join sep ss"

fun json_print :: "json_style \<Rightarrow> json \<Rightarrow> string" where
  "json_print st JNull = ''null''"
| "json_print st (JBool b) = (if b then ''true'' else ''false'')"
| "json_print st (JInt i) = show_int i"
| "json_print st (JFloat f) = float_repr f"
| "json_print st (JStr s) = json_string (ensure_ascii st) s"
| "json_print st (JList vs) = ''['' @ py_join (item_sep st) (map (json_print st) vs) @ '']''"
| "json_print st (JObj kvs) =
     ''{'' @ py_join (item_sep st)
       (map (\<lambda>(k, v). json_string (ensure_ascii st) k @ key_sep st @ json_print st v) kvs) @ ''}''"

definition json_dumps :: "json_style \<Rightarrow> json \<Rightarrow> string" where
  "json_dumps st v = json_print st (json_canon v)"

section \<open>Reading\<close>

definition is_json_ws :: "char \<Rightarrow> bool" where
  "is_json_ws c = (ord_of c = 32 \<or> ord_of c = 9 \<or> ord_of c = 10 \<or> ord_of c = 13)"

definition skip_ws :: "string \<Rightarrow> string" where
  "skip_ws s = dropWhile is_json_ws s"

definition hex_val :: "char \<Rightarrow> nat option" where
  "hex_val c = (let n = ord_of c in
     if 48 \<le> n \<and> n \<le> 57 then Some (n - 48)
     else if 97 \<le> n \<and> n \<le> 102 then Some (n - 87)
     else if 65 \<le> n \<and> n \<le> 70 then Some (n - 55)
     else None)"

definition hex4 :: "char \<Rightarrow> char \<Rightarrow> char \<Rightarrow> char \<Rightarrow> nat option" where
  "hex4 a b c d =
     (case (hex_val a, hex_val b, hex_val c, hex_val d) of
        (Some p, Some q, Some r, Some s) \<Rightarrow> Some (((p * 16 + q) * 16 + r) * 16 + s)
      | _ \<Rightarrow> None)"

definition unescape_char :: "char \<Rightarrow> char option" where
  "unescape_char c =
     (if c = quote_char then Some quote_char
      else if c = backslash then Some backslash
      else if c = CHR ''/'' then Some (CHR ''/'')
      else if c = CHR ''b'' then Some (char_of (8 :: nat))
      else if c = CHR ''f'' then Some (char_of (12 :: nat))
      else if c = CHR ''n'' then Some (char_of (10 :: nat))
      else if c = CHR ''r'' then Some (char_of (13 :: nat))
      else if c = CHR ''t'' then Some (char_of (9 :: nat))
      else None)"

text \<open>The text after an opening quote: the characters up to the closing one.\<close>

fun string_body :: "string \<Rightarrow> (string \<times> string) option" where
  "string_body [] = None"
| "string_body (c # s) =
     (if c = quote_char then Some ([], s)
      else if c = backslash then
        (case s of
           [] \<Rightarrow> None
         | e # s' \<Rightarrow>
             if e = CHR ''u'' then
               (case s' of
                  h1 # h2 # h3 # h4 # s'' \<Rightarrow>
                    (case hex4 h1 h2 h3 h4 of
                       Some n \<Rightarrow>
                         if n < 256 then
                           map_option (\<lambda>(t, r). (char_of n # t, r)) (string_body s'')
                         else None
                     | None \<Rightarrow> None)
                | _ \<Rightarrow> None)
             else
               (case unescape_char e of
                  Some u \<Rightarrow> map_option (\<lambda>(t, r). (u # t, r)) (string_body s')
                | None \<Rightarrow> None))
      else if ord_of c < 32 then None
      else map_option (\<lambda>(t, r). (c # t, r)) (string_body s))"

definition round_half_even :: "nat \<Rightarrow> nat \<Rightarrow> nat" where
  "round_half_even m d = (let q = m div d; r = m mod d in
     if 2 * r < d then q else if 2 * r > d then q + 1 else if even q then q else q + 1)"

text \<open>\<open>digits * 10 ^ scale\<close> in millionths.\<close>

definition micros :: "nat \<Rightarrow> int \<Rightarrow> nat" where
  "micros m scale = (if 0 \<le> scale + 6 then m * 10 ^ nat (scale + 6)
     else round_half_even m (10 ^ nat (- (scale + 6))))"

definition exponent_part :: "string \<Rightarrow> (int \<times> string) option" where
  "exponent_part s =
     (case s of
        [] \<Rightarrow> None
      | c # s' \<Rightarrow>
          if c = CHR ''e'' \<or> c = CHR ''E'' then
            (let neg = (s' \<noteq> [] \<and> hd s' = CHR ''-'');
                 t = (if s' \<noteq> [] \<and> (hd s' = CHR ''-'' \<or> hd s' = CHR ''+'') then tl s' else s');
                 ds = takeWhile is_digit t
             in if ds = [] then None
                else Some ((if neg then - int (read_nat ds) else int (read_nat ds)),
                           dropWhile is_digit t))
          else None)"

definition int_digits :: "string \<Rightarrow> string" where
  "int_digits t = (if t \<noteq> [] \<and> hd t = CHR ''0'' then [CHR ''0''] else takeWhile is_digit t)"

definition frac_part :: "string \<Rightarrow> string \<times> string" where
  "frac_part q =
     (if q \<noteq> [] \<and> hd q = CHR ''.'' \<and> takeWhile is_digit (tl q) \<noteq> []
      then (takeWhile is_digit (tl q), dropWhile is_digit (tl q)) else ([], q))"

definition number_tail :: "bool \<Rightarrow> string \<Rightarrow> string \<Rightarrow> string \<Rightarrow> json \<times> string" where
  "number_tail neg ds fs q =
     (case exponent_part q of
        None \<Rightarrow>
          if fs = [] then (JInt (if neg then - int (read_nat ds) else int (read_nat ds)), q)
          else (let m = int (micros (read_nat (ds @ fs)) (- int (length fs)))
                in (JFloat (Fixed (if neg then - m else m)), q))
      | Some (e, q') \<Rightarrow>
          (let m = int (micros (read_nat (ds @ fs)) (e - int (length fs)))
           in (JFloat (Fixed (if neg then - m else m)), q')))"

definition json_number :: "string \<Rightarrow> (json \<times> string) option" where
  "json_number s =
     (let neg = (s \<noteq> [] \<and> hd s = CHR ''-'');
          t = (if neg then tl s else s);
          ds = int_digits t;
          (fs, q) = frac_part (drop (length ds) t)
      in if ds = [] then None else Some (number_tail neg ds fs q))"

definition literal :: "string \<Rightarrow> json \<Rightarrow> string \<Rightarrow> (json \<times> string) option" where
  "literal lit v s = (if take (length lit) s = lit then Some (v, drop (length lit) s) else None)"

definition json_atom :: "string \<Rightarrow> (json \<times> string) option" where
  "json_atom s =
     (if s \<noteq> [] \<and> hd s = CHR ''n'' then literal ''null'' JNull s
      else if s \<noteq> [] \<and> hd s = CHR ''t'' then literal ''true'' (JBool True) s
      else if s \<noteq> [] \<and> hd s = CHR ''f'' then literal ''false'' (JBool False) s
      else if s \<noteq> [] \<and> hd s = CHR ''N'' then literal ''NaN'' (JFloat NotANumber) s
      else if s \<noteq> [] \<and> hd s = CHR ''I'' then literal ''Infinity'' (JFloat (Infinite False)) s
      else case json_number s of
        Some r \<Rightarrow> Some r
      | None \<Rightarrow> literal ''-Infinity'' (JFloat (Infinite True)) s)"

fun json_value :: "nat \<Rightarrow> string \<Rightarrow> (json \<times> string) option"
  and json_items :: "nat \<Rightarrow> string \<Rightarrow> (json list \<times> string) option"
  and json_members :: "nat \<Rightarrow> string \<Rightarrow> ((string \<times> json) list \<times> string) option" where
  "json_value 0 s = None"
| "json_value (Suc n) s =
     (if s \<noteq> [] \<and> hd s = quote_char then
        map_option (\<lambda>(t, r). (JStr t, r)) (string_body (tl s))
      else if s \<noteq> [] \<and> hd s = CHR ''{'' then
        (let r = skip_ws (tl s)
         in if r \<noteq> [] \<and> hd r = CHR ''}'' then Some (JObj [], tl r)
            else map_option (\<lambda>(m, q). (JObj (dict_of m), q)) (json_members n r))
      else if s \<noteq> [] \<and> hd s = CHR ''['' then
        (let r = skip_ws (tl s)
         in if r \<noteq> [] \<and> hd r = CHR '']'' then Some (JList [], tl r)
            else map_option (\<lambda>(vs, q). (JList vs, q)) (json_items n r))
      else json_atom s)"
| "json_items 0 s = None"
| "json_items (Suc n) s =
     (case json_value n s of
        None \<Rightarrow> None
      | Some (v, r) \<Rightarrow>
          (let q = skip_ws r
           in if q \<noteq> [] \<and> hd q = CHR '','' then
                map_option (\<lambda>(vs, z). (v # vs, z)) (json_items n (skip_ws (tl q)))
              else if q \<noteq> [] \<and> hd q = CHR '']'' then Some ([v], tl q)
              else None))"
| "json_members 0 s = None"
| "json_members (Suc n) s =
     (if s \<noteq> [] \<and> hd s = quote_char then
        (case string_body (tl s) of
           None \<Rightarrow> None
         | Some (k, r) \<Rightarrow>
             (let p = skip_ws r
              in if p \<noteq> [] \<and> hd p = CHR '':'' then
                   (case json_value n (skip_ws (tl p)) of
                      None \<Rightarrow> None
                    | Some (v, r') \<Rightarrow>
                        (let q = skip_ws r'
                         in if q \<noteq> [] \<and> hd q = CHR '','' then
                              map_option (\<lambda>(m, z). ((k, v) # m, z))
                                (json_members n (skip_ws (tl q)))
                            else if q \<noteq> [] \<and> hd q = CHR ''}'' then Some ([(k, v)], tl q)
                            else None))
                 else None))
      else None)"

definition json_loads :: "string \<Rightarrow> json option" where
  "json_loads s =
     (case json_value (Suc (2 * length s)) (skip_ws s) of
        Some (v, r) \<Rightarrow> if skip_ws r = [] then Some v else None
      | None \<Rightarrow> None)"

end
