(* ===== verification/Json_Roundtrip.thy ===== *)
theory Json_Roundtrip
  imports Json "HOL-Library.Multiset"
begin

text \<open>
  Writing a value and reading the text back gives the value with its dictionaries in key order,
  for both separator styles the sources use and with or without ASCII escapes. So two values
  with the same canonical text are equal up to the order of dictionary keys, which is what the
  hash chains of the governance events, the audit log and the evidence ledger rest on.
\<close>

section \<open>Strings\<close>

lemma ord_quote [simp]: "ord_of quote_char = 34"
  by (simp add: quote_char_def)

lemma ord_backslash [simp]: "ord_of backslash = 92"
  by (simp add: backslash_def)

lemma char_neqI: "ord_of c \<noteq> ord_of d \<Longrightarrow> c \<noteq> d"
  by auto

lemma char_eqI: "ord_of c = ord_of d \<Longrightarrow> c = d"
  by simp

lemma escape_neq:
  "CHR ''b'' \<noteq> quote_char" "CHR ''b'' \<noteq> backslash" "CHR ''f'' \<noteq> quote_char"
  "CHR ''f'' \<noteq> backslash" "CHR ''n'' \<noteq> quote_char" "CHR ''n'' \<noteq> backslash"
  "CHR ''r'' \<noteq> quote_char" "CHR ''r'' \<noteq> backslash" "CHR ''t'' \<noteq> quote_char"
  "CHR ''t'' \<noteq> backslash" "quote_char \<noteq> CHR ''u''" "backslash \<noteq> CHR ''u''"
  "backslash \<noteq> quote_char" "quote_char \<noteq> backslash" "quote_char \<noteq> CHR ''{''"
  "CHR ''-'' \<noteq> quote_char" "CHR ''N'' \<noteq> quote_char" "CHR ''I'' \<noteq> quote_char"
  "CHR ''['' \<noteq> quote_char" "CHR ''{'' \<noteq> quote_char"
  "quote_char \<noteq> CHR ''}''" "quote_char \<noteq> CHR ''[''" "quote_char \<noteq> CHR '']''"
  by (rule char_neqI, simp add: quote_char_def backslash_def)+

lemma hex_val_char [simp]: "d < 16 \<Longrightarrow> hex_val (hex_char d) = Some d"
  by (auto simp: hex_val_def hex_char_def Let_def)

lemma hex4_byte: "n < 256 \<Longrightarrow>
    hex4 (CHR ''0'') (CHR ''0'') (hex_char (n div 16)) (hex_char (n mod 16)) = Some n"
proof -
  assume n: "n < 256"
  have z: "hex_val (CHR ''0'') = Some 0" by (simp add: hex_val_def)
  have "n div 16 < 16" using n by simp
  then show ?thesis by (simp add: hex4_def z)
qed

lemma escape_letters:
  "unescape_char quote_char = Some quote_char"
  "unescape_char backslash = Some backslash"
  "unescape_char (CHR ''b'') = Some (char_of (8 :: nat))"
  "unescape_char (CHR ''f'') = Some (char_of (12 :: nat))"
  "unescape_char (CHR ''n'') = Some (char_of (10 :: nat))"
  "unescape_char (CHR ''r'') = Some (char_of (13 :: nat))"
  "unescape_char (CHR ''t'') = Some (char_of (9 :: nat))"
  by (simp_all add: unescape_char_def escape_neq)

lemma string_body_escape:
  "string_body (escape_char a c @ t) = map_option (\<lambda>(u, r). (c # u, r)) (string_body t)"
proof -
  have c: "c = char_of (ord_of c)" by simp
  have lt: "ord_of c < 256" by simp
  consider (esc) "ord_of c \<in> {34, 92, 8, 9, 10, 12, 13}"
    | (uni) "ord_of c \<notin> {34, 92, 8, 9, 10, 12, 13}" "ord_of c < 32 \<or> a \<and> 127 \<le> ord_of c"
    | (raw) "ord_of c \<notin> {34, 92, 8, 9, 10, 12, 13}" "\<not> (ord_of c < 32 \<or> a \<and> 127 \<le> ord_of c)"
    by blast
  then show ?thesis
  proof cases
    case esc
    then have "c \<in> char_of ` {34, 92, 8, 9, 10, 12, 13 :: nat}"
      by (metis c imageI)
    then show ?thesis
      by (auto simp: escape_char_def escape_letters escape_neq
          quote_char_def [symmetric] backslash_def [symmetric])
  next
    case uni
    then have "escape_char a c = backslash # CHR ''u'' # CHR ''0'' # CHR ''0''
        # hex_char (ord_of c div 16) # hex_char (ord_of c mod 16) # []"
      by (auto simp: escape_char_def Let_def)
    then show ?thesis by (simp add: escape_neq hex4_byte)
  next
    case raw
    then have "escape_char a c = [c]" by (auto simp: escape_char_def)
    moreover have "c \<noteq> quote_char" "c \<noteq> backslash" using raw(1) by auto
    ultimately show ?thesis using raw(2) by simp
  qed
qed

lemma string_body_json_string:
  "string_body (concat (map (escape_char a) s) @ quote_char # r) = Some (s, r)"
  by (induction s) (simp_all add: string_body_escape)

lemma json_string_Cons:
  "json_string a s @ r = quote_char # (concat (map (escape_char a) s) @ quote_char # r)"
  by (simp add: json_string_def)

lemma length_json_string: "2 \<le> length (json_string a s)"
  by (simp add: json_string_def)

section \<open>Numbers\<close>

definition delimited :: "string \<Rightarrow> bool" where
  "delimited r = (r = [] \<or> (\<not> is_digit (hd r) \<and> hd r \<notin> {CHR ''.'', CHR ''e'', CHR ''E''}))"

lemma takeWhile_digits:
  "\<forall>c \<in> set ds. is_digit c \<Longrightarrow> r = [] \<or> \<not> is_digit (hd r) \<Longrightarrow> takeWhile is_digit (ds @ r) = ds"
  by (cases r) (auto simp: takeWhile_append2)

lemma dropWhile_digits:
  "\<forall>c \<in> set ds. is_digit c \<Longrightarrow> r = [] \<or> \<not> is_digit (hd r) \<Longrightarrow> dropWhile is_digit (ds @ r) = r"
  by (cases r) (auto simp: dropWhile_append2)

lemma exponent_part_delimited: "delimited r \<Longrightarrow> exponent_part r = None"
  by (cases r) (auto simp: delimited_def exponent_part_def)

lemma show_nat_0: "show_nat 0 = [CHR ''0'']"
  by (subst show_nat.simps) (simp add: digit_char_def char_eqI)

lemma int_digits_show_nat:
  assumes "r = [] \<or> \<not> is_digit (hd r)"
  shows "int_digits (show_nat n @ r) = show_nat n"
proof (cases "n = 0")
  case True
  then show ?thesis by (simp add: int_digits_def show_nat_0)
next
  case False
  then have "hd (show_nat n) \<noteq> CHR ''0''" by (rule show_nat_no_leading_zero)
  then show ?thesis
    using takeWhile_digits [OF show_nat_digits assms] by (simp add: int_digits_def)
qed

lemma hd_show_nat_digit: "is_digit (hd (show_nat n))"
  using show_nat_digits [of n] by (simp add: list.set_sel(1))

lemma digit_not_minus [simp]: "\<not> is_digit (CHR ''-'')" "\<not> is_digit (CHR ''.'')"
  by (simp_all add: is_digit_def)

lemma hd_show_nat [simp]: "hd (show_nat n) \<noteq> CHR ''-''"
  using hd_show_nat_digit [of n] by auto

lemma json_number_int:
  assumes "delimited r"
  shows "json_number (show_int i @ r) = Some (JInt i, r)"
proof -
  have nd: "r = [] \<or> \<not> is_digit (hd r)" and nf: "r = [] \<or> hd r \<noteq> CHR ''.''"
    using assms by (auto simp: delimited_def)
  note ds = int_digits_show_nat [OF nd]
  show ?thesis
  proof (cases "i < 0")
    case True
    then show ?thesis
      using nf exponent_part_delimited [OF assms] ds [of "nat (- i)"]
      by (auto simp: json_number_def show_int_def frac_part_def number_tail_def Let_def)
  next
    case False
    then show ?thesis
      using nf exponent_part_delimited [OF assms] ds [of "nat i"]
      by (auto simp: json_number_def show_int_def frac_part_def number_tail_def Let_def)
  qed
qed

lemma read_nat_Cons: "read_nat (c # s) = digit_val c * 10 ^ length s + read_nat s"
proof (induction s rule: rev_induct)
  case Nil
  then show ?case by (simp add: read_nat_def)
next
  case (snoc d s)
  have "read_nat (c # s @ [d]) = 10 * read_nat (c # s) + digit_val d"
    using read_nat_snoc [of "c # s" d] by simp
  with snoc show ?case by (simp add: read_nat_snoc algebra_simps)
qed

lemma read_nat_append: "read_nat (s @ t) = read_nat s * 10 ^ length t + read_nat t"
proof (induction s)
  case Nil
  then show ?case by (simp add: read_nat_def)
next
  case (Cons c s)
  then show ?case by (simp add: read_nat_Cons power_add algebra_simps)
qed

lemma length_frac_digits: "length (frac_digits k m) \<le> k"
  by (induction k m rule: frac_digits.induct) auto

lemma frac_digits_value:
  "m < 10 ^ k \<Longrightarrow> read_nat (frac_digits k m) * 10 ^ (k - length (frac_digits k m)) = m"
proof (induction k m rule: frac_digits.induct)
  case (1 m)
  then show ?case by (simp add: read_nat_def)
next
  case (2 k m)
  show ?case
  proof (cases "m = 0")
    case True
    then show ?thesis by (simp add: read_nat_def)
  next
    case False
    let ?fs = "frac_digits k (m mod 10 ^ k)"
    have IH: "read_nat ?fs * 10 ^ (k - length ?fs) = m mod 10 ^ k"
      using 2 False by simp
    have lead: "m div 10 ^ k < 10"
      using "2.prems" by (simp add: less_mult_imp_div_less mult.commute)
    have "(10::nat) ^ length ?fs * 10 ^ (k - length ?fs) = 10 ^ k"
      using length_frac_digits [of k] by (simp flip: power_add)
    then have "read_nat (frac_digits (Suc k) m) * 10 ^ (k - length ?fs)
        = m div 10 ^ k * 10 ^ k + read_nat ?fs * 10 ^ (k - length ?fs)"
      using False lead by (simp add: read_nat_Cons algebra_simps)
    moreover have "Suc k - length (frac_digits (Suc k) m) = k - length ?fs"
      using False by simp
    ultimately show ?thesis using IH by (simp only: div_mult_mod_eq)
  qed
qed

lemma frac_digits_digits: "m < 10 ^ k \<Longrightarrow> c \<in> set (frac_digits k m) \<Longrightarrow> is_digit c"
proof (induction k m rule: frac_digits.induct)
  case (2 k m)
  have "m div 10 ^ k < 10"
    using "2.prems"(1) by (simp add: less_mult_imp_div_less mult.commute)
  with 2 show ?case by (auto split: if_splits)
qed simp

definition frac_text :: "nat \<Rightarrow> string" where
  "frac_text m = (let fs = frac_digits 6 m in if fs = [] then ''0'' else fs)"

lemma frac_text_facts:
  assumes "m < 10 ^ 6"
  shows "frac_text m \<noteq> []" and "\<forall>c \<in> set (frac_text m). is_digit c"
    and "length (frac_text m) \<le> 6"
    and "read_nat (frac_text m) * 10 ^ (6 - length (frac_text m)) = m"
proof -
  show "frac_text m \<noteq> []" by (simp add: frac_text_def Let_def)
  show "\<forall>c \<in> set (frac_text m). is_digit c"
    using frac_digits_digits [OF assms] by (auto simp: frac_text_def Let_def is_digit_def)
  show "length (frac_text m) \<le> 6"
    using length_frac_digits [of 6 m] by (simp add: frac_text_def Let_def)
  have "frac_digits 6 m = [] \<Longrightarrow> m = 0"
    using frac_digits_value [OF assms] by (simp add: read_nat_def)
  moreover have "read_nat ''0'' = 0" by (simp add: read_nat_def digit_val_def)
  ultimately show "read_nat (frac_text m) * 10 ^ (6 - length (frac_text m)) = m"
    using frac_digits_value [OF assms] by (auto simp: frac_text_def Let_def)
qed

lemma micros_text:
  "micros (read_nat (show_nat (a div 10 ^ 6) @ frac_text (a mod 10 ^ 6)))
     (- int (length (frac_text (a mod 10 ^ 6)))) = a"
proof -
  have lt: "a mod 10 ^ 6 < (10 ^ 6 :: nat)" by simp
  define fs where "fs = frac_text (a mod 10 ^ 6)"
  have len: "length fs \<le> 6" and val: "read_nat fs * 10 ^ (6 - length fs) = a mod 10 ^ 6"
    using frac_text_facts [OF lt] by (simp_all add: fs_def)
  have "nat (6 - int (length fs)) = 6 - length fs" using len by simp
  then have "micros (read_nat (show_nat (a div 10 ^ 6) @ fs)) (- int (length fs))
      = (a div 10 ^ 6 * 10 ^ length fs + read_nat fs) * 10 ^ (6 - length fs)"
    using len by (simp add: micros_def read_nat_append)
  also have "\<dots> = a div 10 ^ 6 * (10 ^ length fs * 10 ^ (6 - length fs)) + a mod 10 ^ 6"
    using val by (simp add: algebra_simps)
  also have "(10::nat) ^ length fs * 10 ^ (6 - length fs) = 10 ^ 6"
    using len by (simp flip: power_add)
  finally show ?thesis unfolding fs_def by (simp only: div_mult_mod_eq)
qed

lemma float_repr_Fixed:
  "float_repr (Fixed n) = (if n < 0 then ''-'' else []) @ show_nat (nat \<bar>n\<bar> div 10 ^ 6) @ ''.''
     @ frac_text (nat \<bar>n\<bar> mod 10 ^ 6)"
  by (simp add: frac_text_def Let_def)

lemma json_number_float:
  assumes "delimited r"
  shows "json_number (float_repr (Fixed n) @ r) = Some (JFloat (Fixed n), r)"
proof -
  define a where "a = nat \<bar>n\<bar>"
  define fs where "fs = frac_text (a mod 10 ^ 6)"
  define t where "t = show_nat (a div 10 ^ 6) @ ''.'' @ fs @ r"
  have lt: "a mod 10 ^ 6 < (10 ^ 6 :: nat)" by simp
  note ff = frac_text_facts [OF lt, folded fs_def]
  have nd: "r = [] \<or> \<not> is_digit (hd r)" using assms by (auto simp: delimited_def)
  have ds: "int_digits t = show_nat (a div 10 ^ 6)"
    unfolding t_def by (rule int_digits_show_nat) simp
  have tw: "takeWhile is_digit (fs @ r) = fs" "dropWhile is_digit (fs @ r) = r"
    using takeWhile_digits dropWhile_digits ff(2) nd by blast+
  have drop: "drop (length (show_nat (a div 10 ^ 6))) t = ''.'' @ fs @ r"
    by (simp add: t_def)
  have fp: "frac_part (drop (length (show_nat (a div 10 ^ 6))) t) = (fs, r)"
    unfolding drop using tw ff(1) by (simp add: frac_part_def)
  have val: "micros (read_nat (show_nat (a div 10 ^ 6) @ fs)) (- int (length fs)) = a"
    unfolding fs_def by (rule micros_text)
  have num: "json_number ((if n < 0 then ''-'' else []) @ t) = Some (JFloat (Fixed n), r)"
  proof (cases "n < 0")
    case True
    then show ?thesis
      using ds fp val ff(1) exponent_part_delimited [OF assms]
      by (simp add: json_number_def number_tail_def Let_def a_def)
  next
    case False
    moreover have "t \<noteq> []" "hd t \<noteq> CHR ''-''" by (simp_all add: t_def)
    ultimately show ?thesis
      using ds fp val ff(1) exponent_part_delimited [OF assms]
      by (simp add: json_number_def number_tail_def Let_def a_def)
  qed
  have "float_repr (Fixed n) @ r = (if n < 0 then ''-'' else []) @ t"
    unfolding float_repr_Fixed t_def fs_def a_def by simp
  then show ?thesis using num by (simp only:)
qed

section \<open>Values\<close>

lemma skip_ws_id: "s = [] \<or> \<not> is_json_ws (hd s) \<Longrightarrow> skip_ws s = s"
  by (cases s) (auto simp: skip_ws_def)

lemma skip_item_sep:
  assumes "style_ok st"
  shows "skip_ws (item_sep st @ x) = item_sep st @ x" and "item_sep st \<noteq> []"
    and "hd (item_sep st) = CHR '',''" and "skip_ws (tl (item_sep st) @ x) = skip_ws x"
  using assms by (auto simp: style_ok_def skip_ws_def is_json_ws_def)

lemma skip_key_sep:
  assumes "style_ok st"
  shows "skip_ws (key_sep st @ x) = key_sep st @ x" and "key_sep st \<noteq> []"
    and "hd (key_sep st) = CHR '':''" and "skip_ws (tl (key_sep st) @ x) = skip_ws x"
  using assms by (auto simp: style_ok_def skip_ws_def is_json_ws_def)

lemma digit_not_ws: "is_digit c \<Longrightarrow> \<not> is_json_ws c \<and> c \<noteq> CHR '']'' \<and> c \<noteq> CHR ''}''"
  by (auto simp: is_digit_def is_json_ws_def)

definition value_start :: "char \<Rightarrow> bool" where
  "value_start c = (\<not> is_json_ws c \<and> c \<noteq> CHR '']'' \<and> c \<noteq> CHR ''}'')"

lemma value_start_digit: "is_digit c \<Longrightarrow> value_start c"
  by (simp add: value_start_def digit_not_ws)

lemma value_start_print: "json_print st v \<noteq> [] \<and> value_start (hd (json_print st v))"
proof (cases v)
  case (JInt i)
  then show ?thesis
    by (simp add: show_int_def value_start_digit hd_show_nat_digit)
      (simp add: value_start_def is_json_ws_def)
next
  case (JFloat f)
  have minus: "value_start (CHR ''-'')" by (simp add: value_start_def is_json_ws_def)
  show ?thesis
  proof (cases f)
    case (Fixed n)
    then show ?thesis
      using JFloat minus by (simp add: value_start_digit hd_show_nat_digit Let_def)
  qed (auto simp: JFloat minus value_start_def is_json_ws_def)
qed (auto simp: value_start_def is_json_ws_def json_string_def escape_neq)

lemma skip_ws_print: "skip_ws (json_print st v @ r) = json_print st v @ r"
  using value_start_print [of st v] by (intro skip_ws_id) (simp add: value_start_def hd_append)

lemma skip_ws_string: "skip_ws (json_string a s @ r) = json_string a s @ r"
  by (intro skip_ws_id) (simp add: json_string_def is_json_ws_def)

lemma delimited_sep: "style_ok st \<Longrightarrow> delimited (item_sep st @ r)"
  "delimited (CHR '']'' # r)" "delimited (CHR ''}'' # r)" "delimited []"
  by (auto simp: style_ok_def delimited_def is_digit_def)

lemma dict_put_fresh: "k \<notin> fst ` set d \<Longrightarrow> dict_put k v d = d @ [(k, v)]"
  by (induction k v d rule: dict_put.induct) auto

lemma dict_of_append:
  "distinct (map fst (d @ kvs)) \<Longrightarrow> foldl (\<lambda>d (k, v). dict_put k v d) d kvs = d @ kvs"
proof (induction kvs arbitrary: d)
  case (Cons kv kvs)
  obtain k v where "kv = (k, v)" by (cases kv)
  with Cons show ?case by (simp add: dict_put_fresh)
qed simp

lemma dict_of_distinct: "distinct (map fst kvs) \<Longrightarrow> dict_of kvs = kvs"
  by (simp add: dict_of_def dict_of_append)

lemma py_join_Cons: "ss \<noteq> [] \<Longrightarrow> py_join sep (s # ss) = s @ sep @ py_join sep ss"
  by (cases ss) auto

text \<open>One value, given that its parts can be read back.\<close>

definition reads_back :: "json_style \<Rightarrow> json \<Rightarrow> bool" where
  "reads_back st v = (\<forall>n r. delimited r \<longrightarrow> length (json_print st v) < n \<longrightarrow>
     json_value n (json_print st v @ r) = Some (v, r))"

lemma reads_backD:
  "reads_back st v \<Longrightarrow> delimited r \<Longrightarrow> length (json_print st v) < n \<Longrightarrow>
     json_value n (json_print st v @ r) = Some (v, r)"
  by (simp add: reads_back_def)

lemma json_items_print:
  assumes st: "style_ok st"
  shows "vs \<noteq> [] \<Longrightarrow> list_all (reads_back st) vs \<Longrightarrow>
    Suc (length (py_join (item_sep st) (map (json_print st) vs))) < n \<Longrightarrow>
    json_items n (py_join (item_sep st) (map (json_print st) vs) @ CHR '']'' # r) = Some (vs, r)"
proof (induction vs arbitrary: n)
  case (Cons v vs)
  obtain m where n: "n = Suc m" using Cons.prems(3) by (cases n) auto
  show ?case
  proof (cases "vs = []")
    case True
    then have "json_value m (json_print st v @ CHR '']'' # r) = Some (v, CHR '']'' # r)"
      using Cons.prems n by (intro reads_backD) (auto simp: delimited_sep)
    moreover have "skip_ws (CHR '']'' # r) = CHR '']'' # r"
      by (rule skip_ws_id) (simp add: is_json_ws_def)
    ultimately show ?thesis using True n by simp
  next
    case False
    let ?rest = "py_join (item_sep st) (map (json_print st) vs) @ CHR '']'' # r"
    have join: "py_join (item_sep st) (map (json_print st) (v # vs))
        = json_print st v @ item_sep st @ py_join (item_sep st) (map (json_print st) vs)"
      using False by (simp add: py_join_Cons)
    have sep: "0 < length (item_sep st)" "0 < length (json_print st v)"
      using skip_item_sep(2) [OF st] value_start_print by simp_all
    have 1: "json_value m (json_print st v @ item_sep st @ ?rest) = Some (v, item_sep st @ ?rest)"
      using Cons.prems n join by (intro reads_backD) (auto simp: delimited_sep st)
    have "Suc (length (py_join (item_sep st) (map (json_print st) vs))) < m"
      using Cons.prems(3) n sep unfolding join length_append by linarith
    then have 2: "json_items m ?rest = Some (vs, r)"
      using Cons.IH Cons.prems(2) False by simp
    obtain v' vs' where vs: "vs = v' # vs'" using False by (cases vs) auto
    have 3: "skip_ws ?rest = ?rest"
      by (cases vs') (auto simp: vs skip_ws_print py_join_Cons)
    show ?thesis
      using 1 2 3 skip_item_sep [OF st] n join by simp
  qed
qed simp

lemma json_members_print:
  assumes st: "style_ok st"
  defines "pr \<equiv> \<lambda>(k, v). json_string (ensure_ascii st) k @ key_sep st @ json_print st v"
  shows "kvs \<noteq> [] \<Longrightarrow> list_all (\<lambda>(k, v). reads_back st v) kvs \<Longrightarrow>
    Suc (length (py_join (item_sep st) (map pr kvs))) < n \<Longrightarrow>
    json_members n (py_join (item_sep st) (map pr kvs) @ CHR ''}'' # r) = Some (kvs, r)"
proof (induction kvs arbitrary: n)
  case (Cons kv kvs)
  obtain m where n: "n = Suc m" using Cons.prems(3) by (cases n) auto
  obtain k v where kv: "kv = (k, v)" by (cases kv)
  have rv: "reads_back st v" using Cons.prems(2) kv by simp
  note str = json_string_Cons string_body_json_string
  show ?case
  proof (cases "kvs = []")
    case True
    then have "json_value m (json_print st v @ CHR ''}'' # r) = Some (v, CHR ''}'' # r)"
      using Cons.prems n kv by (intro reads_backD [OF rv]) (auto simp: delimited_sep pr_def)
    moreover have "skip_ws (CHR ''}'' # r) = CHR ''}'' # r"
      by (rule skip_ws_id) (simp add: is_json_ws_def)
    ultimately show ?thesis
      using True n kv skip_key_sep [OF st] by (simp add: pr_def str skip_ws_print)
  next
    case False
    let ?rest = "py_join (item_sep st) (map pr kvs) @ CHR ''}'' # r"
    have join: "py_join (item_sep st) (map pr (kv # kvs))
        = pr kv @ item_sep st @ py_join (item_sep st) (map pr kvs)"
      using False by (simp add: py_join_Cons)
    have sep: "0 < length (item_sep st)" "0 < length (pr kv)"
      using skip_item_sep(2) [OF st] by (simp_all add: kv pr_def json_string_def)
    have 1: "json_value m (json_print st v @ item_sep st @ ?rest) = Some (v, item_sep st @ ?rest)"
      using Cons.prems n join kv
      by (intro reads_backD [OF rv]) (auto simp: delimited_sep st pr_def)
    have "Suc (length (py_join (item_sep st) (map pr kvs))) < m"
      using Cons.prems(3) n sep unfolding join length_append by linarith
    then have 2: "json_members m ?rest = Some (kvs, r)"
      using Cons.IH Cons.prems(2) False by simp
    obtain k' v' kvs' where kvs: "kvs = (k', v') # kvs'" using False by (cases kvs) auto
    have 3: "skip_ws ?rest = ?rest"
      by (cases kvs') (auto simp: kvs skip_ws_string py_join_Cons pr_def)
    define rest where "rest = ?rest"
    have written: "py_join (item_sep st) (map pr (kv # kvs)) @ CHR ''}'' # r
        = quote_char # concat (map (escape_char (ensure_ascii st)) k)
            @ quote_char # key_sep st @ json_print st v @ item_sep st @ rest"
      unfolding rest_def join by (simp add: kv pr_def json_string_def)
    show ?thesis
      unfolding written n using 1 2 3 skip_item_sep [OF st] skip_key_sep [OF st] kv
      by (simp add: string_body_json_string skip_ws_print flip: rest_def)
  qed
qed simp

lemma literal_append [simp]: "literal lit v (lit @ r) = Some (v, r)"
  by (simp add: literal_def)

lemma json_atom_number:
  assumes "json_number s = Some x" and "s \<noteq> []" and "is_digit (hd s) \<or> hd s = CHR ''-''"
  shows "json_atom s = Some x"
  using assms by (auto simp: json_atom_def is_digit_def)

lemma json_value_atom:
  assumes "s \<noteq> []" and "is_digit (hd s) \<or> hd s = CHR ''-'' \<or> hd s \<in> set ''ntfNI''"
  shows "json_value (Suc n) s = json_atom s"
proof -
  have "hd s \<noteq> quote_char" and "hd s \<noteq> CHR ''{''" and "hd s \<noteq> CHR ''[''"
    using assms(2) by (auto simp: is_digit_def escape_neq)
  then show ?thesis by simp
qed

lemma reads_back_number:
  assumes "json_print st v = t" and "\<And>r. delimited r \<Longrightarrow> json_number (t @ r) = Some (v, r)"
    and "t \<noteq> []" and "is_digit (hd t) \<or> hd t = CHR ''-''"
  shows "reads_back st v"
  unfolding reads_back_def
proof (intro allI impI)
  fix n r assume r: "delimited r" and n: "length (json_print st v) < n"
  then obtain m where "n = Suc m" by (cases n) auto
  moreover have "json_atom (t @ r) = Some (v, r)"
    using assms r by (intro json_atom_number) auto
  ultimately show "json_value n (json_print st v @ r) = Some (v, r)"
    using assms json_value_atom [of "t @ r" m] by auto
qed

lemma reads_back_literal:
  assumes "json_print st v = lit" and "\<And>r. json_atom (lit @ r) = Some (v, r)"
    and "lit \<noteq> []" and "hd lit = CHR ''-'' \<or> hd lit \<in> set ''ntfNI''"
  shows "reads_back st v"
  unfolding reads_back_def
proof (intro allI impI)
  fix n r assume n: "length (json_print st v) < n"
  then obtain m where "n = Suc m" by (cases n) auto
  then show "json_value n (json_print st v @ r) = Some (v, r)"
    using assms json_value_atom [of "lit @ r" m] by auto
qed


lemma atom_literals:
  "json_atom (''null'' @ r) = Some (JNull, r)"
  "json_atom (''true'' @ r) = Some (JBool True, r)"
  "json_atom (''false'' @ r) = Some (JBool False, r)"
  "json_atom (''NaN'' @ r) = Some (JFloat NotANumber, r)"
  "json_atom (''Infinity'' @ r) = Some (JFloat (Infinite False), r)"
  "json_atom (''-Infinity'' @ r) = Some (JFloat (Infinite True), r)"
  by (simp_all add: json_atom_def literal_def json_number_def int_digits_def is_digit_def Let_def
      split: prod.splits)

text \<open>An object is read back whatever follows it.\<close>

lemma object_reads_back:
  assumes st: "style_ok st" and parts: "list_all (\<lambda>(k, v). reads_back st v) kvs" and keys: "distinct (map fst kvs)"
    and n: "length (json_print st (JObj kvs)) < n"
  shows "json_value n (json_print st (JObj kvs) @ r) = Some (JObj kvs, r)"
proof -
  let ?pr = "\<lambda>(k, v). json_string (ensure_ascii st) k @ key_sep st @ json_print st v"
  have dist: "dict_of kvs = kvs" using keys by (simp add: dict_of_distinct)
  obtain m where m: "n = Suc m" using n by (cases n) auto
  show ?thesis
  proof (cases "kvs = []")
    case True
    have "skip_ws (CHR ''}'' # r) = CHR ''}'' # r"
      by (rule skip_ws_id) (simp add: is_json_ws_def)
    then show ?thesis using m True by (simp add: escape_neq)
  next
    case False
    let ?t = "py_join (item_sep st) (map ?pr kvs) @ CHR ''}'' # r"
    obtain k' v' kvs' where kvs: "kvs = (k', v') # kvs'" using False by (cases kvs) auto
    obtain u where u: "?t = json_string (ensure_ascii st) k' @ u"
      by (cases kvs') (auto simp: kvs py_join_Cons)
    have "json_members m ?t = Some (kvs, r)"
      using json_members_print [OF st False parts] n m by simp
    moreover have "skip_ws ?t = ?t" unfolding u by (rule skip_ws_string)
    moreover have "hd ?t \<noteq> CHR ''}''"
      unfolding u by (simp add: json_string_def escape_neq)
    ultimately show ?thesis using m dist by (simp add: escape_neq)
  qed
qed

lemma reads_back_wf:
  assumes st: "style_ok st"
  shows "json_wf v \<Longrightarrow> reads_back st v"
proof (induction v)
  case JNull
  show ?case by (rule reads_back_literal [OF _ atom_literals(1)]) simp_all
next
  case (JBool b)
  show ?case
  proof (cases b)
    case True
    have "reads_back st (JBool True)" by (rule reads_back_literal [OF _ atom_literals(2)]) simp_all
    with True show ?thesis by simp
  next
    case False
    have "reads_back st (JBool False)" by (rule reads_back_literal [OF _ atom_literals(3)]) simp_all
    with False show ?thesis by simp
  qed
next
  case (JInt i)
  show ?case
    by (rule reads_back_number [OF json_print.simps(3)], erule json_number_int)
      (simp_all add: show_int_def hd_show_nat_digit)
next
  case (JFloat f)
  show ?case
  proof (cases f)
    case (Fixed n)
    show ?thesis unfolding Fixed
      by (rule reads_back_number [OF json_print.simps(4)], erule json_number_float)
        (auto simp: Let_def hd_show_nat_digit)
  next
    case (Infinite neg)
    show ?thesis
    proof (cases neg)
      case True
      have "reads_back st (JFloat (Infinite True))"
        by (rule reads_back_literal [OF _ atom_literals(6)]) simp_all
      with Infinite True show ?thesis by simp
    next
      case False
      have "reads_back st (JFloat (Infinite False))"
        by (rule reads_back_literal [OF _ atom_literals(5)]) simp_all
      with Infinite False show ?thesis by simp
    qed
  next
    case NotANumber
    have "reads_back st (JFloat NotANumber)"
      by (rule reads_back_literal [OF _ atom_literals(4)]) simp_all
    with NotANumber show ?thesis by simp
  qed
next
  case (JStr s)
  show ?case unfolding reads_back_def
  proof (intro allI impI)
    fix n r assume "length (json_print st (JStr s)) < n"
    then obtain m where "n = Suc m" by (cases n) auto
    then show "json_value n (json_print st (JStr s) @ r) = Some (JStr s, r)"
      by (simp add: json_string_Cons string_body_json_string)
  qed
next
  case (JList vs)
  then have parts: "list_all (reads_back st) vs" by (simp add: list_all_iff)
  show ?case unfolding reads_back_def
  proof (intro allI impI)
    fix n r assume n: "length (json_print st (JList vs)) < n"
    then obtain m where m: "n = Suc m" by (cases n) auto
    show "json_value n (json_print st (JList vs) @ r) = Some (JList vs, r)"
    proof (cases "vs = []")
      case True
      have "skip_ws (CHR '']'' # r) = CHR '']'' # r"
        by (rule skip_ws_id) (simp add: is_json_ws_def)
      then show ?thesis using m True by (simp add: escape_neq)
    next
      case False
      let ?t = "py_join (item_sep st) (map (json_print st) vs) @ CHR '']'' # r"
      obtain v' vs' where vs: "vs = v' # vs'" using False by (cases vs) auto
      obtain u where u: "?t = json_print st v' @ u"
        by (cases vs') (auto simp: vs py_join_Cons)
      have "json_items m ?t = Some (vs, r)"
        using json_items_print [OF st False parts] n m by simp
      moreover have "skip_ws ?t = ?t" "hd ?t \<noteq> CHR '']''"
        using value_start_print [of st v'] unfolding u
        by (auto simp: skip_ws_print value_start_def)
      ultimately show ?thesis using m by (simp add: escape_neq)
    qed
  qed
next
  case (JObj kvs)
  have "list_all (\<lambda>(k, v). reads_back st v) kvs"
    using JObj by (fastforce simp: list_all_iff)
  then show ?case using object_reads_back [OF st] JObj.prems by (simp add: reads_back_def del: json_value.simps json_print.simps)
qed

lemma json_wf_canon: "json_wf v \<Longrightarrow> json_wf (json_canon v)"
proof (induction v)
  case (JObj kvs)
  let ?m = "map (\<lambda>(k, v). (k, json_canon v)) kvs"
  have "map fst ?m = map fst kvs" by (induction kvs) auto
  moreover have "mset (map fst (sort_key fst ?m)) = mset (map fst ?m)"
    by (simp only: mset_map mset_sort)
  ultimately have "distinct (map fst (sort_key fst ?m))"
    using JObj.prems by (metis json_wf.simps(2) mset_eq_imp_distinct_iff)
  then show ?case
    using JObj by (fastforce simp: list_all_iff)
qed (auto simp: list_all_iff)

theorem json_roundtrip:
  assumes "style_ok st" and "json_wf v"
  shows "json_loads (json_dumps st v) = Some (json_canon v)"
proof -
  have "reads_back st (json_canon v)"
    using assms by (intro reads_back_wf json_wf_canon)
  then have "json_value (Suc (2 * length (json_dumps st v))) (json_dumps st v @ []) =
      Some (json_canon v, [])"
    unfolding json_dumps_def by (rule reads_backD) (simp_all add: delimited_sep)
  moreover have "skip_ws (json_dumps st v @ []) = json_dumps st v @ []"
    unfolding json_dumps_def by (rule skip_ws_print)
  ultimately show ?thesis by (simp add: json_loads_def skip_ws_def)
qed

text \<open>Two objects on one line are not a JSON text.\<close>

lemma two_objects_unreadable:
  assumes "style_ok st" and "json_wf (JObj kvs)"
  shows "json_loads (json_dumps st (JObj kvs) @ CHR ''{'' # t) = None"
proof -
  obtain lvs where lvs: "json_canon (JObj kvs) = JObj lvs" by simp
  have wf: "json_wf (JObj lvs)" using json_wf_canon [OF assms(2)] lvs by simp
  have "list_all (\<lambda>(k, v). reads_back st v) lvs" using wf reads_back_wf [OF assms(1)] by (auto simp: list_all_iff)
  then have "json_value (Suc (2 * length (json_print st (JObj lvs) @ CHR ''{'' # t))) (json_print st (JObj lvs) @ CHR ''{'' # t)
      = Some (JObj lvs, CHR ''{'' # t)"
    by (rule object_reads_back [OF assms(1)]) (use wf in simp_all)
  moreover have "skip_ws (json_print st (JObj lvs) @ CHR ''{'' # t) = json_print st (JObj lvs) @ CHR ''{'' # t"
    by (rule skip_ws_print)
  ultimately show ?thesis unfolding json_loads_def json_dumps_def lvs
    by (simp add: skip_ws_def is_json_ws_def del: json_value.simps json_print.simps)
qed

corollary json_dumps_inject:
  assumes "style_ok st" and "json_wf v" and "json_wf w" and "json_dumps st v = json_dumps st w"
  shows "json_canon v = json_canon w"
  using json_roundtrip [OF assms(1,2)] json_roundtrip [OF assms(1,3)] assms(4) by simp


section \<open>Enough fuel\<close>

lemma string_body_shrinks: "string_body s = Some (t, r) \<Longrightarrow> length r < length s"
proof (induction s arbitrary: t r rule: string_body.induct)
  case (2 c s)
  then show ?case
    by (fastforce split: if_splits list.splits option.splits)
qed simp

lemma length_skip_ws: "length (skip_ws s) \<le> length s"
  by (simp add: skip_ws_def length_dropWhile_le)

lemma length_skip_ws_tl: "s \<noteq> [] \<Longrightarrow> length (skip_ws (tl s)) < length s"
  using length_skip_ws [of "tl s"] by (cases s) auto

lemma exponent_part_shrinks: "exponent_part s = Some (e, r) \<Longrightarrow> length r \<le> length s"
proof -
  have tl: "length (dropWhile is_digit (tl t)) \<le> Suc (length t)" for t :: string
    using length_dropWhile_le [of is_digit "tl t"] by simp
  assume "exponent_part s = Some (e, r)"
  then show ?thesis
    using length_dropWhile_le [of is_digit] tl
    by (auto simp: exponent_part_def Let_def le_SucI split: list.splits if_splits)
qed

lemma frac_part_shrinks: "frac_part q = (fs, r) \<Longrightarrow> length r \<le> length q"
  using length_dropWhile_le [of is_digit "tl q"] by (auto simp: frac_part_def split: if_splits)

lemma number_tail_shrinks: "number_tail neg ds fs q = (v, r) \<Longrightarrow> length r \<le> length q"
  by (auto simp: number_tail_def Let_def dest: exponent_part_shrinks
      split: option.splits if_splits)

lemma json_number_shrinks:
  assumes "json_number s = Some (v, r)"
  shows "length r < length s"
proof -
  define t where "t = (if s \<noteq> [] \<and> hd s = CHR ''-'' then tl s else s)"
  obtain fs q where q: "frac_part (drop (length (int_digits t)) t) = (fs, q)" by fastforce
  have ds: "int_digits t \<noteq> []" and r: "number_tail (s \<noteq> [] \<and> hd s = CHR ''-'') (int_digits t) fs q = (v, r)"
    using assms q by (auto simp: json_number_def Let_def t_def split: if_splits)
  have "length t \<le> length s" by (simp add: t_def)
  moreover have "t \<noteq> []" using ds by (auto simp: int_digits_def)
  then have "length (drop (length (int_digits t)) t) < length t" using ds by simp
  ultimately show ?thesis
    using frac_part_shrinks [OF q] number_tail_shrinks [OF r] by linarith
qed

lemma literal_shrinks: "literal lit w s = Some (v, r) \<Longrightarrow> lit \<noteq> [] \<Longrightarrow> length r < length s"
  by (cases s) (auto simp: literal_def split: if_splits)

lemma json_atom_shrinks: "json_atom s = Some (v, r) \<Longrightarrow> length r < length s"
  by (auto simp: json_atom_def literal_shrinks json_number_shrinks
      split: if_splits option.splits)


lemma json_shrinks:
  "json_value n s = Some (v, r) \<Longrightarrow> length r < length s"
  "json_items n s = Some (vs, r) \<Longrightarrow> length r < length s"
  "json_members n s = Some (kvs, r) \<Longrightarrow> length r < length s"
proof (induction n s and n s and n s arbitrary: v r and vs r and kvs r
    rule: json_value_json_items_json_members.induct)
  case (2 n s)
  show ?case
  proof (cases "s = []")
    case True
    then show ?thesis using "2.prems" by (auto dest: json_atom_shrinks)
  next
    case False
    note tl = length_skip_ws_tl [OF False]
    have tls: "length (tl s) < length s" using False by simp
    show ?thesis
      using "2.prems" False tl tls "2.IH"
      by (auto simp: Let_def dest!: string_body_shrinks json_atom_shrinks
          split: if_splits)
        (fastforce dest: less_trans)+
  qed
next
  case (4 n s)
  obtain w q where w: "json_value n s = Some (w, q)"
    using "4.prems" by (auto split: option.splits)
  have q: "length q < length s" using "4.IH"(1) w by blast
  let ?q = "skip_ws q"
  have l: "length ?q \<le> length q" by (rule length_skip_ws)
  show ?case
  proof (cases "?q \<noteq> [] \<and> hd ?q = CHR '','' ")
    case True
    then obtain vs' where "json_items n (skip_ws (tl ?q)) = Some (vs', r)"
      using "4.prems" w by (auto simp: Let_def split: if_splits)
    then have "length r < length (skip_ws (tl ?q))" using "4.IH"(2) w True by simp
    then show ?thesis using l q length_skip_ws_tl [of ?q] True by linarith
  next
    case False
    then have "r = tl ?q" "?q \<noteq> []" using "4.prems" w by (auto simp: Let_def split: if_splits)
    then show ?thesis using l q by simp
  qed
next
  case (6 n s)
  have s: "s \<noteq> []" "hd s = quote_char" using "6.prems" by (auto split: if_splits)
  obtain k p where k: "string_body (tl s) = Some (k, p)"
    using "6.prems" s by (auto split: option.splits)
  have p: "length p < length s" using string_body_shrinks [OF k] by simp
  let ?p = "skip_ws p"
  have c: "?p \<noteq> []" "hd ?p = CHR '':''" using "6.prems" s k by (auto simp: Let_def split: if_splits)
  obtain w q where w: "json_value n (skip_ws (tl ?p)) = Some (w, q)"
    using "6.prems" s k c by (auto simp: Let_def split: option.splits)
  have q: "length q < length (skip_ws (tl ?p))" using "6.IH"(1) s k c w by simp
  let ?q = "skip_ws q"
  have l: "length ?q \<le> length q" "length (skip_ws (tl ?p)) < length ?p" "length ?p \<le> length p"
    using length_skip_ws length_skip_ws_tl c(1) by blast+
  show ?case
  proof (cases "?q \<noteq> [] \<and> hd ?q = CHR '','' ")
    case True
    then obtain m where "json_members n (skip_ws (tl ?q)) = Some (m, r)"
      using "6.prems" s k c w by (auto simp: Let_def split: if_splits)
    then have "length r < length (skip_ws (tl ?q))" using "6.IH"(2) s k c w True by simp
    then show ?thesis using l p q length_skip_ws_tl [of ?q] True by linarith
  next
    case False
    then have "r = tl ?q" "?q \<noteq> []"
      using "6.prems" s k c w by (auto simp: Let_def split: if_splits)
    then show ?thesis using l p q by simp
  qed
qed simp_all


theorem json_value_fuel:
  "2 * length s < n \<Longrightarrow> 2 * length s < m \<Longrightarrow> json_value n s = json_value m s"
  "2 * length s + 1 < n \<Longrightarrow> 2 * length s + 1 < m \<Longrightarrow> json_items n s = json_items m s"
  "2 * length s + 1 < n \<Longrightarrow> 2 * length s + 1 < m \<Longrightarrow> json_members n s = json_members m s"
proof (induction n s and n s and n s arbitrary: m and m and m
    rule: json_value_json_items_json_members.induct)
  case (2 n s)
  obtain m' where m: "m = Suc m'" using "2.prems"(2) by (cases m) auto
  show ?case
  proof (cases "s = []")
    case True
    then show ?thesis by (simp add: m)
  next
    case False
    let ?r = "skip_ws (tl s)"
    have "length ?r < length s" by (rule length_skip_ws_tl [OF False])
    then have len: "2 * length ?r + 1 < n" "2 * length ?r + 1 < m'" using "2.prems" m by linarith+
    have members: "json_members n ?r = json_members m' ?r"
      if "hd s \<noteq> quote_char" "hd s = CHR ''{''" "\<not> (?r \<noteq> [] \<and> hd ?r = CHR ''}'')"
      using "2.IH"(1) [OF _ _ refl that(3) len] that False by blast
    have items: "json_items n ?r = json_items m' ?r"
      if "hd s \<noteq> quote_char" "hd s \<noteq> CHR ''{''" "hd s = CHR ''[''"
        "\<not> (?r \<noteq> [] \<and> hd ?r = CHR '']'')"
      using "2.IH"(2) [OF _ _ _ refl that(4) len] that False by blast
    show ?thesis
      unfolding m json_value.simps Let_def using members items False by (auto split: if_splits)
  qed
next
  case (4 n s)
  obtain m' where m: "m = Suc m'" using "4.prems"(2) by (cases m) auto
  have v: "json_value n s = json_value m' s" by (rule "4.IH"(1)) (use "4.prems" m in linarith)+
  show ?case
  proof (cases "json_value m' s")
    case (Some wq)
    obtain w q where wq: "wq = (w, q)" by (cases wq)
    let ?q = "skip_ws q"
    have len: "length ?q < length s"
      using json_shrinks(1) Some wq length_skip_ws [of q] le_less_trans by blast
    show ?thesis
    proof (cases "?q \<noteq> [] \<and> hd ?q = CHR '',''")
      case True
      have "length (skip_ws (tl ?q)) < length s"
        using length_skip_ws_tl [of ?q] True len by simp
      then have "2 * length (skip_ws (tl ?q)) + 1 < n" "2 * length (skip_ws (tl ?q)) + 1 < m'"
        using "4.prems" m by linarith+
      moreover have "json_value n s = Some (w, q)" using v Some wq by simp
      ultimately have "json_items n (skip_ws (tl ?q)) = json_items m' (skip_ws (tl ?q))"
        using "4.IH"(2) [OF _ refl refl True] by blast
      then show ?thesis using v Some wq True by (simp add: m Let_def)
    next
      case False
      then show ?thesis using v Some wq by (auto simp: m Let_def)
    qed
  qed (simp add: m v)
next
  case (6 n s)
  obtain m' where m: "m = Suc m'" using "6.prems"(2) by (cases m) auto
  show ?case
  proof (cases "s \<noteq> [] \<and> hd s = quote_char \<and> string_body (tl s) \<noteq> None")
    case True
    then obtain k p where k: "string_body (tl s) = Some (k, p)" by auto
    let ?p = "skip_ws p"
    have p: "length ?p < length s"
      using string_body_shrinks [OF k] length_skip_ws [of p] by simp
    show ?thesis
    proof (cases "?p \<noteq> [] \<and> hd ?p = CHR '':''")
      case c: True
      have l: "length (skip_ws (tl ?p)) < length s" using length_skip_ws_tl [of ?p] c p by simp
      then have "2 * length (skip_ws (tl ?p)) < n" "2 * length (skip_ws (tl ?p)) < m'"
        using "6.prems" m by linarith+
      then have v: "json_value n (skip_ws (tl ?p)) = json_value m' (skip_ws (tl ?p))"
        using "6.IH"(1) [OF _ k refl refl c] True by blast
      show ?thesis
      proof (cases "json_value m' (skip_ws (tl ?p))")
        case None
        then show ?thesis using v True k c by (simp add: m Let_def)
      next
        case (Some wq)
        obtain w q where wq: "wq = (w, q)" by (cases wq)
        let ?q = "skip_ws q"
        have len: "length ?q < length s"
          using json_shrinks(1) [of m' "skip_ws (tl ?p)" w q] Some wq length_skip_ws [of q] l
          by simp
        show ?thesis
        proof (cases "?q \<noteq> [] \<and> hd ?q = CHR '',''")
          case d: True
          have "length (skip_ws (tl ?q)) < length s"
            using length_skip_ws_tl [of ?q] d len by simp
          then have "2 * length (skip_ws (tl ?q)) + 1 < n"
            "2 * length (skip_ws (tl ?q)) + 1 < m'" using "6.prems" m by linarith+
          moreover have nv: "json_value n (skip_ws (tl ?p)) = Some (w, q)"
            using v Some wq by simp
          ultimately have "json_members n (skip_ws (tl ?q)) = json_members m' (skip_ws (tl ?q))"
            using "6.IH"(2) [OF _ k refl refl c nv refl refl d] True by blast
          then show ?thesis using v Some wq True k c d by (simp add: m Let_def)
        next
          case d: False
          then show ?thesis using v Some wq True k c by (auto simp: m Let_def)
        qed
      qed
    next
      case c: False
      then show ?thesis using True k by (auto simp: m Let_def)
    qed
  next
    case False
    then show ?thesis by (cases "string_body (tl s)") (auto simp: m)
  qed
qed simp_all

end
