(* ===== verification/Hash_Chain.thy ===== *)
theory Hash_Chain
  imports Sha256 Json_Roundtrip
begin

text \<open>
  Hash chains of records, as the governance events, the audit log and the evidence ledger keep
  them: each entry carries the hash of its predecessor and the SHA-256 hash of a text made of
  that link and its own body. The locale \<open>hash_chain\<close> states what a chain needs of that text;
  its lemmas give tamper evidence relative to collisions among the texts that occur in the
  two chains compared, never among arbitrary texts. JSON facts shared by the instances come
  first.
\<close>

definition text_hash :: "string \<Rightarrow> string" where
  "text_hash t = sha256_hex (utf8_encode t)"

lemma length_text_hash [simp]: "length (text_hash t) = 64"
  by (simp add: text_hash_def)

lemma text_hash_nonempty [simp]: "text_hash t \<noteq> []"
  by (simp add: text_hash_def)

definition hex_text :: "string \<Rightarrow> bool" where
  "hex_text s = list_all is_hex s"

lemma hex_text_hash [simp]: "hex_text (text_hash t)"
  by (auto simp: hex_text_def text_hash_def list_all_iff sha256_hex_digits)

lemma hex_text_Nil [simp]: "hex_text []"
  by (simp add: hex_text_def)

section \<open>Canonical JSON\<close>


lemma sort_key_sorted: "sorted (map f xs) \<Longrightarrow> sort_key f xs = xs"
  by (rule properties_for_sort_key) auto

lemma map_sort_key_commute:
  assumes "\<And>x. f (g x) = f x"
  shows "map g (sort_key f xs) = sort_key f (map g xs)"
proof (rule sym, rule properties_for_sort_key)
  show "mset (map g (sort_key f xs)) = mset (map g xs)" by simp
  have fg: "map f (map g ys) = map f ys" for ys using assms by simp
  show "sorted (map f (map g (sort_key f xs)))" unfolding fg by (rule sorted_sort_key)
  fix k
  have "filter (\<lambda>x. f k = f x) (map g ys) = map g (filter (\<lambda>x. f x = f k) ys)" for ys
    using assms by (induction ys) auto
  then show "filter (\<lambda>x. f k = f x) (map g (sort_key f xs)) = filter (\<lambda>x. f k = f x) (map g xs)"
    by (simp add: sort_key_stable)
qed

definition canon_pair :: "string \<times> json \<Rightarrow> string \<times> json" where
  "canon_pair p = (fst p, json_canon (snd p))"

lemma json_canon_obj: "json_canon (JObj kvs) = JObj (sort_key fst (map canon_pair kvs))"
  by (simp add: canon_pair_def [abs_def] case_prod_beta')

lemma json_canon_idem [simp]: "json_canon (json_canon v) = json_canon v"
proof (induction v)
  case (JObj kvs)
  have "canon_pair (canon_pair p) = canon_pair p" if "p \<in> set kvs" for p
    using JObj that by (cases p) (auto simp: canon_pair_def)
  then have again: "map canon_pair (map canon_pair kvs) = map canon_pair kvs" by simp
  have "map canon_pair (sort_key fst (map canon_pair kvs)) = sort_key fst (map canon_pair (map canon_pair kvs))"
    by (rule map_sort_key_commute) (simp add: canon_pair_def)
  then show ?case
    by (simp only: json_canon_obj again sort_key_sorted [OF sorted_sort_key])
qed (auto simp: map_idI)

text \<open>Two objects with the same fields, in any order, have the same canonical form.\<close>

lemma json_canon_fields:
  assumes "mset (map canon_pair kvs) = mset (map canon_pair kvs')" and "distinct (map fst kvs)"
  shows "json_canon (JObj kvs) = json_canon (JObj kvs')"
proof -
  let ?xs = "map canon_pair kvs" and ?ys = "map canon_pair kvs'"
  have keys: "distinct (map fst ?xs)" using assms(2) by (simp add: canon_pair_def o_def)
  then have keys': "distinct (map fst ?ys)"
    using assms(1) by (metis mset_eq_imp_distinct_iff mset_map)
  have one: "filter (\<lambda>x. fst k = fst x) zs = [k]"
    if "k \<in> set zs" "distinct (map fst zs)" for k :: "string \<times> json" and zs
    using filter_key_distinct [OF that(2,1)] by (simp add: eq_commute)
  have "sort_key fst ?xs = sort_key fst ?ys"
  proof (rule properties_for_sort_key)
    show "mset (sort_key fst ?ys) = mset ?xs" using assms(1) by simp
    fix k assume "k \<in> set (sort_key fst ?ys)"
    then have k: "k \<in> set ?ys" by simp
    then have "k \<in> set ?xs" using assms(1) by (metis set_mset_mset)
    moreover have "distinct (map fst (sort_key fst ?ys))"
      using keys' by (metis mset_eq_imp_distinct_iff mset_map mset_sort)
    ultimately show "filter (\<lambda>x. fst k = fst x) (sort_key fst ?ys) = filter (\<lambda>x. fst k = fst x) ?xs"
      using one k keys by simp
  qed simp
  then show ?thesis by (simp only: json_canon_obj)
qed

lemma json_canon_get:
  assumes "json_canon (JObj kvs) = json_canon (JObj kvs')"
    and "distinct (map fst kvs)" and "distinct (map fst kvs')"
  shows "map_option json_canon (obj_get k kvs) = map_option json_canon (obj_get k kvs')"
proof -
  have canon: "map_of (sort_key fst (map canon_pair kvs)) k = map_option json_canon (obj_get k kvs)"
    if "distinct (map fst kvs)" for kvs
  proof -
    have "distinct (map fst (map canon_pair kvs))"
      using that by (simp add: canon_pair_def o_def)
    then have "map_of (sort_key fst (map canon_pair kvs)) = map_of (map canon_pair kvs)"
      by (intro map_of_inject_set [THEN iffD2])
        (auto simp del: map_map intro: mset_eq_imp_distinct_iff [THEN iffD1, rotated] simp: mset_map)
    moreover have "map_of (map canon_pair kvs) k = map_option json_canon (map_of kvs k)"
      by (induction kvs) (auto simp: canon_pair_def)
    ultimately show ?thesis by (simp add: obj_get_def)
  qed
  show ?thesis using assms canon by (metis json_canon_obj json.inject(6))
qed

text \<open>What the reader returns is a value Python can hold.\<close>

lemma keys_dict_put: "fst ` set (dict_put k v d) = insert k (fst ` set d)"
proof (induction d)
  case (Cons p d)
  then show ?case by (cases p) (simp add: insert_commute)
qed simp

lemma distinct_dict_put: "distinct (map fst d) \<Longrightarrow> distinct (map fst (dict_put k v d))"
proof (induction d)
  case (Cons p d)
  then show ?case by (cases p) (auto simp: keys_dict_put)
qed simp

lemma json_wf_dict_put: "json_wf (JObj d) \<Longrightarrow> json_wf w \<Longrightarrow> json_wf (JObj (dict_put k w d))"
proof -
  have "list_all (\<lambda>(k, v). json_wf v) (dict_put k w d)"
    if "list_all (\<lambda>(k, v). json_wf v) d" "json_wf w"
    using that by (induction d) auto
  then show "json_wf (JObj d) \<Longrightarrow> json_wf w \<Longrightarrow> ?thesis" by (simp add: distinct_dict_put)
qed

lemma dict_of_wf:
  assumes "list_all (\<lambda>(k, v). json_wf v) m"
  shows "json_wf (JObj (dict_of m))"
proof -
  have "json_wf (JObj (foldl (\<lambda>d (k, v). dict_put k v d) d m))"
    if "json_wf (JObj d)" "list_all (\<lambda>(k, v). json_wf v) m" for d
    using that
  proof (induction m arbitrary: d)
    case (Cons p m)
    obtain k v where p: "p = (k, v)" by (cases p)
    have "json_wf (JObj (dict_put k v d))"
      by (rule json_wf_dict_put) (use Cons.prems p in simp_all)
    then show ?case using Cons.IH Cons.prems(2) by (simp add: p del: json_wf.simps)
  qed simp
  from this [of "[]"] assms show ?thesis by (simp add: dict_of_def)
qed

lemma json_wf_empty: "json_wf (JObj [])"
  by simp

lemma json_atom_wf: "json_atom s = Some (v, r) \<Longrightarrow> json_wf v"
  by (auto simp: json_atom_def literal_def json_number_def number_tail_def Let_def
      split: if_splits option.splits prod.splits)

lemma json_reader_wf:
  "json_value n s = Some (v, r) \<Longrightarrow> json_wf v"
  "json_items n s = Some (vs, r) \<Longrightarrow> list_all json_wf vs"
  "json_members n s = Some (m, r) \<Longrightarrow> list_all (\<lambda>(k, v). json_wf v) m"
proof (induction n s and n s and n s arbitrary: v r and vs r and m r
    rule: json_value_json_items_json_members.induct)
  case (2 n s)
  show ?case
    using "2.prems" "2.IH" json_atom_wf
    by (auto simp: Let_def simp del: json_wf.simps(2) simp: json_wf_empty intro!: dict_of_wf split: if_splits)
next
  case (4 n s)
  then show ?case by (auto simp: Let_def split: if_splits option.splits)
next
  case (6 n s)
  then show ?case by (auto simp: Let_def split: if_splits option.splits)
qed simp_all

lemma json_loads_wf: "json_loads s = Some v \<Longrightarrow> json_wf v"
  by (auto simp: json_loads_def simp del: json_value.simps split: option.splits if_splits
      dest: json_reader_wf(1))

text \<open>Canonical texts of objects start with a brace, which no hash contains.\<close>

lemma hd_print_obj: "json_print st (JObj kvs) = CHR ''{'' # drop 1 (json_print st (JObj kvs))"
  by simp

lemma hex_prefix_split:
  assumes "hex_text p" "hex_text q" and "p @ CHR ''{'' # s = q @ CHR ''{'' # t"
  shows "p = q \<and> s = t"
proof -
  have cut: "takeWhile is_hex (r @ CHR ''{'' # u) = r" if "hex_text r" for r u
    using that by (induction r) (auto simp: hex_text_def is_hex_def)
  have "p = q" using cut [OF assms(1)] cut [OF assms(2)] assms(3) by metis
  with assms(3) show ?thesis by simp
qed

section \<open>The chain\<close>

type_synonym 'b entry = "string \<times> 'b \<times> string"

definition entry_hash :: "'b entry \<Rightarrow> string" where
  "entry_hash e = snd (snd e)"

definition collision :: "string set \<Rightarrow> bool" where
  "collision texts = (\<exists>x \<in> texts. \<exists>y \<in> texts. x \<noteq> y \<and> text_hash x = text_hash y)"

lemma collision_mono: "collision A \<Longrightarrow> A \<subseteq> B \<Longrightarrow> collision B"
  by (auto simp: collision_def)

locale hash_chain =
  fixes preimage :: "string \<Rightarrow> 'b \<Rightarrow> string"
    and link_ok :: "string \<Rightarrow> bool"
    and body_ok :: "'b \<Rightarrow> bool"
    and genesis :: string
  assumes preimage_inject:
      "link_ok p \<Longrightarrow> link_ok q \<Longrightarrow> body_ok b \<Longrightarrow> body_ok c \<Longrightarrow> preimage p b = preimage q c \<Longrightarrow>
         p = q \<and> b = c"
    and genesis_link: "link_ok genesis"
    and hash_link: "link_ok (text_hash t)"
begin

text \<open>
  What would break a chain: two different texts with one hash, or a text whose hash is the
  first link.
\<close>

definition broken :: "string set \<Rightarrow> bool" where
  "broken T = (collision T \<or> (\<exists>t \<in> T. text_hash t = genesis))"

lemma broken_mono: "broken A \<Longrightarrow> A \<subseteq> B \<Longrightarrow> broken B"
  using collision_mono by (auto simp: broken_def)

fun linked :: "string \<Rightarrow> 'b entry list \<Rightarrow> bool" where
  "linked p [] = True"
| "linked p ((q, b, h) # xs) = (q = p \<and> body_ok b \<and> h = text_hash (preimage p b) \<and> linked h xs)"

definition texts :: "'b entry list \<Rightarrow> string set" where
  "texts xs = (\<lambda>(q, b, h). preimage q b) ` set xs"

lemma texts_simps:
  "texts [] = {}" "texts ((q, b, h) # xs) = insert (preimage q b) (texts xs)"
  "texts (xs @ ys) = texts xs \<union> texts ys"
  unfolding texts_def by (simp_all add: image_Un)

definition head :: "string \<Rightarrow> 'b entry list \<Rightarrow> string" where
  "head p xs = (if xs = [] then p else entry_hash (last xs))"

lemma head_simps [simp]: "head p [] = p" "head p (xs @ [e]) = entry_hash e"
  by (simp_all add: head_def)

lemma head_Cons: "head p (e # xs) = head (entry_hash e) xs"
  by (simp add: head_def)

lemma linked_append: "linked p (xs @ ys) \<longleftrightarrow> linked p xs \<and> linked (head p xs) ys"
  by (induction p xs rule: linked.induct) (auto simp: head_Cons entry_hash_def)

lemma linked_snoc:
  "linked p (xs @ [(q, b, h)]) \<longleftrightarrow>
     linked p xs \<and> q = head p xs \<and> body_ok b \<and> h = text_hash (preimage q b)"
  by (auto simp: linked_append)

lemma linked_prefix: "linked p (xs @ ys) \<Longrightarrow> linked p xs"
  by (simp add: linked_append)

lemma linked_entry:
  "linked p xs \<Longrightarrow> (q, b, h) \<in> set xs \<Longrightarrow>
     body_ok b \<and> h = text_hash (preimage q b) \<and> (q = p \<or> (\<exists>t. q = text_hash t))"
  by (induction p xs rule: linked.induct) auto

lemma head_link: "linked p xs \<Longrightarrow> link_ok p \<Longrightarrow> link_ok (head p xs)"
  by (cases xs rule: rev_cases) (auto simp: linked_append entry_hash_def hash_link)

lemma head_not_genesis:
  assumes "linked p xs" and "xs \<noteq> []" and "\<not> broken (texts xs)"
  shows "head p xs \<noteq> genesis"
proof -
  obtain ys q b h where xs: "xs = ys @ [(q, b, h)]" using assms(2) by (metis prod_cases3 rev_exhaust)
  have "h = text_hash (preimage q b)" using assms(1) by (simp add: xs linked_snoc)
  then show ?thesis using assms(3) by (auto simp: xs texts_simps broken_def entry_hash_def)
qed

text \<open>
  Two chains that end in the same hash are the same chain, unless two different texts among
  those hashed in them have the same hash.
\<close>

lemma same_head_same_chain:
  assumes "linked genesis xs" "linked genesis ys" "head genesis xs = head genesis ys"
    and "\<not> broken (texts xs \<union> texts ys)"
  shows "xs = ys"
  using assms
proof (induction xs arbitrary: ys rule: rev_induct)
  case Nil
  have "\<not> broken (texts ys)" using Nil.prems(4) by (simp add: texts_simps)
  then show ?case using Nil head_not_genesis [OF Nil.prems(2)] by auto
next
  case (snoc e xs)
  obtain p b h where e: "e = (p, b, h)" by (cases e)
  have "\<not> broken (texts (xs @ [e]))"
    using snoc.prems(4) by (rule contrapos_nn) (erule broken_mono, blast)
  then have "ys \<noteq> []" using snoc.prems head_not_genesis [OF snoc.prems(1)] by auto
  then obtain zs q c g where ys: "ys = zs @ [(q, c, g)]" by (metis prod_cases3 rev_exhaust)
  have l: "linked genesis xs" "p = head genesis xs" "body_ok b" "h = text_hash (preimage p b)"
    "linked genesis zs" "q = head genesis zs" "body_ok c" "g = text_hash (preimage q c)"
    using snoc.prems unfolding e ys linked_snoc by auto
  have "h = g" using snoc.prems(3) by (simp add: e ys entry_hash_def)
  then have "text_hash (preimage p b) = text_hash (preimage q c)" using l by simp
  moreover have "preimage p b \<in> texts (xs @ [e])" "preimage q c \<in> texts ys"
    by (auto simp: texts_simps e ys)
  ultimately have "preimage p b = preimage q c"
    using snoc.prems(4) unfolding broken_def collision_def by blast
  then have "p = q \<and> b = c" using l head_link genesis_link by (intro preimage_inject) auto
  moreover have "\<not> broken (texts xs \<union> texts zs)"
    using snoc.prems(4) by (rule contrapos_nn) (erule broken_mono, auto simp: texts_simps ys)
  ultimately show ?case using snoc.IH [OF l(1,5)] l \<open>h = g\<close> by (simp add: e ys)
qed

text \<open>Changing an entry and keeping every later one breaks the chain, collisions aside.\<close>

lemma interior_change_detected:
  assumes "linked genesis (xs @ e # ys)" and "linked genesis (zs @ f # ys)" and "ys \<noteq> []"
    and "\<not> broken (texts (xs @ e # ys) \<union> texts (zs @ f # ys))"
  shows "e = f \<and> xs = zs"
proof -
  have "head genesis (xs @ e # ys) = head genesis (zs @ f # ys)"
    using assms(3) by (simp add: head_def)
  from same_head_same_chain [OF assms(1,2) this assms(4)] show ?thesis by simp
qed

lemma hashes_distinct:
  assumes "linked genesis xs" and "\<not> broken (texts xs)"
  shows "distinct (map entry_hash xs)"
  using assms
proof (induction xs rule: rev_induct)
  case (snoc e xs)
  have pre: "linked genesis xs" using snoc.prems(1) by (rule linked_prefix)
  have "\<not> broken (texts xs)"
    using snoc.prems(2) by (rule contrapos_nn) (erule broken_mono, auto simp: texts_simps)
  then have "distinct (map entry_hash xs)" using pre snoc.IH by blast
  moreover have "entry_hash e \<notin> set (map entry_hash xs)"
  proof
    assume "entry_hash e \<in> set (map entry_hash xs)"
    then obtain ys f zs where xs: "xs = ys @ f # zs" "entry_hash f = entry_hash e"
      by (auto dest!: split_list)
    have "linked genesis (ys @ [f])" using pre linked_prefix [of genesis "ys @ [f]" zs] by (simp add: xs)
    moreover have "\<not> broken (texts (xs @ [e]) \<union> texts (ys @ [f]))"
      using snoc.prems(2) by (rule contrapos_nn) (erule broken_mono, cases f, auto simp: texts_simps xs)
    ultimately have "xs @ [e] = ys @ [f]"
      using same_head_same_chain [OF snoc.prems(1) \<open>linked genesis (ys @ [f])\<close>] xs(2) by simp
    then show False by (simp add: xs)
  qed
  ultimately show ?case by simp
qed simp

end

text \<open>When no hash can be the first link, only collisions break a chain.\<close>

locale fresh_chain = hash_chain +
  assumes hash_not_genesis: "text_hash t \<noteq> genesis"
begin

lemma broken_collision: "broken T = collision T"
  by (simp add: broken_def hash_not_genesis)

lemmas same_head_same_chain_fresh = same_head_same_chain [unfolded broken_collision]

end

section \<open>Chains of canonical JSON objects\<close>

text \<open>
  The text of an entry is the link followed by the canonical JSON of an object; it is an
  instance for every style the sources write, with the empty text as the first link.
\<close>

definition canonical_object :: "json \<Rightarrow> bool" where
  "canonical_object b = (json_wf b \<and> json_canon b = b \<and> (case b of JObj _ \<Rightarrow> True | _ \<Rightarrow> False))"

definition link_text :: "json_style \<Rightarrow> string \<Rightarrow> json \<Rightarrow> string" where
  "link_text st p b = p @ json_print st b"

lemma json_print_inject:
  assumes "style_ok st" "json_wf b" "json_wf c" "json_canon b = b" "json_canon c = c"
    and "json_print st b = json_print st c"
  shows "b = c"
  using json_dumps_inject [OF assms(1-3)] assms(4-6) by (simp add: json_dumps_def)

lemma link_text_inject:
  assumes st: "style_ok st" and "hex_text p" "hex_text q" "canonical_object b" "canonical_object c"
    and eq: "link_text st p b = link_text st q c"
  shows "p = q \<and> b = c"
proof -
  obtain kvs lvs where objs: "b = JObj kvs" "c = JObj lvs"
    using assms(4,5) by (auto simp: canonical_object_def split: json.splits)
  have "p @ CHR ''{'' # drop 1 (json_print st b) = q @ CHR ''{'' # drop 1 (json_print st c)"
    using eq unfolding link_text_def objs by simp
  with assms(2,3) have "p = q" "drop 1 (json_print st b) = drop 1 (json_print st c)"
    using hex_prefix_split by blast+
  then have "json_print st b = json_print st c" unfolding objs by simp
  then have "b = c"
    using assms(4,5) json_print_inject [OF st] unfolding canonical_object_def by blast
  with \<open>p = q\<close> show ?thesis by simp
qed

lemma canonical_object_canon:
  "json_wf (JObj kvs) \<Longrightarrow> canonical_object (json_canon (JObj kvs))"
  unfolding canonical_object_def
  by (intro conjI json_wf_canon json_canon_idem) (simp_all only: json_canon_obj json.case)

end
