(* ===== verification/Governance_Types.thy ===== *)
theory Governance_Types
  imports Hash_Chain
begin

text \<open>
  Data of the governance core (\<open>governance_core.py\<close>): the rows of its SQLite tables, the
  whole database, the validated actor context and the input checks every operation applies
  before it touches the database. Text columns are strings, \<open>REAL\<close> columns hold time in
  millionths of a second, nullable columns are options. Shown: what each check accepts and
  that checking twice changes nothing.
\<close>

section \<open>Constants\<close>

definition roles :: "string list" where
  "roles = [''admin'', ''analyst'', ''risk_owner'', ''approver'', ''ciso'', ''risk_committee'']"

definition treatments :: "string list" where
  "treatments = [''mitigate'', ''accept'', ''transfer'', ''avoid'']"

definition severities :: "string list" where
  "severities = [''low'', ''medium'', ''high'', ''critical'']"

definition risk_ratings :: "string list" where
  "risk_ratings = [''low'', ''medium'', ''high'', ''critical'']"

definition max_identifier_length :: nat where "max_identifier_length = 128"
definition max_text_length :: nat where "max_text_length = 4096"
definition max_evidence_bytes :: nat where "max_evidence_bytes = 256 * 1024"

definition active_statuses :: "string list" where
  "active_statuses =
     [''open'', ''risk_assessed'', ''treatment_proposed'', ''pending_approval'', ''approved'',
      ''in_progress'', ''evidence_submitted'', ''pending_verification'', ''rejected'']"

definition terminal_statuses :: "string list" where
  "terminal_statuses = [''verified'', ''accepted'', ''closed'']"

definition treatment_approval_status :: "string \<Rightarrow> string option \<Rightarrow> string" where
  "treatment_approval_status decision treatment =
     (if decision \<noteq> ''approved'' then ''risk_assessed''
      else if treatment = Some ''accept'' then ''accepted''
      else ''approved'')"

section \<open>Actors\<close>

record actor =
  actor_id :: string
  actor_role :: string
  auth_method :: string

definition actor_context :: "string \<Rightarrow> string \<Rightarrow> string \<Rightarrow> actor outcome" where
  "actor_context aid rl auth =
     (if py_strip aid = [] then Inl (ValueError ''actor_id is required'')
      else if rl \<notin> set roles then Inl (ValueError (''unsupported role: '' @ rl))
      else if py_strip auth = [] then Inl (ValueError ''auth_method is required'')
      else Inr \<lparr>actor_id = aid, actor_role = rl, auth_method = auth\<rparr>)"

definition require_role :: "actor \<Rightarrow> string list \<Rightarrow> unit outcome" where
  "require_role a allowed = ensure (actor_role a \<in> set allowed)
     (PermissionError (''role '' @ actor_role a @ '' cannot perform this action''))"

section \<open>Input checks\<close>

definition required_text :: "string \<Rightarrow> string \<Rightarrow> nat \<Rightarrow> string outcome" where
  "required_text v field limit =
     (if py_strip v = [] \<or> limit < length v
      then Inl (ValueError (field @ '' must be non-empty and at most ''
                            @ show_nat limit @ '' characters''))
      else Inr (py_strip v))"

definition identifier_of :: "string \<Rightarrow> string \<Rightarrow> string outcome" where
  "identifier_of v field = required_text v field max_identifier_length"

definition severity_of :: "string \<Rightarrow> string outcome" where
  "severity_of v =
     (if py_lower v \<in> set severities then Inr (py_lower v)
      else Inl (ValueError ''severity must be low, medium, high, or critical''))"

definition risk_rating :: "string \<Rightarrow> string \<Rightarrow> string outcome" where
  "risk_rating v field =
     (if py_lower v \<in> set risk_ratings then Inr (py_lower v)
      else Inl (ValueError (field @ '' must be low, medium, high, or critical'')))"

text \<open>
  \<open>date.fromisoformat\<close>: a calendar date or a week date, in basic or extended format.
\<close>

definition leap_year :: "nat \<Rightarrow> bool" where
  "leap_year y = (y mod 4 = 0 \<and> (y mod 100 \<noteq> 0 \<or> y mod 400 = 0))"

definition days_in_month :: "nat \<Rightarrow> nat \<Rightarrow> nat" where
  "days_in_month y m =
     (if m = 2 then (if leap_year y then 29 else 28) else if m \<in> {4, 6, 9, 11} then 30 else 31)"

definition calendar_date_ok :: "nat \<Rightarrow> nat \<Rightarrow> nat \<Rightarrow> bool" where
  "calendar_date_ok y m d =
     (1 \<le> y \<and> y \<le> 9999 \<and> 1 \<le> m \<and> m \<le> 12 \<and> 1 \<le> d \<and> d \<le> days_in_month y m)"

text \<open>The week day of the first of January, Monday being 0.\<close>

definition january_first :: "nat \<Rightarrow> nat" where
  "january_first y = (let p = y - 1 in (p * 365 + p div 4 - p div 100 + p div 400) mod 7)"

definition week_date_ok :: "nat \<Rightarrow> nat \<Rightarrow> nat \<Rightarrow> bool" where
  "week_date_ok y w d =
     (1 \<le> y \<and> y \<le> 9999 \<and> 1 \<le> w \<and> 1 \<le> d \<and> d \<le> 7
      \<and> (w \<le> 52 \<or> (w = 53 \<and> (january_first y = 3 \<or> (january_first y = 2 \<and> leap_year y))))
      \<and> \<not> (y = 9999 \<and> w = 52 \<and> 5 < d))"

definition digits_nat :: "string \<Rightarrow> nat option" where
  "digits_nat s = (if s \<noteq> [] \<and> list_all is_digit s then Some (read_nat s) else None)"

definition iso_calendar :: "string \<Rightarrow> string \<Rightarrow> string \<Rightarrow> bool" where
  "iso_calendar y m d =
     (case (digits_nat y, digits_nat m, digits_nat d) of
        (Some y, Some m, Some d) \<Rightarrow> calendar_date_ok y m d | _ \<Rightarrow> False)"

definition iso_week :: "string \<Rightarrow> string \<Rightarrow> string \<Rightarrow> bool" where
  "iso_week y w d =
     (case (digits_nat y, digits_nat w, digits_nat d) of
        (Some y, Some w, Some d) \<Rightarrow> week_date_ok y w d | _ \<Rightarrow> False)"

definition iso_date :: "string \<Rightarrow> bool" where
  "iso_date s =
     (let y = take 4 s; t = drop 4 s in
      if take 1 t = ''-'' then
        (let u = drop 1 t in
         if take 1 u = ''W'' then
           (if length s = 8 then iso_week y (take 2 (drop 1 u)) ''1''
            else length s = 10 \<and> take 1 (drop 3 u) = ''-''
                 \<and> iso_week y (take 2 (drop 1 u)) (drop 4 u))
         else length s = 10 \<and> take 1 (drop 2 u) = ''-''
              \<and> iso_calendar y (take 2 u) (drop 3 u))
      else if take 1 t = ''W'' then
        (if length s = 7 then iso_week y (drop 1 t) ''1''
         else length s = 8 \<and> iso_week y (take 2 (drop 1 t)) (drop 3 t))
      else length s = 8 \<and> iso_calendar y (take 2 t) (drop 2 t))"

definition due_date_of :: "string option \<Rightarrow> string option outcome" where
  "due_date_of v =
     (case v of
        None \<Rightarrow> Inr None
      | Some s \<Rightarrow> if iso_date s then Inr (Some s)
                  else Inl (ValueError ''due_date must be an ISO date''))"

section \<open>Tables\<close>

record finding =
  f_id :: string
  f_control :: string
  f_asset :: string
  f_title :: string
  f_risk_owner :: string
  f_severity :: string
  f_status :: string
  f_treatment :: "string option"
  f_treatment_reason :: "string option"
  f_due_date :: "string option"
  f_action_owner :: "string option"
  f_implementer :: "string option"
  f_submitter :: "string option"
  f_created :: int
  f_updated :: int

record risk_record =
  rr_id :: string
  rr_finding :: string
  rr_likelihood :: string
  rr_impact :: string
  rr_owner :: string
  rr_status :: string

record risk_treatment =
  rt_id :: string
  rt_finding :: string
  rt_type :: string
  rt_reason :: string
  rt_proposed_by :: string
  rt_status :: string

record approval_record =
  ap_id :: string
  ap_finding :: string
  ap_decision :: string
  ap_actor :: string
  ap_role :: string
  ap_reason :: string

record action_item =
  ac_id :: string
  ac_finding :: string
  ac_owner :: "string option"
  ac_implementer :: "string option"
  ac_due_date :: "string option"
  ac_status :: string

record evidence_row =
  ev_id :: string
  ev_finding :: string
  ev_source :: string
  ev_sha256 :: string
  ev_submitted_by :: string
  ev_submitted_at :: int
  ev_status :: string
  ev_object_key :: "string option"
  ev_size :: "int option"
  ev_etag :: "string option"

record verification_record =
  vr_id :: string
  vr_finding :: string
  vr_verifier :: string
  vr_result :: string
  vr_notes :: string

record closure_record =
  cl_id :: string
  cl_finding :: string
  cl_closed_by :: string
  cl_reason :: string

record gov_event =
  ge_id :: string
  ge_finding :: string
  ge_seq :: nat
  ge_type :: string
  ge_actor :: string
  ge_role :: string
  ge_auth :: string
  ge_occurred :: int
  ge_details :: string
  ge_prev :: string
  ge_hash :: string

record outbox_row =
  ob_id :: string
  ob_event :: string
  ob_finding :: string
  ob_seq :: nat
  ob_topic :: string
  ob_payload :: string
  ob_created :: int
  ob_available :: int
  ob_attempts :: nat
  ob_locked_until :: "int option"
  ob_worker :: "string option"
  ob_token :: "string option"
  ob_delivered :: "int option"
  ob_dead :: "int option"
  ob_message_id :: "string option"
  ob_accepted :: "int option"
  ob_error :: "string option"

record export_row =
  xp_id :: string
  xp_event :: string
  xp_finding :: string
  xp_seq :: nat
  xp_payload :: string
  xp_created :: int
  xp_available :: int
  xp_attempts :: nat
  xp_locked_until :: "int option"
  xp_worker :: "string option"
  xp_token :: "string option"
  xp_archived :: "int option"
  xp_dead :: "int option"
  xp_object_key :: "string option"
  xp_sha256 :: "string option"
  xp_size :: "int option"
  xp_etag :: "string option"
  xp_error :: "string option"

record gov =
  findings :: "finding list"
  risk_records :: "risk_record list"
  risk_treatments :: "risk_treatment list"
  approvals :: "approval_record list"
  actions :: "action_item list"
  evidence :: "evidence_row list"
  verifications :: "verification_record list"
  closures :: "closure_record list"
  events :: "gov_event list"
  outbox :: "outbox_row list"
  exports :: "export_row list"

definition empty_gov :: gov where
  "empty_gov = \<lparr>findings = [], risk_records = [], risk_treatments = [], approvals = [],
     actions = [], evidence = [], verifications = [], closures = [], events = [], outbox = [],
     exports = []\<rparr>"

text \<open>
  What an operation draws from the outside: the two clock readings \<open>create_finding\<close> makes
  (the others make one), and the random identifiers of its row, event, outbox row and export.
\<close>

record env =
  clock :: int
  clock2 :: int
  row_uuid :: string
  event_uuid :: string
  outbox_uuid :: string
  export_uuid :: string

section \<open>Properties of the checks\<close>

lemma actor_context_ok:
  "actor_context aid rl auth = Inr a \<longleftrightarrow>
     py_strip aid \<noteq> [] \<and> rl \<in> set roles \<and> py_strip auth \<noteq> []
     \<and> a = \<lparr>actor_id = aid, actor_role = rl, auth_method = auth\<rparr>"
  by (auto simp: actor_context_def)

lemma required_text_ok [outcome_simps]:
  "required_text v field limit = Inr w \<longleftrightarrow>
     w = py_strip v \<and> py_strip v \<noteq> [] \<and> length v \<le> limit"
  by (auto simp: required_text_def)

lemma identifier_ok [outcome_simps]:
  "identifier_of v field = Inr w \<longleftrightarrow>
     w = py_strip v \<and> py_strip v \<noteq> [] \<and> length v \<le> max_identifier_length"
  by (auto simp: identifier_of_def outcome_simps)

lemma required_text_stable:
  "required_text v field limit = Inr w \<Longrightarrow> required_text w field limit = Inr w"
  using length_py_strip [of v] by (auto simp: required_text_ok)

lemma severity_ok [outcome_simps]:
  "severity_of v = Inr w \<longleftrightarrow> w = py_lower v \<and> py_lower v \<in> set severities"
  by (auto simp: severity_of_def)

lemma risk_rating_ok [outcome_simps]:
  "risk_rating v field = Inr w \<longleftrightarrow> w = py_lower v \<and> py_lower v \<in> set risk_ratings"
  by (auto simp: risk_rating_def)

lemma require_role_ok [outcome_simps]:
  "require_role a allowed = Inr u \<longleftrightarrow> actor_role a \<in> set allowed"
  by (simp add: require_role_def outcome_simps)

lemma due_date_ok [outcome_simps]:
  "due_date_of v = Inr w \<longleftrightarrow> w = v \<and> (\<forall>s. v = Some s \<longrightarrow> iso_date s)"
  by (auto simp: due_date_of_def split: option.splits)

end
