(* ===== verification/Evidence_Store.thy ===== *)
theory Evidence_Store
  imports Sha256 Prelude
begin

text \<open>
  The content-addressed evidence stores of \<open>evidence_store.py\<close>: the process-local store, the
  local directory and the Azure Blob adapter. A local store is the map from object keys to
  bytes; an object is created once (\<open>setdefault\<close>, open mode \<open>xb\<close>) and read back before it is
  acknowledged. The Azure container is a parameter, a record of the three client calls over a
  service state, and the adapter's retry loop is bounded by its configured attempts. Their
  shared contract is the locale \<open>evidence_backend\<close>, interpreted on the two local stores.
\<close>

section \<open>Objects and keys\<close>

record stored_object =
  object_key :: string
  so_sha256 :: string
  size_bytes :: nat
  etag :: string

definition evidence_limit :: nat where "evidence_limit = 256 * 1024"

definition integrity_error :: py_error where
  "integrity_error = OtherError ''EvidenceIntegrityError: stored evidence failed integrity verification''"

definition evidence_key :: "string \<Rightarrow> string" where
  "evidence_key digest = ''sha256/'' @ take 2 digest @ ''/'' @ digest"

definition validate_content :: "byte list \<Rightarrow> (string \<times> string) outcome" where
  "validate_content content =
     (if content = [] \<or> evidence_limit < length content
      then Inl (ValueError ''evidence content must be non-empty and within the size limit'')
      else Inr (sha256_hex content, evidence_key (sha256_hex content)))"

section \<open>Create-only objects\<close>

type_synonym objects = "string \<rightharpoonup> byte list"

definition create_only :: "string \<Rightarrow> byte list \<Rightarrow> objects \<Rightarrow> byte list \<times> objects" where
  "create_only key content m =
     (case m key of Some old \<Rightarrow> (old, m) | None \<Rightarrow> (content, m(key \<mapsto> content)))"

definition memory_persist :: "byte list \<Rightarrow> objects \<Rightarrow> stored_object outcome \<times> objects" where
  "memory_persist content m =
     (case validate_content content of
        Inl e \<Rightarrow> (Inl e, m)
      | Inr (digest, key) \<Rightarrow>
          (let (existing, m') = create_only key content m in
           if sha256_hex existing \<noteq> digest then (Inl integrity_error, m')
           else (Inr \<lparr>object_key = key, so_sha256 = digest, size_bytes = length content,
                      etag = digest\<rparr>, m')))"

text \<open>
  The key has only path components made of hexadecimal digits, so the resolved target is
  inside the root; a directory without symbolic links is assumed.
\<close>

definition local_persist :: "byte list \<Rightarrow> objects \<Rightarrow> stored_object outcome \<times> objects" where
  "local_persist content m =
     (case validate_content content of
        Inl e \<Rightarrow> (Inl e, m)
      | Inr (digest, key) \<Rightarrow>
          (let (stored, m') = create_only key content m in
           if length stored \<noteq> length content \<or> sha256_hex stored \<noteq> digest
           then (Inl integrity_error, m')
           else (Inr \<lparr>object_key = key, so_sha256 = digest, size_bytes = length content,
                      etag = digest\<rparr>, m')))"

section \<open>The Azure Blob adapter\<close>

text \<open>
  A client call that fails raises an exception with an optional status code, an error code,
  a class name, and may be a \<open>ValueError\<close>. The container client is code outside the repository: a
  parameter. The evidence store and the audit archive have the same adapter with different error
  classes and messages, which are an argument here.
\<close>

record azure_error =
  status_code :: "int option"
  error_code :: string
  class_name :: string
  is_value_error :: bool

record blob_properties =
  meta_sha256 :: "string option"
  meta_size :: "string option"
  blob_size :: "nat option"
  blob_etag :: string

record 'st blob_client =
  upload_blob :: "string \<Rightarrow> byte list \<Rightarrow> string \<times> string \<Rightarrow> 'st \<Rightarrow> azure_error option \<times> 'st"
  get_properties :: "string \<Rightarrow> 'st \<Rightarrow> (azure_error + blob_properties) \<times> 'st"
  download_blob :: "string \<Rightarrow> 'st \<Rightarrow> (azure_error + byte list) \<times> 'st"

definition already_exists :: "azure_error \<Rightarrow> bool" where
  "already_exists e = (status_code e = Some 409
     \<and> error_code e \<in> {''BlobAlreadyExists'', ''ResourceAlreadyExists''})"

definition transient :: "azure_error \<Rightarrow> bool" where
  "transient e = ((case status_code e of
       Some c \<Rightarrow> c \<in> {408, 429, 500, 502, 503, 504} | None \<Rightarrow> False)
     \<or> class_name e \<in> {''ServiceRequestError'', ''ServiceResponseError''})"

text \<open>One attempt ends in an object, an error that is final, or a client error.\<close>

datatype attempt = Stored stored_object | Fatal py_error | Client azure_error

record adapter_texts =
  integrity_class :: string
  content_text :: string
  metadata_text :: string
  tag_text :: string
  unavailable_text :: string

definition azure_integrity :: "adapter_texts \<Rightarrow> string \<Rightarrow> attempt" where
  "azure_integrity tx msg = Fatal (OtherError (integrity_class tx @ '': '' @ msg))"

definition evidence_texts :: adapter_texts where
  "evidence_texts = \<lparr>integrity_class = ''EvidenceIntegrityError'',
     content_text = ''stored evidence failed integrity verification'',
     metadata_text = ''stored evidence metadata is inconsistent'',
     tag_text = ''stored evidence has no immutable version tag'',
     unavailable_text = ''EvidenceStoreError: evidence storage is unavailable''\<rparr>"

definition strip_quotes :: "string \<Rightarrow> string" where
  "strip_quotes s = (let q = (\<lambda>c. ord_of c = 34) in rev (dropWhile q (rev (dropWhile q s))))"

definition check_download ::
    "adapter_texts \<Rightarrow> byte list \<Rightarrow> string \<Rightarrow> string \<Rightarrow> blob_properties \<Rightarrow> byte list \<Rightarrow> attempt" where
  "check_download tx content digest key p stored =
     (if length stored \<noteq> length content \<or> sha256_hex stored \<noteq> digest
      then azure_integrity tx (content_text tx)
      else if strip_quotes (blob_etag p) = []
      then azure_integrity tx (tag_text tx)
      else Stored \<lparr>object_key = key, so_sha256 = digest, size_bytes = length content,
                   etag = strip_quotes (blob_etag p)\<rparr>)"

definition properties_match :: "byte list \<Rightarrow> string \<Rightarrow> blob_properties \<Rightarrow> bool" where
  "properties_match content digest p =
     (meta_sha256 p = Some digest \<and> meta_size p = Some (show_nat (length content))
      \<and> blob_size p = Some (length content))"

definition read_back ::
    "adapter_texts \<Rightarrow> 'st blob_client \<Rightarrow> byte list \<Rightarrow> string \<Rightarrow> string \<Rightarrow> 'st \<Rightarrow> attempt \<times> 'st" where
  "read_back tx cl content digest key st =
     (case get_properties cl key st of
        (Inl e, st1) \<Rightarrow> (Client e, st1)
      | (Inr p, st1) \<Rightarrow>
          if \<not> properties_match content digest p
          then (azure_integrity tx (metadata_text tx), st1)
          else (case download_blob cl key st1 of
                  (Inl e, st2) \<Rightarrow> (Client e, st2)
                | (Inr stored, st2) \<Rightarrow> (check_download tx content digest key p stored, st2)))"

definition persist_once ::
    "adapter_texts \<Rightarrow> 'st blob_client \<Rightarrow> byte list \<Rightarrow> string \<Rightarrow> string \<Rightarrow> 'st \<Rightarrow> attempt \<times> 'st" where
  "persist_once tx cl content digest key st =
     (case upload_blob cl key content (digest, show_nat (length content)) st of
        (Some e, st1) \<Rightarrow>
          if already_exists e then read_back tx cl content digest key st1 else (Client e, st1)
      | (None, st1) \<Rightarrow> read_back tx cl content digest key st1)"

text \<open>
  The loop \<open>for attempt in range(retry_attempts + 1)\<close>: \<open>left\<close> counts the retries that remain. The
  pauses between attempts, in milliseconds, are part of the result.
\<close>

definition backoff_ms :: "nat \<Rightarrow> nat" where
  "backoff_ms attempt = min (250 * 2 ^ attempt) 2000"

fun retry_loop ::
    "('st \<Rightarrow> attempt \<times> 'st) \<Rightarrow> string \<Rightarrow> nat \<Rightarrow> nat \<Rightarrow> 'st \<Rightarrow> stored_object outcome \<times> nat list \<times> 'st" where
  "retry_loop once unavailable attempt 0 st =
     (case once st of
        (Stored r, st') \<Rightarrow> (Inr r, [], st')
      | (Fatal e, st') \<Rightarrow> (Inl e, [], st')
      | (Client e, st') \<Rightarrow>
          if is_value_error e then (Inl (ValueError (class_name e)), [], st')
          else (Inl (OtherError unavailable), [], st'))"
| "retry_loop once unavailable attempt (Suc left) st =
     (case once st of
        (Stored r, st') \<Rightarrow> (Inr r, [], st')
      | (Fatal e, st') \<Rightarrow> (Inl e, [], st')
      | (Client e, st') \<Rightarrow>
          if is_value_error e then (Inl (ValueError (class_name e)), [], st')
          else if \<not> transient e then (Inl (OtherError unavailable), [], st')
          else (case retry_loop once unavailable (Suc attempt) left st' of
                  (r, pauses, st'') \<Rightarrow> (r, backoff_ms attempt # pauses, st'')))"

definition azure_persist ::
    "'st blob_client \<Rightarrow> nat \<Rightarrow> byte list \<Rightarrow> 'st \<Rightarrow> stored_object outcome \<times> nat list \<times> 'st" where
  "azure_persist cl retries content st =
     (case validate_content content of
        Inl e \<Rightarrow> (Inl e, [], st)
      | Inr (digest, key) \<Rightarrow>
          retry_loop (persist_once evidence_texts cl content digest key) (unavailable_text evidence_texts) 0 retries st)"

section \<open>The contract\<close>

text \<open>
  What the governance core needs of a store: an acknowledged object carries the digest and the
  size of the content, its bytes can be read back and hash to the digest, objects never change
  or disappear, and storing the same content again gives the same acknowledgement.
\<close>

locale evidence_backend =
  fixes persist :: "byte list \<Rightarrow> 'st \<Rightarrow> stored_object outcome \<times> 'st"
    and lookup :: "'st \<Rightarrow> string \<Rightarrow> byte list option"
  assumes acknowledged:
      "persist c st = (Inr ob, st') \<Longrightarrow>
         so_sha256 ob = sha256_hex c \<and> size_bytes ob = length c
         \<and> (\<exists>b. lookup st' (object_key ob) = Some b \<and> sha256_hex b = so_sha256 ob)"
    and create_only_law:
      "persist c st = (r, st') \<Longrightarrow> lookup st k = Some b \<Longrightarrow> lookup st' k = Some b"
    and repeatable:
      "persist c st = (Inr ob, st') \<Longrightarrow> persist c st' = (Inr ob, st')"
begin

fun persist_all :: "byte list list \<Rightarrow> 'st \<Rightarrow> 'st" where
  "persist_all [] st = st"
| "persist_all (c # cs) st = persist_all cs (snd (persist c st))"

lemma objects_are_immutable:
  "lookup st k = Some b \<Longrightarrow> lookup (persist_all cs st) k = Some b"
  by (induction cs arbitrary: st) (auto simp: create_only_law [OF prod.collapse [symmetric]])

lemma acknowledged_object_survives:
  assumes "persist c st = (Inr ob, st')"
  shows "\<exists>b. lookup (persist_all cs st') (object_key ob) = Some b \<and> sha256_hex b = so_sha256 ob"
  using acknowledged [OF assms] objects_are_immutable by blast

end

lemma create_only_lookup:
  "create_only key c m = (b, m') \<Longrightarrow> m' key = Some b \<and> (\<forall>k x. m k = Some x \<longrightarrow> m' k = Some x)"
  by (auto simp: create_only_def split: option.splits if_splits)

lemma create_only_again: "create_only key c m = (b, m') \<Longrightarrow> create_only key c m' = (b, m')"
  by (auto simp: create_only_def split: option.splits)

lemma memory_persist_ok:
  assumes "memory_persist c m = (Inr ob, m')"
  obtains b where "create_only (evidence_key (sha256_hex c)) c m = (b, m')"
    "sha256_hex b = sha256_hex c" "c \<noteq> []" "length c \<le> evidence_limit"
    "ob = \<lparr>object_key = evidence_key (sha256_hex c), so_sha256 = sha256_hex c,
           size_bytes = length c, etag = sha256_hex c\<rparr>"
  using assms
  by (auto simp: memory_persist_def validate_content_def split: if_splits prod.splits)

lemma local_persist_ok:
  assumes "local_persist c m = (Inr ob, m')"
  obtains b where "create_only (evidence_key (sha256_hex c)) c m = (b, m')"
    "sha256_hex b = sha256_hex c" "length b = length c" "c \<noteq> []" "length c \<le> evidence_limit"
    "ob = \<lparr>object_key = evidence_key (sha256_hex c), so_sha256 = sha256_hex c,
           size_bytes = length c, etag = sha256_hex c\<rparr>"
  using assms
  by (auto simp: local_persist_def validate_content_def split: if_splits prod.splits)

interpretation memory_store: evidence_backend memory_persist "\<lambda>m. m"
proof
  fix c m ob m' assume "memory_persist c m = (Inr ob, m')"
  then show "so_sha256 ob = sha256_hex c \<and> size_bytes ob = length c
      \<and> (\<exists>b. m' (object_key ob) = Some b \<and> sha256_hex b = so_sha256 ob)"
    by (elim memory_persist_ok) (auto dest: create_only_lookup)
next
  fix c m r m' k b assume "memory_persist c m = (r, m')" "m k = Some b"
  then show "m' k = Some b"
    by (auto simp: memory_persist_def create_only_def split: sum.splits prod.splits if_splits option.splits)
next
  fix c m ob m' assume ok: "memory_persist c m = (Inr ob, m')"
  then obtain b where b: "create_only (evidence_key (sha256_hex c)) c m = (b, m')"
    "sha256_hex b = sha256_hex c" "c \<noteq> []" "length c \<le> evidence_limit"
    "ob = \<lparr>object_key = evidence_key (sha256_hex c), so_sha256 = sha256_hex c,
           size_bytes = length c, etag = sha256_hex c\<rparr>" by (rule memory_persist_ok)
  from create_only_again [OF b(1)] b(2-) show "memory_persist c m' = (Inr ob, m')"
    by (simp add: memory_persist_def validate_content_def)
qed

interpretation local_store: evidence_backend local_persist "\<lambda>m. m"
proof
  fix c m ob m' assume "local_persist c m = (Inr ob, m')"
  then show "so_sha256 ob = sha256_hex c \<and> size_bytes ob = length c
      \<and> (\<exists>b. m' (object_key ob) = Some b \<and> sha256_hex b = so_sha256 ob)"
    by (elim local_persist_ok) (auto dest: create_only_lookup)
next
  fix c m r m' k b assume "local_persist c m = (r, m')" "m k = Some b"
  then show "m' k = Some b"
    by (auto simp: local_persist_def create_only_def split: sum.splits prod.splits if_splits option.splits)
next
  fix c m ob m' assume ok: "local_persist c m = (Inr ob, m')"
  then obtain b where b: "create_only (evidence_key (sha256_hex c)) c m = (b, m')"
    "sha256_hex b = sha256_hex c" "length b = length c" "c \<noteq> []" "length c \<le> evidence_limit"
    "ob = \<lparr>object_key = evidence_key (sha256_hex c), so_sha256 = sha256_hex c,
           size_bytes = length c, etag = sha256_hex c\<rparr>" by (rule local_persist_ok)
  from create_only_again [OF b(1)] b(2-) show "local_persist c m' = (Inr ob, m')"
    by (simp add: local_persist_def validate_content_def)
qed

section \<open>The Azure adapter's guarantees\<close>

lemma check_download_ok:
  "check_download tx content digest key p stored = Stored ob \<Longrightarrow>
     sha256_hex stored = digest \<and> length stored = length content \<and> object_key ob = key
     \<and> so_sha256 ob = digest \<and> size_bytes ob = length content \<and> etag ob \<noteq> []"
  by (auto simp: check_download_def azure_integrity_def split: if_splits)

text \<open>Every acknowledgement rests on bytes the service returned for that key.\<close>

definition read_from ::
    "'st blob_client \<Rightarrow> byte list \<Rightarrow> string \<Rightarrow> string \<Rightarrow> stored_object \<Rightarrow> bool" where
  "read_from cl content digest key ob = (\<exists>st st' b. download_blob cl key st = (Inr b, st')
     \<and> sha256_hex b = digest \<and> length b = length content \<and> object_key ob = key
     \<and> so_sha256 ob = digest \<and> size_bytes ob = length content \<and> etag ob \<noteq> [])"

lemma read_back_ok: "read_back tx cl c d k st = (Stored ob, st') \<Longrightarrow> read_from cl c d k ob"
  by (auto simp: read_back_def read_from_def azure_integrity_def
      split: sum.splits prod.splits if_splits dest!: check_download_ok)

lemma persist_once_ok: "persist_once tx cl c d k st = (Stored ob, st') \<Longrightarrow> read_from cl c d k ob"
  by (auto simp: persist_once_def split: prod.splits option.splits if_splits dest: read_back_ok)

lemma retry_loop_ok:
  assumes "\<And>st ob st'. once st = (Stored ob, st') \<Longrightarrow> Q ob"
  shows "retry_loop once u i n st = (Inr ob, ps, st') \<Longrightarrow> Q ob"
proof (induction n arbitrary: i st ps)
  case (Suc n)
  then show ?case by (auto split: prod.splits attempt.splits if_splits dest: assms)
qed (auto split: prod.splits attempt.splits if_splits dest: assms)

text \<open>
  The loop makes at most one attempt more than the retries left, pauses once between two attempts,
  never longer than two seconds, and an integrity failure or a \<open>ValueError\<close> ends it at once.
\<close>

lemma retry_loop_pauses:
  "retry_loop once u i n st = (r, ps, st') \<Longrightarrow>
     length ps \<le> n \<and> (\<forall>p \<in> set ps. p \<le> 2000)"
proof (induction n arbitrary: i st ps)
  case (Suc n)
  then show ?case
    by (fastforce simp: backoff_ms_def split: prod.splits attempt.splits if_splits)
qed (auto split: prod.splits attempt.splits if_splits)

end
