(* ===== verification/Governance_Core.thy ===== *)
theory Governance_Core
  imports Governance_Types Evidence_Store
begin

text \<open>
  The operations of \<open>GovernanceCore\<close>. Every operation that changes the database is a function
  from the database to a result and a database. An operation that reads the finding before
  its transaction is given as two phases, the read (\<open>..._check\<close>) and the transaction
  (\<open>..._commit\<close>), and their composition on one state: the code takes no lock between them, so
  other writers may run in the gap.
\<close>

section \<open>Queries\<close>

definition not_found :: "string \<Rightarrow> py_error" where
  "not_found fid = KeyError (''finding '' @ fid @ '' was not found'')"

definition cannot_transition :: "string \<Rightarrow> py_error" where
  "cannot_transition st = ValueError (''finding cannot transition from '' @ st)"

definition find_finding :: "string \<Rightarrow> gov \<Rightarrow> finding option" where
  "find_finding fid s = List.find (\<lambda>f. f_id f = fid) (findings s)"

definition get_finding :: "string \<Rightarrow> gov \<Rightarrow> finding outcome" where
  "get_finding fid s =
     (case find_finding fid s of None \<Rightarrow> Inl (not_found fid) | Some f \<Rightarrow> Inr f)"

definition list_findings :: "string option \<Rightarrow> gov \<Rightarrow> finding list" where
  "list_findings status s =
     (case status of
        Some st \<Rightarrow> if st \<noteq> [] then sort_key (\<lambda>f. - f_updated f) (filter (\<lambda>f. f_status f = st) (findings s))
                   else sort_key (\<lambda>f. - f_updated f) (findings s)
      | None \<Rightarrow> sort_key (\<lambda>f. - f_updated f) (findings s))"

definition events_for :: "string \<Rightarrow> gov_event list \<Rightarrow> gov_event list" where
  "events_for fid es = filter (\<lambda>e. ge_finding e = fid) es"

definition list_events :: "string \<Rightarrow> gov \<Rightarrow> gov_event list" where
  "list_events fid s = sort_key ge_seq (events_for fid (events s))"

definition list_evidence :: "string \<Rightarrow> gov \<Rightarrow> evidence_row list" where
  "list_evidence fid s =
     sort_key (\<lambda>r. (ev_submitted_at r, ev_id r)) (filter (\<lambda>r. ev_finding r = fid) (evidence s))"

record summary =
  total :: nat
  by_status :: "(string \<times> nat) list"
  by_severity :: "(string \<times> nat) list"

fun count_put :: "string \<Rightarrow> nat \<Rightarrow> (string \<times> nat) list \<Rightarrow> (string \<times> nat) list" where
  "count_put k n [] = [(k, n)]"
| "count_put k n ((k', m) # d) = (if k' = k then (k, m + n) # d else (k', m) # count_put k n d)"

definition group_counts :: "gov \<Rightarrow> ((string \<times> string) \<times> nat) list" where
  "group_counts s =
     (let ks = map (\<lambda>f. (f_status f, f_severity f)) (findings s)
      in map (\<lambda>k. (k, length (filter (\<lambda>k'. k' = k) ks))) (remdups ks))"

definition export_summary :: "gov \<Rightarrow> summary" where
  "export_summary s =
     foldl (\<lambda>acc ((st, sev), n).
         acc\<lparr>total := total acc + n, by_status := count_put st n (by_status acc),
             by_severity := count_put sev n (by_severity acc)\<rparr>)
       \<lparr>total = 0, by_status = [], by_severity = []\<rparr> (group_counts s)"

section \<open>Events\<close>

definition body_fields ::
    "string \<Rightarrow> string \<Rightarrow> actor \<Rightarrow> int \<Rightarrow> json \<Rightarrow> string \<Rightarrow> (string \<times> json) list" where
  "body_fields fid etype a now details prev =
     [(''finding_id'', JStr fid), (''event_type'', JStr etype), (''actor_id'', JStr (actor_id a)),
      (''actor_role'', JStr (actor_role a)), (''auth_method'', JStr (auth_method a)),
      (''occurred_at'', JFloat (Fixed now)), (''details'', details), (''previous_hash'', JStr prev)]"

definition event_body :: "string \<Rightarrow> string \<Rightarrow> actor \<Rightarrow> int \<Rightarrow> json \<Rightarrow> string \<Rightarrow> json" where
  "event_body fid etype a now details prev = JObj (body_fields fid etype a now details prev)"

definition event_digest :: "string \<Rightarrow> json \<Rightarrow> string" where
  "event_digest prev body = text_hash (prev @ json_dumps compact_ascii body)"

text \<open>\<open>{**body, "event_id": ..., "event_sequence": ..., "event_hash": ...}\<close>\<close>

definition event_payload ::
    "string \<Rightarrow> string \<Rightarrow> actor \<Rightarrow> int \<Rightarrow> json \<Rightarrow> string \<Rightarrow> string \<Rightarrow> nat \<Rightarrow> string \<Rightarrow> string" where
  "event_payload fid etype a now details prev eid n h =
     json_dumps compact_ascii
       (JObj (body_fields fid etype a now details prev
         @ [(''event_id'', JStr eid), (''event_sequence'', JInt (int n)), (''event_hash'', JStr h)]))"

definition last_hash :: "string \<Rightarrow> gov_event list \<Rightarrow> string" where
  "last_hash fid es =
     (case rev (sort_key ge_seq (events_for fid es)) of [] \<Rightarrow> [] | e # _ \<Rightarrow> ge_hash e)"

definition next_sequence :: "string \<Rightarrow> gov_event list \<Rightarrow> nat" where
  "next_sequence fid es = foldr max (map ge_seq (events_for fid es)) 0 + 1"

definition foreign_key :: "bool \<Rightarrow> unit outcome" where
  "foreign_key present = ensure present (IntegrityError ''FOREIGN KEY constraint failed'')"

definition insert_event :: "gov_event \<Rightarrow> gov \<Rightarrow> gov outcome" where
  "insert_event e s =
     outcome_bind (foreign_key (find_finding (ge_finding e) s \<noteq> None)) (\<lambda>_.
     outcome_bind
       (insert_row [(''governance_events.event_id'', \<lambda>x y. ge_id x = ge_id y),
                    (''governance_events.event_hash'', \<lambda>x y. ge_hash x = ge_hash y)] e (events s))
       (\<lambda>t. Inr (s\<lparr>events := t\<rparr>)))"

definition insert_outbox :: "outbox_row \<Rightarrow> gov \<Rightarrow> gov outcome" where
  "insert_outbox r s =
     outcome_bind (foreign_key (list_ex (\<lambda>e. ge_id e = ob_event r) (events s))) (\<lambda>_.
     outcome_bind
       (insert_row [(''governance_outbox.outbox_id'', \<lambda>x y. ob_id x = ob_id y),
                    (''governance_outbox.event_id'', \<lambda>x y. ob_event x = ob_event y),
                    (''governance_outbox.finding_id, governance_outbox.event_sequence'',
                       \<lambda>x y. ob_finding x = ob_finding y \<and> ob_seq x = ob_seq y)] r (outbox s))
       (\<lambda>t. Inr (s\<lparr>outbox := t\<rparr>)))"

definition export_constraints :: "(string \<times> (export_row \<Rightarrow> export_row \<Rightarrow> bool)) list" where
  "export_constraints =
     [(''audit_exports.export_id'', \<lambda>x y. xp_id x = xp_id y),
      (''audit_exports.event_id'', \<lambda>x y. xp_event x = xp_event y),
      (''audit_exports.finding_id, audit_exports.event_sequence'',
         \<lambda>x y. xp_finding x = xp_finding y \<and> xp_seq x = xp_seq y)]"

definition insert_export :: "export_row \<Rightarrow> gov \<Rightarrow> gov outcome" where
  "insert_export r s =
     outcome_bind (foreign_key (list_ex (\<lambda>e. ge_id e = xp_event r) (events s))) (\<lambda>_.
     outcome_bind (insert_row export_constraints r (exports s)) (\<lambda>t. Inr (s\<lparr>exports := t\<rparr>)))"

definition new_outbox :: "string \<Rightarrow> string \<Rightarrow> string \<Rightarrow> nat \<Rightarrow> string \<Rightarrow> int \<Rightarrow> outbox_row" where
  "new_outbox oid eid fid n payload now =
     \<lparr>ob_id = oid, ob_event = eid, ob_finding = fid, ob_seq = n, ob_topic = ''governance.event.v1'',
      ob_payload = payload, ob_created = now, ob_available = now, ob_attempts = 0,
      ob_locked_until = None, ob_worker = None, ob_token = None, ob_delivered = None,
      ob_dead = None, ob_message_id = None, ob_accepted = None, ob_error = None\<rparr>"

definition new_export :: "string \<Rightarrow> string \<Rightarrow> string \<Rightarrow> nat \<Rightarrow> string \<Rightarrow> int \<Rightarrow> export_row" where
  "new_export xid eid fid n payload now =
     \<lparr>xp_id = xid, xp_event = eid, xp_finding = fid, xp_seq = n, xp_payload = payload,
      xp_created = now, xp_available = now, xp_attempts = 0, xp_locked_until = None,
      xp_worker = None, xp_token = None, xp_archived = None, xp_dead = None,
      xp_object_key = None, xp_sha256 = None, xp_size = None, xp_etag = None, xp_error = None\<rparr>"

definition new_event ::
    "string \<Rightarrow> string \<Rightarrow> string \<Rightarrow> actor \<Rightarrow> json \<Rightarrow> int \<Rightarrow> gov_event list \<Rightarrow> gov_event" where
  "new_event eid fid etype a details now es =
     (let prev = last_hash fid es in
      \<lparr>ge_id = eid, ge_finding = fid, ge_seq = next_sequence fid es, ge_type = etype,
       ge_actor = actor_id a, ge_role = actor_role a, ge_auth = auth_method a, ge_occurred = now,
       ge_details = json_dumps spaced_ascii details, ge_prev = prev,
       ge_hash = event_digest prev (event_body fid etype a now details prev)\<rparr>)"

definition record_event ::
    "env \<Rightarrow> string \<Rightarrow> string \<Rightarrow> actor \<Rightarrow> json \<Rightarrow> int \<Rightarrow> gov \<Rightarrow> gov outcome" where
  "record_event env fid etype a details now s =
     (let e = new_event (event_uuid env) fid etype a details now (events s);
          payload = event_payload fid etype a now details (ge_prev e) (ge_id e) (ge_seq e) (ge_hash e)
      in outcome_bind (insert_event e s) (\<lambda>s1.
         outcome_bind (insert_outbox (new_outbox (outbox_uuid env) (ge_id e) fid (ge_seq e) payload now) s1)
           (insert_export (new_export (export_uuid env) (ge_id e) fid (ge_seq e) payload now))))"

section \<open>Transactions\<close>

text \<open>After the commit the operation reads the finding again, on a new connection.\<close>

definition then_get :: "string \<Rightarrow> unit outcome \<times> gov \<Rightarrow> finding outcome \<times> gov" where
  "then_get fid rs = (outcome_bind (fst rs) (\<lambda>_. get_finding fid (snd rs)), snd rs)"

definition set_finding :: "string \<Rightarrow> (finding \<Rightarrow> finding) \<Rightarrow> gov \<Rightarrow> gov" where
  "set_finding fid f s = s\<lparr>findings := update_where (\<lambda>r. f_id r = fid) f (findings s)\<rparr>"

definition mutate_body ::
    "env \<Rightarrow> string \<Rightarrow> actor \<Rightarrow> string \<Rightarrow> string \<Rightarrow> json \<Rightarrow> (finding \<Rightarrow> finding) \<Rightarrow> string list
       \<Rightarrow> (gov \<Rightarrow> gov outcome) \<Rightarrow> gov \<Rightarrow> gov outcome" where
  "mutate_body env fid a etype new details updates allowed workflow s =
     (case find_finding fid s of
        None \<Rightarrow> Inl (not_found fid)
      | Some row \<Rightarrow>
          if f_status row \<notin> set allowed then Inl (cannot_transition (f_status row))
          else outcome_bind
            (record_event env fid etype a details (clock env)
              (set_finding fid (\<lambda>f. updates (f\<lparr>f_status := new, f_updated := clock env\<rparr>)) s))
            workflow)"

definition mutate ::
    "env \<Rightarrow> string \<Rightarrow> actor \<Rightarrow> string \<Rightarrow> string \<Rightarrow> json \<Rightarrow> (finding \<Rightarrow> finding) \<Rightarrow> string list
       \<Rightarrow> (gov \<Rightarrow> gov outcome) \<Rightarrow> gov \<Rightarrow> finding outcome \<times> gov" where
  "mutate env fid a etype new details updates allowed workflow s =
     then_get fid (transact s
       (outcome_bind (mutate_body env fid a etype new details updates allowed workflow s)
         (\<lambda>s'. Inr (s', ()))))"

section \<open>Operations\<close>

definition new_finding ::
    "string \<Rightarrow> string \<Rightarrow> string \<Rightarrow> string \<Rightarrow> string \<Rightarrow> string \<Rightarrow> int \<Rightarrow> int \<Rightarrow> finding" where
  "new_finding fid control asset title owner severity created updated =
     \<lparr>f_id = fid, f_control = control, f_asset = asset, f_title = title, f_risk_owner = owner,
      f_severity = severity, f_status = ''open'', f_treatment = None, f_treatment_reason = None,
      f_due_date = None, f_action_owner = None, f_implementer = None, f_submitter = None,
      f_created = created, f_updated = updated\<rparr>"

definition identity_details :: "string \<Rightarrow> string \<Rightarrow> string \<Rightarrow> json" where
  "identity_details control asset severity =
     JObj [(''control_id'', JStr control), (''asset_id'', JStr asset), (''severity'', JStr severity)]"

text \<open>The six checks \<open>create_finding\<close> and \<open>upsert_finding\<close> begin with.\<close>

definition finding_inputs ::
    "string \<Rightarrow> string \<Rightarrow> string \<Rightarrow> string \<Rightarrow> string \<Rightarrow> string \<Rightarrow> actor
       \<Rightarrow> (string \<times> string \<times> string \<times> string \<times> string \<times> string) outcome" where
  "finding_inputs fid control asset title owner severity a =
     outcome_bind (require_role a [''admin'', ''analyst'']) (\<lambda>_.
     outcome_bind (identifier_of fid ''finding_id'') (\<lambda>fid.
     outcome_bind (identifier_of control ''control_id'') (\<lambda>control.
     outcome_bind (identifier_of asset ''asset_id'') (\<lambda>asset.
     outcome_bind (required_text title ''title'' max_text_length) (\<lambda>title.
     outcome_bind (identifier_of owner ''risk_owner'') (\<lambda>owner.
     outcome_bind (severity_of severity) (\<lambda>severity.
       Inr (fid, control, asset, title, owner, severity))))))))"

text \<open>An integrity error inside the transaction, from any of its inserts, is reported as a duplicate.\<close>

definition create_body :: "env \<Rightarrow> finding \<Rightarrow> actor \<Rightarrow> gov \<Rightarrow> gov outcome" where
  "create_body env f a s =
     (case outcome_bind
             (insert_row [(''findings.finding_id'', \<lambda>x y. f_id x = f_id y)] f (findings s))
             (\<lambda>t. record_event env (f_id f) ''finding_created'' a
                (identity_details (f_control f) (f_asset f) (f_severity f)) (f_created f)
                (s\<lparr>findings := t\<rparr>))
      of Inl (IntegrityError m) \<Rightarrow> Inl (ValueError (''finding '' @ f_id f @ '' already exists''))
       | r \<Rightarrow> r)"

definition create_finding ::
    "env \<Rightarrow> string \<Rightarrow> string \<Rightarrow> string \<Rightarrow> string \<Rightarrow> string \<Rightarrow> string \<Rightarrow> actor \<Rightarrow> gov
       \<Rightarrow> finding outcome \<times> gov" where
  "create_finding env fid control asset title owner severity a s =
     (case finding_inputs fid control asset title owner severity a of
        Inl e \<Rightarrow> (Inl e, s)
      | Inr (fid, control, asset, title, owner, severity) \<Rightarrow>
          then_get fid (transact s (outcome_bind
            (create_body env
              (new_finding fid control asset title owner severity (clock env) (clock2 env)) a s)
            (\<lambda>s'. Inr (s', ())))))"

definition record_prefix :: "string \<Rightarrow> env \<Rightarrow> string" where
  "record_prefix prefix env = prefix @ take 12 (row_uuid env)"

text \<open>\<open>INSERT ... ON CONFLICT(finding_id) DO UPDATE\<close> on the risk records.\<close>

definition upsert_risk :: "risk_record \<Rightarrow> gov \<Rightarrow> gov outcome" where
  "upsert_risk r s =
     (if list_ex (\<lambda>x. rr_id x = rr_id r \<and> rr_finding x \<noteq> rr_finding r) (risk_records s)
      then Inl (IntegrityError ''UNIQUE constraint failed: risk_records.risk_id'')
      else if list_ex (\<lambda>x. rr_finding x = rr_finding r) (risk_records s)
      then Inr (s\<lparr>risk_records := update_where (\<lambda>x. rr_finding x = rr_finding r) (\<lambda>x. r) (risk_records s)\<rparr>)
      else Inr (s\<lparr>risk_records := risk_records s @ [r]\<rparr>))"

definition assess_check ::
    "string \<Rightarrow> actor \<Rightarrow> string \<Rightarrow> string \<Rightarrow> gov \<Rightarrow> (string \<times> string \<times> finding) outcome" where
  "assess_check fid a likelihood impact s =
     outcome_bind (require_role a [''risk_owner'', ''analyst'', ''admin'']) (\<lambda>_.
     outcome_bind (risk_rating likelihood ''likelihood'') (\<lambda>l.
     outcome_bind (risk_rating impact ''impact'') (\<lambda>i.
     outcome_bind (get_finding fid s) (\<lambda>f. Inr (l, i, f)))))"

definition assess_commit ::
    "env \<Rightarrow> string \<Rightarrow> actor \<Rightarrow> string \<Rightarrow> string \<Rightarrow> finding \<Rightarrow> gov \<Rightarrow> finding outcome \<times> gov" where
  "assess_commit env fid a l i f s =
     mutate env fid a ''risk_assessed'' ''risk_assessed''
       (JObj [(''likelihood'', JStr l), (''impact'', JStr i)]) (\<lambda>f. f) [''open'', ''rejected'']
       (upsert_risk \<lparr>rr_id = record_prefix ''RS-'' env, rr_finding = fid, rr_likelihood = l,
                     rr_impact = i, rr_owner = f_risk_owner f, rr_status = ''open''\<rparr>) s"

definition assess_risk ::
    "env \<Rightarrow> string \<Rightarrow> actor \<Rightarrow> string \<Rightarrow> string \<Rightarrow> gov \<Rightarrow> finding outcome \<times> gov" where
  "assess_risk env fid a likelihood impact s =
     (case assess_check fid a likelihood impact s of
        Inl e \<Rightarrow> (Inl e, s)
      | Inr (l, i, f) \<Rightarrow> assess_commit env fid a l i f s)"

definition insert_treatment :: "risk_treatment \<Rightarrow> gov \<Rightarrow> gov outcome" where
  "insert_treatment r s =
     outcome_bind (insert_row [(''risk_treatments.treatment_id'', \<lambda>x y. rt_id x = rt_id y)] r (risk_treatments s))
       (\<lambda>t. Inr (s\<lparr>risk_treatments := t\<rparr>))"

definition propose_check ::
    "actor \<Rightarrow> string \<Rightarrow> string \<Rightarrow> string \<Rightarrow> string option \<Rightarrow> (string \<times> string \<times> string option) outcome" where
  "propose_check a ttype reason action_owner due =
     outcome_bind (require_role a [''risk_owner'', ''analyst'', ''admin'']) (\<lambda>_.
     outcome_bind (ensure (ttype \<in> set treatments) (ValueError (''unsupported treatment: '' @ ttype))) (\<lambda>_.
     outcome_bind (required_text reason ''treatment reason'' max_text_length) (\<lambda>reason.
     outcome_bind (identifier_of action_owner ''action_owner'') (\<lambda>owner.
     outcome_bind (due_date_of due) (\<lambda>due. Inr (reason, owner, due))))))"

definition propose_commit ::
    "env \<Rightarrow> string \<Rightarrow> actor \<Rightarrow> string \<Rightarrow> string \<Rightarrow> string \<Rightarrow> string option \<Rightarrow> gov \<Rightarrow> finding outcome \<times> gov" where
  "propose_commit env fid a ttype reason owner due s =
     mutate env fid a ''treatment_proposed'' ''pending_approval''
       (JObj [(''treatment_type'', JStr ttype), (''reason'', JStr reason), (''action_owner'', JStr owner)])
       (\<lambda>f. f\<lparr>f_treatment := Some ttype, f_treatment_reason := Some reason,
              f_action_owner := Some owner, f_due_date := due\<rparr>)
       [''risk_assessed'']
       (insert_treatment \<lparr>rt_id = record_prefix ''RT-'' env, rt_finding = fid, rt_type = ttype,
          rt_reason = reason, rt_proposed_by = actor_id a, rt_status = ''pending_approval''\<rparr>) s"

definition propose_treatment ::
    "env \<Rightarrow> string \<Rightarrow> actor \<Rightarrow> string \<Rightarrow> string \<Rightarrow> string \<Rightarrow> string option \<Rightarrow> gov \<Rightarrow> finding outcome \<times> gov" where
  "propose_treatment env fid a ttype reason action_owner due s =
     (case propose_check a ttype reason action_owner due of
        Inl e \<Rightarrow> (Inl e, s)
      | Inr (reason, owner, due) \<Rightarrow> propose_commit env fid a ttype reason owner due s)"

definition insert_approval :: "approval_record \<Rightarrow> gov \<Rightarrow> gov outcome" where
  "insert_approval r s =
     outcome_bind (insert_row [(''approval_records.approval_id'', \<lambda>x y. ap_id x = ap_id y)] r (approvals s))
       (\<lambda>t. Inr (s\<lparr>approvals := t\<rparr>))"

definition approve_check :: "string \<Rightarrow> actor \<Rightarrow> string \<Rightarrow> gov \<Rightarrow> string outcome" where
  "approve_check fid a decision s =
     outcome_bind (require_role a [''approver'', ''ciso'', ''risk_committee'']) (\<lambda>_.
     outcome_bind (ensure (decision \<in> {''approved'', ''rejected''})
                     (ValueError ''decision must be approved or rejected'')) (\<lambda>_.
     outcome_bind (get_finding fid s) (\<lambda>f.
     outcome_bind (ensure (actor_id a \<noteq> f_risk_owner f)
                     (PermissionError ''risk owner cannot approve the same finding'')) (\<lambda>_.
       Inr (treatment_approval_status decision (f_treatment f))))))"

definition approve_commit ::
    "env \<Rightarrow> string \<Rightarrow> actor \<Rightarrow> string \<Rightarrow> string \<Rightarrow> string \<Rightarrow> gov \<Rightarrow> finding outcome \<times> gov" where
  "approve_commit env fid a decision reason status s =
     mutate env fid a
       (if decision = ''approved'' then ''treatment_approved'' else ''treatment_rejected'') status
       (JObj [(''decision'', JStr decision), (''reason'', JStr reason)]) (\<lambda>f. f) [''pending_approval'']
       (insert_approval \<lparr>ap_id = record_prefix ''AP-'' env, ap_finding = fid, ap_decision = decision,
          ap_actor = actor_id a, ap_role = actor_role a, ap_reason = reason\<rparr>) s"

definition approve_treatment ::
    "env \<Rightarrow> string \<Rightarrow> actor \<Rightarrow> string \<Rightarrow> string \<Rightarrow> gov \<Rightarrow> finding outcome \<times> gov" where
  "approve_treatment env fid a decision reason s =
     (case approve_check fid a decision s of
        Inl e \<Rightarrow> (Inl e, s)
      | Inr status \<Rightarrow> approve_commit env fid a decision reason status s)"

text \<open>The owner column of an action item is \<open>NOT NULL\<close>.\<close>

definition insert_action :: "action_item \<Rightarrow> gov \<Rightarrow> gov outcome" where
  "insert_action r s =
     outcome_bind (ensure (ac_owner r \<noteq> None) (IntegrityError ''NOT NULL constraint failed: action_items.owner'')) (\<lambda>_.
     outcome_bind (insert_row [(''action_items.action_id'', \<lambda>x y. ac_id x = ac_id y)] r (actions s))
       (\<lambda>t. Inr (s\<lparr>actions := t\<rparr>)))"

definition start_check :: "string \<Rightarrow> actor \<Rightarrow> string \<Rightarrow> gov \<Rightarrow> (string \<times> finding) outcome" where
  "start_check fid a implementer s =
     outcome_bind (require_role a [''risk_owner'', ''analyst'', ''admin'']) (\<lambda>_.
     outcome_bind (identifier_of implementer ''implementer'') (\<lambda>impl.
     outcome_bind (get_finding fid s) (\<lambda>f. Inr (impl, f))))"

definition start_commit ::
    "env \<Rightarrow> string \<Rightarrow> actor \<Rightarrow> string \<Rightarrow> finding \<Rightarrow> gov \<Rightarrow> finding outcome \<times> gov" where
  "start_commit env fid a impl f s =
     mutate env fid a ''action_started'' ''in_progress'' (JObj [(''implementer'', JStr impl)])
       (\<lambda>f. f\<lparr>f_implementer := Some impl\<rparr>) [''approved'']
       (insert_action \<lparr>ac_id = ''ACT-'' @ take 12 (row_uuid env), ac_finding = fid,
          ac_owner = f_action_owner f, ac_implementer = Some impl, ac_due_date = f_due_date f,
          ac_status = ''in_progress''\<rparr>) s"

definition start_action :: "env \<Rightarrow> string \<Rightarrow> actor \<Rightarrow> string \<Rightarrow> gov \<Rightarrow> finding outcome \<times> gov" where
  "start_action env fid a implementer s =
     (case start_check fid a implementer s of
        Inl e \<Rightarrow> (Inl e, s)
      | Inr (impl, f) \<Rightarrow> start_commit env fid a impl f s)"

section \<open>Evidence, verification and closure\<close>

datatype content = Raw "byte list" | Text string

fun raw_content :: "content \<Rightarrow> byte list" where
  "raw_content (Raw b) = b"
| "raw_content (Text t) = utf8_encode t"

definition prepare_evidence :: "string \<Rightarrow> content \<Rightarrow> (string \<times> byte list \<times> string) outcome" where
  "prepare_evidence source c =
     outcome_bind (required_text source ''evidence source'' max_identifier_length) (\<lambda>source.
     outcome_bind (ensure (raw_content c \<noteq> [] \<and> length (raw_content c) \<le> max_evidence_bytes)
        (ValueError ''evidence content must be non-empty and within the size limit'')) (\<lambda>_.
       Inr (source, raw_content c, sha256_hex (raw_content c))))"

definition same_submission :: "string \<Rightarrow> string \<Rightarrow> string \<Rightarrow> evidence_row \<Rightarrow> bool" where
  "same_submission digest source aid r =
     (ev_sha256 r = digest \<and> ev_source r = source \<and> ev_submitted_by r = aid
      \<and> ev_status r = ''submitted'')"

definition has_duplicate_evidence :: "string \<Rightarrow> string \<Rightarrow> string \<Rightarrow> string \<Rightarrow> gov \<Rightarrow> bool" where
  "has_duplicate_evidence fid digest source aid s =
     list_ex (same_submission digest source aid) (list_evidence fid s)"

definition existing_evidence_row ::
    "string \<Rightarrow> string \<Rightarrow> string \<Rightarrow> string \<Rightarrow> gov \<Rightarrow> evidence_row option" where
  "existing_evidence_row fid digest source aid s =
     List.find (\<lambda>r. ev_finding r = fid \<and> same_submission digest source aid r) (evidence s)"

definition persist_checked_evidence ::
    "(byte list \<Rightarrow> 'st \<Rightarrow> stored_object outcome \<times> 'st) \<Rightarrow> byte list \<Rightarrow> string \<Rightarrow> 'st
       \<Rightarrow> stored_object outcome \<times> 'st" where
  "persist_checked_evidence persist raw digest st =
     (case persist raw st of
        (Inl e, st') \<Rightarrow> (Inl e, st')
      | (Inr ob, st') \<Rightarrow>
          if so_sha256 ob \<noteq> digest
          then (Inl (RuntimeError ''evidence store returned inconsistent integrity metadata''), st')
          else (Inr ob, st'))"

definition insert_evidence :: "evidence_row \<Rightarrow> gov \<Rightarrow> gov outcome" where
  "insert_evidence r s =
     outcome_bind (insert_row [(''governance_evidence.evidence_id'', \<lambda>x y. ev_id x = ev_id y)] r (evidence s))
       (\<lambda>t. Inr (s\<lparr>evidence := t\<rparr>))"

definition evidence_details :: "string \<Rightarrow> string \<Rightarrow> stored_object \<Rightarrow> json" where
  "evidence_details eid source ob =
     JObj [(''evidence_id'', JStr eid), (''source'', JStr source), (''sha256'', JStr (so_sha256 ob)),
           (''object_key'', JStr (object_key ob)), (''size_bytes'', JInt (int (size_bytes ob)))]"

definition new_evidence :: "string \<Rightarrow> string \<Rightarrow> string \<Rightarrow> string \<Rightarrow> stored_object \<Rightarrow> int \<Rightarrow> evidence_row" where
  "new_evidence eid fid source aid ob now =
     \<lparr>ev_id = eid, ev_finding = fid, ev_source = source, ev_sha256 = so_sha256 ob,
      ev_submitted_by = aid, ev_submitted_at = now, ev_status = ''submitted'',
      ev_object_key = Some (object_key ob), ev_size = Some (int (size_bytes ob)),
      ev_etag = Some (etag ob)\<rparr>"

definition submit_body ::
    "env \<Rightarrow> string \<Rightarrow> actor \<Rightarrow> string \<Rightarrow> string \<Rightarrow> string \<Rightarrow> stored_object \<Rightarrow> gov \<Rightarrow> gov outcome" where
  "submit_body env fid a source digest eid ob s =
     (case find_finding fid s of
        None \<Rightarrow> Inl (not_found fid)
      | Some row \<Rightarrow>
          if f_status row \<noteq> ''in_progress'' then
            (if existing_evidence_row fid digest source (actor_id a) s \<noteq> None
                \<and> f_status row = ''pending_verification''
             then Inr s
             else Inl (cannot_transition (f_status row)))
          else outcome_bind (insert_evidence (new_evidence eid fid source (actor_id a) ob (clock env)) s) (\<lambda>s1.
            record_event env fid ''evidence_submitted'' a (evidence_details eid source ob) (clock env)
              (set_finding fid (\<lambda>f. f\<lparr>f_status := ''pending_verification'',
                 f_submitter := Some (actor_id a), f_updated := clock env\<rparr>) s1)))"

definition commit_evidence ::
    "env \<Rightarrow> string \<Rightarrow> actor \<Rightarrow> string \<Rightarrow> string \<Rightarrow> string \<Rightarrow> stored_object \<Rightarrow> gov \<Rightarrow> finding outcome \<times> gov" where
  "commit_evidence env fid a source digest eid ob s =
     then_get fid (transact s
       (outcome_bind (submit_body env fid a source digest eid ob s) (\<lambda>s'. Inr (s', ()))))"

text \<open>
  What the read phase decides: return the finding as it is, or store the content and commit.
\<close>

datatype submission = Already finding | Proceed string "byte list" string

definition submit_check ::
    "string \<Rightarrow> actor \<Rightarrow> string \<Rightarrow> content \<Rightarrow> gov \<Rightarrow> submission outcome" where
  "submit_check fid a source c s =
     outcome_bind (require_role a [''risk_owner'', ''analyst'', ''admin'']) (\<lambda>_.
     outcome_bind (prepare_evidence source c) (\<lambda>(source, raw, digest).
     outcome_bind (get_finding fid s) (\<lambda>f.
       if f_status f = ''pending_verification'' \<and> has_duplicate_evidence fid digest source (actor_id a) s
       then Inr (Already f)
       else if f_status f \<noteq> ''in_progress'' then Inl (cannot_transition (f_status f))
       else Inr (Proceed source raw digest))))"

definition submit_evidence ::
    "(byte list \<Rightarrow> 'st \<Rightarrow> stored_object outcome \<times> 'st) \<Rightarrow> env \<Rightarrow> string \<Rightarrow> actor \<Rightarrow> string \<Rightarrow> content
       \<Rightarrow> gov \<Rightarrow> 'st \<Rightarrow> finding outcome \<times> gov \<times> 'st" where
  "submit_evidence persist env fid a source c s st =
     (case submit_check fid a source c s of
        Inl e \<Rightarrow> (Inl e, s, st)
      | Inr (Already f) \<Rightarrow> (Inr f, s, st)
      | Inr (Proceed source raw digest) \<Rightarrow>
          (case persist_checked_evidence persist raw digest st of
             (Inl e, st') \<Rightarrow> (Inl e, s, st')
           | (Inr ob, st') \<Rightarrow>
               (case commit_evidence env fid a source digest
                       (''EV-'' @ map upper_char (take 12 (row_uuid env))) ob s of
                  (r, s') \<Rightarrow> (r, s', st'))))"

definition insert_verification :: "verification_record \<Rightarrow> gov \<Rightarrow> gov outcome" where
  "insert_verification r s =
     outcome_bind (insert_row [(''verification_records.verification_id'', \<lambda>x y. vr_id x = vr_id y)] r (verifications s))
       (\<lambda>t. Inr (s\<lparr>verifications := t\<rparr>))"

definition verify_check :: "string \<Rightarrow> actor \<Rightarrow> gov \<Rightarrow> unit outcome" where
  "verify_check fid a s =
     outcome_bind (require_role a [''analyst'', ''approver'', ''ciso'', ''risk_committee'']) (\<lambda>_.
     outcome_bind (get_finding fid s) (\<lambda>f.
       ensure (Some (actor_id a) \<noteq> f_implementer f \<and> Some (actor_id a) \<noteq> f_submitter f)
         (PermissionError ''verification must be independent from implementation and evidence submission'')))"

definition verify_commit ::
    "env \<Rightarrow> string \<Rightarrow> actor \<Rightarrow> bool \<Rightarrow> string \<Rightarrow> gov \<Rightarrow> finding outcome \<times> gov" where
  "verify_commit env fid a passed notes s =
     mutate env fid a (if passed then ''verification_passed'' else ''verification_failed'')
       (if passed then ''verified'' else ''in_progress'')
       (JObj [(''passed'', JBool passed), (''notes'', JStr notes)]) (\<lambda>f. f) [''pending_verification'']
       (insert_verification \<lparr>vr_id = record_prefix ''VR-'' env, vr_finding = fid, vr_verifier = actor_id a,
          vr_result = (if passed then ''passed'' else ''failed''), vr_notes = notes\<rparr>) s"

definition verify ::
    "env \<Rightarrow> string \<Rightarrow> actor \<Rightarrow> bool \<Rightarrow> string \<Rightarrow> gov \<Rightarrow> finding outcome \<times> gov" where
  "verify env fid a passed notes s =
     (case verify_check fid a s of
        Inl e \<Rightarrow> (Inl e, s)
      | Inr _ \<Rightarrow> verify_commit env fid a passed notes s)"

definition insert_closure :: "closure_record \<Rightarrow> gov \<Rightarrow> gov outcome" where
  "insert_closure r s =
     outcome_bind (insert_row [(''closure_records.closure_id'', \<lambda>x y. cl_id x = cl_id y)] r (closures s))
       (\<lambda>t. Inr (s\<lparr>closures := t\<rparr>))"

definition close_check :: "string \<Rightarrow> actor \<Rightarrow> gov \<Rightarrow> unit outcome" where
  "close_check fid a s =
     outcome_bind (require_role a [''approver'', ''ciso'', ''risk_committee'']) (\<lambda>_.
     outcome_bind (get_finding fid s) (\<lambda>f.
       ensure (f_status f \<in> {''verified'', ''accepted''})
         (ValueError ''finding cannot close before verification or accepted-risk treatment'')))"

definition close_commit :: "env \<Rightarrow> string \<Rightarrow> actor \<Rightarrow> string \<Rightarrow> gov \<Rightarrow> finding outcome \<times> gov" where
  "close_commit env fid a reason s =
     mutate env fid a ''finding_closed'' ''closed'' (JObj [(''reason'', JStr reason)]) (\<lambda>f. f)
       [''verified'', ''accepted'']
       (insert_closure \<lparr>cl_id = record_prefix ''CL-'' env, cl_finding = fid,
          cl_closed_by = actor_id a, cl_reason = reason\<rparr>) s"

definition close :: "env \<Rightarrow> string \<Rightarrow> actor \<Rightarrow> string \<Rightarrow> gov \<Rightarrow> finding outcome \<times> gov" where
  "close env fid a reason s =
     (case close_check fid a s of
        Inl e \<Rightarrow> (Inl e, s)
      | Inr _ \<Rightarrow> close_commit env fid a reason s)"

text \<open>
  A creation that fails with the duplicate message falls through to a reassessment, which
  draws a clock reading and identifiers of its own.
\<close>

definition reassess_body ::
    "env \<Rightarrow> string \<Rightarrow> string \<Rightarrow> string \<Rightarrow> string \<Rightarrow> string \<Rightarrow> string \<Rightarrow> actor \<Rightarrow> gov \<Rightarrow> gov outcome" where
  "reassess_body env fid control asset title owner severity a s =
     (case find_finding fid s of
        None \<Rightarrow> Inl (RuntimeError ''finding disappeared during upsert'')
      | Some row \<Rightarrow>
          if f_control row \<noteq> control \<or> f_asset row \<noteq> asset
          then Inl (ValueError ''finding identity cannot change during reassessment'')
          else record_event env fid ''finding_reassessed'' a (identity_details control asset severity) (clock env)
            (set_finding fid (\<lambda>f. f\<lparr>f_title := title, f_risk_owner := owner,
               f_severity := severity, f_updated := clock env\<rparr>) s))"

definition reassess ::
    "env \<Rightarrow> string \<Rightarrow> string \<Rightarrow> string \<Rightarrow> string \<Rightarrow> string \<Rightarrow> string \<Rightarrow> actor \<Rightarrow> gov
       \<Rightarrow> finding outcome \<times> gov" where
  "reassess env fid control asset title owner severity a s =
     then_get fid (transact s (outcome_bind
       (reassess_body env fid control asset title owner severity a s) (\<lambda>s'. Inr (s', ()))))"

definition upsert_finding ::
    "env \<Rightarrow> env \<Rightarrow> string \<Rightarrow> string \<Rightarrow> string \<Rightarrow> string \<Rightarrow> string \<Rightarrow> string \<Rightarrow> actor \<Rightarrow> gov
       \<Rightarrow> finding outcome \<times> gov" where
  "upsert_finding env env' fid control asset title owner severity a s =
     (case finding_inputs fid control asset title owner severity a of
        Inl e \<Rightarrow> (Inl e, s)
      | Inr (fid, control, asset, title, owner, severity) \<Rightarrow>
          (case create_finding env fid control asset title owner severity a s of
             (Inl (ValueError m), s') \<Rightarrow>
               if py_contains ''already exists'' m
               then reassess env' fid control asset title owner severity a s'
               else (Inl (ValueError m), s')
           | r \<Rightarrow> r))"

section \<open>Verifying the chain of events\<close>

fun verify_links :: "string \<Rightarrow> string \<Rightarrow> gov_event list \<Rightarrow> bool outcome" where
  "verify_links fid prev [] = Inr True"
| "verify_links fid prev (e # es) =
     (case json_loads (ge_details e) of
        None \<Rightarrow> Inl JSONDecodeError
      | Some details \<Rightarrow>
          (let expected = event_digest prev (event_body fid (ge_type e)
                 \<lparr>actor_id = ge_actor e, actor_role = ge_role e, auth_method = ge_auth e\<rparr>
                 (ge_occurred e) details prev)
           in if ge_prev e \<noteq> prev \<or> ge_hash e \<noteq> expected then Inr False
              else verify_links fid (ge_hash e) es))"

definition verify_event_chain :: "string \<Rightarrow> gov \<Rightarrow> bool outcome" where
  "verify_event_chain fid s = verify_links fid [] (list_events fid s)"

section \<open>Upgrading an existing database\<close>

text \<open>
  \<open>_backfill_event_sequences\<close> follows the hash links of a finding's events from the empty
  hash. \<open>by_previous\<close> keeps, for each previous hash, the last event in the order of time and
  identifier. The \<open>while\<close> loop runs on fuel; \<open>None\<close> means it did not end within the fuel.
\<close>

definition by_previous :: "gov_event list \<Rightarrow> string \<Rightarrow> gov_event option" where
  "by_previous rows h = List.find (\<lambda>e. ge_prev e = h) (rev rows)"

fun follow_links :: "nat \<Rightarrow> gov_event list \<Rightarrow> string \<Rightarrow> gov_event list option" where
  "follow_links 0 rows h = None"
| "follow_links (Suc n) rows h =
     (case by_previous rows h of
        None \<Rightarrow> Some []
      | Some e \<Rightarrow> map_option (\<lambda>es. e # es) (follow_links n rows (ge_hash e)))"

definition chain_order :: "gov_event list \<Rightarrow> gov_event list option" where
  "chain_order rows =
     map_option
       (\<lambda>ordered. ordered @ filter (\<lambda>e. ge_id e \<notin> set (map ge_id ordered)) rows)
       (follow_links (Suc (length rows)) rows [])"

fun number_events :: "nat \<Rightarrow> gov_event list \<Rightarrow> gov_event list \<Rightarrow> gov_event list" where
  "number_events n [] es = es"
| "number_events n (r # rs) es =
     number_events (Suc n) rs (update_where (\<lambda>e. ge_id e = ge_id r) (\<lambda>e. e\<lparr>ge_seq := n\<rparr>) es)"

definition backfill_sequence :: "string \<Rightarrow> gov_event list \<Rightarrow> gov_event list option" where
  "backfill_sequence fid es =
     (let rows = sort_key (\<lambda>e. (ge_occurred e, ge_id e)) (events_for fid es) in
      if rows \<noteq> [] \<and> list_all (\<lambda>e. 0 < ge_seq e) rows then Some es
      else map_option (\<lambda>ordered. number_events 1 ordered es) (chain_order rows))"

fun backfill_all :: "string list \<Rightarrow> gov_event list \<Rightarrow> gov_event list option" where
  "backfill_all [] es = Some es"
| "backfill_all (fid # fids) es =
     (case backfill_sequence fid es of None \<Rightarrow> None | Some es' \<Rightarrow> backfill_all fids es')"

definition backfill_event_sequences :: "gov_event list \<Rightarrow> gov_event list option" where
  "backfill_event_sequences es = backfill_all (remdups (map ge_finding es)) es"

definition backfill_payload :: "gov_event \<Rightarrow> string option" where
  "backfill_payload e =
     map_option (\<lambda>details.
       json_dumps compact_ascii (JObj
         [(''finding_id'', JStr (ge_finding e)), (''event_type'', JStr (ge_type e)),
          (''actor_id'', JStr (ge_actor e)), (''actor_role'', JStr (ge_role e)),
          (''auth_method'', JStr (ge_auth e)), (''occurred_at'', JFloat (Fixed (ge_occurred e))),
          (''details'', details), (''previous_hash'', JStr (ge_prev e)), (''event_id'', JStr (ge_id e)),
          (''event_sequence'', JInt (int (ge_seq e))), (''event_hash'', JStr (ge_hash e))]))
       (json_loads (ge_details e))"

definition backfill_export_id :: "gov_event \<Rightarrow> string" where
  "backfill_export_id e = take 32 (text_hash (''audit-export:'' @ ge_id e))"

text \<open>\<open>INSERT OR IGNORE\<close>: a row that breaks a uniqueness constraint is skipped.\<close>

fun backfill_exports :: "gov_event list \<Rightarrow> export_row list \<Rightarrow> export_row list outcome" where
  "backfill_exports [] xs = Inr xs"
| "backfill_exports (e # es) xs =
     (case backfill_payload e of
        None \<Rightarrow> Inl JSONDecodeError
      | Some payload \<Rightarrow>
          (case insert_row export_constraints
                  (new_export (backfill_export_id e) (ge_id e) (ge_finding e) (ge_seq e) payload (ge_occurred e)) xs
           of Inl _ \<Rightarrow> backfill_exports es xs
            | Inr xs' \<Rightarrow> backfill_exports es xs'))"

definition backfill_audit_exports :: "gov \<Rightarrow> export_row list outcome" where
  "backfill_audit_exports s =
     backfill_exports (sort_key (\<lambda>e. (ge_finding e, ge_seq e)) (events s)) (exports s)"

end
