(* ===== verification/Governance_Steps.thy ===== *)
theory Governance_Steps
  imports Governance_Core
begin

text \<open>
  What each governance transaction does to the tables, and the histories of the database. A
  history is the list of committed states, the latest first. A step reads one earlier state
  in its check phase and commits on the latest one, so a history covers every interleaving of
  concurrent requests at the granularity of transactions; it is serial when every check
  reads the state it commits on. Delivery workers only touch the delivery columns.
\<close>

section \<open>Events\<close>

definition event_rows ::
    "env \<Rightarrow> string \<Rightarrow> string \<Rightarrow> actor \<Rightarrow> json \<Rightarrow> int \<Rightarrow> gov_event list \<Rightarrow> gov_event \<times> outbox_row \<times> export_row" where
  "event_rows env fid etype a details now es =
     (let e = new_event (event_uuid env) fid etype a details now es;
          payload = event_payload fid etype a now details (ge_prev e) (ge_id e) (ge_seq e) (ge_hash e)
      in (e, new_outbox (outbox_uuid env) (ge_id e) fid (ge_seq e) payload now,
          new_export (export_uuid env) (ge_id e) fid (ge_seq e) payload now))"

definition append_rows :: "gov_event \<times> outbox_row \<times> export_row \<Rightarrow> gov \<Rightarrow> gov" where
  "append_rows rows s = (case rows of (e, r, x) \<Rightarrow>
     s\<lparr>events := events s @ [e], outbox := outbox s @ [r], exports := exports s @ [x]\<rparr>)"

definition log_event ::
    "env \<Rightarrow> string \<Rightarrow> string \<Rightarrow> actor \<Rightarrow> json \<Rightarrow> int \<Rightarrow> gov \<Rightarrow> gov" where
  "log_event env fid etype a details now s =
     append_rows (event_rows env fid etype a details now (events s)) s"

definition fresh_rows :: "gov_event \<times> outbox_row \<times> export_row \<Rightarrow> gov \<Rightarrow> bool" where
  "fresh_rows rows s = (case rows of (e, r, x) \<Rightarrow>
     (\<forall>y \<in> set (events s). ge_id e \<noteq> ge_id y \<and> ge_hash e \<noteq> ge_hash y)
     \<and> (\<forall>y \<in> set (outbox s). ob_id r \<noteq> ob_id y \<and> ob_event r \<noteq> ob_event y
          \<and> (ob_finding r, ob_seq r) \<noteq> (ob_finding y, ob_seq y))
     \<and> (\<forall>y \<in> set (exports s). xp_id x \<noteq> xp_id y \<and> xp_event x \<noteq> xp_event y
          \<and> (xp_finding x, xp_seq x) \<noteq> (xp_finding y, xp_seq y)))"

definition loggable ::
    "env \<Rightarrow> string \<Rightarrow> string \<Rightarrow> actor \<Rightarrow> json \<Rightarrow> int \<Rightarrow> gov \<Rightarrow> bool" where
  "loggable env fid etype a details now s =
     (find_finding fid s \<noteq> None \<and> fresh_rows (event_rows env fid etype a details now (events s)) s)"

lemma find_finding_cong: "findings s = findings t \<Longrightarrow> find_finding fid s = find_finding fid t"
  by (simp add: find_finding_def)

lemma new_event_columns [simp]:
  "ge_id (new_event eid fid etype a d now es) = eid"
  "ge_finding (new_event eid fid etype a d now es) = fid"
  "ge_seq (new_event eid fid etype a d now es) = next_sequence fid es"
  by (simp_all add: new_event_def Let_def)

lemma insert_event_ok:
  "insert_event e s = Inr s' \<longleftrightarrow> find_finding (ge_finding e) s \<noteq> None
     \<and> (\<forall>y \<in> set (events s). ge_id e \<noteq> ge_id y \<and> ge_hash e \<noteq> ge_hash y)
     \<and> s' = s\<lparr>events := events s @ [e]\<rparr>"
  by (auto simp: insert_event_def foreign_key_def outcome_simps)

lemma insert_outbox_ok:
  "insert_outbox r s = Inr s' \<longleftrightarrow> (\<exists>e \<in> set (events s). ge_id e = ob_event r)
     \<and> (\<forall>y \<in> set (outbox s). ob_id r \<noteq> ob_id y \<and> ob_event r \<noteq> ob_event y
          \<and> (ob_finding r, ob_seq r) \<noteq> (ob_finding y, ob_seq y))
     \<and> s' = s\<lparr>outbox := outbox s @ [r]\<rparr>"
  by (auto simp: insert_outbox_def foreign_key_def outcome_simps list_ex_iff)

lemma insert_export_ok:
  "insert_export r s = Inr s' \<longleftrightarrow> (\<exists>e \<in> set (events s). ge_id e = xp_event r)
     \<and> (\<forall>y \<in> set (exports s). xp_id r \<noteq> xp_id y \<and> xp_event r \<noteq> xp_event y
          \<and> (xp_finding r, xp_seq r) \<noteq> (xp_finding y, xp_seq y))
     \<and> s' = s\<lparr>exports := exports s @ [r]\<rparr>"
  by (auto simp: insert_export_def foreign_key_def export_constraints_def outcome_simps list_ex_iff)

lemma new_rows_columns [simp]:
  "ob_event (new_outbox i e f n p t) = e" "ob_finding (new_outbox i e f n p t) = f"
  "ob_seq (new_outbox i e f n p t) = n" "ob_id (new_outbox i e f n p t) = i"
  "ob_payload (new_outbox i e f n p t) = p"
  "xp_event (new_export i e f n p t) = e" "xp_finding (new_export i e f n p t) = f"
  "xp_seq (new_export i e f n p t) = n" "xp_id (new_export i e f n p t) = i"
  "xp_payload (new_export i e f n p t) = p"
  by (simp_all add: new_outbox_def new_export_def)

lemma record_event_iff:
  "record_event env fid etype a d now s = Inr s' \<longleftrightarrow>
     loggable env fid etype a d now s \<and> s' = log_event env fid etype a d now s"
proof -
  have step: "(\<exists>x. insert_event e s = Inr x \<and> (\<exists>y. insert_outbox r x = Inr y \<and> insert_export w y = Inr s'))
      \<longleftrightarrow> find_finding (ge_finding e) s \<noteq> None \<and> fresh_rows (e, r, w) s \<and> s' = append_rows (e, r, w) s"
    if "ob_event r = ge_id e" "xp_event w = ge_id e" for e r w
    using that by (auto simp: insert_event_ok insert_outbox_ok insert_export_ok fresh_rows_def append_rows_def)
  show ?thesis
    by (simp add: record_event_def loggable_def log_event_def event_rows_def Let_def
        outcome_bind_eq_Inr step)
qed

lemma log_event_frame [simp]:
  "findings (log_event env fid etype a d now s) = findings s"
  "risk_records (log_event env fid etype a d now s) = risk_records s"
  "risk_treatments (log_event env fid etype a d now s) = risk_treatments s"
  "approvals (log_event env fid etype a d now s) = approvals s"
  "actions (log_event env fid etype a d now s) = actions s"
  "evidence (log_event env fid etype a d now s) = evidence s"
  "verifications (log_event env fid etype a d now s) = verifications s"
  "closures (log_event env fid etype a d now s) = closures s"
  by (simp_all add: log_event_def append_rows_def event_rows_def Let_def)

lemma log_event_log:
  "events (log_event env fid etype a d now s) =
     events s @ [fst (event_rows env fid etype a d now (events s))]"
  "outbox (log_event env fid etype a d now s) =
     outbox s @ [fst (snd (event_rows env fid etype a d now (events s)))]"
  "exports (log_event env fid etype a d now s) =
     exports s @ [snd (snd (event_rows env fid etype a d now (events s)))]"
  by (simp_all add: log_event_def append_rows_def split_beta)

section \<open>Transactions on one finding\<close>

lemma find_finding_some:
  "find_finding fid s = Some f \<Longrightarrow> f \<in> set (findings s) \<and> f_id f = fid"
  by (auto simp: find_finding_def dest: find_Some_mem)

lemma find_finding_iff:
  "distinct (map f_id (findings s)) \<Longrightarrow>
     find_finding fid s = Some f \<longleftrightarrow> f \<in> set (findings s) \<and> f_id f = fid"
  using find_key [of f_id "findings s"] by (auto simp: find_finding_def dest: find_Some_mem)

lemma find_update_where:
  "(\<And>r. key (f r) = key r) \<Longrightarrow>
     List.find (\<lambda>r. key r = k) (update_where (\<lambda>r. key r = k) f t) =
       map_option f (List.find (\<lambda>r. key r = k) t)"
  by (induction t) auto

lemma find_set_finding:
  "(\<And>r. f_id (g r) = f_id r) \<Longrightarrow>
     find_finding fid (set_finding fid g s) = map_option g (find_finding fid s)"
  by (simp add: find_finding_def set_finding_def find_update_where)

lemma set_finding_frame [simp]:
  "events (set_finding fid g s) = events s" "outbox (set_finding fid g s) = outbox s"
  "exports (set_finding fid g s) = exports s" "approvals (set_finding fid g s) = approvals s"
  "evidence (set_finding fid g s) = evidence s" "verifications (set_finding fid g s) = verifications s"
  "closures (set_finding fid g s) = closures s"
  by (simp_all add: set_finding_def)

text \<open>A transaction of \<open>_mutate\<close> leaves the database as it was, or does all of its writes.\<close>

lemma mutate_effect:
  assumes "mutate env fid a etype new d upd allowed work s = (res, s')"
    and frame: "\<forall>t t'. work t = Inr t' \<longrightarrow> findings t' = findings t"
    and ids: "\<And>f. f_id (upd f) = f_id f"
  shows "(s' = s \<and> (\<exists>e. res = Inl e)) \<or>
    (\<exists>row. find_finding fid s = Some row \<and> f_status row \<in> set allowed
       \<and> (let U = (\<lambda>f. upd (f\<lparr>f_status := new, f_updated := clock env\<rparr>)) in
          loggable env fid etype a d (clock env) (set_finding fid U s)
          \<and> work (log_event env fid etype a d (clock env) (set_finding fid U s)) = Inr s'
          \<and> res = Inr (U row)))"
proof -
  let ?U = "\<lambda>f. upd (f\<lparr>f_status := new, f_updated := clock env\<rparr>)"
  let ?body = "mutate_body env fid a etype new d upd allowed work s"
  show ?thesis
  proof (cases ?body)
    case (Inl e)
    then show ?thesis using assms(1) by (auto simp: mutate_def then_get_def)
  next
    case (Inr t)
    then obtain row where row: "find_finding fid s = Some row" "f_status row \<in> set allowed"
      "loggable env fid etype a d (clock env) (set_finding fid ?U s)"
      "work (log_event env fid etype a d (clock env) (set_finding fid ?U s)) = Inr t"
      by (auto simp: mutate_body_def record_event_iff outcome_bind_eq_Inr split: option.splits if_splits)
    have "findings t = findings (set_finding fid ?U s)" using frame row(4) by (metis log_event_frame(1))
    then have "find_finding fid t = find_finding fid (set_finding fid ?U s)" by (rule find_finding_cong)
    also have "\<dots> = Some (?U row)" using row(1) ids by (subst find_set_finding) auto
    finally have "get_finding fid t = Inr (?U row)" by (simp add: get_finding_def)
    then show ?thesis using assms(1) Inr row by (auto simp: mutate_def then_get_def Let_def)
  qed
qed

section \<open>Steps and histories\<close>

definition same_message :: "outbox_row \<Rightarrow> outbox_row \<Rightarrow> bool" where
  "same_message r r' = (ob_id r' = ob_id r \<and> ob_event r' = ob_event r \<and> ob_finding r' = ob_finding r
     \<and> ob_seq r' = ob_seq r \<and> ob_topic r' = ob_topic r \<and> ob_payload r' = ob_payload r
     \<and> ob_created r' = ob_created r)"

definition same_export :: "export_row \<Rightarrow> export_row \<Rightarrow> bool" where
  "same_export x x' = (xp_id x' = xp_id x \<and> xp_event x' = xp_event x \<and> xp_finding x' = xp_finding x
     \<and> xp_seq x' = xp_seq x \<and> xp_payload x' = xp_payload x \<and> xp_created x' = xp_created x)"

inductive gov_step :: "gov \<Rightarrow> gov \<Rightarrow> gov \<Rightarrow> bool" where
  step_create:
    "create_finding env fid control asset title owner sev a s = (res, s') \<Longrightarrow> gov_step r s s'"
| step_reassess:
    "finding_inputs fid control asset title owner sev a = Inr (fid', control', asset', title', owner', sev') \<Longrightarrow>
     reassess env fid' control' asset' title' owner' sev' a s = (res, s') \<Longrightarrow> gov_step r s s'"
| step_assess:
    "assess_check fid a likelihood impact r = Inr (l, i, f) \<Longrightarrow>
     assess_commit env fid a l i f s = (res, s') \<Longrightarrow> gov_step r s s'"
| step_propose:
    "propose_check a ttype reason owner due = Inr (reason', owner', due') \<Longrightarrow>
     propose_commit env fid a ttype reason' owner' due' s = (res, s') \<Longrightarrow> gov_step r s s'"
| step_approve:
    "approve_check fid a decision r = Inr status \<Longrightarrow>
     approve_commit env fid a decision reason status s = (res, s') \<Longrightarrow> gov_step r s s'"
| step_start:
    "start_check fid a implementer r = Inr (impl, f) \<Longrightarrow>
     start_commit env fid a impl f s = (res, s') \<Longrightarrow> gov_step r s s'"
| step_submit:
    "submit_check fid a source c r = Inr (Proceed source' raw digest) \<Longrightarrow> so_sha256 ob = digest \<Longrightarrow>
     commit_evidence env fid a source' digest eid ob s = (res, s') \<Longrightarrow> gov_step r s s'"
| step_verify:
    "verify_check fid a r = Inr () \<Longrightarrow>
     verify_commit env fid a passed notes s = (res, s') \<Longrightarrow> gov_step r s s'"
| step_close:
    "close_check fid a r = Inr () \<Longrightarrow> close_commit env fid a reason s = (res, s') \<Longrightarrow> gov_step r s s'"
| step_delivery:
    "list_all2 same_message (outbox s) ob \<Longrightarrow> list_all2 same_export (exports s) xs \<Longrightarrow>
     gov_step r s (s\<lparr>outbox := ob, exports := xs\<rparr>)"

inductive history :: "gov list \<Rightarrow> bool" where
  history_empty: "history [empty_gov]"
| history_step: "history (s # hs) \<Longrightarrow> r \<in> set (s # hs) \<Longrightarrow> gov_step r s s' \<Longrightarrow> history (s' # s # hs)"

inductive serial :: "gov list \<Rightarrow> bool" where
  serial_empty: "serial [empty_gov]"
| serial_step: "serial (s # hs) \<Longrightarrow> gov_step s s s' \<Longrightarrow> serial (s' # s # hs)"

inductive_cases history_Cons_cases: "history (s # hs)"

lemma serial_history: "serial hs \<Longrightarrow> history hs"
  by (induction rule: serial.induct) (auto intro: history.intros)

text \<open>The operations as the callers run them are steps of a serial history.\<close>

lemma operation_steps:
  "gov_step s s (snd (create_finding env fid control asset title owner sev a s))"
  "gov_step s s (snd (assess_risk env fid a likelihood impact s))"
  "gov_step s s (snd (propose_treatment env fid a ttype reason owner due s))"
  "gov_step s s (snd (approve_treatment env fid a decision reason s))"
  "gov_step s s (snd (start_action env fid a implementer s))"
  "gov_step s s (snd (verify env fid a passed reason s))"
  "gov_step s s (snd (close env fid a reason s))"
proof -
  have same: "gov_step s s s"
    using step_delivery [of s "outbox s" "exports s" s]
    by (simp add: list_all2_same same_message_def same_export_def)
  note defs = assess_risk_def propose_treatment_def approve_treatment_def start_action_def
    verify_def close_def
  show "gov_step s s (snd (create_finding env fid control asset title owner sev a s))"
    by (rule step_create [OF prod.collapse [symmetric]])
  show "gov_step s s (snd (assess_risk env fid a likelihood impact s))"
    by (auto simp: defs same split: sum.splits intro: step_assess [OF _ prod.collapse [symmetric]])
  show "gov_step s s (snd (propose_treatment env fid a ttype reason owner due s))"
    by (auto simp: defs same split: sum.splits intro: step_propose [OF _ prod.collapse [symmetric]])
  show "gov_step s s (snd (approve_treatment env fid a decision reason s))"
    by (auto simp: defs same split: sum.splits intro: step_approve [OF _ prod.collapse [symmetric]])
  show "gov_step s s (snd (start_action env fid a implementer s))"
    by (auto simp: defs same split: sum.splits intro: step_start [OF _ prod.collapse [symmetric]])
  show "gov_step s s (snd (verify env fid a passed reason s))"
    by (auto simp: defs same split: sum.splits intro: step_verify [OF _ prod.collapse [symmetric]])
  show "gov_step s s (snd (close env fid a reason s))"
    by (auto simp: defs same split: sum.splits intro: step_close [OF _ prod.collapse [symmetric]])
qed

section \<open>What one step writes\<close>

text \<open>
  Every step is one of four kinds: it writes nothing, it only moves delivery columns, it adds a
  finding with its first event, or it rewrites one finding and adds one event and at most one
  record. The record tables only grow, risk records excepted.
\<close>

definition writes_event :: "gov \<Rightarrow> gov \<Rightarrow> string \<Rightarrow> bool" where
  "writes_event s s' fid = (\<exists>env etype a d now b. loggable env fid etype a d now b \<and> json_wf d
     \<and> events b = events s \<and> outbox b = outbox s \<and> exports b = exports s \<and> findings s' = findings b
     \<and> events s' = events (log_event env fid etype a d now b)
     \<and> outbox s' = outbox (log_event env fid etype a d now b)
     \<and> exports s' = exports (log_event env fid etype a d now b))"

lemma writes_eventI:
  "loggable env fid etype a d now b \<Longrightarrow> json_wf d \<Longrightarrow> events b = events s \<Longrightarrow> outbox b = outbox s \<Longrightarrow>
   exports b = exports s \<Longrightarrow> findings s' = findings b \<Longrightarrow>
   events s' = events (log_event env fid etype a d now b) \<Longrightarrow>
   outbox s' = outbox (log_event env fid etype a d now b) \<Longrightarrow>
   exports s' = exports (log_event env fid etype a d now b) \<Longrightarrow> writes_event s s' fid"
  unfolding writes_event_def by blast

lemma json_wf_details [simp]:
  "json_wf (identity_details control asset severity)"
  "json_wf (JObj [(''likelihood'', JStr l), (''impact'', JStr i)])"
  "json_wf (JObj [(''treatment_type'', JStr l), (''reason'', JStr i), (''action_owner'', JStr o')])"
  "json_wf (JObj [(''decision'', JStr l), (''reason'', JStr i)])"
  "json_wf (JObj [(''implementer'', JStr l)])"
  "json_wf (evidence_details eid source ob)"
  "json_wf (JObj [(''passed'', JBool b), (''notes'', JStr l)])"
  "json_wf (JObj [(''reason'', JStr l)])"
  by (simp_all add: identity_details_def evidence_details_def)

text \<open>
  The columns a transition sets, given the old row, without the reads that decided it. The flag
  \<open>fresh\<close> says that the check phase read the state the transaction commits on; only the
  choice between the approved and the accepted status depends on it.
\<close>

inductive moved :: "bool \<Rightarrow> gov \<Rightarrow> gov \<Rightarrow> finding \<Rightarrow> finding \<Rightarrow> bool" for fresh s s' where
  m_reassessed: "f_status g = f_status f \<Longrightarrow> f_treatment g = f_treatment f \<Longrightarrow>
     f_action_owner g = f_action_owner f \<Longrightarrow> f_implementer g = f_implementer f \<Longrightarrow>
     f_submitter g = f_submitter f \<Longrightarrow> moved fresh s s' f g"
| m_assessed: "f_status f \<in> {''open'', ''rejected''} \<Longrightarrow> f_status g = ''risk_assessed'' \<Longrightarrow> moved fresh s s' f g"
| m_proposed: "f_status f = ''risk_assessed'' \<Longrightarrow> f_status g = ''pending_approval'' \<Longrightarrow>
     f_treatment g \<noteq> None \<Longrightarrow> f_action_owner g \<noteq> None \<Longrightarrow> moved fresh s s' f g"
| m_rejected: "f_status f = ''pending_approval'' \<Longrightarrow> f_status g = ''risk_assessed'' \<Longrightarrow> moved fresh s s' f g"
| m_approved: "f_status f = ''pending_approval'' \<Longrightarrow> f_status g \<in> {''approved'', ''accepted''} \<Longrightarrow>
     (fresh \<Longrightarrow> f_status g = ''accepted'' \<longleftrightarrow> f_treatment f = Some ''accept'') \<Longrightarrow>
     f_treatment g = f_treatment f \<Longrightarrow> f_action_owner g = f_action_owner f \<Longrightarrow>
     approvals s' = approvals s @ [r] \<Longrightarrow> ap_finding r = f_id f \<Longrightarrow> ap_decision r = ''approved'' \<Longrightarrow>
     moved fresh s s' f g"
| m_started: "f_status f = ''approved'' \<Longrightarrow> f_status g = ''in_progress'' \<Longrightarrow>
     f_treatment g = f_treatment f \<Longrightarrow> f_action_owner g = f_action_owner f \<Longrightarrow>
     f_implementer g \<noteq> None \<Longrightarrow> moved fresh s s' f g"
| m_submitted: "f_status f = ''in_progress'' \<Longrightarrow> f_status g = ''pending_verification'' \<Longrightarrow>
     f_treatment g = f_treatment f \<Longrightarrow> f_action_owner g = f_action_owner f \<Longrightarrow>
     f_implementer g = f_implementer f \<Longrightarrow> f_submitter g = Some u \<Longrightarrow>
     evidence s' = evidence s @ [v] \<Longrightarrow> ev_finding v = f_id f \<Longrightarrow> ev_submitted_by v = u \<Longrightarrow>
     moved fresh s s' f g"
| m_verified: "f_status f = ''pending_verification'' \<Longrightarrow> f_status g = ''verified'' \<Longrightarrow>
     f_treatment g = f_treatment f \<Longrightarrow> f_action_owner g = f_action_owner f \<Longrightarrow>
     f_implementer g = f_implementer f \<Longrightarrow> f_submitter g = f_submitter f \<Longrightarrow>
     verifications s' = verifications s @ [w] \<Longrightarrow> vr_finding w = f_id f \<Longrightarrow> vr_result w = ''passed'' \<Longrightarrow>
     moved fresh s s' f g"
| m_returned: "f_status f = ''pending_verification'' \<Longrightarrow> f_status g = ''in_progress'' \<Longrightarrow>
     f_treatment g = f_treatment f \<Longrightarrow> f_action_owner g = f_action_owner f \<Longrightarrow>
     f_implementer g = f_implementer f \<Longrightarrow> f_submitter g = f_submitter f \<Longrightarrow> moved fresh s s' f g"
| m_closed: "f_status f \<in> {''verified'', ''accepted''} \<Longrightarrow> f_status g = ''closed'' \<Longrightarrow>
     f_treatment g = f_treatment f \<Longrightarrow> f_action_owner g = f_action_owner f \<Longrightarrow>
     f_implementer g = f_implementer f \<Longrightarrow> f_submitter g = f_submitter f \<Longrightarrow>
     closures s' = closures s @ [c] \<Longrightarrow> cl_finding c = f_id f \<Longrightarrow> moved fresh s s' f g"

inductive_simps moved_simps: "moved fresh s s' f g"

definition grows :: "gov \<Rightarrow> gov \<Rightarrow> bool" where
  "grows s s' = (set (approvals s) \<subseteq> set (approvals s') \<and> set (evidence s) \<subseteq> set (evidence s')
     \<and> set (verifications s) \<subseteq> set (verifications s') \<and> set (closures s) \<subseteq> set (closures s'))"

inductive effect :: "bool \<Rightarrow> gov \<Rightarrow> gov \<Rightarrow> bool" for fresh where
  eff_none: "effect fresh s s"
| eff_delivery:
    "list_all2 same_message (outbox s) ob \<Longrightarrow> list_all2 same_export (exports s) xs \<Longrightarrow>
     effect fresh s (s\<lparr>outbox := ob, exports := xs\<rparr>)"
| eff_create:
    "f_id f \<notin> f_id ` set (findings s) \<Longrightarrow> f_status f = ''open'' \<Longrightarrow>
     findings s' = findings s @ [f] \<Longrightarrow> writes_event s s' (f_id f) \<Longrightarrow> grows s s' \<Longrightarrow> effect fresh s s'"
| eff_move:
    "find_finding fid s = Some f \<Longrightarrow> (\<And>x. f_id (g x) = f_id x) \<Longrightarrow> moved fresh s s' f (g f) \<Longrightarrow>
     findings s' = update_where (\<lambda>x. f_id x = fid) g (findings s) \<Longrightarrow>
     writes_event s s' fid \<Longrightarrow> grows s s' \<Longrightarrow> effect fresh s s'"

text \<open>The contract of the statement a transaction ends with: it appends to its own table.\<close>

definition workflow_ok :: "(gov \<Rightarrow> gov outcome) \<Rightarrow> bool" where
  "workflow_ok w = (\<forall>t t'. w t = Inr t' \<longrightarrow> findings t' = findings t \<and> events t' = events t
     \<and> outbox t' = outbox t \<and> exports t' = exports t \<and> grows t t')"

lemma workflow_ok_inserts [simp]:
  "workflow_ok (upsert_risk rr)" "workflow_ok (insert_treatment rt)"
  "workflow_ok (insert_approval ap)" "workflow_ok (insert_action ac)"
  "workflow_ok (insert_verification vr)" "workflow_ok (insert_closure cl)"
  by (auto simp: workflow_ok_def grows_def upsert_risk_def insert_treatment_def insert_approval_def
      insert_action_def insert_verification_def insert_closure_def outcome_simps split: if_splits)

lemma mutate_moves:
  assumes run: "mutate env fid a etype new d upd allowed work s = (res, s')"
    and work: "workflow_ok work" and ids: "\<And>f. f_id (upd f) = f_id f" and d: "json_wf d"
    and move: "\<And>row t. find_finding fid s = Some row \<Longrightarrow> f_status row \<in> set allowed \<Longrightarrow> f_id row = fid \<Longrightarrow> approvals t = approvals s \<Longrightarrow>
       verifications t = verifications s \<Longrightarrow> closures t = closures s \<Longrightarrow> work t = Inr s' \<Longrightarrow>
       moved fresh s s' row (upd (row\<lparr>f_status := new, f_updated := clock env\<rparr>))"
  shows "effect fresh s s'"
proof -
  let ?U = "\<lambda>f. upd (f\<lparr>f_status := new, f_updated := clock env\<rparr>)"
  let ?b = "set_finding fid ?U s"
  let ?t = "log_event env fid etype a d (clock env) ?b"
  have frame: "\<forall>t t'. work t = Inr t' \<longrightarrow> findings t' = findings t"
    using work by (simp add: workflow_ok_def)
  from mutate_effect [OF run frame ids] show ?thesis
  proof (elim disjE exE conjE)
    fix row assume row: "find_finding fid s = Some row" "f_status row \<in> set allowed"
      and rest: "let U = ?U in loggable env fid etype a d (clock env) (set_finding fid U s)
        \<and> work (log_event env fid etype a d (clock env) (set_finding fid U s)) = Inr s' \<and> res = Inr (U row)"
    then have log: "loggable env fid etype a d (clock env) ?b" and w: "work ?t = Inr s'"
      by (simp_all add: Let_def)
    have t: "findings s' = findings ?t" "events s' = events ?t" "outbox s' = outbox ?t"
      "exports s' = exports ?t" "grows ?t s'" using work w by (auto simp: workflow_ok_def)
    have "moved fresh s s' row (?U row)" by (rule move [OF row _ _ _ _ w]) (use find_finding_some [OF row(1)] in simp_all)
    moreover have "writes_event s s' fid"
      by (rule writes_eventI [OF log d]) (use t in simp_all)
    ultimately show ?thesis using t ids
      by (intro eff_move [OF row(1)]) (auto simp: set_finding_def grows_def)
  qed (simp add: eff_none)
qed

lemma create_effect:
  assumes "create_finding env fid control asset title owner sev a s = (res, s')"
  shows "effect fresh s s'"
proof -
  have body: "effect fresh s t" if c: "create_body env f a s = Inr t" and f: "f_status f = ''open''" for f t
  proof -
    let ?b = "s\<lparr>findings := findings s @ [f]\<rparr>"
    have new: "f_id f \<notin> f_id ` set (findings s)"
      and log: "loggable env (f_id f) ''finding_created'' a
          (identity_details (f_control f) (f_asset f) (f_severity f)) (f_created f) ?b"
      and t: "t = log_event env (f_id f) ''finding_created'' a
          (identity_details (f_control f) (f_asset f) (f_severity f)) (f_created f) ?b"
      using c by (auto simp: create_body_def record_event_iff outcome_simps image_iff
          split: sum.splits py_error.splits)
    have "writes_event s t (f_id f)" by (rule writes_eventI [OF log]) (simp_all add: t)
    then show ?thesis using new f by (intro eff_create [of f]) (auto simp: t grows_def)
  qed
  have whole: "effect fresh s (snd (then_get i (transact s (outcome_bind (create_body env f a s) (\<lambda>s'. Inr (s', ()))))))"
    if "f_status f = ''open''" for f i
    using body [OF _ that] by (cases "create_body env f a s") (auto simp: then_get_def eff_none)
  have "snd (create_finding env fid control asset title owner sev a s) = s'" using assms by simp
  moreover have "effect fresh s (snd (create_finding env fid control asset title owner sev a s))"
    by (auto simp: create_finding_def new_finding_def eff_none split: sum.splits intro!: whole)
  ultimately show ?thesis by simp
qed

lemma transact_then_get:
  assumes "then_get fid (transact s (outcome_bind body (\<lambda>s'. Inr (s', ())))) = (res, s')"
  shows "s' = s \<or> body = Inr s'"
  using assms by (cases body) (auto simp: then_get_def)

lemma reassess_effect:
  assumes "reassess env fid control asset title owner sev a s = (res, s')"
  shows "effect fresh s s'"
proof -
  let ?g = "\<lambda>f. f\<lparr>f_title := title, f_risk_owner := owner, f_severity := sev, f_updated := clock env\<rparr>"
  let ?b = "set_finding fid ?g s" and ?d = "identity_details control asset sev"
  have "s' = s \<or> (\<exists>row. find_finding fid s = Some row
      \<and> loggable env fid ''finding_reassessed'' a ?d (clock env) ?b
      \<and> s' = log_event env fid ''finding_reassessed'' a ?d (clock env) ?b)"
    using transact_then_get [OF assms [unfolded reassess_def]]
    by (auto simp: reassess_body_def record_event_iff split: option.splits if_splits)
  then show ?thesis
  proof (elim disjE exE conjE)
    fix row assume row: "find_finding fid s = Some row"
      and log: "loggable env fid ''finding_reassessed'' a ?d (clock env) ?b"
      and s': "s' = log_event env fid ''finding_reassessed'' a ?d (clock env) ?b"
    have "writes_event s s' fid" by (rule writes_eventI [OF log]) (simp_all add: s')
    then show ?thesis
      by (intro eff_move [OF row, of ?g]) (auto simp: s' set_finding_def grows_def intro: m_reassessed)
  qed (simp add: eff_none)
qed

lemma submit_effect:
  assumes "commit_evidence env fid a source digest eid ob s = (res, s')"
  shows "effect fresh s s'"
proof -
  let ?v = "new_evidence eid fid source (actor_id a) ob (clock env)"
  let ?g = "\<lambda>f. f\<lparr>f_status := ''pending_verification'', f_submitter := Some (actor_id a), f_updated := clock env\<rparr>"
  let ?b = "set_finding fid ?g (s\<lparr>evidence := evidence s @ [?v]\<rparr>)"
  let ?d = "evidence_details eid source ob"
  have "s' = s \<or> (\<exists>row. find_finding fid s = Some row \<and> f_status row = ''in_progress''
      \<and> loggable env fid ''evidence_submitted'' a ?d (clock env) ?b
      \<and> s' = log_event env fid ''evidence_submitted'' a ?d (clock env) ?b)"
    using transact_then_get [OF assms [unfolded commit_evidence_def]]
    by (auto simp: submit_body_def insert_evidence_def record_event_iff outcome_simps
        split: option.splits if_splits)
  then show ?thesis
  proof (elim disjE exE conjE)
    fix row assume row: "find_finding fid s = Some row" "f_status row = ''in_progress''"
      and log: "loggable env fid ''evidence_submitted'' a ?d (clock env) ?b"
      and s': "s' = log_event env fid ''evidence_submitted'' a ?d (clock env) ?b"
    have "writes_event s s' fid" by (rule writes_eventI [OF log]) (simp_all add: s')
    moreover have "moved fresh s s' row (?g row)"
      by (rule m_submitted [where u = "actor_id a" and v = ?v]) (use row find_finding_some [OF row(1)] in \<open>simp_all add: s' new_evidence_def\<close>)
    ultimately show ?thesis
      by (intro eff_move [OF row(1), of ?g]) (auto simp: s' set_finding_def grows_def)
  qed (simp add: eff_none)
qed

lemma approve_decisions:
  "approve_check fid a decision r = Inr status \<Longrightarrow>
     (decision = ''approved'' \<and> status \<in> {''approved'', ''accepted''})
     \<or> (decision \<noteq> ''approved'' \<and> status = ''risk_assessed'')"
  by (auto simp: approve_check_def treatment_approval_status_def outcome_simps split: if_splits)

lemma get_finding_ok [outcome_simps]: "get_finding fid s = Inr f \<longleftrightarrow> find_finding fid s = Some f"
  by (auto simp: get_finding_def split: option.splits)

lemma approve_accepts:
  "approve_check fid a ''approved'' s = Inr status \<Longrightarrow> find_finding fid s = Some f \<Longrightarrow>
     status = ''accepted'' \<longleftrightarrow> f_treatment f = Some ''accept''"
  by (auto simp: approve_check_def treatment_approval_status_def outcome_simps split: if_splits)

lemma approve_effect:
  assumes check: "approve_check fid a decision r = Inr status"
    and run: "approve_commit env fid a decision reason status s = (res, s')"
  shows "effect (r = s) s s'"
proof (rule mutate_moves [OF run [unfolded approve_commit_def]])
  fix row t
  assume row: "find_finding fid s = Some row" "f_status row \<in> set [''pending_approval'']" "f_id row = fid"
    and t: "approvals t = approvals s"
    and w: "insert_approval \<lparr>ap_id = record_prefix ''AP-'' env, ap_finding = fid, ap_decision = decision,
        ap_actor = actor_id a, ap_role = actor_role a, ap_reason = reason\<rparr> t = Inr s'"
  from approve_decisions [OF check]
  show "moved (r = s) s s' row (row\<lparr>f_status := status, f_updated := clock env\<rparr>)"
  proof (elim disjE conjE)
    assume "decision = ''approved''" "status \<in> {''approved'', ''accepted''}"
    then show ?thesis using row t w check approve_accepts [OF _ row(1)]
      by (intro m_approved) (auto simp: insert_approval_def outcome_simps)
  qed (use row in \<open>auto intro: m_rejected\<close>)
qed simp_all

theorem gov_step_effect: "gov_step r s s' \<Longrightarrow> effect (r = s) s s'"
proof (induction rule: gov_step.induct)
  case (step_assess fid a likelihood impact r l i f env s res s')
  from step_assess(2) show ?case unfolding assess_commit_def
    by (rule mutate_moves) (auto intro: m_assessed)
next
  case (step_propose a ttype reason owner due reason' owner' due' env fid s res s' r)
  from step_propose(2) show ?case unfolding propose_commit_def
    by (rule mutate_moves) (auto intro: m_proposed)
next
  case (step_start fid a implementer r impl f env s res s')
  from step_start(2) show ?case unfolding start_commit_def
    by (rule mutate_moves) (auto intro: m_started)
next
  case (step_verify fid a r env passed remark s res s')
  from step_verify(2) show ?case unfolding verify_commit_def
    by (rule mutate_moves)
      (auto simp: insert_verification_def outcome_simps intro: m_verified m_returned)
next
  case (step_close fid a r env reason s res s')
  from step_close(2) show ?case unfolding close_commit_def
    by (rule mutate_moves) (auto simp: insert_closure_def outcome_simps intro: m_closed)
qed (auto intro: create_effect reassess_effect approve_effect submit_effect eff_delivery)

end
