(* ===== verification/Governance_Chain.thy ===== *)
theory Governance_Chain
  imports Governance_Steps
begin

text \<open>
  The log of governance events: in every state of every history, interleaved or not, the
  events of a finding are numbered from one without gaps and form a hash chain that
  \<open>verify_event_chain\<close> accepts, and the outbox and the audit exports hold exactly one
  row per event, with the event's canonical payload. Two chains that verify and end in the
  same hash agree on everything that is hashed, unless two of the texts hashed in
  them collide.
\<close>

section \<open>Events as a hash chain\<close>

definition event_actor :: "gov_event \<Rightarrow> actor" where
  "event_actor e = \<lparr>actor_id = ge_actor e, actor_role = ge_role e, auth_method = ge_auth e\<rparr>"

definition logged_body :: "gov_event \<Rightarrow> json" where
  "logged_body e = json_canon (event_body (ge_finding e) (ge_type e) (event_actor e) (ge_occurred e)
     (the (json_loads (ge_details e))) (ge_prev e))"

definition event_entry :: "gov_event \<Rightarrow> json entry" where
  "event_entry e = (ge_prev e, logged_body e, ge_hash e)"

interpretation gc: fresh_chain "link_text compact_ascii" hex_text canonical_object "[]"
  by unfold_locales (auto dest: link_text_inject [rotated])

lemma event_digest_link:
  "event_digest prev body = text_hash (link_text compact_ascii prev (json_canon body))"
  by (simp add: event_digest_def link_text_def json_dumps_def)

lemma body_keys: "distinct (map fst (body_fields fid etype a now d prev))"
  by (simp add: body_fields_def)

lemma json_wf_event_body: "json_wf d \<Longrightarrow> json_wf (event_body fid etype a now d prev)"
  by (simp add: event_body_def body_fields_def)

lemma canonical_event_body:
  "json_wf d \<Longrightarrow> canonical_object (json_canon (event_body fid etype a now d prev))"
  using canonical_object_canon json_wf_event_body unfolding event_body_def by blast

lemma verify_links_iff:
  assumes "\<forall>e \<in> set es. ge_finding e = fid"
  shows "verify_links fid p es = Inr True \<longleftrightarrow>
     list_all (\<lambda>e. json_loads (ge_details e) \<noteq> None) es \<and> gc.linked p (map event_entry es)"
  using assms
proof (induction es arbitrary: p)
  case (Cons e es)
  show ?case
  proof (cases "json_loads (ge_details e)")
    case (Some d)
    then have "canonical_object (logged_body e)"
      unfolding logged_body_def by (intro canonical_event_body) (simp add: json_loads_wf)
    with Some Cons show ?thesis
      by (auto simp: Let_def event_entry_def event_digest_link logged_body_def event_actor_def)
  qed simp
qed simp

section \<open>The invariant of the log\<close>

definition events_ok :: "string \<Rightarrow> gov_event list \<Rightarrow> bool" where
  "events_ok fid es =
     (let xs = events_for fid es in map ge_seq xs = [1..<Suc (length xs)]
      \<and> list_all (\<lambda>e. json_loads (ge_details e) \<noteq> None) xs \<and> gc.linked [] (map event_entry xs))"

definition published :: "gov_event \<Rightarrow> outbox_row \<Rightarrow> bool" where
  "published e r = (ob_event r = ge_id e \<and> ob_finding r = ge_finding e \<and> ob_seq r = ge_seq e
     \<and> backfill_payload e = Some (ob_payload r))"

definition exported :: "gov_event \<Rightarrow> export_row \<Rightarrow> bool" where
  "exported e x = (xp_event x = ge_id e \<and> xp_finding x = ge_finding e \<and> xp_seq x = ge_seq e
     \<and> backfill_payload e = Some (xp_payload x))"

definition log_inv :: "gov \<Rightarrow> bool" where
  "log_inv s = ((\<forall>fid. events_ok fid (events s))
     \<and> list_all2 published (events s) (outbox s) \<and> list_all2 exported (events s) (exports s)
     \<and> distinct (map f_id (findings s)) \<and> distinct (map ge_id (events s))
     \<and> distinct (map ge_hash (events s)) \<and> ge_finding ` set (events s) \<subseteq> f_id ` set (findings s))"

lemma sorted_upt_seq: "map ge_seq xs = [1..<Suc n] \<Longrightarrow> sort_key ge_seq xs = xs"
  by (rule sort_key_sorted) (metis sorted_upt)

lemma events_for_snoc:
  "events_for fid (es @ [e]) = (if ge_finding e = fid then events_for fid es @ [e] else events_for fid es)"
  by (simp add: events_for_def)

lemma foldr_max_upt: "foldr max [1..<Suc n] k = max n k"
  by (induction n arbitrary: k) (simp_all add: max_def)

lemma next_sequence_ok: "events_ok fid es \<Longrightarrow> next_sequence fid es = Suc (length (events_for fid es))"
proof -
  assume "events_ok fid es"
  then have "map ge_seq (events_for fid es) = [1..<Suc (length (events_for fid es))]"
    by (simp only: events_ok_def Let_def)
  then show ?thesis by (simp only: next_sequence_def foldr_max_upt max_0R)
qed

lemma last_hash_ok:
  "events_ok fid es \<Longrightarrow> last_hash fid es = gc.head [] (map event_entry (events_for fid es))"
proof -
  assume "events_ok fid es"
  then have "sort_key ge_seq (events_for fid es) = events_for fid es"
    by (intro sorted_upt_seq) (simp only: events_ok_def Let_def)
  then show ?thesis
    by (cases "events_for fid es" rule: rev_cases)
      (simp_all add: last_hash_def event_entry_def entry_hash_def)
qed

lemma canon_body_details:
  "json_canon (event_body fid etype a now (json_canon d) prev) = json_canon (event_body fid etype a now d prev)"
  by (simp add: event_body_def body_fields_def json_canon_obj canon_pair_def del: json_canon.simps(2))

lemma new_event_entry:
  assumes "json_wf d"
  shows "json_loads (ge_details (new_event eid fid etype a d now es)) = Some (json_canon d)"
    and "event_entry (new_event eid fid etype a d now es) =
       (last_hash fid es, json_canon (event_body fid etype a now d (last_hash fid es)),
        text_hash (link_text compact_ascii (last_hash fid es)
          (json_canon (event_body fid etype a now d (last_hash fid es)))))"
proof -
  show *: "json_loads (ge_details (new_event eid fid etype a d now es)) = Some (json_canon d)"
    using assms by (simp add: new_event_def Let_def json_roundtrip)
  have "event_actor (new_event eid fid etype a d now es) = a"
    by (simp add: event_actor_def new_event_def Let_def)
  moreover have "ge_prev (new_event eid fid etype a d now es) = last_hash fid es"
    "ge_type (new_event eid fid etype a d now es) = etype"
    "ge_occurred (new_event eid fid etype a d now es) = now"
    "ge_hash (new_event eid fid etype a d now es) =
       event_digest (last_hash fid es) (event_body fid etype a now d (last_hash fid es))"
    by (simp_all add: new_event_def Let_def)
  ultimately show "event_entry (new_event eid fid etype a d now es) =
       (last_hash fid es, json_canon (event_body fid etype a now d (last_hash fid es)),
        text_hash (link_text compact_ascii (last_hash fid es)
          (json_canon (event_body fid etype a now d (last_hash fid es)))))"
    by (simp add: event_entry_def logged_body_def * canon_body_details event_digest_link)
qed

lemma events_ok_append:
  assumes "json_wf d" and ok: "\<forall>fid. events_ok fid es"
  shows "events_ok fid' (es @ [new_event eid fid etype a d now es])"
proof (cases "fid = fid'")
  case True
  let ?e = "new_event eid fid etype a d now es" and ?xs = "events_for fid es"
  have ok': "events_ok fid es" using ok by blast
  have "map ge_seq (?xs @ [?e]) = [1..<Suc (length (?xs @ [?e]))]"
    using ok' next_sequence_ok [OF ok'] by (simp add: events_ok_def Let_def)
  moreover have "gc.linked [] (map event_entry (?xs @ [?e]))"
    using ok' assms(1) last_hash_ok [OF ok'] canonical_event_body
    by (simp add: new_event_entry gc.linked_snoc events_ok_def Let_def)
  ultimately show ?thesis
    using ok' True assms(1)
    by (simp add: events_ok_def Let_def events_for_snoc new_event_entry(1) del: upt_Suc)
next
  case False
  then show ?thesis using ok by (simp add: events_ok_def Let_def events_for_snoc)
qed

text \<open>The payload rebuilt from the event row is the one written with the event.\<close>

lemma payload_rebuilt:
  assumes "json_wf d" and e: "e = new_event eid fid etype a d now es"
  shows "backfill_payload e =
    Some (event_payload fid etype a now d (ge_prev e) (ge_id e) (ge_seq e) (ge_hash e))"
proof -
  have "json_loads (ge_details e) = Some (json_canon d)" unfolding e by (rule new_event_entry(1) [OF assms(1)])
  then show ?thesis
    by (simp add: e backfill_payload_def event_payload_def json_dumps_def body_fields_def
        json_canon_obj canon_pair_def new_event_def Let_def del: json_canon.simps(2))
qed

lemma log_inv_writes:
  assumes inv: "log_inv s" and w: "writes_event s s' fid"
    and ids: "distinct (map f_id (findings s'))"
    and fnd: "f_id ` set (findings s') = insert fid (f_id ` set (findings s))"
  shows "log_inv s'"
proof -
  obtain env etype a d now b where log: "loggable env fid etype a d now b" and d: "json_wf d"
    and b: "events b = events s" "outbox b = outbox s" "exports b = exports s"
    and s': "events s' = events (log_event env fid etype a d now b)"
      "outbox s' = outbox (log_event env fid etype a d now b)"
      "exports s' = exports (log_event env fid etype a d now b)"
    using w unfolding writes_event_def by blast
  let ?e = "new_event (event_uuid env) fid etype a d now (events s)"
  note payload = payload_rebuilt [OF d refl]
  have rows: "events s' = events s @ [?e]"
    "\<exists>r. outbox s' = outbox s @ [r] \<and> published ?e r" "\<exists>x. exports s' = exports s @ [x] \<and> exported ?e x"
    using s' b by (simp_all add: log_event_log event_rows_def Let_def published_def exported_def payload)
  have "ge_id ?e \<notin> ge_id ` set (events s)" "ge_hash ?e \<notin> ge_hash ` set (events s)"
    using log b by (auto simp: loggable_def fresh_rows_def event_rows_def Let_def)
  with rows inv ids fnd events_ok_append [OF d] show ?thesis
    by (auto simp: log_inv_def intro!: list_all2_appendI)
qed

lemma list_all2_relabel:
  "list_all2 P xs ys \<Longrightarrow> list_all2 Q ys zs \<Longrightarrow> (\<And>x y z. P x y \<Longrightarrow> Q y z \<Longrightarrow> P x z) \<Longrightarrow> list_all2 P xs zs"
  by (rule list_all2_trans)

theorem log_inv_effect:
  assumes "effect fresh s s'" and "log_inv s"
  shows "log_inv s'"
  using assms
proof cases
  case (eff_delivery ob xs)
  have "list_all2 published (events s) ob"
    using assms(2) eff_delivery(2)
    by (auto simp: log_inv_def published_def same_message_def intro: list_all2_relabel)
  moreover have "list_all2 exported (events s) xs"
    using assms(2) eff_delivery(3)
    by (auto simp: log_inv_def exported_def same_export_def intro: list_all2_relabel)
  ultimately show ?thesis using assms(2) eff_delivery(1) by (simp add: log_inv_def)
next
  case (eff_create f)
  then show ?thesis using assms(2) by (intro log_inv_writes [OF assms(2) eff_create(4)]) (auto simp: log_inv_def)
next
  case (eff_move fid f g)
  have "map f_id (findings s') = map f_id (findings s)"
    using eff_move by (simp add: map_update_where)
  moreover from this have "f_id ` set (findings s') = f_id ` set (findings s)"
    by (metis list.set_map)
  moreover have "fid \<in> f_id ` set (findings s)" using find_finding_some [OF eff_move(1)] by auto
  ultimately show ?thesis using assms(2)
    by (intro log_inv_writes [OF assms(2) eff_move(5)])
      (simp_all add: log_inv_def insert_absorb)
qed simp

theorem history_log_inv: "history hs \<Longrightarrow> s \<in> set hs \<Longrightarrow> log_inv s"
proof (induction arbitrary: s rule: history.induct)
  case history_empty
  then show ?case
    by (auto simp: log_inv_def empty_gov_def events_ok_def events_for_def)
next
  case (history_step t hs r t')
  then show ?case using log_inv_effect [OF gov_step_effect] by auto
qed

lemma verify_chain_ok: "log_inv s \<Longrightarrow> verify_event_chain fid s = Inr True"
proof -
  assume "log_inv s"
  then have ok: "events_ok fid (events s)" by (simp add: log_inv_def)
  then have "list_events fid s = events_for fid (events s)"
    by (auto simp: events_ok_def Let_def list_events_def sorted_upt_seq simp del: upt_Suc)
  moreover have "\<forall>e \<in> set (events_for fid (events s)). ge_finding e = fid"
    by (simp add: events_for_def)
  ultimately show ?thesis
    using ok by (simp add: verify_event_chain_def verify_links_iff events_ok_def Let_def)
qed

section \<open>Tamper evidence\<close>

definition event_content ::
    "gov_event \<Rightarrow> string \<times> string \<times> string \<times> string \<times> int \<times> json option \<times> string \<times> string" where
  "event_content e = (ge_type e, ge_actor e, ge_role e, ge_auth e, ge_occurred e,
     map_option json_canon (json_loads (ge_details e)), ge_prev e, ge_hash e)"

definition hashed_texts :: "string \<Rightarrow> gov \<Rightarrow> string set" where
  "hashed_texts fid s =
     (\<lambda>e. ge_prev e @ json_dumps compact_ascii (event_body fid (ge_type e) (event_actor e)
        (ge_occurred e) (the (json_loads (ge_details e))) (ge_prev e))) ` set (list_events fid s)"

lemma filter_sorted_prefix:
  "sorted (map f xs) \<Longrightarrow> filter (\<lambda>x. f x \<le> k) xs = takeWhile (\<lambda>x. f x \<le> k) xs"
proof (induction xs)
  case (Cons a xs)
  show ?case
  proof (cases "f a \<le> k")
    case False
    then have "filter (\<lambda>x. f x \<le> k) xs = []" using Cons.prems by (fastforce simp: filter_empty_conv)
    with False show ?thesis by simp
  qed (use Cons in simp)
qed simp

lemma list_events_finding: "e \<in> set (list_events fid s) \<Longrightarrow> ge_finding e = fid"
  by (auto simp: list_events_def events_for_def)

lemma hashed_texts_chain: "hashed_texts fid s = gc.texts (map event_entry (list_events fid s))"
proof -
  have "(case event_entry e of (q, b, h) \<Rightarrow> link_text compact_ascii q b) =
      ge_prev e @ json_dumps compact_ascii (event_body fid (ge_type e) (event_actor e)
        (ge_occurred e) (the (json_loads (ge_details e))) (ge_prev e))"
    if "e \<in> set (list_events fid s)" for e
    using list_events_finding [OF that]
    by (simp add: event_entry_def link_text_def logged_body_def json_dumps_def)
  then show ?thesis
    unfolding hashed_texts_def gc.texts_def set_map image_image by (intro image_cong) simp_all
qed

lemma verified_chain:
  "verify_event_chain fid s = Inr True \<longleftrightarrow>
     list_all (\<lambda>e. json_loads (ge_details e) \<noteq> None) (list_events fid s)
     \<and> gc.linked [] (map event_entry (list_events fid s))"
  unfolding verify_event_chain_def by (rule verify_links_iff) (blast dest: list_events_finding)

lemma logged_body_content:
  assumes "event_entry e = event_entry e'"
    and "json_loads (ge_details e) \<noteq> None" "json_loads (ge_details e') \<noteq> None"
  shows "event_content e = event_content e'"
proof -
  let ?F = "\<lambda>e. body_fields (ge_finding e) (ge_type e) (event_actor e) (ge_occurred e)
    (the (json_loads (ge_details e))) (ge_prev e)"
  have "logged_body e = logged_body e'" using assms(1) by (simp add: event_entry_def)
  then have "json_canon (JObj (?F e)) = json_canon (JObj (?F e'))"
    by (simp only: logged_body_def event_body_def)
  then have get: "map_option json_canon (obj_get k (?F e)) = map_option json_canon (obj_get k (?F e'))" for k
    using body_keys by (intro json_canon_get)
  have "ge_type e = ge_type e'" "ge_actor e = ge_actor e'" "ge_role e = ge_role e'"
    "ge_auth e = ge_auth e'" "ge_occurred e = ge_occurred e'"
    "json_canon (the (json_loads (ge_details e))) = json_canon (the (json_loads (ge_details e')))"
    using get [of "''event_type''"] get [of "''actor_id''"] get [of "''actor_role''"]
      get [of "''auth_method''"] get [of "''occurred_at''"] get [of "''details''"]
    by (simp_all add: obj_get_def body_fields_def event_actor_def)
  then show ?thesis using assms by (auto simp: event_content_def event_entry_def)
qed

section \<open>Properties\<close>

text \<open>
  C1. In every state of every history, whatever the interleaving of requests and delivery
  workers, \<open>verify_event_chain\<close> returns true for every finding.
\<close>

theorem event_chain_always_verifies:
  assumes "history hs" and "s \<in> set hs"
  shows "verify_event_chain fid s = Inr True"
  by (rule verify_chain_ok) (rule history_log_inv [OF assms])

text \<open>
  C2. Tamper evidence: if the chains of a finding in two databases both verify and end in the
  same hash, they record the same events (type, actor, role, authentication, time, details,
  links), or two different texts among those hashed in the two chains have the same SHA-256.
\<close>

theorem event_chain_tamper_evident:
  assumes "verify_event_chain fid s = Inr True" and "verify_event_chain fid t = Inr True"
    and "last_hash fid (events s) = last_hash fid (events t)"
    and "\<not> collision (hashed_texts fid s \<union> hashed_texts fid t)"
  shows "map event_content (list_events fid s) = map event_content (list_events fid t)"
proof -
  have heads: "last_hash fid (events u) = gc.head [] (map event_entry (list_events fid u))" for u
    by (cases "list_events fid u" rule: rev_cases)
      (simp_all add: last_hash_def list_events_def event_entry_def entry_hash_def)
  have same: "map event_entry (list_events fid s) = map event_entry (list_events fid t)"
    using assms by (intro gc.same_head_same_chain_fresh) (simp_all add: verified_chain heads hashed_texts_chain)
  have "list_all (\<lambda>e. json_loads (ge_details e) \<noteq> None) (list_events fid s)"
    "list_all (\<lambda>e. json_loads (ge_details e) \<noteq> None) (list_events fid t)"
    using assms by (simp_all add: verified_chain)
  with same show ?thesis
    by (auto simp: list_eq_iff_nth_eq list_all_length intro!: logged_body_content)
qed

text \<open>
  C4. Transactional outbox: in every state of every history the outbox and the audit exports
  have exactly one row per event, in the order of the events, with the event's identifier,
  finding and sequence number and the canonical payload of the event row.
\<close>

theorem outbox_and_exports_mirror_events:
  assumes "history hs" and "s \<in> set hs"
  shows "list_all2 (\<lambda>e r. ob_event r = ge_id e \<and> ob_finding r = ge_finding e \<and> ob_seq r = ge_seq e
           \<and> backfill_payload e = Some (ob_payload r)) (events s) (outbox s)
    \<and> list_all2 (\<lambda>e x. xp_event x = ge_id e \<and> xp_finding x = ge_finding e \<and> xp_seq x = ge_seq e
           \<and> backfill_payload e = Some (xp_payload x)) (events s) (exports s)"
  using history_log_inv [OF assms]
  by (simp add: log_inv_def published_def [abs_def] exported_def [abs_def])

text \<open>
  In every state of every history the events of a finding carry the sequence numbers
  1, 2, ... without gap or repetition, in the order they were written.
\<close>

theorem event_sequences_gapless:
  assumes "history hs" and "s \<in> set hs"
  shows "map ge_seq (events_for fid (events s)) = [1..<Suc (length (events_for fid (events s)))]
    \<and> list_events fid s = events_for fid (events s)"
  using history_log_inv [OF assms]
  by (auto simp: log_inv_def events_ok_def Let_def list_events_def sorted_upt_seq simp del: upt_Suc)

text \<open>
  Removing the latest events of a finding is not detected by \<open>verify_event_chain\<close>: a
  chain that verifies still verifies after every event above a sequence number is deleted.
\<close>

theorem tail_deletion_verifies:
  assumes "verify_event_chain fid s = Inr True"
  shows "verify_event_chain fid (s\<lparr>events := filter (\<lambda>e. ge_finding e = fid \<longrightarrow> ge_seq e \<le> k) (events s)\<rparr>) = Inr True"
proof -
  let ?s = "s\<lparr>events := filter (\<lambda>e. ge_finding e = fid \<longrightarrow> ge_seq e \<le> k) (events s)\<rparr>"
  let ?p = "\<lambda>e. ge_seq e \<le> k"
  have "events_for fid (events ?s) = filter ?p (events_for fid (events s))"
    by (simp add: events_for_def conj_commute) (rule filter_cong, auto)
  then have l: "list_events fid ?s = filter ?p (list_events fid s)"
    by (simp add: list_events_def filter_sort)
  moreover have "filter ?p xs = takeWhile ?p xs" if "sorted (map ge_seq xs)" for xs
    using that by (rule filter_sorted_prefix)
  moreover have "sorted (map ge_seq (list_events fid s))" by (simp add: list_events_def)
  ultimately have tw: "list_events fid ?s = takeWhile ?p (list_events fid s)" by metis
  obtain rest where rest: "list_events fid s = takeWhile ?p (list_events fid s) @ rest"
    by (metis takeWhile_dropWhile_id)
  then have "map event_entry (list_events fid s) =
      map event_entry (takeWhile ?p (list_events fid s)) @ map event_entry rest"
    by (metis map_append)
  then show ?thesis
    using assms gc.linked_prefix unfolding verified_chain tw
    by (metis list_all_append rest)
qed

end
