(* ===== verification/Governance_Lifecycle.thy ===== *)
theory Governance_Lifecycle
  imports Governance_Chain
begin

text \<open>
  The lifecycle of a finding. The abstract specification is the state diagram of the
  architecture overview (\<open>docs/architecture/system-overview.md\<close>), a transition relation on
  phases; every committed step of the governance core is a step of it on at most one finding,
  also when checks read stale states. Further: what a status guarantees about the records
  kept (approval, evidence, verification, closure).
\<close>

section \<open>The abstract lifecycle\<close>

datatype phase =
    Open | RiskAssessed | PendingApproval | Approved | Accepted | InProgress
  | PendingVerification | Verified | Closed

fun lifecycle_move :: "phase \<Rightarrow> phase \<Rightarrow> bool" where
  "lifecycle_move Open RiskAssessed = True"
| "lifecycle_move RiskAssessed PendingApproval = True"
| "lifecycle_move PendingApproval Approved = True"
| "lifecycle_move PendingApproval Accepted = True"
| "lifecycle_move PendingApproval RiskAssessed = True"
| "lifecycle_move Approved InProgress = True"
| "lifecycle_move InProgress PendingVerification = True"
| "lifecycle_move PendingVerification Verified = True"
| "lifecycle_move PendingVerification InProgress = True"
| "lifecycle_move Verified Closed = True"
| "lifecycle_move Accepted Closed = True"
| "lifecycle_move _ _ = False"

definition phase_of :: "string \<Rightarrow> phase option" where
  "phase_of st = map_of
     [(''open'', Open), (''risk_assessed'', RiskAssessed), (''pending_approval'', PendingApproval),
      (''approved'', Approved), (''accepted'', Accepted), (''in_progress'', InProgress),
      (''pending_verification'', PendingVerification), (''verified'', Verified),
      (''closed'', Closed)] st"

type_synonym lifecycle = "string \<rightharpoonup> phase"

definition abs_gov :: "gov \<Rightarrow> lifecycle" where
  "abs_gov s fid = (case find_finding fid s of None \<Rightarrow> None | Some f \<Rightarrow> phase_of (f_status f))"

inductive lifecycle_step :: "lifecycle \<Rightarrow> lifecycle \<Rightarrow> bool" where
  life_stay: "lifecycle_step m m"
| life_open: "m fid = None \<Longrightarrow> lifecycle_step m (m(fid \<mapsto> Open))"
| life_move: "m fid = Some p \<Longrightarrow> lifecycle_move p q \<Longrightarrow> lifecycle_step m (m(fid \<mapsto> q))"

inductive_cases lifecycle_step_cases: "lifecycle_step m m'"

lemma closed_is_final: "\<not> lifecycle_move Closed q"
  by (cases q) simp_all

lemma lifecycle_step_closed: "lifecycle_step m m' \<Longrightarrow> m fid = Some Closed \<Longrightarrow> m' fid = Some Closed"
  by (auto elim!: lifecycle_step_cases simp: closed_is_final)

section \<open>What a status guarantees\<close>

definition has_approval :: "gov \<Rightarrow> string \<Rightarrow> bool" where
  "has_approval s fid = (\<exists>r \<in> set (approvals s). ap_finding r = fid \<and> ap_decision r = ''approved'')"

definition has_evidence :: "gov \<Rightarrow> string \<Rightarrow> string \<Rightarrow> bool" where
  "has_evidence s fid u = (\<exists>v \<in> set (evidence s). ev_finding v = fid \<and> ev_submitted_by v = u)"

definition has_passed :: "gov \<Rightarrow> string \<Rightarrow> bool" where
  "has_passed s fid = (\<exists>w \<in> set (verifications s). vr_finding w = fid \<and> vr_result w = ''passed'')"

definition has_closure :: "gov \<Rightarrow> string \<Rightarrow> bool" where
  "has_closure s fid = (\<exists>c \<in> set (closures s). cl_finding c = fid)"

lemma grows_records:
  assumes "grows s s'"
  shows "has_approval s fid \<Longrightarrow> has_approval s' fid" "has_evidence s fid u \<Longrightarrow> has_evidence s' fid u"
    "has_passed s fid \<Longrightarrow> has_passed s' fid" "has_closure s fid \<Longrightarrow> has_closure s' fid"
  using assms by (auto simp: grows_def has_approval_def has_evidence_def has_passed_def has_closure_def)

definition remediated :: "gov \<Rightarrow> finding \<Rightarrow> bool" where
  "remediated s f = (has_passed s (f_id f) \<and> f_implementer f \<noteq> None
     \<and> (\<exists>u. f_submitter f = Some u \<and> has_evidence s (f_id f) u))"

definition in_remediation :: "string set" where
  "in_remediation = {''in_progress'', ''pending_verification'', ''verified''}"

definition status_backed :: "bool \<Rightarrow> gov \<Rightarrow> finding \<Rightarrow> bool" where
  "status_backed fresh s f = (let st = f_status f; fid = f_id f in
     phase_of st \<noteq> None
     \<and> (st \<notin> {''open'', ''risk_assessed''} \<longrightarrow> f_treatment f \<noteq> None \<and> f_action_owner f \<noteq> None)
     \<and> (st \<notin> {''open'', ''risk_assessed'', ''pending_approval''} \<longrightarrow> has_approval s fid)
     \<and> (st \<in> in_remediation \<longrightarrow> f_implementer f \<noteq> None)
     \<and> (st = ''pending_verification'' \<longrightarrow> (\<exists>u. f_submitter f = Some u \<and> has_evidence s fid u))
     \<and> (st = ''verified'' \<longrightarrow> remediated s f)
     \<and> (st = ''closed'' \<longrightarrow> has_closure s fid)
     \<and> (fresh \<longrightarrow> st = ''accepted'' \<longrightarrow> f_treatment f = Some ''accept'')
     \<and> (fresh \<longrightarrow> st = ''closed'' \<longrightarrow> remediated s f \<or> f_treatment f = Some ''accept''))"

lemma status_backed_grows:
  assumes "status_backed fresh s f" and "grows s s'"
  shows "status_backed fresh s' f"
  using assms(1) grows_records [OF assms(2)]
  unfolding status_backed_def Let_def remediated_def by blast

lemma phase_of_known [simp]:
  "phase_of ''open'' = Some Open" "phase_of ''risk_assessed'' = Some RiskAssessed"
  "phase_of ''pending_approval'' = Some PendingApproval" "phase_of ''approved'' = Some Approved"
  "phase_of ''accepted'' = Some Accepted" "phase_of ''in_progress'' = Some InProgress"
  "phase_of ''pending_verification'' = Some PendingVerification"
  "phase_of ''verified'' = Some Verified" "phase_of ''closed'' = Some Closed"
  "phase_of ''rejected'' = None"
  by (simp_all add: phase_of_def)

lemma status_backed_moved:
  assumes "moved fresh s s' f g" and "status_backed fresh s f" and "grows s s'" and "f_id g = f_id f"
  shows "status_backed fresh s' g"
  using assms(1)
proof cases
  case m_reassessed
  have "status_backed fresh s' f" by (rule status_backed_grows [OF assms(2,3)])
  then show ?thesis using m_reassessed assms(4) by (simp add: status_backed_def remediated_def)
next
  case m_assessed
  then show ?thesis by (simp add: status_backed_def in_remediation_def)
next
  case m_proposed
  then show ?thesis by (simp add: status_backed_def in_remediation_def)
next
  case m_rejected
  then show ?thesis by (simp add: status_backed_def in_remediation_def)
next
  case (m_approved r)
  then have "has_approval s' (f_id g)" using assms(4) by (auto simp: has_approval_def)
  then show ?thesis using m_approved assms(2) by (auto simp: status_backed_def in_remediation_def Let_def)
next
  case m_started
  then show ?thesis using status_backed_grows [OF assms(2,3)] assms(4)
    by (simp add: status_backed_def in_remediation_def Let_def)
next
  case (m_submitted u v)
  then have "has_evidence s' (f_id g) u" using assms(4) by (auto simp: has_evidence_def)
  then show ?thesis using m_submitted status_backed_grows [OF assms(2,3)] assms(4)
    by (simp add: status_backed_def in_remediation_def Let_def)
next
  case (m_verified w)
  then have "has_passed s' (f_id g)" using assms(4) by (auto simp: has_passed_def)
  then show ?thesis using m_verified status_backed_grows [OF assms(2,3)] assms(4)
    by (simp add: status_backed_def in_remediation_def Let_def remediated_def)
next
  case m_returned
  then show ?thesis using status_backed_grows [OF assms(2,3)] assms(4)
    by (simp add: status_backed_def in_remediation_def Let_def)
next
  case (m_closed c)
  then have "has_closure s' (f_id g)" using assms(4) by (auto simp: has_closure_def)
  moreover have "status_backed fresh s' f" by (rule status_backed_grows [OF assms(2,3)])
  moreover from this have "fresh \<longrightarrow> remediated s' g \<or> f_treatment g = Some ''accept''"
    using m_closed assms(4) by (auto simp: status_backed_def remediated_def Let_def)
  ultimately show ?thesis using m_closed assms(4)
    by (elim insertE emptyE) (simp_all add: status_backed_def in_remediation_def)
qed

definition lifecycle_inv :: "bool \<Rightarrow> gov \<Rightarrow> bool" where
  "lifecycle_inv fresh s = (\<forall>f \<in> set (findings s). status_backed fresh s f)"

lemma lifecycle_inv_effect:
  assumes "effect fresh s s'" and "lifecycle_inv fresh s" and "log_inv s"
  shows "lifecycle_inv fresh s'"
  using assms(1)
proof cases
  case (eff_create f)
  then have "status_backed fresh s' f" by (simp add: status_backed_def in_remediation_def)
  with eff_create assms(2) show ?thesis by (auto simp: lifecycle_inv_def intro: status_backed_grows)
next
  case (eff_move fid f g)
  have "f \<in> set (findings s)" using find_finding_some [OF eff_move(1)] by simp
  then have "status_backed fresh s' (g f)"
    using assms(2) eff_move(2,6) by (intro status_backed_moved [OF eff_move(3)]) (simp_all add: lifecycle_inv_def)
  moreover have "x = f" if "x \<in> set (findings s)" "f_id x = fid" for x
    using that find_finding_some [OF eff_move(1)] assms(3) key_unique [of f_id "findings s" x f]
    by (simp add: log_inv_def)
  moreover have "status_backed fresh s' x" if "x \<in> set (findings s)" for x
    using that assms(2) status_backed_grows [OF _ eff_move(6)] by (simp add: lifecycle_inv_def)
  ultimately show ?thesis
    unfolding lifecycle_inv_def eff_move(4) by (auto simp: table_simps)
qed (use assms(2) in \<open>auto simp: lifecycle_inv_def status_backed_def remediated_def has_approval_def
    has_evidence_def has_passed_def has_closure_def Let_def\<close>)

lemma lifecycle_inv_empty: "lifecycle_inv fresh empty_gov"
  by (simp add: lifecycle_inv_def empty_gov_def)

lemma effect_stale: "effect fresh s s' \<Longrightarrow> effect False s s'"
proof (induction rule: effect.induct)
  case (eff_move fid s f g s')
  have "moved False s s' f (g f)" using eff_move(3)
    by cases (auto intro: moved.intros)
  then show ?case using eff_move by (intro effect.eff_move)
qed (auto intro: effect.intros)

lemma history_lifecycle: "history hs \<Longrightarrow> s \<in> set hs \<Longrightarrow> lifecycle_inv False s"
proof (induction arbitrary: s rule: history.induct)
  case (history_step t hs r t')
  have "log_inv t" by (rule history_log_inv [OF history_step(1)]) simp
  then have "lifecycle_inv False t'"
    using lifecycle_inv_effect [OF effect_stale [OF gov_step_effect [OF history_step(3)]]] history_step.IH
    by simp
  then show ?case using history_step by auto
qed (simp add: lifecycle_inv_empty)

section \<open>Refinement\<close>

lemma moved_phase:
  assumes "moved fresh s s' f g" and "phase_of (f_status f) = Some p"
  shows "phase_of (f_status g) = Some p \<or> (\<exists>q. phase_of (f_status g) = Some q \<and> lifecycle_move p q)"
  using assms by cases (auto simp: phase_of_def split: if_splits)

lemma find_update_other:
  "fid' \<noteq> fid \<Longrightarrow> (\<And>x. f_id (g x) = f_id x) \<Longrightarrow>
     List.find (\<lambda>x. f_id x = fid') (update_where (\<lambda>x. f_id x = fid) g t) = List.find (\<lambda>x. f_id x = fid') t"
  by (induction t) auto

lemma effect_simulates:
  assumes "effect fresh s s'" and "lifecycle_inv False s"
  shows "lifecycle_step (abs_gov s) (abs_gov s')"
  using assms(1)
proof cases
  case (eff_delivery ob xs)
  then have "abs_gov s' = abs_gov s" by (auto simp: abs_gov_def find_finding_def)
  then show ?thesis by (simp add: life_stay)
next
  case (eff_create f)
  have none: "find_finding (f_id f) s = None"
    using eff_create(1) by (force simp: find_finding_def find_None_mem image_iff)
  have "abs_gov s' = (abs_gov s)(f_id f \<mapsto> Open)"
  proof
    fix i
    have "find_finding i s' = (if i = f_id f then Some f else find_finding i s)"
      using none eff_create(1,3) by (auto simp: find_finding_def find_append split: option.splits)
    then show "abs_gov s' i = ((abs_gov s)(f_id f \<mapsto> Open)) i" using eff_create(2) by (simp add: abs_gov_def)
  qed
  moreover have "abs_gov s (f_id f) = None" using none by (simp add: abs_gov_def)
  ultimately show ?thesis by (simp add: life_open)
next
  case (eff_move fid f g)
  have "f \<in> set (findings s)" using find_finding_some [OF eff_move(1)] by simp
  then obtain p where p: "phase_of (f_status f) = Some p"
    using assms(2) by (auto simp: lifecycle_inv_def status_backed_def Let_def)
  obtain q where q: "phase_of (f_status (g f)) = Some q" "q = p \<or> lifecycle_move p q"
    using moved_phase [OF eff_move(3) p] by auto
  have "abs_gov s' = (abs_gov s)(fid \<mapsto> q)"
  proof
    fix i
    have "find_finding i s' = (if i = fid then Some (g f) else find_finding i s)"
      using eff_move(1,2,4) by (auto simp: find_finding_def find_update_where find_update_other)
    then show "abs_gov s' i = ((abs_gov s)(fid \<mapsto> q)) i" using q by (simp add: abs_gov_def)
  qed
  moreover have "abs_gov s fid = Some p" using eff_move(1) p by (simp add: abs_gov_def)
  ultimately show ?thesis using q(2)
    by (auto simp: life_move life_stay fun_upd_idem)
qed (simp add: life_stay)

end
