(* ===== verification/Governance_Duties.thy ===== *)
theory Governance_Duties
  imports Governance_Lifecycle
begin

text \<open>
  The properties of the governance operations: refinement of the lifecycle, separation of duties,
  the conditions under which an operation succeeds, and the two races between a check and its
  transaction.
\<close>

section \<open>Conditions for success\<close>

definition fresh_ids :: "env \<Rightarrow> gov \<Rightarrow> bool" where
  "fresh_ids env s = (event_uuid env \<notin> ge_id ` set (events s)
     \<and> outbox_uuid env \<notin> ob_id ` set (outbox s) \<and> export_uuid env \<notin> xp_id ` set (exports s))"

lemma sequence_unused:
  assumes "log_inv s" and "e \<in> set (events s)" and "ge_finding e = fid"
  shows "ge_seq e \<noteq> next_sequence fid (events s)"
proof -
  have ok: "events_ok fid (events s)" using assms(1) by (simp add: log_inv_def)
  let ?n = "length (events_for fid (events s))"
  have "e \<in> set (events_for fid (events s))" using assms by (simp add: events_for_def)
  then have "ge_seq e \<in> set (map ge_seq (events_for fid (events s)))" by simp
  moreover have "set (map ge_seq (events_for fid (events s))) = set [1..<Suc ?n]"
    using ok unfolding events_ok_def Let_def by metis
  ultimately show ?thesis using next_sequence_ok [OF ok] by auto
qed

lemma list_all2_member: "list_all2 P xs ys \<Longrightarrow> y \<in> set ys \<Longrightarrow> \<exists>x \<in> set xs. P x y"
  by (induction rule: list_all2_induct) auto

lemma loggable_iff:
  assumes inv: "log_inv s" and b: "events b = events s" "outbox b = outbox s" "exports b = exports s"
    and "find_finding fid b \<noteq> None"
  shows "loggable env fid etype a d now b \<longleftrightarrow> fresh_ids env s
     \<and> ge_hash (new_event (event_uuid env) fid etype a d now (events s)) \<notin> ge_hash ` set (events s)"
proof -
  have ob: "ob_event y \<in> ge_id ` set (events s)"
    "ob_finding y = fid \<Longrightarrow> ob_seq y \<noteq> next_sequence fid (events s)" if y: "y \<in> set (outbox s)" for y
  proof -
    have "list_all2 published (events s) (outbox s)" using inv by (simp add: log_inv_def)
    from list_all2_member [OF this y] obtain e where e: "e \<in> set (events s)" "published e y" by blast
    then show "ob_event y \<in> ge_id ` set (events s)" by (simp add: published_def)
    show "ob_seq y \<noteq> next_sequence fid (events s)" if "ob_finding y = fid"
      using sequence_unused [OF inv e(1)] e(2) that by (simp add: published_def)
  qed
  have xp: "xp_event y \<in> ge_id ` set (events s)"
    "xp_finding y = fid \<Longrightarrow> xp_seq y \<noteq> next_sequence fid (events s)" if y: "y \<in> set (exports s)" for y
  proof -
    have "list_all2 exported (events s) (exports s)" using inv by (simp add: log_inv_def)
    from list_all2_member [OF this y] obtain e where e: "e \<in> set (events s)" "exported e y" by blast
    then show "xp_event y \<in> ge_id ` set (events s)" by (simp add: exported_def)
    show "xp_seq y \<noteq> next_sequence fid (events s)" if "xp_finding y = fid"
      using sequence_unused [OF inv e(1)] e(2) that by (simp add: exported_def)
  qed
  let ?e = "new_event (event_uuid env) fid etype a d now (events s)"
  have "loggable env fid etype a d now b \<longleftrightarrow>
      (\<forall>y \<in> set (events s). event_uuid env \<noteq> ge_id y \<and> ge_hash ?e \<noteq> ge_hash y)
      \<and> (\<forall>y \<in> set (outbox s). outbox_uuid env \<noteq> ob_id y \<and> event_uuid env \<noteq> ob_event y
           \<and> \<not> (fid = ob_finding y \<and> next_sequence fid (events s) = ob_seq y))
      \<and> (\<forall>y \<in> set (exports s). export_uuid env \<noteq> xp_id y \<and> event_uuid env \<noteq> xp_event y
           \<and> \<not> (fid = xp_finding y \<and> next_sequence fid (events s) = xp_seq y))"
    using assms(5) by (auto simp: loggable_def fresh_rows_def event_rows_def Let_def b)
  also have "\<dots> \<longleftrightarrow> fresh_ids env s \<and> ge_hash ?e \<notin> ge_hash ` set (events s)"
    (is "?all \<longleftrightarrow> ?some")
  proof
    show "?all \<Longrightarrow> ?some" by (auto simp: fresh_ids_def)
    assume some: "?some"
    then have ids: "event_uuid env \<noteq> k" if "k \<in> ge_id ` set (events s)" for k
      using that by (auto simp: fresh_ids_def)
    show "?all" using some ids ob xp by (auto simp: fresh_ids_def) (metis)+
  qed
  finally show ?thesis .
qed

lemma mutate_succeeds:
  assumes "find_finding fid s = Some row" "f_status row \<in> set allowed"
    and "loggable env fid etype a d (clock env)
       (set_finding fid (\<lambda>f. upd (f\<lparr>f_status := new, f_updated := clock env\<rparr>)) s)"
    and "work (log_event env fid etype a d (clock env)
       (set_finding fid (\<lambda>f. upd (f\<lparr>f_status := new, f_updated := clock env\<rparr>)) s)) = Inr s'"
    and "workflow_ok work" and ids: "\<And>f. f_id (upd f) = f_id f"
  shows "mutate env fid a etype new d upd allowed work s =
     (Inr (upd (row\<lparr>f_status := new, f_updated := clock env\<rparr>)), s')"
proof -
  let ?U = "\<lambda>f. upd (f\<lparr>f_status := new, f_updated := clock env\<rparr>)"
  have "findings s' = findings (set_finding fid ?U s)"
    using assms(4,5) by (simp add: workflow_ok_def)
  then have "find_finding fid s' = find_finding fid (set_finding fid ?U s)" by (rule find_finding_cong)
  also have "\<dots> = Some (?U row)" using find_set_finding [of ?U fid s] ids assms(1) by simp
  finally have "find_finding fid s' = Some (?U row)" .
  then show ?thesis
    using assms by (simp add: mutate_def mutate_body_def record_event_iff [THEN iffD2] then_get_def get_finding_def)
qed

lemma find_set_finding_iff:
  "(\<And>r. f_id (g r) = f_id r) \<Longrightarrow> find_finding fid (set_finding fid g s) = None \<longleftrightarrow> find_finding fid s = None"
  by (simp add: find_set_finding)

lemma insert_verification_ok:
  "vr_id r \<notin> vr_id ` set (verifications s) \<Longrightarrow>
     insert_verification r s = Inr (s\<lparr>verifications := verifications s @ [r]\<rparr>)"
  by (auto simp: insert_verification_def outcome_bind_eq_Inr outcome_simps)

lemma insert_approval_ok:
  "ap_id r \<notin> ap_id ` set (approvals s) \<Longrightarrow>
     insert_approval r s = Inr (s\<lparr>approvals := approvals s @ [r]\<rparr>)"
  by (auto simp: insert_approval_def outcome_bind_eq_Inr outcome_simps)

section \<open>Lifecycle properties\<close>

text \<open>
  C3. Refinement: consecutive states of any history, with any interleaving of checks and
  transactions, are related by a step of the documented lifecycle: nothing changes phase, a new
  finding opens, or one finding moves along an arrow of the state diagram.
\<close>

theorem lifecycle_refinement:
  assumes "history (s' # s # hs)"
  shows "lifecycle_step (abs_gov s) (abs_gov s')"
proof -
  from assms obtain r where "gov_step r s s'" "history (s # hs)"
    by (auto elim: history_Cons_cases)
  then show ?thesis
    using effect_simulates [OF gov_step_effect] history_lifecycle by simp
qed

lemma history_tail: "history (ts @ s # hs) \<Longrightarrow> history (s # hs)"
  by (induction ts) (auto elim: history_Cons_cases)

lemma later_states:
  "history (ts @ s # hs) \<Longrightarrow> abs_gov s fid = Some Closed \<Longrightarrow> t \<in> set ts \<Longrightarrow> abs_gov t fid = Some Closed"
proof (induction ts arbitrary: t)
  case (Cons u ts)
  have tail: "history (ts @ s # hs)" using Cons.prems(1) by (auto elim: history_Cons_cases)
  let ?v = "hd (ts @ [s])"
  obtain vs where "ts @ s # hs = ?v # vs" by (cases ts) auto
  then have "history (u # ?v # vs)" using Cons.prems(1) by simp
  then have step: "\<exists>r. gov_step r ?v u" "history (?v # vs)"
    by (auto elim: history_Cons_cases)
  moreover have "abs_gov ?v fid = Some Closed" using Cons.IH [OF tail Cons.prems(2)] Cons.prems(2) by (cases ts) auto
  ultimately have "abs_gov u fid = Some Closed"
    using effect_simulates [OF gov_step_effect] history_lifecycle lifecycle_step_closed
    by (metis list.set_intros(1))
  then show ?case using Cons tail by auto
qed simp

text \<open>
  A closed finding stays closed: in every later state of the history the finding exists and
  its status is closed, whatever operations, reassessments included, are applied.
\<close>

theorem closed_findings_stay_closed:
  assumes "history (ts @ s # hs)" and "t \<in> set ts"
  shows "\<forall>f. find_finding fid s = Some f \<and> f_status f = ''closed'' \<longrightarrow>
    (\<exists>g. find_finding fid t = Some g \<and> f_status g = ''closed'')"
proof (intro allI impI)
  fix f assume "find_finding fid s = Some f \<and> f_status f = ''closed''"
  then have "abs_gov s fid = Some Closed" by (simp add: abs_gov_def)
  then have "abs_gov t fid = Some Closed" by (rule later_states [OF assms(1) _ assms(2)])
  then show "\<exists>g. find_finding fid t = Some g \<and> f_status g = ''closed''"
    by (auto simp: abs_gov_def phase_of_def split: option.splits if_splits)
qed

text \<open>
  What each status guarantees, under any interleaving: past approval an approving record
  exists, in remediation an implementer is set, a finding awaiting or past verification has
  evidence from its recorded submitter, a verified one has a passed verification, a closed
  one a closure record.
\<close>

theorem statuses_are_backed:
  assumes "history hs" and "s \<in> set hs" and "f \<in> set (findings s)"
  shows "phase_of (f_status f) \<noteq> None
    \<and> (f_status f \<notin> {''open'', ''risk_assessed'', ''pending_approval''} \<longrightarrow> has_approval s (f_id f))
    \<and> (f_status f \<in> {''in_progress'', ''pending_verification'', ''verified''} \<longrightarrow> f_implementer f \<noteq> None)
    \<and> (f_status f \<in> {''pending_verification'', ''verified''} \<longrightarrow>
         (\<exists>u. f_submitter f = Some u \<and> has_evidence s (f_id f) u))
    \<and> (f_status f = ''verified'' \<longrightarrow> has_passed s (f_id f))
    \<and> (f_status f = ''closed'' \<longrightarrow> has_closure s (f_id f))"
  using history_lifecycle [OF assms(1,2)] assms(3)
  by (auto simp: lifecycle_inv_def status_backed_def remediated_def in_remediation_def Let_def)

section \<open>Separation of duties\<close>

lemma verify_check_iff:
  "verify_check fid a s = Inr () \<longleftrightarrow>
     actor_role a \<in> {''analyst'', ''approver'', ''ciso'', ''risk_committee''}
     \<and> (\<exists>f. find_finding fid s = Some f \<and> f_implementer f \<noteq> Some (actor_id a)
          \<and> f_submitter f \<noteq> Some (actor_id a))"
  by (auto simp: verify_check_def outcome_simps)

lemma verify_commit_result:
  assumes "verify_commit env fid a passed remark s = (Inr f, s')"
  shows "\<exists>row. find_finding fid s = Some row \<and> f_status row = ''pending_verification''
     \<and> f = row\<lparr>f_status := (if passed then ''verified'' else ''in_progress''), f_updated := clock env\<rparr>
     \<and> verifications s' = verifications s @ [\<lparr>vr_id = record_prefix ''VR-'' env, vr_finding = fid,
          vr_verifier = actor_id a, vr_result = (if passed then ''passed'' else ''failed''), vr_notes = remark\<rparr>]"
  using mutate_effect [OF assms [unfolded verify_commit_def]]
  by (auto simp: insert_verification_def outcome_simps Let_def)

text \<open>
  C6. Independent verification: when \<open>verify\<close> succeeds, the verifier has a verifying role, is
  neither the implementer nor the recorded evidence submitter of the finding it returns, the
  finding was awaiting verification and now is verified or back in progress, and a
  verification record naming the verifier is added.
\<close>

theorem verification_is_independent:
  assumes "verify env fid a passed remark s = (Inr f, s')"
  shows "actor_role a \<in> {''analyst'', ''approver'', ''ciso'', ''risk_committee''}
    \<and> f_implementer f \<noteq> Some (actor_id a) \<and> f_submitter f \<noteq> Some (actor_id a)
    \<and> f_status f = (if passed then ''verified'' else ''in_progress'')
    \<and> (\<exists>row. find_finding fid s = Some row \<and> f_status row = ''pending_verification'')
    \<and> (\<exists>w. verifications s' = verifications s @ [w] \<and> vr_finding w = fid \<and> vr_verifier w = actor_id a
          \<and> vr_result w = (if passed then ''passed'' else ''failed''))"
proof -
  have check: "verify_check fid a s = Inr ()" and run: "verify_commit env fid a passed remark s = (Inr f, s')"
    using assms by (auto simp: verify_def split: sum.splits)
  obtain row where "find_finding fid s = Some row" "f_status row = ''pending_verification''"
    "f = row\<lparr>f_status := (if passed then ''verified'' else ''in_progress''), f_updated := clock env\<rparr>"
    and "verifications s' = verifications s @ [\<lparr>vr_id = record_prefix ''VR-'' env, vr_finding = fid,
          vr_verifier = actor_id a, vr_result = (if passed then ''passed'' else ''failed''), vr_notes = remark\<rparr>]"
    using verify_commit_result [OF run] by blast
  then show ?thesis using check by (auto simp: verify_check_iff)
qed

text \<open>
  C7. A risk owner does not approve: when \<open>approve_treatment\<close> succeeds, the actor has an
  approving role and is not the finding's risk owner, the finding was awaiting approval, and
  its status becomes accepted exactly for an approved risk acceptance, approved for any
  other approved treatment, and risk assessed on rejection.
\<close>

theorem approval_is_separated:
  assumes "approve_treatment env fid a decision reason s = (Inr f, s')"
  shows "actor_role a \<in> {''approver'', ''ciso'', ''risk_committee''} \<and> actor_id a \<noteq> f_risk_owner f
    \<and> decision \<in> {''approved'', ''rejected''}
    \<and> (\<exists>row. find_finding fid s = Some row \<and> f_status row = ''pending_approval'')
    \<and> f_status f = (if decision = ''rejected'' then ''risk_assessed''
         else if f_treatment f = Some ''accept'' then ''accepted'' else ''approved'')"
proof -
  obtain status where check: "approve_check fid a decision s = Inr status"
    and run: "approve_commit env fid a decision reason status s = (Inr f, s')"
    using assms by (auto simp: approve_treatment_def split: sum.splits)
  obtain row where "find_finding fid s = Some row" "f_status row = ''pending_approval''"
    "f = row\<lparr>f_status := status, f_updated := clock env\<rparr>"
    using mutate_effect [OF run [unfolded approve_commit_def]]
    by (auto simp: insert_approval_def outcome_simps Let_def)
  then show ?thesis using check
    by (auto simp: approve_check_def treatment_approval_status_def outcome_simps split: if_splits)
qed

section \<open>Success\<close>

text \<open>
  Transitions fail only for the reasons the code names: in every state of every history, a
  transition whose finding exists in an allowed status writes its event exactly when
  its random identifiers are unused and its hash is not already the hash of an event. Sequence
  numbers and the pairing of event, outbox and export rows never cause an integrity error.
\<close>

theorem events_fail_only_on_collisions:
  assumes "history hs" and "s \<in> set hs" and "find_finding fid s \<noteq> None"
  shows "(\<exists>s'. record_event env fid etype a d now s = Inr s') \<longleftrightarrow>
     fresh_ids env s
     \<and> ge_hash (new_event (event_uuid env) fid etype a d now (events s)) \<notin> ge_hash ` set (events s)"
  using loggable_iff [OF history_log_inv [OF assms(1,2)] refl refl refl assms(3)]
  by (simp add: record_event_iff)

section \<open>Races between a check and its transaction\<close>

text \<open>
  C14. The independence check of \<open>verify\<close> is not repeated in the transaction: when an actor's
  check passed on an earlier state and the actor has since become the recorded evidence
  submitter, the transaction still marks the finding verified by that actor.
\<close>

theorem stale_verification_passes:
  assumes "verify_check fid a r = Inr ()"
    and "find_finding fid s = Some f" and "f_status f = ''pending_verification''"
    and "f_submitter f = Some (actor_id a)"
    and "log_inv s" and "fresh_ids env s"
    and "ge_hash (new_event (event_uuid env) fid ''verification_passed'' a
           (JObj [(''passed'', JBool True), (''notes'', JStr remark)]) (clock env) (events s))
         \<notin> ge_hash ` set (events s)"
    and "record_prefix ''VR-'' env \<notin> vr_id ` set (verifications s)"
  shows "\<exists>g s'. verify_commit env fid a True remark s = (Inr g, s') \<and> gov_step r s s'
    \<and> f_status g = ''verified'' \<and> f_submitter g = Some (actor_id a)
    \<and> (\<exists>w \<in> set (verifications s'). vr_finding w = fid \<and> vr_verifier w = actor_id a \<and> vr_result w = ''passed'')"
proof -
  let ?U = "\<lambda>f. f\<lparr>f_status := ''verified'', f_updated := clock env\<rparr>"
  let ?w = "\<lparr>vr_id = record_prefix ''VR-'' env, vr_finding = fid, vr_verifier = actor_id a,
     vr_result = ''passed'', vr_notes = remark\<rparr>"
  let ?d = "JObj [(''passed'', JBool True), (''notes'', JStr remark)]"
  let ?t = "log_event env fid ''verification_passed'' a ?d (clock env) (set_finding fid ?U s)"
  have found: "find_finding fid (set_finding fid ?U s) \<noteq> None"
    using assms(2) by (simp add: find_set_finding)
  have log: "loggable env fid ''verification_passed'' a ?d (clock env) (set_finding fid ?U s)"
    using loggable_iff [OF assms(5) _ _ _ found] assms(6,7) by simp
  have ins: "insert_verification ?w ?t = Inr (?t\<lparr>verifications := verifications ?t @ [?w]\<rparr>)"
    using assms(8) by (intro insert_verification_ok) simp
  have run: "verify_commit env fid a True remark s = (Inr (?U f), ?t\<lparr>verifications := verifications ?t @ [?w]\<rparr>)"
    using mutate_succeeds [where upd = "\<lambda>f. f" and new = "''verified''" and work = "insert_verification ?w",
        OF assms(2) _ log ins] assms(3) by (simp add: verify_commit_def)
  show ?thesis using step_verify [OF assms(1) run] run assms(4) by fastforce
qed

text \<open>
  The status \<open>approve_treatment\<close> writes is computed from the treatment read before the
  transaction: when the treatment read was a risk acceptance and the one now pending is
  another, the finding becomes accepted, so that it can be closed without remediation.
\<close>

theorem stale_approval_accepts:
  assumes "approve_check fid a ''approved'' r = Inr status"
    and "find_finding fid r = Some f0" and "f_treatment f0 = Some ''accept''"
    and "find_finding fid s = Some f" and "f_status f = ''pending_approval''"
    and "log_inv s" and "fresh_ids env s"
    and "ge_hash (new_event (event_uuid env) fid ''treatment_approved'' a
           (JObj [(''decision'', JStr ''approved''), (''reason'', JStr reason)]) (clock env) (events s))
         \<notin> ge_hash ` set (events s)"
    and "record_prefix ''AP-'' env \<notin> ap_id ` set (approvals s)"
  shows "\<exists>g s'. approve_commit env fid a ''approved'' reason status s = (Inr g, s') \<and> gov_step r s s'
    \<and> f_status g = ''accepted'' \<and> f_treatment g = f_treatment f"
proof -
  have status: "status = ''accepted''" using approve_accepts [OF assms(1,2)] assms(3) by simp
  let ?U = "\<lambda>f. f\<lparr>f_status := ''accepted'', f_updated := clock env\<rparr>"
  let ?p = "\<lparr>ap_id = record_prefix ''AP-'' env, ap_finding = fid, ap_decision = ''approved'',
     ap_actor = actor_id a, ap_role = actor_role a, ap_reason = reason\<rparr>"
  let ?d = "JObj [(''decision'', JStr ''approved''), (''reason'', JStr reason)]"
  let ?t = "log_event env fid ''treatment_approved'' a ?d (clock env) (set_finding fid ?U s)"
  have found: "find_finding fid (set_finding fid ?U s) \<noteq> None"
    using assms(4) by (simp add: find_set_finding)
  have log: "loggable env fid ''treatment_approved'' a ?d (clock env) (set_finding fid ?U s)"
    using loggable_iff [OF assms(6) _ _ _ found] assms(7,8) by simp
  have ins: "insert_approval ?p ?t = Inr (?t\<lparr>approvals := approvals ?t @ [?p]\<rparr>)"
    using assms(9) by (intro insert_approval_ok) simp
  have run: "approve_commit env fid a ''approved'' reason status s =
      (Inr (?U f), ?t\<lparr>approvals := approvals ?t @ [?p]\<rparr>)"
    using mutate_succeeds [where upd = "\<lambda>f. f" and new = "''accepted''" and work = "insert_approval ?p",
        OF assms(4) _ log ins] assms(5) status by (simp add: approve_commit_def)
  show ?thesis using step_approve [OF assms(1) run] run by fastforce
qed

end
