(* ===== verification/Governance_Examples.thy ===== *)
theory Governance_Examples
  imports Governance_Duties
begin

text \<open>
  Concrete runs of the governance core, used as witnesses that the hypotheses of its
  properties can hold: a database with one created finding, and states in which a check
  has become stale.
\<close>

definition demo_env :: env where
  "demo_env = \<lparr>clock = 1000000, clock2 = 1000001, row_uuid = ''r1'', event_uuid = replicate 32 (CHR ''e''),
     outbox_uuid = replicate 32 (CHR ''a''), export_uuid = replicate 32 (CHR ''b'')\<rparr>"

definition analyst :: actor where
  "analyst = \<lparr>actor_id = ''ann'', actor_role = ''analyst'', auth_method = ''oidc''\<rparr>"

definition approver :: actor where
  "approver = \<lparr>actor_id = ''bob'', actor_role = ''approver'', auth_method = ''oidc''\<rparr>"

definition demo_created :: gov where
  "demo_created = snd (create_finding demo_env ''F-1'' ''C-1'' ''A-1'' ''Disk'' ''olga'' ''High'' analyst empty_gov)"

definition demo_finding :: finding where
  "demo_finding = new_finding ''F-1'' ''C-1'' ''A-1'' ''Disk'' ''olga'' ''high'' 1000000 1000001"

lemma demo_strip [simp]:
  "py_strip ''F-1'' = ''F-1''" "py_strip ''C-1'' = ''C-1''" "py_strip ''A-1'' = ''A-1''"
  "py_strip ''Disk'' = ''Disk''" "py_strip ''olga'' = ''olga''" "py_lower ''High'' = ''high''"
  by code_simp+

lemma demo_inputs:
  "finding_inputs ''F-1'' ''C-1'' ''A-1'' ''Disk'' ''olga'' ''High'' analyst =
     Inr (''F-1'', ''C-1'', ''A-1'', ''Disk'', ''olga'', ''high'')"
  by (simp add: finding_inputs_def analyst_def require_role_def identifier_of_def required_text_def
      severity_of_def severities_def max_identifier_length_def max_text_length_def)

lemma demo_created_eq:
  "demo_created = log_event demo_env ''F-1'' ''finding_created'' analyst
     (identity_details ''C-1'' ''A-1'' ''high'') 1000000 (empty_gov\<lparr>findings := [demo_finding]\<rparr>)"
proof -
  let ?s = "empty_gov\<lparr>findings := [demo_finding]\<rparr>"
  have "loggable demo_env ''F-1'' ''finding_created'' analyst (identity_details ''C-1'' ''A-1'' ''high'') 1000000 ?s"
    by (simp add: loggable_def find_finding_def demo_finding_def new_finding_def fresh_rows_def
        event_rows_def Let_def empty_gov_def)
  then have "record_event demo_env ''F-1'' ''finding_created'' analyst (identity_details ''C-1'' ''A-1'' ''high'')
      1000000 ?s = Inr (log_event demo_env ''F-1'' ''finding_created'' analyst
        (identity_details ''C-1'' ''A-1'' ''high'') 1000000 ?s)" by (simp add: record_event_iff)
  then have "create_body demo_env demo_finding analyst empty_gov = Inr (log_event demo_env ''F-1''
      ''finding_created'' analyst (identity_details ''C-1'' ''A-1'' ''high'') 1000000 ?s)"
    by (simp add: create_body_def insert_row_def empty_gov_def demo_finding_def new_finding_def)
  then show ?thesis
    by (simp add: demo_created_def create_finding_def demo_inputs then_get_def demo_finding_def demo_env_def)
qed

lemma demo_history: "serial [demo_created, empty_gov]" "history [demo_created, empty_gov]"
proof -
  show s: "serial [demo_created, empty_gov]"
    unfolding demo_created_def using operation_steps(1) by (intro serial.intros)
  show "history [demo_created, empty_gov]" by (rule serial_history [OF s])
qed

lemma demo_findings [simp]: "findings demo_created = [demo_finding]"
  by (simp add: demo_created_eq)

lemma demo_events: "\<exists>e. events demo_created = [e] \<and> ge_finding e = ''F-1'' \<and> ge_seq e = 1"
  by (simp add: demo_created_eq log_event_log event_rows_def Let_def next_sequence_def events_for_def empty_gov_def)

section \<open>Witnesses\<close>

theorem event_chain_always_verifies_witness:
  "history [demo_created, empty_gov] \<and> events demo_created \<noteq> []
   \<and> verify_event_chain ''F-1'' demo_created = Inr True"
  using event_chain_always_verifies [OF demo_history(2), of demo_created "''F-1''"] demo_history(2) demo_events
  by auto

theorem event_chain_tamper_evident_witness:
  "map event_content (list_events ''F-1'' demo_created) =
     map event_content (list_events ''F-1'' (demo_created\<lparr>findings := []\<rparr>))
   \<and> list_events ''F-1'' demo_created \<noteq> []"
proof -
  let ?t = "demo_created\<lparr>findings := []\<rparr>"
  obtain e where e: "events demo_created = [e]" "ge_finding e = ''F-1''" using demo_events by blast
  have "list_events ''F-1'' ?t = list_events ''F-1'' demo_created" by (simp add: list_events_def)
  moreover have "verify_event_chain ''F-1'' demo_created = Inr True"
    by (rule verify_chain_ok, rule history_log_inv [OF demo_history(2)]) simp
  moreover have "\<not> collision (hashed_texts ''F-1'' demo_created \<union> hashed_texts ''F-1'' ?t)"
    by (simp add: hashed_texts_def list_events_def events_for_def e collision_def)
  ultimately show ?thesis
    using event_chain_tamper_evident [of "''F-1''" demo_created ?t] e
    by (simp add: verify_event_chain_def list_events_def events_for_def)
qed

theorem outbox_and_exports_mirror_events_witness:
  "history [demo_created, empty_gov] \<and> length (events demo_created) = 1
   \<and> list_all2 (\<lambda>e r. ob_event r = ge_id e \<and> ob_finding r = ge_finding e \<and> ob_seq r = ge_seq e
       \<and> backfill_payload e = Some (ob_payload r)) (events demo_created) (outbox demo_created)"
  using outbox_and_exports_mirror_events [OF demo_history(2), of demo_created] demo_history(2) demo_events
  by auto

theorem event_sequences_gapless_witness:
  "map ge_seq (list_events ''F-1'' demo_created) = [1]"
  using event_sequences_gapless [OF demo_history(2), of demo_created "''F-1''"] demo_events
  by (auto simp: events_for_def)

theorem tail_deletion_verifies_witness:
  "verify_event_chain ''F-1'' demo_created = Inr True \<and> events demo_created \<noteq> []
   \<and> verify_event_chain ''F-1'' (demo_created\<lparr>events := []\<rparr>) = Inr True"
proof -
  obtain e where e: "events demo_created = [e]" "ge_finding e = ''F-1''" "ge_seq e = 1" using demo_events by blast
  have ok: "verify_event_chain ''F-1'' demo_created = Inr True"
    by (rule verify_chain_ok, rule history_log_inv [OF demo_history(2)]) simp
  show ?thesis using tail_deletion_verifies [OF ok, of 0] ok e by simp
qed

theorem lifecycle_refinement_witness:
  "lifecycle_step (abs_gov empty_gov) (abs_gov demo_created)
   \<and> abs_gov empty_gov ''F-1'' = None \<and> abs_gov demo_created ''F-1'' = Some Open"
  using lifecycle_refinement [OF demo_history(2)]
  by (simp add: abs_gov_def find_finding_def demo_finding_def new_finding_def empty_gov_def)

theorem closed_findings_stay_closed_witness:
  "history [demo_created, empty_gov]
   \<and> \<not> (\<exists>f. find_finding ''F-1'' empty_gov = Some f \<and> f_status f = ''closed''
        \<and> find_finding ''F-1'' demo_created = None)"
  using closed_findings_stay_closed [of "[demo_created]" empty_gov "[]" demo_created "''F-1''"] demo_history
  by auto

theorem statuses_are_backed_witness:
  "demo_finding \<in> set (findings demo_created) \<and> phase_of (f_status demo_finding) \<noteq> None"
  using statuses_are_backed [OF demo_history(2), of demo_created demo_finding] by simp

section \<open>A finding under verification\<close>

definition pending_finding :: "string option \<Rightarrow> string \<Rightarrow> string \<Rightarrow> finding" where
  "pending_finding submitter treatment status = demo_finding\<lparr>f_status := status, f_treatment := Some treatment,
     f_action_owner := Some ''zoe'', f_implementer := Some ''ivan'', f_submitter := submitter\<rparr>"

definition one_finding :: "finding \<Rightarrow> gov" where
  "one_finding f = empty_gov\<lparr>findings := [f]\<rparr>"

lemma one_finding_inv: "log_inv (one_finding f)"
  by (simp add: one_finding_def log_inv_def empty_gov_def events_ok_def events_for_def)

lemma find_one_finding: "find_finding (f_id f) (one_finding f) = Some f"
  by (simp add: one_finding_def find_finding_def)

lemma pending_id [simp]: "f_id (pending_finding u t st) = ''F-1''"
  by (simp add: pending_finding_def demo_finding_def new_finding_def)

lemma one_finding_tables [simp]:
  "events (one_finding f) = []" "outbox (one_finding f) = []" "exports (one_finding f) = []"
  "verifications (one_finding f) = []" "approvals (one_finding f) = []"
  by (simp_all add: one_finding_def empty_gov_def)

lemma find_pending: "find_finding ''F-1'' (one_finding (pending_finding u t st)) = Some (pending_finding u t st)"
  using find_one_finding [of "pending_finding u t st"] by simp

lemma fresh_demo: "fresh_ids demo_env (one_finding f)"
  by (simp add: fresh_ids_def)

theorem verification_is_independent_witness:
  "\<exists>f s'. verify demo_env ''F-1'' approver True ''ok''
       (one_finding (pending_finding (Some ''sue'') ''mitigate'' ''pending_verification'')) = (Inr f, s')
     \<and> f_status f = ''verified'' \<and> f_submitter f \<noteq> Some ''bob''"
proof -
  let ?f = "pending_finding (Some ''sue'') ''mitigate'' ''pending_verification''"
  have check: "verify_check ''F-1'' approver (one_finding ?f) = Inr ()"
    by (simp add: verify_check_iff find_pending approver_def) (simp add: pending_finding_def)
  let ?U = "\<lambda>f. f\<lparr>f_status := ''verified'', f_updated := clock demo_env\<rparr>"
  have "loggable demo_env ''F-1'' ''verification_passed'' approver
      (JObj [(''passed'', JBool True), (''notes'', JStr ''ok'')]) (clock demo_env) (set_finding ''F-1'' ?U (one_finding ?f))"
    using loggable_iff [OF one_finding_inv [of ?f]] fresh_demo find_pending
    by (simp add: find_set_finding)
  then obtain f s' where run: "verify demo_env ''F-1'' approver True ''ok'' (one_finding ?f) = (Inr f, s')"
    using mutate_succeeds [where upd = "\<lambda>f. f" and new = "''verified''" and allowed = "[''pending_verification'']"
        and fid = "''F-1''" and s = "one_finding ?f" and row = ?f, OF find_pending _ _ insert_verification_ok]
    by (simp add: verify_def check verify_commit_def) (simp add: pending_finding_def)
  then show ?thesis using verification_is_independent [OF run] by (auto simp: approver_def)
qed

theorem approval_is_separated_witness:
  "\<exists>f s'. approve_treatment demo_env ''F-1'' approver ''approved'' ''ok''
       (one_finding (pending_finding None ''mitigate'' ''pending_approval'')) = (Inr f, s')
     \<and> f_status f = ''approved'' \<and> f_risk_owner f \<noteq> ''bob''"
proof -
  let ?f = "pending_finding None ''mitigate'' ''pending_approval''"
  have check: "approve_check ''F-1'' approver ''approved'' (one_finding ?f) = Inr ''approved''"
    by (simp add: approve_check_def require_role_def get_finding_def find_pending approver_def)
      (simp add: pending_finding_def treatment_approval_status_def demo_finding_def new_finding_def)
  let ?U = "\<lambda>f. f\<lparr>f_status := ''approved'', f_updated := clock demo_env\<rparr>"
  have "loggable demo_env ''F-1'' ''treatment_approved'' approver
      (JObj [(''decision'', JStr ''approved''), (''reason'', JStr ''ok'')]) (clock demo_env)
      (set_finding ''F-1'' ?U (one_finding ?f))"
    using loggable_iff [OF one_finding_inv [of ?f]] fresh_demo find_pending
    by (simp add: find_set_finding)
  then obtain s' where run: "approve_treatment demo_env ''F-1'' approver ''approved'' ''ok'' (one_finding ?f) = (Inr (?U ?f), s')"
    using mutate_succeeds [where upd = "\<lambda>f. f" and new = "''approved''" and allowed = "[''pending_approval'']"
        and fid = "''F-1''" and s = "one_finding ?f" and row = ?f, OF find_pending _ _ insert_approval_ok]
    by (simp add: approve_treatment_def check approve_commit_def) (simp add: pending_finding_def)
  have "f_treatment (?U ?f) = Some ''mitigate''" by (simp add: pending_finding_def)
  then show ?thesis using approval_is_separated [OF run] run by (fastforce simp: approver_def)
qed

theorem events_fail_only_on_collisions_witness:
  "history [demo_created, empty_gov] \<and> find_finding ''F-1'' demo_created \<noteq> None
   \<and> \<not> (\<exists>s'. record_event demo_env ''F-1'' ''finding_reassessed'' analyst
            (identity_details ''C-1'' ''A-1'' ''high'') 5 demo_created = Inr s')"
proof -
  have found: "find_finding ''F-1'' demo_created \<noteq> None"
    by (simp add: find_finding_def demo_finding_def new_finding_def)
  have "\<not> fresh_ids demo_env demo_created"
    by (simp add: fresh_ids_def demo_created_eq log_event_log event_rows_def Let_def demo_env_def)
  then show ?thesis
    using events_fail_only_on_collisions [OF demo_history(2) _ found, of demo_env "''finding_reassessed''" analyst
        "identity_details ''C-1'' ''A-1'' ''high''" 5] demo_history(2) found by simp
qed

theorem stale_verification_passes_witness:
  "\<exists>g s'. verify_check ''F-1'' analyst (one_finding (pending_finding None ''mitigate'' ''in_progress'')) = Inr ()
     \<and> verify_commit demo_env ''F-1'' analyst True ''ok''
         (one_finding (pending_finding (Some ''ann'') ''mitigate'' ''pending_verification'')) = (Inr g, s')
     \<and> f_status g = ''verified'' \<and> f_submitter g = Some ''ann''"
proof -
  let ?r = "one_finding (pending_finding None ''mitigate'' ''in_progress'')"
  let ?f = "pending_finding (Some ''ann'') ''mitigate'' ''pending_verification''"
  have check: "verify_check ''F-1'' analyst ?r = Inr ()"
    by (simp add: verify_check_iff find_pending analyst_def) (simp add: pending_finding_def)
  have f: "f_status ?f = ''pending_verification''" "f_submitter ?f = Some (actor_id analyst)"
    by (simp_all add: pending_finding_def analyst_def)
  show ?thesis
    using stale_verification_passes [OF check find_pending f one_finding_inv fresh_demo, of "''ok''"] check
    by (auto simp: analyst_def)
qed

theorem stale_approval_accepts_witness:
  "\<exists>g s'. approve_commit demo_env ''F-1'' approver ''approved'' ''ok'' ''accepted''
         (one_finding (pending_finding None ''mitigate'' ''pending_approval'')) = (Inr g, s')
     \<and> f_status g = ''accepted'' \<and> f_treatment g = Some ''mitigate''"
proof -
  let ?r = "one_finding (pending_finding None ''accept'' ''pending_approval'')"
  let ?f = "pending_finding None ''mitigate'' ''pending_approval''"
  have check: "approve_check ''F-1'' approver ''approved'' ?r = Inr ''accepted''"
    by (simp add: approve_check_def require_role_def get_finding_def find_pending approver_def)
      (simp add: pending_finding_def treatment_approval_status_def demo_finding_def new_finding_def)
  have f: "f_treatment (pending_finding None ''accept'' ''pending_approval'') = Some ''accept''"
    "f_status ?f = ''pending_approval''" "f_treatment ?f = Some ''mitigate''"
    by (simp_all add: pending_finding_def)
  show ?thesis
    using stale_approval_accepts [OF check find_pending f(1) find_pending f(2) one_finding_inv fresh_demo, of "''ok''"] f(3)
    by auto
qed

end
