(* ===== verification/Governance_Guards.thy ===== *)
theory Governance_Guards
  imports Governance_Examples
begin

text \<open>
  The contract all governance operations share, and what a closed finding rests on. The
  contract covers the checks, the transaction and its roll-back together: which roles may act,
  which status the finding must have and gets, what is written, and that an error leaves
  every table as it was.
\<close>

section \<open>The contract of an operation\<close>

definition one_entry :: "string \<Rightarrow> actor \<Rightarrow> string set \<Rightarrow> gov \<Rightarrow> gov \<Rightarrow> bool" where
  "one_entry fid a etypes s s' = (\<exists>e x y.
     events s' = events s @ [e] \<and> outbox s' = outbox s @ [x] \<and> exports s' = exports s @ [y]
     \<and> ge_finding e = fid \<and> ge_type e \<in> etypes \<and> ge_actor e = actor_id a
     \<and> ge_role e = actor_role a \<and> ge_auth e = auth_method a
     \<and> ob_event x = ge_id e \<and> xp_event y = ge_id e)"

text \<open>
  \<open>moves before after\<close> relates the status of the finding before the operation, \<open>None\<close> when
  there is none, to its status afterwards; \<open>wrote\<close> says which record was written.
\<close>

definition guarded ::
    "string set \<Rightarrow> (string option \<Rightarrow> string \<Rightarrow> bool) \<Rightarrow> string set \<Rightarrow> (gov \<Rightarrow> gov \<Rightarrow> bool)
       \<Rightarrow> string \<Rightarrow> actor \<Rightarrow> gov \<Rightarrow> finding outcome \<times> gov \<Rightarrow> bool" where
  "guarded allowed moves etypes wrote fid a s res =
     (case res of
        (Inl e, s') \<Rightarrow> s' = s
      | (Inr f, s') \<Rightarrow> actor_role a \<in> allowed
          \<and> moves (map_option f_status (find_finding fid s)) (f_status f)
          \<and> find_finding fid s' = Some f
          \<and> (\<forall>i. i \<noteq> fid \<longrightarrow> find_finding i s' = find_finding i s)
          \<and> one_entry fid a etypes s s' \<and> wrote s s')"

definition arrow :: "string set \<Rightarrow> string set \<Rightarrow> string option \<Rightarrow> string \<Rightarrow> bool" where
  "arrow froms tos before after = ((\<exists>st \<in> froms. before = Some st) \<and> after \<in> tos)"

abbreviation working_roles :: "string set" where
  "working_roles \<equiv> {''risk_owner'', ''analyst'', ''admin''}"

abbreviation approving_roles :: "string set" where
  "approving_roles \<equiv> {''approver'', ''ciso'', ''risk_committee''}"

lemma guarded_error [simp]: "guarded allowed moves etypes wrote fid a s (Inl e, s)"
  by (simp add: guarded_def)

lemma one_entry_log:
  assumes "events b = events s" "outbox b = outbox s" "exports b = exports s"
    and "events s' = events (log_event env fid etype a d now b)"
    and "outbox s' = outbox (log_event env fid etype a d now b)"
    and "exports s' = exports (log_event env fid etype a d now b)"
    and "etype \<in> etypes"
  shows "one_entry fid a etypes s s'"
  unfolding one_entry_def
  using assms by (auto simp: log_event_log event_rows_def new_event_def Let_def)

lemma find_set_other:
  "i \<noteq> fid \<Longrightarrow> (\<And>x. f_id (g x) = f_id x) \<Longrightarrow> find_finding i (set_finding fid g s) = find_finding i s"
  by (simp add: find_finding_def set_finding_def find_update_other)

lemma set_finding_records [simp]:
  "risk_records (set_finding fid g s) = risk_records s"
  "risk_treatments (set_finding fid g s) = risk_treatments s"
  "actions (set_finding fid g s) = actions s"
  by (simp_all add: set_finding_def)

lemma mutate_guarded:
  assumes work: "workflow_ok work" and ids: "\<And>f. f_id (upd f) = f_id f"
    and status: "\<And>f. f_status (upd f) = f_status f" and role: "actor_role a \<in> allowed"
    and froms: "set from \<subseteq> froms" and tos: "new \<in> tos" and etype: "etype \<in> etypes"
    and wrote: "\<And>t t'. work t = Inr t' \<Longrightarrow> risk_records t = risk_records s \<Longrightarrow>
       risk_treatments t = risk_treatments s \<Longrightarrow> approvals t = approvals s \<Longrightarrow> actions t = actions s \<Longrightarrow>
       verifications t = verifications s \<Longrightarrow> closures t = closures s \<Longrightarrow> wrote s t'"
  shows "guarded allowed (arrow froms tos) etypes wrote fid a s
     (mutate env fid a etype new d upd from work s)"
proof -
  let ?U = "\<lambda>f. upd (f\<lparr>f_status := new, f_updated := clock env\<rparr>)"
  let ?b = "set_finding fid ?U s"
  let ?t = "log_event env fid etype a d (clock env) ?b"
  obtain res s' where run: "mutate env fid a etype new d upd from work s = (res, s')" by fastforce
  have frame: "\<forall>t t'. work t = Inr t' \<longrightarrow> findings t' = findings t"
    using work by (simp add: workflow_ok_def)
  from mutate_effect [OF run frame ids] consider
      (error) e where "s' = s" "res = Inl e"
    | (moved) row where "find_finding fid s = Some row" "f_status row \<in> set from" "work ?t = Inr s'"
        "res = Inr (?U row)"
    by (auto simp: Let_def)
  then show ?thesis
  proof cases
    case moved
    then have t: "findings s' = findings ?b" "events s' = events ?t" "outbox s' = outbox ?t" "exports s' = exports ?t"
      using work by (auto simp: workflow_ok_def)
    have found: "find_finding i s' = find_finding i ?b" for i by (rule find_finding_cong [OF t(1)])
    have "find_finding fid s' = Some (?U row)" using found find_set_finding [of ?U fid s] ids moved(1) by simp
    moreover have "find_finding i s' = find_finding i s" if "i \<noteq> fid" for i
      using found find_set_other [of i fid ?U s] that ids by simp
    moreover have "one_entry fid a etypes s s'" by (rule one_entry_log [OF _ _ _ t(2-4) etype]) simp_all
    moreover have "wrote s s'" by (rule wrote [OF moved(3)]) simp_all
    ultimately show ?thesis
      using moved role froms tos status by (auto simp: run guarded_def arrow_def)
  qed (simp add: run)
qed

text \<open>A transaction followed by the read of the finding it changed.\<close>

lemma guarded_commit:
  assumes "\<And>s'. body = Inr s' \<Longrightarrow> guarded allowed moves etypes wrote fid a s (get_finding fid s', s')"
  shows "guarded allowed moves etypes wrote fid a s
     (then_get fid (transact s (outcome_bind body (\<lambda>s'. Inr (s', ())))))"
  using assms by (cases body) (simp_all add: then_get_def)

section \<open>Creation and reassessment\<close>

definition created :: "string option \<Rightarrow> string \<Rightarrow> bool" where
  "created before after = (before = None \<and> after = ''open'')"

definition created_or_kept :: "string option \<Rightarrow> string \<Rightarrow> bool" where
  "created_or_kept before after = (created before after \<or> before = Some after)"

definition no_record :: "gov \<Rightarrow> gov \<Rightarrow> bool" where
  "no_record s s' = (risk_records s' = risk_records s \<and> risk_treatments s' = risk_treatments s
     \<and> approvals s' = approvals s \<and> actions s' = actions s \<and> evidence s' = evidence s
     \<and> verifications s' = verifications s \<and> closures s' = closures s)"

text \<open>The columns a creation or reassessment leaves in the row: the cleaned inputs.\<close>

definition described ::
    "string \<Rightarrow> string \<Rightarrow> string \<Rightarrow> string \<Rightarrow> string \<Rightarrow> string \<Rightarrow> gov \<Rightarrow> gov \<Rightarrow> bool" where
  "described fid control asset title owner sev s s' = (no_record s s' \<and>
     map_option (\<lambda>f. (f_control f, f_asset f, f_title f, f_risk_owner f, f_severity f)) (find_finding fid s') =
       Some (py_strip control, py_strip asset, py_strip title, py_strip owner, py_lower sev))"

lemma create_body_guarded:
  assumes "create_body env f a s = Inr s'" and "f_status f = ''open''" and "actor_role a \<in> allowed"
  shows "guarded allowed created {''finding_created''} (\<lambda>s s'. no_record s s' \<and> find_finding (f_id f) s' = Some f)
     (f_id f) a s (get_finding (f_id f) s', s')"
proof -
  let ?b = "s\<lparr>findings := findings s @ [f]\<rparr>"
  have new: "f_id f \<notin> f_id ` set (findings s)"
    and t: "s' = log_event env (f_id f) ''finding_created'' a
        (identity_details (f_control f) (f_asset f) (f_severity f)) (f_created f) ?b"
    using assms(1) by (auto simp: create_body_def record_event_iff outcome_simps image_iff
        split: sum.splits py_error.splits)
  have none: "find_finding (f_id f) s = None"
    using new by (force simp: find_finding_def find_None_mem image_iff)
  have found: "find_finding i s' = (if i = f_id f then Some f else find_finding i s)" for i
    using none new by (auto simp: t find_finding_def find_append split: option.splits)
  have "one_entry (f_id f) a {''finding_created''} s s'"
    by (rule one_entry_log [where b = ?b]) (simp_all add: t)
  then show ?thesis
    using found none assms(2,3)
    by (simp add: guarded_def created_def no_record_def get_finding_def t)
qed

lemma guarded_mono:
  assumes "guarded allowed moves etypes wrote fid a s res"
    and "\<And>p q. moves p q \<Longrightarrow> moves' p q" and "\<And>s'. wrote s s' \<Longrightarrow> wrote' s s'" and "etypes \<subseteq> etypes'"
  shows "guarded allowed moves' etypes' wrote' fid a s res"
  using assms unfolding guarded_def one_entry_def by (fastforce split: sum.splits prod.splits)

lemma create_guarded:
  "guarded {''admin'', ''analyst''} created {''finding_created''}
     (described (py_strip fid) control asset title owner sev) (py_strip fid) a s
     (create_finding env fid control asset title owner sev a s)"
proof (cases "finding_inputs fid control asset title owner sev a")
  case (Inr p)
  obtain i c as t ow sv where p: "p = (i, c, as, t, ow, sv)" by (cases p) auto
  let ?f = "new_finding i c as t ow sv (clock env) (clock2 env)"
  have i: "i = py_strip fid" "c = py_strip control" "as = py_strip asset" "t = py_strip title"
      "ow = py_strip owner" "sv = py_lower sev" and role: "actor_role a \<in> {''admin'', ''analyst''}"
    using Inr p by (auto simp: finding_inputs_def outcome_simps)
  have f: "f_id ?f = i" "f_status ?f = ''open''" by (simp_all add: new_finding_def)
  have wrote: "described i control asset title owner sev s s'"
    if "no_record s s' \<and> find_finding i s' = Some ?f" for s'
    using that i by (simp add: described_def new_finding_def)
  have "guarded {''admin'', ''analyst''} created {''finding_created''}
      (described i control asset title owner sev) i a s
      (then_get i (transact s (outcome_bind (create_body env ?f a s) (\<lambda>s'. Inr (s', ())))))"
  proof (rule guarded_commit)
    fix s' assume "create_body env ?f a s = Inr s'"
    from create_body_guarded [OF this f(2) role]
    show "guarded {''admin'', ''analyst''} created {''finding_created''}
        (described i control asset title owner sev) i a s (get_finding i s', s')"
      unfolding f by (rule guarded_mono) (use wrote in auto)
  qed
  then show ?thesis using Inr p i by (simp add: create_finding_def)
qed (simp add: create_finding_def)

lemma reassess_guarded:
  assumes "actor_role a \<in> allowed"
  shows "guarded allowed created_or_kept {''finding_reassessed''}
     (\<lambda>s s'. no_record s s' \<and>
        map_option (\<lambda>f. (f_control f, f_asset f, f_title f, f_risk_owner f, f_severity f)) (find_finding fid s') =
          Some (control, asset, title, owner, sev)) fid a s
     (reassess env fid control asset title owner sev a s)"
  unfolding reassess_def
proof (rule guarded_commit)
  fix s' assume body: "reassess_body env fid control asset title owner sev a s = Inr s'"
  let ?g = "\<lambda>f. f\<lparr>f_title := title, f_risk_owner := owner, f_severity := sev, f_updated := clock env\<rparr>"
  let ?b = "set_finding fid ?g s" and ?d = "identity_details control asset sev"
  obtain row where row: "find_finding fid s = Some row" "f_control row = control" "f_asset row = asset"
    and t: "s' = log_event env fid ''finding_reassessed'' a ?d (clock env) ?b"
    using body by (auto simp: reassess_body_def record_event_iff split: option.splits if_splits)
  have found: "find_finding i s' = find_finding i ?b" for i by (rule find_finding_cong) (simp add: t)
  have "one_entry fid a {''finding_reassessed''} s s'"
    by (rule one_entry_log [where b = ?b]) (simp_all add: t)
  moreover have "find_finding fid s' = Some (?g row)" using found find_set_finding [of ?g fid s] row by simp
  moreover have "find_finding i s' = find_finding i s" if "i \<noteq> fid" for i
    using found find_set_other [of i fid ?g s] that by simp
  ultimately show "guarded allowed created_or_kept {''finding_reassessed''} (\<lambda>s s'. no_record s s' \<and>
        map_option (\<lambda>f. (f_control f, f_asset f, f_title f, f_risk_owner f, f_severity f)) (find_finding fid s') =
          Some (control, asset, title, owner, sev)) fid a s (get_finding fid s', s')"
    using row assms by (simp add: guarded_def created_or_kept_def no_record_def get_finding_def t)
qed

lemma lower_severity: "sev \<in> set severities \<Longrightarrow> py_lower sev = sev"
proof -
  have "list_all (\<lambda>v. py_lower v = v) severities" by code_simp
  then show "sev \<in> set severities \<Longrightarrow> py_lower sev = sev" by (simp add: list_all_iff)
qed

lemma upsert_guarded:
  "guarded {''admin'', ''analyst''} created_or_kept {''finding_created'', ''finding_reassessed''}
     (described (py_strip fid) control asset title owner sev) (py_strip fid) a s
     (upsert_finding env env' fid control asset title owner sev a s)"
proof (cases "finding_inputs fid control asset title owner sev a")
  case (Inr p)
  obtain i c as t ow sv where p: "p = (i, c, as, t, ow, sv)" by (cases p) auto
  have i: "i = py_strip fid" "c = py_strip control" "as = py_strip asset" "t = py_strip title"
      "ow = py_strip owner" "sv = py_lower sev" "sv \<in> set severities" and role: "actor_role a \<in> {''admin'', ''analyst''}"
    using Inr p by (auto simp: finding_inputs_def outcome_simps)
  have again: "py_strip i = i" "py_strip c = c" "py_strip as = as" "py_strip t = t" "py_strip ow = ow"
      "py_lower sv = sv" using lower_severity [OF i(7)] by (simp_all add: i(1-5))
  obtain res s' where run: "create_finding env i c as t ow sv a s = (res, s')" by fastforce
  have "guarded {''admin'', ''analyst''} created {''finding_created''} (described i c as t ow sv) i a s (res, s')"
    using create_guarded [of i c as t ow sv a s env] run again by simp
  then have create: "guarded {''admin'', ''analyst''} created_or_kept
      {''finding_created'', ''finding_reassessed''} (described i control asset title owner sev) i a s (res, s')"
    by (rule guarded_mono) (use again in \<open>auto simp: created_or_kept_def described_def i(1-6)\<close>)
  have reassess: "guarded {''admin'', ''analyst''} created_or_kept {''finding_created'', ''finding_reassessed''}
      (described i control asset title owner sev) i a s (reassess env' i c as t ow sv a s)"
    by (rule guarded_mono [OF reassess_guarded [OF role]]) (auto simp: described_def i)
  have "s' = s" if "res = Inl e" for e using create that by (simp add: guarded_def)
  then show ?thesis
    using create reassess Inr p i run
    by (auto simp: upsert_finding_def split: sum.splits py_error.splits)
qed (simp add: upsert_finding_def)

section \<open>Submission\<close>

definition wrote_evidence :: "string \<Rightarrow> actor \<Rightarrow> gov \<Rightarrow> gov \<Rightarrow> bool" where
  "wrote_evidence fid a s s' = (\<exists>v. evidence s' = evidence s @ [v] \<and> ev_finding v = fid
     \<and> ev_submitted_by v = actor_id a)"

lemma submit_guarded:
  assumes "actor_role a \<in> allowed" and "\<exists>f. find_finding fid s = Some f \<and> f_status f = ''in_progress''"
  shows "guarded allowed (arrow {''in_progress''} {''pending_verification''}) {''evidence_submitted''}
     (wrote_evidence fid a)
     fid a s (commit_evidence env fid a source digest eid ob s)"
  unfolding commit_evidence_def
proof (rule guarded_commit)
  fix s' assume body: "submit_body env fid a source digest eid ob s = Inr s'"
  let ?v = "new_evidence eid fid source (actor_id a) ob (clock env)"
  let ?g = "\<lambda>f. f\<lparr>f_status := ''pending_verification'', f_submitter := Some (actor_id a), f_updated := clock env\<rparr>"
  let ?b = "set_finding fid ?g (s\<lparr>evidence := evidence s @ [?v]\<rparr>)" and ?d = "evidence_details eid source ob"
  obtain row where row: "find_finding fid s = Some row" "f_status row = ''in_progress''"
    and t: "s' = log_event env fid ''evidence_submitted'' a ?d (clock env) ?b"
    using body assms(2) by (auto simp: submit_body_def insert_evidence_def record_event_iff outcome_simps)
  have cong: "find_finding i (s\<lparr>evidence := es\<rparr>) = find_finding i s" for i es by (rule find_finding_cong) simp
  have found: "find_finding i s' = find_finding i ?b" for i by (rule find_finding_cong) (simp add: t)
  have "one_entry fid a {''evidence_submitted''} s s'"
    by (rule one_entry_log [where b = ?b]) (simp_all add: t)
  moreover have "find_finding fid s' = Some (?g row)" using found find_set_finding [of ?g fid] row cong by simp
  moreover have "find_finding i s' = find_finding i s" if "i \<noteq> fid" for i
    using found find_set_other [of i fid ?g] that cong by simp
  moreover have "wrote_evidence fid a s s'"
    by (simp add: t new_evidence_def wrote_evidence_def)
  ultimately show "guarded allowed (arrow {''in_progress''} {''pending_verification''}) {''evidence_submitted''}
     (wrote_evidence fid a)
     fid a s (get_finding fid s', s')"
    using row assms by (simp add: guarded_def arrow_def get_finding_def)
qed

text \<open>A repeated submission returns the finding that already awaits verification.\<close>

definition already_submitted :: "string \<Rightarrow> actor \<Rightarrow> gov \<Rightarrow> finding outcome \<times> gov \<Rightarrow> bool" where
  "already_submitted fid a s res = (\<exists>f. res = (Inr f, s) \<and> find_finding fid s = Some f
     \<and> f_status f = ''pending_verification'' \<and> has_evidence s fid (actor_id a))"

lemma submission_guarded:
  assumes "submit_evidence persist env fid a source c s st = (r, s', st')"
  shows "guarded working_roles (arrow {''in_progress''} {''pending_verification''})
     {''evidence_submitted''}
     (wrote_evidence fid a)
     fid a s (r, s') \<or> (actor_role a \<in> working_roles \<and> already_submitted fid a s (r, s'))"
proof (cases "submit_check fid a source c s")
  case (Inl e)
  then show ?thesis using assms by (auto simp: submit_evidence_def)
next
  case (Inr p)
  show ?thesis
  proof (cases p)
    case (Already f)
    then have "r = Inr f" "s' = s" using Inr assms by (simp_all add: submit_evidence_def)
    moreover have "find_finding fid s = Some f \<and> f_status f = ''pending_verification''
        \<and> has_evidence s fid (actor_id a)"
      using Inr Already by (auto simp: submit_check_def outcome_simps has_duplicate_evidence_def
          list_ex_iff list_evidence_def same_submission_def has_evidence_def split: if_splits)
    ultimately have "already_submitted fid a s (r, s')" by (simp add: already_submitted_def)
    then show ?thesis using Already Inr by (auto simp: submit_check_def outcome_simps)
  next
    case (Proceed src raw digest)
    then have role: "actor_role a \<in> working_roles"
      and found: "\<exists>f. find_finding fid s = Some f \<and> f_status f = ''in_progress''"
      using Inr by (auto simp: submit_check_def outcome_simps split: if_splits)
    obtain ro st'' where "persist_checked_evidence persist raw digest st = (ro, st'')" by fastforce
    then show ?thesis using Proceed Inr assms
        submit_guarded [OF role found, of env src digest
          "''EV-'' @ map upper_char (take 12 (row_uuid env))" "projr ro"]
      by (cases ro) (auto simp: submit_evidence_def split: prod.splits)
  qed
qed

section \<open>The other transitions\<close>

definition wrote_risk :: "string \<Rightarrow> string \<Rightarrow> string \<Rightarrow> gov \<Rightarrow> gov \<Rightarrow> bool" where
  "wrote_risk fid likelihood impact s s' = (\<exists>r \<in> set (risk_records s'). rr_finding r = fid
     \<and> rr_likelihood r = py_lower likelihood \<and> rr_impact r = py_lower impact)"

definition wrote_treatment :: "string \<Rightarrow> string \<Rightarrow> actor \<Rightarrow> gov \<Rightarrow> gov \<Rightarrow> bool" where
  "wrote_treatment fid ttype a s s' = (\<exists>r. risk_treatments s' = risk_treatments s @ [r]
     \<and> rt_finding r = fid \<and> rt_type r = ttype \<and> rt_proposed_by r = actor_id a)"

definition wrote_approval :: "string \<Rightarrow> string \<Rightarrow> actor \<Rightarrow> gov \<Rightarrow> gov \<Rightarrow> bool" where
  "wrote_approval fid decision a s s' = (\<exists>r. approvals s' = approvals s @ [r] \<and> ap_finding r = fid
     \<and> ap_decision r = decision \<and> ap_actor r = actor_id a \<and> ap_role r = actor_role a)"

definition wrote_action :: "string \<Rightarrow> string \<Rightarrow> gov \<Rightarrow> gov \<Rightarrow> bool" where
  "wrote_action fid implementer s s' = (\<exists>r. actions s' = actions s @ [r] \<and> ac_finding r = fid
     \<and> ac_implementer r = Some (py_strip implementer))"

definition wrote_verification :: "string \<Rightarrow> bool \<Rightarrow> actor \<Rightarrow> gov \<Rightarrow> gov \<Rightarrow> bool" where
  "wrote_verification fid passed a s s' = (\<exists>w. verifications s' = verifications s @ [w]
     \<and> vr_finding w = fid \<and> vr_verifier w = actor_id a
     \<and> vr_result w = (if passed then ''passed'' else ''failed''))"

definition wrote_closure :: "string \<Rightarrow> actor \<Rightarrow> gov \<Rightarrow> gov \<Rightarrow> bool" where
  "wrote_closure fid a s s' = (\<exists>r. closures s' = closures s @ [r] \<and> cl_finding r = fid
     \<and> cl_closed_by r = actor_id a)"

lemma update_where_mem: "x \<in> set t \<Longrightarrow> P x \<Longrightarrow> f x \<in> set (update_where P f t)"
  by (induction t) auto

lemma upsert_risk_kept: "upsert_risk r t = Inr t' \<Longrightarrow> r \<in> set (risk_records t')"
  using update_where_mem [of _ "risk_records t" "\<lambda>x. rr_finding x = rr_finding r" "\<lambda>x. r"]
  by (auto simp: upsert_risk_def list_ex_iff split: if_splits)

lemma assess_guarded:
  "guarded working_roles (arrow {''open'', ''rejected''} {''risk_assessed''}) {''risk_assessed''}
     (wrote_risk fid likelihood impact) fid a s (assess_risk env fid a likelihood impact s)"
proof (cases "assess_check fid a likelihood impact s")
  case (Inr p)
  obtain l i f where p: "p = (l, i, f)" by (cases p) auto
  have c: "actor_role a \<in> working_roles" "l = py_lower likelihood" "i = py_lower impact"
    using Inr p by (auto simp: assess_check_def outcome_simps)
  have "guarded working_roles (arrow {''open'', ''rejected''} {''risk_assessed''}) {''risk_assessed''}
      (wrote_risk fid likelihood impact) fid a s (assess_commit env fid a l i f s)"
    unfolding assess_commit_def
    by (rule mutate_guarded) (use c in \<open>auto simp: wrote_risk_def dest!: upsert_risk_kept intro: bexI [rotated]\<close>)
  then show ?thesis using Inr p by (simp add: assess_risk_def)
qed (simp add: assess_risk_def)

lemma propose_guarded:
  "guarded working_roles (arrow {''risk_assessed''} {''pending_approval''}) {''treatment_proposed''}
     (wrote_treatment fid ttype a) fid a s (propose_treatment env fid a ttype reason action_owner due s)"
proof (cases "propose_check a ttype reason action_owner due")
  case (Inr p)
  obtain r ow d where p: "p = (r, ow, d)" by (cases p) auto
  have c: "actor_role a \<in> working_roles" using Inr p by (auto simp: propose_check_def outcome_simps)
  have "guarded working_roles (arrow {''risk_assessed''} {''pending_approval''}) {''treatment_proposed''}
      (wrote_treatment fid ttype a) fid a s (propose_commit env fid a ttype r ow d s)"
    unfolding propose_commit_def
    by (rule mutate_guarded) (use c in \<open>auto simp: wrote_treatment_def insert_treatment_def outcome_simps\<close>)
  then show ?thesis using Inr p by (simp add: propose_treatment_def)
qed (simp add: propose_treatment_def)

definition approval_outcomes :: "string \<Rightarrow> string set" where
  "approval_outcomes decision = (if decision = ''approved'' then {''approved'', ''accepted''} else {''risk_assessed''})"

lemma approve_guarded:
  "guarded approving_roles (arrow {''pending_approval''} (approval_outcomes decision))
     {if decision = ''approved'' then ''treatment_approved'' else ''treatment_rejected''}
     (wrote_approval fid decision a) fid a s (approve_treatment env fid a decision reason s)"
proof (cases "approve_check fid a decision s")
  case (Inr status)
  have c: "actor_role a \<in> approving_roles" using Inr by (auto simp: approve_check_def outcome_simps)
  have "guarded approving_roles (arrow {''pending_approval''} (approval_outcomes decision))
      {if decision = ''approved'' then ''treatment_approved'' else ''treatment_rejected''}
      (wrote_approval fid decision a) fid a s (approve_commit env fid a decision reason status s)"
    unfolding approve_commit_def
    by (rule mutate_guarded)
      (use c approve_decisions [OF Inr] in
        \<open>auto simp: wrote_approval_def approval_outcomes_def insert_approval_def outcome_simps\<close>)
  then show ?thesis using Inr by (simp add: approve_treatment_def)
qed (simp add: approve_treatment_def)

lemma start_guarded:
  "guarded working_roles (arrow {''approved''} {''in_progress''}) {''action_started''}
     (wrote_action fid implementer) fid a s (start_action env fid a implementer s)"
proof (cases "start_check fid a implementer s")
  case (Inr p)
  obtain i f where p: "p = (i, f)" by (cases p) auto
  have c: "actor_role a \<in> working_roles" "i = py_strip implementer"
    using Inr p by (auto simp: start_check_def outcome_simps)
  have "guarded working_roles (arrow {''approved''} {''in_progress''}) {''action_started''}
      (wrote_action fid implementer) fid a s (start_commit env fid a i f s)"
    unfolding start_commit_def
    by (rule mutate_guarded) (use c in \<open>auto simp: wrote_action_def insert_action_def outcome_simps\<close>)
  then show ?thesis using Inr p by (simp add: start_action_def)
qed (simp add: start_action_def)

lemma verify_guarded:
  "guarded {''analyst'', ''approver'', ''ciso'', ''risk_committee''}
     (arrow {''pending_verification''} {if passed then ''verified'' else ''in_progress''})
     {if passed then ''verification_passed'' else ''verification_failed''}
     (wrote_verification fid passed a) fid a s (verify env fid a passed reason s)"
proof (cases "verify_check fid a s")
  case (Inr u)
  then have "actor_role a \<in> {''analyst'', ''approver'', ''ciso'', ''risk_committee''}"
    by (simp add: verify_check_iff)
  then have "guarded {''analyst'', ''approver'', ''ciso'', ''risk_committee''}
      (arrow {''pending_verification''} {if passed then ''verified'' else ''in_progress''})
      {if passed then ''verification_passed'' else ''verification_failed''}
      (wrote_verification fid passed a) fid a s (verify_commit env fid a passed reason s)"
    unfolding verify_commit_def
    by (intro mutate_guarded) (auto simp: wrote_verification_def insert_verification_def outcome_simps)
  then show ?thesis using Inr by (simp add: verify_def)
qed (simp add: verify_def)

lemma close_guarded:
  "guarded approving_roles (arrow {''verified'', ''accepted''} {''closed''}) {''finding_closed''}
     (wrote_closure fid a) fid a s (close env fid a reason s)"
proof (cases "close_check fid a s")
  case (Inr u)
  then have "actor_role a \<in> approving_roles" by (auto simp: close_check_def outcome_simps)
  then have "guarded approving_roles (arrow {''verified'', ''accepted''} {''closed''}) {''finding_closed''}
      (wrote_closure fid a) fid a s (close_commit env fid a reason s)"
    unfolding close_commit_def
    by (intro mutate_guarded) (auto simp: wrote_closure_def insert_closure_def outcome_simps)
  then show ?thesis using Inr by (simp add: close_def)
qed (simp add: close_def)


section \<open>What a closed finding rests on\<close>

text \<open>
  Serial runs from any database: each check reads the state its transaction commits on. A
  database is orderly when its log tables agree, none of its findings is closed, and each has
  the records its status asks for; the empty database is.
\<close>

inductive runs_from :: "gov \<Rightarrow> gov list \<Rightarrow> bool" for start where
  runs_start: "runs_from start [start]"
| runs_step: "runs_from start (s # hs) \<Longrightarrow> gov_step s s s' \<Longrightarrow> runs_from start (s' # s # hs)"

definition orderly :: "gov \<Rightarrow> bool" where
  "orderly s = (log_inv s \<and> (\<forall>f \<in> set (findings s). f_status f \<noteq> ''closed'' \<and> status_backed True s f))"

lemma serial_runs: "serial hs \<Longrightarrow> runs_from empty_gov hs"
  by (induction rule: serial.induct) (auto intro: runs_from.intros)

lemma orderly_empty: "orderly empty_gov"
  using history_log_inv [OF history_empty] by (simp add: orderly_def empty_gov_def)

lemma runs_keep:
  assumes "runs_from start hs" and "orderly start" and "s \<in> set hs"
  shows "log_inv s \<and> lifecycle_inv True s"
  using assms
proof (induction arbitrary: s rule: runs_from.induct)
  case (runs_step t hs t')
  then have t: "log_inv t" "lifecycle_inv True t" by simp_all
  have eff: "effect True t t'" using gov_step_effect [OF runs_step(2)] by simp
  have "log_inv t' \<and> lifecycle_inv True t'"
    using log_inv_effect [OF eff t(1)] lifecycle_inv_effect [OF eff t(2,1)] by simp
  then show ?case using runs_step by auto
qed (simp add: orderly_def lifecycle_inv_def)

text \<open>
  C5. No closure without approval and remediation: in a serial run from any orderly database
  (the empty one included; its log tables agree, none of its findings is closed and each has the
  records its status asks for), a closed finding has a closure record and an approving approval
  record, and either its treatment is risk acceptance or it has an implementer, evidence from
  its recorded submitter and a passed verification.
\<close>

theorem closure_is_backed:
  assumes "runs_from start hs" and "orderly start" and "s \<in> set hs"
  shows "\<forall>f \<in> set (findings s). f_status f = ''closed'' \<longrightarrow>
    has_closure s (f_id f) \<and> has_approval s (f_id f)
    \<and> (f_treatment f = Some ''accept''
       \<or> (has_passed s (f_id f) \<and> f_implementer f \<noteq> None
          \<and> (\<exists>u. f_submitter f = Some u \<and> has_evidence s (f_id f) u)))"
  using runs_keep [OF assms]
  by (auto simp: lifecycle_inv_def status_backed_def remediated_def Let_def)

section \<open>Witnesses\<close>

definition remediated_db :: gov where
  "remediated_db = (one_finding (pending_finding (Some ''sue'') ''mitigate'' ''verified''))
     \<lparr>approvals := [\<lparr>ap_id = ''AP-1'', ap_finding = ''F-1'', ap_decision = ''approved'', ap_actor = ''bob'',
        ap_role = ''approver'', ap_reason = ''ok''\<rparr>],
      evidence := [\<lparr>ev_id = ''EV-1'', ev_finding = ''F-1'', ev_source = ''scan'', ev_sha256 = ''00'',
        ev_submitted_by = ''sue'', ev_submitted_at = 5, ev_status = ''submitted'', ev_object_key = None,
        ev_size = None, ev_etag = None\<rparr>],
      verifications := [\<lparr>vr_id = ''VR-1'', vr_finding = ''F-1'', vr_verifier = ''vera'',
        vr_result = ''passed'', vr_notes = ''ok''\<rparr>]\<rparr>"

lemma remediated_db_tables [simp]:
  "events remediated_db = []" "outbox remediated_db = []" "exports remediated_db = []"
  "closures remediated_db = []"
  "findings remediated_db = [pending_finding (Some ''sue'') ''mitigate'' ''verified'']"
  by (simp_all add: remediated_db_def one_finding_def empty_gov_def)

lemma remediated_db_found:
  "find_finding ''F-1'' remediated_db = Some (pending_finding (Some ''sue'') ''mitigate'' ''verified'')"
  by (simp add: find_finding_def)

lemma remediated_db_log: "log_inv remediated_db"
  by (simp add: log_inv_def events_ok_def events_for_def)

lemma remediated_db_orderly: "orderly remediated_db"
  unfolding orderly_def
proof (intro conjI remediated_db_log ballI)
  fix f assume "f \<in> set (findings remediated_db)"
  then have f: "f = pending_finding (Some ''sue'') ''mitigate'' ''verified''" by simp
  show "f_status f \<noteq> ''closed''" by (simp add: f pending_finding_def)
  have "has_approval remediated_db ''F-1''" "has_passed remediated_db ''F-1''"
    "has_evidence remediated_db ''F-1'' ''sue''"
    by (simp_all add: remediated_db_def has_approval_def has_passed_def has_evidence_def)
  then show "status_backed True remediated_db f"
    by (simp add: f status_backed_def remediated_def in_remediation_def pending_finding_def Let_def
        demo_finding_def new_finding_def)
qed

lemma remediated_db_closes:
  "\<exists>s'. close demo_env ''F-1'' approver ''done'' remediated_db =
     (Inr ((pending_finding (Some ''sue'') ''mitigate'' ''verified'')\<lparr>f_status := ''closed'', f_updated := clock demo_env\<rparr>), s')"
proof -
  have check: "close_check ''F-1'' approver remediated_db = Inr ()"
    by (simp add: close_check_def outcome_simps remediated_db_found approver_def)
      (simp add: pending_finding_def)
  let ?U = "\<lambda>f. f\<lparr>f_status := ''closed'', f_updated := clock demo_env\<rparr>"
  have log: "loggable demo_env ''F-1'' ''finding_closed'' approver (JObj [(''reason'', JStr ''done'')])
      (clock demo_env) (set_finding ''F-1'' ?U remediated_db)"
    using loggable_iff [OF remediated_db_log] remediated_db_found
    by (simp add: find_set_finding fresh_ids_def)
  let ?c = "\<lparr>cl_id = record_prefix ''CL-'' demo_env, cl_finding = ''F-1'', cl_closed_by = actor_id approver,
      cl_reason = ''done''\<rparr>"
  have ins: "insert_closure ?c t = Inr (t\<lparr>closures := closures t @ [?c]\<rparr>)" if "closures t = []" for t
    using that by (simp add: insert_closure_def outcome_bind_eq_Inr outcome_simps)
  have "f_status (pending_finding (Some ''sue'') ''mitigate'' ''verified'') \<in> set [''verified'', ''accepted'']"
    by (simp add: pending_finding_def)
  then show ?thesis
    using mutate_succeeds [where upd = "\<lambda>f. f" and new = "''closed''" and work = "insert_closure ?c",
        OF remediated_db_found _ log ins]
    by (simp add: close_def check close_commit_def)
qed

theorem closure_is_backed_witness:
  "\<exists>s'. close demo_env ''F-1'' approver ''done'' remediated_db = (Inr (the (find_finding ''F-1'' s')), s')
     \<and> runs_from remediated_db [s', remediated_db] \<and> orderly remediated_db
     \<and> f_status (the (find_finding ''F-1'' s')) = ''closed''
     \<and> f_treatment (the (find_finding ''F-1'' s')) = Some ''mitigate''
     \<and> has_closure s' ''F-1'' \<and> has_approval s' ''F-1'' \<and> has_passed s' ''F-1'' \<and> has_evidence s' ''F-1'' ''sue''"
proof -
  let ?f = "(pending_finding (Some ''sue'') ''mitigate'' ''verified'')\<lparr>f_status := ''closed'', f_updated := clock demo_env\<rparr>"
  obtain s' where run: "close demo_env ''F-1'' approver ''done'' remediated_db = (Inr ?f, s')"
    using remediated_db_closes by blast
  have hist: "runs_from remediated_db [s', remediated_db]"
    using operation_steps(7) [of remediated_db demo_env "''F-1''" approver "''done''"] run
    by (auto intro: runs_from.intros)
  have found: "find_finding ''F-1'' s' = Some ?f"
    using close_guarded [of "''F-1''" approver remediated_db demo_env "''done''"] run
    by (simp add: guarded_def)
  have f: "f_status ?f = ''closed''" "f_treatment ?f = Some ''mitigate''" "f_submitter ?f = Some ''sue''"
    by (simp_all add: pending_finding_def)
  moreover have "?f \<in> set (findings s')" "f_id ?f = ''F-1''" using find_finding_some [OF found] by simp_all
  ultimately show ?thesis
    using closure_is_backed [OF hist remediated_db_orderly, of s'] found run hist remediated_db_orderly
    by (auto simp del: pending_id)
qed


end
