(* ===== verification/Governance_Opening.thy ===== *)
theory Governance_Opening
  imports Governance_Chain
begin

text \<open>
  Opening a governance database again: the constructor of \<open>governance_core.py\<close> numbers the events and completes the audit
  exports of a database from before these columns and tables. On every state this code reaches, both change nothing, so opening is no step of the histories.
\<close>

lemma numbered_sequences:
  assumes "\<And>fid. list_all (\<lambda>e. 0 < ge_seq e) (events_for fid es)"
  shows "backfill_all fids es = Some es"
proof (induction fids)
  case (Cons fid fids)
  have "set (sort_key (\<lambda>e. (ge_occurred e, ge_id e)) (events_for fid es)) = set (events_for fid es)" by simp
  then have "list_all (\<lambda>e. 0 < ge_seq e) (sort_key (\<lambda>e. (ge_occurred e, ge_id e)) (events_for fid es))"
    using assms [of fid] by (simp add: list_all_iff)
  moreover have "backfill_sequence fid es = Some es" if "sort_key (\<lambda>e. (ge_occurred e, ge_id e)) (events_for fid es) = []"
    using that by (simp add: backfill_sequence_def chain_order_def by_previous_def)
  ultimately have "backfill_sequence fid es = Some es"
    by (cases "sort_key (\<lambda>e. (ge_occurred e, ge_id e)) (events_for fid es) = []") (simp_all add: backfill_sequence_def Let_def)
  then show ?case using Cons by simp
qed simp

lemma exports_present:
  assumes "\<And>e. e \<in> set es \<Longrightarrow> backfill_payload e \<noteq> None \<and> (\<exists>x \<in> set xs. xp_event x = ge_id e)"
  shows "backfill_exports es xs = Inr xs"
  using assms
proof (induction es)
  case (Cons e es)
  obtain payload where p: "backfill_payload e = Some payload" using Cons.prems [of e] by auto
  obtain x where x: "x \<in> set xs" "xp_event x = ge_id e" using Cons.prems [of e] by auto
  let ?r = "new_export (backfill_export_id e) (ge_id e) (ge_finding e) (ge_seq e) payload (ge_occurred e)"
  have "\<exists>m. insert_row export_constraints ?r xs = Inl m"
  proof (cases "insert_row export_constraints ?r xs")
    case (Inr xs')
    then have "\<not> (xp_event x = xp_event ?r)" using x(1) by (auto simp: insert_row_ok export_constraints_def)
    then show ?thesis using x(2) by (simp add: new_export_def)
  qed simp
  then show ?case using Cons p by auto
qed simp

text \<open>
  Opening an existing database changes nothing: in every state of every history the two upgrades of the constructor leave
  the events, their sequence numbers and the audit exports as they are.
\<close>

theorem opening_changes_nothing:
  assumes "history hs" and "s \<in> set hs"
  shows "backfill_event_sequences (events s) = Some (events s) \<and> backfill_audit_exports s = Inr (exports s)"
proof
  note inv = history_log_inv [OF assms]
  have "map ge_seq (events_for fid (events s)) = [1..<Suc (length (events_for fid (events s)))]" for fid
    using inv by (auto simp: log_inv_def events_ok_def Let_def simp del: upt_Suc)
  then have "0 < n" if "n \<in> set (map ge_seq (events_for fid (events s)))" for n fid using that by (simp del: set_map split: if_splits) auto
  then show "backfill_event_sequences (events s) = Some (events s)"
    unfolding backfill_event_sequences_def by (intro numbered_sequences) (auto simp: list_all_iff)
  have "list_all2 exported (events s) (exports s)" using inv by (simp add: log_inv_def)
  then have "backfill_payload e \<noteq> None \<and> (\<exists>x \<in> set (exports s). xp_event x = ge_id e)" if "e \<in> set (events s)" for e
    using that by (auto simp: list_all2_conv_all_nth in_set_conv_nth exported_def) (metis nth_mem)
  then show "backfill_audit_exports s = Inr (exports s)"
    unfolding backfill_audit_exports_def by (intro exports_present) simp
qed

end
