(* ===== verification/Leased_Queue.thy ===== *)
theory Leased_Queue
  imports Py_Text
begin

text \<open>
  The contract the four work queues share: a claim grants an item to a holder until an expiry
  time, and completing or failing an item needs the claim. The locale \<open>leased_queue\<close> states it
  over an abstract state; its lemmas are what workers rely on: no two unexpired claims on one
  item, a lease outlives every operation of the other workers until it expires, a completion
  is final, and a late acknowledgement of an item claimed by another holder is refused. It is
  interpreted on the governance outbox, the audit exports, and the SQLite and PostgreSQL
  job queues.
\<close>

section \<open>Shared column tests\<close>

definition seconds :: "int \<Rightarrow> int" where
  "seconds n = n * 1000000"

fun col_eq :: "'a option \<Rightarrow> 'a option \<Rightarrow> bool" where
  "col_eq (Some x) (Some y) = (x = y)"
| "col_eq _ _ = False"

lemma col_eq_iff [table_simps]: "col_eq a b \<longleftrightarrow> (\<exists>x. a = Some x \<and> b = Some x)"
  by (cases a; cases b) auto

definition hex_id32 :: "string \<Rightarrow> bool" where
  "hex_id32 s = (length s = 32 \<and> list_all is_hex s)"

definition count_rows :: "('r \<Rightarrow> bool) \<Rightarrow> 'r list \<Rightarrow> nat" where
  "count_rows P t = length (filter P t)"

section \<open>The contract\<close>

text \<open>
  \<open>Finish\<close> and \<open>Release\<close> carry what the code writes with them (a receipt, a retry delay);
  \<open>Other\<close> stands for operations that need no claim, such as adding an item or requeuing a dead one.
\<close>

datatype ('k, 'h, 'x, 'y, 'z) queue_op =
    Claim 'h int int | Finish 'k 'h int 'x | Release 'k 'h int 'y | Other 'z

fun by_holder :: "'h \<Rightarrow> ('k, 'h, 'x, 'y, 'z) queue_op \<Rightarrow> bool" where
  "by_holder h (Claim h' d now) = (h' = h)"
| "by_holder h (Finish k h' now x) = (h' = h)"
| "by_holder h (Release k h' now y) = (h' = h)"
| "by_holder h (Other z) = False"

fun before :: "int \<Rightarrow> ('k, 'h, 'x, 'y, 'z) queue_op \<Rightarrow> bool" where
  "before e (Claim h d now) = (now < e)"
| "before e (Finish k h now x) = (now < e)"
| "before e (Release k h now y) = (now < e)"
| "before e (Other z) = True"

locale leased_queue =
  fixes sound :: "'st \<Rightarrow> bool"
    and lease :: "'st \<Rightarrow> 'k \<Rightarrow> ('h \<times> int) option"
    and finished :: "'st \<Rightarrow> 'k \<Rightarrow> bool"
    and claim :: "'h \<Rightarrow> int \<Rightarrow> int \<Rightarrow> 'st \<Rightarrow> 'k option \<times> 'st"
    and finish :: "'k \<Rightarrow> 'h \<Rightarrow> int \<Rightarrow> 'x \<Rightarrow> 'st \<Rightarrow> bool \<times> 'st"
    and release :: "'k \<Rightarrow> 'h \<Rightarrow> int \<Rightarrow> 'y \<Rightarrow> 'st \<Rightarrow> 'st"
    and other :: "'z \<Rightarrow> 'st \<Rightarrow> 'st"
  assumes sound_claim: "sound st \<Longrightarrow> sound (snd (claim h d now st))"
    and sound_finish: "sound st \<Longrightarrow> sound (snd (finish k h now x st))"
    and sound_release: "sound st \<Longrightarrow> sound (release k h now y st)"
    and sound_other: "sound st \<Longrightarrow> sound (other z st)"
    and claim_grants:
      "sound st \<Longrightarrow> claim h d now st = (Some k, st') \<Longrightarrow>
         lease st' k = Some (h, now + d) \<and> \<not> finished st k
         \<and> (\<forall>h' e. lease st k = Some (h', e) \<longrightarrow> e \<le> now)"
    and claim_others:
      "sound st \<Longrightarrow> claim h d now st = (r, st') \<Longrightarrow> r \<noteq> Some k \<Longrightarrow> lease st' k = lease st k"
    and claim_finished:
      "sound st \<Longrightarrow> claim h d now st = (r, st') \<Longrightarrow> finished st' k = finished st k"
    and finish_iff:
      "sound st \<Longrightarrow> fst (finish k h now x st) \<longleftrightarrow> (\<exists>e. lease st k = Some (h, e) \<and> now < e)"
    and finish_accepted:
      "sound st \<Longrightarrow> finish k h now x st = (True, st') \<Longrightarrow> finished st' k
         \<and> (\<forall>k'. k' \<noteq> k \<longrightarrow> lease st' k' = lease st k' \<and> finished st' k' = finished st k')"
    and finish_refused: "sound st \<Longrightarrow> finish k h now x st = (False, st') \<Longrightarrow> st' = st"
    and finished_no_lease: "sound st \<Longrightarrow> finished st k \<Longrightarrow> lease st k = None"
    and release_own:
      "sound st \<Longrightarrow> lease (release k h now y st) k' \<noteq> lease st k' \<Longrightarrow>
         k' = k \<and> (\<exists>e. lease st k = Some (h, e))"
    and release_finished: "sound st \<Longrightarrow> finished (release k h now y st) k' = finished st k'"
    and other_keeps:
      "sound st \<Longrightarrow> lease st k = Some l \<Longrightarrow> lease (other z st) k = Some l"
      "sound st \<Longrightarrow> finished st k \<Longrightarrow> finished (other z st) k"
begin

fun run_op :: "('k, 'h, 'x, 'y, 'z) queue_op \<Rightarrow> 'st \<Rightarrow> 'st" where
  "run_op (Claim h d now) st = snd (claim h d now st)"
| "run_op (Finish k h now x) st = snd (finish k h now x st)"
| "run_op (Release k h now y) st = release k h now y st"
| "run_op (Other z) st = other z st"

fun run_ops :: "('k, 'h, 'x, 'y, 'z) queue_op list \<Rightarrow> 'st \<Rightarrow> 'st" where
  "run_ops [] st = st"
| "run_ops (q # qs) st = run_ops qs (run_op q st)"

lemma sound_op: "sound st \<Longrightarrow> sound (run_op q st)"
  by (cases q) (auto simp: sound_claim sound_finish sound_release sound_other)

lemma sound_ops: "sound st \<Longrightarrow> sound (run_ops qs st)"
  by (induction qs arbitrary: st) (auto simp: sound_op)

lemma claimed:
  "sound st \<Longrightarrow> fst (claim h d now st) = Some k \<Longrightarrow>
     \<not> finished st k \<and> (\<forall>h' e. lease st k = Some (h', e) \<longrightarrow> e \<le> now)"
  using claim_grants [of st h d now k "snd (claim h d now st)"] by (cases "claim h d now st") auto

lemma finish_needs_lease:
  "sound st \<Longrightarrow> fst (finish k h now x st) \<Longrightarrow> (\<exists>e. lease st k = Some (h, e) \<and> now < e) \<and> \<not> finished st k"
  using finish_iff finished_no_lease by fastforce

lemma finish_cases:
  "sound st \<Longrightarrow> fst (finish k h now x st) \<or> snd (finish k h now x st) = st"
  using finish_refused [of st k h now x "snd (finish k h now x st)"] by (cases "finish k h now x st") auto

lemma finish_frame:
  "sound st \<Longrightarrow> fst (finish k h now x st) \<Longrightarrow> k' \<noteq> k \<Longrightarrow>
     lease (snd (finish k h now x st)) k' = lease st k' \<and> finished (snd (finish k h now x st)) k' = finished st k'"
  using finish_accepted [of st k h now x "snd (finish k h now x st)"] by (cases "finish k h now x st") auto

text \<open>While a lease runs, no claim can take the item.\<close>

lemma claim_exclusive:
  "sound st \<Longrightarrow> lease st k = Some (h, e) \<Longrightarrow> now < e \<Longrightarrow> fst (claim h' d now st) \<noteq> Some k"
  using claimed [of st h' d now k] by auto

lemma lease_survives_op:
  assumes "sound st" and "lease st k = Some (h, e)" and "\<not> by_holder h q" and "before e q"
  shows "lease (run_op q st) k = Some (h, e)"
proof (cases q)
  case (Claim h' d now)
  have "fst (claim h' d now st) \<noteq> Some k" using claim_exclusive assms Claim by simp
  then show ?thesis
    using claim_others [OF assms(1), of h' d now "fst (claim h' d now st)" "snd (claim h' d now st)" k]
      Claim assms(2) by simp
next
  case (Finish k' h' now x)
  have "k \<noteq> k'" if "fst (finish k' h' now x st)"
    using finish_needs_lease [OF assms(1) that] assms(2,3) Finish by auto
  then show ?thesis
    using finish_cases [OF assms(1), of k' h' now x] finish_frame [OF assms(1), of k' h' now x k] Finish assms(2)
    by auto
next
  case (Release k' h' now y)
  have "lease (release k' h' now y st) k = lease st k"
  proof (rule ccontr)
    assume "lease (release k' h' now y st) k \<noteq> lease st k"
    then show False using release_own [OF assms(1)] assms(2,3) Release by fastforce
  qed
  then show ?thesis using assms(2) Release by simp
qed (simp add: other_keeps(1) [OF assms(1,2)])

lemma lease_survives:
  "sound st \<Longrightarrow> lease st k = Some (h, e) \<Longrightarrow> \<forall>q \<in> set qs. \<not> by_holder h q \<and> before e q \<Longrightarrow>
     lease (run_ops qs st) k = Some (h, e)"
  by (induction qs arbitrary: st) (simp_all add: lease_survives_op sound_op)

text \<open>
  After a claim, until the expiry and whatever the others do, no other holder can claim or
  finish the item, and the holder's own completion is accepted.
\<close>

lemma exclusive_until_expiry:
  assumes "sound st" and "claim h d now st = (Some k, st')"
    and "\<forall>q \<in> set qs. \<not> by_holder h q \<and> before (now + d) q" and "t < now + d"
  shows "fst (claim h' d' t (run_ops qs st')) \<noteq> Some k"
    and "fst (finish k h' t x (run_ops qs st')) \<longleftrightarrow> h' = h"
proof -
  have st': "sound st'" using sound_claim [OF assms(1)] assms(2) by (metis snd_conv)
  have lease: "lease (run_ops qs st') k = Some (h, now + d)"
    using lease_survives [OF st' _ assms(3)] claim_grants [OF assms(1,2)] by blast
  show "fst (claim h' d' t (run_ops qs st')) \<noteq> Some k"
    by (rule claim_exclusive [OF sound_ops [OF st'] lease assms(4)])
  show "fst (finish k h' t x (run_ops qs st')) \<longleftrightarrow> h' = h"
    using finish_iff [OF sound_ops [OF st']] lease assms(4) by auto
qed

text \<open>A holder whose item was claimed by another cannot finish it.\<close>

lemma late_finish_refused:
  assumes "sound st" and "claim h d now st = (Some k, st')" and "h' \<noteq> h"
  shows "\<not> fst (finish k h' t x st')"
proof -
  have "sound st'" using sound_claim [OF assms(1)] assms(2) by (metis snd_conv)
  then show ?thesis
    using finish_needs_lease [of st' k h' t] claim_grants [OF assms(1,2)] assms(3) by auto
qed

lemma finished_stays_op:
  assumes "sound st" and "finished st k"
  shows "finished (run_op q st) k"
proof (cases q)
  case (Claim h d now)
  then show ?thesis
    using claim_finished [OF assms(1), of h d now "fst (claim h d now st)" "snd (claim h d now st)" k] assms(2)
    by simp
next
  case (Finish k' h now x)
  have "k \<noteq> k'" if "fst (finish k' h now x st)" using finish_needs_lease [OF assms(1) that] assms(2) by auto
  then show ?thesis
    using finish_cases [OF assms(1), of k' h now x] finish_frame [OF assms(1), of k' h now x k] Finish assms(2) by auto
qed (simp_all add: release_finished other_keeps assms)

lemma finished_stays: "sound st \<Longrightarrow> finished st k \<Longrightarrow> finished (run_ops qs st) k"
  by (induction qs arbitrary: st) (auto simp: finished_stays_op sound_op)

text \<open>An item is finished at most once, whatever happens afterwards, and never claimed again.\<close>

lemma finished_once:
  assumes "sound st" and "finish k h now x st = (True, st')"
  shows "\<not> fst (finish k h' t x' (run_ops qs st'))" and "fst (claim h' d t (run_ops qs st')) \<noteq> Some k"
proof -
  have st': "sound st'" using sound_finish [OF assms(1)] assms(2) by (metis snd_conv)
  have fin: "finished (run_ops qs st') k"
    using finished_stays [OF st'] finish_accepted [OF assms] by blast
  then show "\<not> fst (finish k h' t x' (run_ops qs st'))"
    using finish_needs_lease [OF sound_ops [OF st'], of k h' t] by auto
  show "fst (claim h' d t (run_ops qs st')) \<noteq> Some k"
    using fin claimed [OF sound_ops [OF st'], of h' d t] by blast
qed

end

text \<open>A queue whose holder can extend a running lease.\<close>

locale renewable_queue = leased_queue +
  fixes renew :: "'b \<Rightarrow> 'c \<Rightarrow> int \<Rightarrow> int \<Rightarrow> 'a \<Rightarrow> bool \<times> 'a"
  assumes renew_accepted:
      "sound st \<Longrightarrow> renew k h d now st = (True, st') \<Longrightarrow>
         (\<exists>e. lease st k = Some (h, e) \<and> now < e) \<and> lease st' k = Some (h, now + d)
         \<and> (\<forall>k'. finished st' k' = finished st k') \<and> (\<forall>k'. k' \<noteq> k \<longrightarrow> lease st' k' = lease st k')"
    and renew_refused: "sound st \<Longrightarrow> renew k h d now st = (False, st') \<Longrightarrow> st' = st"
    and sound_renew: "sound st \<Longrightarrow> sound (snd (renew k h d now st))"
begin

lemma renewal_extends_exclusion:
  assumes "sound st" and "renew k h d now st = (True, st')"
    and "\<forall>q \<in> set qs. \<not> by_holder h q \<and> before (now + d) q" and "t < now + d"
  shows "fst (claim h' d' t (run_ops qs st')) \<noteq> Some k" and "fst (finish k h t x (run_ops qs st'))"
proof -
  have st': "sound st'" using sound_renew [OF assms(1)] assms(2) by (metis snd_conv)
  have lease: "lease (run_ops qs st') k = Some (h, now + d)"
    using lease_survives [OF st' _ assms(3)] renew_accepted [OF assms(1,2)] by blast
  then show "fst (claim h' d' t (run_ops qs st')) \<noteq> Some k"
    by (rule claim_exclusive [OF sound_ops [OF st'] _ assms(4)])
  show "fst (finish k h t x (run_ops qs st'))"
    using finish_iff [OF sound_ops [OF st']] lease assms(4) by auto
qed

lemma lost_lease_not_renewed:
  assumes "sound st" and "lease st k = Some (h, e)" and "h' \<noteq> h"
  shows "renew k h' d now st = (False, st)"
proof (cases "renew k h' d now st")
  case (Pair b st')
  then show ?thesis
    using renew_accepted [OF assms(1), of k h' d now st'] renew_refused [OF assms(1), of k h' d now st'] assms(2,3)
    by (cases b) auto
qed

end

section \<open>Queues kept in a table\<close>

text \<open>
  The statements the queues are made of: select the first ready row and mark it, or update the
  row with a key if a guard holds, the row count telling whether it did.
\<close>

definition claim_row ::
    "('r \<Rightarrow> 'k) \<Rightarrow> ('r \<Rightarrow> 'o::linorder) \<Rightarrow> ('r \<Rightarrow> bool) \<Rightarrow> ('r \<Rightarrow> 'r) \<Rightarrow> 'r list \<Rightarrow> 'r option \<times> 'r list" where
  "claim_row key order ready grant t =
     (case select_first order ready t of
        None \<Rightarrow> (None, t)
      | Some r \<Rightarrow> (Some (grant r), update_where (\<lambda>x. key x = key r) grant t))"

definition update_row ::
    "('r \<Rightarrow> 'k) \<Rightarrow> 'k \<Rightarrow> ('r \<Rightarrow> bool) \<Rightarrow> ('r \<Rightarrow> 'r) \<Rightarrow> 'r list \<Rightarrow> bool \<times> 'r list" where
  "update_row key k guard f t =
     (rowcount (\<lambda>x. key x = k \<and> guard x) t = 1, update_where (\<lambda>x. key x = k \<and> guard x) f t)"

lemma find_key_iff:
  assumes "distinct (map key t)"
  shows "List.find (\<lambda>x. key x = k) t = Some r \<longleftrightarrow> r \<in> set t \<and> key r = k"
proof
  show "List.find (\<lambda>x. key x = k) t = Some r \<Longrightarrow> r \<in> set t \<and> key r = k"
    by (drule find_Some_mem) simp
  show "r \<in> set t \<and> key r = k \<Longrightarrow> List.find (\<lambda>x. key x = k) t = Some r"
    using find_key [OF assms, of r] by auto
qed

lemma find_update_key:
  assumes "\<And>x. key (f x) = key x"
  shows "List.find (\<lambda>x. key x = k') (update_where (\<lambda>x. key x = k \<and> guard x) f t) =
    (if k' = k then map_option (\<lambda>x. if guard x then f x else x) (List.find (\<lambda>x. key x = k') t)
     else List.find (\<lambda>x. key x = k') t)"
  using assms by (induction t) auto

lemma find_update_all:
  assumes "\<And>x. key (f x) = key x"
  shows "List.find (\<lambda>x. key x = k') (update_where (\<lambda>x. key x = k) f t) =
    (if k' = k then map_option f (List.find (\<lambda>x. key x = k') t) else List.find (\<lambda>x. key x = k') t)"
  using find_update_key [of key f k' k "\<lambda>_. True" t] assms by simp

lemma update_row_refused: "distinct (map key t) \<Longrightarrow> update_row key k guard f t = (False, t') \<Longrightarrow> t' = t"
  using rowcount_key [of key t k guard] by (auto simp: update_row_def intro!: update_where_none)

lemma update_row_accepted:
  assumes "distinct (map key t)" and "update_row key k guard f t = (True, t')"
  shows "\<exists>r. List.find (\<lambda>x. key x = k) t = Some r \<and> guard r"
proof -
  have "\<exists>r \<in> set t. key r = k \<and> guard r"
    using assms rowcount_key [of key t k guard] by (simp add: update_row_def)
  then show ?thesis using find_key [OF assms(1)] by metis
qed

lemma update_row_keys:
  "(\<And>x. key (f x) = key x) \<Longrightarrow> map key (snd (update_row key k guard f t)) = map key t"
  by (simp add: update_row_def map_update_where)

lemma claim_row_keys:
  "(\<And>x. key (grant x) = key x) \<Longrightarrow> map key (snd (claim_row key order ready grant t)) = map key t"
  by (simp add: claim_row_def map_update_where split: option.splits)

lemma claim_row_Some:
  assumes "claim_row key order ready grant t = (Some g, t')" and "distinct (map key t)"
    and "\<And>x. key (grant x) = key x"
  obtains r where "r \<in> set t" "ready r" "g = grant r" "List.find (\<lambda>x. key x = key r) t = Some r"
    "t' = update_where (\<lambda>x. key x = key r) grant t" "\<And>x. x \<in> set t \<Longrightarrow> ready x \<Longrightarrow> order r \<le> order x"
proof -
  obtain r where r: "select_first order ready t = Some r" "g = grant r"
    "t' = update_where (\<lambda>x. key x = key r) grant t"
    using assms(1) by (auto simp: claim_row_def split: option.splits)
  then show ?thesis using that select_first_Some [OF r(1)] find_key [OF assms(2)] by blast
qed

text \<open>
  The row-level contract. \<open>row_lease\<close> and \<open>row_done\<close> read a row, \<open>ready\<close> is the selection condition
  of a claim, the guards are the \<open>WHERE\<close> conditions of the updates.
\<close>

locale lease_table =
  fixes key :: "'r \<Rightarrow> 'k" and order :: "'r \<Rightarrow> 'o::linorder"
    and ready :: "int \<Rightarrow> 'r list \<Rightarrow> 'r \<Rightarrow> bool"
    and grant :: "'h \<Rightarrow> int \<Rightarrow> 'r \<Rightarrow> 'r"
    and row_lease :: "'r \<Rightarrow> ('h \<times> int) option" and row_done :: "'r \<Rightarrow> bool"
    and may_finish :: "'h \<Rightarrow> int \<Rightarrow> 'r \<Rightarrow> bool" and complete :: "'x \<Rightarrow> int \<Rightarrow> 'r \<Rightarrow> 'r"
    and may_release :: "'h \<Rightarrow> int \<Rightarrow> 'r \<Rightarrow> bool" and unlock :: "'y \<Rightarrow> int \<Rightarrow> 'r \<Rightarrow> 'r"
    and table_other :: "'z \<Rightarrow> 'r list \<Rightarrow> 'r list"
  assumes keys: "key (grant h e r) = key r" "key (complete x now r) = key r" "key (unlock y now r) = key r"
    and ready_free: "ready now t r \<Longrightarrow> \<not> row_done r"
      "ready now t r \<Longrightarrow> row_lease r = Some (h', e') \<Longrightarrow> e' \<le> now"
    and grant_lease: "ready now t r \<Longrightarrow> row_lease (grant h e r) = Some (h, e)"
      "ready now t r \<Longrightarrow> row_done (grant h e r) = row_done r"
    and finish_guard: "may_finish h now r \<longleftrightarrow> (\<exists>e. row_lease r = Some (h, e) \<and> now < e)"
    and complete_done: "row_done (complete x now r)"
    and done_unleased: "row_done r \<Longrightarrow> row_lease r = None"
    and release_guard: "may_release h now r \<Longrightarrow> \<exists>e. row_lease r = Some (h, e)"
      "may_release h now r \<Longrightarrow> row_done (unlock y now r) = row_done r"
    and other_keys: "distinct (map key t) \<Longrightarrow> distinct (map key (table_other z t))"
    and other_rows: "r \<in> set t \<Longrightarrow> row_lease r \<noteq> None \<or> row_done r \<Longrightarrow> r \<in> set (table_other z t)"
begin

definition table_lease :: "'r list \<Rightarrow> 'k \<Rightarrow> ('h \<times> int) option" where
  "table_lease t k = Option.bind (List.find (\<lambda>x. key x = k) t) row_lease"

definition table_done :: "'r list \<Rightarrow> 'k \<Rightarrow> bool" where
  "table_done t k = (case List.find (\<lambda>x. key x = k) t of None \<Rightarrow> False | Some r \<Rightarrow> row_done r)"

definition table_claim :: "'h \<Rightarrow> int \<Rightarrow> int \<Rightarrow> 'r list \<Rightarrow> 'k option \<times> 'r list" where
  "table_claim h d now t = (case claim_row key order (ready now t) (grant h (now + d)) t of
     (r, t') \<Rightarrow> (map_option key r, t'))"

definition table_finish :: "'k \<Rightarrow> 'h \<Rightarrow> int \<Rightarrow> 'x \<Rightarrow> 'r list \<Rightarrow> bool \<times> 'r list" where
  "table_finish k h now x t = update_row key k (may_finish h now) (complete x now) t"

definition table_release :: "'k \<Rightarrow> 'h \<Rightarrow> int \<Rightarrow> 'y \<Rightarrow> 'r list \<Rightarrow> 'r list" where
  "table_release k h now y t = snd (update_row key k (may_release h now) (unlock y now) t)"

lemma table_claim_Some:
  assumes "table_claim h d now t = (Some k, t')" and "distinct (map key t)"
  obtains r where "ready now t r" "key r = k" "List.find (\<lambda>x. key x = k) t = Some r"
    "t' = update_where (\<lambda>x. key x = k) (grant h (now + d)) t"
proof -
  obtain g where g: "claim_row key order (ready now t) (grant h (now + d)) t = (Some g, t')" "key g = k"
    using assms(1) by (auto simp: table_claim_def split: prod.splits)
  show ?thesis
    by (rule claim_row_Some [OF g(1) assms(2)]) (use g(2) keys that in auto)
qed

lemma table_claim_None: "table_claim h d now t = (None, t') \<Longrightarrow> t' = t"
  by (auto simp: table_claim_def claim_row_def split: option.splits prod.splits)

lemma table_finish_find:
  "List.find (\<lambda>x. key x = k') (snd (table_finish k h now x t)) =
    (if k' = k then map_option (\<lambda>z. if may_finish h now z then complete x now z else z) (List.find (\<lambda>x. key x = k') t)
     else List.find (\<lambda>x. key x = k') t)"
  by (simp add: table_finish_def update_row_def find_update_key keys)

lemma table_release_find:
  "List.find (\<lambda>x. key x = k') (table_release k h now y t) =
    (if k' = k then map_option (\<lambda>z. if may_release h now z then unlock y now z else z) (List.find (\<lambda>x. key x = k') t)
     else List.find (\<lambda>x. key x = k') t)"
  by (simp add: table_release_def update_row_def find_update_key keys)

lemma table_finish_iff:
  assumes "distinct (map key t)"
  shows "fst (table_finish k h now x t) \<longleftrightarrow> (\<exists>e. table_lease t k = Some (h, e) \<and> now < e)"
proof -
  have "fst (table_finish k h now x t) \<longleftrightarrow> (\<exists>r \<in> set t. key r = k \<and> may_finish h now r)"
    using rowcount_key [OF assms, of k "may_finish h now"] by (simp add: table_finish_def update_row_def)
  also have "\<dots> \<longleftrightarrow> (\<exists>r. List.find (\<lambda>z. key z = k) t = Some r \<and> may_finish h now r)"
    using find_key_iff [OF assms, of k] by blast
  finally show ?thesis by (auto simp: table_lease_def finish_guard bind_eq_Some_conv)
qed

lemma find_kept:
  assumes "distinct (map key t)" and "List.find (\<lambda>x. key x = k) t = Some r" and "row_lease r \<noteq> None \<or> row_done r"
  shows "List.find (\<lambda>x. key x = k) (table_other z t) = Some r"
proof -
  have r: "r \<in> set t" "key r = k" using find_Some_mem [OF assms(2)] by auto
  then have "r \<in> set (table_other z t)" using other_rows assms(3) by blast
  from find_key [OF other_keys [OF assms(1)] this] show ?thesis using r(2) by simp
qed

end

sublocale lease_table \<subseteq> leased_queue "\<lambda>t. distinct (map key t)" table_lease table_done
  table_claim table_finish table_release table_other
proof
  fix t :: "'r list" and h d now
  assume dist: "distinct (map key t)"
  show "distinct (map key (snd (table_claim h d now t)))"
    using dist claim_row_keys [of key "grant h (now + d)" order "ready now t" t] keys
    by (simp add: table_claim_def split_beta)
  fix k t' assume run: "table_claim h d now t = (Some k, t')"
  then obtain r where r: "ready now t r" "key r = k" "List.find (\<lambda>x. key x = k) t = Some r"
    "t' = update_where (\<lambda>x. key x = k) (grant h (now + d)) t" using table_claim_Some dist by metis
  then show "table_lease t' k = Some (h, now + d) \<and> \<not> table_done t k
      \<and> (\<forall>h' e. table_lease t k = Some (h', e) \<longrightarrow> e \<le> now)"
    using ready_free grant_lease by (auto simp: table_lease_def table_done_def find_update_all keys)
next
  fix t :: "'r list" and h d now r t' and k
  assume dist: "distinct (map key t)" and run: "table_claim h d now t = (r, t')"
  show "table_lease t' k = table_lease t k" if "r \<noteq> Some k"
  proof (cases r)
    case (Some k')
    then obtain x where "t' = update_where (\<lambda>x. key x = k') (grant h (now + d)) t"
      using table_claim_Some dist run by metis
    then show ?thesis using that Some by (simp add: table_lease_def find_update_all keys)
  qed (metis run table_claim_None)
  show "table_done t' k = table_done t k"
  proof (cases r)
    case (Some k')
    then obtain x where "ready now t x" "List.find (\<lambda>x. key x = k') t = Some x"
      "t' = update_where (\<lambda>x. key x = k') (grant h (now + d)) t"
      using table_claim_Some dist run by metis
    then show ?thesis
      by (auto simp: table_done_def find_update_all keys grant_lease(2) [of now t] split: option.splits)
  qed (metis run table_claim_None)
next
  fix t :: "'r list" and k h now x y z
  assume dist: "distinct (map key t)"
  show "distinct (map key (snd (table_finish k h now x t)))" "distinct (map key (table_release k h now y t))"
    using dist keys by (simp_all add: table_finish_def table_release_def update_row_keys [of key])
  show "distinct (map key (table_other z t))" using dist by (rule other_keys)
  show "fst (table_finish k h now x t) \<longleftrightarrow> (\<exists>e. table_lease t k = Some (h, e) \<and> now < e)"
    using dist by (rule table_finish_iff)
  show "table_lease (table_other z t) k = Some l" if "table_lease t k = Some l" for l
    using that find_kept [OF dist] by (force simp: table_lease_def bind_eq_Some_conv)
  show "table_done (table_other z t) k" if "table_done t k"
    using that find_kept [OF dist] by (auto simp: table_done_def split: option.splits)
  show "table_done (table_release k h now y t) k' = table_done t k'" for k'
    using release_guard(2) by (auto simp: table_done_def table_release_find split: option.splits)
  show "k' = k \<and> (\<exists>e. table_lease t k = Some (h, e))"
    if "table_lease (table_release k h now y t) k' \<noteq> table_lease t k'" for k'
    using that release_guard(1)
    by (cases "List.find (\<lambda>x. key x = k') t") (auto simp: table_lease_def table_release_find split: if_splits)
  show "table_lease t k = None" if "table_done t k"
    using that done_unleased by (auto simp: table_done_def table_lease_def split: option.splits)
next
  fix t t' :: "'r list" and k h now x
  assume dist: "distinct (map key t)" and run: "table_finish k h now x t = (True, t')"
  obtain r where r: "List.find (\<lambda>x. key x = k) t = Some r" "may_finish h now r"
    using update_row_accepted [OF dist run [unfolded table_finish_def]] by blast
  have t': "t' = snd (table_finish k h now x t)" using run by simp
  obtain e where e: "row_lease r = Some (h, e)" "now < e" using r(2) by (auto simp: finish_guard)
  then have "\<not> row_done r" using done_unleased by fastforce
  then show "table_done t' k \<and> (\<forall>k'. k' \<noteq> k \<longrightarrow> table_lease t' k' = table_lease t k' \<and> table_done t' k' = table_done t k')"
    using r e by (simp add: t' table_lease_def table_done_def table_finish_find complete_done)
next
  fix t t' :: "'r list" and k h now x
  assume "distinct (map key t)" and "table_finish k h now x t = (False, t')"
  then show "t' = t" using update_row_refused by (simp add: table_finish_def)
qed

text \<open>The renewal of a running lease, under the same guard as completion.\<close>

locale renewable_table = lease_table +
  fixes extend :: "int \<Rightarrow> 'a \<Rightarrow> 'a"
  assumes extend_row: "key (extend e r) = key r" "row_done (extend e r) = row_done r"
    "may_finish h now r \<Longrightarrow> row_lease (extend e r) = Some (h, e)"
begin

definition table_renew :: "'b \<Rightarrow> 'd \<Rightarrow> int \<Rightarrow> int \<Rightarrow> 'a list \<Rightarrow> bool \<times> 'a list" where
  "table_renew k h d now t = update_row key k (may_finish h now) (extend (now + d)) t"

lemma table_renew_find:
  "List.find (\<lambda>x. key x = k') (snd (table_renew k h d now t)) =
    (if k' = k then map_option (\<lambda>z. if may_finish h now z then extend (now + d) z else z) (List.find (\<lambda>x. key x = k') t)
     else List.find (\<lambda>x. key x = k') t)"
  by (simp add: table_renew_def update_row_def find_update_key extend_row)

end

sublocale renewable_table \<subseteq> renewable_queue "\<lambda>t. distinct (map key t)" table_lease table_done
  table_claim table_finish table_release table_other table_renew
proof
  fix t t' k h d now
  assume dist: "distinct (map key t)" and run: "table_renew k h d now t = (True, t')"
  obtain r where r: "List.find (\<lambda>x. key x = k) t = Some r" "may_finish h now r"
    using update_row_accepted [OF dist run [unfolded table_renew_def]] by blast
  have t': "t' = snd (table_renew k h d now t)" using run by simp
  obtain e where e: "row_lease r = Some (h, e)" "now < e" using r(2) by (auto simp: finish_guard)
  have "table_lease t' k = Some (h, now + d)"
    using r extend_row(3) by (simp add: t' table_lease_def table_renew_find)
  moreover have "table_done t' k' = table_done t k'" for k'
    by (auto simp: t' table_done_def table_renew_find extend_row split: option.splits)
  moreover have "table_lease t' k' = table_lease t k'" if "k' \<noteq> k" for k'
    using that by (simp add: t' table_lease_def table_renew_find)
  ultimately show "(\<exists>e. table_lease t k = Some (h, e) \<and> now < e) \<and> table_lease t' k = Some (h, now + d)
      \<and> (\<forall>k'. table_done t' k' = table_done t k') \<and> (\<forall>k'. k' \<noteq> k \<longrightarrow> table_lease t' k' = table_lease t k')"
    using r e by (auto simp: table_lease_def)
next
  fix t t' k h d now
  assume "distinct (map key t)" and "table_renew k h d now t = (False, t')"
  then show "t' = t" using update_row_refused by (simp add: table_renew_def)
next
  fix t k h d now
  assume "distinct (map key t)"
  then show "distinct (map key (snd (table_renew k h d now t)))"
    by (simp add: table_renew_def update_row_keys [of key] extend_row)
qed

section \<open>Queues that keep an order\<close>

text \<open>
  In the two delivery queues the rows of one group (a finding) are numbered, and a row is ready only
  when every lower number of its group is done. Then no row is claimed or done before a lower one.
\<close>

definition rows_in_order ::
    "('r \<Rightarrow> bool) \<Rightarrow> ('r \<Rightarrow> bool) \<Rightarrow> ('r \<Rightarrow> 'g) \<Rightarrow> ('r \<Rightarrow> nat) \<Rightarrow> 'r list \<Rightarrow> bool" where
  "rows_in_order started fin part sequence t = (\<forall>r \<in> set t. started r \<longrightarrow>
     (\<forall>r' \<in> set t. part r' = part r \<and> sequence r' < sequence r \<longrightarrow> fin r'))"

lemma rows_in_order_map:
  assumes "rows_in_order S D grp sq t"
    and cols: "\<And>r. r \<in> set t \<Longrightarrow> grp (g r) = grp r \<and> sq (g r) = sq r \<and> (D r \<longrightarrow> D (g r))"
    and start: "\<And>r. r \<in> set t \<Longrightarrow> S (g r) \<Longrightarrow>
      S r \<or> (\<forall>r' \<in> set t. grp r' = grp r \<and> sq r' < sq r \<longrightarrow> D r')"
  shows "rows_in_order S D grp sq (map g t)"
proof -
  have "D (g r')"
    if "r \<in> set t" "S (g r)" "r' \<in> set t" "grp (g r') = grp (g r)" "sq (g r') < sq (g r)" for r r'
  proof -
    have same: "grp r' = grp r" "sq r' < sq r" using that cols by auto
    have "D r'" using start [OF that(1,2)] assms(1) that(1,3) same unfolding rows_in_order_def by blast
    then show ?thesis using cols that(3) by blast
  qed
  then show ?thesis unfolding rows_in_order_def by auto
qed

lemma rows_in_order_append:
  assumes "rows_in_order S D grp sq t" and "\<not> S x"
    and "\<And>r. r \<in> set t \<Longrightarrow> grp r = grp x \<Longrightarrow> sq r < sq x"
  shows "rows_in_order S D grp sq (t @ [x])"
  using assms unfolding rows_in_order_def by (auto dest: less_asym)

locale ordered_table = lease_table +
  fixes part :: "'a \<Rightarrow> 'part" and sequence :: "'a \<Rightarrow> nat"
  assumes ready_ordered: "ready now t r \<Longrightarrow> r' \<in> set t \<Longrightarrow> part r' = part r \<Longrightarrow>
      sequence r' < sequence r \<Longrightarrow> row_done r'"
    and order_columns: "part (grant h e r) = part r" "sequence (grant h e r) = sequence r"
      "part (complete x now r) = part r" "sequence (complete x now r) = sequence r"
      "part (unlock y now r) = part r" "sequence (unlock y now r) = sequence r"
    and other_ordered: "rows_in_order (\<lambda>r. row_done r \<or> row_lease r \<noteq> None) row_done part sequence t \<Longrightarrow>
      rows_in_order (\<lambda>r. row_done r \<or> row_lease r \<noteq> None) row_done part sequence (table_other z t)"
begin

definition ordered :: "'a list \<Rightarrow> bool" where
  "ordered t = rows_in_order (\<lambda>r. row_done r \<or> row_lease r \<noteq> None) row_done part sequence t"

lemma ordered_claim:
  assumes "ordered t" and "distinct (map key t)"
  shows "ordered (snd (table_claim h d now t))"
proof (cases "table_claim h d now t")
  case (Pair a t')
  show ?thesis
  proof (cases a)
    case (Some k)
    with Pair obtain r where r: "ready now t r" "List.find (\<lambda>x. key x = k) t = Some r"
      "t' = update_where (\<lambda>x. key x = k) (grant h (now + d)) t" using table_claim_Some assms(2) by metis
    have only: "x = r" if "x \<in> set t" "key x = k" for x
      using r(2) that find_key_iff [OF assms(2)] key_unique [OF assms(2) that(1)] by metis
    show ?thesis
      unfolding Pair snd_conv r(3) update_where_def ordered_def
      by (rule rows_in_order_map [OF assms(1) [unfolded ordered_def]])
        (use only r(1) ready_ordered [OF r(1)] grant_lease(2) order_columns in \<open>auto split: if_splits\<close>)
  qed (use Pair table_claim_None assms(1) in fastforce)
qed

lemma ordered_finish: "ordered t \<Longrightarrow> ordered (snd (table_finish k h now x t))"
  unfolding ordered_def table_finish_def update_row_def snd_conv update_where_def
  by (rule rows_in_order_map) (auto simp: order_columns complete_done finish_guard split: if_splits)

lemma ordered_release: "ordered t \<Longrightarrow> ordered (table_release k h now y t)"
  unfolding ordered_def table_release_def update_row_def snd_conv update_where_def
  by (rule rows_in_order_map) (auto simp: order_columns release_guard(2) dest: release_guard(1) split: if_splits)

lemma ordered_other: "ordered t \<Longrightarrow> ordered (table_other z t)"
  unfolding ordered_def by (rule other_ordered)

lemma ordered_op: "ordered t \<Longrightarrow> distinct (map key t) \<Longrightarrow> ordered (run_op q t)"
  by (cases q) (simp_all add: ordered_claim ordered_finish ordered_release ordered_other)

lemma ordered_ops: "ordered t \<Longrightarrow> distinct (map key t) \<Longrightarrow> ordered (run_ops qs t)"
  by (induction qs arbitrary: t) (simp_all add: ordered_op sound_op)

end

end
