(* ===== verification/Job_Queue.thy ===== *)
theory Job_Queue
  imports Leased_Queue
begin

text \<open>
  The pipeline job queues: the SQLite queue of \<open>job_queue.py\<close> and the PostgreSQL queue of
  \<open>postgres_runtime_state.py\<close>. Both keep the table \<open>pipeline_jobs\<close>; the PostgreSQL table has the
  additional column \<open>lock_token\<close>, so its row extends the SQLite row. The identifier of a new row is the
  database's choice and an argument of \<open>enqueue\<close>. A claim of the SQLite queue is held by a worker
  identifier, a claim of the PostgreSQL queue by a worker identifier and the token of the claim.
  Both are instances of \<open>renewable_table\<close>.
\<close>

section \<open>Rows\<close>

datatype job_status = Pending | Running | Completed | Dead

fun status_text :: "job_status \<Rightarrow> string" where
  "status_text Pending = ''pending''"
| "status_text Running = ''running''"
| "status_text Completed = ''completed''"
| "status_text Dead = ''dead''"

record job =
  jb_id :: nat
  jb_path :: string
  jb_status :: job_status
  jb_attempts :: nat
  jb_available :: int
  jb_locked_until :: "int option"
  jb_worker :: "string option"
  jb_error :: "string option"

record pg_job = job +
  jb_token :: "string option"

definition new_job :: "nat \<Rightarrow> string \<Rightarrow> int \<Rightarrow> job" where
  "new_job jid path now = \<lparr>jb_id = jid, jb_path = path, jb_status = Pending, jb_attempts = 0,
     jb_available = now, jb_locked_until = None, jb_worker = None, jb_error = None\<rparr>"

definition new_pg_job :: "nat \<Rightarrow> string \<Rightarrow> int \<Rightarrow> pg_job" where
  "new_pg_job jid path now = job.extend (new_job jid path now) \<lparr>jb_token = None\<rparr>"

text \<open>The selection of a claim, the same in both dialects: \<open>ORDER BY job_id\<close>.\<close>

definition job_ready :: "int \<Rightarrow> 'a job_scheme \<Rightarrow> bool" where
  "job_ready now r = ((jb_status r = Pending \<and> jb_available r \<le> now)
     \<or> (jb_status r = Running \<and> col_le (jb_locked_until r) now))"

definition retry_status :: "int \<Rightarrow> 'a job_scheme \<Rightarrow> job_status" where
  "retry_status max_attempts r = (if max_attempts \<le> int (jb_attempts r) then Dead else Pending)"

definition job_counts :: "'a job_scheme list \<Rightarrow> job_status \<Rightarrow> nat" where
  "job_counts t st = count_rows (\<lambda>r. jb_status r = st) t"

section \<open>The SQLite queue\<close>

definition enqueue_job :: "nat \<Rightarrow> string \<Rightarrow> int \<Rightarrow> job list \<Rightarrow> bool \<times> job list" where
  "enqueue_job jid path now t =
     (if list_ex (\<lambda>r. jb_path r = path \<or> jb_id r = jid) t then (False, t)
      else (True, t @ [new_job jid path now]))"

definition job_grant :: "string \<Rightarrow> int \<Rightarrow> job \<Rightarrow> job" where
  "job_grant w until r = r\<lparr>jb_status := Running, jb_attempts := jb_attempts r + 1,
     jb_locked_until := Some until, jb_worker := Some w\<rparr>"

text \<open>The caller gets the row as it was selected, with the attempt counted.\<close>

definition claim_job :: "string \<Rightarrow> int \<Rightarrow> int \<Rightarrow> job list \<Rightarrow> job option outcome \<times> job list" where
  "claim_job worker lease_seconds now t =
     (if py_strip worker = [] \<or> lease_seconds \<le> 0
      then (Inl (ValueError ''worker_id and a positive lease_seconds are required''), t)
      else (case select_first jb_id (job_ready now) t of
              None \<Rightarrow> (Inr None, t)
            | Some r \<Rightarrow>
                (Inr (Some (r\<lparr>jb_attempts := jb_attempts r + 1\<rparr>)),
                 update_where (\<lambda>x. jb_id x = jb_id r) (job_grant worker (now + seconds lease_seconds)) t)))"

definition job_held :: "string \<Rightarrow> int \<Rightarrow> job \<Rightarrow> bool" where
  "job_held worker now r =
     (jb_status r = Running \<and> jb_worker r = Some worker \<and> col_gt (jb_locked_until r) now)"

definition job_extend :: "int \<Rightarrow> 'a job_scheme \<Rightarrow> 'a job_scheme" where
  "job_extend until r = r\<lparr>jb_locked_until := Some until\<rparr>"

definition renew_job :: "nat \<Rightarrow> string \<Rightarrow> int \<Rightarrow> int \<Rightarrow> job list \<Rightarrow> bool outcome \<times> job list" where
  "renew_job jid worker lease_seconds now t =
     (if py_strip worker = [] \<or> lease_seconds \<le> 0
      then (Inl (ValueError ''worker_id and a positive lease_seconds are required''), t)
      else (case update_row jb_id jid (job_held worker now) (job_extend (now + seconds lease_seconds)) t of
              (ok, t') \<Rightarrow> (Inr ok, t')))"

definition job_complete :: "job \<Rightarrow> job" where
  "job_complete r = r\<lparr>jb_status := Completed, jb_locked_until := None, jb_error := None\<rparr>"

definition complete_job :: "nat \<Rightarrow> string \<Rightarrow> int \<Rightarrow> job list \<Rightarrow> bool outcome \<times> job list" where
  "complete_job jid worker now t =
     (if py_strip worker = [] then (Inl (ValueError ''worker_id is required''), t)
      else (case update_row jb_id jid (job_held worker now) job_complete t of (ok, t') \<Rightarrow> (Inr ok, t')))"

definition job_retry :: "int \<Rightarrow> int \<Rightarrow> string \<Rightarrow> int \<Rightarrow> job \<Rightarrow> job" where
  "job_retry max_attempts delay err now r =
     (let st = retry_status max_attempts r in
      r\<lparr>jb_status := st, jb_available := now + (if st = Dead then 0 else seconds delay),
        jb_locked_until := None, jb_worker := None, jb_error := Some (take 2000 err)\<rparr>)"

definition fail_job ::
    "nat \<Rightarrow> string \<Rightarrow> string \<Rightarrow> int \<Rightarrow> int \<Rightarrow> int \<Rightarrow> job list \<Rightarrow> string outcome \<times> job list" where
  "fail_job jid worker err max_attempts retry_delay now t =
     (if py_strip worker = [] \<or> max_attempts < 1 \<or> retry_delay < 0
      then (Inl (ValueError ''worker_id, max_attempts, and retry_delay are invalid''), t)
      else (case List.find (\<lambda>r. jb_id r = jid) t of
              None \<Rightarrow> (Inl (ValueError (''Unknown job '' @ show_nat jid @ ''.'')), t)
            | Some r \<Rightarrow>
                if \<not> job_held worker now r then (Inr ''lease_lost'', t)
                else (case update_row jb_id jid (job_held worker now)
                             (job_retry max_attempts retry_delay err now) t of
                        (ok, t') \<Rightarrow> (Inr (if ok then status_text (retry_status max_attempts r)
                                           else ''lease_lost''), t'))))"

section \<open>The PostgreSQL queue\<close>

definition pg_enqueue :: "nat \<Rightarrow> string \<Rightarrow> int \<Rightarrow> pg_job list \<Rightarrow> bool outcome \<times> pg_job list" where
  "pg_enqueue jid path now t =
     (if py_strip path = [] then (Inl (ValueError ''payload_path is required''), t)
      else if list_ex (\<lambda>r. jb_path r = path) t then (Inr False, t)
      else if list_ex (\<lambda>r. jb_id r = jid) t then (Inl (IntegrityError ''pipeline_jobs_pkey''), t)
      else (Inr True, t @ [new_pg_job jid path now]))"

definition pg_grant :: "string \<times> string \<Rightarrow> int \<Rightarrow> pg_job \<Rightarrow> pg_job" where
  "pg_grant h until r = r\<lparr>jb_status := Running, jb_attempts := jb_attempts r + 1,
     jb_locked_until := Some until, jb_worker := Some (fst h), jb_token := Some (snd h)\<rparr>"

definition pg_claim ::
    "string \<Rightarrow> int \<Rightarrow> int \<Rightarrow> string \<Rightarrow> pg_job list \<Rightarrow> pg_job option outcome \<times> pg_job list" where
  "pg_claim worker lease_seconds now token t =
     (if py_strip worker = [] \<or> lease_seconds \<le> 0
      then (Inl (ValueError ''worker_id and a positive lease_seconds are required''), t)
      else (case claim_row jb_id jb_id (job_ready now) (pg_grant (worker, token) (now + seconds lease_seconds)) t of
              (r, t') \<Rightarrow> (Inr r, t')))"

definition pg_held :: "string \<times> string \<Rightarrow> int \<Rightarrow> pg_job \<Rightarrow> bool" where
  "pg_held h now r = (jb_status r = Running \<and> jb_worker r = Some (fst h) \<and> jb_token r = Some (snd h)
     \<and> col_gt (jb_locked_until r) now)"

definition pg_renew ::
    "nat \<Rightarrow> string \<Rightarrow> string \<Rightarrow> int \<Rightarrow> int \<Rightarrow> pg_job list \<Rightarrow> bool outcome \<times> pg_job list" where
  "pg_renew jid worker token lease_seconds now t =
     (if py_strip worker = [] \<or> token = [] \<or> lease_seconds \<le> 0
      then (Inl (ValueError ''worker_id, lock_token, and lease_seconds are required''), t)
      else (case update_row jb_id jid (pg_held (worker, token) now) (job_extend (now + seconds lease_seconds)) t of
              (ok, t') \<Rightarrow> (Inr ok, t')))"

definition pg_complete_row :: "pg_job \<Rightarrow> pg_job" where
  "pg_complete_row r = r\<lparr>jb_status := Completed, jb_locked_until := None, jb_worker := None,
     jb_token := None, jb_error := None\<rparr>"

definition pg_complete :: "nat \<Rightarrow> string \<Rightarrow> string \<Rightarrow> int \<Rightarrow> pg_job list \<Rightarrow> bool outcome \<times> pg_job list" where
  "pg_complete jid worker token now t =
     (case update_row jb_id jid (pg_held (worker, token) now) pg_complete_row t of (ok, t') \<Rightarrow> (Inr ok, t'))"

definition pg_retry :: "int \<Rightarrow> int \<Rightarrow> string \<Rightarrow> int \<Rightarrow> pg_job \<Rightarrow> pg_job" where
  "pg_retry max_attempts delay err now r =
     (let st = retry_status max_attempts r in
      r\<lparr>jb_status := st, jb_available := now + (if st = Dead then 0 else seconds delay),
        jb_locked_until := None, jb_worker := None, jb_token := None, jb_error := Some (take 2000 err)\<rparr>)"

text \<open>The row is locked (\<open>FOR UPDATE\<close>) between the test and the update.\<close>

definition pg_fail ::
    "nat \<Rightarrow> string \<Rightarrow> string \<Rightarrow> string \<Rightarrow> int \<Rightarrow> int \<Rightarrow> int \<Rightarrow> pg_job list \<Rightarrow> string outcome \<times> pg_job list" where
  "pg_fail jid worker token err max_attempts retry_delay now t =
     (if max_attempts < 1 \<or> retry_delay < 0
      then (Inl (ValueError ''max_attempts and retry_delay are invalid''), t)
      else (case List.find (\<lambda>r. jb_id r = jid) t of
              None \<Rightarrow> (Inr ''lease_lost'', t)
            | Some r \<Rightarrow>
                if \<not> pg_held (worker, token) now r then (Inr ''lease_lost'', t)
                else (Inr (status_text (retry_status max_attempts r)),
                      update_where (\<lambda>x. jb_id x = jid) (pg_retry max_attempts retry_delay err now) t)))"

section \<open>The lease contract\<close>

definition job_lease :: "job \<Rightarrow> (string \<times> int) option" where
  "job_lease r = (if jb_status r = Running then
     (case (jb_worker r, jb_locked_until r) of (Some w, Some e) \<Rightarrow> Some (w, e) | _ \<Rightarrow> None) else None)"

lemma job_lease_iff:
  "job_lease r = Some (w, e) \<longleftrightarrow> jb_status r = Running \<and> jb_worker r = Some w \<and> jb_locked_until r = Some e"
  by (auto simp: job_lease_def split: option.splits)

lemma job_held_iff: "job_held w now r \<longleftrightarrow> (\<exists>e. job_lease r = Some (w, e) \<and> now < e)"
  by (auto simp: job_held_def job_lease_iff table_simps)

text \<open>What a holder may do to its row: give it back, or extend the lease.\<close>

datatype hold_op = Retry int int string | Extend int

fun job_hold :: "hold_op \<Rightarrow> int \<Rightarrow> job \<Rightarrow> job" where
  "job_hold (Retry m d err) now = job_retry m d err now"
| "job_hold (Extend d) now = job_extend (now + seconds d)"

fun pg_hold :: "hold_op \<Rightarrow> int \<Rightarrow> pg_job \<Rightarrow> pg_job" where
  "pg_hold (Retry m d err) now = pg_retry m d err now"
| "pg_hold (Extend d) now = job_extend (now + seconds d)"

definition add_job :: "nat \<times> string \<times> int \<Rightarrow> job list \<Rightarrow> job list" where
  "add_job x t = snd (enqueue_job (fst x) (fst (snd x)) (snd (snd x)) t)"

definition add_pg_job :: "nat \<times> string \<times> int \<Rightarrow> pg_job list \<Rightarrow> pg_job list" where
  "add_pg_job x t = snd (pg_enqueue (fst x) (fst (snd x)) (snd (snd x)) t)"

lemma retry_status_cases: "retry_status m r = Dead \<or> retry_status m r = Pending"
  by (simp add: retry_status_def)

lemma retry_not_completed [simp]: "retry_status m r \<noteq> Completed" "retry_status m r \<noteq> Running"
  by (simp_all add: retry_status_def)

interpretation jq: renewable_table jb_id jb_id "\<lambda>now t. job_ready now" job_grant job_lease
  "\<lambda>r. jb_status r = Completed" job_held "\<lambda>(x::unit) now. job_complete" job_held job_hold add_job job_extend
proof
  fix y now r show "jb_id (job_hold y now r) = jb_id r"
    by (cases y) (simp_all add: job_retry_def job_extend_def Let_def)
next
  fix h now r show "job_held h now r \<longleftrightarrow> (\<exists>e. job_lease r = Some (h, e) \<and> now < e)" by (rule job_held_iff)
  then show "job_held h now r \<Longrightarrow> \<exists>e. job_lease r = Some (h, e)" by blast
  show "job_held h now r \<Longrightarrow> (jb_status (job_hold y now r) = Completed) = (jb_status r = Completed)" for y
    by (cases y) (simp_all add: job_retry_def job_extend_def job_held_def Let_def)
qed (auto simp: job_ready_def job_lease_def job_grant_def job_complete_def job_held_def job_extend_def add_job_def
    enqueue_job_def new_job_def list_ex_iff table_simps split: option.splits)

definition pg_lease :: "pg_job \<Rightarrow> ((string \<times> string) \<times> int) option" where
  "pg_lease r = (if jb_status r = Running then
     (case (jb_worker r, jb_token r, jb_locked_until r) of
        (Some w, Some k, Some e) \<Rightarrow> Some ((w, k), e) | _ \<Rightarrow> None) else None)"

lemma pg_lease_iff:
  "pg_lease r = Some (h, e) \<longleftrightarrow> jb_status r = Running \<and> jb_worker r = Some (fst h)
     \<and> jb_token r = Some (snd h) \<and> jb_locked_until r = Some e"
  by (cases h) (auto simp: pg_lease_def split: option.splits)

interpretation pq: renewable_table jb_id jb_id "\<lambda>now t. job_ready now" pg_grant pg_lease
  "\<lambda>r. jb_status r = Completed" pg_held "\<lambda>(x::unit) now. pg_complete_row" pg_held pg_hold add_pg_job job_extend
proof
  fix y now r show "jb_id (pg_hold y now r) = jb_id r"
    by (cases y) (simp_all add: pg_retry_def job_extend_def Let_def)
next
  fix h now r show held: "pg_held h now r \<longleftrightarrow> (\<exists>e. pg_lease r = Some (h, e) \<and> now < e)"
    by (auto simp: pg_held_def pg_lease_iff table_simps)
  then show "pg_held h now r \<Longrightarrow> \<exists>e. pg_lease r = Some (h, e)" by blast
  show "pg_held h now r \<Longrightarrow> (jb_status (pg_hold y now r) = Completed) = (jb_status r = Completed)" for y
    by (cases y) (simp_all add: pg_retry_def job_extend_def pg_held_def Let_def)
qed (auto simp: job_ready_def pg_lease_iff pg_grant_def pg_complete_row_def pg_held_def job_extend_def add_pg_job_def
    pg_lease_def pg_enqueue_def new_pg_job_def new_job_def job.extend_def list_ex_iff table_simps split: option.splits)

end
