(* ===== verification/Job_Properties.thy ===== *)
theory Job_Properties
  imports Job_Queue
begin

text \<open>
  Properties of the two job queues over arbitrary sequences of their operations: exclusive
  processing until the lease ends, at most one completion, fencing by the token, one job per
  payload path, and the dead-letter rule.
\<close>

section \<open>Operations of the SQLite queue\<close>

datatype job_op =
    JEnqueue nat string int
  | JClaim string int int
  | JRenew nat string int int
  | JComplete nat string int
  | JFail nat string string int int int

fun run_job_op :: "job_op \<Rightarrow> job list \<Rightarrow> job list" where
  "run_job_op (JEnqueue jid path now) t = snd (enqueue_job jid path now t)"
| "run_job_op (JClaim w d now) t = snd (claim_job w d now t)"
| "run_job_op (JRenew jid w d now) t = snd (renew_job jid w d now t)"
| "run_job_op (JComplete jid w now) t = snd (complete_job jid w now t)"
| "run_job_op (JFail jid w err m d now) t = snd (fail_job jid w err m d now t)"

fun run_job_ops :: "job_op list \<Rightarrow> job list \<Rightarrow> job list" where
  "run_job_ops [] t = t"
| "run_job_ops (q # qs) t = run_job_ops qs (run_job_op q t)"

fun op_by :: "string \<Rightarrow> job_op \<Rightarrow> bool" where
  "op_by w (JEnqueue jid path now) = False"
| "op_by w (JClaim w' d now) = (w' = w)"
| "op_by w (JRenew jid w' d now) = (w' = w)"
| "op_by w (JComplete jid w' now) = (w' = w)"
| "op_by w (JFail jid w' err m d now) = (w' = w)"

fun op_until :: "int \<Rightarrow> job_op \<Rightarrow> bool" where
  "op_until e (JEnqueue jid path now) = True"
| "op_until e (JClaim w d now) = (now < e)"
| "op_until e (JRenew jid w d now) = (now < e)"
| "op_until e (JComplete jid w now) = (now < e)"
| "op_until e (JFail jid w err m d now) = (now < e)"

fun lease_op :: "job_op \<Rightarrow> (nat, string, unit, hold_op, nat \<times> string \<times> int) queue_op" where
  "lease_op (JEnqueue jid path now) = Other (jid, path, now)"
| "lease_op (JClaim w d now) = Claim w (seconds d) now"
| "lease_op (JRenew jid w d now) = Release jid w now (Extend d)"
| "lease_op (JComplete jid w now) = Finish jid w now ()"
| "lease_op (JFail jid w err m d now) = Release jid w now (Retry m d err)"

lemma lease_op_by [simp]: "by_holder w (lease_op q) = op_by w q"
  by (cases q) auto

lemma lease_op_until [simp]: "before e (lease_op q) = op_until e q"
  by (cases q) auto

lemma claim_job_lease:
  "claim_job w d now t = (Inr (Some item), t') \<Longrightarrow>
     0 < d \<and> jq.table_claim w (seconds d) now t = (Some (jb_id item), t')"
  by (auto simp: claim_job_def jq.table_claim_def claim_row_def job_grant_def split: if_splits option.splits)

lemma complete_job_lease:
  "py_strip w \<noteq> [] \<Longrightarrow> complete_job jid w now t =
     (Inr (fst (jq.table_finish jid w now () t)), snd (jq.table_finish jid w now () t))"
  by (simp add: complete_job_def jq.table_finish_def split_beta)

lemma run_job_op_lease: "run_job_op q t = t \<or> run_job_op q t = jq.run_op (lease_op q) t"
proof (cases q)
  case (JClaim w d now)
  then show ?thesis
    by (auto simp: claim_job_def jq.table_claim_def claim_row_def split: option.splits)
qed (auto simp: add_job_def renew_job_def complete_job_def fail_job_def jq.table_release_def
    jq.table_finish_def update_row_def split: option.splits)

lemma run_job_ops_lease:
  "\<exists>ps. set ps \<subseteq> lease_op ` set qs \<and> run_job_ops qs t = jq.run_ops ps t"
proof (induction qs arbitrary: t)
  case (Cons q qs)
  obtain ps where ps: "set ps \<subseteq> lease_op ` set qs" "run_job_ops qs (run_job_op q t) = jq.run_ops ps (run_job_op q t)"
    using Cons.IH by blast
  show ?case
  proof (cases "run_job_op q t = t")
    case True
    then show ?thesis using ps by (intro exI [of _ ps]) auto
  next
    case False
    then show ?thesis using ps run_job_op_lease [of q t] by (intro exI [of _ "lease_op q # ps"]) auto
  qed
qed (auto intro: exI [of _ "[]"])

text \<open>
  C19. Exclusive processing: from a claim to the end of its lease, whatever the other workers do
  and whatever is enqueued, no worker can claim the job, and a completion is accepted
  exactly when the worker that holds the claim asks for it.
\<close>

theorem job_claim_is_exclusive:
  assumes "distinct (map jb_id t)" and "claim_job w d now t = (Inr (Some item), t')"
    and "\<forall>q \<in> set qs. \<not> op_by w q \<and> op_until (now + seconds d) q"
    and "now' < now + seconds d" and "py_strip w' \<noteq> []"
  shows "fst (complete_job (jb_id item) w' now' (run_job_ops qs t')) = Inr (w' = w)
    \<and> \<not> (\<exists>w2 d2 item2. fst (claim_job w2 d2 now' (run_job_ops qs t')) = Inr (Some item2) \<and> jb_id item2 = jb_id item)"
proof -
  obtain ps where ps: "set ps \<subseteq> lease_op ` set qs" "run_job_ops qs t' = jq.run_ops ps t'"
    using run_job_ops_lease by blast
  have claim: "jq.table_claim w (seconds d) now t = (Some (jb_id item), t')"
    using claim_job_lease [OF assms(2)] by blast
  have others: "\<forall>p \<in> set ps. \<not> by_holder w p \<and> before (now + seconds d) p"
    using ps(1) assms(3) by fastforce
  note ex = jq.exclusive_until_expiry [OF assms(1) claim others assms(4)]
  have "\<not> (fst (claim_job w2 d2 now' (run_job_ops qs t')) = Inr (Some item2) \<and> jb_id item2 = jb_id item)"
    for w2 d2 item2
    using ex(1) [of w2 "seconds d2"] claim_job_lease [of w2 d2 now' "run_job_ops qs t'" item2] ps(2)
    by (metis fst_conv prod.collapse)
  then show ?thesis using ex(2) [of w' "()"] ps(2) by (simp add: complete_job_lease [OF assms(5)])
qed

text \<open>
  A completed job is final: after a completion is accepted, and whatever operations follow,
  no completion of that job is accepted and no claim returns it.
\<close>

theorem completed_jobs_stay_completed:
  assumes "distinct (map jb_id t)" and "complete_job jid w now t = (Inr True, t')"
  shows "fst (complete_job jid w' now' (run_job_ops qs t')) \<noteq> Inr True
    \<and> \<not> (\<exists>d item. fst (claim_job w' d now' (run_job_ops qs t')) = Inr (Some item) \<and> jb_id item = jid)"
proof -
  obtain ps where ps: "run_job_ops qs t' = jq.run_ops ps t'" using run_job_ops_lease by blast
  have w: "py_strip w \<noteq> []" using assms(2) by (auto simp: complete_job_def)
  then have "jq.table_finish jid w now () t = (True, t')"
    using assms(2) by (auto simp: complete_job_lease prod_eq_iff)
  note once = jq.finished_once [OF assms(1) this]
  have "\<not> (fst (claim_job w' d now' (run_job_ops qs t')) = Inr (Some item) \<and> jb_id item = jid)" for d item
    using once(2) [of w' "seconds d" now' ps] claim_job_lease [of w' d now' "run_job_ops qs t'" item] ps
    by (metis fst_conv prod.collapse)
  moreover have "fst (complete_job jid w' now' (run_job_ops qs t')) \<noteq> Inr True"
    using once(1) [of w' now' "()" ps] ps
    by (cases "py_strip w' = []") (simp_all add: complete_job_lease, simp add: complete_job_def)
  ultimately show ?thesis by blast
qed

section \<open>Operations of the PostgreSQL queue\<close>

datatype pg_op =
    PEnqueue nat string int
  | PClaim string int int string
  | PRenew nat string string int int
  | PComplete nat string string int
  | PFail nat string string string int int int

fun run_pg_op :: "pg_op \<Rightarrow> pg_job list \<Rightarrow> pg_job list" where
  "run_pg_op (PEnqueue jid path now) t = snd (pg_enqueue jid path now t)"
| "run_pg_op (PClaim w d now k) t = snd (pg_claim w d now k t)"
| "run_pg_op (PRenew jid w k d now) t = snd (pg_renew jid w k d now t)"
| "run_pg_op (PComplete jid w k now) t = snd (pg_complete jid w k now t)"
| "run_pg_op (PFail jid w k err m d now) t = snd (pg_fail jid w k err m d now t)"

fun run_pg_ops :: "pg_op list \<Rightarrow> pg_job list \<Rightarrow> pg_job list" where
  "run_pg_ops [] t = t"
| "run_pg_ops (q # qs) t = run_pg_ops qs (run_pg_op q t)"

fun pg_lease_op :: "pg_op \<Rightarrow> (nat, string \<times> string, unit, hold_op, nat \<times> string \<times> int) queue_op" where
  "pg_lease_op (PEnqueue jid path now) = Other (jid, path, now)"
| "pg_lease_op (PClaim w d now k) = Claim (w, k) (seconds d) now"
| "pg_lease_op (PRenew jid w k d now) = Release jid (w, k) now (Extend d)"
| "pg_lease_op (PComplete jid w k now) = Finish jid (w, k) now ()"
| "pg_lease_op (PFail jid w k err m d now) = Release jid (w, k) now (Retry m d err)"

fun pg_op_token :: "pg_op \<Rightarrow> string option" where
  "pg_op_token (PEnqueue jid path now) = None"
| "pg_op_token (PClaim w d now k) = Some k"
| "pg_op_token (PRenew jid w k d now) = Some k"
| "pg_op_token (PComplete jid w k now) = Some k"
| "pg_op_token (PFail jid w k err m d now) = Some k"

fun pg_op_until :: "int \<Rightarrow> pg_op \<Rightarrow> bool" where
  "pg_op_until e (PEnqueue jid path now) = True"
| "pg_op_until e (PClaim w d now k) = (now < e)"
| "pg_op_until e (PRenew jid w k d now) = (now < e)"
| "pg_op_until e (PComplete jid w k now) = (now < e)"
| "pg_op_until e (PFail jid w k err m d now) = (now < e)"

lemma pg_lease_op_by: "pg_op_token q \<noteq> Some k \<Longrightarrow> \<not> by_holder (w, k) (pg_lease_op q)"
  by (cases q) auto

lemma pg_lease_op_until [simp]: "before e (pg_lease_op q) = pg_op_until e q"
  by (cases q) auto

lemma pg_claim_lease:
  "pg_claim w d now k t = (Inr (Some item), t') \<Longrightarrow>
     0 < d \<and> pq.table_claim (w, k) (seconds d) now t = (Some (jb_id item), t')"
  by (auto simp: pg_claim_def pq.table_claim_def split: if_splits prod.splits)

lemma pg_complete_lease:
  "pg_complete jid w k now t =
     (Inr (fst (pq.table_finish jid (w, k) now () t)), snd (pq.table_finish jid (w, k) now () t))"
  by (simp add: pg_complete_def pq.table_finish_def split_beta)

text \<open>The update of \<open>fail\<close> names only the identifier; the row was tested under the row lock.\<close>

lemma update_found:
  assumes "distinct (map jb_id t)" and "List.find (\<lambda>r. jb_id r = jid) t = Some r" and "Q r"
  shows "update_where (\<lambda>x. jb_id x = jid) f t = update_where (\<lambda>x. jb_id x = jid \<and> Q x) f t"
proof -
  have "Q x" if "x \<in> set t" "jb_id x = jid" for x
    using that assms find_key_iff [OF assms(1), of jid] key_unique [OF assms(1), of x r] by auto
  then show ?thesis unfolding update_where_def by (auto intro: map_cong)
qed

lemma run_pg_op_lease:
  assumes "distinct (map jb_id t)"
  shows "run_pg_op q t = t \<or> run_pg_op q t = pq.run_op (pg_lease_op q) t"
proof (cases q)
  case (PClaim w d now k)
  then show ?thesis
    by (auto simp: pg_claim_def pq.table_claim_def split: prod.splits)
next
  case (PFail jid w k err m d now)
  show ?thesis
  proof (cases "List.find (\<lambda>r. jb_id r = jid) t")
    case (Some r)
    then show ?thesis
      using PFail update_found [OF assms Some, of "pg_held (w, k) now"]
      by (simp add: pg_fail_def pq.table_release_def update_row_def)
  qed (simp add: PFail pg_fail_def)
qed (auto simp: add_pg_job_def pg_renew_def pg_complete_def pq.table_release_def
    pq.table_finish_def update_row_def)

lemma run_pg_ops_lease:
  "distinct (map jb_id t) \<Longrightarrow> \<exists>ps. set ps \<subseteq> pg_lease_op ` set qs \<and> run_pg_ops qs t = pq.run_ops ps t"
proof (induction qs arbitrary: t)
  case (Cons q qs)
  show ?case
  proof (cases "run_pg_op q t = t")
    case True
    then show ?thesis using Cons by fastforce
  next
    case False
    then have step: "run_pg_op q t = pq.run_op (pg_lease_op q) t" using run_pg_op_lease Cons.prems by blast
    then have "distinct (map jb_id (run_pg_op q t))" using pq.sound_op Cons.prems by simp
    then obtain ps where "set ps \<subseteq> pg_lease_op ` set qs" "run_pg_ops qs (run_pg_op q t) = pq.run_ops ps (run_pg_op q t)"
      using Cons.IH by blast
    then show ?thesis using step by (intro exI [of _ "pg_lease_op q # ps"]) auto
  qed
qed (auto intro: exI [of _ "[]"])

text \<open>
  Fencing in the PostgreSQL queue: from a claim to the end of its lease, whatever operations
  with other tokens do (the same worker identifier included), no claim returns the job
  and a completion is accepted exactly when it presents the token and the worker of the claim.
\<close>

theorem pg_claim_is_fenced:
  assumes "distinct (map jb_id t)" and "pg_claim w d now k t = (Inr (Some item), t')"
    and "\<forall>q \<in> set qs. pg_op_token q \<noteq> Some k \<and> pg_op_until (now + seconds d) q"
    and "now' < now + seconds d"
  shows "fst (pg_complete (jb_id item) w' k' now' (run_pg_ops qs t')) = Inr (w' = w \<and> k' = k)
    \<and> \<not> (\<exists>w2 d2 k2 item2. fst (pg_claim w2 d2 now' k2 (run_pg_ops qs t')) = Inr (Some item2) \<and> jb_id item2 = jb_id item)"
proof -
  have claim: "pq.table_claim (w, k) (seconds d) now t = (Some (jb_id item), t')"
    using pg_claim_lease [OF assms(2)] by blast
  have "distinct (map jb_id t')"
    using pq.sound_claim [OF assms(1), of "(w, k)" "seconds d" now] by (simp add: claim)
  then obtain ps where ps: "set ps \<subseteq> pg_lease_op ` set qs" "run_pg_ops qs t' = pq.run_ops ps t'"
    using run_pg_ops_lease by blast
  have others: "\<forall>p \<in> set ps. \<not> by_holder (w, k) p \<and> before (now + seconds d) p"
    using ps(1) assms(3) pg_lease_op_by by fastforce
  note ex = pq.exclusive_until_expiry [OF assms(1) claim others assms(4)]
  have "\<not> (fst (pg_claim w2 d2 now' k2 (run_pg_ops qs t')) = Inr (Some item2) \<and> jb_id item2 = jb_id item)"
    for w2 d2 k2 item2
    using ex(1) [of "(w2, k2)" "seconds d2"] pg_claim_lease [of w2 d2 now' k2 "run_pg_ops qs t'" item2] ps(2)
    by (metis fst_conv prod.collapse)
  then show ?thesis using ex(2) [of "(w', k')" "()"] ps(2) by (simp add: pg_complete_lease)
qed

section \<open>Paths and retries\<close>

lemma job_columns [simp]:
  "jb_path (job_grant w e r) = jb_path r" "jb_path (job_complete r) = jb_path r"
  "jb_path (job_hold y now r) = jb_path r"
  by (simp_all add: job_grant_def job_complete_def) (cases y, simp_all add: job_retry_def job_extend_def Let_def)

definition job_table_ok :: "job list \<Rightarrow> bool" where
  "job_table_ok t = (distinct (map jb_id t) \<and> distinct (map jb_path t))"

lemma job_table_ok_op: "job_table_ok t \<Longrightarrow> job_table_ok (run_job_op q t)"
proof (cases q)
  case (JEnqueue jid path now)
  then show "job_table_ok t \<Longrightarrow> ?thesis"
    by (auto simp: job_table_ok_def enqueue_job_def new_job_def list_ex_iff)
next
  case (JClaim w d now)
  then show "job_table_ok t \<Longrightarrow> ?thesis"
    by (auto simp: job_table_ok_def claim_job_def map_update_where job_grant_def split: option.splits)
qed (auto simp: job_table_ok_def renew_job_def complete_job_def fail_job_def update_row_def map_update_where
    job_extend_def job_complete_def job_retry_def Let_def split: option.splits)

text \<open>
  One job per payload path: in every state the queue reaches from the empty table, no
  two rows have the same identifier or the same path, so a path that was enqueued once is
  never processed as a second job.
\<close>

theorem payload_paths_are_unique:
  "job_table_ok (run_job_ops qs []) \<and> (\<not> (\<exists>r \<in> set (run_job_ops qs []). \<exists>r' \<in> set (run_job_ops qs []).
     r \<noteq> r' \<and> jb_path r = jb_path r'))"
proof -
  have "job_table_ok (run_job_ops qs t)" if "job_table_ok t" for t
    using that by (induction qs arbitrary: t) (auto simp: job_table_ok_op)
  then have ok: "job_table_ok (run_job_ops qs [])" by (simp add: job_table_ok_def)
  then show ?thesis using key_unique [of jb_path] by (auto simp: job_table_ok_def)
qed

text \<open>
  The dead-letter rule: a failure the holder reports in time makes the job dead when it
  has used its attempts and otherwise makes it pending again after the delay, in one
  update of that row; the answer names the new status.
\<close>

theorem failed_jobs_retry_or_die:
  assumes "distinct (map jb_id t)" and "r \<in> set t" and "job_held w now r"
    and "py_strip w \<noteq> []" and "1 \<le> m" and "0 \<le> d"
  shows "fail_job (jb_id r) w err m d now t =
    (Inr (if m \<le> int (jb_attempts r) then ''dead'' else ''pending''),
     update_where (\<lambda>x. jb_id x = jb_id r)
       (\<lambda>x. x\<lparr>jb_status := (if m \<le> int (jb_attempts r) then Dead else Pending),
              jb_available := (if m \<le> int (jb_attempts r) then now else now + seconds d),
              jb_locked_until := None, jb_worker := None, jb_error := Some (take 2000 err)\<rparr>) t)"
proof -
  have find: "List.find (\<lambda>x. jb_id x = jb_id r) t = Some r" by (rule find_key [OF assms(1,2)])
  have one: "rowcount (\<lambda>x. jb_id x = jb_id r \<and> job_held w now x) t = 1"
    using rowcount_key [OF assms(1), of "jb_id r" "job_held w now"] assms(2,3) by blast
  have uniq: "x = r" if "x \<in> set t" "jb_id x = jb_id r" for x using key_unique [OF assms(1) that(1) assms(2) that(2)] .
  have "update_where (\<lambda>x. jb_id x = jb_id r \<and> job_held w now x) (job_retry m d err now) t =
    update_where (\<lambda>x. jb_id x = jb_id r)
       (\<lambda>x. x\<lparr>jb_status := (if m \<le> int (jb_attempts r) then Dead else Pending),
              jb_available := (if m \<le> int (jb_attempts r) then now else now + seconds d),
              jb_locked_until := None, jb_worker := None, jb_error := Some (take 2000 err)\<rparr>) t"
    unfolding update_where_def
    by (rule map_cong) (use uniq assms(3) in \<open>auto simp: job_retry_def retry_status_def Let_def\<close>)
  then show ?thesis
    using find one assms(3-) by (simp add: fail_job_def update_row_def retry_status_def)
qed

end
