(* ===== verification/Outbox_Delivery.thy ===== *)
theory Outbox_Delivery
  imports Governance_Types Leased_Queue
begin

text \<open>
  Delivery of the transactional outbox (\<open>outbox_delivery.py\<close>): the message check, the local
  publishers, the queue over the outbox table (claim, acknowledge, fail, requeue), heartbeats,
  metrics, readiness and the worker. Publishers are parameters of the worker, a call that
  returns a receipt or raises. The queue is an instance of \<open>lease_table\<close>; a holder is a worker
  identifier with the random token of its claim.
\<close>

section \<open>Messages\<close>

record outbox_message =
  message_id :: string
  msg_event :: string
  msg_finding :: string
  msg_sequence :: nat
  msg_topic :: string
  msg_body :: "byte list"
  msg_sha256 :: string

datatype publish_error = Permanent string | Transient string

fun error_text :: "publish_error \<Rightarrow> string" where
  "error_text (Permanent m) = m"
| "error_text (Transient m) = m"

definition max_message_bytes :: nat where "max_message_bytes = 256 * 1024"

text \<open>Python's \<open>==\<close> between a value read from JSON and a string or an integer.\<close>

definition json_is_text :: "json option \<Rightarrow> string \<Rightarrow> bool" where
  "json_is_text v s = (v = Some (JStr s))"

definition json_is_int :: "json option \<Rightarrow> int \<Rightarrow> bool" where
  "json_is_int v n =
     (v = Some (JInt n) \<or> v = Some (JFloat (Fixed (n * 1000000)))
      \<or> (n = 1 \<and> v = Some (JBool True)) \<or> (n = 0 \<and> v = Some (JBool False)))"

definition required_columns :: "outbox_row \<Rightarrow> (string \<times> string) list" where
  "required_columns r =
     [(''outbox_id'', ob_id r), (''event_id'', ob_event r), (''finding_id'', ob_finding r),
      (''topic'', ob_topic r), (''payload_json'', ob_payload r)]"

definition blank_column :: "outbox_row \<Rightarrow> (string \<times> string) option" where
  "blank_column r = List.find (\<lambda>(name, v). py_strip v = []) (required_columns r)"

definition payload_matches :: "outbox_row \<Rightarrow> (string \<times> json) list \<Rightarrow> bool" where
  "payload_matches r kvs =
     (json_is_text (obj_get ''event_id'' kvs) (ob_event r)
      \<and> json_is_text (obj_get ''finding_id'' kvs) (ob_finding r)
      \<and> json_is_int (obj_get ''event_sequence'' kvs) (int (ob_seq r)))"

definition message_of_payload :: "outbox_row \<Rightarrow> json \<Rightarrow> publish_error + outbox_message" where
  "message_of_payload r payload =
     (case payload of
        JObj kvs \<Rightarrow>
          if ob_seq r < 1 then Inl (Permanent ''outbox event sequence is invalid'')
          else if \<not> payload_matches r kvs then Inl (Permanent ''outbox metadata does not match its payload'')
          else if json_dumps compact_ascii payload \<noteq> ob_payload r
            then Inl (Permanent ''outbox payload is not canonical JSON'')
          else (let body = utf8_encode (json_dumps compact_ascii payload) in
            if body = [] \<or> max_message_bytes < length body
            then Inl (Permanent ''outbox payload size is invalid'')
            else Inr \<lparr>message_id = ob_id r, msg_event = ob_event r, msg_finding = ob_finding r,
                      msg_sequence = ob_seq r, msg_topic = ob_topic r, msg_body = body,
                      msg_sha256 = sha256_hex body\<rparr>)
      | _ \<Rightarrow> Inl (Permanent ''outbox event sequence is invalid''))"

definition from_item :: "outbox_row \<Rightarrow> publish_error + outbox_message" where
  "from_item r =
     (case blank_column r of
        Some (name, v) \<Rightarrow> Inl (Permanent (''outbox '' @ name @ '' is invalid''))
      | None \<Rightarrow>
          if \<not> hex_id32 (ob_id r) then Inl (Permanent ''outbox message identity is invalid'')
          else if ob_topic r \<noteq> ''governance.event.v1''
            then Inl (Permanent ''outbox topic is not an approved contract'')
          else (case json_loads (ob_payload r) of
                  None \<Rightarrow> Inl (Permanent ''outbox payload is invalid'')
                | Some payload \<Rightarrow> message_of_payload r payload))"

section \<open>Publishers\<close>

type_synonym mailbox = "string \<rightharpoonup> byte list"

definition memory_publish :: "outbox_message \<Rightarrow> mailbox \<Rightarrow> (publish_error + string) \<times> mailbox" where
  "memory_publish m box =
     (case box (message_id m) of
        Some old \<Rightarrow>
          if old \<noteq> msg_body m then (Inl (Permanent ''message identity collision''), box)
          else (Inr (message_id m), box(message_id m \<mapsto> msg_body m))
      | None \<Rightarrow> (Inr (message_id m), box(message_id m \<mapsto> msg_body m)))"

definition local_publish :: "outbox_message \<Rightarrow> mailbox \<Rightarrow> (publish_error + string) \<times> mailbox" where
  "local_publish m box =
     (case box (message_id m) of
        Some old \<Rightarrow>
          if old \<noteq> msg_body m then (Inl (Permanent ''local message identity collision''), box)
          else (Inr (message_id m), box)
      | None \<Rightarrow> (Inr (message_id m), box(message_id m \<mapsto> msg_body m)))"

text \<open>
  The Service Bus publisher classifies an exception of the client by its class name; sending
  is a parameter that returns the class name of the exception, if any.
\<close>

definition permanent_errors :: "string list" where
  "permanent_errors = [''AuthenticationError'', ''ClientAuthenticationError'',
     ''MessagingEntityNotFoundError'', ''ServiceBusAuthenticationError'', ''ServiceBusAuthorizationError'']"

definition service_bus_publish ::
    "(outbox_message \<Rightarrow> 'p \<Rightarrow> string option \<times> 'p) \<Rightarrow> outbox_message \<Rightarrow> 'p \<Rightarrow> (publish_error + string) \<times> 'p" where
  "service_bus_publish send m p =
     (case send m p of
        (Some cls, p') \<Rightarrow>
          if cls \<in> set permanent_errors then (Inl (Permanent ''Service Bus rejected the publisher''), p')
          else (Inl (Transient ''Service Bus delivery is unavailable''), p')
      | (None, p') \<Rightarrow> (Inr (message_id m), p'))"

section \<open>The queue\<close>

definition undelivered_before :: "outbox_row list \<Rightarrow> outbox_row \<Rightarrow> bool" where
  "undelivered_before t r =
     list_ex (\<lambda>e. ob_finding e = ob_finding r \<and> ob_seq e < ob_seq r \<and> ob_delivered e = None) t"

definition outbox_ready :: "int \<Rightarrow> outbox_row list \<Rightarrow> outbox_row \<Rightarrow> bool" where
  "outbox_ready now t r =
     (ob_delivered r = None \<and> ob_dead r = None \<and> ob_available r \<le> now
      \<and> (ob_locked_until r = None \<or> col_le (ob_locked_until r) now) \<and> \<not> undelivered_before t r)"

definition outbox_order :: "outbox_row \<Rightarrow> int \<times> string" where
  "outbox_order r = (ob_created r, ob_id r)"

definition outbox_grant :: "string \<times> string \<Rightarrow> int \<Rightarrow> outbox_row \<Rightarrow> outbox_row" where
  "outbox_grant h until r = r\<lparr>ob_attempts := ob_attempts r + 1, ob_locked_until := Some until,
     ob_worker := Some (fst h), ob_token := Some (snd h)\<rparr>"

definition claim_outbox ::
    "string \<Rightarrow> int \<Rightarrow> int \<Rightarrow> string \<Rightarrow> outbox_row list \<Rightarrow> outbox_row option outcome \<times> outbox_row list" where
  "claim_outbox worker lease_seconds now token t =
     (if py_strip worker = [] \<or> lease_seconds \<le> 0
      then (Inl (ValueError ''worker_id and a positive lease are required''), t)
      else (case claim_row ob_id outbox_order (outbox_ready now t)
                   (outbox_grant (worker, token) (now + seconds lease_seconds)) t of
              (r, t') \<Rightarrow> (Inr r, t')))"

definition outbox_held :: "string option \<Rightarrow> string option \<Rightarrow> int \<Rightarrow> outbox_row \<Rightarrow> bool" where
  "outbox_held worker token now r =
     (ob_delivered r = None \<and> ob_dead r = None \<and> col_eq (ob_worker r) worker
      \<and> col_eq (ob_token r) token \<and> col_gt (ob_locked_until r) now)"

definition outbox_deliver :: "string \<Rightarrow> int \<Rightarrow> outbox_row \<Rightarrow> outbox_row" where
  "outbox_deliver receipt now r = r\<lparr>ob_delivered := Some now, ob_accepted := Some now,
     ob_message_id := Some receipt, ob_locked_until := None, ob_worker := None,
     ob_token := None, ob_error := None\<rparr>"

definition acknowledge_outbox ::
    "outbox_row \<Rightarrow> string \<Rightarrow> int \<Rightarrow> outbox_row list \<Rightarrow> (publish_error + bool) \<times> outbox_row list" where
  "acknowledge_outbox item receipt now t =
     (if receipt \<noteq> ob_id item then (Inl (Permanent ''broker receipt identity mismatch''), t)
      else (case List.find (\<lambda>r. ob_id r = ob_id item) t of
              None \<Rightarrow> (Inr False, t)
            | Some row \<Rightarrow>
                if ob_delivered row \<noteq> None then (Inr (ob_message_id row = Some receipt), t)
                else (case update_row ob_id (ob_id item) (outbox_held (ob_worker item) (ob_token item) now)
                             (outbox_deliver receipt now) t of
                        (ok, t') \<Rightarrow> (Inr ok, t'))))"

definition outbox_retry :: "bool \<Rightarrow> int \<Rightarrow> string \<Rightarrow> int \<Rightarrow> outbox_row \<Rightarrow> outbox_row" where
  "outbox_retry dead delay err now r =
     r\<lparr>ob_available := now + (if dead then 0 else seconds delay), ob_dead := (if dead then Some now else None),
       ob_locked_until := None, ob_worker := None, ob_token := None, ob_error := Some (take 2000 err)\<rparr>"

definition fail_outbox ::
    "outbox_row \<Rightarrow> publish_error \<Rightarrow> bool \<Rightarrow> int \<Rightarrow> int \<Rightarrow> int \<Rightarrow> outbox_row list \<Rightarrow> string outcome \<times> outbox_row list" where
  "fail_outbox item err permanent max_attempts retry_delay now t =
     (if max_attempts < 1 \<or> retry_delay < 0 then (Inl (ValueError ''outbox retry policy is invalid''), t)
      else (let dead = permanent \<or> max_attempts \<le> int (ob_attempts item) in
        case update_row ob_id (ob_id item) (outbox_held (ob_worker item) (ob_token item) now)
               (outbox_retry dead retry_delay (error_text err) now) t of
          (ok, t') \<Rightarrow> (Inr (if \<not> ok then ''stale'' else if dead then ''dead'' else ''retry''), t')))"

definition requeue_outbox ::
    "string \<Rightarrow> string \<Rightarrow> int \<Rightarrow> outbox_row list \<Rightarrow> bool outcome \<times> outbox_row list" where
  "requeue_outbox oid confirmation now t =
     (if \<not> hex_id32 oid then (Inl (ValueError ''outbox_id is invalid''), t)
      else if confirmation \<noteq> ''REQUEUE OUTBOX '' @ oid
        then (Inl (PermissionError ''exact outbox requeue confirmation is required''), t)
      else (case update_row ob_id oid (\<lambda>r. ob_delivered r = None \<and> ob_dead r \<noteq> None)
                   (\<lambda>r. r\<lparr>ob_attempts := 0, ob_available := now, ob_dead := None, ob_locked_until := None,
                          ob_worker := None, ob_token := None, ob_error := None\<rparr>) t of
              (ok, t') \<Rightarrow> (Inr ok, t')))"

section \<open>Heartbeats, metrics and readiness\<close>

record heartbeat_row =
  hb_worker :: string
  hb_at :: int
  hb_status :: string

definition heartbeat ::
    "string \<Rightarrow> string \<Rightarrow> int \<Rightarrow> heartbeat_row list \<Rightarrow> unit outcome \<times> heartbeat_row list" where
  "heartbeat worker status now bs =
     (if py_strip worker = [] \<or> status \<notin> {''running'', ''degraded''}
      then (Inl (ValueError ''worker heartbeat is invalid''), bs)
      else if list_ex (\<lambda>b. hb_worker b = worker) bs
      then (Inr (), update_where (\<lambda>b. hb_worker b = worker) (\<lambda>b. b\<lparr>hb_at := now, hb_status := status\<rparr>) bs)
      else (Inr (), bs @ [\<lparr>hb_worker = worker, hb_at = now, hb_status = status\<rparr>]))"

record outbox_metrics =
  om_delivered :: nat
  om_pending :: nat
  om_dead :: nat
  om_retrying :: nat
  om_oldest_age :: int

definition pending_row :: "outbox_row \<Rightarrow> bool" where
  "pending_row r = (ob_delivered r = None \<and> ob_dead r = None)"

definition outbox_metrics_of :: "int \<Rightarrow> outbox_row list \<Rightarrow> outbox_metrics" where
  "outbox_metrics_of now t =
     (let created = map ob_created (filter pending_row t) in
      \<lparr>om_delivered = count_rows (\<lambda>r. ob_delivered r \<noteq> None) t, om_pending = count_rows pending_row t,
       om_dead = count_rows (\<lambda>r. ob_dead r \<noteq> None) t,
       om_retrying = count_rows (\<lambda>r. pending_row r \<and> ob_error r \<noteq> None) t,
       om_oldest_age = (if created = [] then 0 else max 0 (now - foldr min (tl created) (hd created)))\<rparr>)"

definition outbox_healthy :: "int \<Rightarrow> int \<Rightarrow> int \<Rightarrow> heartbeat_row list \<Rightarrow> outbox_row list \<Rightarrow> bool" where
  "outbox_healthy beat_age lag_age now bs t =
     (case sort_key (\<lambda>b. - hb_at b) bs of
        [] \<Rightarrow> False
      | b # _ \<Rightarrow> (let m = outbox_metrics_of now t in
          hb_status b = ''running'' \<and> now - seconds beat_age < hb_at b \<and> om_dead m = 0 \<and> om_retrying m = 0
          \<and> om_oldest_age m \<le> seconds lag_age))"

section \<open>The worker\<close>

record delivery_db =
  dd_outbox :: "outbox_row list"
  dd_beats :: "heartbeat_row list"

definition beat :: "string \<Rightarrow> string \<Rightarrow> int \<Rightarrow> delivery_db \<Rightarrow> unit outcome \<times> delivery_db" where
  "beat worker status now db =
     (case heartbeat worker status now (dd_beats db) of (r, bs) \<Rightarrow> (r, db\<lparr>dd_beats := bs\<rparr>))"

text \<open>The \<open>try\<close> block: check the message, publish it and acknowledge the receipt.\<close>

definition deliver_item ::
    "(outbox_message \<Rightarrow> 'p \<Rightarrow> (publish_error + string) \<times> 'p) \<Rightarrow> outbox_row \<Rightarrow> int \<Rightarrow> outbox_row list \<Rightarrow> 'p
       \<Rightarrow> (publish_error + string) \<times> outbox_row list \<times> 'p" where
  "deliver_item publish item now t p =
     (case from_item item of
        Inl e \<Rightarrow> (Inl e, t, p)
      | Inr m \<Rightarrow>
          (case publish m p of
             (Inl e, p') \<Rightarrow> (Inl e, t, p')
           | (Inr receipt, p') \<Rightarrow>
               (case acknowledge_outbox item receipt now t of
                  (Inl e, t') \<Rightarrow> (Inl e, t', p')
                | (Inr ok, t') \<Rightarrow> (Inr (if ok then ''delivered'' else ''stale''), t', p'))))"

definition settle_item ::
    "outbox_row \<Rightarrow> int \<Rightarrow> int \<Rightarrow> int \<Rightarrow> publish_error + string \<Rightarrow> outbox_row list
       \<Rightarrow> string outcome \<times> outbox_row list" where
  "settle_item item max_attempts retry_delay now r t =
     (case r of
        Inr result \<Rightarrow> (Inr result, t)
      | Inl (Permanent m) \<Rightarrow> fail_outbox item (Permanent m) True 5 30 now t
      | Inl (Transient m) \<Rightarrow> fail_outbox item (Transient m) False max_attempts retry_delay now t)"

text \<open>
  \<open>clk\<close> gives the clock readings of a pass in their order: heartbeat, claim, acknowledgement,
  failure, heartbeat. A caller that passes \<open>now\<close> makes them equal.
\<close>

definition outbox_run_once ::
    "(outbox_message \<Rightarrow> 'p \<Rightarrow> (publish_error + string) \<times> 'p) \<Rightarrow> string \<Rightarrow> int \<Rightarrow> int \<Rightarrow> int \<Rightarrow> (nat \<Rightarrow> int) \<Rightarrow> string
       \<Rightarrow> delivery_db \<Rightarrow> 'p \<Rightarrow> string outcome \<times> delivery_db \<times> 'p" where
  "outbox_run_once publish worker lease_seconds max_attempts retry_delay clk token db p =
     (case beat worker ''running'' (clk 0) db of
        (Inl e, db1) \<Rightarrow> (Inl e, db1, p)
      | (Inr _, db1) \<Rightarrow>
          (case claim_outbox worker lease_seconds (clk 1) token (dd_outbox db1) of
             (Inl e, t) \<Rightarrow> (Inl e, db1, p)
           | (Inr None, t) \<Rightarrow> (Inr ''empty'', snd (beat worker ''running'' (clk 4) db1), p)
           | (Inr (Some item), t) \<Rightarrow>
               (case deliver_item publish item (clk 2) t p of
                  (r, t', p') \<Rightarrow>
                    (case settle_item item max_attempts retry_delay (clk 3) r t' of
                       (Inl e, t'') \<Rightarrow> (Inl e, db1\<lparr>dd_outbox := t''\<rparr>, p')
                     | (Inr result, t'') \<Rightarrow>
                         (Inr result,
                          snd (beat worker (if result = ''delivered'' then ''running'' else ''degraded'') (clk 4)
                                 (db1\<lparr>dd_outbox := t''\<rparr>)), p')))))"

end
