(* ===== verification/Outbox_Properties.thy ===== *)
theory Outbox_Properties
  imports Outbox_Delivery
begin

text \<open>
  Properties of the outbox queue: it implements the lease contract, a claimed row is untouched
  by every other worker until the lease expires, so that the holder's acknowledgement is accepted,
  rows of one finding are delivered in the order of their sequence numbers, a dead row holds
  back the later rows of its finding, and one pass of the worker delivers a ready row.
\<close>

section \<open>The lease contract\<close>

definition outbox_lease :: "outbox_row \<Rightarrow> ((string \<times> string) \<times> int) option" where
  "outbox_lease r =
     (if ob_delivered r = None \<and> ob_dead r = None then
        (case (ob_locked_until r, ob_worker r, ob_token r) of
           (Some e, Some w, Some k) \<Rightarrow> Some ((w, k), e)
         | _ \<Rightarrow> None)
      else None)"

lemma outbox_lease_iff:
  "outbox_lease r = Some ((w, k), e) \<longleftrightarrow> ob_delivered r = None \<and> ob_dead r = None
     \<and> ob_locked_until r = Some e \<and> ob_worker r = Some w \<and> ob_token r = Some k"
  by (auto simp: outbox_lease_def split: option.splits)

lemma outbox_held_iff:
  "outbox_held (Some w) (Some k) now r \<longleftrightarrow> (\<exists>e. outbox_lease r = Some ((w, k), e) \<and> now < e)"
  by (auto simp: outbox_held_def outbox_lease_iff table_simps)

lemma outbox_row_keys [simp]:
  "ob_id (outbox_grant h e r) = ob_id r" "ob_id (outbox_deliver receipt now r) = ob_id r"
  "ob_id (outbox_retry dead delay err now r) = ob_id r"
  by (simp_all add: outbox_grant_def outbox_deliver_def outbox_retry_def)

definition outbox_reset :: "int \<Rightarrow> outbox_row \<Rightarrow> outbox_row" where
  "outbox_reset now r = r\<lparr>ob_attempts := 0, ob_available := now, ob_dead := None, ob_locked_until := None,
     ob_worker := None, ob_token := None, ob_error := None\<rparr>"

lemma requeue_outbox_run:
  "snd (requeue_outbox oid c now t) = t \<or> snd (requeue_outbox oid c now t) =
     snd (update_row ob_id oid (\<lambda>r. ob_delivered r = None \<and> ob_dead r \<noteq> None) (outbox_reset now) t)"
  by (auto simp: requeue_outbox_def outbox_reset_def [abs_def] split: prod.splits)

lemma outbox_reset_columns [simp]:
  "ob_id (outbox_reset now r) = ob_id r" "ob_delivered (outbox_reset now r) = ob_delivered r"
  "ob_finding (outbox_reset now r) = ob_finding r" "ob_seq (outbox_reset now r) = ob_seq r"
  by (simp_all add: outbox_reset_def)

lemma requeue_keeps:
  "map ob_id (snd (requeue_outbox oid c now t)) = map ob_id t"
  "r \<in> set t \<Longrightarrow> outbox_lease r \<noteq> None \<or> ob_delivered r \<noteq> None \<Longrightarrow> r \<in> set (snd (requeue_outbox oid c now t))"
proof -
  show "map ob_id (snd (requeue_outbox oid c now t)) = map ob_id t"
    using requeue_outbox_run [of oid c now t] by (auto simp: update_row_def map_update_where)
  assume "r \<in> set t" "outbox_lease r \<noteq> None \<or> ob_delivered r \<noteq> None"
  then show "r \<in> set (snd (requeue_outbox oid c now t))"
    using requeue_outbox_run [of oid c now t]
    by (auto simp: update_row_def outbox_lease_def intro!: update_where_keeps split: if_splits)
qed

interpretation ob: lease_table ob_id outbox_order outbox_ready outbox_grant outbox_lease
  "\<lambda>r. ob_delivered r \<noteq> None" "\<lambda>h. outbox_held (Some (fst h)) (Some (snd h))" outbox_deliver
  "\<lambda>h. outbox_held (Some (fst h)) (Some (snd h))" "\<lambda>(dead, delay, err). outbox_retry dead delay err"
  "\<lambda>(oid, c, now) t. snd (requeue_outbox oid c now t)"
proof
  fix now t r and h' :: "string \<times> string" and e'
  assume "outbox_ready now t r" "outbox_lease r = Some (h', e')"
  then show "e' \<le> now" by (cases h') (auto simp: outbox_ready_def outbox_lease_iff table_simps)
next
  fix now t r and h :: "string \<times> string" and e
  assume "outbox_ready now t r"
  then show "outbox_lease (outbox_grant h e r) = Some (h, e)"
    by (cases h) (simp add: outbox_ready_def outbox_grant_def outbox_lease_def)
next
  fix h :: "string \<times> string" and now r
  show iff: "outbox_held (Some (fst h)) (Some (snd h)) now r \<longleftrightarrow> (\<exists>e. outbox_lease r = Some (h, e) \<and> now < e)"
    by (simp add: outbox_held_iff)
  assume "outbox_held (Some (fst h)) (Some (snd h)) now r"
  with iff show "\<exists>e. outbox_lease r = Some (h, e)" by blast
  show "(ob_delivered ((case y of (dead, delay, err) \<Rightarrow> outbox_retry dead delay err) now r) \<noteq> None)
      = (ob_delivered r \<noteq> None)" for y
    by (cases y) (simp add: outbox_retry_def)
next
  show "distinct (map ob_id t) \<Longrightarrow> distinct (map ob_id ((case z of (oid, c, now) \<Rightarrow> \<lambda>t. snd (requeue_outbox oid c now t)) t))"
    for t z by (cases z) (simp add: requeue_keeps)
  show "r \<in> set ((case z of (oid, c, now) \<Rightarrow> \<lambda>t. snd (requeue_outbox oid c now t)) t)"
    if "r \<in> set t" "outbox_lease r \<noteq> None \<or> ob_delivered r \<noteq> None" for r t z
    using that by (cases z) (simp add: requeue_keeps(2))
qed (auto simp: outbox_ready_def outbox_grant_def outbox_deliver_def outbox_retry_def outbox_lease_def)

section \<open>Operations of the workers\<close>

datatype outbox_op =
    OClaim string int int string
  | OAck outbox_row string int
  | OFail outbox_row publish_error bool int int int
  | ORequeue string string int

fun run_outbox_op :: "outbox_op \<Rightarrow> outbox_row list \<Rightarrow> outbox_row list" where
  "run_outbox_op (OClaim w d now k) t = snd (claim_outbox w d now k t)"
| "run_outbox_op (OAck item receipt now) t = snd (acknowledge_outbox item receipt now t)"
| "run_outbox_op (OFail item e p m d now) t = snd (fail_outbox item e p m d now t)"
| "run_outbox_op (ORequeue oid c now) t = snd (requeue_outbox oid c now t)"

fun outbox_op_time :: "outbox_op \<Rightarrow> int" where
  "outbox_op_time (OClaim w d now k) = now"
| "outbox_op_time (OAck item receipt now) = now"
| "outbox_op_time (OFail item e p m d now) = now"
| "outbox_op_time (ORequeue oid c now) = now"

text \<open>The claim an acknowledgement or failure presents is the one stored in its item.\<close>

fun presents :: "outbox_op \<Rightarrow> string \<Rightarrow> string \<Rightarrow> bool" where
  "presents (OAck item receipt now) w k = (ob_worker item = Some w \<and> ob_token item = Some k)"
| "presents (OFail item e p m d now) w k = (ob_worker item = Some w \<and> ob_token item = Some k)"
| "presents _ w k = False"

text \<open>What an operation does to a table: nothing, a claim, or one guarded update.\<close>

lemma claim_outbox_run:
  "snd (claim_outbox w d now k t) = t \<or> (0 < d \<and> py_strip w \<noteq> [] \<and> snd (claim_outbox w d now k t) =
     snd (claim_row ob_id outbox_order (outbox_ready now t) (outbox_grant (w, k) (now + seconds d)) t))"
  by (auto simp: claim_outbox_def split: prod.splits)

lemma ack_outbox_run:
  "snd (acknowledge_outbox item receipt now t) = t \<or> snd (acknowledge_outbox item receipt now t) =
     snd (update_row ob_id (ob_id item) (outbox_held (ob_worker item) (ob_token item) now) (outbox_deliver receipt now) t)"
  by (auto simp: acknowledge_outbox_def split: prod.splits option.splits)

lemma fail_outbox_run:
  "snd (fail_outbox item err p m d now t) = t \<or> (\<exists>dead. snd (fail_outbox item err p m d now t) =
     snd (update_row ob_id (ob_id item) (outbox_held (ob_worker item) (ob_token item) now)
       (outbox_retry dead d (error_text err) now) t))"
  unfolding fail_outbox_def Let_def by (auto simp: split_beta)

inductive outbox_change :: "outbox_row list \<Rightarrow> outbox_row list \<Rightarrow> outbox_op \<Rightarrow> bool" where
  oc_same: "outbox_change t t q"
| oc_claim: "r \<in> set t \<Longrightarrow> outbox_ready now t r \<Longrightarrow> 0 < d \<Longrightarrow>
    t' = update_where (\<lambda>x. ob_id x = ob_id r) (outbox_grant (w, k) (now + seconds d)) t \<Longrightarrow>
    outbox_change t t' (OClaim w d now k)"
| oc_ack: "t' = update_where (\<lambda>x. ob_id x = ob_id item \<and> outbox_held (ob_worker item) (ob_token item) now x)
    (outbox_deliver receipt now) t \<Longrightarrow> outbox_change t t' (OAck item receipt now)"
| oc_fail: "t' = update_where (\<lambda>x. ob_id x = ob_id item \<and> outbox_held (ob_worker item) (ob_token item) now x)
    (outbox_retry dead d err now) t \<Longrightarrow> outbox_change t t' (OFail item e p m d now)"
| oc_requeue: "t' = update_where (\<lambda>x. ob_id x = oid \<and> ob_delivered x = None \<and> ob_dead x \<noteq> None)
    (outbox_reset now) t \<Longrightarrow> outbox_change t t' (ORequeue oid c now)"

lemma run_outbox_change: "outbox_change t (run_outbox_op q t) q"
proof (cases q)
  case (OClaim w d now k)
  show ?thesis
  proof (cases "snd (claim_outbox w d now k t) = t")
    case True
    then show ?thesis using OClaim by (simp add: oc_same)
  next
    case False
    then have d: "0 < d" and run: "snd (claim_outbox w d now k t) =
        snd (claim_row ob_id outbox_order (outbox_ready now t) (outbox_grant (w, k) (now + seconds d)) t)"
      using claim_outbox_run by blast+
    with False obtain r where "select_first outbox_order (outbox_ready now t) t = Some r"
      by (auto simp: claim_row_def split: option.splits)
    then show ?thesis using OClaim d run select_first_Some [of outbox_order "outbox_ready now t" t r]
      by (auto simp: claim_row_def intro: oc_claim)
  qed
next
  case (OAck item receipt now)
  then show ?thesis using ack_outbox_run [of item receipt now t]
    by (auto simp: update_row_def intro: oc_same oc_ack)
next
  case (OFail item e p m d now)
  then show ?thesis using fail_outbox_run [of item e p m d now t]
    by (auto simp: update_row_def intro: oc_same oc_fail)
next
  case (ORequeue oid c now)
  then show ?thesis using requeue_outbox_run [of oid c now t]
    by (auto simp: update_row_def intro: oc_same oc_requeue)
qed

lemma outbox_change_ids: "outbox_change t t' q \<Longrightarrow> map ob_id t' = map ob_id t"
  by (induction rule: outbox_change.induct) (auto simp: map_update_where)

text \<open>A leased row is untouched by operations that do not present its claim.\<close>

lemma leased_row_untouched:
  assumes "outbox_change t t' q" and "distinct (map ob_id t)"
    and "r \<in> set t" and "outbox_lease r = Some ((w, k), e)"
    and "\<not> presents q w k" and "outbox_op_time q < e"
  shows "r \<in> set t'"
  using assms
proof (induction rule: outbox_change.induct)
  case (oc_claim x t now d t' w' k')
  have "\<not> outbox_ready now t r"
    using oc_claim.prems by (auto simp: outbox_ready_def outbox_lease_iff table_simps)
  then have "ob_id r \<noteq> ob_id x" using oc_claim key_unique [of ob_id t r x] by auto
  then show ?case using oc_claim by (auto intro: update_where_keeps)
next
  case (oc_ack t' item now receipt t)
  have "\<not> outbox_held (ob_worker item) (ob_token item) now r"
    using oc_ack.prems by (auto simp: outbox_held_def outbox_lease_iff table_simps)
  then show ?case using oc_ack by (auto intro: update_where_keeps)
next
  case (oc_fail t' item now dead d err t e' p m)
  have "\<not> outbox_held (ob_worker item) (ob_token item) now r"
    using oc_fail.prems by (auto simp: outbox_held_def outbox_lease_iff table_simps)
  then show ?case using oc_fail by (auto intro: update_where_keeps)
next
  case (oc_requeue t' oid now t c)
  have "ob_dead r = None" using oc_requeue.prems by (simp add: outbox_lease_iff)
  then show ?case using oc_requeue by (auto intro: update_where_keeps)
qed simp

fun run_outbox_ops :: "outbox_op list \<Rightarrow> outbox_row list \<Rightarrow> outbox_row list" where
  "run_outbox_ops [] t = t"
| "run_outbox_ops (q # qs) t = run_outbox_ops qs (run_outbox_op q t)"

lemma leased_row_untouched_run:
  "distinct (map ob_id t) \<Longrightarrow> r \<in> set t \<Longrightarrow> outbox_lease r = Some ((w, k), e) \<Longrightarrow>
     \<forall>q \<in> set qs. \<not> presents q w k \<and> outbox_op_time q < e \<Longrightarrow>
     r \<in> set (run_outbox_ops qs t) \<and> distinct (map ob_id (run_outbox_ops qs t))"
proof (induction qs arbitrary: t)
  case (Cons q qs)
  have "r \<in> set (run_outbox_op q t)"
    by (rule leased_row_untouched [OF run_outbox_change Cons.prems(1-3)]) (use Cons.prems(4) in auto)
  moreover have "distinct (map ob_id (run_outbox_op q t))"
    using outbox_change_ids [OF run_outbox_change, of q t] Cons.prems(1) by simp
  ultimately show ?case using Cons by simp
qed simp

lemma claim_outbox_item:
  assumes "claim_outbox w d now k t = (Inr (Some item), t')" and "distinct (map ob_id t)"
  obtains r where "r \<in> set t" "outbox_ready now t r" "item = outbox_grant (w, k) (now + seconds d) r"
    "item \<in> set t'" "distinct (map ob_id t')" "0 < d"
    "t' = update_where (\<lambda>x. ob_id x = ob_id r) (outbox_grant (w, k) (now + seconds d)) t"
proof -
  have d: "0 < d" and c: "claim_row ob_id outbox_order (outbox_ready now t)
      (outbox_grant (w, k) (now + seconds d)) t = (Some item, t')"
    using assms(1) by (auto simp: claim_outbox_def split: if_splits prod.splits)
  then show ?thesis
  proof (elim claim_row_Some [OF _ assms(2)])
    fix r assume r: "r \<in> set t" "outbox_ready now t r" "item = outbox_grant (w, k) (now + seconds d) r"
      "t' = update_where (\<lambda>x. ob_id x = ob_id r) (outbox_grant (w, k) (now + seconds d)) t"
    have "item \<in> set t'" using r by (auto simp: table_simps)
    moreover have "map ob_id t' = map ob_id t" using r(4) by (simp add: map_update_where)
    ultimately show ?thesis using that r d assms(2) by simp
  qed simp
qed

lemma ack_held:
  assumes "distinct (map ob_id t)" and "item \<in> set t" and "outbox_lease item = Some ((w, k), e)" and "now < e"
  shows "acknowledge_outbox item (ob_id item) now t =
    (Inr True, update_where (\<lambda>x. ob_id x = ob_id item \<and> outbox_held (Some w) (Some k) now x)
       (outbox_deliver (ob_id item) now) t)"
proof -
  have cols: "ob_delivered item = None" "ob_worker item = Some w" "ob_token item = Some k"
    using assms(3) by (simp_all add: outbox_lease_iff)
  have "outbox_held (Some w) (Some k) now item" using assms(3,4) by (simp add: outbox_held_iff)
  then have "rowcount (\<lambda>x. ob_id x = ob_id item \<and> outbox_held (Some w) (Some k) now x) t = 1"
    using assms(2) by (subst rowcount_key [OF assms(1)]) blast
  then show ?thesis
    using find_key [OF assms(1,2)] cols by (simp add: acknowledge_outbox_def update_row_def)
qed

section \<open>Order of delivery\<close>

definition in_order :: "outbox_row list \<Rightarrow> bool" where
  "in_order t = rows_in_order (\<lambda>r. ob_delivered r \<noteq> None \<or> outbox_lease r \<noteq> None)
     (\<lambda>r. ob_delivered r \<noteq> None) ob_finding ob_seq t"

lemma not_undelivered_before:
  "\<not> undelivered_before t r \<longleftrightarrow>
     (\<forall>r' \<in> set t. ob_finding r' = ob_finding r \<and> ob_seq r' < ob_seq r \<longrightarrow> ob_delivered r' \<noteq> None)"
  by (auto simp: undelivered_before_def list_ex_iff)

lemma outbox_columns [simp]:
  "ob_finding (outbox_grant h e r) = ob_finding r" "ob_seq (outbox_grant h e r) = ob_seq r"
  "ob_delivered (outbox_grant h e r) = ob_delivered r"
  "ob_finding (outbox_deliver receipt now r) = ob_finding r" "ob_seq (outbox_deliver receipt now r) = ob_seq r"
  "ob_finding (outbox_retry dead delay err now r) = ob_finding r"
  "ob_seq (outbox_retry dead delay err now r) = ob_seq r"
  "ob_delivered (outbox_retry dead delay err now r) = ob_delivered r"
  by (simp_all add: outbox_grant_def outbox_deliver_def outbox_retry_def)

lemma in_order_requeue: "in_order t \<Longrightarrow> in_order (snd (requeue_outbox oid c now t))"
proof -
  assume ok: "in_order t"
  have "in_order (update_where (\<lambda>x. ob_id x = oid \<and> ob_delivered x = None \<and> ob_dead x \<noteq> None) (outbox_reset now) t)"
    unfolding in_order_def update_where_def
    by (rule rows_in_order_map [OF ok [unfolded in_order_def]])
      (auto simp: outbox_lease_def outbox_reset_def split: if_splits)
  then show ?thesis using requeue_outbox_run [of oid c now t] ok by (auto simp: update_row_def)
qed

interpretation oo: ordered_table ob_id outbox_order outbox_ready outbox_grant outbox_lease
  "\<lambda>r. ob_delivered r \<noteq> None" "\<lambda>h. outbox_held (Some (fst h)) (Some (snd h))" outbox_deliver
  "\<lambda>h. outbox_held (Some (fst h)) (Some (snd h))" "\<lambda>(dead, delay, err). outbox_retry dead delay err"
  "\<lambda>(oid, c, now) t. snd (requeue_outbox oid c now t)" ob_finding ob_seq
proof
  fix now t r r'
  assume "outbox_ready now t r" "r' \<in> set t" "ob_finding r' = ob_finding r" "ob_seq r' < ob_seq r"
  then show "ob_delivered r' \<noteq> None" by (auto simp: outbox_ready_def not_undelivered_before)
next
  fix t and z :: "string \<times> string \<times> int"
  assume "rows_in_order (\<lambda>r. ob_delivered r \<noteq> None \<or> outbox_lease r \<noteq> None) (\<lambda>r. ob_delivered r \<noteq> None) ob_finding ob_seq t"
  then show "rows_in_order (\<lambda>r. ob_delivered r \<noteq> None \<or> outbox_lease r \<noteq> None) (\<lambda>r. ob_delivered r \<noteq> None) ob_finding ob_seq
      ((case z of (oid, c, now) \<Rightarrow> \<lambda>t. snd (requeue_outbox oid c now t)) t)"
    by (cases z) (simp only: prod.case in_order_requeue [unfolded in_order_def])
qed (auto split: prod.splits)

lemma in_order_ordered: "in_order t = oo.ordered t"
  by (simp only: in_order_def oo.ordered_def)

text \<open>Every operation of the queue keeps the order.\<close>

lemma in_order_claim: "in_order t \<Longrightarrow> distinct (map ob_id t) \<Longrightarrow> in_order (snd (claim_outbox w d now k t))"
  using claim_outbox_run [of w d now k t] oo.ordered_claim [of t "(w, k)" "seconds d" now]
  unfolding in_order_ordered ob.table_claim_def by (auto simp only: split_beta snd_conv)

lemma held_holder: "outbox_held w k now r \<Longrightarrow> \<exists>w' k'. w = Some w' \<and> k = Some k'"
  by (auto simp: outbox_held_def table_simps)

lemma unheld_update: "w = None \<or> k = None \<Longrightarrow> update_where (\<lambda>x. ob_id x = i \<and> outbox_held w k now x) f t = t"
  by (rule update_where_none) (auto dest: held_holder)

lemma in_order_held:
  assumes "in_order t"
  shows "in_order (update_where (\<lambda>x. ob_id x = i \<and> outbox_held w k now x) (outbox_deliver receipt now) t)"
    and "in_order (update_where (\<lambda>x. ob_id x = i \<and> outbox_held w k now x) (outbox_retry dead d err now) t)"
proof -
  have ord: "oo.ordered t" using assms by (simp only: in_order_ordered)
  show "in_order (update_where (\<lambda>x. ob_id x = i \<and> outbox_held w k now x) (outbox_deliver receipt now) t)"
    using oo.ordered_finish [OF ord, of i "(the w, the k)" now receipt] assms unheld_update [of w k]
    unfolding in_order_ordered by (cases w; cases k) (simp_all add: ob.table_finish_def update_row_def)
  show "in_order (update_where (\<lambda>x. ob_id x = i \<and> outbox_held w k now x) (outbox_retry dead d err now) t)"
    using oo.ordered_release [OF ord, of i "(the w, the k)" now "(dead, d, err)"] assms unheld_update [of w k]
    unfolding in_order_ordered by (cases w; cases k) (simp_all add: ob.table_release_def update_row_def)
qed

lemma in_order_op: "in_order t \<Longrightarrow> distinct (map ob_id t) \<Longrightarrow> in_order (run_outbox_op q t)"
proof (cases q)
  case (OAck item receipt now)
  then show "in_order t \<Longrightarrow> ?thesis" using ack_outbox_run [of item receipt now t] by (auto simp: update_row_def in_order_held)
next
  case (OFail item e p m d now)
  then show "in_order t \<Longrightarrow> ?thesis" using fail_outbox_run [of item e p m d now t] by (auto simp: update_row_def in_order_held)
qed (simp_all add: in_order_claim in_order_requeue)

section \<open>Properties\<close>

text \<open>
  Exclusive delivery: after a worker claims a row, and whatever claims, acknowledgements,
  failures and requeues other claims perform before the lease ends, the row is as the worker
  claimed it, nobody else can claim it, and the worker's acknowledgement is accepted.
\<close>

theorem outbox_claim_is_exclusive:
  assumes "distinct (map ob_id t)" and "claim_outbox w d now k t = (Inr (Some item), t')"
    and "\<forall>q \<in> set qs. \<not> presents q w k \<and> outbox_op_time q < now + seconds d"
    and "now' < now + seconds d"
  shows "fst (acknowledge_outbox item (ob_id item) now' (run_outbox_ops qs t')) = Inr True
    \<and> \<not> (\<exists>w2 d2 k2 item2. fst (claim_outbox w2 d2 now' k2 (run_outbox_ops qs t')) = Inr (Some item2)
           \<and> ob_id item2 = ob_id item)"
proof -
  obtain r where r: "outbox_ready now t r" "item = outbox_grant (w, k) (now + seconds d) r"
    "item \<in> set t'" "distinct (map ob_id t')"
    using claim_outbox_item [OF assms(2,1)] by metis
  have lease: "outbox_lease item = Some ((w, k), now + seconds d)"
    unfolding r(2) by (rule ob.grant_lease(1) [OF r(1)])
  let ?u = "run_outbox_ops qs t'"
  have u: "item \<in> set ?u" "distinct (map ob_id ?u)"
    using leased_row_untouched_run [OF r(4,3) lease assms(3)] by blast+
  have "ob_id item2 \<noteq> ob_id item" if c: "fst (claim_outbox w2 d2 now' k2 ?u) = Inr (Some item2)" for w2 d2 k2 item2
  proof
    assume same: "ob_id item2 = ob_id item"
    obtain r2 where r2: "r2 \<in> set ?u" "outbox_ready now' ?u r2" "ob_id item2 = ob_id r2"
      using claim_outbox_item [of w2 d2 now' k2 ?u item2 "snd (claim_outbox w2 d2 now' k2 ?u)"] c u(2)
      by (metis outbox_row_keys(1) prod.collapse)
    then have "r2 = item" using key_unique [OF u(2) _ u(1)] same by simp
    then show False using r2(2) lease assms(4) by (auto simp: outbox_ready_def outbox_lease_iff table_simps)
  qed
  then show ?thesis using ack_held [OF u(2,1) lease assms(4)] by auto
qed

text \<open>
  A late worker is fenced off: when a row has been claimed again, an acknowledgement or
  failure that presents the earlier claim changes nothing, and the acknowledgement is not
  accepted.
\<close>

theorem stale_outbox_claims_are_refused:
  assumes "distinct (map ob_id t)" and "claim_outbox w d now k t = (Inr (Some item), t')"
    and "ob_id old = ob_id item" and "(ob_worker old, ob_token old) \<noteq> (Some w, Some k)"
  shows "fst (acknowledge_outbox old receipt now' t') \<noteq> Inr True
    \<and> snd (acknowledge_outbox old receipt now' t') = t'
    \<and> snd (fail_outbox old err permanent attempts delay now' t') = t'"
proof -
  obtain r where r: "outbox_ready now t r" "item = outbox_grant (w, k) (now + seconds d) r"
    "item \<in> set t'" "distinct (map ob_id t')"
    using claim_outbox_item [OF assms(2,1)] by metis
  have lease: "outbox_lease item = Some ((w, k), now + seconds d)"
    unfolding r(2) by (rule ob.grant_lease(1) [OF r(1)])
  let ?P = "\<lambda>x. ob_id x = ob_id old \<and> outbox_held (ob_worker old) (ob_token old) now' x"
  have none: "\<not> ?P x" if "x \<in> set t'" for x
    using key_unique [OF r(4) that r(3)] lease assms(3,4)
    by (auto simp: outbox_held_def outbox_lease_iff table_simps)
  then have count: "rowcount ?P t' = 0" and same: "update_where ?P f t' = t'" for f
    by (auto simp: rowcount_zero intro: update_where_none)
  have "List.find (\<lambda>x. ob_id x = ob_id old) t' = Some item" "ob_delivered item = None"
    using find_key [OF r(4,3)] assms(3) lease by (simp_all add: outbox_lease_iff)
  then show ?thesis
    using count same by (auto simp: acknowledge_outbox_def fail_outbox_def update_row_def Let_def)
qed

text \<open>
  A row that is not delivered, in particular a dead one, holds back its finding: no claim
  returns a later row of the same finding before it is delivered.
\<close>

theorem undelivered_rows_hold_back_their_finding:
  assumes "distinct (map ob_id t)" and "r \<in> set t" and "ob_delivered r = None"
    and "claim_outbox w d now k t = (Inr (Some item), t')"
  shows "\<not> (ob_finding item = ob_finding r \<and> ob_seq r < ob_seq item)"
proof -
  obtain x where x: "outbox_ready now t x" "item = outbox_grant (w, k) (now + seconds d) x"
    using claim_outbox_item [OF assms(4,1)] by metis
  then show ?thesis
    using assms(2,3) by (auto simp: outbox_ready_def undelivered_before_def list_ex_iff)
qed

lemma grant_columns:
  "ob_id (outbox_grant h e r) = ob_id r" "ob_event (outbox_grant h e r) = ob_event r"
  "ob_finding (outbox_grant h e r) = ob_finding r" "ob_seq (outbox_grant h e r) = ob_seq r"
  "ob_topic (outbox_grant h e r) = ob_topic r" "ob_payload (outbox_grant h e r) = ob_payload r"
  by (simp_all add: outbox_grant_def)

lemma payload_grant: "message_of_payload (outbox_grant h e r) = message_of_payload r"
  by (rule ext) (simp only: message_of_payload_def payload_matches_def grant_columns)

lemma from_item_grant: "from_item (outbox_grant h e r) = from_item r"
  by (simp only: from_item_def blank_column_def required_columns_def payload_grant grant_columns)

lemma from_item_message: "from_item r = Inr m \<Longrightarrow> message_id m = ob_id r"
  by (auto simp: from_item_def message_of_payload_def Let_def split: option.splits if_splits json.splits)

text \<open>
  C16. Progress: when a row is the first ready one, passes the message check, the publisher
  accepts it and the acknowledgement comes before the lease ends, one pass of the worker answers delivered, leaves
  the publisher as the publication left it, and the row is marked delivered with its receipt.
\<close>

theorem worker_delivers_ready_row:
  assumes "distinct (map ob_id (dd_outbox db))" and "py_strip worker \<noteq> []" and "0 < lease_seconds"
    and "select_first outbox_order (outbox_ready (clk 1) (dd_outbox db)) (dd_outbox db) = Some r"
    and "from_item r = Inr m" and "publish m p = (Inr (message_id m), p')"
    and "clk 2 < clk 1 + seconds lease_seconds"
  shows "\<exists>db'. outbox_run_once publish worker lease_seconds max_attempts retry_delay clk token db p =
      (Inr ''delivered'', db', p')
    \<and> (\<exists>r' \<in> set (dd_outbox db'). ob_id r' = ob_id r \<and> ob_delivered r' = Some (clk 2) \<and> ob_message_id r' = Some (ob_id r))"
proof -
  let ?t = "dd_outbox db"
  let ?g = "outbox_grant (worker, token) (clk 1 + seconds lease_seconds)"
  let ?t1 = "update_where (\<lambda>x. ob_id x = ob_id r) ?g ?t"
  obtain bs where beat: "beat worker ''running'' (clk 0) db = (Inr (), db\<lparr>dd_beats := bs\<rparr>)"
    using assms(2)
    by (cases "list_ex (\<lambda>b. hb_worker b = worker) (dd_beats db)") (auto simp: beat_def heartbeat_def)
  have claim: "claim_outbox worker lease_seconds (clk 1) token ?t = (Inr (Some (?g r)), ?t1)"
    using assms(2-4) by (simp add: claim_outbox_def claim_row_def)
  obtain x where x: "?g r \<in> set ?t1" "distinct (map ob_id ?t1)"
    using claim_outbox_item [OF claim assms(1)] by metis
  have "outbox_ready (clk 1) ?t r" using select_first_Some(2) [OF assms(4)] .
  then have lease: "outbox_lease (?g r) = Some ((worker, token), clk 1 + seconds lease_seconds)"
    by (rule ob.grant_lease(1))
  let ?t2 = "snd (acknowledge_outbox (?g r) (ob_id (?g r)) (clk 2) ?t1)"
  note ack = ack_held [OF x(2,1) lease assms(7)]
  have held: "outbox_held (Some worker) (Some token) (clk 2) (?g r)"
    using lease assms(7) by (simp add: outbox_held_iff)
  have "outbox_deliver (ob_id r) (clk 2) (?g r) \<in> set ?t2"
    unfolding ack using x(1) held by (force simp: table_simps)
  moreover have "deliver_item publish (?g r) (clk 2) ?t1 p = (Inr ''delivered'', ?t2, p')"
    using ack assms(5,6) from_item_message [OF assms(5)] by (simp add: deliver_item_def from_item_grant)
  ultimately show ?thesis
    using beat claim
    by (auto simp: outbox_run_once_def settle_item_def beat_def split: prod.splits
        intro!: bexI [of _ "outbox_deliver (ob_id r) (clk 2) (?g r)"])
      (simp_all add: outbox_deliver_def outbox_grant_def)
qed

end
