(* ===== verification/Queue_Examples.thy ===== *)
theory Queue_Examples
  imports Job_Properties Outbox_Properties
begin

text \<open>
  Concrete runs of the job queues and of the outbox, as witnesses of their properties.
\<close>

section \<open>Job queues\<close>

definition demo_jobs :: "job list" where
  "demo_jobs = [new_job 1 ''a.json'' 0, new_job 2 ''b.json'' 0]"

definition demo_item :: job where
  "demo_item = (new_job 1 ''a.json'' 0)\<lparr>jb_attempts := 1\<rparr>"

definition demo_claimed :: "job list" where
  "demo_claimed = [job_grant ''w1'' 60000000 (new_job 1 ''a.json'' 0), new_job 2 ''b.json'' 0]"

lemma demo_job_claim: "claim_job ''w1'' 60 0 demo_jobs = (Inr (Some demo_item), demo_claimed)"
  by code_simp

lemma demo_job_ids: "distinct (map jb_id demo_jobs)" "distinct (map jb_id demo_claimed)"
  by code_simp+

theorem job_claim_is_exclusive_witness:
  "fst (complete_job 1 ''w1'' 30000000 (run_job_ops [JClaim ''w2'' 60 10000000, JEnqueue 3 ''c.json'' 5] demo_claimed)) = Inr True
   \<and> \<not> (\<exists>w2 d2 item2. fst (claim_job w2 d2 30000000
        (run_job_ops [JClaim ''w2'' 60 10000000, JEnqueue 3 ''c.json'' 5] demo_claimed)) = Inr (Some item2) \<and> jb_id item2 = 1)"
proof -
  have "\<forall>q \<in> set [JClaim ''w2'' 60 10000000, JEnqueue 3 ''c.json'' 5]. \<not> op_by ''w1'' q \<and> op_until (0 + seconds 60) q"
    by (simp add: seconds_def)
  from job_claim_is_exclusive [OF demo_job_ids(1) demo_job_claim this, of 30000000 "''w1''"]
  show ?thesis by (simp add: seconds_def demo_item_def new_job_def py_strip_def py_lstrip_def py_rstrip_def py_isspace_def)
qed

definition demo_completed :: "job list" where
  "demo_completed = [job_complete (job_grant ''w1'' 60000000 (new_job 1 ''a.json'' 0)), new_job 2 ''b.json'' 0]"

theorem completed_jobs_stay_completed_witness:
  "fst (complete_job 1 ''w1'' 40000000 (run_job_ops [JClaim ''w2'' 60 90000000] demo_completed)) \<noteq> Inr True
   \<and> \<not> (\<exists>d item. fst (claim_job ''w1'' d 40000000 (run_job_ops [JClaim ''w2'' 60 90000000] demo_completed)) = Inr (Some item)
          \<and> jb_id item = 1)"
proof -
  have "complete_job 1 ''w1'' 30000000 demo_claimed = (Inr True, demo_completed)" by code_simp
  from completed_jobs_stay_completed [OF demo_job_ids(2) this] show ?thesis by blast
qed

definition demo_pg_jobs :: "pg_job list" where
  "demo_pg_jobs = [new_pg_job 1 ''a.json'' 0]"

definition demo_pg_item :: pg_job where
  "demo_pg_item = pg_grant (''w1'', ''k1'') 60000000 (new_pg_job 1 ''a.json'' 0)"

theorem pg_claim_is_fenced_witness:
  "fst (pg_complete 1 ''w1'' ''k0'' 30000000 (run_pg_ops [PFail 1 ''w1'' ''k0'' ''late'' 3 60 10] [demo_pg_item])) = Inr False
   \<and> fst (pg_complete 1 ''w1'' ''k1'' 30000000 (run_pg_ops [PFail 1 ''w1'' ''k0'' ''late'' 3 60 10] [demo_pg_item])) = Inr True"
proof -
  have claim: "pg_claim ''w1'' 60 0 ''k1'' demo_pg_jobs = (Inr (Some demo_pg_item), [demo_pg_item])" by code_simp
  have ids: "distinct (map jb_id demo_pg_jobs)" by code_simp
  have others: "\<forall>q \<in> set [PFail 1 ''w1'' ''k0'' ''late'' 3 60 10]. pg_op_token q \<noteq> Some ''k1'' \<and> pg_op_until (0 + seconds 60) q"
    by (simp add: seconds_def)
  have now: "30000000 < 0 + seconds 60" by (simp add: seconds_def)
  have jid: "jb_id demo_pg_item = 1" by code_simp
  from pg_claim_is_fenced [OF ids claim others now, of "''w1''" "''k0''"] pg_claim_is_fenced [OF ids claim others now, of "''w1''" "''k1''"]
  show ?thesis by (simp add: jid)
qed

theorem failed_jobs_retry_or_die_witness:
  "fst (fail_job 1 ''w1'' ''boom'' 3 60 30000000 demo_claimed) = Inr ''pending''
   \<and> fst (fail_job 1 ''w1'' ''boom'' 1 60 30000000 demo_claimed) = Inr ''dead''"
proof -
  let ?r = "job_grant ''w1'' 60000000 (new_job 1 ''a.json'' 0)"
  have mem: "?r \<in> set demo_claimed" by (simp add: demo_claimed_def)
  have held: "job_held ''w1'' 30000000 ?r" by code_simp
  have name: "py_strip ''w1'' \<noteq> []" by code_simp
  show ?thesis
    using failed_jobs_retry_or_die [OF demo_job_ids(2) mem held name, of 3 60 "''boom''"]
      failed_jobs_retry_or_die [OF demo_job_ids(2) mem held name, of 1 60 "''boom''"]
    by (simp add: job_grant_def new_job_def)
qed

section \<open>Outbox\<close>

definition demo_row :: "nat \<Rightarrow> outbox_row" where
  "demo_row n = \<lparr>ob_id = (if n = 1 then replicate 32 (CHR ''a'') else replicate 32 (CHR ''b'')),
     ob_event = (if n = 1 then ''e1'' else ''e2''), ob_finding = ''F-1'', ob_seq = n, ob_topic = ''governance.event.v1'',
     ob_payload = json_dumps compact_ascii (JObj [(''event_id'', JStr (if n = 1 then ''e1'' else ''e2'')),
       (''finding_id'', JStr ''F-1''), (''event_sequence'', JInt (int n))]),
     ob_created = 0, ob_available = 0, ob_attempts = 0, ob_locked_until = None, ob_worker = None, ob_token = None,
     ob_delivered = None, ob_dead = None, ob_message_id = None, ob_accepted = None, ob_error = None\<rparr>"

definition demo_outbox :: "outbox_row list" where
  "demo_outbox = [demo_row 1, demo_row 2]"

definition demo_granted :: outbox_row where
  "demo_granted = outbox_grant (''w1'', ''k1'') 60000000 (demo_row 1)"

lemma demo_outbox_claim:
  "claim_outbox ''w1'' 60 0 ''k1'' demo_outbox = (Inr (Some demo_granted), [demo_granted, demo_row 2])"
  by code_simp

lemma demo_outbox_ids: "distinct (map ob_id demo_outbox)"
  by code_simp

theorem outbox_claim_is_exclusive_witness:
  "fst (acknowledge_outbox demo_granted (ob_id demo_granted) 30000000
     (run_outbox_ops [OClaim ''w2'' 60 10 ''k2''] [demo_granted, demo_row 2])) = Inr True"
proof -
  have "\<forall>q \<in> set [OClaim ''w2'' 60 10 ''k2'']. \<not> presents q ''w1'' ''k1'' \<and> outbox_op_time q < 0 + seconds 60"
    by (simp add: seconds_def)
  from outbox_claim_is_exclusive [OF demo_outbox_ids demo_outbox_claim this, of 30000000]
  show ?thesis by (simp add: seconds_def)
qed

theorem stale_outbox_claims_are_refused_witness:
  "snd (acknowledge_outbox (demo_granted\<lparr>ob_token := Some ''k0''\<rparr>) (ob_id demo_granted) 10 [demo_granted, demo_row 2])
     = [demo_granted, demo_row 2]"
  using stale_outbox_claims_are_refused [OF demo_outbox_ids demo_outbox_claim,
      of "demo_granted\<lparr>ob_token := Some ''k0''\<rparr>" "ob_id demo_granted" 10]
  by (simp add: demo_granted_def outbox_grant_def)

theorem undelivered_rows_hold_back_their_finding_witness:
  "\<not> (ob_finding demo_granted = ob_finding (demo_row 1) \<and> ob_seq (demo_row 1) < ob_seq demo_granted)"
  by (rule undelivered_rows_hold_back_their_finding [OF demo_outbox_ids _ _ demo_outbox_claim])
    (simp_all add: demo_outbox_def demo_row_def)

definition demo_payload :: json where
  "demo_payload = JObj [(''event_id'', JStr ''e1''), (''finding_id'', JStr ''F-1''), (''event_sequence'', JInt 1)]"

lemma demo_payload_row: "ob_payload (demo_row 1) = json_dumps compact_ascii demo_payload"
  by (simp add: demo_row_def demo_payload_def)

lemma demo_message: "\<exists>m. from_item (demo_row 1) = Inr m"
proof -
  have loads: "json_loads (ob_payload (demo_row 1)) = Some (json_canon demo_payload)"
    unfolding demo_payload_row by (rule json_roundtrip) (simp_all add: demo_payload_def)
  have canon: "json_canon demo_payload = JObj [(''event_id'', JStr ''e1''), (''event_sequence'', JInt 1), (''finding_id'', JStr ''F-1'')]"
    by code_simp
  have again: "json_dumps compact_ascii (json_canon demo_payload) = ob_payload (demo_row 1)"
    unfolding demo_payload_row json_dumps_def by simp
  have blank: "blank_column (demo_row 1) = None" and hex: "hex_id32 (ob_id (demo_row 1))"
    and len: "ob_payload (demo_row 1) \<noteq> [] \<and> length (ob_payload (demo_row 1)) \<le> 100"
    and ident: "payload_matches (demo_row 1) [(''event_id'', JStr ''e1''), (''event_sequence'', JInt 1), (''finding_id'', JStr ''F-1'')]"
    by code_simp+
  have size: "utf8_encode (ob_payload (demo_row 1)) \<noteq> [] \<and> length (utf8_encode (ob_payload (demo_row 1))) \<le> max_message_bytes"
    using len length_utf8_encode [of "ob_payload (demo_row 1)"]
    by (cases "ob_payload (demo_row 1)") (simp_all add: max_message_bytes_def)
  have topic: "ob_topic (demo_row 1) = ''governance.event.v1''" "ob_seq (demo_row 1) = 1" by (simp_all add: demo_row_def)
  have "\<exists>m. message_of_payload (demo_row 1) (json_canon demo_payload) = Inr m"
    using ident size topic(2) again unfolding message_of_payload_def canon
    by (simp add: Let_def not_less del: json_print.simps)
  then show ?thesis using blank hex topic(1) loads by (simp add: from_item_def)
qed

theorem worker_delivers_ready_row_witness:
  "\<exists>db' p'. outbox_run_once memory_publish ''w1'' 60 5 30 (\<lambda>n. int n) ''k1'' \<lparr>dd_outbox = demo_outbox, dd_beats = []\<rparr> Map.empty =
     (Inr ''delivered'', db', p')"
proof -
  obtain m where m: "from_item (demo_row 1) = Inr m" using demo_message by blast
  have name: "py_strip ''w1'' \<noteq> []" by code_simp
  have first: "select_first outbox_order (outbox_ready (int 1) demo_outbox) demo_outbox = Some (demo_row 1)" by code_simp
  have pub: "memory_publish m Map.empty = (Inr (message_id m), [message_id m \<mapsto> msg_body m])"
    by (simp add: memory_publish_def)
  from worker_delivers_ready_row [of "\<lparr>dd_outbox = demo_outbox, dd_beats = []\<rparr>" "''w1''" 60 "\<lambda>n. int n" "demo_row 1" m
      memory_publish Map.empty "[message_id m \<mapsto> msg_body m]" 5 30 "''k1''"] demo_outbox_ids name first m pub
  show ?thesis by (auto simp: seconds_def)
qed

end
