(* ===== verification/Audit_Log.thy ===== *)
theory Audit_Log
  imports Hash_Chain
begin

text \<open>
  The hash-chained audit log of \<open>audit_log.py\<close>: a text file with one canonical JSON record per
  line. The state is the text of the file, \<open>None\<close> when it does not exist; the file lock makes each
  operation one step. Reading splits lines as \<open>str.splitlines\<close> does, at eight
  separators below code point 256 and not at the line feed alone. The clock readings of an append are an argument.
\<close>

definition genesis_hash :: string where
  "genesis_hash = replicate 64 (CHR ''0'')"

section \<open>Actors\<close>

record auth_actor =
  aa_id :: string
  aa_type :: string
  aa_role :: "string option"
  aa_method :: string

definition authenticated_actor :: "string \<Rightarrow> string \<Rightarrow> string option \<Rightarrow> string \<Rightarrow> auth_actor outcome" where
  "authenticated_actor aid atype arole method =
     (if py_strip aid = [] \<or> atype \<notin> {''human'', ''agent'', ''system''}
      then Inl (ValueError ''actor_id and valid actor_type are required'')
      else if py_strip method = [] then Inl (ValueError ''auth_method is required'')
      else Inr \<lparr>aa_id = aid, aa_type = atype, aa_role = arole, aa_method = method\<rparr>)"

datatype audit_actor = ActorText string | Authenticated auth_actor

definition opt_text :: "string option \<Rightarrow> json" where
  "opt_text v = (case v of None \<Rightarrow> JNull | Some s \<Rightarrow> JStr s)"

definition actor_snapshot :: "auth_actor \<Rightarrow> json" where
  "actor_snapshot a = JObj [(''actor_id'', JStr (aa_id a)), (''actor_type'', JStr (aa_type a)),
     (''role'', opt_text (aa_role a)), (''auth_method'', JStr (aa_method a))]"

fun actor_json :: "audit_actor \<Rightarrow> json" where
  "actor_json (ActorText s) = JStr s"
| "actor_json (Authenticated a) = actor_snapshot a"

section \<open>Canonical records\<close>

fun float_finite :: "pyfloat \<Rightarrow> bool" where
  "float_finite (Fixed n) = True"
| "float_finite _ = False"

fun json_finite :: "json \<Rightarrow> bool" where
  "json_finite (JFloat f) = float_finite f"
| "json_finite (JList vs) = list_all json_finite vs"
| "json_finite (JObj kvs) = list_all (\<lambda>(k, v). json_finite v) kvs"
| "json_finite _ = True"

definition canonical_json :: "json \<Rightarrow> string outcome" where
  "canonical_json v =
     (if json_finite v then Inr (json_dumps compact_utf8 v)
      else Inl (ValueError ''non-finite numbers are not permitted in audit records''))"

text \<open>\<open>str.splitlines\<close>\<close>

definition is_linebreak :: "char \<Rightarrow> bool" where
  "is_linebreak c = (let n = ord_of c in (10 \<le> n \<and> n \<le> 13) \<or> (28 \<le> n \<and> n \<le> 30) \<or> n = 133)"

definition line_feed :: char where "line_feed = char_of (10 :: nat)"
definition carriage_return :: char where "carriage_return = char_of (13 :: nat)"
definition next_line :: char where "next_line = char_of (133 :: nat)"

fun split_from :: "string \<Rightarrow> string \<Rightarrow> string list" where
  "split_from acc [] = (if acc = [] then [] else [rev acc])"
| "split_from acc (c # s) =
     (if c = carriage_return \<and> s \<noteq> [] \<and> hd s = line_feed then rev acc # split_from [] (tl s)
      else if is_linebreak c then rev acc # split_from [] s
      else split_from (c # acc) s)"

definition py_splitlines :: "string \<Rightarrow> string list" where
  "py_splitlines s = split_from [] s"

definition dict_pop :: "string \<Rightarrow> (string \<times> json) list \<Rightarrow> (string \<times> json) list" where
  "dict_pop k kvs = filter (\<lambda>p. fst p \<noteq> k) kvs"

section \<open>Verification\<close>

fun verify_lines :: "nat \<Rightarrow> string \<Rightarrow> string list \<Rightarrow> (bool \<times> string) outcome" where
  "verify_lines n previous [] = Inr (True, ''Audit log integrity verified.'')"
| "verify_lines n previous (line # ls) =
     (case json_loads line of
        None \<Rightarrow> Inr (False, ''Audit log could not be parsed safely.'')
      | Some (JObj kvs) \<Rightarrow>
          (let r = dict_pop ''event_hash'' kvs in
           outcome_bind (canonical_json (JObj r)) (\<lambda>body.
             if obj_get ''previous_hash'' r \<noteq> Some (JStr previous)
                \<or> obj_get ''event_hash'' kvs \<noteq> Some (JStr (text_hash body))
             then Inr (False, ''Audit integrity failed at record '' @ show_nat n @ ''.'')
             else verify_lines (Suc n) (text_hash body) ls))
      | Some _ \<Rightarrow> Inr (False, ''Audit record '' @ show_nat n @ '' is not an object.''))"

definition verify_log :: "string option \<Rightarrow> (bool \<times> string) outcome" where
  "verify_log log =
     (case log of
        None \<Rightarrow> Inr (True, ''Audit log is empty.'')
      | Some s \<Rightarrow> verify_lines 1 genesis_hash (py_splitlines s))"

definition log_blank :: "string option \<Rightarrow> bool" where
  "log_blank log = (case log of None \<Rightarrow> True | Some s \<Rightarrow> py_strip s = [])"

definition require_valid :: "string \<Rightarrow> string option \<Rightarrow> unit outcome" where
  "require_valid verb log =
     outcome_bind (verify_log log) (\<lambda>(valid, message).
       ensure valid (ValueError (''Refusing to '' @ verb @ '' invalid audit log: '' @ message)))"

definition record_item :: "string \<Rightarrow> string \<Rightarrow> json outcome" where
  "record_item line k =
     (case json_loads line of
        None \<Rightarrow> Inl JSONDecodeError
      | Some (JObj kvs) \<Rightarrow> (case obj_get k kvs of Some v \<Rightarrow> Inr v | None \<Rightarrow> Inl (KeyError k))
      | Some _ \<Rightarrow> Inl (OtherError ''TypeError''))"

definition last_log_hash :: "string option \<Rightarrow> json outcome" where
  "last_log_hash log =
     (if log_blank log then Inr (JStr genesis_hash)
      else outcome_bind (require_valid ''append to'' log) (\<lambda>_.
        record_item (last (py_splitlines (the log))) ''event_hash''))"

fun find_record :: "string \<Rightarrow> string list \<Rightarrow> (string \<times> json) list option outcome" where
  "find_record eid [] = Inr None"
| "find_record eid (line # ls) =
     (case json_loads line of
        None \<Rightarrow> Inl JSONDecodeError
      | Some (JObj kvs) \<Rightarrow>
          if obj_get ''event_id'' kvs = Some (JStr eid) then Inr (Some kvs) else find_record eid ls
      | Some _ \<Rightarrow> Inl (OtherError ''AttributeError''))"

definition find_log_event :: "string \<Rightarrow> string option \<Rightarrow> (string \<times> json) list option outcome" where
  "find_log_event eid log =
     (if log_blank log then Inr None
      else outcome_bind (require_valid ''read'' log) (\<lambda>_. find_record eid (py_splitlines (the log))))"

section \<open>Appending\<close>

record audit_env =
  ae_recorded :: string
  ae_stamp :: string

definition record_fields ::
    "audit_env \<Rightarrow> string \<Rightarrow> string \<Rightarrow> audit_actor \<Rightarrow> string \<Rightarrow> (string \<times> json) list \<Rightarrow> json \<Rightarrow> (string \<times> json) list" where
  "record_fields env eid etype a target details prev =
     [(''schema_version'', JStr ''1.0''), (''event_id'', JStr eid), (''recorded_at'', JStr (ae_recorded env)),
      (''event_type'', JStr etype), (''actor'', actor_json a), (''target'', JStr target),
      (''details'', JObj details), (''previous_hash'', prev)]"

definition append_unlocked ::
    "audit_env \<Rightarrow> string \<Rightarrow> string \<Rightarrow> audit_actor \<Rightarrow> string \<Rightarrow> (string \<times> json) list option \<Rightarrow> string option
       \<Rightarrow> (string \<times> json) list outcome \<times> string option" where
  "append_unlocked env eid etype a target details log =
     transact log
       (outcome_bind (last_log_hash log) (\<lambda>prev.
        let r = record_fields env eid etype a target (case details of None \<Rightarrow> [] | Some d \<Rightarrow> d) prev in
        outcome_bind (canonical_json (JObj r)) (\<lambda>body.
        let r' = r @ [(''event_hash'', JStr (text_hash body))] in
        outcome_bind (canonical_json (JObj r')) (\<lambda>line.
          Inr (Some ((case log of None \<Rightarrow> [] | Some s \<Rightarrow> s) @ line @ [line_feed]), r')))))"

definition append_log ::
    "audit_env \<Rightarrow> string \<Rightarrow> audit_actor \<Rightarrow> string \<Rightarrow> (string \<times> json) list option \<Rightarrow> string option
       \<Rightarrow> (string \<times> json) list outcome \<times> string option" where
  "append_log env etype a target details log =
     append_unlocked env (take 24 (text_hash (ae_stamp env @ '':'' @ etype @ '':'' @ target)))
       etype a target details log"

text \<open>
  Python's \<open>==\<close> between values: numbers compare by value, booleans as 0 and 1, dictionaries
  without regard to order, and a NaN differs from everything.
\<close>

fun py_number :: "json \<Rightarrow> json" where
  "py_number (JBool b) = JInt (if b then 1 else 0)"
| "py_number (JFloat (Fixed m)) = (if m mod 1000000 = 0 then JInt (m div 1000000) else JFloat (Fixed m))"
| "py_number (JList vs) = JList (map py_number vs)"
| "py_number (JObj kvs) = JObj (map (\<lambda>(k, v). (k, py_number v)) kvs)"
| "py_number v = v"

fun nan_free :: "json \<Rightarrow> bool" where
  "nan_free (JFloat f) = (f \<noteq> NotANumber)"
| "nan_free (JList vs) = list_all nan_free vs"
| "nan_free (JObj kvs) = list_all (\<lambda>(k, v). nan_free v) kvs"
| "nan_free _ = True"

definition py_equal :: "json \<Rightarrow> json \<Rightarrow> bool" where
  "py_equal v w = (nan_free v \<and> json_canon (py_number v) = json_canon (py_number w))"

definition get_or_null :: "string \<Rightarrow> (string \<times> json) list \<Rightarrow> json" where
  "get_or_null k kvs = (case obj_get k kvs of None \<Rightarrow> JNull | Some v \<Rightarrow> v)"

definition same_content ::
    "(string \<times> json) list \<Rightarrow> string \<Rightarrow> audit_actor \<Rightarrow> string \<Rightarrow> (string \<times> json) list \<Rightarrow> bool" where
  "same_content r etype a target details =
     (py_equal (get_or_null ''event_type'' r) (JStr etype) \<and> py_equal (get_or_null ''actor'' r) (actor_json a)
      \<and> py_equal (get_or_null ''target'' r) (JStr target) \<and> py_equal (get_or_null ''details'' r) (JObj details))"

definition append_idempotent ::
    "audit_env \<Rightarrow> string \<Rightarrow> string \<Rightarrow> audit_actor \<Rightarrow> string \<Rightarrow> (string \<times> json) list option \<Rightarrow> string option
       \<Rightarrow> ((string \<times> json) list \<times> bool) outcome \<times> string option" where
  "append_idempotent env eid etype a target details log =
     (if py_strip eid = [] then (Inl (ValueError ''event_id is required for idempotent audit append''), log)
      else (let d = (case details of None \<Rightarrow> [] | Some d \<Rightarrow> d) in
        case find_log_event eid log of
          Inl e \<Rightarrow> (Inl e, log)
        | Inr (Some r) \<Rightarrow>
            if same_content r etype a target d then (Inr (r, False), log)
            else (Inl (ValueError ''audit event_id is already bound to different content''), log)
        | Inr None \<Rightarrow>
            (case append_unlocked env eid etype a target (Some d) log of
               (Inl e, log') \<Rightarrow> (Inl e, log')
             | (Inr r, log') \<Rightarrow> (Inr (r, True), log'))))"

definition append_human_event ::
    "audit_env \<Rightarrow> string \<Rightarrow> auth_actor \<Rightarrow> string \<Rightarrow> (string \<times> json) list option \<Rightarrow> string option
       \<Rightarrow> (string \<times> json) list outcome \<times> string option" where
  "append_human_event env etype a target details log =
     (if aa_type a \<noteq> ''human'' \<or> aa_role a = None \<or> aa_role a = Some []
      then (Inl (ValueError ''human audit events require a role''), log)
      else append_log env etype (Authenticated a) target details log)"

definition append_typed_event ::
    "string \<Rightarrow> string \<Rightarrow> audit_env \<Rightarrow> string \<Rightarrow> auth_actor \<Rightarrow> string \<Rightarrow> (string \<times> json) list option \<Rightarrow> string option
       \<Rightarrow> (string \<times> json) list outcome \<times> string option" where
  "append_typed_event kind message env etype a target details log =
     (if aa_type a \<noteq> kind then (Inl (ValueError message), log)
      else append_log env etype (Authenticated a) target details log)"

definition append_agent_event ::
    "audit_env \<Rightarrow> string \<Rightarrow> auth_actor \<Rightarrow> string \<Rightarrow> (string \<times> json) list option \<Rightarrow> string option
       \<Rightarrow> (string \<times> json) list outcome \<times> string option" where
  "append_agent_event = append_typed_event ''agent'' ''agent audit events require an agent actor''"

definition append_system_event ::
    "audit_env \<Rightarrow> string \<Rightarrow> auth_actor \<Rightarrow> string \<Rightarrow> (string \<times> json) list option \<Rightarrow> string option
       \<Rightarrow> (string \<times> json) list outcome \<times> string option" where
  "append_system_event = append_typed_event ''system'' ''system audit events require a system actor''"

section \<open>The chain\<close>

fun object_fields :: "json \<Rightarrow> (string \<times> json) list" where
  "object_fields (JObj kvs) = kvs"
| "object_fields _ = []"

definition linked_text :: "json_style \<Rightarrow> string \<Rightarrow> json \<Rightarrow> string" where
  "linked_text st p b = json_dumps st (JObj ((''previous_hash'', JStr p) # object_fields b))"

definition unlinked_object :: "json \<Rightarrow> bool" where
  "unlinked_object b = (canonical_object b \<and> ''previous_hash'' \<notin> fst ` set (object_fields b))"

lemma linked_text_inject:
  assumes "style_ok st" "unlinked_object b" "unlinked_object c" "linked_text st p b = linked_text st q c"
  shows "p = q \<and> b = c"
proof -
  obtain kvs lvs where objs: "b = JObj kvs" "c = JObj lvs"
    using assms(2,3) by (auto simp: unlinked_object_def canonical_object_def split: json.splits)
  let ?x = "(''previous_hash'', JStr p) # kvs" and ?y = "(''previous_hash'', JStr q) # lvs"
  have ok: "json_wf (JObj kvs)" "json_wf (JObj lvs)" "json_canon (JObj kvs) = JObj kvs" "json_canon (JObj lvs) = JObj lvs"
    "''previous_hash'' \<notin> fst ` set kvs" "''previous_hash'' \<notin> fst ` set lvs"
    using assms(2,3) by (auto simp: unlinked_object_def canonical_object_def objs simp del: json_canon.simps json_wf.simps)
  then have wf: "json_wf (JObj ?x)" "json_wf (JObj ?y)" by auto
  have eq: "json_canon (JObj ?x) = json_canon (JObj ?y)"
    using assms(4) json_dumps_inject [OF assms(1) wf] by (simp only: linked_text_def objs object_fields.simps)
  have "p = q"
    using json_canon_get [OF eq, of "''previous_hash''"] wf by (simp add: obj_get_def)
  moreover have "kvs = lvs"
  proof -
    have self: "sort_key fst (map canon_pair l) = l" if "json_canon (JObj l) = JObj l" for l
      using that by (simp only: json_canon_obj json.inject)
    have "filter (\<lambda>x. fst x \<noteq> ''previous_hash'') (sort_key fst (map canon_pair ((''previous_hash'', JStr r) # l))) = l"
      if "json_canon (JObj l) = JObj l" "''previous_hash'' \<notin> fst ` set l" for r l
    proof -
      have "filter (\<lambda>x. fst x \<noteq> ''previous_hash'') (map canon_pair l) = map canon_pair l"
        using that(2) by (force simp: canon_pair_def filter_id_conv)
      then have "filter (\<lambda>x. fst x \<noteq> ''previous_hash'') (map canon_pair ((''previous_hash'', JStr r) # l)) =
          map canon_pair l" by (simp add: canon_pair_def)
      then show ?thesis using self [OF that(1)] by (simp only: filter_sort)
    qed
    note cut = this
    have "sort_key fst (map canon_pair ?x) = sort_key fst (map canon_pair ?y)"
      using eq by (simp only: json_canon_obj json.inject)
    then show ?thesis using cut [OF ok(3,5), of p] cut [OF ok(4,6), of q] by (simp only:)
  qed
  ultimately show ?thesis by (simp add: objs)
qed

end
