(* ===== verification/Line_Chain.thy ===== *)
theory Line_Chain
  imports Audit_Log
begin

text \<open>
  Files of hash-chained JSON records, one per line, as the audit log and the evidence ledger keep them: each record names the
  hash of the record before it and carries, under a key of its own, the hash of the canonical text of its other fields. The
  locale has the style of the canonical text and that key; its lemmas are shared by both logs.
\<close>

definition line_fields :: "string \<Rightarrow> (string \<times> json) list" where
  "line_fields l = (case json_loads l of Some v \<Rightarrow> object_fields v | None \<Rightarrow> [])"

definition text_field :: "string \<Rightarrow> (string \<times> json) list \<Rightarrow> string" where
  "text_field k kvs = (case obj_get k kvs of Some (JStr s) \<Rightarrow> s | _ \<Rightarrow> [])"

definition chain_end :: "string \<Rightarrow> string \<Rightarrow> string list \<Rightarrow> string" where
  "chain_end key p ls = (if ls = [] then p else text_field key (line_fields (last ls)))"

fun chained :: "json_style \<Rightarrow> string \<Rightarrow> string \<Rightarrow> string list \<Rightarrow> bool" where
  "chained st key p [] = True"
| "chained st key p (l # ls) =
     (case json_loads l of
        Some (JObj kvs) \<Rightarrow>
          (let h = text_hash (json_dumps st (JObj (dict_pop key kvs))) in
           obj_get ''previous_hash'' (dict_pop key kvs) = Some (JStr p) \<and> obj_get key kvs = Some (JStr h) \<and> chained st key h ls)
      | _ \<Rightarrow> False)"

definition line_entry :: "string \<Rightarrow> string \<Rightarrow> json entry" where
  "line_entry key l = (let r = dict_pop key (line_fields l) in
     (text_field ''previous_hash'' r, json_canon (JObj (dict_pop ''previous_hash'' r)), text_field key (line_fields l)))"

definition hashed_text :: "json_style \<Rightarrow> string \<Rightarrow> string \<Rightarrow> string" where
  "hashed_text st key l = json_dumps st (JObj (dict_pop key (line_fields l)))"

definition record_of_line :: "string \<Rightarrow> json" where
  "record_of_line l = json_canon (JObj (line_fields l))"

section \<open>Fields of canonical objects\<close>

lemma mset_dict_pop:
  "distinct (map fst kvs) \<Longrightarrow> obj_get k kvs = Some v \<Longrightarrow> mset kvs = add_mset (k, v) (mset (dict_pop k kvs))"
proof (induction kvs)
  case (Cons p kvs)
  show ?case
  proof (cases "fst p = k")
    case True
    then have "dict_pop k kvs = kvs" using Cons.prems(1) by (auto simp: dict_pop_def filter_id_conv image_iff)
    then show ?thesis using True Cons.prems by (cases p) (auto simp: dict_pop_def obj_get_def)
  next
    case False
    then have "mset kvs = add_mset (k, v) (mset (dict_pop k kvs))"
      using Cons by (cases p) (auto simp: obj_get_def split: if_splits)
    then show ?thesis using False by (simp add: dict_pop_def)
  qed
qed (simp add: obj_get_def)

lemma canon_split:
  assumes "distinct (map fst r)" and "obj_get k r = Some v"
  shows "json_canon (JObj r) = json_canon (JObj ((k, v) # object_fields (json_canon (JObj (dict_pop k r)))))"
proof (rule json_canon_fields)
  have idem: "map canon_pair (map canon_pair xs) = map canon_pair xs" for xs by (simp add: canon_pair_def)
  have "mset (map canon_pair (sort_key fst (map canon_pair (dict_pop k r)))) = mset (map canon_pair (dict_pop k r))"
    using idem [of "dict_pop k r"] by (metis mset_map mset_sort)
  then show "mset (map canon_pair r) =
      mset (map canon_pair ((k, v) # object_fields (json_canon (JObj (dict_pop k r)))))"
    using mset_dict_pop [OF assms] by (simp only: json_canon_obj object_fields.simps mset_map list.map mset.simps image_mset_add_mset)
  show "distinct (map fst r)" by (rule assms(1))
qed

lemma record_text_linked:
  assumes "distinct (map fst r)" and "obj_get ''previous_hash'' r = Some (JStr p)"
  shows "json_dumps st (JObj r) = linked_text st p (json_canon (JObj (dict_pop ''previous_hash'' r)))"
  using canon_split [OF assms] by (simp add: linked_text_def json_dumps_def del: json_canon.simps)

lemma dict_pop_wf: "json_wf (JObj kvs) \<Longrightarrow> json_wf (JObj (dict_pop k kvs))"
  by (auto simp: dict_pop_def list_all_iff distinct_map_filter)

lemma unlinked_pop:
  assumes "json_wf (JObj r)"
  shows "unlinked_object (json_canon (JObj (dict_pop ''previous_hash'' r)))"
proof -
  have "''previous_hash'' \<notin> fst ` set (sort_key fst (map canon_pair (dict_pop ''previous_hash'' r)))"
    by (auto simp: dict_pop_def canon_pair_def)
  then show ?thesis
    using canonical_object_canon [OF dict_pop_wf [OF assms]]
    by (simp only: unlinked_object_def json_canon_obj object_fields.simps simp_thms)
qed

lemma dict_pop_sorted:
  "dict_pop k (sort_key fst (map canon_pair kvs)) = sort_key fst (map canon_pair (dict_pop k kvs))"
proof -
  have "filter (\<lambda>p. fst p \<noteq> k) (map canon_pair kvs) = map canon_pair (filter (\<lambda>p. fst p \<noteq> k) kvs)"
    by (simp add: filter_map o_def canon_pair_def)
  then show ?thesis by (simp add: dict_pop_def filter_sort)
qed

lemma map_of_canon:
  assumes "distinct (map fst kvs)"
  shows "obj_get k (sort_key fst (map canon_pair kvs)) = map_option json_canon (obj_get k kvs)"
proof -
  have "json_canon (JObj (sort_key fst (map canon_pair kvs))) = json_canon (JObj kvs)"
    using json_canon_idem [of "JObj kvs"] by (simp only: json_canon_obj)
  moreover have "distinct (map fst (sort_key fst (map canon_pair kvs)))"
  proof -
    have "mset (map fst (sort_key fst (map canon_pair kvs))) = mset (map fst kvs)"
      by (simp add: canon_pair_def o_def multiset.map_comp)
    then show ?thesis using assms by (metis mset_eq_imp_distinct_iff)
  qed
  ultimately have "map_option json_canon (obj_get k (sort_key fst (map canon_pair kvs))) =
      map_option json_canon (obj_get k kvs)"
    using json_canon_get assms by blast
  moreover have "map_option json_canon (obj_get k (sort_key fst (map canon_pair kvs))) =
      obj_get k (sort_key fst (map canon_pair kvs))"
  proof (cases "obj_get k (sort_key fst (map canon_pair kvs))")
    case (Some v)
    then have "(k, v) \<in> set (sort_key fst (map canon_pair kvs))" unfolding obj_get_def by (rule map_of_SomeD)
    then have "json_canon v = v" by (auto simp: canon_pair_def)
    then show ?thesis using Some by simp
  qed simp
  ultimately show ?thesis by simp
qed

section \<open>Chains of lines\<close>

locale line_chain =
  fixes st :: json_style and key :: string
  assumes style: "style_ok st"
begin

sublocale hash_chain "linked_text st" "\<lambda>p. True" unlinked_object genesis_hash
proof
  fix p q b c
  assume "unlinked_object b" "unlinked_object c" "linked_text st p b = linked_text st q c"
  then show "p = q \<and> b = c" by (rule linked_text_inject [OF style])
qed simp_all

lemma chained_step:
  assumes "chained st key p (l # ls)"
  obtains kvs where "json_loads l = Some (JObj kvs)" "line_fields l = kvs"
    "obj_get ''previous_hash'' (dict_pop key kvs) = Some (JStr p)"
    "obj_get key kvs = Some (JStr (text_hash (json_dumps st (JObj (dict_pop key kvs)))))"
    "chained st key (text_field key (line_fields l)) ls"
  using assms by (auto simp: Let_def line_fields_def text_field_def split: option.splits json.splits)

lemma chained_append:
  "chained st key p xs \<Longrightarrow> chained st key p (xs @ ys) = chained st key (chain_end key p xs) ys"
proof (induction xs arbitrary: p)
  case (Cons l xs)
  obtain kvs where k: "json_loads l = Some (JObj kvs)" "line_fields l = kvs"
    "obj_get ''previous_hash'' (dict_pop key kvs) = Some (JStr p)"
    "obj_get key kvs = Some (JStr (text_hash (json_dumps st (JObj (dict_pop key kvs)))))"
    "chained st key (text_field key (line_fields l)) xs" by (rule chained_step [OF Cons.prems])
  have "chain_end key (text_field key (line_fields l)) xs = chain_end key p (l # xs)" by (simp add: chain_end_def)
  then show ?case using Cons.IH [OF k(5)] k(1-4) by (simp add: line_fields_def text_field_def)
qed (simp add: chain_end_def)

lemma chained_new:
  assumes "json_wf (JObj r)" and "key \<notin> fst ` set r" and "obj_get ''previous_hash'' r = Some (JStr p)"
  defines "line \<equiv> json_dumps st (JObj (r @ [(key, JStr (text_hash (json_dumps st (JObj r))))]))"
  shows "chained st key p [line]"
    and "json_loads line = Some (json_canon (JObj (r @ [(key, JStr (text_hash (json_dumps st (JObj r))))])))"
proof -
  define h where "h = text_hash (json_dumps st (JObj r))"
  let ?r = "r @ [(key, JStr h)]"
  let ?k = "sort_key fst (map canon_pair ?r)"
  have wf: "json_wf (JObj ?r)" using assms(1,2) by (auto simp: list_all_iff)
  show loads: "json_loads line = Some (json_canon (JObj (r @ [(key, JStr (text_hash (json_dumps st (JObj r))))])))"
    unfolding line_def by (rule json_roundtrip [OF style]) (rule wf [unfolded h_def])
  have pop: "dict_pop key ?k = sort_key fst (map canon_pair r)"
  proof -
    have "dict_pop key ?r = r" using assms(2) by (force simp: dict_pop_def filter_id_conv)
    then show ?thesis by (simp only: dict_pop_sorted)
  qed
  have dr: "distinct (map fst r)" and d: "distinct (map fst ?r)" using assms(1) wf by auto
  have hash: "obj_get key ?k = Some (JStr h)"
  proof -
    have "obj_get key ?r = Some (JStr h)"
      using assms(2) by (simp add: obj_get_def map_add_def map_of_eq_None_iff [THEN iffD2])
    then show ?thesis by (simp only: map_of_canon [OF d] option.map json_canon.simps)
  qed
  have prev: "obj_get ''previous_hash'' (dict_pop key ?k) = Some (JStr p)"
    unfolding pop using assms(3) by (simp only: map_of_canon [OF dr] option.map json_canon.simps)
  have same: "json_dumps st (JObj (dict_pop key ?k)) = json_dumps st (JObj r)"
    unfolding pop json_dumps_def using json_canon_idem [of "JObj r"] by (simp only: json_canon_obj)
  show "chained st key p [line]"
    using hash prev same loads [folded h_def, unfolded json_canon_obj] by (simp add: h_def)
qed

lemma chained_last:
  "chained st key p ls \<Longrightarrow> ls \<noteq> [] \<Longrightarrow> record_item (last ls) key = Inr (JStr (chain_end key p ls))"
proof (induction ls arbitrary: p)
  case (Cons l ls)
  obtain kvs where k: "json_loads l = Some (JObj kvs)" "line_fields l = kvs"
    "obj_get ''previous_hash'' (dict_pop key kvs) = Some (JStr p)"
    "obj_get key kvs = Some (JStr (text_hash (json_dumps st (JObj (dict_pop key kvs)))))"
    "chained st key (text_field key (line_fields l)) ls" by (rule chained_step [OF Cons.prems(1)])
  show ?case
  proof (cases "ls = []")
    case True
    then show ?thesis using k by (simp add: record_item_def chain_end_def text_field_def)
  next
    case False
    then show ?thesis using Cons.IH [OF k(5)] by (simp add: chain_end_def)
  qed
qed simp

lemma chained_linked: "chained st key p ls \<Longrightarrow> linked p (map (line_entry key) ls)"
proof (induction ls arbitrary: p)
  case (Cons l ls)
  obtain kvs where k: "json_loads l = Some (JObj kvs)" "line_fields l = kvs"
    "obj_get ''previous_hash'' (dict_pop key kvs) = Some (JStr p)"
    "obj_get key kvs = Some (JStr (text_hash (json_dumps st (JObj (dict_pop key kvs)))))"
    "chained st key (text_field key (line_fields l)) ls" by (rule chained_step [OF Cons.prems])
  let ?r = "dict_pop key kvs"
  have wf: "json_wf (JObj ?r)" using json_loads_wf [OF k(1)] by (rule dict_pop_wf)
  then have "json_dumps st (JObj ?r) = linked_text st p (json_canon (JObj (dict_pop ''previous_hash'' ?r)))"
    using record_text_linked k(3) by simp
  moreover have "line_entry key l = (p, json_canon (JObj (dict_pop ''previous_hash'' ?r)), text_hash (json_dumps st (JObj ?r)))"
    using k(2-4) by (simp add: line_entry_def text_field_def Let_def del: json_canon.simps)
  moreover have "text_field key (line_fields l) = text_hash (json_dumps st (JObj ?r))"
    using k(2,4) by (simp add: text_field_def)
  ultimately show ?case using Cons.IH [OF k(5)] unlinked_pop [OF wf] by (simp del: json_canon.simps)
qed simp

lemma chained_texts: "chained st key p ls \<Longrightarrow> texts (map (line_entry key) ls) = hashed_text st key ` set ls"
proof (induction ls arbitrary: p)
  case (Cons l ls)
  obtain kvs where k: "json_loads l = Some (JObj kvs)" "line_fields l = kvs"
    "obj_get ''previous_hash'' (dict_pop key kvs) = Some (JStr p)"
    "chained st key (text_field key (line_fields l)) ls" by (rule chained_step [OF Cons.prems])
  let ?r = "dict_pop key kvs"
  have "json_wf (JObj ?r)" using json_loads_wf [OF k(1)] by (rule dict_pop_wf)
  then have "hashed_text st key l = linked_text st p (json_canon (JObj (dict_pop ''previous_hash'' ?r)))"
    using record_text_linked k(2,3) by (simp add: hashed_text_def)
  moreover have "fst (line_entry key l) = p" "fst (snd (line_entry key l)) = json_canon (JObj (dict_pop ''previous_hash'' ?r))"
    using k(2,3) by (simp_all add: line_entry_def text_field_def Let_def del: json_canon.simps)
  ultimately show ?case using Cons.IH [OF k(4)]
    by (cases "line_entry key l") (simp add: texts_simps del: json_canon.simps)
qed (simp add: texts_simps)

lemma chained_record:
  "chained st key p ls \<Longrightarrow> l \<in> set ls \<Longrightarrow> record_of_line l = (case line_entry key l of (q, b, h) \<Rightarrow>
    json_canon (JObj ((key, JStr h) # object_fields (json_canon (JObj ((''previous_hash'', JStr q) # object_fields b))))))"
proof (induction ls arbitrary: p)
  case (Cons l' ls)
  obtain kvs where k: "json_loads l' = Some (JObj kvs)" "line_fields l' = kvs"
    "obj_get ''previous_hash'' (dict_pop key kvs) = Some (JStr p)"
    "obj_get key kvs = Some (JStr (text_hash (json_dumps st (JObj (dict_pop key kvs)))))"
    "chained st key (text_field key (line_fields l')) ls" by (rule chained_step [OF Cons.prems(1)])
  show ?case
  proof (cases "l = l'")
    case True
    have wf: "json_wf (JObj kvs)" "json_wf (JObj (dict_pop key kvs))"
      using json_loads_wf [OF k(1)] dict_pop_wf by blast+
    then have d: "distinct (map fst kvs)" "distinct (map fst (dict_pop key kvs))" by simp_all
    have e: "line_entry key l' = (p, json_canon (JObj (dict_pop ''previous_hash'' (dict_pop key kvs))),
        text_hash (json_dumps st (JObj (dict_pop key kvs))))"
      using k(2-4) by (simp add: line_entry_def text_field_def Let_def del: json_canon.simps)
    show ?thesis
      unfolding True e prod.case record_of_line_def k(2) canon_split [OF d(2) k(3), symmetric] by (rule canon_split [OF d(1) k(4)])
  qed (use Cons.IH [OF k(5)] Cons.prems(2) in simp)
qed simp

text \<open>The last hash determines the records, collisions aside.\<close>

lemma same_end_same_records:
  assumes "chained st key genesis_hash xs" "chained st key genesis_hash ys"
    and "chain_end key genesis_hash xs = chain_end key genesis_hash ys"
  shows "map record_of_line xs = map record_of_line ys \<or> collision (hashed_text st key ` (set xs \<union> set ys))
    \<or> (\<exists>l \<in> set xs \<union> set ys. text_hash (hashed_text st key l) = genesis_hash)"
proof (rule ccontr)
  assume bad: "\<not> ?thesis"
  let ?xs = "map (line_entry key) xs" and ?ys = "map (line_entry key) ys"
  have head: "head genesis_hash (map (line_entry key) ls) = chain_end key genesis_hash ls" for ls
    by (simp add: head_def chain_end_def entry_hash_def last_map line_entry_def Let_def)
  have "\<not> broken (texts ?xs \<union> texts ?ys)"
    unfolding chained_texts [OF assms(1)] chained_texts [OF assms(2)] broken_def
    using bad by (auto simp: image_Un)
  then have eq: "?xs = ?ys"
    using same_head_same_chain [OF chained_linked [OF assms(1)] chained_linked [OF assms(2)]] assms(3) head by simp
  have "map record_of_line ls = map (\<lambda>(q, b, h). json_canon (JObj ((key, JStr h) # object_fields
      (json_canon (JObj ((''previous_hash'', JStr q) # object_fields b)))))) (map (line_entry key) ls)"
    if "chained st key genesis_hash ls" for ls
    using chained_record [OF that] by simp
  from this [OF assms(1)] this [OF assms(2)] have "map record_of_line xs = map record_of_line ys"
    unfolding eq by (rule trans [OF _ sym])
  with bad show False by blast
qed

end

end
