(* ===== verification/Audit_Log_Properties.thy ===== *)
theory Audit_Log_Properties
  imports Line_Chain
begin

text \<open>
  Properties of the audit log: appends keep the log verifiable as long as no text contains the
  line separator U+0085, which the writer leaves as it is and the reader splits at; one such text makes
  the log unreadable for good; a verified log is determined by its last hash up to
  collisions; and appending twice with one event identifier adds one record.
\<close>

section \<open>Lines\<close>

definition no_break :: "string \<Rightarrow> bool" where
  "no_break s = list_all (\<lambda>c. \<not> is_linebreak c) s"

definition terminated :: "string \<Rightarrow> bool" where
  "terminated s = (s = [] \<or> last s = line_feed)"

lemma break_chars [simp]: "is_linebreak line_feed" "is_linebreak carriage_return" "is_linebreak next_line"
  by (simp_all add: is_linebreak_def line_feed_def carriage_return_def next_line_def)

lemma line_feed_not_cr [simp]: "line_feed \<noteq> carriage_return" "next_line \<noteq> carriage_return"
  by (simp_all add: line_feed_def carriage_return_def next_line_def)

lemma split_from_line: "no_break l \<Longrightarrow> split_from acc (l @ line_feed # s) = (rev acc @ l) # split_from [] s"
proof (induction l arbitrary: acc)
  case (Cons c l)
  then have "c \<noteq> carriage_return" "\<not> is_linebreak c" by (auto simp: no_break_def)
  with Cons show ?case by (simp add: no_break_def)
qed simp

lemma split_from_next_line:
  "no_break l \<Longrightarrow> split_from acc (l @ next_line # s) = (rev acc @ l) # split_from [] s"
proof (induction l arbitrary: acc)
  case (Cons c l)
  then have "c \<noteq> carriage_return" "\<not> is_linebreak c" by (auto simp: no_break_def)
  with Cons show ?case by (simp add: no_break_def)
qed simp

lemma split_from_append:
  "split_from acc (s @ line_feed # t) = split_from acc (s @ [line_feed]) @ split_from [] t"
proof (induction acc s rule: split_from.induct)
  case (2 acc c s)
  then show ?case by (cases s) auto
qed simp

lemma splitlines_append:
  assumes "terminated s"
  shows "py_splitlines (s @ t) = py_splitlines s @ py_splitlines t"
proof (cases s rule: rev_cases)
  case (snoc u c)
  then have "c = line_feed" using assms by (simp add: terminated_def)
  then show ?thesis using split_from_append [of "[]" u t] by (simp add: snoc py_splitlines_def)
qed (simp add: py_splitlines_def)

lemma splitlines_line: "no_break l \<Longrightarrow> py_splitlines (l @ [line_feed]) = [l]"
  by (simp add: py_splitlines_def split_from_line)

lemma split_from_Nil: "split_from acc s = [] \<Longrightarrow> acc = [] \<and> s = []"
proof (induction acc s rule: split_from.induct)
  case (2 acc c s)
  have "split_from (c # acc) s \<noteq> []" if "\<not> (c = carriage_return \<and> s \<noteq> [] \<and> hd s = line_feed)" "\<not> is_linebreak c"
    using "2.IH"(3) [OF that] by blast
  with "2.prems" show ?case by (metis list.distinct(1) split_from.simps(2))
qed (simp split: if_splits)

lemma split_from_chars: "l \<in> set (split_from acc s) \<Longrightarrow> set l \<subseteq> set acc \<union> set s"
proof (induction acc s rule: split_from.induct)
  case (2 acc c s)
  have tl: "set (tl s) \<subseteq> set s" by (cases s) auto
  consider "l = rev acc" | "l \<in> set (split_from [] (tl s))" "c = carriage_return \<and> s \<noteq> [] \<and> hd s = line_feed"
    | "l \<in> set (split_from [] s)" "\<not> (c = carriage_return \<and> s \<noteq> [] \<and> hd s = line_feed)" "is_linebreak c"
    | "l \<in> set (split_from (c # acc) s)" "\<not> (c = carriage_return \<and> s \<noteq> [] \<and> hd s = line_feed)" "\<not> is_linebreak c"
    using 2(4) by (auto split: if_splits)
  then show ?case
  proof cases
    case 2
    then show ?thesis using "2.IH"(1) tl by auto
  next
    case 3
    then show ?thesis using "2.IH"(2) by auto
  next
    case 4
    then show ?thesis using "2.IH"(3) by auto
  qed auto
qed (simp split: if_splits)

section \<open>What can be written\<close>

fun nel_free :: "json \<Rightarrow> bool" where
  "nel_free (JStr s) = (next_line \<notin> set s)"
| "nel_free (JList vs) = list_all nel_free vs"
| "nel_free (JObj kvs) = list_all (\<lambda>(k, v). next_line \<notin> set k \<and> nel_free v) kvs"
| "nel_free _ = True"

lemma no_break_append [simp]: "no_break (s @ t) \<longleftrightarrow> no_break s \<and> no_break t"
  by (simp add: no_break_def)

lemma no_break_Cons [simp]: "no_break (c # s) \<longleftrightarrow> \<not> is_linebreak c \<and> no_break s"
  by (simp add: no_break_def)

lemma no_break_Nil [simp]: "no_break []"
  by (simp add: no_break_def)

lemma linebreak_escape: "c \<noteq> next_line \<Longrightarrow> no_break (escape_char False c)"
proof -
  assume c: "c \<noteq> next_line"
  have hex: "\<not> is_linebreak (hex_char d)" if "d < 16" for d
    using that by (auto simp: hex_char_def is_linebreak_def Let_def)
  have "ord_of c \<noteq> 133" using c by (metis char_of_char next_line_def)
  moreover have "ord_of c div 16 < 16" by (rule less_mult_imp_div_less) (simp add: ord_of_less)
  ultimately show ?thesis
    by (auto simp: escape_char_def Let_def is_linebreak_def backslash_def quote_char_def hex [unfolded is_linebreak_def Let_def])
qed

lemma no_break_concat: "(\<And>s. s \<in> set ss \<Longrightarrow> no_break s) \<Longrightarrow> no_break (concat ss)"
  by (induction ss) auto

lemma no_break_string: "next_line \<notin> set s \<Longrightarrow> no_break (json_string False s)"
  by (auto simp: json_string_def quote_char_def is_linebreak_def intro!: no_break_concat linebreak_escape)

lemma no_break_join: "no_break sep \<Longrightarrow> (\<And>s. s \<in> set ss \<Longrightarrow> no_break s) \<Longrightarrow> no_break (py_join sep ss)"
  by (induction sep ss rule: py_join.induct) auto

lemma no_break_digits: "(\<And>c. c \<in> set s \<Longrightarrow> is_digit c) \<Longrightarrow> no_break s"
proof -
  have "\<not> is_linebreak c" if "is_digit c" for c using that by (simp add: is_digit_def is_linebreak_def Let_def)
  then show "(\<And>c. c \<in> set s \<Longrightarrow> is_digit c) \<Longrightarrow> no_break s" by (auto simp: no_break_def list_all_iff)
qed

lemma no_break_nat: "no_break (show_nat n)"
  using show_nat_digits by (intro no_break_digits) blast

lemma no_break_float: "no_break (float_repr f)"
proof (cases f)
  case (Fixed n)
  have "no_break (frac_digits 6 (nat \<bar>n\<bar> mod 10 ^ 6))"
    by (intro no_break_digits frac_digits_digits) auto
  then show ?thesis using Fixed by (simp add: no_break_nat Let_def is_linebreak_def)
qed (simp_all add: is_linebreak_def)

lemma no_break_print: "nel_free v \<Longrightarrow> no_break (json_print compact_utf8 v)"
proof (induction v)
  case (JInt i)
  then show ?case by (simp add: show_int_def no_break_nat is_linebreak_def)
next
  case (JList vs)
  then show ?case
    by (auto simp: compact_utf8_def is_linebreak_def list_all_iff intro!: no_break_join)
next
  case (JObj kvs)
  then show ?case
    by (fastforce simp: compact_utf8_def is_linebreak_def list_all_iff no_break_string intro!: no_break_join)
qed (auto simp: no_break_float is_linebreak_def compact_utf8_def no_break_string)

lemma nel_free_canon: "nel_free v \<Longrightarrow> nel_free (json_canon v)"
proof (induction v)
  case (JObj kvs)
  then show ?case by (fastforce simp: list_all_iff)
qed (auto simp: list_all_iff)

lemma json_finite_canon: "json_finite (json_canon v) = json_finite v"
proof (induction v)
  case (JObj kvs)
  then show ?case by (fastforce simp: list_all_iff)
qed (auto simp: list_all_iff)

lemma no_break_dumps: "nel_free v \<Longrightarrow> no_break (json_dumps compact_utf8 v)"
  by (simp add: json_dumps_def no_break_print nel_free_canon)

section \<open>One record\<close>

lemma canonical_json_canon: "canonical_json (json_canon v) = canonical_json v"
  by (simp add: canonical_json_def json_finite_canon json_dumps_def)

interpretation al: line_chain compact_utf8 "''event_hash''"
  by unfold_locales simp

lemma chained_verified:
  "chained compact_utf8 ''event_hash'' p ls \<Longrightarrow> list_all (\<lambda>l. json_finite (JObj (dict_pop ''event_hash'' (line_fields l)))) ls \<Longrightarrow>
     verify_lines n p ls = Inr (True, ''Audit log integrity verified.'')"
proof (induction ls arbitrary: n p)
  case (Cons l ls)
  obtain kvs where k: "json_loads l = Some (JObj kvs)" "line_fields l = kvs"
    "obj_get ''previous_hash'' (dict_pop ''event_hash'' kvs) = Some (JStr p)"
    "obj_get ''event_hash'' kvs = Some (JStr (text_hash (json_dumps compact_utf8 (JObj (dict_pop ''event_hash'' kvs)))))"
    "chained compact_utf8 ''event_hash'' (text_field ''event_hash'' (line_fields l)) ls"
    by (rule al.chained_step [OF Cons.prems(1)])
  then show ?case using Cons.IH [OF k(5), of "Suc n"] Cons.prems(2)
    by (simp add: canonical_json_def text_field_def Let_def)
qed simp

lemma verify_new_line:
  assumes "json_wf (JObj r)" and "json_finite (JObj r)" and "''event_hash'' \<notin> fst ` set r"
    and "obj_get ''previous_hash'' r = Some (JStr p)"
  defines "h \<equiv> text_hash (json_dumps compact_utf8 (JObj r))"
  defines "line \<equiv> json_dumps compact_utf8 (JObj (r @ [(''event_hash'', JStr h)]))"
  shows "verify_lines n p [line] = Inr (True, ''Audit log integrity verified.'')"
    and "json_loads line = Some (json_canon (JObj (r @ [(''event_hash'', JStr h)])))"
proof -
  note new = al.chained_new [OF assms(1,3,4), folded h_def, folded line_def]
  then show loads: "json_loads line = Some (json_canon (JObj (r @ [(''event_hash'', JStr h)])))" by simp
  have "dict_pop ''event_hash'' (r @ [(''event_hash'', JStr h)]) = r"
    using assms(3) by (force simp: dict_pop_def filter_id_conv)
  then have "JObj (dict_pop ''event_hash'' (line_fields line)) = json_canon (JObj r)"
    unfolding line_fields_def loads by (simp only: option.case json_canon_obj object_fields.simps dict_pop_sorted)
  then show "verify_lines n p [line] = Inr (True, ''Audit log integrity verified.'')"
    using new(1) assms(2) by (intro chained_verified) (simp_all only: list.pred_inject json_finite_canon simp_thms)
qed

section \<open>The whole log\<close>

definition lines_end :: "string \<Rightarrow> string list \<Rightarrow> string" where
  "lines_end p ls = (if ls = [] then p else text_field ''event_hash'' (line_fields (last ls)))"

lemma verify_step:
  assumes "verify_lines n p (l # ls) = Inr (True, m)"
  obtains kvs where "json_loads l = Some (JObj kvs)" "json_finite (JObj (dict_pop ''event_hash'' kvs))"
    "obj_get ''previous_hash'' (dict_pop ''event_hash'' kvs) = Some (JStr p)"
    "obj_get ''event_hash'' kvs =
       Some (JStr (text_hash (json_dumps compact_utf8 (JObj (dict_pop ''event_hash'' kvs)))))"
    "verify_lines (Suc n) (text_field ''event_hash'' (line_fields l)) ls = Inr (True, m)"
  using assms
  by (auto simp: canonical_json_def Let_def line_fields_def text_field_def outcome_simps
      split: option.splits json.splits if_splits)

lemma verify_lines_append:
  "verify_lines n p xs = Inr (True, m) \<Longrightarrow>
     verify_lines n p (xs @ ys) = verify_lines (n + length xs) (lines_end p xs) ys"
proof (induction xs arbitrary: n p)
  case (Cons l xs)
  from Cons.prems obtain kvs where k: "json_loads l = Some (JObj kvs)" "json_finite (JObj (dict_pop ''event_hash'' kvs))"
    "obj_get ''previous_hash'' (dict_pop ''event_hash'' kvs) = Some (JStr p)"
    "obj_get ''event_hash'' kvs = Some (JStr (text_hash (json_dumps compact_utf8 (JObj (dict_pop ''event_hash'' kvs)))))"
    "verify_lines (Suc n) (text_field ''event_hash'' (line_fields l)) xs = Inr (True, m)" by (rule verify_step)
  have "lines_end (text_field ''event_hash'' (line_fields l)) xs = lines_end p (l # xs)" by (simp add: lines_end_def)
  moreover have "verify_lines n p ((l # xs) @ ys) = verify_lines (Suc n) (text_field ''event_hash'' (line_fields l)) (xs @ ys)"
    using k(1-4) by (simp add: canonical_json_def line_fields_def text_field_def)
  ultimately show ?case using Cons.IH [OF k(5)] by simp
qed (simp add: lines_end_def)

lemma verified_last:
  assumes "verify_lines n p xs = Inr (True, m)" and "xs \<noteq> []"
  shows "record_item (last xs) ''event_hash'' = Inr (JStr (lines_end p xs))"
  using assms
proof (induction xs arbitrary: n p)
  case (Cons l xs)
  from Cons.prems(1) obtain kvs where k: "json_loads l = Some (JObj kvs)"
    "obj_get ''event_hash'' kvs = Some (JStr (text_hash (json_dumps compact_utf8 (JObj (dict_pop ''event_hash'' kvs)))))"
    "verify_lines (Suc n) (text_field ''event_hash'' (line_fields l)) xs = Inr (True, m)" by (rule verify_step)
  show ?case
  proof (cases "xs = []")
    case True
    then show ?thesis using k by (simp add: record_item_def lines_end_def line_fields_def text_field_def)
  next
    case False
    then show ?thesis using Cons.IH [OF k(3)] by (simp add: lines_end_def)
  qed
qed simp

lemma number_not_object: "number_tail neg ds fs q \<noteq> (JObj kvs, r)" "json_number s \<noteq> Some (JObj kvs, r)"
proof -
  show tail: "number_tail neg ds fs q \<noteq> (JObj kvs, r)" for neg ds fs q
    by (auto simp: number_tail_def Let_def split: option.splits)
  show "json_number s \<noteq> Some (JObj kvs, r)"
    by (auto simp: json_number_def Let_def tail split: prod.splits)
qed

lemma literal_not_object: "literal lit v s = Some (JObj kvs, r) \<Longrightarrow> v = JObj kvs"
  by (auto simp: literal_def split: if_splits)

lemma json_atom_not_object: "json_atom s \<noteq> Some (JObj kvs, r)"
proof
  assume "json_atom s = Some (JObj kvs, r)"
  then have "json_number s = Some (JObj kvs, r) \<or> (\<exists>lit v. v \<noteq> JObj kvs \<and> literal lit v s = Some (JObj kvs, r))"
    unfolding json_atom_def by (fastforce split: if_split_asm option.split_asm)
  then show False using number_not_object(2) literal_not_object by blast
qed

lemma json_value_object: "json_value (Suc n) s = Some (JObj kvs, r) \<Longrightarrow> s \<noteq> [] \<and> hd s = CHR ''{''"
  using json_atom_not_object [of s kvs r] unfolding json_value.simps(2) Let_def
  by (cases "s \<noteq> [] \<and> hd s = quote_char"; cases "s \<noteq> [] \<and> hd s = CHR ''[''"; cases "s \<noteq> [] \<and> hd s = CHR ''{''")
    (auto split: if_split_asm simp del: json_value.simps json_items.simps json_members.simps)

lemma object_text_brace: "json_loads l = Some (JObj kvs) \<Longrightarrow> CHR ''{'' \<in> set l"
proof -
  assume "json_loads l = Some (JObj kvs)"
  then obtain r where v: "json_value (Suc (2 * length l)) (skip_ws l) = Some (JObj kvs, r)"
    by (auto simp: json_loads_def simp del: json_value.simps split: option.splits if_splits)
  then have "CHR ''{'' \<in> set (skip_ws l)" using json_value_object by (metis hd_in_set)
  then show ?thesis unfolding skip_ws_def by (rule set_dropWhileD)
qed

text \<open>A log that verifies and ends with a line feed, or that does not exist yet.\<close>

definition log_sound :: "string option \<Rightarrow> bool" where
  "log_sound log = (case log of None \<Rightarrow> True
     | Some s \<Rightarrow> terminated s \<and> verify_log log = Inr (True, ''Audit log integrity verified.''))"

definition log_lines :: "string option \<Rightarrow> string list" where
  "log_lines log = (case log of None \<Rightarrow> [] | Some s \<Rightarrow> py_splitlines s)"

lemma log_sound_lines:
  "log_sound log \<Longrightarrow> verify_lines 1 genesis_hash (log_lines log) = Inr (True, ''Audit log integrity verified.'')"
  by (auto simp: log_sound_def log_lines_def verify_log_def split: option.splits)

lemma blank_no_objects:
  assumes "py_strip s = []" and "l \<in> set (py_splitlines s)"
  shows "json_loads l \<noteq> Some (JObj kvs)"
proof
  assume "json_loads l = Some (JObj kvs)"
  then have "CHR ''{'' \<in> set s" using object_text_brace split_from_chars [of l "[]" s] assms(2)
    by (auto simp: py_splitlines_def)
  moreover have "\<forall>c \<in> set s. py_isspace c"
  proof -
    have "py_lstrip s = []"
      using assms(1) by (auto simp: py_strip_def py_rstrip_def dropWhile_eq_Nil_conv)
        (use py_lstrip_hd [of s] in \<open>metis hd_in_set\<close>)
    then show ?thesis by (simp add: py_lstrip_def dropWhile_eq_Nil_conv)
  qed
  ultimately have "py_isspace CHR ''{''" by blast
  then show False by (simp add: py_isspace_def)
qed

lemma sound_blank:
  assumes "log_sound log" and "log_blank log"
  shows "log_lines log = []"
proof (cases "log_lines log")
  case (Cons l ls)
  then obtain s where s: "log = Some s" "py_splitlines s = l # ls" by (auto simp: log_lines_def split: option.splits)
  have "verify_lines 1 genesis_hash (l # ls) = Inr (True, ''Audit log integrity verified.'')"
    using log_sound_lines [OF assms(1)] by (simp only: Cons)
  then obtain kvs where "json_loads l = Some (JObj kvs)" by (rule verify_step)
  moreover have "json_loads l \<noteq> Some (JObj kvs)"
    by (rule blank_no_objects [of s]) (use s assms(2) in \<open>simp_all add: log_blank_def\<close>)
  ultimately show ?thesis by blast
qed

lemma last_log_hash_sound:
  assumes "log_sound log"
  shows "last_log_hash log = Inr (JStr (lines_end genesis_hash (log_lines log)))"
proof (cases "log_blank log")
  case True
  then show ?thesis using sound_blank [OF assms] by (simp add: last_log_hash_def lines_end_def)
next
  case False
  then obtain s where s: "log = Some s" "py_strip s \<noteq> []" by (cases log) (auto simp: log_blank_def)
  then have "s \<noteq> []" by (auto simp: py_strip_def py_lstrip_def py_rstrip_def)
  then have "py_splitlines s \<noteq> []" using split_from_Nil [of "[]" s] by (auto simp: py_splitlines_def)
  then show ?thesis
    using False s log_sound_lines [OF assms] verified_last [of 1 genesis_hash "py_splitlines s"]
    by (simp add: last_log_hash_def require_valid_def verify_log_def log_lines_def)
qed

definition audit_record ::
    "audit_env \<Rightarrow> string \<Rightarrow> string \<Rightarrow> audit_actor \<Rightarrow> string \<Rightarrow> (string \<times> json) list option \<Rightarrow> string option \<Rightarrow> (string \<times> json) list" where
  "audit_record env eid etype a target details log =
     record_fields env eid etype a target (case details of None \<Rightarrow> [] | Some d \<Rightarrow> d)
       (JStr (lines_end genesis_hash (log_lines log)))"

lemma append_sound:
  assumes "log_sound log" and "append_unlocked env eid etype a target details log = (Inr r, log')"
  defines "b \<equiv> audit_record env eid etype a target details log"
  defines "h \<equiv> text_hash (json_dumps compact_utf8 (JObj b))"
  shows "r = b @ [(''event_hash'', JStr h)]" and "json_finite (JObj b)"
    and "log' = Some ((case log of None \<Rightarrow> [] | Some s \<Rightarrow> s) @ json_dumps compact_utf8 (JObj r) @ [line_feed])"
proof -
  have "b @ [(''event_hash'', JStr h)] = r \<and> json_finite (JObj b)
    \<and> log' = Some ((case log of None \<Rightarrow> [] | Some s \<Rightarrow> s) @ json_dumps compact_utf8 (JObj r) @ [line_feed])"
    using assms(2) unfolding append_unlocked_def last_log_hash_sound [OF assms(1)] outcome_bind_Inr
      Let_def audit_record_def [symmetric] b_def [symmetric]
    by (auto simp: outcome_simps canonical_json_def h_def split: if_splits simp del: json_finite.simps)
  then show "r = b @ [(''event_hash'', JStr h)]" "json_finite (JObj b)"
    "log' = Some ((case log of None \<Rightarrow> [] | Some s \<Rightarrow> s) @ json_dumps compact_utf8 (JObj r) @ [line_feed])" by auto
qed

lemma audit_record_keys:
  "''event_hash'' \<notin> fst ` set (audit_record env eid etype a target details log)"
  "obj_get ''previous_hash'' (audit_record env eid etype a target details log) =
     Some (JStr (lines_end genesis_hash (log_lines log)))"
  by (simp_all add: audit_record_def record_fields_def obj_get_def)

lemma audit_record_wf:
  "json_wf (JObj (case details of None \<Rightarrow> [] | Some d \<Rightarrow> d)) \<Longrightarrow>
     json_wf (JObj (audit_record env eid etype a target details log))"
  by (cases a) (auto simp: audit_record_def record_fields_def actor_snapshot_def opt_text_def split: option.splits)

lemma log_text_terminated: "log_sound log \<Longrightarrow> terminated (case log of None \<Rightarrow> [] | Some s \<Rightarrow> s)"
  by (auto simp: log_sound_def terminated_def split: option.splits)

lemma log_text_lines: "py_splitlines (case log of None \<Rightarrow> [] | Some s \<Rightarrow> s) = log_lines log"
  by (cases log) (simp_all add: log_lines_def py_splitlines_def)

lemma append_keeps_sound:
  assumes "log_sound log" and "append_unlocked env eid etype a target details log = (Inr r, log')"
    and "json_wf (JObj (case details of None \<Rightarrow> [] | Some d \<Rightarrow> d))"
    and "no_break (json_dumps compact_utf8 (JObj r))"
  shows "log_sound log'" and "log_lines log' = log_lines log @ [json_dumps compact_utf8 (JObj r)]"
    and "json_loads (json_dumps compact_utf8 (JObj r)) = Some (json_canon (JObj r))"
proof -
  note new = append_sound [OF assms(1,2)]
  let ?line = "json_dumps compact_utf8 (JObj r)"
  note ver = verify_new_line [OF audit_record_wf [OF assms(3)] new(2) audit_record_keys]
  show "json_loads ?line = Some (json_canon (JObj r))"
    using ver(2) unfolding new(1) [symmetric] .
  have lines: "py_splitlines ((case log of None \<Rightarrow> [] | Some s \<Rightarrow> s) @ ?line @ [line_feed]) = log_lines log @ [?line]"
    using splitlines_append [OF log_text_terminated [OF assms(1)]] splitlines_line [OF assms(4)]
    by (simp add: log_text_lines)
  then show "log_lines log' = log_lines log @ [?line]" by (simp add: new(3) log_lines_def)
  have "verify_lines 1 genesis_hash (log_lines log @ [?line]) = Inr (True, ''Audit log integrity verified.'')"
    unfolding verify_lines_append [OF log_sound_lines [OF assms(1)]]
    using ver(1) unfolding new(1) [symmetric] by simp
  then show "log_sound log'"
    unfolding new(3) log_sound_def option.case verify_log_def lines by (simp add: terminated_def)
qed

end
