(* ===== verification/Audit_Log_Theorems.thy ===== *)
theory Audit_Log_Theorems
  imports Audit_Log_Properties
begin

text \<open>
  The theorems on the audit log: it stays verifiable under appends, one separator in a text ends it,
  its last hash determines it, and identified appends are idempotent.
\<close>

section \<open>Sequences of appends\<close>

type_synonym audit_call = "audit_env \<times> string \<times> audit_actor \<times> string \<times> (string \<times> json) list option"

fun run_appends :: "audit_call list \<Rightarrow> string option \<Rightarrow> string option" where
  "run_appends [] log = log"
| "run_appends ((env, etype, a, target, details) # es) log =
     run_appends es (snd (append_log env etype a target details log))"

definition call_details :: "audit_call \<Rightarrow> (string \<times> json) list" where
  "call_details c = (case snd (snd (snd (snd c))) of None \<Rightarrow> [] | Some d \<Rightarrow> d)"

definition clean_call :: "audit_call \<Rightarrow> bool" where
  "clean_call c = (case c of (env, etype, a, target, details) \<Rightarrow>
     next_line \<notin> set (ae_recorded env) \<and> next_line \<notin> set etype \<and> nel_free (actor_json a)
     \<and> next_line \<notin> set target \<and> json_wf (JObj (call_details c)) \<and> nel_free (JObj (call_details c)))"

lemma hex_no_nel: "hex_text s \<Longrightarrow> next_line \<notin> set s"
  by (auto simp: hex_text_def list_all_iff is_hex_def next_line_def Let_def)

lemma ascii_no_nel: "list_all (\<lambda>c. ord_of c < 128) s \<Longrightarrow> next_line \<notin> set s"
proof
  assume "list_all (\<lambda>c. ord_of c < 128) s" "next_line \<in> set s"
  then have "ord_of next_line < 128" by (auto simp: list_all_iff)
  then show False by (simp add: next_line_def)
qed

lemma lines_end_hex:
  "verify_lines n p ls = Inr (True, m) \<Longrightarrow> hex_text p \<Longrightarrow> hex_text (lines_end p ls)"
proof (induction ls arbitrary: n p)
  case (Cons l ls)
  from Cons.prems(1) obtain kvs where k: "json_loads l = Some (JObj kvs)"
    "obj_get ''event_hash'' kvs = Some (JStr (text_hash (json_dumps compact_utf8 (JObj (dict_pop ''event_hash'' kvs)))))"
    "verify_lines (Suc n) (text_field ''event_hash'' (line_fields l)) ls = Inr (True, m)" by (rule verify_step)
  have "hex_text (text_field ''event_hash'' (line_fields l))" using k by (simp add: line_fields_def text_field_def)
  then show ?case using Cons.IH [OF k(3)] by (cases "ls = []") (auto simp: lines_end_def)
qed (simp add: lines_end_def)

lemma genesis_hex: "hex_text genesis_hash"
  by (simp add: hex_text_def genesis_hash_def list_all_iff is_hex_def)

lemma clean_record:
  assumes "log_sound log" and "clean_call (env, etype, a, target, details)" and "hex_text eid"
  shows "nel_free (JObj (audit_record env eid etype a target details log @ [(''event_hash'', JStr (text_hash t))]))"
proof -
  have "next_line \<notin> set (lines_end genesis_hash (log_lines log))"
    using lines_end_hex [OF log_sound_lines [OF assms(1)] genesis_hex] by (rule hex_no_nel)
  moreover have "next_line \<notin> set eid" "next_line \<notin> set (text_hash t)" using assms(3) by (simp_all add: hex_no_nel)
  moreover have "next_line \<notin> set ''schema_version1.0event_idrecorded_atevent_typeactortargetdetailsprevious_hashevent_hash''"
    by (rule ascii_no_nel) simp
  ultimately show ?thesis
    using assms(2) by (simp add: audit_record_def record_fields_def clean_call_def call_details_def)
qed

lemma append_finite:
  assumes "log_sound log"
  shows "(\<exists>r. fst (append_unlocked env eid etype a target details log) = Inr r) \<longleftrightarrow>
    json_finite (JObj (case details of None \<Rightarrow> [] | Some d \<Rightarrow> d))"
proof -
  let ?b = "audit_record env eid etype a target details log"
  have fin: "json_finite (JObj ?b) \<longleftrightarrow> json_finite (JObj (case details of None \<Rightarrow> [] | Some d \<Rightarrow> d))"
    by (cases a) (auto simp: audit_record_def record_fields_def actor_snapshot_def opt_text_def split: option.splits)
  have all: "json_finite (JObj (?b @ [(''event_hash'', JStr h)])) = json_finite (JObj ?b)" for h by simp
  show ?thesis
    unfolding append_unlocked_def last_log_hash_sound [OF assms] outcome_bind_Inr Let_def
      audit_record_def [symmetric] canonical_json_def all fin
    by (auto simp: transact_def)
qed

lemma take_hex: "hex_text s \<Longrightarrow> hex_text (take n s)"
  by (auto simp: hex_text_def list_all_iff dest: in_set_takeD)

lemma append_error_keeps: "fst (append_unlocked env eid etype a target details log) = Inl e \<Longrightarrow>
    snd (append_unlocked env eid etype a target details log) = log"
  by (auto simp: append_unlocked_def transact_def split: sum.splits)

definition append_call :: "audit_call \<Rightarrow> string option \<Rightarrow> (string \<times> json) list outcome \<times> string option" where
  "append_call c log = (case c of (env, etype, a, target, details) \<Rightarrow> append_log env etype a target details log)"

lemma run_appends_Cons: "run_appends (c # es) log = run_appends es (snd (append_call c log))"
  by (cases c) (simp add: append_call_def)

lemma append_call_clean:
  assumes "log_sound log" and "clean_call c"
  shows "log_sound (snd (append_call c log))"
    and "case append_call c log of
        (Inl e, log') \<Rightarrow> \<not> json_finite (JObj (call_details c)) \<and> log' = log
      | (Inr r, log') \<Rightarrow> json_finite (JObj (call_details c))
          \<and> log_lines log' = log_lines log @ [json_dumps compact_utf8 (JObj r)]"
proof -
  obtain env etype a target details where c: "c = (env, etype, a, target, details)" by (metis surj_pair)
  have clean: "clean_call (env, etype, a, target, details)" using assms(2) c by simp
  define eid where "eid = take 24 (text_hash (ae_stamp env @ '':'' @ etype @ '':'' @ target))"
  have eid: "hex_text eid" by (simp add: eid_def take_hex)
  obtain x log' where ok: "append_unlocked env eid etype a target details log = (x, log')" by fastforce
  have run: "append_call c log = (x, log')" using ok by (simp add: append_call_def c append_log_def eid_def)
  have fin: "(\<exists>r. x = Inr r) \<longleftrightarrow> json_finite (JObj (call_details c))"
    using append_finite [OF assms(1), of env eid etype a target details] by (simp add: call_details_def c ok)
  have "log_sound log' \<and> (case x of Inl e \<Rightarrow> log' = log
      | Inr r \<Rightarrow> log_lines log' = log_lines log @ [json_dumps compact_utf8 (JObj r)])"
  proof (cases x)
    case (Inl e)
    then show ?thesis using append_error_keeps [of env eid etype a target details log e] ok assms(1) by simp
  next
    case (Inr r)
    note ok = ok [unfolded Inr]
    have "no_break (json_dumps compact_utf8 (JObj r))"
      unfolding append_sound(1) [OF assms(1) ok] by (rule no_break_dumps [OF clean_record [OF assms(1) clean eid]])
    moreover have "json_wf (JObj (case details of None \<Rightarrow> [] | Some d \<Rightarrow> d))"
      using clean by (simp add: clean_call_def call_details_def)
    ultimately show ?thesis using append_keeps_sound(1,2) [OF assms(1) ok] Inr by simp
  qed
  then show "log_sound (snd (append_call c log))"
    "case append_call c log of
        (Inl e, log') \<Rightarrow> \<not> json_finite (JObj (call_details c)) \<and> log' = log
      | (Inr r, log') \<Rightarrow> json_finite (JObj (call_details c))
          \<and> log_lines log' = log_lines log @ [json_dumps compact_utf8 (JObj r)]"
    using fin by (auto simp: run split: sum.splits)
qed

lemma append_call_lines:
  assumes "log_sound log" and "clean_call c"
  shows "\<exists>ls. log_lines (snd (append_call c log)) = log_lines log @ ls
     \<and> length ls = (if json_finite (JObj (call_details c)) then 1 else 0)"
  using append_call_clean(2) [OF assms] by (auto split: prod.splits sum.splits)

lemma append_log_clean:
  assumes "log_sound log" and "clean_call (env, etype, a, target, details)"
  shows "log_sound (snd (append_log env etype a target details log))"
    and "length (log_lines (snd (append_log env etype a target details log))) = length (log_lines log)
      + (if json_finite (JObj (call_details (env, etype, a, target, details))) then 1 else 0)"
  using append_call_clean(1) [OF assms] append_call_lines [OF assms] by (auto simp: append_call_def)

lemma run_appends_sound:
  "log_sound log \<Longrightarrow> \<forall>c \<in> set es. clean_call c \<Longrightarrow> log_sound (run_appends es log)
     \<and> (\<exists>ls. log_lines (run_appends es log) = log_lines log @ ls
          \<and> length ls = length (filter (\<lambda>c. json_finite (JObj (call_details c))) es))"
proof (induction es arbitrary: log)
  case (Cons c es)
  have clean: "clean_call c" using Cons.prems(2) by simp
  obtain ls where ls: "log_lines (snd (append_call c log)) = log_lines log @ ls"
    "length ls = (if json_finite (JObj (call_details c)) then 1 else 0)"
    using append_call_lines [OF Cons.prems(1) clean] by blast
  show ?case
    using Cons.IH [OF append_call_clean(1) [OF Cons.prems(1) clean]] Cons.prems(2) ls
    unfolding run_appends_Cons by (auto simp del: json_finite.simps)
qed simp

text \<open>
  C17. The audit log stays verifiable: after any sequence of appends to a log that verifies and ends
  with a line feed, or that does not exist yet, in texts of code points below 256 that do not
  contain the separator U+0085, the log verifies, its earlier lines are as they were, and it has
  one more line for each call whose details hold only finite numbers. Call by call, exactly the
  others raise an error, and then the file is as it was; the former append the line of the
  record they return. (Of the separators of \<open>str.splitlines\<close> that \<open>canonical_json\<close> leaves
  unescaped, U+0085 is the only one below 256; the code also splits at U+2028 and U+2029.)
\<close>

theorem audit_log_stays_verifiable:
  assumes "log_sound log" and "\<forall>c \<in> set es. clean_call c"
  shows "(\<exists>m. verify_log (run_appends es log) = Inr (True, m)) \<and> log_sound (run_appends es log)
    \<and> take (length (log_lines log)) (log_lines (run_appends es log)) = log_lines log
    \<and> length (log_lines (run_appends es log)) =
        length (log_lines log) + length (filter (\<lambda>c. json_finite (JObj (call_details c))) es)
    \<and> (\<forall>n < length es. case append_call (es ! n) (run_appends (take n es) log) of
          (Inl e, log') \<Rightarrow> \<not> json_finite (JObj (call_details (es ! n))) \<and> log' = run_appends (take n es) log
        | (Inr r, log') \<Rightarrow> json_finite (JObj (call_details (es ! n)))
            \<and> log_lines log' = log_lines (run_appends (take n es) log) @ [json_dumps compact_utf8 (JObj r)])"
proof (intro conjI allI impI)
  note keep = run_appends_sound [OF assms]
  show sound: "log_sound (run_appends es log)" using keep by blast
  then show "\<exists>m. verify_log (run_appends es log) = Inr (True, m)"
    by (cases "run_appends es log") (auto simp: log_sound_def verify_log_def)
  show "take (length (log_lines log)) (log_lines (run_appends es log)) = log_lines log"
    "length (log_lines (run_appends es log)) =
        length (log_lines log) + length (filter (\<lambda>c. json_finite (JObj (call_details c))) es)"
    using keep by auto
  fix n assume n: "n < length es"
  have "\<forall>c \<in> set (take n es). clean_call c" using assms(2) by (auto dest: in_set_takeD)
  then have "log_sound (run_appends (take n es) log)" using run_appends_sound [OF assms(1)] by blast
  moreover have "clean_call (es ! n)" using assms(2) n by simp
  ultimately show "case append_call (es ! n) (run_appends (take n es) log) of
          (Inl e, log') \<Rightarrow> \<not> json_finite (JObj (call_details (es ! n))) \<and> log' = run_appends (take n es) log
        | (Inr r, log') \<Rightarrow> json_finite (JObj (call_details (es ! n)))
            \<and> log_lines log' = log_lines (run_appends (take n es) log) @ [json_dumps compact_utf8 (JObj r)]"
    by (rule append_call_clean(2))
qed

section \<open>A separator in a text\<close>

lemma strip_space:
  assumes "py_strip s = []" and "c \<in> set s"
  shows "py_isspace c"
proof -
  have "py_lstrip s = []"
  proof (rule ccontr)
    assume ne: "py_lstrip s \<noteq> []"
    then have "\<not> py_isspace (hd (py_lstrip s))" using py_lstrip_hd by blast
    moreover have "\<forall>d \<in> set (py_lstrip s). py_isspace d"
      using assms(1) by (simp add: py_strip_def py_rstrip_def dropWhile_eq_Nil_conv)
    ultimately show False using ne by (metis hd_in_set)
  qed
  then show ?thesis using assms(2) by (simp add: py_lstrip_def dropWhile_eq_Nil_conv)
qed

lemma space_brace: "\<not> py_isspace (CHR ''{'')"
  by (simp add: py_isspace_def)

lemma string_body_unclosed: "string_body (concat (map (escape_char a) x)) = None"
  by (induction x) (simp_all add: string_body_escape)

definition actor_start :: "string \<Rightarrow> string" where
  "actor_start x = ''{'' @ json_string False ''actor'' @ '':'' @ quote_char # concat (map (escape_char False) x)"

lemma actor_start_unreadable: "json_loads (actor_start x) = None"
proof -
  have "ord_of quote_char = 34" by (simp add: quote_char_def)
  then have q: "quote_char \<noteq> CHR ''{''" "quote_char \<noteq> CHR ''}''" by (auto dest: arg_cong [of _ _ ord_of])
  have ws: "skip_ws (quote_char # s) = quote_char # s" "skip_ws (CHR '':'' # s) = CHR '':'' # s"
    "skip_ws (CHR ''{'' # s) = CHR ''{'' # s" for s
    by (simp_all add: skip_ws_def is_json_ws_def quote_char_def)
  have body: "string_body (concat (map (escape_char False) ''actor'') @ quote_char # r) = Some (''actor'', r)" for r
    by (rule string_body_json_string)
  have start: "actor_start x = CHR ''{'' # quote_char # concat (map (escape_char False) ''actor'')
      @ quote_char # CHR '':'' # quote_char # concat (map (escape_char False) x)"
    by (simp add: actor_start_def json_string_def)
  have mem: "json_members (Suc (Suc n)) (quote_char # concat (map (escape_char False) ''actor'')
      @ quote_char # CHR '':'' # quote_char # concat (map (escape_char False) x)) = None" for n
    by (simp only: json_members.simps list.sel list.distinct simp_thms if_True body option.case prod.case Let_def ws
        json_value.simps string_body_unclosed option.map)
  have "json_value (Suc (Suc (Suc n))) (actor_start x) = None" for n
    using q mem [of n] unfolding start
    by (simp only: json_value.simps(2) list.sel list.distinct simp_thms if_True if_False Let_def ws option.map not_False_eq_True)
      (simp add: eq_commute [of _ quote_char])
  moreover obtain n where "Suc (2 * length (actor_start x)) = Suc (Suc (Suc n))"
    by (cases "length (actor_start x)") (auto simp: actor_start_def)
  ultimately show ?thesis unfolding json_loads_def by (simp add: start ws)
qed

lemma sorted_record:
  "sort_key fst (map canon_pair (audit_record env eid etype a target details log @ [(''event_hash'', JStr h)])) =
     [(''actor'', json_canon (actor_json a)),
      (''details'', json_canon (JObj (case details of None \<Rightarrow> [] | Some d \<Rightarrow> d))),
      (''event_hash'', JStr h), (''event_id'', JStr eid), (''event_type'', JStr etype),
      (''previous_hash'', JStr (lines_end genesis_hash (log_lines log))),
      (''recorded_at'', JStr (ae_recorded env)), (''schema_version'', JStr ''1.0''), (''target'', JStr target)]"
  by (simp add: audit_record_def record_fields_def canon_pair_def del: json_canon.simps(2))

lemma print_first:
  "\<exists>rest. json_print compact_utf8 (JObj ((k, v) # kvs)) =
     ''{'' @ json_string False k @ '':'' @ json_print compact_utf8 v @ rest"
  by (cases kvs) (simp_all add: compact_utf8_def)

lemma record_line_start:
  "\<exists>rest. json_dumps compact_utf8 (JObj (audit_record env eid etype (ActorText s) target details log
     @ [(''event_hash'', JStr h)])) = actor_start s @ quote_char # rest"
proof -
  obtain rest where "json_dumps compact_utf8 (JObj (audit_record env eid etype (ActorText s) target details log
     @ [(''event_hash'', JStr h)])) = ''{'' @ json_string False ''actor'' @ '':'' @ json_print compact_utf8 (JStr s) @ rest"
    using print_first unfolding json_dumps_def json_canon_obj sorted_record actor_json.simps json_canon.simps by blast
  then show ?thesis by (simp add: actor_start_def json_string_def compact_utf8_def)
qed

lemma actor_start_nel: "actor_start (x @ next_line # y) = actor_start x @ next_line # concat (map (escape_char False) y)"
  by (simp add: actor_start_def escape_char_def next_line_def)

lemma actor_start_no_break: "next_line \<notin> set x \<Longrightarrow> no_break (actor_start x)"
proof -
  assume "next_line \<notin> set x"
  then have "no_break (concat (map (escape_char False) x))"
    by (auto intro!: no_break_concat linebreak_escape)
  moreover have "no_break (json_string False ''actor'')" by (rule no_break_string) (rule ascii_no_nel, simp)
  ultimately show ?thesis by (simp add: actor_start_def is_linebreak_def quote_char_def)
qed

text \<open>
  C18. One separator ends the log: an append whose actor text contains U+0085 is accepted, and from
  then on verification reports a log that cannot be parsed and every further append, by anyone, raises
  an error and changes nothing.
\<close>

theorem next_line_ends_the_log:
  assumes "log_sound log" and "next_line \<notin> set x"
    and "append_log env etype (ActorText (x @ next_line # y)) target details log = (Inr r, log')"
  shows "verify_log log' = Inr (False, ''Audit log could not be parsed safely.'')
    \<and> append_log env' etype' a' target' details' log' =
        (Inl (ValueError ''Refusing to append to invalid audit log: Audit log could not be parsed safely.''), log')"
proof -
  note new = append_sound [OF assms(1) assms(3) [unfolded append_log_def]]
  let ?old = "case log of None \<Rightarrow> [] | Some s \<Rightarrow> s"
  obtain rest where "json_dumps compact_utf8 (JObj r) = actor_start (x @ next_line # y) @ quote_char # rest"
    using record_line_start unfolding new(1) by blast
  then obtain tail where line: "json_dumps compact_utf8 (JObj r) @ [line_feed] = actor_start x @ next_line # tail"
    by (simp add: actor_start_nel)
  have lines: "py_splitlines (?old @ actor_start x @ next_line # tail) = log_lines log @ actor_start x # py_splitlines tail"
    unfolding splitlines_append [OF log_text_terminated [OF assms(1)]] log_text_lines
    using split_from_next_line [OF actor_start_no_break [OF assms(2)], of "[]" tail] by (simp add: py_splitlines_def)
  have log': "log' = Some (?old @ actor_start x @ next_line # tail)" using new(3) line by simp
  have bad: "verify_log log' = Inr (False, ''Audit log could not be parsed safely.'')"
    unfolding log' verify_log_def option.case lines verify_lines_append [OF log_sound_lines [OF assms(1)]]
    by (simp add: actor_start_unreadable)
  have "\<not> log_blank log'"
  proof
    assume "log_blank log'"
    then have "py_strip (?old @ actor_start x @ next_line # tail) = []" by (simp add: log' log_blank_def)
    moreover have "CHR ''{'' \<in> set (?old @ actor_start x @ next_line # tail)" by (simp add: actor_start_def)
    ultimately show False using strip_space by (metis space_brace)
  qed
  then show ?thesis
    by (simp add: bad append_log_def append_unlocked_def last_log_hash_def require_valid_def)
qed

section \<open>Tamper evidence\<close>

definition record_text :: "string \<Rightarrow> string" where
  "record_text l = hashed_text compact_utf8 ''event_hash'' l"

definition audit_record_of :: "string \<Rightarrow> json" where
  "audit_record_of l = record_of_line l"

lemma verified_chained: "verify_lines n p ls = Inr (True, m) \<Longrightarrow> chained compact_utf8 ''event_hash'' p ls"
proof (induction ls arbitrary: n p)
  case (Cons l ls)
  from Cons.prems obtain kvs where k: "json_loads l = Some (JObj kvs)"
    "obj_get ''previous_hash'' (dict_pop ''event_hash'' kvs) = Some (JStr p)"
    "obj_get ''event_hash'' kvs = Some (JStr (text_hash (json_dumps compact_utf8 (JObj (dict_pop ''event_hash'' kvs)))))"
    "verify_lines (Suc n) (text_field ''event_hash'' (line_fields l)) ls = Inr (True, m)" by (rule verify_step)
  then show ?case using Cons.IH [OF k(4)] by (simp add: line_fields_def text_field_def Let_def)
qed simp

text \<open>
  Tamper evidence of the audit log: two logs that verify and end in the same hash contain
  the same records in the same order, unless two different records among them have the same SHA-256 hash or
  one has the all-zero hash of the first link.
\<close>

theorem audit_log_tamper_evident:
  assumes "verify_log (Some s) = Inr (True, m)" and "verify_log (Some t) = Inr (True, m)"
    and "lines_end genesis_hash (py_splitlines s) = lines_end genesis_hash (py_splitlines t)"
  shows "map audit_record_of (py_splitlines s) = map audit_record_of (py_splitlines t)
    \<or> collision (record_text ` (set (py_splitlines s) \<union> set (py_splitlines t)))
    \<or> (\<exists>l \<in> set (py_splitlines s) \<union> set (py_splitlines t). text_hash (record_text l) = genesis_hash)"
proof -
  have "chained compact_utf8 ''event_hash'' genesis_hash (py_splitlines s)"
    "chained compact_utf8 ''event_hash'' genesis_hash (py_splitlines t)"
    using assms(1,2) by (auto simp: verify_log_def intro: verified_chained)
  moreover have "lines_end p ls = chain_end ''event_hash'' p ls" for p ls by (simp add: lines_end_def chain_end_def)
  ultimately show ?thesis
    using al.same_end_same_records assms(3) by (simp add: record_text_def [abs_def] audit_record_of_def [abs_def])
qed

section \<open>Identified appends\<close>

lemma py_number_canon: "json_canon (py_number (json_canon v)) = json_canon (py_number v)"
proof (induction v)
  case (JObj kvs)
  let ?num = "\<lambda>p. (fst p, py_number (snd p))"
  have obj: "json_canon (py_number (JObj xs)) = JObj (sort_key fst (map (canon_pair \<circ> ?num) xs))" for xs
    by (simp only: py_number.simps json_canon_obj map_map case_prod_beta' comp_def fst_conv snd_conv)
  have "map (canon_pair \<circ> ?num) (sort_key fst (map canon_pair kvs)) = sort_key fst (map (canon_pair \<circ> ?num) (map canon_pair kvs))"
    by (rule map_sort_key_commute) (simp add: canon_pair_def)
  moreover have "map (canon_pair \<circ> ?num) (map canon_pair kvs) = map (canon_pair \<circ> ?num) kvs"
    using JObj by (force simp: canon_pair_def)
  ultimately show ?case
    unfolding json_canon_obj obj by (simp only: sort_key_sorted [OF sorted_sort_key])
qed (auto simp: comp_def)

lemma finite_nan_free: "json_finite v \<Longrightarrow> nan_free v"
proof (induction v)
  case (JFloat f)
  then show ?case by (cases f) auto
next
  case (JObj kvs)
  then show ?case by (fastforce simp: list_all_iff)
qed (auto simp: list_all_iff)

lemma py_equal_canon: "json_finite v \<Longrightarrow> py_equal (json_canon v) v"
  by (simp add: py_equal_def py_number_canon finite_nan_free json_finite_canon)

lemma find_record_append:
  "find_record eid xs = Inr None \<Longrightarrow> find_record eid (xs @ ys) = find_record eid ys"
  by (induction xs) (auto split: option.splits json.splits if_splits)

lemma log_not_blank:
  assumes "log_sound log" and "log_lines log \<noteq> []"
  shows "\<not> log_blank log"
  using sound_blank [OF assms(1)] assms(2) by blast

text \<open>
  An append with an event identifier happens once: after a call that added a record, the same call
  finds that record, reports that nothing was added and leaves the file as it is; a call that
  gives the identifier another target is refused and leaves the file as it is.
\<close>

theorem idempotent_append_adds_once:
  assumes "log_sound log" and "clean_call (env, etype, a, target, details)" and "hex_text eid"
    and "append_idempotent env eid etype a target details log = (Inr (r, True), log')"
  shows "append_idempotent env' eid etype a target details log' = (Inr (object_fields (json_canon (JObj r)), False), log')
    \<and> (target' \<noteq> target \<longrightarrow> append_idempotent env' eid etype a target' details log' =
         (Inl (ValueError ''audit event_id is already bound to different content''), log'))"
proof -
  let ?d = "case details of None \<Rightarrow> [] | Some d \<Rightarrow> d"
  let ?line = "json_dumps compact_utf8 (JObj r)"
  have eid: "py_strip eid \<noteq> []" and none: "find_log_event eid log = Inr None"
    and run: "append_unlocked env eid etype a target (Some ?d) log = (Inr r, log')"
    using assms(4) by (auto simp: append_idempotent_def Let_def split: if_splits sum.splits option.splits prod.splits)
  note new = append_sound [OF assms(1) run]
  have clean: "clean_call (env, etype, a, target, Some ?d)" using assms(2) by (simp add: clean_call_def call_details_def)
  have wf: "json_wf (JObj (case Some ?d of None \<Rightarrow> [] | Some d \<Rightarrow> d))"
    using assms(2) by (simp add: clean_call_def call_details_def)
  have nb: "no_break ?line"
    unfolding new(1) by (rule no_break_dumps [OF clean_record [OF assms(1) clean assms(3)]])
  note keep = append_keeps_sound [OF assms(1) run wf nb]
  have "find_record eid (log_lines log) = Inr None"
    using none assms(1) log_not_blank [OF assms(1)]
    by (cases "log_lines log = []") (auto simp: find_log_event_def require_valid_def outcome_simps log_lines_def log_blank_def split: option.splits)
  then have "find_record eid (log_lines log') = find_record eid [?line]"
    unfolding keep(2) by (rule find_record_append)
  have rec: "json_canon (JObj r) = JObj (object_fields (json_canon (JObj r)))" by simp
  have fields: "object_fields (json_canon (JObj r)) =
     [(''actor'', json_canon (actor_json a)), (''details'', json_canon (JObj ?d)),
      (''event_hash'', JStr (text_hash (json_dumps compact_utf8 (JObj (audit_record env eid etype a target (Some ?d) log))))),
      (''event_id'', JStr eid), (''event_type'', JStr etype),
      (''previous_hash'', JStr (lines_end genesis_hash (log_lines log))),
      (''recorded_at'', JStr (ae_recorded env)), (''schema_version'', JStr ''1.0''), (''target'', JStr target)]"
    using sorted_record [of env eid etype a target "Some ?d" log] unfolding new(1) json_canon_obj object_fields.simps by simp
  have found: "find_log_event eid log' = Inr (Some (object_fields (json_canon (JObj r))))"
  proof -
    have "find_record eid [?line] = Inr (Some (object_fields (json_canon (JObj r))))"
      using keep(3) rec fields by (simp add: obj_get_def del: json_canon.simps)
    moreover have "\<not> log_blank log'" using log_not_blank [OF keep(1)] keep(2) by simp
    moreover have "verify_log log' = Inr (True, ''Audit log integrity verified.'')" "log_lines log' = py_splitlines (the log')"
      using keep(1) new(3) by (simp_all add: log_sound_def log_lines_def)
    ultimately show ?thesis
      using \<open>find_record eid (log_lines log') = find_record eid [?line]\<close>
      by (simp add: find_log_event_def require_valid_def del: find_record.simps)
  qed
  have fin: "json_finite (JObj ?d)" "json_finite (actor_json a)"
    using new(2) by (simp_all add: audit_record_def record_fields_def)
  have same: "same_content (object_fields (json_canon (JObj r))) etype a t ?d \<longleftrightarrow> t = target" for t
    unfolding same_content_def fields
    using py_equal_canon [OF fin(1)] py_equal_canon [OF fin(2)]
    by (auto simp: get_or_null_def obj_get_def py_equal_def simp del: json_canon.simps(2))
  show ?thesis
    using eid found same by (simp add: append_idempotent_def Let_def del: json_canon.simps)
qed

end
