(* ===== verification/Audit_Archive.thy ===== *)
theory Audit_Archive
  imports Audit_Log Evidence_Store
begin

text \<open>
  The audit archives of \<open>audit_archive.py\<close>: the checks an exported event passes before it is stored
  (schema, identity, scalar fields, payload, its place in the hash chain, size), the
  object key derived from it, and the process-local, directory and Azure Blob archives. An archive
  never replaces an object. Shown: what an accepted event satisfies, that the key determines
  the event's identity, and the store contract.
\<close>

section \<open>Checks\<close>

definition max_audit_event_bytes :: nat where "max_audit_event_bytes = 256 * 1024"

definition required_audit_event_fields :: "string list" where
  "required_audit_event_fields =
     [''event_id'', ''finding_id'', ''event_sequence'', ''event_type'', ''actor_id'', ''actor_role'',
      ''auth_method'', ''occurred_at'', ''details'', ''previous_hash'', ''event_hash'']"

definition audit_scalar_fields :: "string list" where
  "audit_scalar_fields = [''event_type'', ''actor_id'', ''actor_role'', ''auth_method'']"

definition audit_chain_fields :: "string list" where
  "audit_chain_fields = [''finding_id'', ''event_type'', ''actor_id'', ''actor_role'', ''auth_method'',
     ''occurred_at'', ''details'', ''previous_hash'']"

definition archive_integrity :: "string \<Rightarrow> py_error" where
  "archive_integrity msg = OtherError (''AuditArchiveIntegrityError: '' @ msg)"

definition hex_of_length :: "nat \<Rightarrow> json \<Rightarrow> bool" where
  "hex_of_length n v = (case v of JStr s \<Rightarrow> length s = n \<and> list_all is_hex s | _ \<Rightarrow> False)"

fun json_text :: "json \<Rightarrow> string" where
  "json_text (JStr s) = s"
| "json_text _ = []"

definition validate_event_schema :: "json \<Rightarrow> (string \<times> json) list outcome" where
  "validate_event_schema event =
     (case event of
        JObj kvs \<Rightarrow>
          if set (map fst kvs) = set required_audit_event_fields then Inr kvs
          else Inl (ValueError ''audit event has an invalid schema'')
      | _ \<Rightarrow> Inl (ValueError ''audit event must be an object''))"

definition validate_event_identity :: "(string \<times> json) list \<Rightarrow> (string \<times> string \<times> string \<times> nat) outcome" where
  "validate_event_identity ev =
     (let eid = get_or_null ''event_id'' ev; h = get_or_null ''event_hash'' ev;
          fid = get_or_null ''finding_id'' ev in
      if \<not> hex_of_length 32 eid then Inl (ValueError ''audit event_id is invalid'')
      else if \<not> hex_of_length 64 h then Inl (ValueError ''audit event_hash is invalid'')
      else if json_text fid = [] \<or> 128 < length (json_text fid) then Inl (ValueError ''audit finding_id is invalid'')
      else (case get_or_null ''event_sequence'' ev of
              JInt n \<Rightarrow> if n < 1 then Inl (ValueError ''audit event_sequence is invalid'')
                         else Inr (json_text eid, json_text h, json_text fid, nat n)
            | _ \<Rightarrow> Inl (ValueError ''audit event_sequence is invalid'')))"

definition scalar_ok :: "json \<Rightarrow> bool" where
  "scalar_ok v = (py_strip (json_text v) \<noteq> [] \<and> length (json_text v) \<le> 128)"

definition validate_scalar_fields :: "(string \<times> json) list \<Rightarrow> unit outcome" where
  "validate_scalar_fields ev =
     (case List.find (\<lambda>name. \<not> scalar_ok (get_or_null name ev)) audit_scalar_fields of
        Some name \<Rightarrow> Inl (ValueError (''audit '' @ name @ '' is invalid''))
      | None \<Rightarrow> Inr ())"

definition validate_payload_fields :: "(string \<times> json) list \<Rightarrow> string outcome" where
  "validate_payload_fields ev =
     (let prev = get_or_null ''previous_hash'' ev in
      if (case get_or_null ''details'' ev of JObj _ \<Rightarrow> False | _ \<Rightarrow> True)
      then Inl (ValueError ''audit details must be an object'')
      else if (case get_or_null ''occurred_at'' ev of JInt _ \<Rightarrow> False | JFloat _ \<Rightarrow> False | _ \<Rightarrow> True)
      then Inl (ValueError ''audit occurred_at is invalid'')
      else if prev \<noteq> JStr [] \<and> \<not> hex_of_length 64 prev
      then Inl (ValueError ''audit previous_hash is invalid'')
      else Inr (json_text prev))"

definition chain_body :: "(string \<times> json) list \<Rightarrow> json" where
  "chain_body ev = JObj (map (\<lambda>k. (k, get_or_null k ev)) audit_chain_fields)"

definition verify_chain_hash :: "(string \<times> json) list \<Rightarrow> string \<Rightarrow> string \<Rightarrow> unit outcome" where
  "verify_chain_hash ev prev h =
     ensure (text_hash (prev @ json_dumps compact_ascii (chain_body ev)) = h)
       (archive_integrity ''audit event chain hash is invalid'')"

definition serialize_content :: "(string \<times> json) list \<Rightarrow> (byte list \<times> string) outcome" where
  "serialize_content ev =
     outcome_bind (canonical_json (JObj ev)) (\<lambda>t.
       let content = utf8_encode t in
       if content = [] \<or> max_audit_event_bytes < length content
       then Inl (ValueError ''audit event exceeds the size limit'')
       else Inr (content, sha256_hex content))"

text \<open>\<open>f"{sequence:020d}"\<close>\<close>

definition build_object_key :: "string \<Rightarrow> nat \<Rightarrow> string \<Rightarrow> string \<Rightarrow> string" where
  "build_object_key fid n eid h =
     (let d = text_hash fid in
      ''events/'' @ take 2 d @ ''/'' @ d @ ''/'' @ zero_pad 20 n @ ''-'' @ eid @ ''-'' @ h @ ''.json'')"

definition serialize_event :: "json \<Rightarrow> (byte list \<times> string \<times> string) outcome" where
  "serialize_event event =
     outcome_bind (validate_event_schema event) (\<lambda>ev.
     outcome_bind (validate_event_identity ev) (\<lambda>(eid, h, fid, n).
     outcome_bind (validate_scalar_fields ev) (\<lambda>_.
     outcome_bind (validate_payload_fields ev) (\<lambda>prev.
     outcome_bind (verify_chain_hash ev prev h) (\<lambda>_.
     outcome_bind (serialize_content ev) (\<lambda>(content, digest).
       Inr (content, digest, build_object_key fid n eid h)))))))"

section \<open>Archives\<close>

definition archive_error :: py_error where
  "archive_error = archive_integrity ''archived audit event failed integrity verification''"

definition memory_archive :: "json \<Rightarrow> objects \<Rightarrow> stored_object outcome \<times> objects" where
  "memory_archive event m =
     (case serialize_event event of
        Inl e \<Rightarrow> (Inl e, m)
      | Inr (content, digest, key) \<Rightarrow>
          (let (existing, m') = create_only key content m in
           if sha256_hex existing \<noteq> digest then (Inl archive_error, m')
           else (Inr \<lparr>object_key = key, so_sha256 = digest, size_bytes = length content,
                      etag = digest\<rparr>, m')))"

text \<open>
  The components of the key are decimal and hexadecimal digits, so the target is below the root.
\<close>

definition local_archive :: "json \<Rightarrow> objects \<Rightarrow> stored_object outcome \<times> objects" where
  "local_archive event m =
     (case serialize_event event of
        Inl e \<Rightarrow> (Inl e, m)
      | Inr (content, digest, key) \<Rightarrow>
          (let (stored, m') = create_only key content m in
           if length stored \<noteq> length content \<or> sha256_hex stored \<noteq> digest
           then (Inl archive_error, m')
           else (Inr \<lparr>object_key = key, so_sha256 = digest, size_bytes = length content,
                      etag = digest\<rparr>, m')))"

definition archive_texts :: adapter_texts where
  "archive_texts = \<lparr>integrity_class = ''AuditArchiveIntegrityError'',
     content_text = ''archived audit event failed integrity verification'',
     metadata_text = ''archived audit metadata is inconsistent'',
     tag_text = ''archived audit event has no immutable version tag'',
     unavailable_text = ''AuditArchiveError: audit archive is unavailable''\<rparr>"

definition archive_persist_once ::
    "'st blob_client \<Rightarrow> byte list \<Rightarrow> string \<Rightarrow> string \<Rightarrow> 'st \<Rightarrow> attempt \<times> 'st" where
  "archive_persist_once = persist_once archive_texts"

definition azure_archive ::
    "'st blob_client \<Rightarrow> nat \<Rightarrow> json \<Rightarrow> 'st \<Rightarrow> stored_object outcome \<times> nat list \<times> 'st" where
  "azure_archive cl retries event st =
     (case serialize_event event of
        Inl e \<Rightarrow> (Inl e, [], st)
      | Inr (content, digest, key) \<Rightarrow>
          retry_loop (archive_persist_once cl content digest key) (unavailable_text archive_texts) 0 retries st)"

section \<open>What an accepted event satisfies\<close>

definition event_field :: "json \<Rightarrow> string \<Rightarrow> json" where
  "event_field event k = get_or_null k (object_fields event)"

lemma serialize_event_ok:
  assumes "serialize_event event = Inr (content, digest, key)"
  obtains ev n where "event = JObj ev" "set (map fst ev) = set required_audit_event_fields"
    "hex_of_length 32 (event_field event ''event_id'')" "hex_of_length 64 (event_field event ''event_hash'')"
    "get_or_null ''event_sequence'' ev = JInt n" "1 \<le> n"
    "json_text (event_field event ''event_hash'') = text_hash (json_text (event_field event ''previous_hash'')
       @ json_dumps compact_ascii (chain_body ev))"
    "json_finite event" "content = utf8_encode (json_dumps compact_utf8 event)"
    "length content \<le> max_audit_event_bytes" "digest = sha256_hex content"
    "key = build_object_key (json_text (event_field event ''finding_id'')) (nat n)
       (json_text (event_field event ''event_id'')) (json_text (event_field event ''event_hash''))"
    "\<And>name. name \<in> set audit_scalar_fields \<Longrightarrow> scalar_ok (get_or_null name ev)"
proof -
  obtain ev where ev: "event = JObj ev" "set (map fst ev) = set required_audit_event_fields"
    using assms by (auto simp: serialize_event_def validate_event_schema_def outcome_simps split: json.splits if_splits)
  then obtain eid h fid n u prev v where parts:
    "validate_event_identity ev = Inr (eid, h, fid, n)" "validate_scalar_fields ev = Inr u"
    "validate_payload_fields ev = Inr prev" "verify_chain_hash ev prev h = Inr v"
    "serialize_content ev = Inr (content, digest)" "key = build_object_key fid n eid h"
    using assms by (auto simp: serialize_event_def validate_event_schema_def outcome_simps split: prod.splits)
  obtain m where ident: "hex_of_length 32 (get_or_null ''event_id'' ev)" "hex_of_length 64 (get_or_null ''event_hash'' ev)"
    "get_or_null ''event_sequence'' ev = JInt m" "1 \<le> m" "n = nat m" "eid = json_text (get_or_null ''event_id'' ev)"
    "h = json_text (get_or_null ''event_hash'' ev)" "fid = json_text (get_or_null ''finding_id'' ev)"
    using parts(1) by (auto simp: validate_event_identity_def Let_def split: if_splits json.splits)
  have prev: "prev = json_text (get_or_null ''previous_hash'' ev)"
    using parts(3) by (auto simp: validate_payload_fields_def Let_def split: if_splits)
  have scalars: "scalar_ok (get_or_null name ev)" if "name \<in> set audit_scalar_fields" for name
    using parts(2) that unfolding validate_scalar_fields_def
    by (auto split: option.splits simp: find_None_iff)
  have fields: "event_field event k = get_or_null k ev" for k by (simp add: event_field_def ev(1))
  show ?thesis
  proof (rule that [OF ev])
    show "json_finite event" "content = utf8_encode (json_dumps compact_utf8 event)"
      "length content \<le> max_audit_event_bytes" "digest = sha256_hex content"
      using parts(5) unfolding ev(1) by (auto simp: serialize_content_def canonical_json_def Let_def outcome_simps
          split: if_splits simp del: json_finite.simps)
    show "json_text (event_field event ''event_hash'') = text_hash (json_text (event_field event ''previous_hash'')
       @ json_dumps compact_ascii (chain_body ev))"
      using parts(4) ident(7) prev unfolding fields by (simp add: verify_chain_hash_def outcome_simps)
  qed (use ident parts(6) scalars fields in simp_all)
qed

section \<open>The contract\<close>

text \<open>
  What the export worker needs of an archive: an acknowledgement names the key and the digest of the event's
  canonical text, bytes with that digest are there, objects never change, and repeating is safe.
\<close>

locale audit_backend =
  fixes persist :: "json \<Rightarrow> 'st \<Rightarrow> stored_object outcome \<times> 'st"
    and lookup :: "'st \<Rightarrow> string \<Rightarrow> byte list option"
  assumes archived:
      "persist ev st = (Inr ob, st') \<Longrightarrow>
         (\<exists>content b. serialize_event ev = Inr (content, so_sha256 ob, object_key ob) \<and> size_bytes ob = length content
            \<and> lookup st' (object_key ob) = Some b \<and> sha256_hex b = so_sha256 ob)"
    and append_only: "persist ev st = (r, st') \<Longrightarrow> lookup st k = Some b \<Longrightarrow> lookup st' k = Some b"
    and archived_again: "persist ev st = (Inr ob, st') \<Longrightarrow> persist ev st' = (Inr ob, st')"
begin

fun archive_all :: "json list \<Rightarrow> 'st \<Rightarrow> 'st" where
  "archive_all [] st = st"
| "archive_all (e # es) st = archive_all es (snd (persist e st))"

lemma archived_objects_stay: "lookup st k = Some b \<Longrightarrow> lookup (archive_all es st) k = Some b"
  by (induction es arbitrary: st) (auto simp: append_only [OF prod.collapse [symmetric]])

lemma acknowledged_event_stays:
  assumes "persist ev st = (Inr ob, st')"
  shows "\<exists>content b. serialize_event ev = Inr (content, so_sha256 ob, object_key ob) \<and> size_bytes ob = length content
    \<and> lookup (archive_all es st') (object_key ob) = Some b \<and> sha256_hex b = sha256_hex content"
proof -
  obtain content b where "serialize_event ev = Inr (content, so_sha256 ob, object_key ob)" "size_bytes ob = length content"
    "lookup st' (object_key ob) = Some b" "sha256_hex b = so_sha256 ob" using archived [OF assms] by blast
  moreover from this(1) have "so_sha256 ob = sha256_hex content" by (rule serialize_event_ok)
  ultimately show ?thesis using archived_objects_stay [of st'] by fastforce
qed

end

interpretation ma: audit_backend memory_archive "\<lambda>m. m"
proof
  fix ev m ob m' assume ok: "memory_archive ev m = (Inr ob, m')"
  then obtain content digest key b where s: "serialize_event ev = Inr (content, digest, key)"
    "create_only key content m = (b, m')" "sha256_hex b = digest"
    "ob = \<lparr>object_key = key, so_sha256 = digest, size_bytes = length content, etag = digest\<rparr>"
    by (auto simp: memory_archive_def split: sum.splits prod.splits if_splits)
  then show "\<exists>content b. serialize_event ev = Inr (content, so_sha256 ob, object_key ob) \<and> size_bytes ob = length content
      \<and> m' (object_key ob) = Some b \<and> sha256_hex b = so_sha256 ob"
    by (auto dest: create_only_lookup)
  from s show "memory_archive ev m' = (Inr ob, m')"
    by (simp add: memory_archive_def create_only_again [OF s(2)])
next
  fix ev m r m' k b assume "memory_archive ev m = (r, m')" "m k = Some b"
  then show "m' k = Some b"
    by (auto simp: memory_archive_def create_only_def split: sum.splits prod.splits if_splits option.splits)
qed

interpretation la: audit_backend local_archive "\<lambda>m. m"
proof
  fix ev m ob m' assume ok: "local_archive ev m = (Inr ob, m')"
  then obtain content digest key b where s: "serialize_event ev = Inr (content, digest, key)"
    "create_only key content m = (b, m')" "length b = length content" "sha256_hex b = digest"
    "ob = \<lparr>object_key = key, so_sha256 = digest, size_bytes = length content, etag = digest\<rparr>"
    by (auto simp: local_archive_def split: sum.splits prod.splits if_splits)
  then show "\<exists>content b. serialize_event ev = Inr (content, so_sha256 ob, object_key ob) \<and> size_bytes ob = length content
      \<and> m' (object_key ob) = Some b \<and> sha256_hex b = so_sha256 ob"
    by (auto dest: create_only_lookup)
  from s show "local_archive ev m' = (Inr ob, m')"
    by (simp add: local_archive_def create_only_again [OF s(2)])
next
  fix ev m r m' k b assume "local_archive ev m = (r, m')" "m k = Some b"
  then show "m' k = Some b"
    by (auto simp: local_archive_def create_only_def split: sum.splits prod.splits if_splits option.splits)
qed

end
