(* ===== verification/Audit_Delivery.thy ===== *)
theory Audit_Delivery
  imports Governance_Types Leased_Queue Audit_Archive
begin

text \<open>
  Delivery of the audit exports (\<open>audit_delivery.py\<close>): the queue over the table \<open>audit_exports\<close>
  and the worker that archives its events. The queue is an instance of \<open>ordered_table\<close>. Unlike the
  outbox, \<open>fail\<close> does not ask that the lease still runs.
\<close>

section \<open>The queue\<close>

definition unarchived_before :: "export_row list \<Rightarrow> export_row \<Rightarrow> bool" where
  "unarchived_before t r =
     list_ex (\<lambda>e. xp_finding e = xp_finding r \<and> xp_seq e < xp_seq r \<and> xp_archived e = None) t"

definition export_ready :: "int \<Rightarrow> export_row list \<Rightarrow> export_row \<Rightarrow> bool" where
  "export_ready now t r =
     (xp_archived r = None \<and> xp_dead r = None \<and> xp_available r \<le> now
      \<and> (xp_locked_until r = None \<or> col_le (xp_locked_until r) now) \<and> \<not> unarchived_before t r)"

definition export_order :: "export_row \<Rightarrow> int \<times> string" where
  "export_order r = (xp_created r, xp_id r)"

definition export_grant :: "string \<times> string \<Rightarrow> int \<Rightarrow> export_row \<Rightarrow> export_row" where
  "export_grant h until r = r\<lparr>xp_attempts := xp_attempts r + 1, xp_locked_until := Some until,
     xp_worker := Some (fst h), xp_token := Some (snd h)\<rparr>"

definition claim_export ::
    "string \<Rightarrow> int \<Rightarrow> int \<Rightarrow> string \<Rightarrow> export_row list \<Rightarrow> export_row option outcome \<times> export_row list" where
  "claim_export worker lease_seconds now token t =
     (if py_strip worker = [] \<or> lease_seconds \<le> 0
      then (Inl (ValueError ''worker_id and a positive lease_seconds are required''), t)
      else (case claim_row xp_id export_order (export_ready now t)
                   (export_grant (worker, token) (now + seconds lease_seconds)) t of
              (r, t') \<Rightarrow> (Inr r, t')))"

definition export_open :: "string option \<Rightarrow> string option \<Rightarrow> export_row \<Rightarrow> bool" where
  "export_open worker token r = (xp_archived r = None \<and> xp_dead r = None
     \<and> col_eq (xp_worker r) worker \<and> col_eq (xp_token r) token)"

definition export_held :: "string option \<Rightarrow> string option \<Rightarrow> int \<Rightarrow> export_row \<Rightarrow> bool" where
  "export_held worker token now r = (export_open worker token r \<and> col_gt (xp_locked_until r) now)"

definition export_archive :: "stored_object \<Rightarrow> int \<Rightarrow> export_row \<Rightarrow> export_row" where
  "export_archive ob now r = r\<lparr>xp_archived := Some now, xp_object_key := Some (object_key ob),
     xp_sha256 := Some (so_sha256 ob), xp_size := Some (int (size_bytes ob)), xp_etag := Some (etag ob),
     xp_locked_until := None, xp_worker := None, xp_token := None, xp_error := None\<rparr>"

definition acknowledge_export ::
    "export_row \<Rightarrow> stored_object \<Rightarrow> int \<Rightarrow> export_row list \<Rightarrow> bool \<times> export_row list" where
  "acknowledge_export item ob now t =
     update_row xp_id (xp_id item) (export_held (xp_worker item) (xp_token item) now) (export_archive ob now) t"

definition export_retry :: "bool \<Rightarrow> int \<Rightarrow> int \<Rightarrow> export_row \<Rightarrow> export_row" where
  "export_retry dead delay now r = r\<lparr>xp_available := now + seconds delay, xp_dead := (if dead then Some now else None),
     xp_locked_until := None, xp_worker := None, xp_token := None, xp_error := Some ''audit archive delivery failed''\<rparr>"

definition fail_export ::
    "export_row \<Rightarrow> int \<Rightarrow> int \<Rightarrow> int \<Rightarrow> export_row list \<Rightarrow> string outcome \<times> export_row list" where
  "fail_export item max_attempts retry_delay now t =
     (if max_attempts < 1 \<or> retry_delay < 0 then (Inl (ValueError ''audit retry policy is invalid''), t)
      else (let dead = max_attempts \<le> int (xp_attempts item) in
        case update_row xp_id (xp_id item) (export_open (xp_worker item) (xp_token item))
               (export_retry dead retry_delay now) t of
          (ok, t') \<Rightarrow> (Inr (if \<not> ok then ''stale'' else if dead then ''dead'' else ''retry''), t')))"

record export_metrics =
  xm_archived :: nat
  xm_pending :: nat
  xm_dead :: nat

definition export_metrics_of :: "export_row list \<Rightarrow> export_metrics" where
  "export_metrics_of t =
     \<lparr>xm_archived = count_rows (\<lambda>r. xp_archived r \<noteq> None) t,
      xm_pending = count_rows (\<lambda>r. xp_archived r = None \<and> xp_dead r = None) t,
      xm_dead = count_rows (\<lambda>r. xp_dead r \<noteq> None) t\<rparr>"

definition export_reset :: "int \<Rightarrow> export_row \<Rightarrow> export_row" where
  "export_reset now r = r\<lparr>xp_attempts := 0, xp_available := now, xp_dead := None, xp_locked_until := None,
     xp_worker := None, xp_token := None, xp_error := None\<rparr>"

definition requeue_export ::
    "string \<Rightarrow> string \<Rightarrow> int \<Rightarrow> export_row list \<Rightarrow> bool outcome \<times> export_row list" where
  "requeue_export xid confirmation now t =
     (if \<not> hex_id32 xid then (Inl (ValueError ''export_id is invalid''), t)
      else if confirmation \<noteq> ''REQUEUE '' @ xid
        then (Inl (PermissionError ''exact dead-letter requeue confirmation is required''), t)
      else (case update_row xp_id xid (\<lambda>r. xp_archived r = None \<and> xp_dead r \<noteq> None) (export_reset now) t of
              (ok, t') \<Rightarrow> (Inr ok, t')))"

section \<open>The worker\<close>

definition archive_item ::
    "(json \<Rightarrow> 'a \<Rightarrow> stored_object outcome \<times> 'a) \<Rightarrow> export_row \<Rightarrow> int \<Rightarrow> export_row list \<Rightarrow> 'a
       \<Rightarrow> string option \<times> export_row list \<times> 'a" where
  "archive_item persist item now t ar =
     (case json_loads (xp_payload item) of
        None \<Rightarrow> (None, t, ar)
      | Some event \<Rightarrow>
          (case persist event ar of
             (Inl e, ar') \<Rightarrow> (None, t, ar')
           | (Inr ob, ar') \<Rightarrow>
               (case acknowledge_export item ob now t of
                  (ok, t') \<Rightarrow> (Some (if ok then ''archived'' else ''stale''), t', ar'))))"

text \<open>
  \<open>clk\<close> gives the clock readings of a pass in their order: the claim, then the acknowledgement or the
  failure. A caller that passes \<open>now\<close> makes them equal.
\<close>

definition export_run_once ::
    "(json \<Rightarrow> 'a \<Rightarrow> stored_object outcome \<times> 'a) \<Rightarrow> string \<Rightarrow> int \<Rightarrow> int \<Rightarrow> int \<Rightarrow> (nat \<Rightarrow> int) \<Rightarrow> string
       \<Rightarrow> export_row list \<Rightarrow> 'a \<Rightarrow> string outcome \<times> export_row list \<times> 'a" where
  "export_run_once persist worker lease_seconds max_attempts retry_delay clk token t ar =
     (case claim_export worker lease_seconds (clk 0) token t of
        (Inl e, t1) \<Rightarrow> (Inl e, t1, ar)
      | (Inr None, t1) \<Rightarrow> (Inr ''empty'', t1, ar)
      | (Inr (Some item), t1) \<Rightarrow>
          (case archive_item persist item (clk 1) t1 ar of
             (Some result, t2, ar') \<Rightarrow> (Inr result, t2, ar')
           | (None, t2, ar') \<Rightarrow>
               (case fail_export item max_attempts retry_delay (clk 1) t2 of (r, t3) \<Rightarrow> (r, t3, ar'))))"

section \<open>The lease contract\<close>

definition export_lease :: "export_row \<Rightarrow> ((string \<times> string) \<times> int) option" where
  "export_lease r =
     (if xp_archived r = None \<and> xp_dead r = None then
        (case (xp_locked_until r, xp_worker r, xp_token r) of
           (Some e, Some w, Some k) \<Rightarrow> Some ((w, k), e)
         | _ \<Rightarrow> None)
      else None)"

lemma export_lease_iff:
  "export_lease r = Some (h, e) \<longleftrightarrow> xp_archived r = None \<and> xp_dead r = None
     \<and> xp_locked_until r = Some e \<and> xp_worker r = Some (fst h) \<and> xp_token r = Some (snd h)"
  by (cases h) (auto simp: export_lease_def split: option.splits)

definition export_done :: "export_row \<Rightarrow> bool" where
  "export_done r = (xp_archived r \<noteq> None)"

definition export_held_by :: "string \<times> string \<Rightarrow> int \<Rightarrow> export_row \<Rightarrow> bool" where
  "export_held_by h now r = export_held (Some (fst h)) (Some (snd h)) now r"

text \<open>A row whose holder may give it back; a claimed row always has an expiry time.\<close>

definition export_open_by :: "string \<times> string \<Rightarrow> int \<Rightarrow> export_row \<Rightarrow> bool" where
  "export_open_by h now r = (export_open (Some (fst h)) (Some (snd h)) r \<and> xp_locked_until r \<noteq> None)"

definition requeue_rows :: "string \<times> string \<times> int \<Rightarrow> export_row list \<Rightarrow> export_row list" where
  "requeue_rows z t = snd (requeue_export (fst z) (fst (snd z)) (snd (snd z)) t)"

lemma export_columns [simp]:
  "xp_id (export_grant h e r) = xp_id r" "xp_id (export_archive ob now r) = xp_id r"
  "xp_id (export_retry dead d now r) = xp_id r" "xp_id (export_reset now r) = xp_id r"
  "xp_finding (export_grant h e r) = xp_finding r" "xp_finding (export_archive ob now r) = xp_finding r"
  "xp_finding (export_retry dead d now r) = xp_finding r" "xp_finding (export_reset now r) = xp_finding r"
  "xp_seq (export_grant h e r) = xp_seq r" "xp_seq (export_archive ob now r) = xp_seq r"
  "xp_seq (export_retry dead d now r) = xp_seq r" "xp_seq (export_reset now r) = xp_seq r"
  by (simp_all add: export_grant_def export_archive_def export_retry_def export_reset_def)

lemma requeue_rows_run:
  "requeue_rows z t = t \<or> requeue_rows z t =
     update_where (\<lambda>r. xp_id r = fst z \<and> xp_archived r = None \<and> xp_dead r \<noteq> None) (export_reset (snd (snd z))) t"
  by (auto simp: requeue_rows_def requeue_export_def update_row_def)

lemma requeue_rows_ordered:
  "rows_in_order (\<lambda>r. export_done r \<or> export_lease r \<noteq> None) export_done xp_finding xp_seq t \<Longrightarrow>
   rows_in_order (\<lambda>r. export_done r \<or> export_lease r \<noteq> None) export_done xp_finding xp_seq (requeue_rows z t)"
proof -
  assume ok: "rows_in_order (\<lambda>r. export_done r \<or> export_lease r \<noteq> None) export_done xp_finding xp_seq t"
  have "rows_in_order (\<lambda>r. export_done r \<or> export_lease r \<noteq> None) export_done xp_finding xp_seq
    (update_where (\<lambda>r. xp_id r = fst z \<and> xp_archived r = None \<and> xp_dead r \<noteq> None) (export_reset (snd (snd z))) t)"
    unfolding update_where_def
    by (rule rows_in_order_map [OF ok]) (auto simp: export_done_def export_lease_def export_reset_def split: if_splits)
  then show ?thesis using requeue_rows_run [of z t] ok by (elim disjE) (simp_all only:)
qed

interpretation xq: ordered_table xp_id export_order export_ready export_grant export_lease export_done
  export_held_by export_archive export_open_by "\<lambda>(dead, delay). export_retry dead delay" requeue_rows xp_finding xp_seq
proof
  fix now t r r'
  assume "export_ready now t r" "r' \<in> set t" "xp_finding r' = xp_finding r" "xp_seq r' < xp_seq r"
  then show "export_done r'" by (auto simp: export_ready_def unarchived_before_def list_ex_iff export_done_def)
next
  fix t z
  show "distinct (map xp_id t) \<Longrightarrow> distinct (map xp_id (requeue_rows z t))"
    using requeue_rows_run [of z t] by (auto simp: map_update_where)
  show "rows_in_order (\<lambda>r. export_done r \<or> export_lease r \<noteq> None) export_done xp_finding xp_seq t \<Longrightarrow>
    rows_in_order (\<lambda>r. export_done r \<or> export_lease r \<noteq> None) export_done xp_finding xp_seq (requeue_rows z t)"
    by (rule requeue_rows_ordered)
  show "export_done r \<Longrightarrow> export_lease r = None" for r by (auto simp: export_done_def export_lease_def)
  fix r assume "r \<in> set t" "export_lease r \<noteq> None \<or> export_done r"
  then show "r \<in> set (requeue_rows z t)"
    using requeue_rows_run [of z t]
    by (auto simp: export_lease_def export_done_def intro!: update_where_keeps split: if_splits)
qed (auto simp: export_ready_def export_lease_iff export_done_def export_held_by_def export_held_def
    export_open_def export_open_by_def export_grant_def export_archive_def export_retry_def table_simps
    split: prod.splits)

end
