(* ===== verification/Export_Properties.thy ===== *)
theory Export_Properties
  imports Audit_Delivery
begin

text \<open>
  Properties of the audit export worker over any number of passes: what a row says was archived is in the
  archive, proved once in \<open>audit_backend\<close> and used for the process-local and the directory archive;
  events of a finding are archived in order; a dead export holds back its finding.
\<close>

section \<open>Passes\<close>

text \<open>Worker, lease, attempts, delay, clock readings and claim token of a pass.\<close>

type_synonym pass = "string \<times> int \<times> int \<times> int \<times> (nat \<Rightarrow> int) \<times> string"

fun run_passes ::
    "(json \<Rightarrow> 'a \<Rightarrow> stored_object outcome \<times> 'a) \<Rightarrow> pass list \<Rightarrow> export_row list \<Rightarrow> 'a \<Rightarrow> export_row list \<times> 'a" where
  "run_passes persist [] t ar = (t, ar)"
| "run_passes persist ((w, d, m, delay, clk, k) # ps) t ar =
     (case export_run_once persist w d m delay clk k t ar of (_, t', ar') \<Rightarrow> run_passes persist ps t' ar')"

lemma claim_export_item:
  assumes "claim_export w d now k t = (Inr (Some item), t')" and "distinct (map xp_id t)"
  obtains r where "r \<in> set t" "export_ready now t r" "item = export_grant (w, k) (now + seconds d) r"
    "item \<in> set t'" "distinct (map xp_id t')"
    "t' = update_where (\<lambda>x. xp_id x = xp_id r) (export_grant (w, k) (now + seconds d)) t"
proof -
  have c: "claim_row xp_id export_order (export_ready now t) (export_grant (w, k) (now + seconds d)) t = (Some item, t')"
    using assms(1) by (auto simp: claim_export_def split: if_splits prod.splits)
  then show ?thesis
  proof (elim claim_row_Some [OF _ assms(2)])
    fix r assume r: "r \<in> set t" "export_ready now t r" "item = export_grant (w, k) (now + seconds d) r"
      "t' = update_where (\<lambda>x. xp_id x = xp_id r) (export_grant (w, k) (now + seconds d)) t"
    have "item \<in> set t'" using r by (auto simp: table_simps)
    moreover have "map xp_id t' = map xp_id t" using r(4) by (simp add: map_update_where)
    ultimately show ?thesis using that r assms(2) by simp
  qed simp
qed

lemma claim_export_other:
  assumes "claim_export w d now k t = (r, t')" and "\<And>item. r \<noteq> Inr (Some item)"
  shows "t' = t"
  using assms by (auto simp: claim_export_def claim_row_def split: if_splits option.splits)

text \<open>The three ways a pass changes the table.\<close>

lemma pass_cases:
  assumes "export_run_once persist w d m delay clk k t ar = (res, t', ar')"
  obtains (idle) "t' = t" "ar' = ar"
  | (archived) item t1 event ob where "claim_export w d (clk 0) k t = (Inr (Some item), t1)"
      "json_loads (xp_payload item) = Some event" "persist event ar = (Inr ob, ar')"
      "t' = snd (acknowledge_export item ob (clk 1) t1)"
  | (failed) item t1 where "claim_export w d (clk 0) k t = (Inr (Some item), t1)"
      "ar' = ar \<or> (\<exists>event e. persist event ar = (Inl e, ar'))"
      "t' = t1 \<or> (\<exists>dead. t' = update_where (\<lambda>x. xp_id x = xp_id item \<and> export_open (xp_worker item) (xp_token item) x)
         (export_retry dead delay (clk 1)) t1)"
proof (cases "claim_export w d (clk 0) k t")
  case (Pair r t1)
  show ?thesis
  proof (cases "\<exists>item. r = Inr (Some item)")
    case False
    then have "t1 = t" using claim_export_other [OF Pair] by blast
    then show ?thesis using assms Pair False by (intro idle) (auto simp: export_run_once_def split: sum.splits option.splits)
  next
    case True
    then obtain item where claim: "claim_export w d (clk 0) k t = (Inr (Some item), t1)" using Pair by auto
    have fail: "snd (fail_export item m delay (clk 1) t1) = t1 \<or> (\<exists>dead. snd (fail_export item m delay (clk 1) t1) =
        update_where (\<lambda>x. xp_id x = xp_id item \<and> export_open (xp_worker item) (xp_token item) x) (export_retry dead delay (clk 1)) t1)"
      by (auto simp: fail_export_def update_row_def Let_def)
    show ?thesis
    proof (cases "json_loads (xp_payload item)")
      case None
      then show ?thesis
        using assms claim fail by (intro failed [OF claim]) (auto simp: export_run_once_def archive_item_def split: prod.splits)
    next
      case (Some event)
      show ?thesis
      proof (cases "fst (persist event ar)")
        case (Inl e)
        then have p: "persist event ar = (Inl e, snd (persist event ar))" by (metis prod.collapse)
        then show ?thesis using assms claim fail Some
          by (intro failed [OF claim]) (auto simp: export_run_once_def archive_item_def split: prod.splits)
      next
        case (Inr ob)
        then have p: "persist event ar = (Inr ob, snd (persist event ar))" by (metis prod.collapse)
        then show ?thesis using assms claim Some
          by (intro archived [OF claim Some, of ob]) (auto simp: export_run_once_def archive_item_def split: prod.splits)
      qed
    qed
  qed
qed

lemma pass_ids:
  assumes "export_run_once persist w d m delay clk k t ar = (res, t', ar')" and "distinct (map xp_id t)"
  shows "map xp_id t' = map xp_id t"
  using assms(1)
proof (cases rule: pass_cases)
  case (archived item t1 event ob)
  from archived(1) have "map xp_id t1 = map xp_id t"
    by (rule claim_export_item [OF _ assms(2)]) (simp add: map_update_where)
  then show ?thesis using archived(4) by (simp add: acknowledge_export_def update_row_def map_update_where)
next
  case (failed item t1)
  from failed(1) have "map xp_id t1 = map xp_id t"
    by (rule claim_export_item [OF _ assms(2)]) (simp add: map_update_where)
  then show ?thesis using failed(3) by (auto simp: map_update_where)
qed simp

section \<open>What is archived is in the archive\<close>

context audit_backend
begin

definition row_backed :: "'st \<Rightarrow> export_row \<Rightarrow> bool" where
  "row_backed st r = (xp_archived r = None \<or> (\<exists>event content digest key b.
     json_loads (xp_payload r) = Some event \<and> serialize_event event = Inr (content, digest, key)
     \<and> xp_object_key r = Some key \<and> xp_sha256 r = Some digest \<and> xp_size r = Some (int (length content))
     \<and> lookup st key = Some b \<and> sha256_hex b = digest))"

lemma row_backed_grows: "row_backed st r \<Longrightarrow> persist ev st = (x, st') \<Longrightarrow> row_backed st' r"
  unfolding row_backed_def using append_only by metis

lemma row_backed_columns:
  "row_backed st (export_grant h e r) = row_backed st r" "row_backed st (export_retry dead d now r) = row_backed st r"
  by (simp_all add: row_backed_def export_grant_def export_retry_def)

lemma row_backed_ack:
  assumes "persist event st = (Inr ob, st')" and "json_loads (xp_payload r) = Some event"
  shows "row_backed st' (export_archive ob now r)"
proof -
  obtain content b where "serialize_event event = Inr (content, so_sha256 ob, object_key ob)" "size_bytes ob = length content"
    "lookup st' (object_key ob) = Some b" "sha256_hex b = so_sha256 ob" using archived [OF assms(1)] by blast
  then show ?thesis using assms(2) by (simp add: row_backed_def export_archive_def)
qed

lemma pass_backed:
  assumes "export_run_once persist w d m delay clk k t st = (res, t', st')" and "distinct (map xp_id t)"
    and "\<forall>r \<in> set t. row_backed st r"
  shows "\<forall>r \<in> set t'. row_backed st' r"
  using assms(1)
proof (cases rule: pass_cases)
  case idle
  then show ?thesis using assms(3) by simp
next
  case (archived item t1 event ob)
  show ?thesis
  proof (rule claim_export_item [OF archived(1) assms(2)])
    fix r assume r: "item \<in> set t1" "distinct (map xp_id t1)"
      "t1 = update_where (\<lambda>x. xp_id x = xp_id r) (export_grant (w, k) (clk 0 + seconds d)) t"
    have "\<forall>x \<in> set t1. row_backed st x" using assms(3) unfolding r(3) by (auto simp: table_simps row_backed_columns)
    then have old: "\<forall>x \<in> set t1. row_backed st' x" using row_backed_grows [OF _ archived(3)] by blast
    have new: "row_backed st' (export_archive ob (clk 1) x)" if "x \<in> set t1" "xp_id x = xp_id item" for x
    proof -
      have "x = item" using key_unique [OF r(2) that(1) r(1) that(2)] .
      then show ?thesis using row_backed_ack [OF archived(3)] archived(2) by simp
    qed
    show ?thesis
      unfolding archived(4) acknowledge_export_def update_row_def snd_conv using old new by (auto simp: table_simps)
  qed
next
  case (failed item t1)
  show ?thesis
  proof (rule claim_export_item [OF failed(1) assms(2)])
    fix r assume r: "t1 = update_where (\<lambda>x. xp_id x = xp_id r) (export_grant (w, k) (clk 0 + seconds d)) t"
    have "\<forall>x \<in> set t1. row_backed st x" using assms(3) unfolding r by (auto simp: table_simps row_backed_columns)
    then have "\<forall>x \<in> set t1. row_backed st' x" using failed(2) row_backed_grows by blast
    then show ?thesis using failed(3) by (auto simp: table_simps row_backed_columns)
  qed
qed

lemma passes_backed:
  assumes "run_passes persist ps t st = (t', st')" and "distinct (map xp_id t)" and "\<forall>r \<in> set t. row_backed st r"
  shows "\<forall>r \<in> set t'. row_backed st' r"
  using assms
proof (induction ps arbitrary: t st)
  case (Cons p ps)
  obtain w d m delay clk k where p: "p = (w, d, m, delay, clk, k)" by (metis surj_pair)
  obtain res t1 st1 where run: "export_run_once persist w d m delay clk k t st = (res, t1, st1)" by (metis surj_pair)
  have "distinct (map xp_id t1)" using pass_ids [OF run Cons.prems(2)] Cons.prems(2) by simp
  moreover have "\<forall>r \<in> set t1. row_backed st1 r" by (rule pass_backed [OF run Cons.prems(2,3)])
  ultimately show ?case using Cons.IH [of t1 st1] Cons.prems(1) by (simp add: p run)
qed simp

end

text \<open>
  What the database calls archived is in the archive: after any passes of any workers over
  the local directory archive, starting with nothing archived, every export marked archived names
  an object that is there, whose SHA-256 hash is the recorded digest, which is the digest of the
  canonical text of the event in the row's payload.
\<close>

theorem archived_exports_are_stored:
  assumes "distinct (map xp_id t)" and "\<forall>r \<in> set t. xp_archived r = None"
    and "run_passes local_archive ps t m = (t', m')" and "r \<in> set t'" and "xp_archived r = Some now"
  shows "\<exists>event content key b. json_loads (xp_payload r) = Some event
    \<and> serialize_event event = Inr (content, sha256_hex content, key) \<and> xp_object_key r = Some key
    \<and> xp_sha256 r = Some (sha256_hex content) \<and> m' key = Some b \<and> sha256_hex b = sha256_hex content"
proof -
  have "\<forall>r \<in> set t. la.row_backed m r" using assms(2) by (simp add: la.row_backed_def)
  then have "la.row_backed m' r" using la.passes_backed [OF assms(3,1)] assms(4) by blast
  then obtain event content digest key b where b: "json_loads (xp_payload r) = Some event"
    "serialize_event event = Inr (content, digest, key)" "xp_object_key r = Some key" "xp_sha256 r = Some digest"
    "m' key = Some b" "sha256_hex b = digest" using assms(5) unfolding la.row_backed_def by auto
  moreover have "digest = sha256_hex content" using b(2) by (rule serialize_event_ok)
  ultimately show ?thesis by auto
qed

section \<open>Order\<close>

definition exports_in_order :: "export_row list \<Rightarrow> bool" where
  "exports_in_order t = (\<forall>r \<in> set t. \<forall>r' \<in> set t. xp_archived r \<noteq> None \<and> xp_finding r' = xp_finding r
     \<and> xp_seq r' < xp_seq r \<longrightarrow> xp_archived r' \<noteq> None)"

lemma ordered_exports: "xq.ordered t \<Longrightarrow> exports_in_order t"
proof -
  assume ord: "xq.ordered t"
  have "export_done r'" if "r \<in> set t" "r' \<in> set t" "export_done r" "xp_finding r' = xp_finding r" "xp_seq r' < xp_seq r" for r r'
    using ord that unfolding xq.ordered_def rows_in_order_def by blast
  then show ?thesis unfolding exports_in_order_def export_done_def by blast
qed

lemma ordered_open:
  assumes "xq.ordered t" and "item \<in> set t" and "distinct (map xp_id t)" and "xp_locked_until item \<noteq> None"
  shows "xq.ordered (update_where (\<lambda>x. xp_id x = xp_id item \<and> export_open (xp_worker item) (xp_token item) x)
    (export_retry dead delay now) t)"
proof (cases "\<exists>w k. xp_worker item = Some w \<and> xp_token item = Some k")
  case True
  then obtain w k where wk: "xp_worker item = Some w" "xp_token item = Some k" by blast
  have "x = item" if "x \<in> set t" "xp_id x = xp_id item" for x using key_unique [OF assms(3) that(1) assms(2) that(2)] .
  then have "update_where (\<lambda>x. xp_id x = xp_id item \<and> export_open (Some w) (Some k) x) (export_retry dead delay now) t =
    update_where (\<lambda>x. xp_id x = xp_id item \<and> export_open_by (w, k) now x) (export_retry dead delay now) t"
    unfolding update_where_def export_open_by_def using assms(4) by (intro map_cong refl) fastforce
  then show ?thesis
    using xq.ordered_release [OF assms(1), of "xp_id item" "(w, k)" now "(dead, delay)"]
    by (simp add: xq.table_release_def update_row_def wk)
next
  case False
  then have "update_where (\<lambda>x. xp_id x = xp_id item \<and> export_open (xp_worker item) (xp_token item) x)
      (export_retry dead delay now) t = t"
    by (intro update_where_none) (auto simp: export_open_def table_simps)
  then show ?thesis using assms(1) by simp
qed

lemma pass_ordered:
  assumes "export_run_once persist w d m delay clk k t ar = (res, t', ar')" and "distinct (map xp_id t)" and "xq.ordered t"
  shows "xq.ordered t'"
proof -
  have claimed: "xq.ordered t1" if "claim_export w d now k t = (Inr (Some item), t1)" for now item t1
    using xq.ordered_claim [OF assms(3,2), of "(w, k)" "seconds d" now] that
    by (auto simp: claim_export_def xq.table_claim_def split: if_splits prod.splits)
  from assms(1) show ?thesis
  proof (cases rule: pass_cases)
    case (archived item t1 event ob)
    obtain x where item: "item = export_grant (w, k) (clk 0 + seconds d) x"
      using claim_export_item [OF archived(1) assms(2)] by metis
    show ?thesis
      using xq.ordered_finish [OF claimed [OF archived(1)], of "xp_id item" "(w, k)" "clk 1" ob, unfolded xq.table_finish_def]
      by (simp add: archived(4) acknowledge_export_def export_held_by_def [abs_def] item export_grant_def)
  next
    case (failed item t1)
    obtain x where item: "item = export_grant (w, k) (clk 0 + seconds d) x" "item \<in> set t1" "distinct (map xp_id t1)"
      using claim_export_item [OF failed(1) assms(2)] by metis
    then have "xp_locked_until item \<noteq> None" by (simp add: export_grant_def)
    then show ?thesis using failed(3) claimed [OF failed(1)] ordered_open item(2,3) by blast
  qed (use assms(3) in simp)
qed

text \<open>
  Events are archived in order: whatever passes workers make, with any archive and any
  clocks, no event of a finding is archived before an event of the finding with a lower sequence number.
\<close>

lemma exports_are_archived_in_order:
  assumes "distinct (map xp_id t)" and "\<forall>r \<in> set t. xp_archived r = None \<and> xp_locked_until r = None"
  shows "exports_in_order (fst (run_passes persist ps t ar))"
proof -
  have "xq.ordered (fst (run_passes persist ps t ar))" if "distinct (map xp_id t)" "xq.ordered t" for t
    using that
  proof (induction ps arbitrary: t ar)
    case (Cons p ps)
    obtain w d m delay clk k where p: "p = (w, d, m, delay, clk, k)" by (metis surj_pair)
    obtain res t1 ar1 where run: "export_run_once persist w d m delay clk k t ar = (res, t1, ar1)" by (metis surj_pair)
    have "distinct (map xp_id t1)" using pass_ids [OF run Cons.prems(1)] Cons.prems(1) by simp
    moreover have "xq.ordered t1" by (rule pass_ordered [OF run Cons.prems])
    ultimately show ?case using Cons.IH by (simp add: p run)
  qed simp
  moreover have "xq.ordered t"
    using assms(2) by (auto simp: xq.ordered_def rows_in_order_def export_done_def export_lease_iff)
  ultimately show ?thesis using assms(1) ordered_exports by blast
qed

text \<open>
  Progress: when the first ready export's event is accepted by the archive and the acknowledgement comes before the
  lease ends, one pass answers archived and marks that row.
\<close>

lemma worker_archives_ready_export:
  assumes "distinct (map xp_id t)" and "py_strip w \<noteq> []" and "0 < d"
    and "select_first export_order (export_ready (clk 0) t) t = Some r"
    and "json_loads (xp_payload r) = Some event" and "persist event ar = (Inr ob, ar')"
    and "clk 1 < clk 0 + seconds d"
  shows "\<exists>t'. export_run_once persist w d m delay clk k t ar = (Inr ''archived'', t', ar')
    \<and> (\<exists>r' \<in> set t'. xp_id r' = xp_id r \<and> xp_archived r' = Some (clk 1) \<and> xp_object_key r' = Some (object_key ob))"
proof -
  let ?g = "export_grant (w, k) (clk 0 + seconds d)"
  let ?t1 = "update_where (\<lambda>x. xp_id x = xp_id r) ?g t"
  have claim: "claim_export w d (clk 0) k t = (Inr (Some (?g r)), ?t1)"
    using assms(2-4) by (simp add: claim_export_def claim_row_def)
  have x: "?g r \<in> set ?t1" "distinct (map xp_id ?t1)"
    by (rule claim_export_item [OF claim assms(1)], simp)+
  have ready: "export_ready (clk 0) t r" by (rule select_first_Some(2) [OF assms(4)])
  have held: "export_held (Some w) (Some k) (clk 1) (?g r)"
    using ready assms(7) by (simp add: export_held_def export_open_def export_ready_def export_grant_def)
  have cols: "xp_worker (?g r) = Some w" "xp_token (?g r) = Some k" "xp_payload (?g r) = xp_payload r"
    by (simp_all add: export_grant_def)
  have "rowcount (\<lambda>x. xp_id x = xp_id (?g r) \<and> export_held (Some w) (Some k) (clk 1) x) ?t1 = 1"
    using rowcount_key [OF x(2), of "xp_id (?g r)" "export_held (Some w) (Some k) (clk 1)"] x(1) held by blast
  then have ack: "acknowledge_export (?g r) ob (clk 1) ?t1 = (True, update_where
      (\<lambda>x. xp_id x = xp_id (?g r) \<and> export_held (Some w) (Some k) (clk 1) x) (export_archive ob (clk 1)) ?t1)"
    by (simp add: acknowledge_export_def update_row_def cols)
  have "export_archive ob (clk 1) (?g r) \<in> set (snd (acknowledge_export (?g r) ob (clk 1) ?t1))"
    unfolding ack using x(1) held by (force simp: table_simps)
  moreover have "export_run_once persist w d m delay clk k t ar =
      (Inr ''archived'', snd (acknowledge_export (?g r) ob (clk 1) ?t1), ar')"
    using claim ack assms(5,6) cols(3) by (simp add: export_run_once_def archive_item_def)
  ultimately show ?thesis by (auto simp: export_archive_def intro!: bexI [of _ "export_archive ob (clk 1) (?g r)"])
qed

end
