(* ===== verification/Delivery_System.thy ===== *)
theory Delivery_System
  imports Governance_Chain Outbox_Properties Export_Properties Audit_Log_Properties
begin

text \<open>
  The governance core together with its two delivery queues: operations of the core, operations
  of outbox workers and passes of export workers interleave on one database. Every such run is a history of
  the core, messages of a finding leave in the order of its events, and an event that the core
  recorded passes the checks of the outbox and of the archive when its identifiers and its size are within their limits.
\<close>

section \<open>Interleaved runs\<close>

text \<open>An operation of the core adds rows to the queues and does not touch the ones there.\<close>

definition adds_rows :: "gov \<Rightarrow> gov \<Rightarrow> bool" where
  "adds_rows s s' = ((\<exists>xs. outbox s' = outbox s @ xs) \<and> (\<exists>ys. exports s' = exports s @ ys))"

inductive system :: "gov list \<Rightarrow> bool" where
  sys_start: "system [empty_gov]"
| sys_core: "system (s # hs) \<Longrightarrow> r \<in> set (s # hs) \<Longrightarrow> gov_step r s s' \<Longrightarrow> adds_rows s s' \<Longrightarrow> system (s' # s # hs)"
| sys_outbox: "system (s # hs) \<Longrightarrow> system (s\<lparr>outbox := run_outbox_op q (outbox s)\<rparr> # s # hs)"
| sys_export: "system (s # hs) \<Longrightarrow>
    system (s\<lparr>exports := fst (run_passes local_archive [p] (exports s) m)\<rparr> # s # hs)"

lemma same_message_refl [simp]: "same_message r r"
  by (simp add: same_message_def)

lemma same_export_refl [simp]: "same_export x x"
  by (simp add: same_export_def)

lemma same_rows_update:
  "(\<And>r. same_message r (f r)) \<Longrightarrow> list_all2 same_message t (update_where P f t)"
  "(\<And>x. same_export x (g x)) \<Longrightarrow> list_all2 same_export u (update_where Q g u)"
  by (simp_all add: update_where_def list_all2_map2 list_all2_same)

lemma outbox_op_same: "list_all2 same_message t (run_outbox_op q t)"
  using run_outbox_change [of t q]
  by (cases rule: outbox_change.cases)
    (auto simp: same_message_def outbox_grant_def outbox_deliver_def outbox_retry_def outbox_reset_def list_all2_same
      intro!: same_rows_update(1))

lemma export_rows_same [simp]:
  "same_export x (export_grant h e x)" "same_export x (export_archive ob now x)" "same_export x (export_retry dead d now x)"
  by (simp_all add: same_export_def export_grant_def export_archive_def export_retry_def)

lemma same_export_trans: "same_export x y \<Longrightarrow> same_export y z \<Longrightarrow> same_export x z"
  by (simp add: same_export_def)

lemma export_pass_same:
  assumes "distinct (map xp_id t)"
  shows "list_all2 same_export t (fst (run_passes persist [p] t ar))"
proof -
  obtain w d m delay clk k where p: "p = (w, d, m, delay, clk, k)" by (metis surj_pair)
  obtain res t' ar' where run: "export_run_once persist w d m delay clk k t ar = (res, t', ar')" by (metis surj_pair)
  have claimed: "list_all2 same_export t t1" if "claim_export w d (clk 0) k t = (Inr (Some item), t1)" for item t1
    using that by (rule claim_export_item [OF _ assms]) (simp add: same_rows_update(2))
  have trans: "list_all2 same_export xs zs" if "list_all2 same_export xs ys" "list_all2 same_export ys zs" for xs ys zs
    using list_all2_trans [OF _ that] same_export_trans by blast
  from run have "list_all2 same_export t t'"
  proof (cases rule: pass_cases)
    case (archived item t1 event ob)
    have "list_all2 same_export t1 t'"
      unfolding archived(4) acknowledge_export_def update_row_def snd_conv by (rule same_rows_update(2)) simp
    then show ?thesis using trans claimed [OF archived(1)] by blast
  next
    case (failed item t1)
    have "list_all2 same_export t1 t'" using failed(3) same_rows_update(2) by (auto simp: list_all2_same)
    then show ?thesis using trans claimed [OF failed(1)] by blast
  qed (simp add: list_all2_same)
  then show ?thesis by (simp add: p run)
qed

section \<open>The invariant of the queues\<close>

definition queues_ok :: "gov \<Rightarrow> bool" where
  "queues_ok s = (distinct (map ob_id (outbox s)) \<and> in_order (outbox s)
     \<and> distinct (map xp_id (exports s)) \<and> xq.ordered (exports s))"

lemma recorded_seq:
  assumes "log_inv s" and "e \<in> set (events s)"
  shows "ge_seq e < next_sequence (ge_finding e) (events s)"
proof -
  let ?xs = "events_for (ge_finding e) (events s)"
  have ok: "events_ok (ge_finding e) (events s)" using assms(1) by (simp add: log_inv_def)
  then have "map ge_seq ?xs = [1..<Suc (length ?xs)]" by (simp only: events_ok_def Let_def)
  moreover have "ge_seq e \<in> set (map ge_seq ?xs)" using assms(2) by (auto simp: events_for_def)
  ultimately have "ge_seq e \<in> {1..<Suc (length ?xs)}" by (simp del: upt_Suc)
  then show ?thesis using next_sequence_ok [OF ok] by simp
qed

lemma list_all2_right: "list_all2 P xs ys \<Longrightarrow> y \<in> set ys \<Longrightarrow> \<exists>x \<in> set xs. P x y"
  by (induction rule: list_all2_induct) auto

lemma queues_ok_writes:
  assumes "log_inv s" and "queues_ok s" and "writes_event s s' fid"
  shows "queues_ok s'"
proof -
  obtain env etype a d now b where log: "loggable env fid etype a d now b"
    and b: "events b = events s" "outbox b = outbox s" "exports b = exports s"
    and s': "outbox s' = outbox (log_event env fid etype a d now b)" "exports s' = exports (log_event env fid etype a d now b)"
    using assms(3) unfolding writes_event_def by blast
  obtain e r x where rows: "event_rows env fid etype a d now (events s) = (e, r, x)" by (metis surj_pair)
  have new: "outbox s' = outbox s @ [r]" "exports s' = exports s @ [x]"
    using s' b rows by (simp_all add: log_event_def append_rows_def)
  have cols: "ob_finding r = fid" "ob_seq r = next_sequence fid (events s)" "ob_delivered r = None" "outbox_lease r = None"
    "xp_finding x = fid" "xp_seq x = next_sequence fid (events s)" "\<not> export_done x" "export_lease x = None"
    using rows by (auto simp: event_rows_def Let_def new_outbox_def new_export_def outbox_lease_def export_lease_def
        export_done_def new_event_columns)
  have fresh: "ob_id r \<notin> ob_id ` set (outbox s)" "xp_id x \<notin> xp_id ` set (exports s)"
    using log b rows by (auto simp: loggable_def fresh_rows_def)
  have ob: "ob_seq y < ob_seq r" if "y \<in> set (outbox s)" "ob_finding y = ob_finding r" for y
  proof -
    have "list_all2 published (events s) (outbox s)" using assms(1) by (simp add: log_inv_def)
    from list_all2_right [OF this that(1)] obtain e' where "e' \<in> set (events s)" "published e' y" by blast
    then show ?thesis using recorded_seq [OF assms(1)] that(2) cols by (force simp: published_def)
  qed
  have xp: "xp_seq y < xp_seq x" if "y \<in> set (exports s)" "xp_finding y = xp_finding x" for y
  proof -
    have "list_all2 exported (events s) (exports s)" using assms(1) by (simp add: log_inv_def)
    from list_all2_right [OF this that(1)] obtain e' where "e' \<in> set (events s)" "exported e' y" by blast
    then show ?thesis using recorded_seq [OF assms(1)] that(2) cols by (force simp: exported_def)
  qed
  have "in_order (outbox s @ [r])"
    using assms(2) cols(3,4) ob unfolding queues_ok_def in_order_def by (intro rows_in_order_append) auto
  moreover have "xq.ordered (exports s @ [x])"
    using assms(2) cols(7,8) xp unfolding queues_ok_def xq.ordered_def by (intro rows_in_order_append) auto
  ultimately show ?thesis using assms(2) fresh by (simp add: queues_ok_def new)
qed

lemma same_rows_prefix: "list_all2 P t (t @ xs) \<Longrightarrow> xs = []"
  by (drule list_all2_lengthD) simp

lemma queues_ok_core:
  assumes "gov_step r s s'" and "adds_rows s s'" and "log_inv s" and "queues_ok s"
  shows "queues_ok s'"
  using gov_step_effect [OF assms(1)]
proof cases
  case (eff_delivery ob xs)
  then have "outbox s' = outbox s" "exports s' = exports s"
    using assms(2) by (auto simp: adds_rows_def dest: same_rows_prefix)
  then show ?thesis using assms(4) by (simp add: queues_ok_def)
qed (use assms(3,4) queues_ok_writes in auto)

lemma system_inv: "system hs \<Longrightarrow> history hs \<and> (\<forall>s \<in> set hs. queues_ok s)"
proof (induction rule: system.induct)
  case sys_start
  have "queues_ok empty_gov"
    by (simp add: queues_ok_def empty_gov_def in_order_def xq.ordered_def rows_in_order_def)
  then show ?case by (simp add: history_empty)
next
  case (sys_core s hs r s')
  then show ?case
    using history_step queues_ok_core history_log_inv [of "s # hs" s] by auto
next
  case (sys_outbox s hs q)
  let ?s' = "s\<lparr>outbox := run_outbox_op q (outbox s)\<rparr>"
  have "gov_step s s ?s'"
    using step_delivery [OF outbox_op_same [of "outbox s" q], where xs = "exports s" and r = s]
    by (simp add: list_all2_same)
  moreover have "queues_ok ?s'"
    using sys_outbox in_order_op [of "outbox s" q] outbox_change_ids [OF run_outbox_change, of q "outbox s"]
    by (simp add: queues_ok_def)
  ultimately show ?case using sys_outbox history_step [of s hs s] by auto
next
  case (sys_export s hs p m)
  let ?t = "fst (run_passes local_archive [p] (exports s) m)"
  have ok: "queues_ok s" using sys_export by simp
  then have dist: "distinct (map xp_id (exports s))" by (simp add: queues_ok_def)
  have "gov_step s s (s\<lparr>exports := ?t\<rparr>)"
    using step_delivery [OF _ export_pass_same [OF dist, of local_archive p m], where ob = "outbox s" and r = s]
    by (simp add: list_all2_same)
  moreover have "queues_ok (s\<lparr>exports := ?t\<rparr>)"
  proof -
    obtain w d a delay clk k where p: "p = (w, d, a, delay, clk, k)" by (metis surj_pair)
    obtain res t' m' where run: "export_run_once local_archive w d a delay clk k (exports s) m = (res, t', m')" by (metis surj_pair)
    have "?t = t'" by (simp add: p run)
    then show ?thesis
      using ok pass_ids [OF run dist] pass_ordered [OF run dist] by (simp add: queues_ok_def)
  qed
  ultimately show ?case using sys_export history_step [of s hs s] by auto
qed

text \<open>
  C15. Messages of a finding leave in the order of its events: in every state of every interleaving
  of core operations, outbox operations and export passes, when the message (or the export)
  of an event is delivered (or archived), so is that of every earlier event of the finding.
\<close>

theorem deliveries_follow_event_order:
  assumes "system hs" and "s \<in> set hs"
  shows "\<not> (\<exists>r \<in> set (outbox s). \<exists>r' \<in> set (outbox s). ob_finding r' = ob_finding r \<and> ob_seq r' < ob_seq r
           \<and> ob_delivered r \<noteq> None \<and> ob_delivered r' = None)
    \<and> \<not> (\<exists>x \<in> set (exports s). \<exists>x' \<in> set (exports s). xp_finding x' = xp_finding x \<and> xp_seq x' < xp_seq x
           \<and> xp_archived x \<noteq> None \<and> xp_archived x' = None)"
proof -
  have ok: "in_order (outbox s)" "xq.ordered (exports s)"
    using system_inv [OF assms(1)] assms(2) by (auto simp: queues_ok_def)
  have "exports_in_order (exports s)" by (rule ordered_exports [OF ok(2)])
  then show ?thesis using ok(1) unfolding in_order_def rows_in_order_def exports_in_order_def by blast
qed

section \<open>Recorded events pass the delivery checks\<close>

definition event_fields :: "gov_event \<Rightarrow> json \<Rightarrow> (string \<times> json) list" where
  "event_fields e d =
     [(''actor_id'', JStr (ge_actor e)), (''actor_role'', JStr (ge_role e)), (''auth_method'', JStr (ge_auth e)),
      (''details'', json_canon d), (''event_hash'', JStr (ge_hash e)), (''event_id'', JStr (ge_id e)),
      (''event_sequence'', JInt (int (ge_seq e))), (''event_type'', JStr (ge_type e)), (''finding_id'', JStr (ge_finding e)),
      (''occurred_at'', JFloat (Fixed (ge_occurred e))), (''previous_hash'', JStr (ge_prev e))]"

lemma payload_reads_back:
  assumes "backfill_payload e = Some payload"
  shows "\<exists>d. json_loads (ge_details e) = Some d \<and> json_loads payload = Some (JObj (event_fields e d))
    \<and> json_dumps compact_ascii (JObj (event_fields e d)) = payload"
proof -
  obtain d where d: "json_loads (ge_details e) = Some d" using assms by (auto simp: backfill_payload_def)
  let ?p = "[(''finding_id'', JStr (ge_finding e)), (''event_type'', JStr (ge_type e)),
          (''actor_id'', JStr (ge_actor e)), (''actor_role'', JStr (ge_role e)),
          (''auth_method'', JStr (ge_auth e)), (''occurred_at'', JFloat (Fixed (ge_occurred e))),
          (''details'', d), (''previous_hash'', JStr (ge_prev e)), (''event_id'', JStr (ge_id e)),
          (''event_sequence'', JInt (int (ge_seq e))), (''event_hash'', JStr (ge_hash e))]"
  have payload: "payload = json_dumps compact_ascii (JObj ?p)" using assms d by (simp add: backfill_payload_def)
  have sorted: "json_canon (JObj ?p) = JObj (event_fields e d)"
    unfolding json_canon_obj by (simp add: event_fields_def canon_pair_def)
  have "json_wf (JObj ?p)" using json_loads_wf [OF d] by simp
  from json_roundtrip [OF style_ok_styles(1) this]
  have "json_loads payload = Some (JObj (event_fields e d))" unfolding payload sorted .
  moreover have "json_canon (JObj (event_fields e d)) = JObj (event_fields e d)"
    unfolding sorted [symmetric] by (rule json_canon_idem)
  then have "json_dumps compact_ascii (JObj (event_fields e d)) = payload"
    unfolding payload json_dumps_def sorted by simp
  ultimately show ?thesis using d by blast
qed

lemma recorded_event:
  assumes "log_inv s" and "e \<in> set (events s)" and "json_loads (ge_details e) = Some d"
  shows "1 \<le> ge_seq e" and "ge_prev e = [] \<or> (\<exists>t. ge_prev e = text_hash t)"
    and "ge_hash e = text_hash (ge_prev e @ json_dumps compact_ascii (chain_body (event_fields e d)))"
proof -
  let ?xs = "events_for (ge_finding e) (events s)"
  have ok: "events_ok (ge_finding e) (events s)" using assms(1) by (simp add: log_inv_def)
  then have seqs: "map ge_seq ?xs = [1..<Suc (length ?xs)]" and linked: "gc.linked [] (map event_entry ?xs)"
    by (simp_all only: events_ok_def Let_def)
  have e: "e \<in> set ?xs" using assms(2) by (simp add: events_for_def)
  then have "ge_seq e \<in> set (map ge_seq ?xs)" by simp
  then show "1 \<le> ge_seq e" unfolding seqs by (simp del: upt_Suc)
  have "(ge_prev e, logged_body e, ge_hash e) \<in> set (map event_entry ?xs)" using e by (force simp: event_entry_def)
  from gc.linked_entry [OF linked this] have h: "ge_hash e = text_hash (link_text compact_ascii (ge_prev e) (logged_body e))"
    and prev: "ge_prev e = [] \<or> (\<exists>t. ge_prev e = text_hash t)" by blast+
  show "ge_prev e = [] \<or> (\<exists>t. ge_prev e = text_hash t)" by (rule prev)
  have "json_canon (chain_body (event_fields e d)) = logged_body e"
    unfolding logged_body_def event_body_def chain_body_def body_fields_def json_canon_obj assms(3)
    by (simp add: audit_chain_fields_def event_fields_def get_or_null_def obj_get_def canon_pair_def event_actor_def
        del: sort_key_simps)
  then show "ge_hash e = text_hash (ge_prev e @ json_dumps compact_ascii (chain_body (event_fields e d)))"
    using h by (simp add: link_text_def json_dumps_def)
qed

lemma hex_of_text_hash: "hex_of_length 64 (JStr (text_hash t))"
  using hex_text_hash [of t] by (simp add: hex_of_length_def hex_text_def)

text \<open>The limits of the archive on the columns of an event and on its size.\<close>

definition archive_limits :: "gov_event \<Rightarrow> bool" where
  "archive_limits e =
     (hex_id32 (ge_id e) \<and> ge_finding e \<noteq> [] \<and> length (ge_finding e) \<le> 128
      \<and> list_all (\<lambda>v. py_strip v \<noteq> [] \<and> length v \<le> 128) [ge_type e, ge_actor e, ge_role e, ge_auth e]
      \<and> (case json_loads (ge_details e) of
           Some (JObj d) \<Rightarrow> json_finite (JObj d)
             \<and> length (utf8_encode (json_dumps compact_utf8 (JObj (event_fields e (JObj d))))) \<le> max_audit_event_bytes
         | _ \<Rightarrow> False))"

lemma archivable_event:
  assumes "history hs" and "s \<in> set hs" and "(e, x) \<in> set (zip (events s) (exports s))" and "archive_limits e"
  shows "\<exists>event content. json_loads (xp_payload x) = Some event \<and> serialize_event event =
    Inr (content, sha256_hex content, build_object_key (ge_finding e) (ge_seq e) (ge_id e) (ge_hash e))"
proof -
  have inv: "log_inv s" by (rule history_log_inv [OF assms(1,2)])
  have e: "e \<in> set (events s)" using assms(3) by (rule set_zip_leftD)
  have "list_all2 exported (events s) (exports s)" using inv by (simp add: log_inv_def)
  then have "exported e x" using assms(3) by (auto simp: list_all2_iff)
  then have payload: "backfill_payload e = Some (xp_payload x)" by (simp add: exported_def)
  from payload_reads_back [OF payload] obtain d where d: "json_loads (ge_details e) = Some d"
    "json_loads (xp_payload x) = Some (JObj (event_fields e d))" by blast
  let ?ev = "event_fields e d"
  note rec = recorded_event [OF inv e d(1)]
  have lim: "hex_id32 (ge_id e)" "ge_finding e \<noteq> []" "length (ge_finding e) \<le> 128"
    "list_all (\<lambda>v. py_strip v \<noteq> [] \<and> length v \<le> 128) [ge_type e, ge_actor e, ge_role e, ge_auth e]"
    "json_finite d" "length (utf8_encode (json_dumps compact_utf8 (JObj ?ev))) \<le> max_audit_event_bytes"
    and obj: "\<exists>k. d = JObj k"
    using assms(4) d(1) by (auto simp: archive_limits_def simp del: json_finite.simps split: json.splits)
  have get: "get_or_null ''event_id'' ?ev = JStr (ge_id e)" "get_or_null ''event_hash'' ?ev = JStr (ge_hash e)"
    "get_or_null ''finding_id'' ?ev = JStr (ge_finding e)" "get_or_null ''event_sequence'' ?ev = JInt (int (ge_seq e))"
    "get_or_null ''previous_hash'' ?ev = JStr (ge_prev e)" "get_or_null ''details'' ?ev = json_canon d"
    "get_or_null ''occurred_at'' ?ev = JFloat (Fixed (ge_occurred e))"
    "get_or_null ''event_type'' ?ev = JStr (ge_type e)" "get_or_null ''actor_id'' ?ev = JStr (ge_actor e)"
    "get_or_null ''actor_role'' ?ev = JStr (ge_role e)" "get_or_null ''auth_method'' ?ev = JStr (ge_auth e)"
    by (simp_all add: event_fields_def get_or_null_def obj_get_def)
  have schema: "validate_event_schema (JObj ?ev) = Inr ?ev"
    by (auto simp: validate_event_schema_def event_fields_def required_audit_event_fields_def)
  have hash: "hex_of_length 64 (JStr (ge_hash e))" using rec(3) hex_of_text_hash by metis
  then have ident: "validate_event_identity ?ev = Inr (ge_id e, ge_hash e, ge_finding e, ge_seq e)"
    using lim(1-3) rec(1) unfolding validate_event_identity_def get by (simp add: hex_of_length_def hex_id32_def)
  have scal: "validate_scalar_fields ?ev = Inr ()"
    using lim(4) by (simp add: validate_scalar_fields_def audit_scalar_fields_def get scalar_ok_def)
  have pay: "validate_payload_fields ?ev = Inr (ge_prev e)"
    using rec(2) obj hex_of_text_hash unfolding validate_payload_fields_def get by auto
  have chain: "verify_chain_hash ?ev (ge_prev e) (ge_hash e) = Inr ()"
    using rec(3) by (simp add: verify_chain_hash_def)
  have "json_finite (JObj ?ev)" using lim(5) by (simp add: event_fields_def json_finite_canon)
  moreover have "utf8_encode (json_dumps compact_utf8 (JObj ?ev)) \<noteq> []"
    by (simp add: json_dumps_def json_canon_obj del: json_canon.simps)
  ultimately have content: "\<exists>c. serialize_content ?ev = Inr (c, sha256_hex c)"
    using lim(6) by (simp add: serialize_content_def canonical_json_def Let_def not_less del: json_finite.simps)
  then show ?thesis using d(2) schema ident scal pay chain by (auto simp: serialize_event_def)
qed

text \<open>
  What the core records can be archived: in every state of every history, the export of an event
  whose identifiers, texts and size are within the archive's limits is read back and accepted by
  \<open>serialize_event\<close>, including its check of the event's place in the hash chain, under the key built from
  the event's columns.
\<close>

theorem recorded_events_are_archivable:
  assumes "history hs" and "s \<in> set hs" and "(e, x) \<in> set (zip (events s) (exports s))" and "archive_limits e"
  shows "\<exists>event content. json_loads (xp_payload x) = Some event \<and> serialize_event event =
    Inr (content, sha256_hex content, build_object_key (ge_finding e) (ge_seq e) (ge_id e) (ge_hash e))"
  using archivable_event [OF assms] .

end
