(* ===== verification/Audit_Examples.thy ===== *)
theory Audit_Examples
  imports Audit_Log_Theorems Delivery_System Governance_Examples
begin

text \<open>
  Concrete runs of the audit log, the export worker and the whole system, as witnesses of their properties.
\<close>

section \<open>Audit log\<close>

definition demo_audit :: audit_env where
  "demo_audit = \<lparr>ae_recorded = ''2025-01-01T00:00:00Z'', ae_stamp = ''1735689600.0''\<rparr>"

definition demo_call :: audit_call where
  "demo_call = (demo_audit, ''login'', ActorText ''ann'', ''portal'', None)"

lemma demo_call_clean: "clean_call demo_call"
proof -
  have "next_line \<notin> set ''2025-01-01T00:00:00Z''" "next_line \<notin> set ''login''" "next_line \<notin> set ''ann''" "next_line \<notin> set ''portal''"
    by (rule ascii_no_nel, simp)+
  then show ?thesis by (simp add: clean_call_def demo_call_def demo_audit_def call_details_def)
qed

lemma log_sound_None [simp]: "log_sound None"
  by (simp add: log_sound_def)

definition nan_call :: audit_call where
  "nan_call = (demo_audit, ''login'', ActorText ''ann'', ''portal'', Some [(''score'', JFloat NotANumber)])"

lemma nan_call_clean: "clean_call nan_call"
proof -
  have "next_line \<notin> set ''score''" by (rule ascii_no_nel) simp
  then show ?thesis using demo_call_clean
    by (simp add: clean_call_def demo_call_def nan_call_def call_details_def)
qed

theorem audit_log_stays_verifiable_witness:
  "(\<exists>m. verify_log (run_appends [demo_call, nan_call, demo_call] None) = Inr (True, m))
   \<and> length (log_lines (run_appends [demo_call, nan_call, demo_call] None)) = 2
   \<and> (\<exists>e. append_call nan_call (run_appends [demo_call] None) = (Inl e, run_appends [demo_call] None))"
proof -
  have clean: "\<forall>c \<in> set [demo_call, nan_call, demo_call]. clean_call c" using demo_call_clean nan_call_clean by simp
  have fin: "json_finite (JObj (call_details demo_call))" "\<not> json_finite (JObj (call_details nan_call))"
    by (simp_all add: demo_call_def nan_call_def call_details_def)
  have calls: "[demo_call, nan_call, demo_call] ! 1 = nan_call" "take 1 [demo_call, nan_call, demo_call] = [demo_call]" by simp_all
  note all = audit_log_stays_verifiable [OF log_sound_None clean]
  have "case append_call nan_call (run_appends [demo_call] None) of
      (Inl e, log') \<Rightarrow> \<not> json_finite (JObj (call_details nan_call)) \<and> log' = run_appends [demo_call] None
    | (Inr r, log') \<Rightarrow> json_finite (JObj (call_details nan_call))
        \<and> log_lines log' = log_lines (run_appends [demo_call] None) @ [json_dumps compact_utf8 (JObj r)]"
    using all [THEN conjunct2, THEN conjunct2, THEN conjunct2, THEN conjunct2, rule_format, of 1] unfolding calls by simp
  then have "\<exists>e. append_call nan_call (run_appends [demo_call] None) = (Inl e, run_appends [demo_call] None)"
    using fin(2) by (auto split: prod.splits sum.splits)
  moreover have "length (log_lines (run_appends [demo_call, nan_call, demo_call] None)) = 2"
    using all fin by (simp add: log_lines_def del: run_appends.simps json_finite.simps)
  ultimately show ?thesis using all by blast
qed

lemma demo_append: "\<exists>r. fst (append_unlocked env eid etype a target None None) = Inr r"
  using append_finite [OF log_sound_None, of env eid etype a target None] by simp

theorem next_line_ends_the_log_witness:
  "verify_log (snd (append_log demo_audit ''login'' (ActorText (''a'' @ [next_line])) ''portal'' None None)) =
     Inr (False, ''Audit log could not be parsed safely.'')"
proof -
  obtain r where "append_log demo_audit ''login'' (ActorText (''a'' @ [next_line])) ''portal'' None None =
    (Inr r, snd (append_log demo_audit ''login'' (ActorText (''a'' @ [next_line])) ''portal'' None None))"
    using demo_append unfolding append_log_def by (metis prod.collapse)
  moreover have "next_line \<notin> set ''a''" by (rule ascii_no_nel) simp
  ultimately show ?thesis using next_line_ends_the_log [OF log_sound_None] by blast
qed

definition demo_log :: string where
  "demo_log = the (run_appends [demo_call] None)"

lemma demo_log_sound: "log_sound (Some demo_log)" "length (py_splitlines demo_log) = 1"
proof -
  have run: "run_appends [demo_call] None = snd (append_log demo_audit ''login'' (ActorText ''ann'') ''portal'' None None)"
    by (simp add: demo_call_def)
  note clean = append_log_clean [OF log_sound_None demo_call_clean [unfolded demo_call_def]]
  have "length (log_lines (run_appends [demo_call] None)) = 1"
    using clean(2) unfolding run by (simp add: log_lines_def call_details_def)
  then have some: "run_appends [demo_call] None = Some demo_log" "length (py_splitlines demo_log) = 1"
    by (cases "run_appends [demo_call] None"; simp add: demo_log_def log_lines_def)+
  then show "length (py_splitlines demo_log) = 1" by simp
  show "log_sound (Some demo_log)" using clean(1) unfolding run [symmetric] some .
qed

theorem audit_log_tamper_evident_witness:
  "\<exists>l. py_splitlines demo_log = [l] \<and> (map audit_record_of [l] = map audit_record_of [l]
    \<or> collision (record_text ` {l}) \<or> (\<exists>k \<in> {l}. text_hash (record_text k) = genesis_hash))"
proof -
  obtain l where l: "py_splitlines demo_log = [l]" using demo_log_sound(2) by (cases "py_splitlines demo_log") auto
  have "verify_log (Some demo_log) = Inr (True, ''Audit log integrity verified.'')"
    using demo_log_sound(1) by (simp add: log_sound_def)
  from audit_log_tamper_evident [OF this this refl] show ?thesis using l by auto
qed

theorem idempotent_append_adds_once_witness:
  "\<exists>r log'. append_idempotent demo_audit ''ab12'' ''login'' (ActorText ''ann'') ''portal'' None None = (Inr (r, True), log')
    \<and> append_idempotent demo_audit ''ab12'' ''login'' (ActorText ''ann'') ''portal'' None log' =
        (Inr (object_fields (json_canon (JObj r)), False), log')
    \<and> append_idempotent demo_audit ''ab12'' ''login'' (ActorText ''ann'') ''vault'' None log' =
        (Inl (ValueError ''audit event_id is already bound to different content''), log')"
proof -
  have strip: "py_strip ''ab12'' \<noteq> []" by code_simp
  obtain r where "fst (append_unlocked demo_audit ''ab12'' ''login'' (ActorText ''ann'') ''portal'' (Some []) None) = Inr r"
    using append_finite [OF log_sound_None, of demo_audit "''ab12''" "''login''" "ActorText ''ann''" "''portal''" "Some []"] by auto
  then obtain log' where run: "append_idempotent demo_audit ''ab12'' ''login'' (ActorText ''ann'') ''portal'' None None = (Inr (r, True), log')"
    using strip
    by (cases "append_unlocked demo_audit ''ab12'' ''login'' (ActorText ''ann'') ''portal'' (Some []) None")
      (auto simp: append_idempotent_def find_log_event_def log_blank_def)
  have "hex_text ''ab12''" by (simp add: hex_text_def is_hex_def)
  from idempotent_append_adds_once [OF log_sound_None demo_call_clean [unfolded demo_call_def] this run, of demo_audit "''vault''"] run
  show ?thesis by auto
qed

section \<open>The whole system\<close>

lemma demo_rows:
  "\<exists>e r x. events demo_created = [e] \<and> outbox demo_created = [r] \<and> exports demo_created = [x]
     \<and> ge_id e = replicate 32 (CHR ''e'') \<and> ge_finding e = ''F-1'' \<and> ge_type e = ''finding_created'' \<and> ge_actor e = ''ann''
     \<and> ge_role e = ''analyst'' \<and> ge_auth e = ''oidc'' \<and> ge_seq e = 1
     \<and> ge_details e = json_dumps spaced_ascii (identity_details ''C-1'' ''A-1'' ''high'') \<and> ge_prev e = []
     \<and> ge_occurred e = 1000000 \<and> xp_id x = replicate 32 (CHR ''b'') \<and> xp_archived x = None \<and> xp_dead x = None
     \<and> xp_available x = 1000000 \<and> xp_locked_until x = None"
  by (simp add: demo_created_eq log_event_log event_rows_def Let_def empty_gov_def new_event_def next_sequence_def
      events_for_def demo_env_def analyst_def new_export_def last_hash_def)

lemma demo_adds_rows: "adds_rows empty_gov demo_created"
  using demo_rows by (auto simp: adds_rows_def empty_gov_def)

lemma demo_system: "system [demo_created, empty_gov]"
  by (rule sys_core [OF sys_start]) (use demo_history(2) demo_adds_rows operation_steps(1) in \<open>auto simp: demo_created_def\<close>)

definition demo_pass :: pass where
  "demo_pass = (''w1'', 60, 5, 30, \<lambda>n. 2000000 + int n, ''k1'')"

theorem deliveries_follow_event_order_witness:
  "\<exists>s. system [s, demo_created, empty_gov] \<and> \<not> (\<exists>x \<in> set (exports s). \<exists>x' \<in> set (exports s). xp_finding x' = xp_finding x
     \<and> xp_seq x' < xp_seq x \<and> xp_archived x \<noteq> None \<and> xp_archived x' = None)"
proof -
  let ?s = "demo_created\<lparr>exports := fst (run_passes local_archive [demo_pass] (exports demo_created) Map.empty)\<rparr>"
  have sys: "system [?s, demo_created, empty_gov]" by (rule sys_export [OF demo_system])
  from deliveries_follow_event_order [OF this, of ?s] show ?thesis by (intro exI [of _ ?s] conjI sys) simp_all
qed

lemma demo_details:
  "json_loads (ge_details e) = Some (JObj [(''asset_id'', JStr ''A-1''), (''control_id'', JStr ''C-1''), (''severity'', JStr ''high'')])"
  if "ge_details e = json_dumps spaced_ascii (identity_details ''C-1'' ''A-1'' ''high'')"
proof -
  have "json_loads (ge_details e) = Some (json_canon (identity_details ''C-1'' ''A-1'' ''high''))"
    unfolding that by (rule json_roundtrip) (simp_all add: identity_details_def)
  also have "json_canon (identity_details ''C-1'' ''A-1'' ''high'') =
      JObj [(''asset_id'', JStr ''A-1''), (''control_id'', JStr ''C-1''), (''severity'', JStr ''high'')]"
    by code_simp
  finally show ?thesis .
qed

lemma json_string_length: "length (json_string a s) \<le> 6 * length s + 2"
proof -
  have "length (escape_char a c) \<le> 6" for c by (simp add: escape_char_def Let_def)
  note esc = this
  have "length (concat (map (escape_char a) s)) \<le> 6 * length s"
  proof (induction s)
    case (Cons c s)
    then show ?case using esc [of c] by simp
  qed simp
  then show ?thesis by (simp add: json_string_def)
qed

lemma length_float_repr: "length (float_repr (Fixed 1000000)) \<le> 10"
proof -
  have "frac_digits n 0 = []" for n by (cases n) simp_all
  moreover have "length (show_nat 1) = 1" by (subst show_nat.simps) simp
  ultimately show ?thesis by simp
qed

lemma demo_limits:
  assumes "events demo_created = [e]"
  shows "archive_limits e"
proof -
  have e: "ge_id e = replicate 32 (CHR ''e'')" "ge_finding e = ''F-1''" "ge_type e = ''finding_created''" "ge_actor e = ''ann''"
    "ge_role e = ''analyst''" "ge_auth e = ''oidc''" "ge_seq e = 1" "ge_prev e = []" "ge_occurred e = 1000000"
    "ge_details e = json_dumps spaced_ascii (identity_details ''C-1'' ''A-1'' ''high'')"
    using demo_rows assms by auto
  let ?d = "[(''asset_id'', JStr ''A-1''), (''control_id'', JStr ''C-1''), (''severity'', JStr ''high'')]"
  note d = demo_details [OF e(10)]
  have hash: "length (ge_hash e) = 64"
  proof -
    have "e \<in> set (events demo_created)" using assms by simp
    from recorded_event(3) [OF history_log_inv [OF demo_history(2)] this d] show ?thesis by simp
  qed
  have "length (json_print compact_utf8 (JObj (event_fields e (JObj ?d)))) \<le> 2000"
    using json_string_length [of False "ge_hash e"] json_string_length [of False "replicate 32 (CHR ''e'')"] length_float_repr
    by (simp add: event_fields_def compact_utf8_def e hash json_string_def escape_char_def quote_char_def show_int_def
        show_nat.simps del: replicate.simps)
  moreover have "json_canon (JObj (event_fields e (JObj ?d))) = JObj (event_fields e (JObj ?d))"
    unfolding json_canon_obj by (simp add: event_fields_def canon_pair_def)
  ultimately have "length (json_dumps compact_utf8 (JObj (event_fields e (JObj ?d)))) \<le> 2000"
    by (simp only: json_dumps_def)
  then have size: "length (utf8_encode (json_dumps compact_utf8 (JObj (event_fields e (JObj ?d))))) \<le> max_audit_event_bytes"
    using length_utf8_encode [of "json_dumps compact_utf8 (JObj (event_fields e (JObj ?d)))"]
    by (simp add: max_audit_event_bytes_def)
  have texts: "list_all (\<lambda>v. py_strip v \<noteq> [] \<and> length v \<le> 128) [''finding_created'', ''ann'', ''analyst'', ''oidc'']"
    "hex_id32 (replicate 32 (CHR ''e''))" by code_simp+
  show ?thesis using texts size d by (simp add: archive_limits_def e)
qed

theorem recorded_events_are_archivable_witness:
  "\<exists>e x event content. events demo_created = [e] \<and> exports demo_created = [x] \<and> json_loads (xp_payload x) = Some event
     \<and> serialize_event event = Inr (content, sha256_hex content, build_object_key (ge_finding e) (ge_seq e) (ge_id e) (ge_hash e))"
proof -
  obtain e x where ex: "events demo_created = [e]" "exports demo_created = [x]" using demo_rows by blast
  have "(e, x) \<in> set (zip (events demo_created) (exports demo_created))" by (simp add: ex)
  from recorded_events_are_archivable [OF demo_history(2) _ this demo_limits [OF ex(1)]] show ?thesis using ex by auto
qed

lemma demo_archive_pass:
  "\<exists>t' m' r. run_passes local_archive [demo_pass] (exports demo_created) Map.empty = (t', m') \<and> r \<in> set t'
     \<and> xp_archived r = Some 2000001"
proof -
  obtain e x where ex: "events demo_created = [e]" "exports demo_created = [x]"
    "xp_archived x = None" "xp_dead x = None" "xp_available x = 1000000" "xp_locked_until x = None" using demo_rows by blast
  have "(e, x) \<in> set (zip (events demo_created) (exports demo_created))" by (simp add: ex)
  from archivable_event [OF demo_history(2) _ this demo_limits [OF ex(1)]] obtain event content digest key
    where ev: "json_loads (xp_payload x) = Some event" "serialize_event event = Inr (content, digest, key)" by auto
  have digest: "digest = sha256_hex content" using ev(2) by (rule serialize_event_ok)
  let ?clk = "\<lambda>n. 2000000 + int n"
  have "export_ready (?clk 0) [x] x" using ex by (simp add: export_ready_def unarchived_before_def)
  then have first: "select_first export_order (export_ready (?clk 0) [x]) [x] = Some x" by (simp add: select_first_def)
  obtain ob m' where per: "local_archive event Map.empty = (Inr ob, m')"
    using ev(2) digest by (simp add: local_archive_def create_only_def)
  have name: "py_strip ''w1'' \<noteq> []" by code_simp
  from worker_archives_ready_export [OF _ name, of "[x]" 60 ?clk x event local_archive Map.empty ob m' 5 30 "''k1''"] first ev(1) per
  show ?thesis by (auto simp: seconds_def demo_pass_def ex(2))
qed

theorem archived_exports_are_stored_witness:
  "\<exists>(r :: export_row) m' event content key b. json_loads (xp_payload r) = Some event
    \<and> serialize_event event = Inr (content, sha256_hex content, key) \<and> xp_object_key r = Some key
    \<and> xp_sha256 r = Some (sha256_hex content) \<and> snd (run_passes local_archive [demo_pass] (exports demo_created) Map.empty) = m'
    \<and> m' key = Some b \<and> sha256_hex b = sha256_hex content"
proof -
  obtain t' m' r where run: "run_passes local_archive [demo_pass] (exports demo_created) Map.empty = (t', m')" "r \<in> set t'"
    "xp_archived r = Some 2000001" using demo_archive_pass by blast
  obtain x where x: "exports demo_created = [x]" "xp_archived x = None" using demo_rows by blast
  have "distinct (map xp_id (exports demo_created))" "\<forall>r \<in> set (exports demo_created). xp_archived r = None"
    using x by simp_all
  from archived_exports_are_stored [OF this run] obtain event content key b where
    "json_loads (xp_payload r) = Some event" "serialize_event event = Inr (content, sha256_hex content, key)"
    "xp_object_key r = Some key" "xp_sha256 r = Some (sha256_hex content)" "m' key = Some b" "sha256_hex b = sha256_hex content"
    by blast
  with run(1) show ?thesis
    by - (intro exI [of _ r] exI [of _ m'] exI [of _ event] exI [of _ content] exI [of _ key] exI [of _ b], simp)
qed

end
