(* ===== verification/Patterns.thy ===== *)
theory Patterns
  imports Py_Text
begin

text \<open>
  Regular expressions as the sources use them, with \<open>fullmatch\<close>: classes, sequence, alternative, repetition and
  the bounded repetitions \<open>{n}\<close> and \<open>{0,n}\<close>. The matcher takes derivatives; \<open>matches\<close> is the
  language a pattern denotes. Shown: the matcher decides the language, and the recognisers of the repetition forms the contracts are
  made of.
\<close>

datatype rx = RNone | REps | RChar "char \<Rightarrow> bool" | RSeq rx rx | RAlt rx rx | RStar rx

inductive matches :: "rx \<Rightarrow> string \<Rightarrow> bool" where
  eps: "matches REps []"
| char: "p c \<Longrightarrow> matches (RChar p) [c]"
| seq: "matches r s \<Longrightarrow> matches q t \<Longrightarrow> matches (RSeq r q) (s @ t)"
| left: "matches r s \<Longrightarrow> matches (RAlt r q) s"
| right: "matches q s \<Longrightarrow> matches (RAlt r q) s"
| stop: "matches (RStar r) []"
| more: "matches r s \<Longrightarrow> matches (RStar r) t \<Longrightarrow> matches (RStar r) (s @ t)"

inductive_simps matches_simps [simp]:
  "matches RNone s" "matches REps s" "matches (RChar p) s" "matches (RAlt r q) s"

inductive_simps matches_seq: "matches (RSeq r q) s"

fun nullable :: "rx \<Rightarrow> bool" where
  "nullable RNone = False"
| "nullable REps = True"
| "nullable (RChar p) = False"
| "nullable (RSeq r q) = (nullable r \<and> nullable q)"
| "nullable (RAlt r q) = (nullable r \<or> nullable q)"
| "nullable (RStar r) = True"

fun deriv :: "char \<Rightarrow> rx \<Rightarrow> rx" where
  "deriv c RNone = RNone"
| "deriv c REps = RNone"
| "deriv c (RChar p) = (if p c then REps else RNone)"
| "deriv c (RSeq r q) = (if nullable r then RAlt (RSeq (deriv c r) q) (deriv c q) else RSeq (deriv c r) q)"
| "deriv c (RAlt r q) = RAlt (deriv c r) (deriv c q)"
| "deriv c (RStar r) = RSeq (deriv c r) (RStar r)"

definition fullmatch :: "rx \<Rightarrow> string \<Rightarrow> bool" where
  "fullmatch r s = nullable (fold deriv s r)"

lemma nullable_iff: "nullable r \<longleftrightarrow> matches r []"
  by (induction r) (auto simp: matches_seq intro: matches.stop)

lemma star_Cons:
  "matches (RStar r) (c # s) \<longleftrightarrow> (\<exists>u v. s = u @ v \<and> matches r (c # u) \<and> matches (RStar r) v)"
proof
  have "\<exists>u v. s = u @ v \<and> matches r (c # u) \<and> matches (RStar r) v"
    if "matches q t" "q = RStar r" "t = c # s" for q t
    using that by (induction rule: matches.induct) (auto simp: append_eq_Cons_conv)
  then show "matches (RStar r) (c # s) \<Longrightarrow> \<exists>u v. s = u @ v \<and> matches r (c # u) \<and> matches (RStar r) v"
    by blast
next
  assume "\<exists>u v. s = u @ v \<and> matches r (c # u) \<and> matches (RStar r) v"
  then show "matches (RStar r) (c # s)" using matches.more by fastforce
qed

lemma deriv_iff: "matches (deriv c r) s \<longleftrightarrow> matches r (c # s)"
proof (induction r arbitrary: s)
  case (RSeq r q)
  then show ?case
    by (auto simp: matches_seq nullable_iff Cons_eq_append_conv)
next
  case (RStar r)
  then show ?case by (auto simp: matches_seq star_Cons)
qed auto

lemma fullmatch_iff: "fullmatch r s \<longleftrightarrow> matches r s"
proof -
  have "nullable (fold deriv s r) \<longleftrightarrow> matches r s"
    by (induction s arbitrary: r) (simp_all add: nullable_iff deriv_iff)
  then show ?thesis by (simp add: fullmatch_def)
qed

section \<open>Repetition\<close>

definition r_plus :: "rx \<Rightarrow> rx" where "r_plus r = RSeq r (RStar r)"

definition r_opt :: "rx \<Rightarrow> rx" where "r_opt r = RAlt r REps"

fun r_times :: "nat \<Rightarrow> rx \<Rightarrow> rx" where
  "r_times 0 r = REps"
| "r_times (Suc n) r = RSeq r (r_times n r)"

fun r_upto :: "nat \<Rightarrow> rx \<Rightarrow> rx" where
  "r_upto 0 r = REps"
| "r_upto (Suc n) r = RAlt (RSeq r (r_upto n r)) REps"

fun r_seq :: "rx list \<Rightarrow> rx" where
  "r_seq [] = REps"
| "r_seq [r] = r"
| "r_seq (r # q # rs) = RSeq r (r_seq (q # rs))"

fun r_text :: "string \<Rightarrow> rx" where
  "r_text [] = REps"
| "r_text (c # s) = RSeq (RChar (\<lambda>x. x = c)) (r_text s)"

lemma matches_char_seq: "matches (RSeq (RChar p) q) s \<longleftrightarrow> (\<exists>c t. s = c # t \<and> p c \<and> matches q t)"
proof
  show "matches (RSeq (RChar p) q) s \<Longrightarrow> \<exists>c t. s = c # t \<and> p c \<and> matches q t"
    by (auto simp: matches_seq)
  show "\<exists>c t. s = c # t \<and> p c \<and> matches q t \<Longrightarrow> matches (RSeq (RChar p) q) s"
    using matches.seq [OF matches.char] by fastforce
qed

lemma matches_class_star [simp]: "matches (RStar (RChar p)) s \<longleftrightarrow> list_all p s"
proof (induction s)
  case (Cons c s)
  then show ?case by (auto simp: star_Cons)
qed (simp add: matches.stop)

lemma matches_class_plus [simp]: "matches (r_plus (RChar p)) s \<longleftrightarrow> s \<noteq> [] \<and> list_all p s"
  by (cases s) (simp_all add: r_plus_def matches_char_seq)

lemma matches_class_times [simp]: "matches (r_times n (RChar p)) s \<longleftrightarrow> length s = n \<and> list_all p s"
proof (induction n arbitrary: s)
  case (Suc n)
  then show ?case by (cases s) (auto simp: matches_char_seq)
qed auto

lemma matches_class_upto [simp]: "matches (r_upto n (RChar p)) s \<longleftrightarrow> length s \<le> n \<and> list_all p s"
proof (induction n arbitrary: s)
  case (Suc n)
  then show ?case by (cases s) (auto simp: matches_char_seq)
qed auto

lemma matches_opt [simp]: "matches (r_opt r) s \<longleftrightarrow> matches r s \<or> s = []"
  by (simp add: r_opt_def)

lemma matches_text [simp]: "matches (r_text s) t \<longleftrightarrow> t = s"
  by (induction s arbitrary: t) (auto simp: matches_char_seq)

lemma matches_text_seq [simp]: "matches (RSeq (r_text s) q) t \<longleftrightarrow> (\<exists>u. t = s @ u \<and> matches q u)"
  by (auto simp: matches_seq)

declare r_text.simps [simp del] r_times.simps [simp del] r_upto.simps [simp del]

section \<open>Character classes\<close>

definition between :: "char \<Rightarrow> char \<Rightarrow> char \<Rightarrow> bool" where
  "between a b c = (ord_of a \<le> ord_of c \<and> ord_of c \<le> ord_of b)"

definition ascii_upper :: "char \<Rightarrow> bool" where "ascii_upper c = between (CHR ''A'') (CHR ''Z'') c"
definition ascii_lower :: "char \<Rightarrow> bool" where "ascii_lower c = between (CHR ''a'') (CHR ''z'') c"
definition ascii_alnum :: "char \<Rightarrow> bool" where "ascii_alnum c = (ascii_upper c \<or> ascii_lower c \<or> is_digit c)"

lemma class_free:
  "ascii_alnum c \<or> c \<in> {CHR ''.'', CHR ''_'', CHR '':'', CHR ''-''} \<Longrightarrow>
     c \<noteq> CHR ''|'' \<and> ord_of c < 127 \<and> 32 < ord_of c"
  by (auto simp: ascii_alnum_def ascii_upper_def ascii_lower_def between_def is_digit_def)

end
