(* ===== verification/Calendar.thy ===== *)
theory Calendar
  imports Governance_Types
begin

text \<open>
  The part of the standard library's \<open>datetime\<close> the contracts use: \<open>datetime.fromisoformat\<close> (as the
  reference implementation \<open>datetime.py\<close> reads it, dates in calendar or week format), conversion to UTC with its overflow
  error, and \<open>isoformat\<close> of a UTC time with \<open>Z\<close> for the offset. A time is the number of microseconds since
  0001-01-01T00:00:00; the proleptic Gregorian calendar covers the years 1 to 9999. Shown: the date of a day number is the inverse of
  the day number of a date.
\<close>

section \<open>Day numbers\<close>

definition days_before_year :: "nat \<Rightarrow> nat" where
  "days_before_year y = (let p = y - 1 in p * 365 + p div 4 - p div 100 + p div 400)"

definition days_before_month :: "nat \<Rightarrow> nat \<Rightarrow> nat" where
  "days_before_month y m = sum_list (map (days_in_month y) [1..<m])"

definition ordinal :: "nat \<Rightarrow> nat \<Rightarrow> nat \<Rightarrow> nat" where
  "ordinal y m d = days_before_year y + days_before_month y m + d"

lemma days_before_year_Suc:
  assumes "1 \<le> y"
  shows "days_before_year (Suc y) = days_before_year y + (if leap_year y then 366 else 365)"
proof -
  obtain p where p: "y = Suc p" using assms by (cases y) auto
  have q: "p div 100 \<le> p * 365" "Suc p div 100 \<le> Suc p * 365"
    by (metis div_le_dividend le_trans le_square mult.commute mult_le_mono2 nat_le_linear one_le_numeral nat_mult_1_right)+
  have div_Suc: "Suc p div k = p div k + (if Suc p mod k = 0 then 1 else 0)" if "0 < k" for k
    using that by (simp add: div_Suc)
  show ?thesis
    unfolding p days_before_year_def leap_year_def Let_def
    using q by (auto simp: div_Suc) presburger+
qed

lemma days_before_year_ge: "y \<le> days_before_year (Suc y)"
proof (induction y)
  case (Suc y)
  then show ?case using days_before_year_Suc [of "Suc y"] by simp
qed simp

function year_from :: "nat \<Rightarrow> nat \<Rightarrow> nat" where
  "year_from y n = (if y = 0 \<or> n \<le> days_before_year (Suc y) then y else year_from (Suc y) n)"
  by auto
termination
proof (relation "measure (\<lambda>(y, n). n - y)")
  fix y n assume "\<not> (y = 0 \<or> n \<le> days_before_year (Suc y))"
  then show "((Suc y, n), (y, n)) \<in> measure (\<lambda>(y, n). n - y)"
    using days_before_year_ge [of y] by auto
qed simp

declare year_from.simps [simp del]

definition months_from :: "nat \<Rightarrow> nat \<Rightarrow> nat" where
  "months_from y k = last (filter (\<lambda>m. days_before_month y m < k) [1..<13])"

text \<open>The search for the year starts at a lower bound.\<close>

definition date_of_ordinal :: "nat \<Rightarrow> nat \<times> nat \<times> nat" where
  "date_of_ordinal n =
     (let y = year_from ((n - 1) div 366 + 1) n; k = n - days_before_year y; m = months_from y k
      in (y, m, k - days_before_month y m))"

lemma days_before_year_mono: "1 \<le> y \<Longrightarrow> y \<le> z \<Longrightarrow> days_before_year y \<le> days_before_year z"
proof (induction z)
  case (Suc z)
  then show ?case using days_before_year_Suc [of z] by (cases "y = Suc z") auto
qed simp

lemma days_before_year_le: "1 \<le> y \<Longrightarrow> days_before_year y \<le> 366 * (y - 1)"
proof (induction y)
  case (Suc y)
  then show ?case using days_before_year_Suc [of y] by (cases "y = 0") (auto simp: days_before_year_def)
qed simp

lemma year_from_finds:
  assumes "days_before_year y < n" "n \<le> days_before_year (Suc y)" "1 \<le> z" "z \<le> y"
  shows "year_from z n = y"
  using assms(3,4)
proof (induction "y - z" arbitrary: z)
  case 0
  then show ?case using assms(2) by (subst year_from.simps) simp
next
  case (Suc k z)
  then have "year_from (Suc z) n = y" by simp
  moreover have "days_before_year (Suc z) < n"
  proof -
    have "Suc z \<le> y" using Suc(2) by simp
    then show ?thesis using assms(1) days_before_year_mono [of "Suc z" y] by simp
  qed
  ultimately show ?case using Suc(3) by (subst year_from.simps) simp
qed

lemma days_before_month_Suc: "1 \<le> m \<Longrightarrow> days_before_month y (Suc m) = days_before_month y m + days_in_month y m"
  by (simp add: days_before_month_def)

lemma days_before_month_mono:
  assumes "m \<le> k"
  shows "days_before_month y m \<le> days_before_month y k"
  using assms
proof (induction k rule: dec_induct)
  case (step k)
  then show ?case using days_before_month_Suc [of k y] by (cases "k = 0") (auto simp: days_before_month_def)
qed simp

lemma days_before_month_13: "days_before_month y 13 = (if leap_year y then 366 else 365)"
  by (simp add: days_before_month_def days_in_month_def upt_rec)

lemma last_filter_upt:
  fixes m n :: nat
  assumes "1 \<le> m" "m < n" "P m" "\<And>k. m < k \<Longrightarrow> k < n \<Longrightarrow> \<not> P k"
  shows "last (filter P [1..<n]) = m"
proof -
  have "[1..<n] = [1..<m] @ m # [Suc m..<n]"
    using assms(1,2) upt_add_eq_append [of 1 m "n - m"] upt_conv_Cons [of m n] by simp
  moreover have "filter P [Suc m..<n] = []" using assms(4) by (auto simp: filter_empty_conv)
  ultimately show ?thesis using assms(3) by simp
qed

lemma month_found:
  assumes "1 \<le> m" "m \<le> 12" "1 \<le> d" "d \<le> days_in_month y m"
  shows "months_from y (days_before_month y m + d) = m"
    and "days_before_month y m + d \<le> (if leap_year y then 366 else 365)"
proof -
  have le: "days_before_month y m + d \<le> days_before_month y (Suc m)"
    using days_before_month_Suc [OF assms(1)] assms(4) by simp
  then have "\<not> days_before_month y k < days_before_month y m + d" if "m < k" for k
    using days_before_month_mono [of "Suc m" k y] that by simp
  then show "months_from y (days_before_month y m + d) = m"
    unfolding months_from_def by (intro last_filter_upt) (use assms in auto)
  have "days_before_month y m + d \<le> days_before_month y 13"
    by (rule order_trans [OF le days_before_month_mono]) (use assms(2) in simp)
  then show "days_before_month y m + d \<le> (if leap_year y then 366 else 365)"
    by (simp only: days_before_month_13)
qed

lemma date_of_ordinal_ordinal:
  assumes "calendar_date_ok y m d"
  shows "date_of_ordinal (ordinal y m d) = (y, m, d)"
proof -
  let ?n = "ordinal y m d"
  have ok: "1 \<le> y" "1 \<le> m" "m \<le> 12" "1 \<le> d" "d \<le> days_in_month y m"
    using assms by (auto simp: calendar_date_ok_def)
  have "days_before_year y < ?n" using ok(4) by (simp add: ordinal_def)
  moreover have "?n \<le> days_before_year (Suc y)"
    using month_found(2) [OF ok(2-5)] days_before_year_Suc [OF ok(1)] by (simp add: ordinal_def)
  moreover have "(?n - 1) div 366 + 1 \<le> y"
  proof -
    have "?n \<le> 366 * (y - 1) + 366"
      using days_before_year_le [OF ok(1)] month_found(2) [OF ok(2-5)] by (auto simp: ordinal_def split: if_splits)
    then show ?thesis using ok(1) by (simp add: less_mult_imp_div_less Suc_le_eq)
  qed
  ultimately have "year_from ((?n - 1) div 366 + 1) ?n = y" by (intro year_from_finds) auto
  then show ?thesis
    using month_found(1) [OF ok(2-5)] by (simp add: date_of_ordinal_def ordinal_def)
qed

lemma year_from_bounds:
  "1 \<le> z \<Longrightarrow> days_before_year z < n \<Longrightarrow>
    1 \<le> year_from z n \<and> days_before_year (year_from z n) < n \<and> n \<le> days_before_year (Suc (year_from z n))"
proof (induction z n rule: year_from.induct)
  case (1 z n)
  then show ?case by (subst (1 2 3) year_from.simps) auto
qed

lemma months_from_bounds:
  assumes "1 \<le> k" "k \<le> days_before_month y 13"
  shows "1 \<le> months_from y k \<and> months_from y k \<le> 12 \<and> days_before_month y (months_from y k) < k
    \<and> k \<le> days_before_month y (Suc (months_from y k))"
proof -
  define S where "S = {m \<in> {1..12}. days_before_month y m < k}"
  have S: "finite S" "1 \<in> S" using assms(1) by (auto simp: S_def days_before_month_def)
  define m where "m = Max S"
  have m: "m \<in> S" "\<And>i. i \<in> S \<Longrightarrow> i \<le> m" using S by (auto simp: m_def intro: Max_in)
  then have months: "months_from y k = m"
    unfolding months_from_def
  proof (intro last_filter_upt)
    fix i assume "m < i" "i < (13::nat)"
    then show "\<not> days_before_month y i < k" using m(2) [of i] by (auto simp: S_def)
  qed (auto simp: S_def)
  moreover have "k \<le> days_before_month y (Suc m)"
  proof (cases "m = 12")
    case False
    then have "Suc m \<in> {1..12}" using m(1) by (auto simp: S_def)
    moreover have "Suc m \<notin> S" using m(2) [of "Suc m"] by auto
    ultimately show ?thesis by (simp add: S_def)
  qed (use assms(2) in simp)
  ultimately show ?thesis using m(1) by (simp add: S_def)
qed

lemma ordinal_date_of_ordinal:
  assumes "1 \<le> n" "n \<le> days_before_year 10000" "date_of_ordinal n = (y, m, d)"
  shows "calendar_date_ok y m d" and "ordinal y m d = n"
proof -
  define z where "z = (n - 1) div 366 + 1"
  have "days_before_year z \<le> 366 * (z - 1)" using days_before_year_le [of z] by (simp add: z_def)
  also have "\<dots> \<le> n - 1" by (simp add: z_def)
  finally have z: "1 \<le> z" "days_before_year z < n" using assms(1) by (auto simp: z_def)
  define k where "k = n - days_before_year y"
  have y: "y = year_from z n" "m = months_from y k" "d = k - days_before_month y m"
    using assms(3) by (auto simp: date_of_ordinal_def Let_def z_def k_def)
  have yb: "1 \<le> y" "days_before_year y < n" "n \<le> days_before_year (Suc y)"
    using year_from_bounds [OF z] by (simp_all add: y(1))
  have "y < 10000"
  proof (rule ccontr)
    assume "\<not> y < 10000"
    then have "days_before_year 10000 \<le> days_before_year y" by (intro days_before_year_mono) auto
    with yb(2) assms(2) show False by simp
  qed
  moreover have k: "1 \<le> k" "k \<le> days_before_month y 13"
    using yb days_before_year_Suc [OF yb(1)] by (auto simp: k_def days_before_month_13)
  note mb = months_from_bounds [OF this, folded y(2)]
  then have "1 \<le> d" "d \<le> days_in_month y m"
    using days_before_month_Suc [of m y] by (auto simp: y(3))
  ultimately show "calendar_date_ok y m d" using yb(1) mb by (simp add: calendar_date_ok_def)
  show "ordinal y m d = n" unfolding ordinal_def y(3) using yb(2) mb k_def by linarith
qed

section \<open>Reading\<close>

record datetime =
  dt_local :: int
  dt_offset :: "int option"

definition day_us :: int where "day_us = 86400000000"

definition time_end :: int where "time_end = 3652059 * day_us"

definition pair_digits :: "string \<Rightarrow> nat option" where
  "pair_digits s = (if length s < 2 then None else digits_nat (take 2 s))"

definition fraction_us :: "string \<Rightarrow> nat option" where
  "fraction_us f =
     (case digits_nat f of None \<Rightarrow> None | Some _ \<Rightarrow> Some (read_nat (take 6 f) * 10 ^ (6 - length (take 6 f))))"

text \<open>\<open>HH[:?MM[:?SS[{.,}fff[fff]]]]\<close>: hours, minutes, seconds, microseconds.\<close>

definition parse_clock :: "string \<Rightarrow> (nat \<times> nat \<times> nat \<times> nat) option" where
  "parse_clock s =
     (case pair_digits s of None \<Rightarrow> None | Some h \<Rightarrow>
      let r = drop 2 s in
      if r = [] then Some (h, 0, 0, 0)
      else let sep = (hd r = CHR '':''); r = (if sep then tl r else r) in
      case pair_digits r of None \<Rightarrow> None | Some m \<Rightarrow>
      let r = drop 2 r in
      if r = [] then Some (h, m, 0, 0)
      else if sep \<and> hd r \<noteq> CHR '':'' then None
      else let r = (if sep then tl r else r) in
      case pair_digits r of None \<Rightarrow> None | Some c \<Rightarrow>
      let r = drop 2 r in
      if r = [] then Some (h, m, c, 0)
      else if hd r \<notin> {CHR ''.'', CHR '',''} then None
      else map_option (\<lambda>us. (h, m, c, us)) (fraction_us (tl r)))"

text \<open>The clock text, the sign of the zone and the zone text.\<close>

definition zone_split :: "string \<Rightarrow> string \<times> (char \<times> string) option" where
  "zone_split s =
     (let at = (\<lambda>c. (takeWhile (\<lambda>x. x \<noteq> c) s, Some (c, tl (dropWhile (\<lambda>x. x \<noteq> c) s)))) in
      if CHR ''-'' \<in> set s then at (CHR ''-'')
      else if CHR ''+'' \<in> set s then at (CHR ''+'')
      else if CHR ''Z'' \<in> set s then at (CHR ''Z'')
      else (s, None))"

definition clock_us :: "nat \<times> nat \<times> nat \<times> nat \<Rightarrow> int" where
  "clock_us = (\<lambda>(h, m, c, us). ((int h * 60 + int m) * 60 + int c) * 1000000 + int us)"

definition parse_zone :: "(char \<times> string) option \<Rightarrow> int option option" where
  "parse_zone z =
     (case z of
        None \<Rightarrow> Some None
      | Some (sign, t) \<Rightarrow>
          if sign = CHR ''Z'' \<and> t = [] then Some (Some 0)
          else if length t \<in> {0, 1, 3} then None
          else (case parse_clock t of
                  None \<Rightarrow> None
                | Some c \<Rightarrow> if clock_us c < day_us
                    then Some (Some (if sign = CHR ''-'' then - clock_us c else clock_us c)) else None))"

definition parse_time :: "string \<Rightarrow> (int \<times> int option) option" where
  "parse_time s =
     (if length s < 2 then None
      else case zone_split s of (hms, zone) \<Rightarrow>
        (case (parse_clock hms, parse_zone zone) of
           (Some (h, m, c, us), Some off) \<Rightarrow>
             if h \<le> 23 \<and> m \<le> 59 \<and> c \<le> 59 then Some (clock_us (h, m, c, us), off) else None
         | _ \<Rightarrow> None))"

text \<open>Where the date ends: the separator is one character.\<close>

definition date_end :: "string \<Rightarrow> nat" where
  "date_end s =
     (if length s = 7 then 7
      else if s ! 4 = CHR ''-'' then
        (if s ! 5 = CHR ''W'' then
           (if 8 < length s \<and> s ! 8 = CHR ''-''
            then (if 10 < length s \<and> is_digit (s ! 10) then 8 else 10) else 8)
         else 10)
      else if s ! 4 = CHR ''W'' then
        (let i = 7 + length (takeWhile is_digit (drop 7 s)) in
         if i < 9 then i else if even i then 7 else 8)
      else 8)"

definition week_ordinal :: "nat \<Rightarrow> nat \<Rightarrow> nat \<Rightarrow> nat" where
  "week_ordinal y w d =
     (let first = ordinal y 1 1; k = january_first y
      in (if 3 < k then first + 7 - k else first - k) + (w - 1) * 7 + (d - 1))"

definition date_ordinal :: "string \<Rightarrow> nat option" where
  "date_ordinal s =
     (if \<not> iso_date s then None
      else let y = read_nat (take 4 s); t = drop 4 s; sep = (take 1 t = ''-''); u = (if sep then drop 1 t else t) in
        if take 1 u = ''W'' then
          (let w = read_nat (take 2 (drop 1 u)); v = drop 3 u; v = (if sep then drop 1 v else v)
           in Some (week_ordinal y w (if v = [] then 1 else read_nat v)))
        else (let v = drop 2 u; v = (if sep then drop 1 v else v)
              in Some (ordinal y (read_nat (take 2 u)) (read_nat v))))"

definition datetime_fromisoformat :: "string \<Rightarrow> datetime option" where
  "datetime_fromisoformat s =
     (if length s < 7 then None
      else case date_ordinal (take (date_end s) s) of
        None \<Rightarrow> None
      | Some n \<Rightarrow>
          (let day = (int n - 1) * day_us; t = drop (Suc (date_end s)) s in
           if t = [] then Some \<lparr>dt_local = day, dt_offset = None\<rparr>
           else map_option (\<lambda>(us, off). \<lparr>dt_local = day + us, dt_offset = off\<rparr>) (parse_time t)))"

text \<open>\<open>value.replace("Z", "+00:00")\<close>\<close>

definition replace_Z :: "string \<Rightarrow> string" where
  "replace_Z s = concat (map (\<lambda>c. if c = CHR ''Z'' then ''+00:00'' else [c]) s)"

section \<open>Conversion to UTC\<close>

definition overflow_error :: py_error where
  "overflow_error = OtherError ''OverflowError: date value out of range''"

text \<open>\<open>astimezone(timezone.utc)\<close> of an aware time; \<open>None\<close> for a naive one, which no caller converts.\<close>

definition to_utc :: "datetime \<Rightarrow> int outcome option" where
  "to_utc v = map_option (\<lambda>off. let t = dt_local v - off in
     if 0 \<le> t \<and> t < time_end then Inr t else Inl overflow_error) (dt_offset v)"

text \<open>The time of day, in microseconds, and the whole text.\<close>

definition clock_text :: "nat \<Rightarrow> string" where
  "clock_text r =
     (let sec = r div 1000000; us = r mod 1000000
      in zero_pad 2 (sec div 3600) @ '':'' @ zero_pad 2 (sec div 60 mod 60) @ '':'' @ zero_pad 2 (sec mod 60)
         @ (if us = 0 then [] else ''.'' @ zero_pad 6 us))"

definition utc_text :: "int \<Rightarrow> string" where
  "utc_text t =
     (let (y, m, d) = date_of_ordinal (nat (t div day_us) + 1)
      in zero_pad 4 y @ ''-'' @ zero_pad 2 m @ ''-'' @ zero_pad 2 d @ ''T'' @ clock_text (nat (t mod day_us)) @ ''Z'')"

section \<open>Writing and reading back\<close>

lemma length_show_nat: "n < 10 ^ w \<Longrightarrow> 1 \<le> w \<Longrightarrow> length (show_nat n) \<le> w"
proof (induction w arbitrary: n)
  case (Suc w)
  show ?case
  proof (cases "n < 10")
    case False
    with Suc(2) have "n div 10 < 10 ^ w" by (simp add: less_mult_imp_div_less mult.commute)
    moreover have "1 \<le> w"
    proof (cases w)
      case 0
      then show ?thesis using Suc(2) False by simp
    qed simp
    ultimately have "length (show_nat (n div 10)) \<le> w" by (rule Suc(1))
    then show ?thesis using False by (subst show_nat.simps) simp
  qed (subst show_nat.simps, simp)
qed simp

lemma read_nat_zeros: "read_nat (replicate k (CHR ''0'') @ s) = read_nat s"
  by (induction k) (simp_all add: read_nat_def digit_val_def)

lemma zero_pad_digits:
  assumes "n < 10 ^ w" "1 \<le> w"
  shows "length (zero_pad w n) = w" "digits_nat (zero_pad w n) = Some n" "list_all is_digit (zero_pad w n)"
proof -
  have zero: "is_digit (CHR ''0'')" by (simp add: is_digit_def)
  show digits: "list_all is_digit (zero_pad w n)"
    using show_nat_digits [of n] zero by (auto simp: zero_pad_def list_all_iff)
  show "length (zero_pad w n) = w" using length_show_nat [OF assms] by (simp add: zero_pad_def)
  show "digits_nat (zero_pad w n) = Some n"
    using digits by (simp add: digits_nat_def zero_pad_def read_nat_zeros)
qed

lemma length_2E: "length s = 2 \<Longrightarrow> (\<And>a b. s = [a, b] \<Longrightarrow> P) \<Longrightarrow> P"
  by (auto simp: numeral_2_eq_2 length_Suc_conv)

lemma length_4E: "length s = 4 \<Longrightarrow> (\<And>a b c d. s = [a, b, c, d] \<Longrightarrow> P) \<Longrightarrow> P"
  by (auto simp: eval_nat_numeral length_Suc_conv)

lemma is_digit_not: "is_digit c \<Longrightarrow> c \<noteq> CHR ''-'' \<and> c \<noteq> CHR '':'' \<and> c \<noteq> CHR ''+'' \<and> c \<noteq> CHR ''Z'' \<and> c \<noteq> CHR ''W'' \<and> c \<noteq> CHR ''T'' \<and> c \<noteq> CHR ''.''"
  by (auto simp: is_digit_def)

text \<open>The text of a time, its parts given as texts.\<close>

lemma parse_date_time:
  assumes "digits_nat [y1, y2, y3, y4] = Some y" "digits_nat [m1, m2] = Some m" "digits_nat [d1, d2] = Some d"
    and "calendar_date_ok y m d" "t \<noteq> []" "parse_time t = Some (us, off)"
  shows "datetime_fromisoformat ([y1, y2, y3, y4] @ ''-'' @ [m1, m2] @ ''-'' @ [d1, d2] @ ''T'' @ t) =
    Some \<lparr>dt_local = (int (ordinal y m d) - 1) * day_us + us, dt_offset = off\<rparr>"
proof -
  have nat_of: "digits_nat s = Some n \<Longrightarrow> read_nat s = n \<and> list_all is_digit s" for s n
    by (auto simp: digits_nat_def split: if_splits)
  note nats = assms(1-3) [THEN nat_of]
  have "m1 \<noteq> CHR ''W''" using nats(2) by (auto simp: is_digit_def)
  then show ?thesis using assms nats
    by (simp add: datetime_fromisoformat_def date_end_def date_ordinal_def iso_date_def iso_calendar_def Let_def)
qed

lemma parse_clock_time:
  assumes "digits_nat [h1, h2] = Some h" "digits_nat [m1, m2] = Some m" "digits_nat [c1, c2] = Some c"
    and "h \<le> 23" "m \<le> 59" "c \<le> 59"
    and "f = [] \<and> us = 0 \<or> (\<exists>g. f = CHR ''.'' # g \<and> length g = 6 \<and> digits_nat g = Some us)"
  shows "parse_time ([h1, h2] @ '':'' @ [m1, m2] @ '':'' @ [c1, c2] @ f @ ''+00:00'') =
    Some (clock_us (h, m, c, us), Some 0)"
proof -
  have digit: "digits_nat s = Some n \<Longrightarrow> list_all is_digit s" for s n
    by (auto simp: digits_nat_def split: if_splits)
  have dig: "is_digit h1" "is_digit h2" "is_digit m1" "is_digit m2" "is_digit c1" "is_digit c2"
    using assms(1-3) [THEN digit] by simp_all
  have fdig: "x \<noteq> CHR ''-'' \<and> x \<noteq> CHR ''+''" if "x \<in> set f" for x
    using assms(7) that digit by (fastforce simp: list_all_iff is_digit_def)
  let ?t = "[h1, h2] @ '':'' @ [m1, m2] @ '':'' @ [c1, c2] @ f"
  have notin: "CHR ''-'' \<notin> set ?t" "CHR ''+'' \<notin> set ?t"
    using dig fdig by (auto dest: is_digit_not)
  have "takeWhile (\<lambda>x. x \<noteq> CHR ''+'') (?t @ ''+00:00'') = ?t"
    "dropWhile (\<lambda>x. x \<noteq> CHR ''+'') (?t @ ''+00:00'') = ''+00:00''"
    using notin(2) by (subst takeWhile_append2 dropWhile_append2; force)+
  then have split: "zone_split (?t @ ''+00:00'') = (?t, Some (CHR ''+'', ''00:00''))"
    using notin(1) unfolding zone_split_def Let_def by simp
  have zero: "digits_nat ''00'' = Some 0" by (simp add: digits_nat_def is_digit_def read_nat_def digit_val_def)
  then have zone: "parse_zone (Some (CHR ''+'', ''00:00'')) = Some (Some 0)"
    by (simp add: parse_zone_def parse_clock_def pair_digits_def clock_us_def day_us_def)
  have "parse_clock ?t = Some (h, m, c, us)"
  proof (cases "f = []")
    case False
    then obtain g where g: "f = CHR ''.'' # g" "length g = 6" "digits_nat g = Some us" using assms(7) by auto
    then have "read_nat g = us" by (auto simp: digits_nat_def split: if_splits)
    then have "fraction_us g = Some us" using g by (simp add: fraction_us_def)
    then show ?thesis using g assms(1-3) by (simp add: parse_clock_def pair_digits_def Let_def)
  qed (use assms in \<open>simp add: parse_clock_def pair_digits_def Let_def\<close>)
  then show ?thesis using split zone assms(4-6) by (simp add: parse_time_def)
qed

lemma replace_Z_append: "replace_Z (s @ t) = replace_Z s @ replace_Z t"
  by (simp add: replace_Z_def)

lemma replace_Z_free: "CHR ''Z'' \<notin> set s \<Longrightarrow> replace_Z s = s"
  by (induction s) (auto simp: replace_Z_def)

lemma pad_no_Z: "n < 10 ^ w \<Longrightarrow> 1 \<le> w \<Longrightarrow> CHR ''Z'' \<notin> set (zero_pad w n)"
  using zero_pad_digits(3) [of n w] by (auto simp: list_all_iff dest: is_digit_not)

lemma parse_clock_text:
  assumes "r < 86400000000"
  shows "parse_time (clock_text r @ ''+00:00'') = Some (int r, Some 0)" and "CHR ''Z'' \<notin> set (clock_text r)"
proof -
  define h mi c us where "h = r div 1000000 div 3600" and "mi = r div 1000000 div 60 mod 60"
    and "c = r div 1000000 mod 60" and "us = r mod 1000000"
  have "h \<le> 23" using assms by (simp add: h_def less_mult_imp_div_less less_Suc_eq_le [symmetric])
  then have lim: "h < 10 ^ 2" "mi < 10 ^ 2" "c < 10 ^ 2" "us < 10 ^ 6" "h \<le> 23" "mi \<le> 59" "c \<le> 59"
    by (simp_all add: mi_def c_def us_def less_Suc_eq_le [symmetric])
  have "h = r div 1000000 div 60 div 60" by (simp add: h_def div_mult2_eq [symmetric])
  then have "h * 60 + mi = r div 1000000 div 60" by (simp add: mi_def)
  then have "(h * 60 + mi) * 60 + c = r div 1000000" by (simp add: c_def)
  then have "((h * 60 + mi) * 60 + c) * 1000000 + us = r" by (simp add: us_def)
  then have sum: "clock_us (h, mi, c, us) = int r" by (simp add: clock_us_def)
  define f where "f = (if us = 0 then [] else ''.'' @ zero_pad 6 us)"
  have frac: "f = [] \<and> us = 0 \<or> (\<exists>g. f = CHR ''.'' # g \<and> length g = 6 \<and> digits_nat g = Some us)"
    using zero_pad_digits [OF lim(4)] by (auto simp: f_def)
  have written: "clock_text r = zero_pad 2 h @ '':'' @ zero_pad 2 mi @ '':'' @ zero_pad 2 c @ f"
    by (simp add: clock_text_def Let_def h_def mi_def c_def us_def f_def)
  obtain h1 h2 where h: "zero_pad 2 h = [h1, h2]" using zero_pad_digits(1) [OF lim(1)] by (auto elim: length_2E)
  obtain m1 m2 where mi: "zero_pad 2 mi = [m1, m2]" using zero_pad_digits(1) [OF lim(2)] by (auto elim: length_2E)
  obtain c1 c2 where c: "zero_pad 2 c = [c1, c2]" using zero_pad_digits(1) [OF lim(3)] by (auto elim: length_2E)
  have "parse_time ([h1, h2] @ '':'' @ [m1, m2] @ '':'' @ [c1, c2] @ f @ ''+00:00'') = Some (int r, Some 0)"
    unfolding sum [symmetric] using zero_pad_digits(2) [OF lim(1)] zero_pad_digits(2) [OF lim(2)]
      zero_pad_digits(2) [OF lim(3)] by (intro parse_clock_time) (simp_all add: h mi c lim frac)
  then show "parse_time (clock_text r @ ''+00:00'') = Some (int r, Some 0)" by (simp add: written h mi c)
  show "CHR ''Z'' \<notin> set (clock_text r)" using lim(1-4) [THEN pad_no_Z] by (simp add: written f_def)
qed

lemma utc_text_reads_back:
  assumes "0 \<le> t" "t < time_end"
  shows "datetime_fromisoformat (replace_Z (utc_text t)) = Some \<lparr>dt_local = t, dt_offset = Some 0\<rparr>"
proof -
  define n r where "n = nat (t div day_us) + 1" and "r = nat (t mod day_us)"
  obtain y m d where ymd: "date_of_ordinal n = (y, m, d)" by (cases "date_of_ordinal n")
  have "t div day_us < 3652059" using assms(2) by (simp add: time_end_def day_us_def)
  then have n: "1 \<le> n" "n \<le> days_before_year 10000" by (simp_all add: n_def days_before_year_def)
  note date = ordinal_date_of_ordinal [OF n ymd]
  have "d \<le> 31"
    using date(1) by (auto simp: calendar_date_ok_def days_in_month_def split: if_splits)
  then have lim: "y < 10 ^ 4" "m < 10 ^ 2" "d < 10 ^ 2" using date(1) by (auto simp: calendar_date_ok_def)
  have r: "r < 86400000000" "int r = t mod day_us" by (auto simp: r_def day_us_def nat_less_iff)
  note time = parse_clock_text [OF r(1)]
  let ?s = "zero_pad 4 y @ ''-'' @ zero_pad 2 m @ ''-'' @ zero_pad 2 d @ ''T'' @ clock_text r"
  have "replace_Z ?s = ?s" using time(2) lim [THEN pad_no_Z] by (intro replace_Z_free) simp
  moreover have "utc_text t = ?s @ ''Z''" using ymd by (simp add: utc_text_def n_def r_def)
  moreover have "replace_Z ''Z'' = ''+00:00''" by (simp add: replace_Z_def)
  ultimately have written: "replace_Z (utc_text t) = zero_pad 4 y @ ''-'' @ zero_pad 2 m @ ''-'' @ zero_pad 2 d
      @ ''T'' @ clock_text r @ ''+00:00''"
    using replace_Z_append [of ?s "''Z''"] by simp
  obtain y1 y2 y3 y4 where y: "zero_pad 4 y = [y1, y2, y3, y4]"
    using zero_pad_digits(1) [OF lim(1)] by (auto elim: length_4E)
  obtain n1 n2 where m: "zero_pad 2 m = [n1, n2]" using zero_pad_digits(1) [OF lim(2)] by (auto elim: length_2E)
  obtain d1 d2 where d: "zero_pad 2 d = [d1, d2]" using zero_pad_digits(1) [OF lim(3)] by (auto elim: length_2E)
  have "datetime_fromisoformat (replace_Z (utc_text t)) =
      Some \<lparr>dt_local = (int (ordinal y m d) - 1) * day_us + int r, dt_offset = Some 0\<rparr>"
    unfolding written y m d
    using zero_pad_digits(2) [OF lim(1)] zero_pad_digits(2) [OF lim(2)] zero_pad_digits(2) [OF lim(3)]
    by (intro parse_date_time time(1) date(1)) (simp_all add: y m d)
  moreover have "int (ordinal y m d) - 1 = t div day_us" using date(2) assms(1) by (simp add: n_def day_us_def)
  ultimately show ?thesis using r(2) by simp
qed

end
