(* ===== verification/Py_Values.thy ===== *)
theory Py_Values
  imports Json
begin

text \<open>
  Python operations on the values a JSON document holds and on text, as the connectors and the
  state store use them: truth value, \<open>str()\<close> and \<open>repr()\<close>, \<open>dict.get\<close>, \<open>split\<close>, \<open>removeprefix\<close>,
  \<open>upper\<close>, \<open>title\<close> and \<open>isdigit\<close>. Shown: joining texts that do not contain the separator can be
  undone, which makes the identity strings of the connectors unambiguous.
\<close>

section \<open>Values\<close>

definition dict_get :: "string \<Rightarrow> (string \<times> json) list \<Rightarrow> json" where
  "dict_get k kvs = (case obj_get k kvs of None \<Rightarrow> JNull | Some v \<Rightarrow> v)"

definition dict_get_or :: "string \<Rightarrow> json \<Rightarrow> (string \<times> json) list \<Rightarrow> json" where
  "dict_get_or k d kvs = (case obj_get k kvs of None \<Rightarrow> d | Some v \<Rightarrow> v)"

fun truthy :: "json \<Rightarrow> bool" where
  "truthy JNull = False"
| "truthy (JBool b) = b"
| "truthy (JInt i) = (i \<noteq> 0)"
| "truthy (JFloat f) = (f \<noteq> Fixed 0)"
| "truthy (JStr s) = (s \<noteq> [])"
| "truthy (JList vs) = (vs \<noteq> [])"
| "truthy (JObj kvs) = (kvs \<noteq> [])"

definition py_or :: "json \<Rightarrow> json \<Rightarrow> json" where
  "py_or a b = (if truthy a then a else b)"

text \<open>\<open>x in {...}\<close> for a set of texts: a list or a dictionary cannot be hashed.\<close>

fun hashable :: "json \<Rightarrow> bool" where
  "hashable (JList vs) = False"
| "hashable (JObj kvs) = False"
| "hashable _ = True"

definition apostrophe :: char where "apostrophe = char_of (39 :: nat)"

text \<open>The code points below 256 that \<open>str.isprintable\<close> rejects are written as escapes.\<close>

definition repr_char :: "char \<Rightarrow> char \<Rightarrow> string" where
  "repr_char q c = (let n = ord_of c in
     if c = q \<or> c = backslash then [backslash, c]
     else if n = 9 then [backslash, CHR ''t'']
     else if n = 10 then [backslash, CHR ''n'']
     else if n = 13 then [backslash, CHR ''r'']
     else if n < 32 \<or> (127 \<le> n \<and> n \<le> 160) \<or> n = 173
       then [backslash, CHR ''x'', hex_char (n div 16), hex_char (n mod 16)]
     else [c])"

definition repr_text :: "string \<Rightarrow> string" where
  "repr_text s =
     (let q = (if apostrophe \<in> set s \<and> quote_char \<notin> set s then quote_char else apostrophe)
      in q # concat (map (repr_char q) s) @ [q])"

fun repr_float :: "pyfloat \<Rightarrow> string" where
  "repr_float (Fixed n) = float_repr (Fixed n)"
| "repr_float (Infinite neg) = (if neg then ''-inf'' else ''inf'')"
| "repr_float NotANumber = ''nan''"

fun py_repr :: "json \<Rightarrow> string" where
  "py_repr JNull = ''None''"
| "py_repr (JBool b) = (if b then ''True'' else ''False'')"
| "py_repr (JInt i) = show_int i"
| "py_repr (JFloat f) = repr_float f"
| "py_repr (JStr s) = repr_text s"
| "py_repr (JList vs) = ''['' @ py_join '', '' (map py_repr vs) @ '']''"
| "py_repr (JObj kvs) =
     ''{'' @ py_join '', '' (map (\<lambda>(k, v). repr_text k @ '': '' @ py_repr v) kvs) @ ''}''"

fun py_str :: "json \<Rightarrow> string" where
  "py_str (JStr s) = s"
| "py_str v = py_repr v"

section \<open>Text\<close>

definition py_upper :: "string \<Rightarrow> string" where
  "py_upper s = map upper_char s"

definition is_letter :: "char \<Rightarrow> bool" where
  "is_letter c = (let n = ord_of c in (65 \<le> n \<and> n \<le> 90) \<or> (97 \<le> n \<and> n \<le> 122))"

text \<open>\<open>str.title\<close> on ASCII text; the flag tells whether the previous character is a letter.\<close>

fun title_from :: "bool \<Rightarrow> string \<Rightarrow> string" where
  "title_from inside [] = []"
| "title_from inside (c # s) =
     (if inside then lower_char c else upper_char c) # title_from (is_letter c) s"

definition replace_char :: "char \<Rightarrow> char \<Rightarrow> string \<Rightarrow> string" where
  "replace_char a b s = map (\<lambda>c. if c = a then b else c) s"

definition removeprefix :: "string \<Rightarrow> string \<Rightarrow> string" where
  "removeprefix p s = (if take (length p) s = p then drop (length p) s else s)"

definition endswith :: "string \<Rightarrow> string \<Rightarrow> bool" where
  "endswith e s = (length e \<le> length s \<and> drop (length s - length e) s = e)"

text \<open>\<open>str.split\<close> with a one-character separator.\<close>

fun split_at :: "char \<Rightarrow> string \<Rightarrow> string list" where
  "split_at d [] = [[]]"
| "split_at d (c # s) =
     (if c = d then [] # split_at d s
      else (case split_at d s of [] \<Rightarrow> [[c]] | p # ps \<Rightarrow> (c # p) # ps))"

text \<open>\<open>str.isdigit\<close>: the superscripts one, two and three count as digits, but \<open>int()\<close> refuses them.\<close>

definition isdigit_char :: "char \<Rightarrow> bool" where
  "isdigit_char c = (is_digit c \<or> ord_of c = 178 \<or> ord_of c = 179 \<or> ord_of c = 185)"

definition py_isdigit :: "string \<Rightarrow> bool" where
  "py_isdigit s = (s \<noteq> [] \<and> list_all isdigit_char s)"

text \<open>
  \<open>bytes.decode("utf-8")\<close>, \<open>None\<close> for invalid bytes. Code points from 256 on are outside the texts of this development and are
  treated as invalid.
\<close>

fun utf8_decode :: "byte list \<Rightarrow> string option" where
  "utf8_decode [] = Some []"
| "utf8_decode (b # bs) =
     (if unat b < 128 then map_option (\<lambda>s. char_of (unat b) # s) (utf8_decode bs)
      else (case bs of
              [] \<Rightarrow> None
            | c # cs \<Rightarrow>
                if 194 \<le> unat b \<and> unat b \<le> 195 \<and> 128 \<le> unat c \<and> unat c < 192
                then map_option (\<lambda>s. char_of ((unat b - 192) * 64 + (unat c - 128)) # s) (utf8_decode cs)
                else None))"

lemma utf8_decode_char: "utf8_decode (utf8_char c @ bs) = map_option (\<lambda>s. c # s) (utf8_decode bs)"
proof -
  let ?n = "ord_of c"
  have lim: "?n < 256" by simp
  show ?thesis
  proof (cases "?n < 128")
    case False
    have small: "m < 256 \<Longrightarrow> m div 64 < 4" for m :: nat by (simp add: less_mult_imp_div_less)
    have "192 + ?n div 64 < 256" "128 + ?n mod 64 < 256" using small [OF lim] by simp_all
    then have b: "unat (of_nat (192 + ?n div 64) :: byte) = 192 + ?n div 64"
      "unat (of_nat (128 + ?n mod 64) :: byte) = 128 + ?n mod 64" using unat_byte by blast+
    have big: "128 \<le> m \<Longrightarrow> 2 \<le> m div 64" for m :: nat using div_le_mono [of 128 m 64] by simp
    have "2 \<le> ?n div 64" "?n div 64 \<le> 3" using small [OF lim] big [of ?n] False by simp_all
    then show ?thesis using False b by (simp add: utf8_char_def Let_def)
  qed (simp add: utf8_char_def unat_byte)
qed

lemma utf8_decode_encode [simp]: "utf8_decode (utf8_encode s) = Some s"
  by (induction s) (simp_all add: utf8_decode_char)

section \<open>Joined identities\<close>

lemma split_at_nonempty [simp]: "split_at d s \<noteq> []"
  by (induction s) (auto split: list.splits)

lemma split_at_free: "d \<notin> set s \<Longrightarrow> split_at d s = [s]"
  by (induction s) auto

lemma split_at_append: "d \<notin> set s \<Longrightarrow> split_at d (s @ d # t) = s # split_at d t"
  by (induction s) auto

lemma split_at_join:
  "parts \<noteq> [] \<Longrightarrow> (\<And>p. p \<in> set parts \<Longrightarrow> d \<notin> set p) \<Longrightarrow> split_at d (py_join [d] parts) = parts"
proof (induction "[d]" parts rule: py_join.induct)
  case (3 s t ss)
  have "split_at d (py_join [d] (t # ss)) = t # ss" by (rule 3(1)) (simp_all add: 3(3))
  moreover have "d \<notin> set s" by (rule 3(3)) simp
  ultimately show ?case by (simp add: split_at_append)
qed (simp_all add: split_at_free)

text \<open>What makes an identity such as \<open>"|".join(parts)\<close> unambiguous.\<close>

lemma py_join_inject:
  assumes "py_join [d] ps = py_join [d] qs" "ps \<noteq> []" "qs \<noteq> []"
    and "\<And>p. p \<in> set ps \<union> set qs \<Longrightarrow> d \<notin> set p"
  shows "ps = qs"
proof -
  have "split_at d (py_join [d] ps) = ps" by (rule split_at_join [OF assms(2)], rule assms(4), rule UnI1)
  moreover have "split_at d (py_join [d] qs) = qs" by (rule split_at_join [OF assms(3)], rule assms(4), rule UnI2)
  ultimately show ?thesis using arg_cong [OF assms(1), of "split_at d"] by metis
qed

end
