(* ===== verification/Contract_Validation.thy ===== *)
theory Contract_Validation
  imports Patterns Calendar Py_Values
begin

text \<open>
  The validation primitives of \<open>contract_validation.py\<close>: canonical text, identifiers, evidence references and the
  strict RFC 3339 timestamps, and the address check of the standard library's \<open>ipaddress\<close> that the connectors add.
  Patterns are written as in the source; text is limited to code points below 256, so the excluded characters
  beyond are not represented. Shown: what each pattern accepts in plain terms, that
  accepted identifiers do not contain the separator of the identity strings, and that a normalised timestamp is read back as the
  same instant and normalises to itself.
\<close>

section \<open>Text\<close>

definition control_char :: "char \<Rightarrow> bool" where
  "control_char c = (let n = ord_of c in n < 32 \<or> (127 \<le> n \<and> n < 160))"

definition edge_char :: "char \<Rightarrow> bool" where
  "edge_char c = (\<not> py_isspace c \<and> \<not> control_char c)"

definition inner_char :: "char \<Rightarrow> bool" where
  "inner_char c = (\<not> control_char c)"

definition canonical_text_rx :: rx where
  "canonical_text_rx = RSeq (RChar edge_char) (r_opt (RSeq (RStar (RChar inner_char)) (RChar edge_char)))"

definition is_canonical_text :: "json \<Rightarrow> nat \<Rightarrow> bool" where
  "is_canonical_text v maximum =
     (case v of JStr s \<Rightarrow> 1 \<le> length s \<and> length s \<le> maximum \<and> fullmatch canonical_text_rx s | _ \<Rightarrow> False)"

definition identifier_char :: "char \<Rightarrow> bool" where
  "identifier_char c = (ascii_alnum c \<or> c \<in> {CHR ''.'', CHR ''_'', CHR '':'', CHR ''-''})"

definition identifier_rx :: rx where
  "identifier_rx = RSeq (RChar ascii_alnum) (r_upto 127 (RChar identifier_char))"

definition source_char :: "char \<Rightarrow> bool" where
  "source_char c = (ascii_lower c \<or> is_digit c \<or> c \<in> {CHR ''.'', CHR ''_'', CHR '':'', CHR ''-''})"

definition source_identifier_rx :: rx where
  "source_identifier_rx = RSeq (RChar (\<lambda>c. ascii_lower c \<or> is_digit c)) (r_upto 127 (RChar source_char))"

definition is_identifier :: "json \<Rightarrow> bool" where
  "is_identifier v = (case v of JStr s \<Rightarrow> fullmatch identifier_rx s | _ \<Rightarrow> False)"

definition is_source_identifier :: "json \<Rightarrow> bool" where
  "is_source_identifier v = (case v of JStr s \<Rightarrow> fullmatch source_identifier_rx s | _ \<Rightarrow> False)"

section \<open>Evidence references\<close>

definition host_char :: "char \<Rightarrow> bool" where
  "host_char c = (ascii_alnum c \<or> c = CHR ''-'')"

definition host_label_rx :: rx where
  "host_label_rx = RSeq (RChar ascii_alnum) (r_opt (RSeq (RStar (RChar host_char)) (RChar ascii_alnum)))"

definition evidence_host_rx :: rx where
  "evidence_host_rx = RSeq host_label_rx (RStar (RSeq (r_text ''.'') host_label_rx))"

definition evidence_reference_rx :: rx where
  "evidence_reference_rx =
     RAlt (RSeq (r_text ''urn:'') (r_plus (RChar edge_char)))
       (RSeq (RAlt (r_text ''https'') (RAlt (r_text ''azblob'') (r_text ''sample'')))
         (RSeq (r_text ''://'') (RSeq evidence_host_rx
           (r_opt (RSeq (RChar (\<lambda>c. c \<in> {CHR ''/'', CHR ''?'', CHR ''#''})) (RStar (RChar edge_char)))))))"

definition is_evidence_reference :: "json \<Rightarrow> bool" where
  "is_evidence_reference v =
     (is_canonical_text v 512 \<and> (case v of JStr s \<Rightarrow> fullmatch evidence_reference_rx s | _ \<Rightarrow> False))"

section \<open>Timestamps\<close>

definition rfc3339_rx :: rx where
  "rfc3339_rx = (let d = RChar is_digit in r_seq
     [r_times 4 d, r_text ''-'', r_times 2 d, r_text ''-'', r_times 2 d, r_text ''T'',
      r_times 2 d, r_text '':'', r_times 2 d, r_text '':'', r_times 2 d,
      r_opt (RSeq (r_text ''.'') (RSeq d (r_upto 5 d))),
      RAlt (r_text ''Z'') (r_seq [RChar (\<lambda>c. c \<in> {CHR ''+'', CHR ''-''}), r_times 2 d, r_text '':'', r_times 2 d])])"

definition normalized_rfc3339_rx :: rx where
  "normalized_rfc3339_rx = (let d = RChar is_digit in r_seq
     [r_times 4 d, r_text ''-'', r_times 2 d, r_text ''-'', r_times 2 d, r_text ''T'',
      r_times 2 d, r_text '':'', r_times 2 d, r_text '':'', r_times 2 d,
      r_opt (RSeq (r_text ''.'') (RSeq d (r_upto 5 d))), r_text ''Z''])"

definition invalid :: "string \<Rightarrow> string \<Rightarrow> py_error" where
  "invalid label name = ValueError (label @ '' '' @ name @ '' is invalid'')"

definition parse_rfc3339 :: "json \<Rightarrow> string \<Rightarrow> string \<Rightarrow> datetime outcome" where
  "parse_rfc3339 v label name =
     (case v of
        JStr s \<Rightarrow>
          if \<not> fullmatch rfc3339_rx s then Inl (invalid label name)
          else (case datetime_fromisoformat (replace_Z s) of
                  None \<Rightarrow> Inl (invalid label name)
                | Some dt \<Rightarrow> if dt_offset dt = None
                    then Inl (ValueError (label @ '' '' @ name @ '' must include a timezone'')) else Inr dt)
      | _ \<Rightarrow> Inl (invalid label name))"

text \<open>\<open>parse_rfc3339(...).astimezone(timezone.utc)\<close>; the time is aware.\<close>

definition parse_utc :: "json \<Rightarrow> string \<Rightarrow> string \<Rightarrow> int outcome" where
  "parse_utc v label name =
     outcome_bind (parse_rfc3339 v label name) (\<lambda>dt.
       case to_utc dt of None \<Rightarrow> Inl (invalid label name) | Some r \<Rightarrow> r)"

section \<open>Addresses\<close>

text \<open>\<open>ipaddress.ip_address(text)\<close> succeeds.\<close>

definition octet_ok :: "string \<Rightarrow> bool" where
  "octet_ok s = (s \<noteq> [] \<and> list_all is_digit s \<and> length s \<le> 3 \<and> (s = ''0'' \<or> hd s \<noteq> CHR ''0'')
     \<and> read_nat s \<le> 255)"

definition ipv4_ok :: "string \<Rightarrow> bool" where
  "ipv4_ok s = (let parts = split_at (CHR ''.'') s in
     CHR ''/'' \<notin> set s \<and> length parts = 4 \<and> list_all octet_ok parts)"

definition hextet_ok :: "string \<Rightarrow> bool" where
  "hextet_ok s = (s \<noteq> [] \<and> length s \<le> 4 \<and> list_all (\<lambda>c. hex_val c \<noteq> None) s)"

text \<open>
  The parts of an IPv6 address, an IPv4 suffix counting as two parts. With \<open>::\<close> there is one empty inner part; an empty end part then
  belongs to it.
\<close>

definition ipv6_parts_ok :: "string list \<Rightarrow> bool" where
  "ipv6_parts_ok parts =
     (let gaps = filter (\<lambda>i. parts ! i = []) [1..<length parts - 1] in
      length parts \<le> 9 \<and>
      (case gaps of
         [] \<Rightarrow> length parts = 8 \<and> list_all hextet_ok parts
       | [i] \<Rightarrow>
           (let hi = take i parts; lo = drop (Suc i) parts;
                hi = (if hd parts = [] then tl hi else hi); lo = (if last parts = [] then butlast lo else lo)
            in (hd parts = [] \<longrightarrow> hi = []) \<and> (last parts = [] \<longrightarrow> lo = []) \<and> length hi + length lo \<le> 7
               \<and> list_all hextet_ok hi \<and> list_all hextet_ok lo)
       | _ \<Rightarrow> False))"

definition ipv6_ok :: "string \<Rightarrow> bool" where
  "ipv6_ok s =
     (let addr = takeWhile (\<lambda>c. c \<noteq> CHR ''%'') s; rest = dropWhile (\<lambda>c. c \<noteq> CHR ''%'') s; parts = split_at (CHR '':'') addr in
      CHR ''/'' \<notin> set s
      \<and> (rest = [] \<or> (tl rest \<noteq> [] \<and> CHR ''%'' \<notin> set (tl rest)))
      \<and> addr \<noteq> [] \<and> 3 \<le> length parts
      \<and> (if CHR ''.'' \<in> set (last parts)
         then ipv4_ok (last parts) \<and> ipv6_parts_ok (butlast parts @ [''0'', ''0''])
         else ipv6_parts_ok parts))"

definition ip_address_ok :: "string \<Rightarrow> bool" where
  "ip_address_ok s = (ipv4_ok s \<or> ipv6_ok s)"

section \<open>What the patterns accept\<close>

lemma canonical_rx_iff:
  "fullmatch canonical_text_rx s \<longleftrightarrow>
     s \<noteq> [] \<and> edge_char (hd s) \<and> edge_char (last s) \<and> list_all inner_char s"
proof -
  have edge: "edge_char c \<Longrightarrow> inner_char c" for c by (simp add: edge_char_def inner_char_def)
  have tail: "matches (RSeq (RStar (RChar inner_char)) (RChar edge_char)) t \<longleftrightarrow>
      t \<noteq> [] \<and> edge_char (last t) \<and> list_all inner_char t" for t
    by (cases t rule: rev_cases) (auto simp: matches_seq edge)
  show ?thesis
    by (cases s) (auto simp: fullmatch_iff canonical_text_rx_def matches_char_seq tail edge)
qed

lemma canonical_text_iff:
  "is_canonical_text v n \<longleftrightarrow> (\<exists>s. v = JStr s \<and> s \<noteq> [] \<and> length s \<le> n
     \<and> edge_char (hd s) \<and> edge_char (last s) \<and> list_all inner_char s)"
  by (auto simp: is_canonical_text_def canonical_rx_iff Suc_le_eq split: json.splits)

lemma identifier_iff:
  "is_identifier v \<longleftrightarrow> (\<exists>s. v = JStr s \<and> s \<noteq> [] \<and> length s \<le> 128 \<and> ascii_alnum (hd s) \<and> list_all identifier_char s)"
proof -
  have alnum: "ascii_alnum c \<Longrightarrow> identifier_char c" for c by (simp add: identifier_char_def)
  have "fullmatch identifier_rx s \<longleftrightarrow>
      s \<noteq> [] \<and> length s \<le> 128 \<and> ascii_alnum (hd s) \<and> list_all identifier_char s" for s
    by (cases s) (auto simp: fullmatch_iff identifier_rx_def matches_char_seq alnum)
  then show ?thesis by (auto simp: is_identifier_def split: json.splits)
qed

lemma source_identifier_iff:
  "is_source_identifier v \<longleftrightarrow>
     (\<exists>s. v = JStr s \<and> s \<noteq> [] \<and> length s \<le> 128 \<and> (ascii_lower (hd s) \<or> is_digit (hd s)) \<and> list_all source_char s)"
proof -
  have "fullmatch source_identifier_rx s \<longleftrightarrow>
      s \<noteq> [] \<and> length s \<le> 128 \<and> (ascii_lower (hd s) \<or> is_digit (hd s)) \<and> list_all source_char s" for s
    by (cases s) (auto simp: fullmatch_iff source_identifier_rx_def matches_char_seq source_char_def)
  then show ?thesis by (auto simp: is_source_identifier_def split: json.splits)
qed

lemma source_is_identifier: "is_source_identifier v \<Longrightarrow> is_identifier v"
proof -
  have "source_char c \<Longrightarrow> identifier_char c" for c
    by (auto simp: source_char_def identifier_char_def ascii_alnum_def)
  moreover have "ascii_lower c \<or> is_digit c \<Longrightarrow> ascii_alnum c" for c by (auto simp: ascii_alnum_def)
  ultimately show "is_source_identifier v \<Longrightarrow> is_identifier v"
    by (auto simp: source_identifier_iff identifier_iff list_all_iff)
qed

lemma identifier_no_bar: "is_identifier (JStr s) \<Longrightarrow> CHR ''|'' \<notin> set s"
  using class_free by (fastforce simp: identifier_iff list_all_iff identifier_char_def)

lemma identifier_canonical: "is_identifier v \<Longrightarrow> is_canonical_text v 128"
proof -
  have ok: "identifier_char c \<Longrightarrow> edge_char c \<and> inner_char c" for c
    using class_free [of c] by (auto simp: identifier_char_def edge_char_def inner_char_def control_char_def py_isspace_def Let_def)
  assume "is_identifier v"
  then obtain s where s: "v = JStr s" "s \<noteq> []" "length s \<le> 128" "list_all identifier_char s"
    by (auto simp: identifier_iff)
  then have "identifier_char (hd s)" "identifier_char (last s)" by (auto simp: list_all_iff)
  with s ok show "is_canonical_text v 128" by (auto simp: canonical_text_iff list_all_iff)
qed

section \<open>Normalised timestamps\<close>

lemma parse_utc_range: "parse_utc v label name = Inr t \<Longrightarrow> 0 \<le> t \<and> t < time_end"
  by (auto simp: parse_utc_def to_utc_def Let_def outcome_simps split: option.splits if_splits)

lemma matches_pad: "n < 10 ^ w \<Longrightarrow> 1 \<le> w \<Longrightarrow> matches (r_times w (RChar is_digit)) (zero_pad w n)"
  using zero_pad_digits [of n w] by simp

lemma clock_text_matches:
  assumes "r < 86400000000" "matches q t"
  shows "matches (r_seq [r_times 2 (RChar is_digit), r_text '':'', r_times 2 (RChar is_digit), r_text '':'',
    r_times 2 (RChar is_digit), r_opt (RSeq (r_text ''.'') (RSeq (RChar is_digit) (r_upto 5 (RChar is_digit)))), q])
    (clock_text r @ t)"
proof -
  have us: "r mod 1000000 < 10 ^ 6" by simp
  have "r div 1000000 div 3600 \<le> 23" using assms(1) by (simp add: less_mult_imp_div_less less_Suc_eq_le [symmetric])
  then have lim: "r div 1000000 div 3600 < 10 ^ 2" by simp
  let ?f = "if r mod 1000000 = 0 then [] else ''.'' @ zero_pad 6 (r mod 1000000)"
  have frac: "matches (r_opt (RSeq (r_text ''.'') (RSeq (RChar is_digit) (r_upto 5 (RChar is_digit))))) ?f"
    using zero_pad_digits [OF us] by (cases "zero_pad 6 (r mod 1000000)") (auto simp: matches_char_seq)
  show ?thesis
    unfolding clock_text_def Let_def r_seq.simps append_assoc
    by (intro matches.seq frac assms(2) matches_pad lim) simp_all
qed

lemma utc_text_matches:
  assumes "0 \<le> t" "t < time_end"
  shows "fullmatch normalized_rfc3339_rx (utc_text t)" and "fullmatch rfc3339_rx (utc_text t)"
proof -
  define n where "n = nat (t div day_us) + 1"
  obtain y m d where ymd: "date_of_ordinal n = (y, m, d)" by (cases "date_of_ordinal n")
  have "t div day_us < 3652059" using assms(2) by (simp add: time_end_def day_us_def)
  then have n: "1 \<le> n" "n \<le> days_before_year 10000" by (simp_all add: n_def days_before_year_def)
  note date = ordinal_date_of_ordinal [OF n ymd]
  have "d \<le> 31"
    using date(1) by (auto simp: calendar_date_ok_def days_in_month_def split: if_splits)
  then have lim: "y < 10 ^ 4" "m < 10 ^ 2" "d < 10 ^ 2" using date(1) by (auto simp: calendar_date_ok_def)
  have r: "nat (t mod day_us) < 86400000000" by (simp add: day_us_def nat_less_iff)
  have matched: "matches (r_seq [r_times 4 (RChar is_digit), r_text ''-'', r_times 2 (RChar is_digit), r_text ''-'',
      r_times 2 (RChar is_digit), r_text ''T'', r_times 2 (RChar is_digit), r_text '':'', r_times 2 (RChar is_digit),
      r_text '':'', r_times 2 (RChar is_digit),
      r_opt (RSeq (r_text ''.'') (RSeq (RChar is_digit) (r_upto 5 (RChar is_digit)))), q]) (utc_text t)"
    if q: "matches q ''Z''" for q
  proof -
    have "utc_text t = zero_pad 4 y @ ''-'' @ zero_pad 2 m @ ''-'' @ zero_pad 2 d @ ''T''
        @ clock_text (nat (t mod day_us)) @ ''Z''" using ymd by (simp add: utc_text_def n_def)
    moreover have "matches (RSeq (r_times 4 (RChar is_digit)) (RSeq (r_text ''-'') (RSeq (r_times 2 (RChar is_digit))
        (RSeq (r_text ''-'') (RSeq (r_times 2 (RChar is_digit)) (RSeq (r_text ''T'') c))))))
        (zero_pad 4 y @ ''-'' @ zero_pad 2 m @ ''-'' @ zero_pad 2 d @ ''T'' @ u)" if "matches c u" for c u
      by (intro matches.seq that matches_pad lim) simp_all
    ultimately show ?thesis using clock_text_matches [OF r q] by simp
  qed
  then show "fullmatch normalized_rfc3339_rx (utc_text t)" "fullmatch rfc3339_rx (utc_text t)"
    by (simp_all add: fullmatch_iff normalized_rfc3339_rx_def rfc3339_rx_def Let_def)
qed

lemma parse_utc_text:
  assumes "0 \<le> t" "t < time_end"
  shows "parse_utc (JStr (utc_text t)) label name = Inr t"
  using assms utc_text_matches(2) [OF assms] utc_text_reads_back [OF assms]
  by (simp add: parse_utc_def parse_rfc3339_def to_utc_def)

section \<open>The accepted forms by code points\<close>

definition alnum_codes :: "nat set" where
  "alnum_codes = {48..57} \<union> {65..90} \<union> {97..122}"

definition lower_codes :: "nat set" where
  "lower_codes = {48..57} \<union> {97..122}"

definition mark_codes :: "nat set" where
  "mark_codes = {45, 46, 58, 95}"

lemma mark_char: "c \<in> {CHR ''.'', CHR ''_'', CHR '':'', CHR ''-''} \<longleftrightarrow> ord_of c \<in> mark_codes"
proof -
  have "ord_of c = 46 \<longleftrightarrow> c = CHR ''.''" "ord_of c = 95 \<longleftrightarrow> c = CHR ''_''"
    "ord_of c = 58 \<longleftrightarrow> c = CHR '':''" "ord_of c = 45 \<longleftrightarrow> c = CHR ''-''"
    using ord_of_inject [of c "CHR ''.''"] ord_of_inject [of c "CHR ''_''"]
      ord_of_inject [of c "CHR '':''"] ord_of_inject [of c "CHR ''-''"]
    by (simp_all del: ord_of_inject)
  then show ?thesis by (auto simp: mark_codes_def)
qed

lemma alnum_char: "ascii_alnum c \<longleftrightarrow> ord_of c \<in> alnum_codes"
  by (auto simp: ascii_alnum_def ascii_upper_def ascii_lower_def between_def is_digit_def alnum_codes_def)

lemma lower_char_codes: "ascii_lower c \<or> is_digit c \<longleftrightarrow> ord_of c \<in> lower_codes"
  by (auto simp: ascii_lower_def between_def is_digit_def lower_codes_def)

lemma identifier_codes: "identifier_char c \<longleftrightarrow> ord_of c \<in> alnum_codes \<union> mark_codes"
  unfolding identifier_char_def alnum_char mark_char by simp

lemma source_codes: "source_char c \<longleftrightarrow> ord_of c \<in> lower_codes \<union> mark_codes"
  using lower_char_codes [of c] unfolding source_char_def mark_char by blast

lemma inner_codes: "inner_char c \<longleftrightarrow> ord_of c \<notin> {0..31} \<union> {127..159}"
  by (auto simp: inner_char_def control_char_def Let_def)

lemma edge_codes: "edge_char c \<longleftrightarrow> ord_of c \<notin> {0..32} \<union> {127..160}"
  by (auto simp: edge_char_def control_char_def py_isspace_def Let_def)

text \<open>
  C23. What the patterns accept, by code points, for texts of code points below 256 (of the characters the source excludes, U+200B,
  U+2028, U+2029 and U+FEFF are not among them): canonical text is not empty, at most the limit long, free of the control characters 0 to 31
  and 127 to 159, and begins and ends with neither a space nor a no-break space; an identifier has at most 128 ASCII letters, digits,
  dashes, dots, colons and underscores and begins with a letter or digit; a source identifier likewise, with lower-case letters only.
\<close>

theorem accepted_text_forms:
  "is_canonical_text v n = (\<exists>s. v = JStr s \<and> s \<noteq> [] \<and> length s \<le> n
        \<and> ord_of ` set s \<inter> ({0..31} \<union> {127..159}) = {}
        \<and> ord_of (hd s) \<notin> {0..32} \<union> {127..160} \<and> ord_of (last s) \<notin> {0..32} \<union> {127..160})
   \<and> is_identifier v = (\<exists>s. v = JStr s \<and> s \<noteq> [] \<and> length s \<le> 128
        \<and> ord_of (hd s) \<in> {48..57} \<union> {65..90} \<union> {97..122}
        \<and> ord_of ` set s \<subseteq> {48..57} \<union> {65..90} \<union> {97..122} \<union> {45, 46, 58, 95})
   \<and> is_source_identifier v = (\<exists>s. v = JStr s \<and> s \<noteq> [] \<and> length s \<le> 128
        \<and> ord_of (hd s) \<in> {48..57} \<union> {97..122}
        \<and> ord_of ` set s \<subseteq> {48..57} \<union> {97..122} \<union> {45, 46, 58, 95})"
proof (intro conjI)
  show "is_canonical_text v n = (\<exists>s. v = JStr s \<and> s \<noteq> [] \<and> length s \<le> n
        \<and> ord_of ` set s \<inter> ({0..31} \<union> {127..159}) = {}
        \<and> ord_of (hd s) \<notin> {0..32} \<union> {127..160} \<and> ord_of (last s) \<notin> {0..32} \<union> {127..160})"
    unfolding canonical_text_iff edge_codes inner_codes list_all_iff by blast
  show "is_identifier v = (\<exists>s. v = JStr s \<and> s \<noteq> [] \<and> length s \<le> 128
        \<and> ord_of (hd s) \<in> {48..57} \<union> {65..90} \<union> {97..122}
        \<and> ord_of ` set s \<subseteq> {48..57} \<union> {65..90} \<union> {97..122} \<union> {45, 46, 58, 95})"
    unfolding identifier_iff alnum_char list_all_iff identifier_codes alnum_codes_def mark_codes_def by blast
  show "is_source_identifier v = (\<exists>s. v = JStr s \<and> s \<noteq> [] \<and> length s \<le> 128
        \<and> ord_of (hd s) \<in> {48..57} \<union> {97..122}
        \<and> ord_of ` set s \<subseteq> {48..57} \<union> {97..122} \<union> {45, 46, 58, 95})"
    unfolding source_identifier_iff lower_char_codes list_all_iff source_codes lower_codes_def mark_codes_def by blast
qed

theorem accepted_text_forms_witness:
  "is_identifier (JStr ''Srv-01:a_b.c'') \<and> \<not> is_identifier (JStr ''a/b'') \<and> \<not> is_source_identifier (JStr ''Srv-01'')
   \<and> is_canonical_text (JStr ''two words'') 9 \<and> \<not> is_canonical_text (JStr '' two'') 9"
proof -
  note forms = accepted_text_forms
  have "is_identifier (JStr ''Srv-01:a_b.c'')" "\<not> is_identifier (JStr ''a/b'')" "\<not> is_source_identifier (JStr ''Srv-01'')"
    "is_canonical_text (JStr ''two words'') 9" "\<not> is_canonical_text (JStr '' two'') 9"
    using forms [of "JStr ''Srv-01:a_b.c''" 9] forms [of "JStr ''a/b''" 9] forms [of "JStr ''Srv-01''" 9]
      forms [of "JStr ''two words''" 9] forms [of "JStr '' two''" 9] by simp_all
  then show ?thesis by blast
qed


lemma demo_datetime:
  "datetime_fromisoformat (replace_Z ''0001-01-01T07:00:00.25+07:00'') =
     Some \<lparr>dt_local = 25200250000, dt_offset = Some 25200000000\<rparr>"
  by (simp add: replace_Z_def datetime_fromisoformat_def date_end_def date_ordinal_def iso_date_def iso_calendar_def digits_nat_def
      read_nat_def digit_val_def is_digit_def calendar_date_ok_def days_in_month_def ordinal_def days_before_year_def
      days_before_month_def parse_time_def zone_split_def parse_clock_def pair_digits_def fraction_us_def parse_zone_def
      clock_us_def day_us_def Let_def)

lemma demo_to_utc: "to_utc \<lparr>dt_local = 25200250000, dt_offset = Some 25200000000\<rparr> = Some (Inr 250000)"
  by (simp add: to_utc_def time_end_def day_us_def)

lemma demo_utc: "parse_utc (JStr ''0001-01-01T07:00:00.25+07:00'') l n = Inr 250000"
proof -
  have "fullmatch rfc3339_rx ''0001-01-01T07:00:00.25+07:00''"
    by (simp add: fullmatch_def rfc3339_rx_def Let_def r_times.simps r_upto.simps r_text.simps r_opt_def is_digit_def eval_nat_numeral)
  then show ?thesis using demo_datetime demo_to_utc by (simp add: parse_utc_def parse_rfc3339_def)
qed


end
