(* ===== verification/Replay_Guard.thy ===== *)
theory Replay_Guard
  imports Prelude
begin

text \<open>
  The contract of the stores that admit an identity once: the replay nonces of the ingestion API and
  the event stores of the connectors. A reservation of a key is granted or refused; a granted
  reservation covers a set of later instants, and while it covers an instant a reservation of the
  same key at that instant is refused. The locale \<open>replay_guard\<close> states this; it is interpreted on the nonce table
  and on the two connector event stores.
\<close>

fun run_reservations ::
    "('k \<Rightarrow> 'x \<Rightarrow> int \<Rightarrow> 'st \<Rightarrow> bool \<times> 'st) \<Rightarrow> ('k \<times> 'x \<times> int) list \<Rightarrow> 'st \<Rightarrow> ('k \<times> bool) list" where
  "run_reservations reserve [] s = []"
| "run_reservations reserve ((k, x, t) # rs) s =
     (k, fst (reserve k x t s)) # run_reservations reserve rs (snd (reserve k x t s))"

locale replay_guard =
  fixes reserve :: "'k \<Rightarrow> 'x \<Rightarrow> int \<Rightarrow> 'st \<Rightarrow> bool \<times> 'st"
    and guarded :: "'st \<Rightarrow> 'k \<Rightarrow> int \<Rightarrow> bool"
    and covers :: "'x \<Rightarrow> int \<Rightarrow> int \<Rightarrow> bool"
  assumes refuses: "guarded s k now \<Longrightarrow> \<not> fst (reserve k x now s)"
    and grants: "fst (reserve k x now s) \<Longrightarrow> covers x now t \<Longrightarrow> guarded (snd (reserve k x now s)) k t"
    and keeps: "guarded s k t \<Longrightarrow> guarded s k now \<Longrightarrow> guarded (snd (reserve k' x now s)) k t"
begin

lemma guarded_refuses:
  "\<forall>(k', x, t) \<in> set rs. guarded s k t \<Longrightarrow> (k, True) \<notin> set (run_reservations reserve rs s)"
proof (induction rs arbitrary: s)
  case (Cons r rs)
  obtain k' x t where r: "r = (k', x, t)" by (cases r)
  then have now: "guarded s k t" using Cons(2) by auto
  have "\<forall>(k'', y, u) \<in> set rs. guarded (snd (reserve k' x t s)) k u"
    using Cons(2) keeps [OF _ now] by fastforce
  then show ?case using Cons(1) refuses [OF now] r by auto
qed simp

theorem granted_once:
  assumes "fst (reserve k x now s)" and "\<forall>(k', x', t) \<in> set rs. covers x now t"
  shows "(k, True) \<notin> set (run_reservations reserve rs (snd (reserve k x now s)))"
  using assms by (intro guarded_refuses) (auto intro: grants)

end

end
