(* ===== verification/Connectors.thy ===== *)
theory Connectors
  imports Contract_Validation Audit_Log Replay_Guard
begin

text \<open>
  The authenticated event boundary of \<open>connectors.py\<close> and the PostgreSQL event store of
  \<open>postgres_runtime_state.py\<close>: event identities, HMAC-SHA256 signatures, and the reservation of an event under its
  source and identifier. Both stores keep one row per identity; a repeated event with the same bytes is a duplicate, with other
  bytes a conflict. They are instances of \<open>replay_guard\<close> without an end of the protection.
\<close>

section \<open>Identities\<close>

definition digest_rx :: rx where
  "digest_rx = r_times 64 (RChar is_hex)"

definition validate_connector_identity :: "string \<Rightarrow> string \<Rightarrow> string option \<Rightarrow> unit outcome" where
  "validate_connector_identity eid source payload_hash =
     (if \<not> is_source_identifier (JStr source) \<or> \<not> is_identifier (JStr eid)
      then Inl (ValueError ''source and event_id must be canonical identifiers'')
      else case payload_hash of
        None \<Rightarrow> Inr ()
      | Some h \<Rightarrow> ensure (fullmatch digest_rx h) (ValueError ''payload_hash must be a lowercase SHA-256 digest''))"

section \<open>Event stores\<close>

record event_row =
  ev_source :: string
  ev_id :: string
  ev_hash :: string
  ev_accepted :: int

definition find_event :: "string \<Rightarrow> string \<Rightarrow> event_row list \<Rightarrow> event_row option" where
  "find_event source eid t = List.find (\<lambda>r. ev_source r = source \<and> ev_id r = eid) t"

text \<open>The answer to a reservation that found the identity taken; \<open>None\<close> when the row cannot be read.\<close>

definition existing_event :: "string \<Rightarrow> event_row option \<Rightarrow> bool outcome" where
  "existing_event h found =
     (case found of
        None \<Rightarrow> Inl (RuntimeError ''connector event reservation conflict could not be resolved'')
      | Some r \<Rightarrow> if ev_hash r \<noteq> h
          then Inl (ValueError ''connector event identity belongs to a different payload'') else Inr False)"

definition event_key :: "(string \<times> (event_row \<Rightarrow> event_row \<Rightarrow> bool)) list" where
  "event_key = [(''connector_events.source, connector_events.event_id'', \<lambda>a b. ev_source a = ev_source b \<and> ev_id a = ev_id b)]"

text \<open>SQLite: the insert fails on a taken identity and the transaction is rolled back.\<close>

definition reserve_event :: "string \<Rightarrow> string \<Rightarrow> string \<Rightarrow> int \<Rightarrow> event_row list \<Rightarrow> bool outcome \<times> event_row list" where
  "reserve_event eid source h now t =
     (case validate_connector_identity eid source (Some h) of
        Inl e \<Rightarrow> (Inl e, t)
      | Inr _ \<Rightarrow>
          (case insert_row event_key \<lparr>ev_source = source, ev_id = eid, ev_hash = h, ev_accepted = now\<rparr> t of
             Inr t' \<Rightarrow> (Inr True, t')
           | Inl _ \<Rightarrow> (existing_event h (find_event source eid t), t)))"

text \<open>PostgreSQL: \<open>ON CONFLICT DO NOTHING\<close>; a conflict of the payload is rolled back.\<close>

definition pg_reserve_event ::
    "string \<Rightarrow> string \<Rightarrow> string \<Rightarrow> int \<Rightarrow> event_row list \<Rightarrow> bool outcome \<times> event_row list" where
  "pg_reserve_event eid source h now t =
     (case validate_connector_identity eid source (Some h) of
        Inl e \<Rightarrow> (Inl e, t)
      | Inr _ \<Rightarrow>
          (let t' = (if list_ex (\<lambda>r. ev_source r = source \<and> ev_id r = eid) t then t
                     else t @ [\<lparr>ev_source = source, ev_id = eid, ev_hash = h, ev_accepted = now\<rparr>])
           in if length t' \<noteq> length t then (Inr True, t')
              else (existing_event h (find_event source eid t'), t)))"

section \<open>Signatures\<close>

text \<open>HMAC of RFC 2104 with SHA-256 and its 64-byte blocks.\<close>

definition hmac_key :: "byte list \<Rightarrow> byte list" where
  "hmac_key k = (let k = (if 64 < length k then sha256 k else k) in k @ replicate (64 - length k) 0)"

definition hmac_sha256 :: "byte list \<Rightarrow> byte list \<Rightarrow> byte list" where
  "hmac_sha256 k m = (let key = hmac_key k in
     sha256 (map (xor 92) key @ sha256 (map (xor 54) key @ m)))"

definition sign_event :: "byte list \<Rightarrow> string \<Rightarrow> string" where
  "sign_event payload secret = hex_encode (hmac_sha256 (utf8_encode secret) payload)"

text \<open>\<open>hmac.compare_digest\<close> refuses text outside ASCII.\<close>

definition compare_digest :: "string \<Rightarrow> string \<Rightarrow> bool outcome" where
  "compare_digest a b =
     (if list_all (\<lambda>c. ord_of c < 128) (a @ b) then Inr (a = b) else Inl (OtherError ''TypeError''))"

definition verify_event_signature :: "byte list \<Rightarrow> string \<Rightarrow> string \<Rightarrow> bool outcome" where
  "verify_event_signature payload signature secret =
     compare_digest (sign_event payload secret) (removeprefix ''sha256='' signature)"

section \<open>Ingestion\<close>

record ingest_result =
  in_status :: string
  in_event :: string
  in_source :: string
  in_hash :: string
  in_payload :: "(string \<times> json) list option"

definition decode_payload :: "byte list \<Rightarrow> (string \<times> json) list outcome" where
  "decode_payload raw =
     (case Option.bind (utf8_decode raw) json_loads of
        None \<Rightarrow> Inl (ValueError ''connector payload must be valid JSON'')
      | Some (JObj kvs) \<Rightarrow> Inr kvs
      | Some _ \<Rightarrow> Inl (ValueError ''connector payload must be an object''))"

definition check_ingest ::
    "byte list \<Rightarrow> string \<Rightarrow> string \<Rightarrow> string \<Rightarrow> string \<Rightarrow> nat \<Rightarrow> (string \<times> json) list outcome" where
  "check_ingest raw source eid signature secret max_bytes =
     outcome_bind (validate_connector_identity eid source None) (\<lambda>_.
     outcome_bind (ensure (length raw \<le> max_bytes) (ValueError ''connector payload exceeds size limit'')) (\<lambda>_.
     outcome_bind (verify_event_signature raw signature secret) (\<lambda>genuine.
     outcome_bind (ensure genuine (PermissionError ''invalid connector signature'')) (\<lambda>_.
       decode_payload raw))))"

text \<open>The store is an argument, as in the code.\<close>

definition ingest_event ::
    "(string \<Rightarrow> string \<Rightarrow> string \<Rightarrow> int \<Rightarrow> 'st \<Rightarrow> bool outcome \<times> 'st) \<Rightarrow> byte list \<Rightarrow> string \<Rightarrow> string \<Rightarrow> string \<Rightarrow> string
      \<Rightarrow> nat \<Rightarrow> int \<Rightarrow> 'st \<Rightarrow> ingest_result outcome \<times> 'st" where
  "ingest_event reserve raw source eid signature secret max_bytes now st =
     (case check_ingest raw source eid signature secret max_bytes of
        Inl e \<Rightarrow> (Inl e, st)
      | Inr payload \<Rightarrow>
          (let h = sha256_hex raw in
           case reserve eid source h now st of
             (Inl e, st') \<Rightarrow> (Inl e, st')
           | (Inr accepted, st') \<Rightarrow>
               (Inr \<lparr>in_status = (if accepted then ''accepted'' else ''duplicate''), in_event = eid, in_source = source,
                  in_hash = h, in_payload = (if accepted then Some payload else None)\<rparr>, st')))"

section \<open>Both stores reserve alike\<close>

lemma find_event_None: "find_event source eid t = None \<longleftrightarrow> \<not> list_ex (\<lambda>r. ev_source r = source \<and> ev_id r = eid) t"
  by (auto simp: find_event_def find_None_mem list_ex_iff)

lemma insert_event_key:
  "insert_row event_key r t = (if list_ex (\<lambda>x. ev_source x = ev_source r \<and> ev_id x = ev_id r) t
     then Inl (IntegrityError ''UNIQUE constraint failed: connector_events.source, connector_events.event_id'') else Inr (t @ [r]))"
  by (auto simp: insert_row_def event_key_def list_ex_iff)

lemma reserve_event_outcome:
  "reserve_event eid source h now t =
     (case validate_connector_identity eid source (Some h) of
        Inl e \<Rightarrow> (Inl e, t)
      | Inr _ \<Rightarrow> (case find_event source eid t of
          None \<Rightarrow> (Inr True, t @ [\<lparr>ev_source = source, ev_id = eid, ev_hash = h, ev_accepted = now\<rparr>])
        | Some r \<Rightarrow> (existing_event h (Some r), t)))"
  using find_event_None [of source eid t]
  by (cases "find_event source eid t") (auto simp: reserve_event_def insert_event_key split: sum.splits)

lemma pg_reserve_same: "pg_reserve_event = reserve_event"
  by (intro ext) (simp add: pg_reserve_event_def reserve_event_outcome find_event_None [symmetric] Let_def
      split: sum.splits option.splits)

definition accepts_event :: "string \<times> string \<Rightarrow> string \<Rightarrow> int \<Rightarrow> event_row list \<Rightarrow> bool \<times> event_row list" where
  "accepts_event k h now t = (case reserve_event (snd k) (fst k) h now t of (r, t') \<Rightarrow> (r = Inr True, t'))"

definition event_known :: "event_row list \<Rightarrow> string \<times> string \<Rightarrow> int \<Rightarrow> bool" where
  "event_known t k now = (find_event (fst k) (snd k) t \<noteq> None)"

lemma reserve_keeps_events: "find_event s e t = Some r \<Longrightarrow> find_event s e (snd (reserve_event eid source h now t)) = Some r"
  by (auto simp: reserve_event_outcome find_event_def find_append split: sum.splits option.splits)

interpretation eg: replay_guard accepts_event event_known "\<lambda>h now t. True"
proof
  fix t k now h u and k' :: "string \<times> string"
  show "event_known t k now \<Longrightarrow> \<not> fst (accepts_event k h now t)"
    by (auto simp: event_known_def accepts_event_def reserve_event_outcome existing_event_def split: sum.splits if_splits)
  show "fst (accepts_event k h now t) \<Longrightarrow> event_known (snd (accepts_event k h now t)) k u"
    by (auto simp: event_known_def accepts_event_def reserve_event_outcome existing_event_def find_event_def find_append
        split: sum.splits option.splits if_splits)
  show "event_known t k u \<Longrightarrow> event_known (snd (accepts_event k' h now t)) k u"
    by (auto simp: event_known_def accepts_event_def split_beta dest: reserve_keeps_events)
qed

section \<open>Ingesting once\<close>

definition run_events :: "(string \<times> string \<times> string \<times> int) list \<Rightarrow> event_row list \<Rightarrow> event_row list" where
  "run_events rs t = fold (\<lambda>(eid, source, h, now) t. snd (reserve_event eid source h now t)) rs t"

lemma run_events_keeps: "find_event s e t = Some r \<Longrightarrow> find_event s e (run_events rs t) = Some r"
  unfolding run_events_def by (induction rs arbitrary: t) (auto dest: reserve_keeps_events)

lemma ingest_reserved:
  assumes "ingest_event reserve_event raw source eid signature secret m now t = (Inr r, t')"
  shows "reserve_event eid source (sha256_hex raw) now t = (Inr (in_status r = ''accepted''), t')"
    and "in_status r = ''accepted'' \<or> in_status r = ''duplicate'' \<and> in_payload r = None"
  using assms by (auto simp: ingest_event_def Let_def split: sum.splits prod.splits if_splits)

lemma accepted_event_stored:
  assumes "reserve_event eid source h now t = (Inr True, t')"
  shows "\<exists>row. find_event source eid t' = Some row \<and> ev_hash row = h"
  using assms by (auto simp: reserve_event_outcome existing_event_def find_event_def find_append
      split: sum.splits option.splits if_splits)

text \<open>
  C25. A connector event is ingested once: after \<open>ingest_event\<close> accepted an event, with either event store and after any further
  reservations, an event under the same source and identifier that is not refused is a duplicate without
  payload, its bytes have the digest of the accepted ones, and the store is unchanged.
\<close>

theorem connector_events_are_ingested_once:
  assumes "reserve = reserve_event \<or> reserve = pg_reserve_event"
    and "ingest_event reserve raw source eid signature secret m now t = (Inr r, t1)" and "in_status r = ''accepted''"
    and "ingest_event reserve raw' source eid signature' secret' m' now' (run_events rs t1) = (Inr r', t2)"
  shows "in_status r' = ''duplicate'' \<and> in_payload r' = None \<and> sha256_hex raw' = sha256_hex raw \<and> t2 = run_events rs t1"
proof -
  have reserve: "reserve = reserve_event" using assms(1) by (auto simp: pg_reserve_same)
  obtain row where "find_event source eid t1 = Some row" "ev_hash row = sha256_hex raw"
    using accepted_event_stored ingest_reserved(1) [OF assms(2) [unfolded reserve]] assms(3) by (metis (full_types))
  then have row: "find_event source eid (run_events rs t1) = Some row" "ev_hash row = sha256_hex raw"
    using run_events_keeps by auto
  note second = ingest_reserved [OF assms(4) [unfolded reserve]]
  have "in_status r' \<noteq> ''accepted'' \<and> ev_hash row = sha256_hex raw' \<and> t2 = run_events rs t1"
    using second(1) row(1) by (auto simp: reserve_event_outcome existing_event_def split: sum.splits if_splits)
  then show ?thesis using second(2) row(2) by simp
qed

lemma sign_event_ascii: "list_all (\<lambda>c. ord_of c < 128) (sign_event payload secret)"
proof -
  have "is_hex c \<Longrightarrow> ord_of c < 128" for c by (auto simp: is_hex_def Let_def)
  then show ?thesis using hex_encode_digits by (auto simp: sign_event_def list_all_iff)
qed

lemma own_signature: "verify_event_signature payload (''sha256='' @ sign_event payload secret) secret = Inr True"
  using sign_event_ascii [of payload secret] by (simp add: verify_event_signature_def removeprefix_def compare_digest_def)

definition demo_raw :: "byte list" where
  "demo_raw = utf8_encode (json_dumps compact_ascii (JObj []))"

lemma demo_ingest:
  "ingest_event reserve_event demo_raw ''edr'' ''evt-1'' (''sha256='' @ sign_event demo_raw ''key'') ''key'' 100 now [] =
     (Inr \<lparr>in_status = ''accepted'', in_event = ''evt-1'', in_source = ''edr'', in_hash = sha256_hex demo_raw,
        in_payload = Some []\<rparr>, [\<lparr>ev_source = ''edr'', ev_id = ''evt-1'', ev_hash = sha256_hex demo_raw, ev_accepted = now\<rparr>])"
  and demo_ingest_again:
  "ingest_event reserve_event demo_raw ''edr'' ''evt-1'' (''sha256='' @ sign_event demo_raw ''key'') ''key'' 100 now'
      [\<lparr>ev_source = ''edr'', ev_id = ''evt-1'', ev_hash = sha256_hex demo_raw, ev_accepted = now\<rparr>] =
     (Inr \<lparr>in_status = ''duplicate'', in_event = ''evt-1'', in_source = ''edr'', in_hash = sha256_hex demo_raw,
        in_payload = None\<rparr>, [\<lparr>ev_source = ''edr'', ev_id = ''evt-1'', ev_hash = sha256_hex demo_raw, ev_accepted = now\<rparr>])"
proof -
  have ids: "is_source_identifier (JStr ''edr'')" "is_identifier (JStr ''evt-1'')"
    by (simp_all add: source_identifier_iff identifier_iff ascii_lower_def ascii_alnum_def between_def source_char_def
        identifier_char_def ascii_upper_def is_digit_def)
  have digest: "fullmatch digest_rx (sha256_hex demo_raw)"
    by (auto simp: fullmatch_iff digest_rx_def list_all_iff sha256_hex_digits)
  have read: "json_loads (json_dumps compact_ascii (JObj [])) = Some (JObj [])"
    using json_roundtrip [of compact_ascii "JObj []"] by simp
  have "length demo_raw \<le> 100" by (simp add: demo_raw_def json_dumps_def utf8_char_def)
  then have check: "check_ingest demo_raw ''edr'' ''evt-1'' (''sha256='' @ sign_event demo_raw ''key'') ''key'' 100 = Inr []"
    using ids own_signature [of demo_raw "''key''"] read
    by (simp add: check_ingest_def validate_connector_identity_def decode_payload_def) (simp add: demo_raw_def)
  show "ingest_event reserve_event demo_raw ''edr'' ''evt-1'' (''sha256='' @ sign_event demo_raw ''key'') ''key'' 100 now [] =
     (Inr \<lparr>in_status = ''accepted'', in_event = ''evt-1'', in_source = ''edr'', in_hash = sha256_hex demo_raw,
        in_payload = Some []\<rparr>, [\<lparr>ev_source = ''edr'', ev_id = ''evt-1'', ev_hash = sha256_hex demo_raw, ev_accepted = now\<rparr>])"
    using check ids digest
    by (simp add: ingest_event_def reserve_event_outcome validate_connector_identity_def find_event_def Let_def)
  show "ingest_event reserve_event demo_raw ''edr'' ''evt-1'' (''sha256='' @ sign_event demo_raw ''key'') ''key'' 100 now'
      [\<lparr>ev_source = ''edr'', ev_id = ''evt-1'', ev_hash = sha256_hex demo_raw, ev_accepted = now\<rparr>] =
     (Inr \<lparr>in_status = ''duplicate'', in_event = ''evt-1'', in_source = ''edr'', in_hash = sha256_hex demo_raw,
        in_payload = None\<rparr>, [\<lparr>ev_source = ''edr'', ev_id = ''evt-1'', ev_hash = sha256_hex demo_raw, ev_accepted = now\<rparr>])"
    using check ids digest
    by (simp add: ingest_event_def reserve_event_outcome validate_connector_identity_def find_event_def existing_event_def
      Let_def)
qed

theorem connector_events_are_ingested_once_witness:
  "\<exists>r' t2. ingest_event reserve_event demo_raw ''edr'' ''evt-1'' (''sha256='' @ sign_event demo_raw ''key'') ''key'' 100 9
      [\<lparr>ev_source = ''edr'', ev_id = ''evt-1'', ev_hash = sha256_hex demo_raw, ev_accepted = 5\<rparr>] = (Inr r', t2)
    \<and> in_status r' = ''duplicate'' \<and> in_payload r' = None"
proof -
  have again: "\<exists>r' t2. ingest_event reserve_event demo_raw ''edr'' ''evt-1'' (''sha256='' @ sign_event demo_raw ''key'') ''key''
      100 9 (run_events [] [\<lparr>ev_source = ''edr'', ev_id = ''evt-1'', ev_hash = sha256_hex demo_raw, ev_accepted = 5\<rparr>]) = (Inr r', t2)"
    unfolding run_events_def using demo_ingest_again [of 9 5] by simp
  then obtain r' t2 where "ingest_event reserve_event demo_raw ''edr'' ''evt-1'' (''sha256='' @ sign_event demo_raw ''key'') ''key''
      100 9 (run_events [] [\<lparr>ev_source = ''edr'', ev_id = ''evt-1'', ev_hash = sha256_hex demo_raw, ev_accepted = 5\<rparr>]) = (Inr r', t2)"
    by blast
  with connector_events_are_ingested_once [OF disjI1 [OF refl] demo_ingest [of 5] _ this] show ?thesis
    by (auto simp: run_events_def)
qed

end
