(* ===== verification/External_Contracts.thy ===== *)
theory External_Contracts
  imports Contract_Validation Audit_Log
begin

text \<open>
  The versioned contracts for external records: security alerts (\<open>security_alert_contract.py\<close>), asset contexts and
  remediation tickets (\<open>portfolio_contracts.py\<close>). A payload is the list of pairs of the decoded JSON object; a
  result is the dictionary the code returns, in its order. Errors are raised in the order of the code. (Field names that are not
  text cannot occur in decoded JSON.)
\<close>

section \<open>Fields\<close>

definition contract_shape ::
    "string \<Rightarrow> string list \<Rightarrow> string list \<Rightarrow> json \<Rightarrow> (string \<times> json) list outcome" where
  "contract_shape label allowed required v =
     (case v of
        JObj kvs \<Rightarrow>
          (let unknown = sort (filter (\<lambda>k. k \<notin> set allowed) (map fst kvs));
               missing = sort (filter (\<lambda>k. k \<notin> fst ` set kvs) required)
           in if unknown \<noteq> [] then Inl (ValueError (label @ '' contains unknown fields: '' @ py_join '', '' unknown))
              else if missing \<noteq> [] then Inl (ValueError (label @ '' missing fields: '' @ py_join '', '' missing))
              else Inr kvs)
      | _ \<Rightarrow> Inl (ValueError (label @ '' must be an object'')))"

definition contract_text :: "string \<Rightarrow> (string \<times> json) list \<Rightarrow> string \<Rightarrow> nat \<Rightarrow> string outcome" where
  "contract_text label kvs name maximum =
     (let v = dict_get name kvs in
      if is_canonical_text v maximum then (case v of JStr s \<Rightarrow> Inr s | _ \<Rightarrow> Inl (invalid label name))
      else Inl (invalid label name))"

definition contract_identifier :: "string \<Rightarrow> (string \<times> json) list \<Rightarrow> string \<Rightarrow> string outcome" where
  "contract_identifier label kvs name =
     outcome_bind (contract_text label kvs name 128) (\<lambda>s.
     outcome_bind (ensure (is_identifier (JStr s)) (invalid label name)) (\<lambda>_. Inr s))"

definition lowercase_source :: "string \<Rightarrow> string \<Rightarrow> string outcome" where
  "lowercase_source label s =
     (if is_source_identifier (JStr s) then Inr s
      else Inl (ValueError (label @ '' source must use canonical lowercase'')))"

definition contract_source :: "string \<Rightarrow> (string \<times> json) list \<Rightarrow> string outcome" where
  "contract_source label kvs = outcome_bind (contract_identifier label kvs ''source'') (lowercase_source label)"

definition contract_time :: "string \<Rightarrow> (string \<times> json) list \<Rightarrow> string \<Rightarrow> (string \<times> int) outcome" where
  "contract_time label kvs name =
     outcome_bind (contract_text label kvs name 64) (\<lambda>s.
     outcome_bind (parse_utc (JStr s) label name) (\<lambda>t. Inr (utc_text t, t)))"

fun approved_references :: "string \<Rightarrow> json list \<Rightarrow> string list outcome" where
  "approved_references label [] = Inr []"
| "approved_references label (v # vs) =
     (if is_evidence_reference v
      then (case v of JStr s \<Rightarrow> outcome_bind (approved_references label vs) (\<lambda>ss. Inr (s # ss)) | _ \<Rightarrow> Inr [])
      else Inl (ValueError (label @ '' evidence reference is not approved'')))"

definition evidence_refs :: "string \<Rightarrow> json \<Rightarrow> string list outcome" where
  "evidence_refs label v =
     (case v of
        JList vs \<Rightarrow>
          if vs = [] \<or> 20 < length vs then Inl (ValueError (label @ '' evidence_refs must contain 1-20 references''))
          else outcome_bind (approved_references label vs) (\<lambda>refs.
            if distinct refs then Inr refs else Inl (ValueError (label @ '' evidence references must be unique'')))
      | _ \<Rightarrow> Inl (ValueError (label @ '' evidence_refs must contain 1-20 references'')))"

definition member_of :: "string list \<Rightarrow> string \<Rightarrow> py_error \<Rightarrow> unit outcome" where
  "member_of names s e = ensure (s \<in> set names) e"

text \<open>\<open>PREFIX + sha256("|".join(parts)).hexdigest()[:16].upper()\<close>\<close>

definition identity_text :: "string list \<Rightarrow> string" where
  "identity_text parts = py_join ''|'' parts"

definition short_id :: "string \<Rightarrow> string \<Rightarrow> string" where
  "short_id prefix identity = prefix @ py_upper (take 16 (text_hash identity))"

definition schema_check :: "string \<Rightarrow> string \<Rightarrow> (string \<times> json) list \<Rightarrow> unit outcome" where
  "schema_check label version kvs =
     ensure (dict_get ''schema_version'' kvs = JStr version)
       (ValueError (label @ '' schema_version must be '' @ version))"

section \<open>Security alerts\<close>

definition alert_required :: "string list" where
  "alert_required = [''schema_version'', ''source'', ''source_event_id'', ''observed_at'', ''asset_id'', ''kind'',
     ''severity'', ''title'', ''risk_owner'', ''event_code'', ''evidence_refs'']"

definition alert_allowed :: "string list" where
  "alert_allowed = alert_required @ [''source_ip'', ''target_user'']"

definition control_by_kind :: "string \<Rightarrow> string option" where
  "control_by_kind kind = map_of [(''brute_force'', ''SEC-AUTH-001''), (''account_lockout'', ''SEC-IAM-002''),
     (''privilege_escalation'', ''SEC-IAM-003'')] kind"

definition event_code_by_kind :: "string \<Rightarrow> int option" where
  "event_code_by_kind kind = map_of [(''brute_force'', 4625), (''account_lockout'', 4740),
     (''privilege_escalation'', 4672)] kind"

definition alert_label :: string where "alert_label = ''security alert''"

definition alert_text :: "(string \<times> json) list \<Rightarrow> string \<Rightarrow> nat \<Rightarrow> string outcome" where
  "alert_text kvs name maximum = contract_text alert_label kvs name maximum"

definition alert_time :: "json \<Rightarrow> string outcome" where
  "alert_time v = outcome_bind (parse_utc v alert_label ''observed_at'') (\<lambda>t. Inr (utc_text t))"

definition alert_refs :: "json \<Rightarrow> string list outcome" where
  "alert_refs v = evidence_refs alert_label v"

definition alert_shape :: "json \<Rightarrow> (string \<times> json) list outcome" where
  "alert_shape alert =
     outcome_bind (contract_shape alert_label alert_allowed alert_required alert) (\<lambda>kvs.
     outcome_bind (schema_check alert_label ''security_alert.v1'' kvs) (\<lambda>_. Inr kvs))"

definition alert_fields :: "(string \<times> json) list \<Rightarrow> (string \<times> string \<times> string \<times> string \<times> string) outcome" where
  "alert_fields kvs =
     outcome_bind (alert_text kvs ''source'' 64) (\<lambda>source.
     outcome_bind (alert_text kvs ''source_event_id'' 128) (\<lambda>event.
     outcome_bind (alert_text kvs ''asset_id'' 128) (\<lambda>asset.
     outcome_bind (alert_text kvs ''title'' 512) (\<lambda>title.
     outcome_bind (alert_text kvs ''risk_owner'' 128) (\<lambda>owner.
     outcome_bind (ensure (is_identifier (JStr source)) (invalid alert_label ''source'')) (\<lambda>_.
     outcome_bind (ensure (is_identifier (JStr event)) (invalid alert_label ''source_event_id'')) (\<lambda>_.
     outcome_bind (ensure (is_identifier (JStr asset)) (invalid alert_label ''asset_id'')) (\<lambda>_.
     outcome_bind (ensure (is_identifier (JStr owner)) (invalid alert_label ''risk_owner'')) (\<lambda>_.
     outcome_bind (lowercase_source alert_label source) (\<lambda>_.
       Inr (source, event, asset, title, owner)))))))))))"

definition code_matches :: "json \<Rightarrow> string \<Rightarrow> bool" where
  "code_matches v kind = ((case v of JBool b \<Rightarrow> False | _ \<Rightarrow> True)
     \<and> (case event_code_by_kind kind of None \<Rightarrow> False | Some c \<Rightarrow> py_equal v (JInt c)))"

definition alert_event ::
    "(string \<times> json) list \<Rightarrow> (string \<times> string \<times> json \<times> string \<times> string list \<times> string) outcome" where
  "alert_event kvs =
     outcome_bind (alert_text kvs ''kind'' 64) (\<lambda>kind.
     outcome_bind (alert_text kvs ''severity'' 16) (\<lambda>severity.
     case control_by_kind kind of
       None \<Rightarrow> Inl (ValueError (''unsupported security alert kind: '' @ kind))
     | Some control \<Rightarrow>
       outcome_bind (member_of severities severity (ValueError ''security alert severity is invalid'')) (\<lambda>_.
       outcome_bind (ensure (code_matches (dict_get ''event_code'' kvs) kind)
         (ValueError ''security alert event_code does not match kind'')) (\<lambda>_.
       outcome_bind (alert_time (dict_get ''observed_at'' kvs)) (\<lambda>observed.
       outcome_bind (alert_refs (dict_get ''evidence_refs'' kvs)) (\<lambda>refs.
         Inr (kind, severity, dict_get ''event_code'' kvs, observed, refs, control)))))))"

definition alert_context :: "(string \<times> json) list \<Rightarrow> (json \<times> json) outcome" where
  "alert_context kvs =
     (let ip = dict_get ''source_ip'' kvs; user = dict_get ''target_user'' kvs in
      outcome_bind (ensure (ip = JNull \<or> (is_canonical_text ip 64 \<and> ip_address_ok (py_str ip)))
        (invalid alert_label ''source_ip'')) (\<lambda>_.
      outcome_bind (ensure (user = JNull \<or> is_canonical_text user 256) (invalid alert_label ''target_user'')) (\<lambda>_.
        Inr (ip, user))))"

definition alert_identity :: "string \<Rightarrow> string \<Rightarrow> string \<Rightarrow> string \<Rightarrow> string" where
  "alert_identity source event asset kind = identity_text [''security_alert.v1'', source, event, asset, kind]"

definition normalize_security_alert :: "json \<Rightarrow> (string \<times> json) list outcome" where
  "normalize_security_alert alert =
     outcome_bind (alert_shape alert) (\<lambda>kvs.
     outcome_bind (alert_fields kvs) (\<lambda>(source, event, asset, title, owner).
     outcome_bind (alert_event kvs) (\<lambda>(kind, severity, code, observed, refs, control).
     outcome_bind (alert_context kvs) (\<lambda>(ip, user).
       Inr [(''finding_id'', JStr (short_id ''SEC-ALERT-'' (alert_identity source event asset kind))),
         (''domain'', JStr ''security''), (''source'', JStr source), (''control_id'', JStr control),
         (''asset_id'', JStr asset), (''title'', JStr title), (''risk_owner'', JStr owner),
         (''severity'', JStr severity),
         (''details'', JObj [(''schema_version'', JStr ''security_alert.v1''), (''source_event_id'', JStr event),
           (''observed_at'', JStr observed), (''kind'', JStr kind), (''event_code'', code), (''source_ip'', ip),
           (''target_user'', user), (''evidence_refs'', JList (map JStr refs))])]))))"

section \<open>Asset contexts\<close>

definition asset_required :: "string list" where
  "asset_required = [''schema_version'', ''source'', ''source_asset_id'', ''observed_at'', ''asset_id'', ''owner'',
     ''criticality'', ''status'', ''evidence_refs'']"

definition asset_label :: string where "asset_label = ''asset context''"

definition asset_identity :: "string \<Rightarrow> string \<Rightarrow> string \<Rightarrow> string" where
  "asset_identity source source_asset asset = identity_text [''asset_context.v1'', source, source_asset, asset]"

definition normalize_asset_context :: "json \<Rightarrow> (string \<times> json) list outcome" where
  "normalize_asset_context payload =
     outcome_bind (contract_shape asset_label (''hostname'' # asset_required) asset_required payload) (\<lambda>kvs.
     outcome_bind (schema_check asset_label ''asset_context.v1'' kvs) (\<lambda>_.
     outcome_bind (contract_source asset_label kvs) (\<lambda>source.
     outcome_bind (contract_identifier asset_label kvs ''source_asset_id'') (\<lambda>source_asset.
     outcome_bind (contract_identifier asset_label kvs ''asset_id'') (\<lambda>asset.
     outcome_bind (contract_identifier asset_label kvs ''owner'') (\<lambda>owner.
     outcome_bind (contract_time asset_label kvs ''observed_at'') (\<lambda>(observed, _).
     outcome_bind (contract_text asset_label kvs ''criticality'' 16) (\<lambda>criticality.
     outcome_bind (contract_text asset_label kvs ''status'' 16) (\<lambda>status.
     outcome_bind (member_of severities criticality (invalid asset_label ''criticality'')) (\<lambda>_.
     outcome_bind (member_of [''active'', ''inactive'', ''retired'', ''unknown''] status (invalid asset_label ''status'')) (\<lambda>_.
     outcome_bind (ensure (dict_get ''hostname'' kvs = JNull \<or> is_canonical_text (dict_get ''hostname'' kvs) 255)
       (invalid asset_label ''hostname'')) (\<lambda>_.
     outcome_bind (evidence_refs asset_label (dict_get ''evidence_refs'' kvs)) (\<lambda>refs.
       Inr [(''context_id'', JStr (short_id ''ASSET-CTX-'' (asset_identity source source_asset asset))),
         (''schema_version'', JStr ''asset_context.v1''), (''source'', JStr source),
         (''source_asset_id'', JStr source_asset), (''asset_id'', JStr asset), (''hostname'', dict_get ''hostname'' kvs),
         (''owner'', JStr owner), (''criticality'', JStr criticality), (''status'', JStr status),
         (''observed_at'', JStr observed), (''evidence_refs'', JList (map JStr refs))])))))))))))))"

section \<open>Remediation tickets\<close>

definition ticket_required :: "string list" where
  "ticket_required = [''schema_version'', ''source'', ''source_ticket_id'', ''finding_id'', ''asset_id'', ''owner'',
     ''status'', ''priority'', ''created_at'', ''updated_at'', ''due_at'', ''evidence_refs'']"

definition ticket_label :: string where "ticket_label = ''remediation ticket''"

definition ticket_statuses :: "string list" where
  "ticket_statuses = [''new'', ''assigned'', ''in_progress'', ''on_hold'', ''resolved'', ''closed'']"

definition ticket_identity :: "string \<Rightarrow> string \<Rightarrow> string \<Rightarrow> string" where
  "ticket_identity source ticket finding = identity_text [''remediation_ticket.v1'', source, ticket, finding]"

definition not_before :: "string \<Rightarrow> int \<Rightarrow> int \<Rightarrow> unit outcome" where
  "not_before name t created = ensure (created \<le> t)
     (ValueError (ticket_label @ '' '' @ name @ '' cannot precede created_at''))"

definition normalize_remediation_ticket :: "json \<Rightarrow> (string \<times> json) list outcome" where
  "normalize_remediation_ticket payload =
     outcome_bind (contract_shape ticket_label ticket_required ticket_required payload) (\<lambda>kvs.
     outcome_bind (schema_check ticket_label ''remediation_ticket.v1'' kvs) (\<lambda>_.
     outcome_bind (contract_source ticket_label kvs) (\<lambda>source.
     outcome_bind (contract_identifier ticket_label kvs ''source_ticket_id'') (\<lambda>ticket.
     outcome_bind (contract_identifier ticket_label kvs ''finding_id'') (\<lambda>fid.
     outcome_bind (contract_identifier ticket_label kvs ''asset_id'') (\<lambda>asset.
     outcome_bind (contract_identifier ticket_label kvs ''owner'') (\<lambda>owner.
     outcome_bind (contract_text ticket_label kvs ''status'' 32) (\<lambda>status.
     outcome_bind (contract_text ticket_label kvs ''priority'' 2) (\<lambda>priority.
     outcome_bind (member_of ticket_statuses status (invalid ticket_label ''status'')) (\<lambda>_.
     outcome_bind (member_of [''P1'', ''P2'', ''P3'', ''P4''] priority (invalid ticket_label ''priority'')) (\<lambda>_.
     outcome_bind (contract_time ticket_label kvs ''created_at'') (\<lambda>(created, created_t).
     outcome_bind (contract_time ticket_label kvs ''updated_at'') (\<lambda>(updated, updated_t).
     outcome_bind (contract_time ticket_label kvs ''due_at'') (\<lambda>(due, due_t).
     outcome_bind (not_before ''updated_at'' updated_t created_t) (\<lambda>_.
     outcome_bind (not_before ''due_at'' due_t created_t) (\<lambda>_.
     outcome_bind (evidence_refs ticket_label (dict_get ''evidence_refs'' kvs)) (\<lambda>refs.
       Inr [(''ticket_context_id'', JStr (short_id ''TICKET-CTX-'' (ticket_identity source ticket fid))),
         (''schema_version'', JStr ''remediation_ticket.v1''), (''source'', JStr source),
         (''source_ticket_id'', JStr ticket), (''finding_id'', JStr fid), (''asset_id'', JStr asset),
         (''owner'', JStr owner), (''status'', JStr status), (''priority'', JStr priority),
         (''created_at'', JStr created), (''updated_at'', JStr updated), (''due_at'', JStr due),
         (''evidence_refs'', JList (map JStr refs))])))))))))))))))))"

end
