(* ===== verification/Finding_Connectors.thy ===== *)
theory Finding_Connectors
  imports External_Contracts
begin

text \<open>
  The adapters that turn records of other systems into findings: LogWatcher alerts and Windows security
  events (\<open>security_event_connector.py\<close>), closed requests of JML-Automation (\<open>jml_connector.py\<close>) and closed
  Mini-SOAR incidents (\<open>minisoar_connector.py\<close>). Records are the pairs of a decoded object; a result \<open>Inr None\<close> is the
  code's \<open>None\<close>, a record that is left out.
\<close>

type_synonym fields = "(string \<times> json) list"

section \<open>LogWatcher and security events\<close>

text \<open>\<open>int(text)\<close> of a text for which \<open>isdigit\<close> holds: superscripts and texts beyond the digit limit are refused.\<close>

definition int_of_digits :: "string \<Rightarrow> int outcome" where
  "int_of_digits s =
     (if \<not> list_all is_digit s then Inl (ValueError (''invalid literal for int() with base 10: '' @ repr_text s))
      else if 4300 < length s then Inl (ValueError (''Exceeds the limit (4300 digits) for integer string conversion: value has ''
             @ show_nat (length s) @ '' digits; use sys.set_int_max_str_digits() to increase the limit''))
      else Inr (int (read_nat s)))"

fun event_code :: "json \<Rightarrow> int option outcome" where
  "event_code (JInt i) = Inr (Some i)"
| "event_code (JStr s) =
     (if py_isdigit (py_strip s) then outcome_bind (int_of_digits (py_strip s)) (\<lambda>i. Inr (Some i)) else Inr None)"
| "event_code _ = Inr None"

definition strict_bool :: "json \<Rightarrow> string \<Rightarrow> bool outcome" where
  "strict_bool v field =
     (case v of
        JBool b \<Rightarrow> Inr b
      | JStr s \<Rightarrow> (let t = py_lower (py_strip s) in
          if t = ''true'' \<or> t = ''false'' then Inr (t = ''true'') else Inl (ValueError (field @ '' must be boolean'')))
      | _ \<Rightarrow> Inl (ValueError (field @ '' must be boolean'')))"

definition text_of :: "string \<Rightarrow> fields \<Rightarrow> string" where
  "text_of k kvs = py_str (dict_get_or k (JStr []) kvs)"

definition normalize_logwatcher_alert :: "fields \<Rightarrow> fields outcome" where
  "normalize_logwatcher_alert alert =
     (let kind = py_strip (text_of ''kind'' alert) in
      if kind = [] then Inl (ValueError ''LogWatcher alert kind is required'')
      else case control_by_kind kind of
        None \<Rightarrow> Inl (ValueError (''unsupported LogWatcher alert kind: '' @ kind))
      | Some control \<Rightarrow>
        (let identity = py_join ''|'' [''logwatcher-alert'', kind, text_of ''timestamp'' alert, text_of ''computer'' alert,
               text_of ''source_ip'' alert, text_of ''target_user'' alert, text_of ''message'' alert] in
         if endswith ''||||'' identity then Inl (ValueError ''LogWatcher alert has no stable identity fields'')
         else Inr [(''finding_id'', JStr (short_id ''SEC-ALERT-'' identity)), (''domain'', JStr ''security''),
           (''source'', JStr ''logwatcher_alert''), (''control_id'', JStr control),
           (''asset_id'', JStr (py_str (py_or (dict_get ''computer'' alert) (JStr ''unknown'')))),
           (''title'', JStr (py_str (py_or (dict_get ''message'' alert)
              (JStr (title_from False (replace_char (CHR ''_'') (CHR '' '') kind)))))),
           (''risk_owner'', JStr ''Security Operations''),
           (''severity'', JStr (py_lower (py_str (py_or (dict_get ''severity'' alert) (JStr ''high''))))),
           (''details'', JObj [(''kind'', JStr kind), (''timestamp'', dict_get ''timestamp'' alert),
              (''source_ip'', dict_get ''source_ip'' alert), (''target_user'', dict_get ''target_user'' alert),
              (''event_id'', dict_get ''event_id'' alert)])]))"

text \<open>A raw Windows event, recognised by its \<open>EventID\<close>, is renamed first.\<close>

definition windows_event :: "fields \<Rightarrow> fields outcome" where
  "windows_event event =
     outcome_bind (event_code (dict_get ''EventID'' event)) (\<lambda>code.
       Inr [(''event_code'', (case code of None \<Rightarrow> JNull | Some i \<Rightarrow> JInt i)),
         (''event_id'', py_or (dict_get ''EventRecordID'' event) (JStr (py_join ''|''
            [text_of ''TimeCreated'' event, text_of ''Computer'' event, text_of ''TargetUserName'' event,
             text_of ''IpAddress'' event]))),
         (''asset_id'', dict_get ''Computer'' event), (''timestamp'', dict_get ''TimeCreated'' event),
         (''account'', dict_get ''TargetUserName'' event), (''source_ip'', dict_get ''IpAddress'' event),
         (''privileged'', JBool (py_lower (text_of ''TargetUserName'' event) \<in> {''administrator'', ''admin''})),
         (''status'', dict_get_or ''status'' (JStr ''open'') event)])"

definition renamed_event :: "fields \<Rightarrow> fields outcome" where
  "renamed_event event = (if obj_get ''EventID'' event \<noteq> None then windows_event event else Inr event)"

text \<open>\<open>event.get("status", "open") in {"closed", "resolved"}\<close>\<close>

definition status_done :: "fields \<Rightarrow> bool outcome" where
  "status_done event = (let st = dict_get_or ''status'' (JStr ''open'') event in
     if hashable st then Inr (st = JStr ''closed'' \<or> st = JStr ''resolved'') else Inl (OtherError ''TypeError''))"

definition event_required :: "string list" where
  "event_required = [''event_id'', ''asset_id'', ''timestamp'', ''account'']"

definition event_finding :: "fields \<Rightarrow> bool \<Rightarrow> fields" where
  "event_finding event privileged =
     (let get = (\<lambda>k. py_str (dict_get k event)) in
      [(''finding_id'', JStr (short_id ''SEC-AUTH-'' (py_join ''|'' [''logwatcher'', get ''event_id'', get ''asset_id'', get ''account'']))),
       (''domain'', JStr ''security''), (''source'', JStr ''logwatcher''), (''control_id'', JStr ''SEC-AUTH-001''),
       (''asset_id'', JStr (get ''asset_id'')), (''title'', JStr (''Failed logon detected for '' @ get ''account'')),
       (''risk_owner'', JStr (py_str (py_or (dict_get ''owner'' event) (JStr ''Security Operations'')))),
       (''severity'', JStr (if privileged then ''critical'' else ''high'')),
       (''details'', JObj [(''event_code'', JInt 4625), (''event_id'', JStr (get ''event_id'')),
          (''timestamp'', JStr (get ''timestamp'')), (''source_ip'', dict_get ''source_ip'' event),
          (''account'', JStr (get ''account'')), (''privileged'', JBool privileged)])])"

definition normalize_security_event :: "fields \<Rightarrow> fields option outcome" where
  "normalize_security_event event =
     outcome_bind (renamed_event event) (\<lambda>event.
     outcome_bind (event_code (dict_get ''event_code'' event)) (\<lambda>code.
       if code \<noteq> Some 4625 then Inr None
       else outcome_bind (status_done event) (\<lambda>over.
         if over then Inr None
         else (let missing = filter (\<lambda>k. py_strip (text_of k event) = []) event_required in
           if missing \<noteq> [] then Inl (ValueError (''security event missing: '' @ py_join '', '' missing))
           else outcome_bind (strict_bool (dict_get_or ''privileged'' (JBool False) event) ''privileged'') (\<lambda>privileged.
             Inr (Some (event_finding event privileged)))))))"

section \<open>JML requests\<close>

definition jml_control :: "string \<Rightarrow> string option" where
  "jml_control t = map_of [(''joiner'', ''SEC-IAM-004''), (''mover'', ''SEC-IAM-005''), (''leaver'', ''SEC-IAM-006'')] t"

definition request_id_rx :: rx where
  "request_id_rx = RSeq (RChar ascii_alnum) (r_upto 63 (RChar (\<lambda>c. ascii_alnum c \<or> c = CHR ''_'' \<or> c = CHR ''-'')))"

definition username_rx :: rx where
  "username_rx = (let p = RChar (\<lambda>c. ascii_alnum c \<or> c \<in> {CHR ''.'', CHR ''_'', CHR ''-''}) in RSeq p (r_upto 63 p))"

definition jml_label :: string where "jml_label = ''JML request''"

definition jml_title :: "string \<Rightarrow> string \<Rightarrow> string \<Rightarrow> string \<Rightarrow> string" where
  "jml_title t user old dept =
     (if t = ''joiner'' then ''Access provisioned for new hire '' @ user @ '' ('' @ dept @ '')''
      else if t = ''mover'' then ''Access changed for '' @ user @ '': '' @ old @ '' -> '' @ dept
      else ''Access removed for departing employee '' @ user @ '' ('' @ dept @ '')'')"

definition jml_finding ::
    "string \<Rightarrow> string \<Rightarrow> string \<Rightarrow> string \<Rightarrow> string \<Rightarrow> string \<Rightarrow> string \<Rightarrow> json \<Rightarrow> string \<Rightarrow> string \<Rightarrow> fields" where
  "jml_finding t control rid user dept manager employee old verifier executor =
     [(''finding_id'', JStr (''SEC-IAM-'' @ removeprefix ''JML-'' rid)), (''source'', JStr ''jml_automation''),
      (''control_id'', JStr control), (''asset_id'', JStr (''AD:'' @ user)),
      (''title'', JStr (jml_title t user (py_str old) dept)), (''risk_owner'', JStr manager),
      (''severity'', JStr (if t = ''leaver'' then ''high'' else ''medium'')),
      (''details'', JObj [(''request_type'', JStr t), (''jml_request_id'', JStr rid), (''employee_id'', JStr employee),
         (''department'', JStr dept), (''verification_result'', JStr ''passed''), (''verifier_id'', JStr verifier),
         (''execution_actor_id'', JStr executor), (''simulated'', JBool True)])]"

text \<open>The checks of a closed and passed request, up to the independence of the verifier.\<close>

definition jml_checked :: "fields \<Rightarrow> fields \<Rightarrow> json \<Rightarrow> fields option outcome" where
  "jml_checked request verification executor =
     outcome_bind (contract_text jml_label request ''request_type'' 16) (\<lambda>t.
     case jml_control t of
       None \<Rightarrow> Inl (ValueError (''unsupported JML request_type: '' @ repr_text t))
     | Some control \<Rightarrow>
       outcome_bind (contract_text jml_label request ''request_id'' 64) (\<lambda>rid.
       outcome_bind (ensure (fullmatch request_id_rx rid) (invalid jml_label ''request_id'')) (\<lambda>_.
       outcome_bind (contract_text jml_label request ''username'' 64) (\<lambda>user.
       outcome_bind (ensure (fullmatch username_rx user) (invalid jml_label ''username'')) (\<lambda>_.
       outcome_bind (contract_text jml_label request ''department'' 128) (\<lambda>dept.
       outcome_bind (contract_text jml_label request ''manager_id'' 128) (\<lambda>manager.
       outcome_bind (contract_text jml_label request ''employee_id'' 128) (\<lambda>employee.
       outcome_bind (contract_text jml_label request ''requested_by'' 128) (\<lambda>requested_by.
       outcome_bind (ensure (dict_get ''request_id'' verification = JStr rid)
         (ValueError ''JML verification does not belong to the request'')) (\<lambda>_.
       outcome_bind (contract_text ''JML verification'' verification ''actor_id'' 128) (\<lambda>verifier.
       if executor = JNull then Inr None
       else if \<not> is_canonical_text executor 128 then Inl (ValueError ''JML execution actor_id is invalid'')
       else if verifier \<in> {requested_by, py_str executor} then Inr None
       else (let old = dict_get ''old_department'' request in
         if t = ''mover'' \<and> \<not> is_canonical_text old 128 then Inl (invalid jml_label ''old_department'')
         else Inr (Some (jml_finding t control rid user dept manager employee old verifier (py_str executor)))))))))))))))"

definition normalize_jml_request :: "json \<Rightarrow> json \<Rightarrow> json \<Rightarrow> fields option outcome" where
  "normalize_jml_request request verification executor =
     (case request of
        JObj r \<Rightarrow>
          if dict_get ''status'' r \<noteq> JStr ''closed'' then Inr None
          else (case verification of
                  JObj v \<Rightarrow> if dict_get ''result'' v \<noteq> JStr ''passed'' then Inr None else jml_checked r v executor
                | _ \<Rightarrow> Inr None)
      | _ \<Rightarrow> Inl (ValueError ''JML request must be an object''))"

end
