(* ===== verification/Mini_Soar.thy ===== *)
theory Mini_Soar
  imports Finding_Connectors
begin

text \<open>
  The Mini-SOAR adapter \<open>minisoar_connector.py\<close>: an exported incident becomes a finding when it is closed, synthetic,
  verified by someone other than its executor, and bound to its alert by the identity and payload hashes that the alert carries. The
  checks run in the order of the code.
\<close>

definition minisoar_error :: "string \<Rightarrow> string \<Rightarrow> py_error" where
  "minisoar_error label name = ValueError (''Mini-SOAR '' @ label @ '' '' @ name @ '' is invalid'')"

definition soar_text :: "string \<Rightarrow> fields \<Rightarrow> string \<Rightarrow> nat \<Rightarrow> string outcome" where
  "soar_text label kvs name maximum = contract_text (''Mini-SOAR '' @ label) kvs name maximum"

definition soar_optional :: "string \<Rightarrow> fields \<Rightarrow> string \<Rightarrow> nat \<Rightarrow> string option outcome" where
  "soar_optional label kvs name maximum =
     (if dict_get name kvs = JNull then Inr None
      else outcome_bind (soar_text label kvs name maximum) (\<lambda>s. Inr (Some s)))"

definition soar_control :: "string \<Rightarrow> string option" where
  "soar_control kind = map_of [(''brute_force'', ''SEC-AUTH-001''), (''privilege_escalation'', ''SEC-IAM-003''),
     (''malware'', ''SEC-END-001'')] kind"

definition upstream_time :: "string \<Rightarrow> string outcome" where
  "upstream_time s =
     (case datetime_fromisoformat (replace_Z s) of
        None \<Rightarrow> Inl (minisoar_error ''alert'' ''detected_at'')
      | Some dt \<Rightarrow> (case to_utc dt of
            None \<Rightarrow> Inl (minisoar_error ''alert'' ''detected_at'')
          | Some r \<Rightarrow> outcome_bind r (\<lambda>t. Inr (utc_text t))))"

record soar_alert =
  sa_source :: string
  sa_event :: string
  sa_asset :: string
  sa_kind :: string
  sa_severity :: string
  sa_identity :: string
  sa_id :: string
  sa_account :: "string option"
  sa_ip :: "string option"
  sa_detected :: string
  sa_source_detected :: string
  sa_evidence :: "string option"
  sa_message :: string
  sa_environment :: string
  sa_owner :: string
  sa_payload :: string

definition opt_json :: "string option \<Rightarrow> json" where
  "opt_json v = (case v of None \<Rightarrow> JNull | Some s \<Rightarrow> JStr s)"

text \<open>The canonical producer input that an export represents, and the digest of a value.\<close>

definition source_payload :: "soar_alert \<Rightarrow> json" where
  "source_payload a = JObj
     ([(''source'', JStr (sa_source a)), (''source_event_id'', JStr (sa_event a)), (''kind'', JStr (sa_kind a)),
       (''severity'', JStr (sa_severity a)), (''detected_at'', JStr (sa_source_detected a)),
       (''asset_id'', JStr (sa_asset a)), (''message'', JStr (sa_message a)),
       (''environment'', JStr (sa_environment a)), (''risk_owner'', JStr (sa_owner a))]
      @ concat (map (\<lambda>(k, v). case v of None \<Rightarrow> [] | Some s \<Rightarrow> [(k, JStr s)])
          [(''account'', sa_account a), (''source_ip'', sa_ip a), (''evidence_ref'', sa_evidence a)]))"

definition identity_material :: "soar_alert \<Rightarrow> json" where
  "identity_material a = JObj
     [(''source'', JStr (sa_source a)), (''source_event_id'', JStr (sa_event a)), (''kind'', JStr (sa_kind a)),
      (''asset_id'', JStr (sa_asset a)), (''account'', opt_json (sa_account a)), (''source_ip'', opt_json (sa_ip a))]"

definition json_digest :: "json \<Rightarrow> string" where
  "json_digest v = text_hash (json_dumps compact_utf8 v)"

definition upper_hex :: "char \<Rightarrow> bool" where
  "upper_hex c = (is_digit c \<or> between (CHR ''A'') (CHR ''F'') c)"

definition upstream_id_rx :: "string \<Rightarrow> rx" where
  "upstream_id_rx prefix = RSeq (r_text prefix) (r_times 16 (RChar upper_hex))"

definition upstream_id :: "string \<Rightarrow> string \<Rightarrow> string" where
  "upstream_id prefix h = prefix @ py_upper (take 16 h)"

definition lower_digest_rx :: rx where
  "lower_digest_rx = r_times 64 (RChar is_hex)"

text \<open>The alert's own fields, the checks on them, and the hashes it must carry.\<close>

definition alert_parts :: "fields \<Rightarrow> soar_alert outcome" where
  "alert_parts alert =
     outcome_bind (soar_text ''alert'' alert ''source'' 128) (\<lambda>source.
     outcome_bind (soar_text ''alert'' alert ''source_event_id'' 128) (\<lambda>event.
     outcome_bind (soar_text ''alert'' alert ''asset_id'' 128) (\<lambda>asset.
     outcome_bind (soar_text ''alert'' alert ''kind'' 64) (\<lambda>kind.
     outcome_bind (soar_text ''alert'' alert ''severity'' 16) (\<lambda>severity.
     outcome_bind (ensure (is_source_identifier (JStr source)) (minisoar_error ''alert'' ''source'')) (\<lambda>_.
     outcome_bind (ensure (soar_control kind \<noteq> None) (ValueError (''unsupported Mini-SOAR alert kind: '' @ kind))) (\<lambda>_.
     outcome_bind (ensure (severity \<in> set severities) (minisoar_error ''alert'' ''severity'')) (\<lambda>_.
     outcome_bind (soar_text ''alert'' alert ''detected_at'' 64) (\<lambda>source_detected.
     outcome_bind (upstream_time source_detected) (\<lambda>detected.
     outcome_bind (soar_optional ''alert'' alert ''account'' 256) (\<lambda>account.
     outcome_bind (soar_optional ''alert'' alert ''source_ip'' 64) (\<lambda>ip.
     outcome_bind (ensure (case ip of None \<Rightarrow> True | Some s \<Rightarrow> ip_address_ok s) (minisoar_error ''alert'' ''source_ip'')) (\<lambda>_.
     outcome_bind (soar_optional ''alert'' alert ''evidence_ref'' 512) (\<lambda>evidence.
     outcome_bind (ensure (case evidence of None \<Rightarrow> True | Some s \<Rightarrow> is_evidence_reference (JStr s))
       (ValueError ''Mini-SOAR alert evidence_ref is not approved'')) (\<lambda>_.
     outcome_bind (soar_text ''alert'' alert ''message'' 512) (\<lambda>message.
     outcome_bind (soar_text ''alert'' alert ''environment'' 64) (\<lambda>environment.
     outcome_bind (soar_text ''alert'' alert ''risk_owner'' 128) (\<lambda>owner.
     outcome_bind (ensure (environment = ''synthetic-lab'') (minisoar_error ''alert'' ''environment'')) (\<lambda>_.
     outcome_bind (ensure (dict_get ''supported'' alert = JBool True) (minisoar_error ''alert'' ''supported flag'')) (\<lambda>_.
       Inr \<lparr>sa_source = source, sa_event = event, sa_asset = asset, sa_kind = kind, sa_severity = severity,
         sa_identity = [], sa_id = [], sa_account = account, sa_ip = ip, sa_detected = detected,
         sa_source_detected = source_detected, sa_evidence = evidence, sa_message = message,
         sa_environment = environment, sa_owner = owner, sa_payload = []\<rparr>))))))))))))))))))))"

definition validated_alert :: "fields \<Rightarrow> soar_alert outcome" where
  "validated_alert alert =
     outcome_bind (alert_parts alert) (\<lambda>a.
     outcome_bind (soar_text ''alert'' alert ''identity_hash'' 64) (\<lambda>identity.
     outcome_bind (ensure (identity = json_digest (identity_material a)) (minisoar_error ''alert'' ''identity_hash'')) (\<lambda>_.
     outcome_bind (soar_text ''alert'' alert ''alert_id'' 20) (\<lambda>aid.
     outcome_bind (ensure (fullmatch (upstream_id_rx ''ALT-'') aid \<and> aid = upstream_id ''ALT-'' identity)
       (minisoar_error ''alert'' ''alert_id'')) (\<lambda>_.
     outcome_bind (soar_text ''alert'' alert ''payload_hash'' 64) (\<lambda>payload.
     outcome_bind (ensure (fullmatch lower_digest_rx payload \<and> payload = json_digest (source_payload a))
       (minisoar_error ''alert'' ''payload_hash'')) (\<lambda>_.
       Inr (a\<lparr>sa_identity := identity, sa_id := aid, sa_payload := payload\<rparr>))))))))"

section \<open>The incident\<close>

definition finding_fields_of :: "fields \<Rightarrow> soar_alert \<Rightarrow> (string \<times> string \<times> string \<times> string \<times> string) outcome" where
  "finding_fields_of finding a =
     outcome_bind (soar_text ''finding'' finding ''finding_id'' 20) (\<lambda>fid.
     outcome_bind (ensure (fullmatch (upstream_id_rx ''FND-'') fid \<and> fid = upstream_id ''FND-'' (sa_identity a))
       (minisoar_error ''finding'' ''finding_id'')) (\<lambda>_.
     outcome_bind (ensure (dict_get ''alert_id'' finding = JStr (sa_id a))
       (ValueError ''Mini-SOAR finding does not belong to the alert'')) (\<lambda>_.
     outcome_bind (soar_text ''finding'' finding ''executor_id'' 128) (\<lambda>executor.
     outcome_bind (soar_text ''finding'' finding ''risk_owner'' 128) (\<lambda>owner.
     outcome_bind (ensure (owner = sa_owner a) (ValueError ''Mini-SOAR finding risk_owner does not match the alert'')) (\<lambda>_.
     outcome_bind (soar_text ''finding'' finding ''severity'' 16) (\<lambda>severity.
     outcome_bind (ensure (severity = sa_severity a) (ValueError ''Mini-SOAR finding severity does not match the alert'')) (\<lambda>_.
     outcome_bind (soar_text ''finding'' finding ''title'' 512) (\<lambda>title.
     outcome_bind (ensure (title = sa_message a) (ValueError ''Mini-SOAR finding title does not match the alert'')) (\<lambda>_.
       Inr (fid, executor, owner, severity, title)))))))))))"

definition verification_succeeded :: "json \<Rightarrow> bool" where
  "verification_succeeded v =
     (case v of JObj kvs \<Rightarrow> dict_get ''passed'' kvs = JBool True \<or> dict_get ''passed'' kvs = JInt 1 | _ \<Rightarrow> False)"

definition validated_verifier :: "json \<Rightarrow> string \<Rightarrow> bool \<Rightarrow> string option outcome" where
  "validated_verifier v fid passed =
     (if \<not> passed then Inr None
      else (case v of
              JObj kvs \<Rightarrow>
                outcome_bind (ensure (dict_get ''finding_id'' kvs = JStr fid)
                  (ValueError ''Mini-SOAR verification does not belong to the finding'')) (\<lambda>_.
                outcome_bind (soar_text ''verification'' kvs ''verifier_id'' 128) (\<lambda>s. Inr (Some s)))
            | _ \<Rightarrow> Inl (OtherError ''AssertionError'')))"

definition incident_identity :: "string \<Rightarrow> string \<Rightarrow> string \<Rightarrow> string" where
  "incident_identity fid control asset = ''minisoar-incident|'' @ fid @ ''|'' @ control @ ''|'' @ asset"

definition incident_finding ::
    "fields \<Rightarrow> soar_alert \<Rightarrow> string \<Rightarrow> string \<Rightarrow> string \<Rightarrow> string \<Rightarrow> string \<Rightarrow> string \<Rightarrow> bool \<Rightarrow> string option \<Rightarrow> fields" where
  "incident_finding finding a control fid executor owner severity title passed verifier =
     [(''finding_id'', JStr (short_id ''SEC-IR-'' (incident_identity fid control (sa_asset a)))),
      (''source'', JStr ''minisoar_incident_response''), (''control_id'', JStr control), (''asset_id'', JStr (sa_asset a)),
      (''title'', JStr (''Incident response closed: '' @ title)), (''risk_owner'', JStr owner), (''severity'', JStr severity),
      (''details'', JObj [(''kind'', JStr (sa_kind a)), (''source'', JStr (sa_source a)),
         (''source_event_id'', JStr (sa_event a)), (''source_alert_id'', JStr (sa_id a)),
         (''source_payload_hash'', JStr (sa_payload a)), (''source_detected_at'', JStr (sa_source_detected a)),
         (''detected_at'', JStr (sa_detected a)), (''account'', opt_json (sa_account a)),
         (''source_ip'', opt_json (sa_ip a)), (''evidence_ref'', opt_json (sa_evidence a)),
         (''mini_soar_finding_id'', JStr fid), (''playbook_id'', dict_get ''playbook_id'' finding),
         (''playbook_version'', dict_get ''playbook_version'' finding), (''verification_passed'', JBool passed),
         (''verifier_id'', opt_json verifier), (''execution_actor_id'', JStr executor), (''simulated'', JBool True)])]"

definition checked_incident :: "fields \<Rightarrow> fields \<Rightarrow> json \<Rightarrow> bool \<Rightarrow> fields option outcome" where
  "checked_incident finding alert verification passed =
     outcome_bind (validated_alert alert) (\<lambda>a.
     outcome_bind (finding_fields_of finding a) (\<lambda>(fid, executor, owner, severity, title).
     outcome_bind (validated_verifier verification fid passed) (\<lambda>verifier.
       if verifier = Some executor then Inr None
       else (case soar_control (sa_kind a) of
               None \<Rightarrow> Inl (KeyError (sa_kind a))
             | Some control \<Rightarrow>
                 Inr (Some (incident_finding finding a control fid executor owner severity title passed verifier))))))"

definition normalize_minisoar_incident :: "json \<Rightarrow> json \<Rightarrow> json \<Rightarrow> bool \<Rightarrow> fields option outcome" where
  "normalize_minisoar_incident finding alert verification require_pass =
     (case (finding, alert) of
        (JObj f, JObj a) \<Rightarrow>
          (let passed = verification_succeeded verification in
           if dict_get ''status'' f \<noteq> JStr ''closed'' then Inr None
           else if dict_get ''environment'' a \<noteq> JStr ''synthetic-lab'' then Inr None
           else if require_pass \<and> \<not> passed then Inr None
           else checked_incident f a verification passed)
      | _ \<Rightarrow> Inl (ValueError ''Mini-SOAR finding and alert must be objects''))"

end
