(* ===== verification/State_Store.thy ===== *)
theory State_Store
  imports Py_Values Hash_Chain Leased_Queue
begin

text \<open>
  The ingestion state of \<open>state_store.py\<close>: replay nonces, payload reservations, pipeline runs,
  findings imported from other systems and the outbox of their audit events. The state has one list of
  rows per table, in insertion order. Every call of the class is one transaction and one function here;
  the clock reading \<open>now\<close> is an argument, in microseconds. A call that raises or returns before
  \<open>commit\<close> leaves the tables unchanged.
  The activation of the write-ahead log retries on lock errors until a deadline; it is a partial
  function over the replies of the database and the readings of the monotonic clock.
\<close>

section \<open>Tables\<close>

record nonce_row =
  nc_nonce :: string
  nc_expires :: int

datatype payload_status = PayloadPending | PayloadCommitted

record payload_row =
  pl_hash :: string
  pl_evidence :: string
  pl_accepted :: int
  pl_status :: payload_status

datatype run_status = RunRunning | RunCompleted | RunFailed

record run_row =
  pr_hash :: string
  pr_ledger :: string
  pr_remediation :: string
  pr_tickets :: string
  pr_report :: string
  pr_processed :: int
  pr_status :: run_status
  pr_error :: "string option"
  pr_lease_until :: int

record ext_finding =
  xf_id :: string
  xf_source :: string
  xf_control :: string
  xf_asset :: string
  xf_title :: string
  xf_owner :: string
  xf_severity :: string
  xf_details :: string
  xf_created :: int
  xf_updated :: int
  xf_count :: nat
  xf_last_hash :: "string option"

record ext_event =
  xe_id :: string
  xe_finding :: string
  xe_hash :: string
  xe_type :: string
  xe_details :: string
  xe_created :: int
  xe_delivered :: "int option"

record state_db =
  st_nonces :: "nonce_row list"
  st_payloads :: "payload_row list"
  st_runs :: "run_row list"
  st_findings :: "ext_finding list"
  st_events :: "ext_event list"

definition empty_state :: state_db where
  "empty_state = \<lparr>st_nonces = [], st_payloads = [], st_runs = [], st_findings = [], st_events = []\<rparr>"

section \<open>Activation of the write-ahead log\<close>

datatype wal_reply = WalError "int option" | WalMode "string option"

definition retryable_lock :: "int option \<Rightarrow> bool" where
  "retryable_lock code = (case code of None \<Rightarrow> False | Some c \<Rightarrow> c mod 256 \<in> {5, 6})"

definition wal_error :: py_error where
  "wal_error = OtherError ''OperationalError''"

text \<open>
  \<open>replies i\<close> answers attempt \<open>i\<close>; \<open>clock (i + 1)\<close> is the reading after it and \<open>clock 0\<close> the one at the start.
  The result is the number of attempts and the outcome.
\<close>

partial_function (option) wal_from ::
    "(nat \<Rightarrow> wal_reply) \<Rightarrow> (nat \<Rightarrow> int) \<Rightarrow> int \<Rightarrow> nat \<Rightarrow> (nat \<times> unit outcome) option" where
  "wal_from replies clock deadline i =
     (case replies i of
        WalMode mode \<Rightarrow>
          if map_option py_lower mode = Some ''wal'' then Some (Suc i, Inr ()) else Some (Suc i, Inl wal_error)
      | WalError code \<Rightarrow>
          if \<not> retryable_lock code \<or> deadline \<le> clock (Suc i) then Some (Suc i, Inl wal_error)
          else wal_from replies clock deadline (Suc i))"

definition enable_sqlite_wal :: "(nat \<Rightarrow> wal_reply) \<Rightarrow> (nat \<Rightarrow> int) \<Rightarrow> (nat \<times> unit outcome) option" where
  "enable_sqlite_wal replies clock = wal_from replies clock (clock 0 + seconds 30) 0"

section \<open>Replay nonces\<close>

definition reserve_nonce :: "string \<Rightarrow> int \<Rightarrow> int \<Rightarrow> state_db \<Rightarrow> bool \<times> state_db" where
  "reserve_nonce nonce ttl now db =
     (let live = filter (\<lambda>r. \<not> nc_expires r \<le> now) (st_nonces db) in
      if list_ex (\<lambda>r. nc_nonce r = nonce) live then (False, db)
      else (True, db\<lparr>st_nonces := live @ [\<lparr>nc_nonce = nonce, nc_expires = now + seconds ttl\<rparr>]\<rparr>))"

section \<open>Payload reservations\<close>

definition find_payload :: "string \<Rightarrow> payload_row list \<Rightarrow> payload_row option" where
  "find_payload h t = List.find (\<lambda>r. pl_hash r = h) t"

definition get_evidence_id :: "string \<Rightarrow> state_db \<Rightarrow> string option" where
  "get_evidence_id h db = map_option pl_evidence
     (List.find (\<lambda>r. pl_hash r = h \<and> pl_status r = PayloadCommitted) (st_payloads db))"

text \<open>\<open>INSERT OR IGNORE\<close>, and whether the row was inserted.\<close>

definition add_payload :: "payload_row \<Rightarrow> state_db \<Rightarrow> bool \<times> state_db" where
  "add_payload r db =
     (if list_ex (\<lambda>x. pl_hash x = pl_hash r) (st_payloads db) then (False, db)
      else (True, db\<lparr>st_payloads := st_payloads db @ [r]\<rparr>))"

definition begin_payload :: "string \<Rightarrow> string \<Rightarrow> int \<Rightarrow> state_db \<Rightarrow> bool outcome \<times> state_db" where
  "begin_payload h evidence now db =
     (case add_payload \<lparr>pl_hash = h, pl_evidence = evidence, pl_accepted = now, pl_status = PayloadPending\<rparr> db of
        (created, db') \<Rightarrow>
          if map_option pl_evidence (find_payload h (st_payloads db')) \<noteq> Some evidence
          then (Inl (IntegrityError ''payload identity mismatch''), db')
          else (Inr created, db'))"

definition commit_payload :: "string \<Rightarrow> string \<Rightarrow> state_db \<Rightarrow> bool \<times> state_db" where
  "commit_payload h evidence db =
     (let hit = (\<lambda>r. pl_hash r = h \<and> pl_evidence r = evidence) in
      (rowcount hit (st_payloads db) = 1,
       db\<lparr>st_payloads := update_where hit (\<lambda>r. r\<lparr>pl_status := PayloadCommitted\<rparr>) (st_payloads db)\<rparr>))"

definition is_evidence_committed :: "string \<Rightarrow> state_db \<Rightarrow> bool" where
  "is_evidence_committed evidence db =
     list_ex (\<lambda>r. pl_evidence r = evidence \<and> pl_status r = PayloadCommitted) (st_payloads db)"

definition find_payload_by_evidence_id :: "string \<Rightarrow> state_db \<Rightarrow> payload_row option" where
  "find_payload_by_evidence_id evidence db = List.find (\<lambda>r. pl_evidence r = evidence) (st_payloads db)"

definition remember_payload :: "string \<Rightarrow> string \<Rightarrow> int \<Rightarrow> state_db \<Rightarrow> bool \<times> state_db" where
  "remember_payload h evidence now db = add_payload
     \<lparr>pl_hash = h, pl_evidence = evidence, pl_accepted = now, pl_status = PayloadCommitted\<rparr> db"

section \<open>Pipeline runs\<close>

definition get_pipeline_run :: "string \<Rightarrow> state_db \<Rightarrow> run_row option" where
  "get_pipeline_run h db = List.find (\<lambda>r. pr_hash r = h) (st_runs db)"

definition set_run :: "string \<Rightarrow> (run_row \<Rightarrow> run_row) \<Rightarrow> state_db \<Rightarrow> state_db" where
  "set_run h f db = db\<lparr>st_runs := update_where (\<lambda>r. pr_hash r = h) f (st_runs db)\<rparr>"

definition new_run :: "string \<Rightarrow> int \<Rightarrow> int \<Rightarrow> run_row" where
  "new_run h now until = \<lparr>pr_hash = h, pr_ledger = [], pr_remediation = [], pr_tickets = [],
     pr_report = [], pr_processed = now, pr_status = RunRunning, pr_error = None, pr_lease_until = until\<rparr>"

definition claim_pipeline_run :: "string \<Rightarrow> int \<Rightarrow> int \<Rightarrow> state_db \<Rightarrow> bool \<times> state_db" where
  "claim_pipeline_run h now lease_seconds db =
     (let until = now + seconds lease_seconds in
      case get_pipeline_run h db of
        None \<Rightarrow> (True, db\<lparr>st_runs := st_runs db @ [new_run h now until]\<rparr>)
      | Some r \<Rightarrow>
          if pr_status r = RunFailed \<or> (pr_status r = RunRunning \<and> pr_lease_until r \<le> now)
          then (True, set_run h (\<lambda>r. r\<lparr>pr_status := RunRunning, pr_error := None,
                  pr_processed := now, pr_lease_until := until\<rparr>) db)
          else (False, db))"

definition complete_pipeline_run ::
    "string \<Rightarrow> string \<Rightarrow> string \<Rightarrow> string \<Rightarrow> string \<Rightarrow> int \<Rightarrow> state_db \<Rightarrow> state_db" where
  "complete_pipeline_run h ledger remediation tickets report now db =
     set_run h (\<lambda>r. r\<lparr>pr_status := RunCompleted, pr_ledger := ledger, pr_remediation := remediation,
       pr_tickets := tickets, pr_report := report, pr_processed := now, pr_error := None,
       pr_lease_until := 0\<rparr>) db"

definition fail_pipeline_run :: "string \<Rightarrow> string \<Rightarrow> int \<Rightarrow> state_db \<Rightarrow> state_db" where
  "fail_pipeline_run h err now db =
     set_run h (\<lambda>r. r\<lparr>pr_status := RunFailed, pr_error := Some (take 2000 err), pr_processed := now,
       pr_lease_until := 0\<rparr>) db"

definition remember_pipeline_run ::
    "string \<Rightarrow> string \<Rightarrow> string \<Rightarrow> string \<Rightarrow> string \<Rightarrow> int \<Rightarrow> state_db \<Rightarrow> state_db" where
  "remember_pipeline_run h ledger remediation tickets report now db =
     (if list_ex (\<lambda>r. pr_hash r = h) (st_runs db) then db
      else db\<lparr>st_runs := st_runs db @ [\<lparr>pr_hash = h, pr_ledger = ledger, pr_remediation = remediation,
             pr_tickets = tickets, pr_report = report, pr_processed = now, pr_status = RunCompleted,
             pr_error = None, pr_lease_until = 0\<rparr>]\<rparr>)"

section \<open>Imported findings\<close>

text \<open>
  A value bound to a \<open>TEXT NOT NULL\<close> column: text as it is, numbers and booleans as SQLite converts
  them. The driver refuses containers and integers beyond 64 bits. (SQLite itself would accept a
  \<open>NULL\<close> primary key in \<open>upsert_external_finding\<close>; no caller passes one.)
\<close>

fun sql_text :: "json \<Rightarrow> string outcome" where
  "sql_text (JStr s) = Inr s"
| "sql_text (JInt i) = (if - (2 ^ 63) \<le> i \<and> i < 2 ^ 63 then Inr (show_int i) else Inl (OtherError ''OverflowError''))"
| "sql_text (JBool b) = Inr (if b then ''1'' else ''0'')"
| "sql_text (JFloat (Fixed n)) = Inr (float_repr (Fixed n))"
| "sql_text (JFloat (Infinite neg)) = Inr (if neg then ''-Inf'' else ''Inf'')"
| "sql_text (JFloat NotANumber) = Inl (IntegrityError ''NOT NULL constraint failed'')"
| "sql_text JNull = Inl (IntegrityError ''NOT NULL constraint failed'')"
| "sql_text _ = Inl (OtherError ''ProgrammingError'')"

definition finding_fields :: "string list" where
  "finding_fields = [''asset_id'', ''control_id'', ''details'', ''finding_id'', ''risk_owner'',
     ''severity'', ''source'', ''title'']"

definition severity_names :: "string list" where
  "severity_names = [''low'', ''medium'', ''high'', ''critical'']"

definition text_list :: "string list \<Rightarrow> string" where
  "text_list ss = ''['' @ py_join '', '' (map repr_text ss) @ '']''"

definition check_external :: "(string \<times> json) list \<Rightarrow> unit outcome" where
  "check_external f =
     (let missing = filter (\<lambda>k. obj_get k f = None) finding_fields in
      if missing \<noteq> [] then Inl (ValueError (''External finding is missing fields: '' @ text_list missing))
      else if \<not> hashable (dict_get ''severity'' f) then Inl (OtherError ''TypeError'')
      else if dict_get ''severity'' f \<notin> JStr ` set severity_names
        then Inl (ValueError ''External finding severity is invalid.'')
      else Inr ())"

text \<open>The columns bound from the dictionary.\<close>

definition bound_finding :: "(string \<times> json) list \<Rightarrow> int \<Rightarrow> string option \<Rightarrow> ext_finding outcome" where
  "bound_finding f now last_hash =
     outcome_bind (sql_text (dict_get ''finding_id'' f)) (\<lambda>fid.
     outcome_bind (sql_text (dict_get ''source'' f)) (\<lambda>source.
     outcome_bind (sql_text (dict_get ''control_id'' f)) (\<lambda>control.
     outcome_bind (sql_text (dict_get ''asset_id'' f)) (\<lambda>asset.
     outcome_bind (sql_text (dict_get ''title'' f)) (\<lambda>title.
     outcome_bind (sql_text (dict_get ''risk_owner'' f)) (\<lambda>owner.
     outcome_bind (sql_text (dict_get ''severity'' f)) (\<lambda>severity.
       Inr \<lparr>xf_id = fid, xf_source = source, xf_control = control, xf_asset = asset, xf_title = title,
         xf_owner = owner, xf_severity = severity,
         xf_details = json_dumps compact_ascii (dict_get ''details'' f),
         xf_created = now, xf_updated = now, xf_count = 0, xf_last_hash = last_hash\<rparr>)))))))"

definition find_external :: "string \<Rightarrow> state_db \<Rightarrow> ext_finding option" where
  "find_external fid db = List.find (\<lambda>r. xf_id r = fid) (st_findings db)"

text \<open>The row found and its \<open>details\<close>, read back.\<close>

definition get_external_finding :: "string \<Rightarrow> state_db \<Rightarrow> (ext_finding \<times> json) option outcome" where
  "get_external_finding fid db =
     (case find_external fid db of
        None \<Rightarrow> Inr None
      | Some r \<Rightarrow> (case json_loads (xf_details r) of
                    None \<Rightarrow> Inl JSONDecodeError
                  | Some v \<Rightarrow> Inr (Some (r, v))))"

text \<open>What the two \<open>UPDATE\<close> statements leave of the old row.\<close>

definition reassessed :: "ext_finding \<Rightarrow> ext_finding \<Rightarrow> ext_finding" where
  "reassessed new old = new\<lparr>xf_created := xf_created old, xf_count := xf_count old + 1\<rparr>"

definition upsert_external_finding :: "(string \<times> json) list \<Rightarrow> int \<Rightarrow> state_db \<Rightarrow> bool outcome \<times> state_db" where
  "upsert_external_finding f now db = transact db
     (outcome_bind (check_external f) (\<lambda>_.
      outcome_bind (bound_finding f now None) (\<lambda>row.
        case find_external (xf_id row) db of
          Some _ \<Rightarrow> Inr (db\<lparr>st_findings := update_where (\<lambda>r. xf_id r = xf_id row)
                      (\<lambda>r. (reassessed row r)\<lparr>xf_last_hash := xf_last_hash r\<rparr>) (st_findings db)\<rparr>, False)
        | None \<Rightarrow> Inr (db\<lparr>st_findings := st_findings db @ [row]\<rparr>, True))))"

definition digest_ok :: "json \<Rightarrow> bool" where
  "digest_ok v = (case v of JStr s \<Rightarrow> length s = 64 \<and> list_all is_hex s | _ \<Rightarrow> False)"

definition event_type_of :: "string \<Rightarrow> string" where
  "event_type_of action = ''bridge.minisoar.finding.'' @ action"

definition import_event_id :: "string \<Rightarrow> string \<Rightarrow> string \<Rightarrow> string" where
  "import_event_id fid h etype =
     take 24 (text_hash (''minisoar-audit|'' @ fid @ ''|'' @ h @ ''|'' @ etype))"

definition find_import :: "string \<Rightarrow> string \<Rightarrow> state_db \<Rightarrow> ext_event option" where
  "find_import fid h db = List.find (\<lambda>e. xe_finding e = fid \<and> xe_hash e = h) (st_events db)"

definition event_keys :: "(string \<times> (ext_event \<Rightarrow> ext_event \<Rightarrow> bool)) list" where
  "event_keys =
     [(''external_finding_audit_outbox.event_id'', \<lambda>a b. xe_id a = xe_id b),
      (''external_finding_audit_outbox.finding_id, external_finding_audit_outbox.evidence_hash'',
       \<lambda>a b. xe_finding a = xe_finding b \<and> xe_hash a = xe_hash b)]"

definition import_event :: "(string \<times> json) list \<Rightarrow> string \<Rightarrow> string \<Rightarrow> string \<Rightarrow> int \<Rightarrow> ext_event" where
  "import_event f fid h action now =
     (let etype = event_type_of action in
      \<lparr>xe_id = import_event_id (py_str (dict_get ''finding_id'' f)) h etype, xe_finding = fid, xe_hash = h,
        xe_type = etype, xe_details = json_dumps compact_ascii (JObj
          [(''control_id'', dict_get ''control_id'' f), (''source'', dict_get ''source'' f)]),
        xe_created = now, xe_delivered = None\<rparr>)"

text \<open>The event handed to the caller, unless it is delivered, with its details read back.\<close>

definition undelivered_event :: "ext_event option \<Rightarrow> (ext_event \<times> json) option outcome" where
  "undelivered_event found =
     (case found of
        None \<Rightarrow> Inr None
      | Some e \<Rightarrow> if xe_delivered e \<noteq> None then Inr None
                  else (case json_loads (xe_details e) of
                          None \<Rightarrow> Inl JSONDecodeError
                        | Some v \<Rightarrow> Inr (Some (e, v))))"

text \<open>
  A replay binds only the identifier; the other columns are bound when a row is written.
\<close>

definition import_change ::
    "(string \<times> json) list \<Rightarrow> string \<Rightarrow> string \<Rightarrow> int \<Rightarrow> state_db \<Rightarrow> (state_db \<times> string) outcome" where
  "import_change f fid h now db =
     (if find_import fid h db \<noteq> None then Inr (db, ''replayed'')
      else outcome_bind (bound_finding f now (Some h)) (\<lambda>row.
        let (action, rows) =
          (if find_external fid db = None then (''created'', st_findings db @ [row])
           else (''reassessed'', update_where (\<lambda>r. xf_id r = fid) (reassessed row) (st_findings db)))
        in outcome_bind (insert_row event_keys (import_event f fid h action now) (st_events db))
             (\<lambda>events. Inr (db\<lparr>st_findings := rows, st_events := events\<rparr>, action))))"

text \<open>The event is read back inside the transaction; its details are decoded after the commit.\<close>

definition record_external_finding_import ::
    "(string \<times> json) list \<Rightarrow> json \<Rightarrow> int \<Rightarrow> state_db \<Rightarrow> (string \<times> (ext_event \<times> json) option) outcome \<times> state_db" where
  "record_external_finding_import f evidence_hash now db =
     (case transact db
        (outcome_bind (check_external f) (\<lambda>_.
         outcome_bind (ensure (digest_ok evidence_hash)
           (ValueError ''evidence_hash must be a lowercase SHA-256 digest'')) (\<lambda>_.
         outcome_bind (sql_text (dict_get ''finding_id'' f)) (\<lambda>fid.
         outcome_bind (import_change f fid (py_str evidence_hash) now db) (\<lambda>(db', action).
           Inr (db', action, find_import fid (py_str evidence_hash) db')))))) of
       (Inl e, db') \<Rightarrow> (Inl e, db')
     | (Inr (action, found), db') \<Rightarrow>
         (outcome_bind (undelivered_event found) (\<lambda>event. Inr (action, event)), db'))"

definition mark_audit_delivered :: "string \<Rightarrow> int \<Rightarrow> state_db \<Rightarrow> unit outcome \<times> state_db" where
  "mark_audit_delivered eid now db =
     (if rowcount (\<lambda>e. xe_id e = eid) (st_events db) \<noteq> 1
      then (Inl (ValueError ''unknown external finding audit event''), db)
      else (Inr (), db\<lparr>st_events := update_where (\<lambda>e. xe_id e = eid)
              (\<lambda>e. e\<lparr>xe_delivered := (case xe_delivered e of None \<Rightarrow> Some now | Some t \<Rightarrow> Some t)\<rparr>)
              (st_events db)\<rparr>))"

definition get_audit_event :: "string \<Rightarrow> state_db \<Rightarrow> (ext_event \<times> json) option outcome" where
  "get_audit_event eid db =
     (case List.find (\<lambda>e. xe_id e = eid) (st_events db) of
        None \<Rightarrow> Inr None
      | Some e \<Rightarrow> (case json_loads (xe_details e) of
                    None \<Rightarrow> Inl JSONDecodeError
                  | Some v \<Rightarrow> Inr (Some (e, v))))"

definition export_metadata :: "state_db \<Rightarrow> nat \<times> nat" where
  "export_metadata db = (length (st_nonces db), length (st_payloads db))"

end
