(* ===== verification/Bridges.thy ===== *)
theory Bridges
  imports Mini_Soar State_Store
begin

text \<open>
  The two import bridges: \<open>scripts/bridge_minisoar.py\<close> verifies an evidence bundle against an externally trusted manifest
  digest, normalises the incident, records the import with its audit event and delivers that event to the audit log;
  \<open>scripts/bridge_jml.py\<close> reads the requests of a JML database and upserts the eligible ones. The state is the tables of the
  ingestion store and the text of the audit log. The outcomes of the path checks, the regular files of the bundle and the rows
  of the JML database are arguments, as are the clock readings. Opening the
  databases is not modelled. A caught exception is an answer with a reason, another one is an \<open>Inl\<close>.
\<close>

type_synonym bridge_state = "state_db \<times> string option"

section \<open>The classes of exceptions\<close>

definition value_error :: "py_error \<Rightarrow> bool" where
  "value_error e = (case e of ValueError m \<Rightarrow> True | JSONDecodeError \<Rightarrow> True | _ \<Rightarrow> False)"

definition os_error :: "py_error \<Rightarrow> bool" where
  "os_error e = (case e of PermissionError m \<Rightarrow> True | _ \<Rightarrow> False)"

definition sqlite_error :: "py_error \<Rightarrow> bool" where
  "sqlite_error e = (case e of IntegrityError m \<Rightarrow> True | OtherError m \<Rightarrow> m = ''ProgrammingError'' | _ \<Rightarrow> False)"

definition type_error :: "py_error \<Rightarrow> bool" where
  "type_error e = (e = OtherError ''TypeError'')"

definition storage_error :: "py_error \<Rightarrow> bool" where
  "storage_error e = (os_error e \<or> sqlite_error e \<or> type_error e \<or> value_error e)"

section \<open>Evidence bundles\<close>

text \<open>The regular files of the bundle directory.\<close>

type_synonym bundle_files = "string \<Rightarrow> byte list option"

definition read_regular_bytes :: "bundle_files \<Rightarrow> string \<Rightarrow> byte list outcome" where
  "read_regular_bytes files name =
     (case files name of None \<Rightarrow> Inl (ValueError ''bundle entry must be a regular file'') | Some b \<Rightarrow> Inr b)"

definition manifest_name :: string where "manifest_name = ''SHA256SUMS.txt''"

definition required_records :: "string list" where
  "required_records = [''alert.json'', ''finding.json'', ''verification.json'']"

definition sum_line_rx :: rx where
  "sum_line_rx = r_seq [r_times 64 (RChar is_hex), r_text ''  '', RChar ascii_alnum,
     r_upto 127 (RChar (\<lambda>c. ascii_alnum c \<or> c \<in> {CHR ''.'', CHR ''_'', CHR ''-''}))]"

text \<open>The two groups of a matching line: the digest and the name after the two spaces.\<close>

fun declared_digests :: "(string \<times> string) list \<Rightarrow> string list \<Rightarrow> (string \<times> string) list outcome" where
  "declared_digests acc [] = Inr acc"
| "declared_digests acc (line # ls) =
     (if \<not> fullmatch sum_line_rx line then Inl (ValueError ''bundle checksum manifest is invalid'')
      else if drop 66 line \<in> fst ` set acc then Inl (ValueError ''bundle checksum manifest has duplicate entries'')
      else declared_digests (acc @ [(drop 66 line, take 64 line)]) ls)"

fun checked_records :: "bundle_files \<Rightarrow> (string \<times> string) list \<Rightarrow> (string \<times> byte list) list outcome" where
  "checked_records files [] = Inr []"
| "checked_records files ((name, expected) # ds) =
     outcome_bind (read_regular_bytes files name) (\<lambda>encoded.
     outcome_bind (ensure (sha256_hex encoded = expected) (ValueError ''bundle checksum verification failed'')) (\<lambda>_.
     outcome_bind (checked_records files ds) (\<lambda>rs. Inr ((name, encoded) # rs))))"

definition verified_bundle_records ::
    "bundle_files \<Rightarrow> string option \<Rightarrow> ((string \<times> byte list) list \<times> (string \<times> string) list \<times> string) outcome" where
  "verified_bundle_records files expected =
     outcome_bind (ensure (case expected of None \<Rightarrow> False | Some e \<Rightarrow> fullmatch lower_digest_rx e)
       (ValueError ''trusted bundle manifest SHA-256 is required'')) (\<lambda>_.
     outcome_bind (read_regular_bytes files manifest_name) (\<lambda>manifest.
     outcome_bind (ensure (expected = Some (sha256_hex manifest))
       (ValueError ''bundle checksum manifest is not externally trusted'')) (\<lambda>_.
     outcome_bind (case utf8_decode manifest of None \<Rightarrow> Inl (ValueError ''UnicodeDecodeError'') | Some s \<Rightarrow> Inr s) (\<lambda>lines.
     outcome_bind (declared_digests [] (py_splitlines lines)) (\<lambda>declared.
     outcome_bind (ensure (set required_records \<subseteq> fst ` set declared) (ValueError ''bundle checksum manifest is incomplete'')) (\<lambda>_.
     outcome_bind (checked_records files declared) (\<lambda>records.
       Inr (records, sort declared, sha256_hex manifest))))))))"

definition bundle_json :: "(string \<times> byte list) list \<Rightarrow> string \<Rightarrow> json outcome" where
  "bundle_json records name =
     (case map_of records name of
        None \<Rightarrow> Inl (KeyError name)
      | Some b \<Rightarrow> (case utf8_decode b of
            None \<Rightarrow> Inl (ValueError ''UnicodeDecodeError'')
          | Some s \<Rightarrow> (case json_loads s of None \<Rightarrow> Inl JSONDecodeError | Some v \<Rightarrow> Inr v)))"

definition read_bundle ::
    "bundle_files \<Rightarrow> string option \<Rightarrow> (json \<times> json \<times> json \<times> (string \<times> string) list \<times> string) outcome" where
  "read_bundle files expected =
     outcome_bind (verified_bundle_records files expected) (\<lambda>(records, hashes, digest).
     outcome_bind (bundle_json records ''finding.json'') (\<lambda>finding.
     outcome_bind (bundle_json records ''alert.json'') (\<lambda>alert.
     outcome_bind (bundle_json records ''verification.json'') (\<lambda>verification.
       Inr (finding, alert, verification, hashes, digest)))))"

section \<open>The Mini-SOAR bridge\<close>

record bridge_result =
  br_read :: bool
  br_created :: bool
  br_reassessed :: bool
  br_replayed :: bool
  br_reason :: "(string \<times> py_error option) option"
  br_finding :: "json option"
  br_errors :: nat

definition new_result :: bridge_result where
  "new_result = \<lparr>br_read = False, br_created = False, br_reassessed = False, br_replayed = False,
     br_reason = None, br_finding = None, br_errors = 0\<rparr>"

text \<open>The reason is a text with, for most failures, the text of the exception after it.\<close>

definition fail_result :: "bridge_result \<Rightarrow> string \<Rightarrow> py_error option \<Rightarrow> bridge_result" where
  "fail_result r message e = r\<lparr>br_errors := 1, br_reason := Some (message, e)\<rparr>"

definition apply_action :: "bridge_result \<Rightarrow> json \<Rightarrow> string \<Rightarrow> bridge_result outcome" where
  "apply_action r fid action =
     (if action \<notin> {''created'', ''reassessed'', ''replayed''}
      then Inl (ValueError ''governance storage returned an invalid import action'')
      else Inr (r\<lparr>br_finding := Some fid, br_created := br_created r \<or> action = ''created'',
             br_reassessed := br_reassessed r \<or> action = ''reassessed'', br_replayed := br_replayed r \<or> action = ''replayed''\<rparr>))"

definition finding_details :: "fields \<Rightarrow> fields" where
  "finding_details f = (case dict_get ''details'' f of JObj kvs \<Rightarrow> kvs | _ \<Rightarrow> [])"

definition with_bundle :: "fields \<Rightarrow> (string \<times> string) list \<Rightarrow> string \<Rightarrow> fields" where
  "with_bundle f hashes digest =
     dict_put ''details'' (JObj (dict_put ''bundle_manifest_sha256'' (JStr digest)
       (dict_put ''bundle_record_hashes'' (JObj (map (\<lambda>(n, d). (n, JStr d)) hashes)) (finding_details f)))) f"

definition evidence_hash :: "fields \<Rightarrow> string outcome" where
  "evidence_hash f = outcome_bind (canonical_json (JObj f)) (\<lambda>s. Inr (text_hash s))"

definition soar_bridge_actor :: audit_actor where
  "soar_bridge_actor = ActorText ''minisoar-bridge-connector''"

text \<open>The audit delivery of an undelivered event.\<close>

definition deliver_audit ::
    "audit_env \<Rightarrow> int \<Rightarrow> bridge_result \<Rightarrow> ext_event \<times> json \<Rightarrow> bridge_state \<Rightarrow> bridge_result outcome \<times> bridge_state" where
  "deliver_audit env now r event st =
     (let failed = (\<lambda>e. if storage_error e
            then Inr (fail_result r ''finding state was persisted but audit delivery failed: '' (Some e)) else Inl e) in
      case append_idempotent env (xe_id (fst event)) (xe_type (fst event)) soar_bridge_actor (xe_finding (fst event))
             (Some (object_fields (snd event))) (snd st) of
        (Inl e, log') \<Rightarrow> (failed e, (fst st, log'))
      | (Inr _, log') \<Rightarrow>
          (case mark_audit_delivered (xe_id (fst event)) now (fst st) of
             (Inl e, db') \<Rightarrow> (failed e, (db', log'))
           | (Inr _, db') \<Rightarrow> (Inr r, (db', log'))))"

text \<open>The storage step and the delivery, for a normalised incident.\<close>

definition import_incident ::
    "audit_env \<Rightarrow> int \<Rightarrow> int \<Rightarrow> bridge_result \<Rightarrow> fields \<Rightarrow> bridge_state \<Rightarrow> bridge_result outcome \<times> bridge_state" where
  "import_incident env now now' r f st =
     (let failed = (\<lambda>e. if storage_error e then Inr (fail_result r ''governance storage failed: '' (Some e)) else Inl e) in
      case evidence_hash f of
        Inl e \<Rightarrow> (failed e, st)
      | Inr h \<Rightarrow>
          (case record_external_finding_import f (JStr h) now (fst st) of
             (Inl e, db') \<Rightarrow> (failed e, (db', snd st))
           | (Inr (action, event), db') \<Rightarrow>
               (case apply_action r (dict_get ''finding_id'' f) action of
                  Inl e \<Rightarrow> (failed e, (db', snd st))
                | Inr r' \<Rightarrow>
                    (case event of
                       None \<Rightarrow> (Inr r', (db', snd st))
                     | Some ev \<Rightarrow> deliver_audit env now' r' ev (db', snd st)))))"

text \<open>
  The whole run. \<open>root\<close> is the outcome of selecting the runtime root and resolving the bundle directory, \<open>storage\<close>
  that of resolving the storage paths.
\<close>

definition run_minisoar_bridge ::
    "unit outcome \<Rightarrow> unit outcome \<Rightarrow> bundle_files \<Rightarrow> string option \<Rightarrow> bool \<Rightarrow> audit_env \<Rightarrow> int \<Rightarrow> int \<Rightarrow> bridge_state
      \<Rightarrow> bridge_result outcome \<times> bridge_state" where
  "run_minisoar_bridge root storage files expected require_pass env now now' st =
     (case root of
        Inl e \<Rightarrow> (if os_error e \<or> value_error e then Inr (fail_result new_result [] (Some e)) else Inl e, st)
      | Inr _ \<Rightarrow>
     (case read_bundle files expected of
        Inl e \<Rightarrow> (if os_error e \<or> value_error e
            then Inr (fail_result new_result ''could not verify required evidence bundle files'' None) else Inl e, st)
      | Inr (finding, alert, verification, hashes, digest) \<Rightarrow>
          (let r = new_result\<lparr>br_read := True\<rparr> in
           case normalize_minisoar_incident finding alert verification require_pass of
             Inl e \<Rightarrow> (if type_error e \<or> value_error e then Inr (fail_result r [] (Some e)) else Inl e, st)
           | Inr None \<Rightarrow>
               (Inr (r\<lparr>br_reason := Some (''incident is not closed, synthetic, or independently verified'', None)\<rparr>), st)
           | Inr (Some f) \<Rightarrow>
               (case storage of
                  Inl e \<Rightarrow> (if os_error e \<or> value_error e then Inr (fail_result r [] (Some e)) else Inl e, st)
                | Inr _ \<Rightarrow> import_incident env now now' r (with_bundle f hashes digest) st))))"

section \<open>The JML bridge\<close>

text \<open>The rows the bridge reads; the identifiers of verifications and executions are their integer keys.\<close>

record jml_db =
  jd_requests :: "fields list"
  jd_verifications :: "(int \<times> fields) list"
  jd_executions :: "(int \<times> json \<times> json) list"

definition sql_same :: "json \<Rightarrow> json \<Rightarrow> bool" where
  "sql_same v w = (v \<noteq> JNull \<and> v = w)"

definition latest :: "('a \<Rightarrow> int) \<Rightarrow> 'a list \<Rightarrow> 'a option" where
  "latest k rows = (case rev (sort_key k rows) of [] \<Rightarrow> None | r # _ \<Rightarrow> Some r)"

definition latest_verification :: "jml_db \<Rightarrow> json \<Rightarrow> json" where
  "latest_verification jd rid =
     (case latest fst (filter (\<lambda>(_, row). sql_same (dict_get ''request_id'' row) rid) (jd_verifications jd)) of
        None \<Rightarrow> JNull
      | Some (_, row) \<Rightarrow> JObj row)"

definition latest_execution_actor :: "jml_db \<Rightarrow> json \<Rightarrow> json" where
  "latest_execution_actor jd rid =
     (case latest fst (filter (\<lambda>(_, r, _). sql_same r rid) (jd_executions jd)) of
        None \<Rightarrow> JNull
      | Some (_, _, a) \<Rightarrow> JStr (py_str a))"

record jml_result =
  jr_read :: nat
  jr_created :: nat
  jr_reassessed :: nat
  jr_skipped :: nat
  jr_errors :: nat
  jr_findings :: "json list"
  jr_reason :: "string option"

definition new_jml_result :: jml_result where
  "new_jml_result = \<lparr>jr_read = 0, jr_created = 0, jr_reassessed = 0, jr_skipped = 0, jr_errors = 0,
     jr_findings = [], jr_reason = None\<rparr>"

definition count_finding :: "fields \<Rightarrow> bool \<Rightarrow> jml_result \<Rightarrow> jml_result" where
  "count_finding f created r =
     (let r = r\<lparr>jr_findings := jr_findings r @ [dict_get ''finding_id'' f]\<rparr> in
      if created then r\<lparr>jr_created := Suc (jr_created r)\<rparr> else r\<lparr>jr_reassessed := Suc (jr_reassessed r)\<rparr>)"

definition jml_event_type :: "bool \<Rightarrow> string" where
  "jml_event_type created = (if created then ''bridge.jml.finding.created'' else ''bridge.jml.finding.reassessed'')"

text \<open>The upsert and the append for one eligible request; the exception, if any, ends the loop.\<close>

definition store_request ::
    "audit_env \<Rightarrow> int \<Rightarrow> fields \<Rightarrow> jml_result \<Rightarrow> bridge_state \<Rightarrow> py_error option \<times> jml_result \<times> bridge_state" where
  "store_request env now f r st =
     (case upsert_external_finding f now (fst st) of
        (Inl e, db') \<Rightarrow> (Some e, r, (db', snd st))
      | (Inr created, db') \<Rightarrow>
          (let r' = count_finding f created r in
           case append_log env (jml_event_type created) (ActorText ''jml-bridge-connector'') (py_str (dict_get ''finding_id'' f))
                  (Some [(''control_id'', dict_get ''control_id'' f), (''source'', dict_get ''source'' f)]) (snd st) of
             (Inl e, log') \<Rightarrow> (Some e, r', (db', log'))
           | (Inr _, log') \<Rightarrow> (None, r', (db', log'))))"

fun bridge_requests ::
    "jml_db \<Rightarrow> (nat \<Rightarrow> int \<times> audit_env) \<Rightarrow> fields list \<Rightarrow> jml_result \<Rightarrow> bridge_state
      \<Rightarrow> py_error option \<times> jml_result \<times> bridge_state" where
  "bridge_requests jd tick [] r st = (None, r, st)"
| "bridge_requests jd tick (request # rows) r st =
     (let r = r\<lparr>jr_read := Suc (jr_read r)\<rparr>; rid = dict_get ''request_id'' request in
      case normalize_jml_request (JObj request) (latest_verification jd rid) (latest_execution_actor jd rid) of
        Inl e \<Rightarrow>
          if type_error e \<or> value_error e then bridge_requests jd tick rows (r\<lparr>jr_errors := Suc (jr_errors r)\<rparr>) st
          else (Some e, r, st)
      | Inr None \<Rightarrow> bridge_requests jd tick rows (r\<lparr>jr_skipped := Suc (jr_skipped r)\<rparr>) st
      | Inr (Some f) \<Rightarrow>
          (case store_request (snd (tick (jr_read r))) (fst (tick (jr_read r))) f r st of
             (None, r', st') \<Rightarrow> bridge_requests jd tick rows r' st'
           | stopped \<Rightarrow> stopped))"

definition selected_requests :: "jml_db \<Rightarrow> string option \<Rightarrow> fields list" where
  "selected_requests jd request_id =
     (case request_id of None \<Rightarrow> jd_requests jd
      | Some rid \<Rightarrow> filter (\<lambda>row. dict_get ''request_id'' row = JStr rid) (jd_requests jd))"

text \<open>\<open>opened\<close> is \<open>None\<close> when the database could not be opened read-only.\<close>

definition run_jml_bridge ::
    "jml_db option \<Rightarrow> string option \<Rightarrow> (nat \<Rightarrow> int \<times> audit_env) \<Rightarrow> bridge_state \<Rightarrow> jml_result outcome \<times> bridge_state" where
  "run_jml_bridge opened request_id tick st =
     (case opened of
        None \<Rightarrow> (Inr (new_jml_result\<lparr>jr_errors := 1, jr_reason := Some ''could not open JML database read-only''\<rparr>), st)
      | Some jd \<Rightarrow>
          (case bridge_requests jd tick (selected_requests jd request_id) new_jml_result st of
             (None, r, st') \<Rightarrow> (Inr r, st')
           | (Some e, r, st') \<Rightarrow>
               (if sqlite_error e
                then Inr (r\<lparr>jr_errors := Suc (jr_errors r), jr_reason := Some ''could not read JML request records''\<rparr>)
                else Inl e, st')))"

end
