(* ===== verification/State_Properties.thy ===== *)
theory State_Properties
  imports State_Store Replay_Guard
begin

text \<open>
  Properties of the ingestion state: a nonce is accepted once within its lifetime; the keys of all tables stay
  unique and every imported finding has its row; a payload keeps its evidence identifier
  and never returns to pending; an import is recorded once per finding and evidence digest; a completed pipeline
  run is not run again unless a late failure is written over it; the activation of the write-ahead
  log ends after at most 601 attempts.
\<close>

section \<open>Activation of the write-ahead log\<close>

lemma wal_from_bounded:
  assumes "\<And>i. clock (Suc i) + 50000 \<le> clock (Suc (Suc i))" and "clock 0 \<le> clock 1"
    and "deadline \<le> clock 0 + 50000 * int n" and "i \<le> n"
  shows "\<exists>k r. wal_from replies clock deadline i = Some (k, r) \<and> k \<le> Suc n"
  using assms(4)
proof (induction "n - i" arbitrary: i)
  case (0 i)
  have adv: "clock 0 + 50000 * int m \<le> clock (Suc m)" for m
  proof (induction m)
    case (Suc m)
    then show ?case using assms(1) [of m] by (simp add: algebra_simps)
  qed (use assms(2) in simp)
  from 0 have "i = n" by simp
  then have "deadline \<le> clock (Suc i)" using adv [of n] assms(3) by simp
  then show ?case using \<open>i = n\<close> by (subst wal_from.simps) (auto split: wal_reply.splits)
next
  case (Suc m i)
  then have "i < n" and "\<exists>k r. wal_from replies clock deadline (Suc i) = Some (k, r) \<and> k \<le> Suc n"
    by (auto intro!: Suc(1))
  then show ?case by (subst wal_from.simps) (auto split: wal_reply.splits)
qed

text \<open>
  Activating the write-ahead log ends: whatever the database replies, when every pause of the
  retry loop takes at least its 50 milliseconds of monotonic time, \<open>enable_sqlite_wal\<close> returns or raises
  after at most 601 attempts.
\<close>

theorem wal_activation_ends:
  assumes "\<And>i. clock (Suc i) + 50000 \<le> clock (Suc (Suc i))" and "clock 0 \<le> clock 1"
  shows "\<exists>k r. enable_sqlite_wal replies clock = Some (k, r) \<and> k \<le> 601"
  using wal_from_bounded [OF assms, of "clock 0 + seconds 30" 600 0]
  by (simp add: enable_sqlite_wal_def seconds_def)

theorem wal_activation_ends_witness:
  "\<exists>k r. enable_sqlite_wal (\<lambda>i. if i < 2 then WalError (Some 261) else WalMode (Some ''WAL''))
     (\<lambda>i. 50000 * int i) = Some (k, r) \<and> k \<le> 601"
  by (rule wal_activation_ends) simp_all

section \<open>Nonces\<close>

definition nonce_guarded :: "state_db \<Rightarrow> string \<Rightarrow> int \<Rightarrow> bool" where
  "nonce_guarded db nonce t = list_ex (\<lambda>r. nc_nonce r = nonce \<and> t < nc_expires r) (st_nonces db)"

interpretation ng: replay_guard reserve_nonce nonce_guarded "\<lambda>ttl now t. t < now + seconds ttl"
proof
  fix db k ttl now t k'
  show "nonce_guarded db k now \<Longrightarrow> \<not> fst (reserve_nonce k ttl now db)"
    by (auto simp: reserve_nonce_def nonce_guarded_def list_ex_iff Let_def not_le)
  show "fst (reserve_nonce k ttl now db) \<Longrightarrow> t < now + seconds ttl \<Longrightarrow>
      nonce_guarded (snd (reserve_nonce k ttl now db)) k t"
    by (auto simp: reserve_nonce_def nonce_guarded_def Let_def split: if_splits)
  assume "nonce_guarded db k t" "nonce_guarded db k now"
  then obtain a b where "a \<in> set (st_nonces db)" "nc_nonce a = k" "t < nc_expires a"
    "b \<in> set (st_nonces db)" "nc_nonce b = k" "now < nc_expires b"
    by (auto simp: nonce_guarded_def list_ex_iff)
  then have "\<exists>r \<in> set (st_nonces db). nc_nonce r = k \<and> t < nc_expires r \<and> now < nc_expires r"
    by (metis order.strict_trans linorder_not_less order_le_less_trans)
  then show "nonce_guarded (snd (reserve_nonce k' ttl now db)) k t"
    by (auto simp: reserve_nonce_def nonce_guarded_def list_ex_iff Let_def not_le)
qed

text \<open>
  C20. A nonce is accepted once: after \<open>reserve_nonce\<close> accepted a nonce, no reservation of the same nonce is
  accepted by any sequence of calls made before its lifetime ends, in whatever order their clocks are read.
\<close>

theorem nonce_accepted_once:
  assumes "fst (reserve_nonce nonce ttl now db)"
    and "\<forall>(n, l, t) \<in> set rs. t < now + seconds ttl"
  shows "(nonce, True) \<notin> set (run_reservations reserve_nonce rs (snd (reserve_nonce nonce ttl now db)))"
  using assms by (rule ng.granted_once)

theorem nonce_accepted_once_witness:
  "(''n1'', True) \<notin> set (run_reservations reserve_nonce [(''n2'', 5, 400), (''n1'', 300, 500)]
     (snd (reserve_nonce ''n1'' 300 100 empty_state)))"
  by (rule nonce_accepted_once) (simp_all add: reserve_nonce_def empty_state_def seconds_def)

section \<open>Sequences of calls\<close>

datatype state_op =
    ReserveNonce string int int
  | BeginPayload string string int
  | CommitPayload string string
  | RememberPayload string string int
  | ClaimRun string int int
  | CompleteRun string string string string string int
  | FailRun string string int
  | RememberRun string string string string string int
  | UpsertFinding "(string \<times> json) list" int
  | RecordImport "(string \<times> json) list" json int
  | MarkDelivered string int

fun run_state_op :: "state_op \<Rightarrow> state_db \<Rightarrow> state_db" where
  "run_state_op (ReserveNonce n ttl now) = (\<lambda>db. snd (reserve_nonce n ttl now db))"
| "run_state_op (BeginPayload h e now) = (\<lambda>db. snd (begin_payload h e now db))"
| "run_state_op (CommitPayload h e) = (\<lambda>db. snd (commit_payload h e db))"
| "run_state_op (RememberPayload h e now) = (\<lambda>db. snd (remember_payload h e now db))"
| "run_state_op (ClaimRun h now l) = (\<lambda>db. snd (claim_pipeline_run h now l db))"
| "run_state_op (CompleteRun h a b c d now) = complete_pipeline_run h a b c d now"
| "run_state_op (FailRun h err now) = fail_pipeline_run h err now"
| "run_state_op (RememberRun h a b c d now) = remember_pipeline_run h a b c d now"
| "run_state_op (UpsertFinding f now) = (\<lambda>db. snd (upsert_external_finding f now db))"
| "run_state_op (RecordImport f h now) = (\<lambda>db. snd (record_external_finding_import f h now db))"
| "run_state_op (MarkDelivered e now) = (\<lambda>db. snd (mark_audit_delivered e now db))"

definition run_state_ops :: "state_op list \<Rightarrow> state_db \<Rightarrow> state_db" where
  "run_state_ops ops db = fold run_state_op ops db"

lemma run_state_ops_simps [simp]:
  "run_state_ops [] db = db" "run_state_ops (x # ops) db = run_state_ops ops (run_state_op x db)"
  by (simp_all add: run_state_ops_def)

lemma run_state_ops_keeps:
  assumes "P db" and "\<And>x db. x \<in> set ops \<Longrightarrow> P db \<Longrightarrow> P (run_state_op x db)"
  shows "P (run_state_ops ops db)"
  using assms by (induction ops arbitrary: db) auto

text \<open>What each call may change.\<close>

lemma bound_finding_id:
  "bound_finding f now h = Inr row \<Longrightarrow> sql_text (dict_get ''finding_id'' f) = Inr (xf_id row)"
  by (auto simp: bound_finding_def outcome_simps)

lemma import_cases:
  obtains (same) "run_state_op (RecordImport f h now) db = db"
  | (change) row action where "find_import (xf_id row) (py_str h) db = None"
      "run_state_op (RecordImport f h now) db = db\<lparr>
         st_findings := (if find_external (xf_id row) db = None then st_findings db @ [row]
           else update_where (\<lambda>r. xf_id r = xf_id row) (reassessed row) (st_findings db)),
         st_events := st_events db @ [import_event f (xf_id row) (py_str h) action now]\<rparr>"
      "\<forall>(cols, clash) \<in> set event_keys. \<forall>x \<in> set (st_events db).
         \<not> clash (import_event f (xf_id row) (py_str h) action now) x"
proof -
  note defs = record_external_finding_import_def import_change_def outcome_simps Let_def bound_finding_id
  show thesis
  proof (cases "run_state_op (RecordImport f h now) db = db")
    case False
    let ?hs = "py_str h"
    obtain fid where fid: "sql_text (dict_get ''finding_id'' f) = Inr fid"
      using False by (cases "sql_text (dict_get ''finding_id'' f)")
        (auto simp: defs transact_def split: sum.splits)
    obtain db' action where ic: "import_change f fid ?hs now db = Inr (db', action)" and db': "run_state_op (RecordImport f h now) db = db'"
      using False fid by (cases "import_change f fid ?hs now db")
        (auto simp: record_external_finding_import_def outcome_bind_def transact_def ensure_def split: sum.splits)
    then have "db' \<noteq> db" using False by simp
    with ic have none: "find_import fid ?hs db = None"
      by (cases "find_import fid ?hs db") (simp_all add: import_change_def)
    with ic obtain row where row: "bound_finding f now (Some ?hs) = Inr row"
      by (auto simp: import_change_def outcome_simps)
    then have id: "xf_id row = fid" using bound_finding_id [OF row] fid by simp
    show thesis
      by (rule change [of row action])
        (use ic none row in \<open>auto simp: import_change_def outcome_simps Let_def id db' [simplified] split: if_splits\<close>)
  qed (rule same)
qed

lemma upsert_cases:
  obtains (same) "run_state_op (UpsertFinding f now) db = db"
  | (new) row where "find_external (xf_id row) db = None"
      "run_state_op (UpsertFinding f now) db = db\<lparr>st_findings := st_findings db @ [row]\<rparr>"
  | (old) row where "run_state_op (UpsertFinding f now) db = db\<lparr>st_findings := update_where
        (\<lambda>r. xf_id r = xf_id row) (\<lambda>r. (reassessed row r)\<lparr>xf_last_hash := xf_last_hash r\<rparr>) (st_findings db)\<rparr>"
proof (cases "check_external f")
  case (Inr u)
  show thesis
  proof (cases "bound_finding f now None")
    case (Inr row)
    with \<open>check_external f = Inr u\<close> show thesis
      by (cases "find_external (xf_id row) db")
        (auto simp: upsert_external_finding_def intro: new old)
  qed (use Inr same in \<open>simp add: upsert_external_finding_def\<close>)
qed (use same in \<open>simp add: upsert_external_finding_def\<close>)

section \<open>Consistency of the tables\<close>

definition state_ok :: "state_db \<Rightarrow> bool" where
  "state_ok db = (distinct (map nc_nonce (st_nonces db)) \<and> distinct (map pl_hash (st_payloads db))
     \<and> distinct (map pr_hash (st_runs db)) \<and> distinct (map xf_id (st_findings db))
     \<and> distinct (map xe_id (st_events db)) \<and> distinct (map (\<lambda>e. (xe_finding e, xe_hash e)) (st_events db))
     \<and> xe_finding ` set (st_events db) \<subseteq> xf_id ` set (st_findings db))"

lemma reassessed_id [simp]: "xf_id (reassessed new old) = xf_id new"
  by (simp add: reassessed_def)

lemma distinct_update_key:
  assumes "\<And>r. P r \<Longrightarrow> key (f r) = key r"
  shows "map key (update_where P f t) = map key t"
  using assms by (simp add: update_where_def)

lemma set_keys_update:
  assumes "\<And>r. P r \<Longrightarrow> key (f r) = key r"
  shows "key ` set (update_where P f t) = key ` set t"
  using distinct_update_key [of P key f t, OF assms] by (metis set_map)

lemma import_event_columns [simp]:
  "xe_finding (import_event f fid h a now) = fid" "xe_hash (import_event f fid h a now) = h"
  "xe_delivered (import_event f fid h a now) = None"
  by (simp_all add: import_event_def Let_def)

lemma find_external_None: "find_external fid db = None \<longleftrightarrow> fid \<notin> xf_id ` set (st_findings db)"
  by (auto simp: find_external_def find_None_mem)

lemma state_ok_op: "state_ok db \<Longrightarrow> state_ok (run_state_op x db)"
proof (cases x)
  case (RecordImport f h now)
  assume ok: "state_ok db"
  show ?thesis
  proof (cases rule: import_cases [of f h now db])
    case (change row action)
    then show ?thesis using ok
      by (cases "xf_id row \<in> xf_id ` set (st_findings db)")
        (auto simp: RecordImport state_ok_def distinct_update_key set_keys_update find_external_None event_keys_def)
  qed (use ok RecordImport in simp)
next
  case (UpsertFinding f now)
  assume ok: "state_ok db"
  show ?thesis
    by (cases rule: upsert_cases [of f now db])
      (use ok UpsertFinding in \<open>auto simp: state_ok_def distinct_update_key set_keys_update find_external_None\<close>)
next
  case (ReserveNonce n ttl now)
  assume "state_ok db"
  then show ?thesis
    by (auto simp: ReserveNonce state_ok_def reserve_nonce_def Let_def list_ex_iff distinct_map_filter)
qed (auto simp: state_ok_def begin_payload_def add_payload_def remember_payload_def commit_payload_def
    claim_pipeline_run_def set_run_def complete_pipeline_run_def fail_pipeline_run_def remember_pipeline_run_def
    mark_audit_delivered_def get_pipeline_run_def new_run_def find_None_mem list_ex_iff Let_def distinct_update_key
    set_keys_update split: option.splits if_splits)

text \<open>
  C21. The tables of the state store are well formed after any calls: no nonce, payload hash, input hash,
  finding or audit event occurs twice, at most one audit event exists for a finding and an
  evidence digest, and every audit event belongs to a stored finding.
\<close>

theorem state_store_well_formed: "state_ok (run_state_ops ops empty_state)"
  by (rule run_state_ops_keeps) (auto simp: state_ok_op, simp add: state_ok_def empty_state_def)

section \<open>Payload identities\<close>

definition payload_is :: "string \<Rightarrow> string \<Rightarrow> bool \<Rightarrow> state_db \<Rightarrow> bool" where
  "payload_is h evidence committed db = (\<exists>r \<in> set (st_payloads db). pl_hash r = h \<and> pl_evidence r = evidence
     \<and> (committed \<longrightarrow> pl_status r = PayloadCommitted))"

lemma run_op_payloads:
  "st_payloads (run_state_op x db) = st_payloads db
   \<or> (\<exists>r. st_payloads (run_state_op x db) = st_payloads db @ [r])
   \<or> (\<exists>hit. st_payloads (run_state_op x db) =
        update_where hit (\<lambda>r. r\<lparr>pl_status := PayloadCommitted\<rparr>) (st_payloads db))"
proof (cases x)
  case (RecordImport f h now)
  then show ?thesis by (cases rule: import_cases [of f h now db]) auto
next
  case (UpsertFinding f now)
  then show ?thesis by (cases rule: upsert_cases [of f now db]) auto
qed (auto simp: reserve_nonce_def begin_payload_def add_payload_def remember_payload_def commit_payload_def
    claim_pipeline_run_def set_run_def complete_pipeline_run_def fail_pipeline_run_def remember_pipeline_run_def
    mark_audit_delivered_def Let_def split: option.splits)

lemma payload_is_op:
  assumes "payload_is h e c db"
  shows "payload_is h e c (run_state_op x db)"
proof -
  obtain r where r: "r \<in> set (st_payloads db)" "pl_hash r = h" "pl_evidence r = e"
    "c \<longrightarrow> pl_status r = PayloadCommitted" using assms by (auto simp: payload_is_def)
  let ?f = "\<lambda>hit r. if hit r then r\<lparr>pl_status := PayloadCommitted\<rparr> else r"
  from run_op_payloads [of x db] show ?thesis
  proof (elim disjE exE)
    fix hit assume "st_payloads (run_state_op x db) =
      update_where hit (\<lambda>r. r\<lparr>pl_status := PayloadCommitted\<rparr>) (st_payloads db)"
    then have "?f hit r \<in> set (st_payloads (run_state_op x db))" using r(1) by (auto simp: update_where_def)
    with r show ?thesis unfolding payload_is_def by (intro bexI [of _ "?f hit r"]) auto
  qed (use r in \<open>auto simp: payload_is_def\<close>)
qed

lemma payload_found:
  assumes "state_ok db" and "payload_is h e c db"
  obtains r where "r \<in> set (st_payloads db)" "find_payload h (st_payloads db) = Some r" "pl_hash r = h"
    "pl_evidence r = e" "c \<longrightarrow> pl_status r = PayloadCommitted"
proof -
  obtain r where r: "r \<in> set (st_payloads db)" "pl_hash r = h" "pl_evidence r = e"
    "c \<longrightarrow> pl_status r = PayloadCommitted" using assms(2) by (auto simp: payload_is_def)
  then have "find_payload h (st_payloads db) = Some r"
    using assms(1) find_key [of pl_hash "st_payloads db" r] by (simp add: find_payload_def state_ok_def)
  with r that show thesis by blast
qed

lemma begun_payload:
  "begin_payload h e now db = (Inr b, db1) \<Longrightarrow> db1 = run_state_op (BeginPayload h e now) db \<and> payload_is h e False db1"
  by (auto simp: begin_payload_def payload_is_def find_payload_def split: prod.splits if_splits dest!: find_Some_mem)

lemma commit_marks:
  assumes "payload_is h e False db"
  shows "payload_is h e True (snd (commit_payload h e db))"
proof -
  obtain r where r: "r \<in> set (st_payloads db)" "pl_hash r = h" "pl_evidence r = e"
    using assms by (auto simp: payload_is_def)
  then have "r\<lparr>pl_status := PayloadCommitted\<rparr> \<in> set (st_payloads (snd (commit_payload h e db)))"
    by (auto simp: commit_payload_def Let_def update_where_def image_iff intro!: bexI [of _ r])
  with r show ?thesis unfolding payload_is_def by (intro bexI) auto
qed

text \<open>
  A payload keeps its identity: once \<open>begin_payload\<close> accepted a payload hash under an evidence
  identifier, it is refused under any other identifier after any further calls; committing it succeeds, and
  from then on the hash resolves to that identifier, whatever is called.
\<close>

theorem payload_identity_is_kept:
  assumes "state_ok db" and "begin_payload h e now db = (Inr b, db1)"
  shows "(e' = e \<or> fst (begin_payload h e' now' (run_state_ops ops db1)) = Inl (IntegrityError ''payload identity mismatch''))
    \<and> fst (commit_payload h e (run_state_ops ops db1))
    \<and> get_evidence_id h (run_state_ops ops' (snd (commit_payload h e (run_state_ops ops db1)))) = Some e"
proof (intro conjI)
  let ?db2 = "run_state_ops ops db1"
  have "state_ok db1 \<and> payload_is h e False db1"
    using begun_payload [OF assms(2)] state_ok_op [OF assms(1)] by metis
  then have db2: "state_ok ?db2 \<and> payload_is h e False ?db2"
    by (rule run_state_ops_keeps) (simp add: state_ok_op payload_is_op)
  then obtain r where r: "r \<in> set (st_payloads ?db2)" "find_payload h (st_payloads ?db2) = Some r"
    "pl_hash r = h" "pl_evidence r = e" using payload_found by metis
  then show "e' = e \<or> fst (begin_payload h e' now' ?db2) = Inl (IntegrityError ''payload identity mismatch'')"
    by (auto simp: begin_payload_def add_payload_def list_ex_iff)
  show "fst (commit_payload h e ?db2)"
    using db2 r rowcount_key [of pl_hash "st_payloads ?db2" h "\<lambda>x. pl_evidence x = e"]
    by (auto simp: commit_payload_def state_ok_def Let_def)
  let ?db3 = "snd (commit_payload h e ?db2)"
  have "state_ok ?db3 \<and> payload_is h e True ?db3"
    using db2 state_ok_op [of ?db2 "CommitPayload h e"] commit_marks by simp
  then have "state_ok (run_state_ops ops' ?db3) \<and> payload_is h e True (run_state_ops ops' ?db3)"
    by (rule run_state_ops_keeps) (simp add: state_ok_op payload_is_op)
  then obtain q where q: "q \<in> set (st_payloads (run_state_ops ops' ?db3))" "pl_hash q = h" "pl_evidence q = e"
    "pl_status q = PayloadCommitted" "state_ok (run_state_ops ops' ?db3)" using payload_found by metis
  show "get_evidence_id h (run_state_ops ops' ?db3) = Some e"
  proof (cases "List.find (\<lambda>r. pl_hash r = h \<and> pl_status r = PayloadCommitted) (st_payloads (run_state_ops ops' ?db3))")
    case (Some p)
    then have "p = q" using q key_unique [of pl_hash] by (auto simp: state_ok_def dest!: find_Some_mem)
    with Some q show ?thesis by (simp add: get_evidence_id_def)
  qed (use q in \<open>auto simp: find_None_mem\<close>)
qed

theorem payload_identity_is_kept_witness:
  "(''ev-2'' = ''ev-1'' \<or> fst (begin_payload ''ab'' ''ev-2'' 9 (run_state_ops [RememberPayload ''cd'' ''ev-2'' 8]
       (snd (begin_payload ''ab'' ''ev-1'' 7 empty_state)))) = Inl (IntegrityError ''payload identity mismatch''))
    \<and> fst (commit_payload ''ab'' ''ev-1'' (run_state_ops [RememberPayload ''cd'' ''ev-2'' 8]
       (snd (begin_payload ''ab'' ''ev-1'' 7 empty_state))))
    \<and> get_evidence_id ''ab'' (run_state_ops [] (snd (commit_payload ''ab'' ''ev-1''
       (run_state_ops [RememberPayload ''cd'' ''ev-2'' 8] (snd (begin_payload ''ab'' ''ev-1'' 7 empty_state)))))) = Some ''ev-1''"
  by (rule payload_identity_is_kept [where db = empty_state and now = 7 and b = True])
    (simp_all add: state_ok_def empty_state_def begin_payload_def add_payload_def find_payload_def)

section \<open>Pipeline runs\<close>

lemma get_run_update:
  "get_pipeline_run h (set_run h' f db) =
     (if h' = h then map_option (if True then f else id) (get_pipeline_run h db) else get_pipeline_run h db)"
  if "\<And>r. pr_hash (f r) = pr_hash r"
proof -
  have "List.find (\<lambda>r. pr_hash r = h) (update_where (\<lambda>r. pr_hash r = h') f t) =
     (if h' = h then map_option f (List.find (\<lambda>r. pr_hash r = h) t) else List.find (\<lambda>r. pr_hash r = h) t)" for t
    using that by (induction t) auto
  then show ?thesis by (simp add: get_pipeline_run_def set_run_def)
qed

lemma get_run_frame: "st_runs db' = st_runs db \<Longrightarrow> get_pipeline_run h db' = get_pipeline_run h db"
  by (simp add: get_pipeline_run_def)

lemma op_keeps_runs:
  assumes "\<And>h now l. x \<noteq> ClaimRun h now l" "\<And>h a b c d now. x \<noteq> CompleteRun h a b c d now"
    "\<And>h e now. x \<noteq> FailRun h e now" "\<And>h a b c d now. x \<noteq> RememberRun h a b c d now"
  shows "st_runs (run_state_op x db) = st_runs db"
proof (cases x)
  case (RecordImport f h now)
  then show ?thesis by (cases rule: import_cases [of f h now db]) auto
next
  case (UpsertFinding f now)
  then show ?thesis by (cases rule: upsert_cases [of f now db]) auto
qed (use assms in \<open>auto simp: reserve_nonce_def begin_payload_def add_payload_def remember_payload_def
    commit_payload_def mark_audit_delivered_def Let_def\<close>)

definition run_completed :: "string \<Rightarrow> state_db \<Rightarrow> bool" where
  "run_completed h db = (map_option pr_status (get_pipeline_run h db) = Some RunCompleted)"

fun fails_run :: "string \<Rightarrow> state_op \<Rightarrow> bool" where
  "fails_run h (FailRun h' e now) = (h' = h)"
| "fails_run h _ = False"

lemma completed_frame: "st_runs db' = st_runs db \<Longrightarrow> run_completed h db' = run_completed h db"
  by (simp add: run_completed_def get_pipeline_run_def)

lemma completed_op:
  assumes "run_completed h db" and "\<not> fails_run h x"
  shows "run_completed h (run_state_op x db)"
proof (cases x)
  case (ClaimRun h' now l)
  show ?thesis
  proof (cases "get_pipeline_run h' db")
    case None
    then show ?thesis using assms(1)
      by (auto simp: ClaimRun run_completed_def claim_pipeline_run_def get_pipeline_run_def find_append)
  next
    case (Some r)
    then show ?thesis using assms(1)
      by (auto simp: ClaimRun run_completed_def claim_pipeline_run_def get_run_update Let_def)
  qed
next
  case (RememberRun h' a b c d now)
  then show ?thesis using assms(1)
    by (auto simp: run_completed_def remember_pipeline_run_def get_pipeline_run_def find_append)
next
  case (CompleteRun h' a b c d now)
  then show ?thesis using assms(1) by (auto simp: run_completed_def complete_pipeline_run_def get_run_update)
next
  case (FailRun h' err now)
  then show ?thesis using assms by (auto simp: run_completed_def fail_pipeline_run_def get_run_update)
qed (rule completed_frame [THEN iffD2, OF op_keeps_runs assms(1)]; simp)+

text \<open>
  A completed pipeline run is not run again: once the run of an input is completed, and while no failure is
  recorded for it, every claim of the same input is refused and changes nothing, whatever other calls are made.
\<close>

theorem completed_runs_are_not_rerun:
  assumes "map_option pr_status (get_pipeline_run h db) = Some RunCompleted" and "\<forall>x \<in> set ops. \<not> fails_run h x"
  shows "claim_pipeline_run h now lease_seconds (run_state_ops ops db) = (False, run_state_ops ops db)"
proof -
  have "run_completed h (run_state_ops ops db)"
    by (rule run_state_ops_keeps) (use assms completed_op in \<open>auto simp: run_completed_def\<close>)
  then show ?thesis by (auto simp: run_completed_def claim_pipeline_run_def)
qed

theorem completed_runs_are_not_rerun_witness:
  "claim_pipeline_run ''in'' 2000 900 (run_state_ops [FailRun ''other'' ''boom'' 50, ClaimRun ''in'' 60 900]
     (complete_pipeline_run ''in'' ''hash'' ''r.json'' ''t.json'' ''p.json'' 40 (snd (claim_pipeline_run ''in'' 10 900 empty_state))))
   = (False, run_state_ops [FailRun ''other'' ''boom'' 50, ClaimRun ''in'' 60 900]
     (complete_pipeline_run ''in'' ''hash'' ''r.json'' ''t.json'' ''p.json'' 40 (snd (claim_pipeline_run ''in'' 10 900 empty_state))))"
  by (rule completed_runs_are_not_rerun)
    (simp_all add: claim_pipeline_run_def complete_pipeline_run_def get_pipeline_run_def set_run_def new_run_def
      empty_state_def)

text \<open>
  C22. A late failure reopens a completed run: \<open>fail_pipeline_run\<close> does not ask who holds the run. When the lease of
  a first worker ends, a second one claims and completes the run, and the first worker then reports its own failure, the
  completed run becomes failed and the same input can be claimed and processed again.
\<close>

theorem late_failure_reopens_run:
  assumes "get_pipeline_run h db = None" and "t0 + seconds l0 \<le> t1"
    and "db1 = snd (claim_pipeline_run h t0 l0 db)" and "db2 = snd (claim_pipeline_run h t1 l1 db1)"
    and "db3 = complete_pipeline_run h ledger remediation tickets report t2 db2"
  shows "fst (claim_pipeline_run h t0 l0 db) \<and> fst (claim_pipeline_run h t1 l1 db1)
    \<and> \<not> fst (claim_pipeline_run h t4 l4 db3)
    \<and> fst (claim_pipeline_run h t4 l4 (fail_pipeline_run h err t3 db3))"
proof -
  have "get_pipeline_run h db1 = Some (new_run h t0 (t0 + seconds l0))" and c0: "fst (claim_pipeline_run h t0 l0 db)"
    using assms(1) by (auto simp: assms(3) claim_pipeline_run_def get_pipeline_run_def find_append new_run_def)
  then have "pr_lease_until r \<le> t1 \<and> pr_status r = RunRunning" if "get_pipeline_run h db1 = Some r" for r
    using that assms(2) by (auto simp: new_run_def)
  then show ?thesis using \<open>get_pipeline_run h db1 = _\<close> c0
    by (simp add: assms(4,5) claim_pipeline_run_def Let_def get_run_update complete_pipeline_run_def fail_pipeline_run_def)
qed

theorem late_failure_reopens_run_witness:
  "fst (claim_pipeline_run ''in'' 0 900 empty_state)
    \<and> fst (claim_pipeline_run ''in'' (seconds 900) 900 (snd (claim_pipeline_run ''in'' 0 900 empty_state)))
    \<and> \<not> fst (claim_pipeline_run ''in'' 5 900 (complete_pipeline_run ''in'' ''h'' ''r'' ''t'' ''p'' 3
        (snd (claim_pipeline_run ''in'' (seconds 900) 900 (snd (claim_pipeline_run ''in'' 0 900 empty_state))))))
    \<and> fst (claim_pipeline_run ''in'' 5 900 (fail_pipeline_run ''in'' ''late'' 4 (complete_pipeline_run ''in'' ''h'' ''r'' ''t'' ''p'' 3
        (snd (claim_pipeline_run ''in'' (seconds 900) 900 (snd (claim_pipeline_run ''in'' 0 900 empty_state)))))))"
  by (rule late_failure_reopens_run [OF _ _ refl refl refl]) (simp_all add: get_pipeline_run_def empty_state_def)

section \<open>Imports\<close>

definition imported :: "string \<Rightarrow> string \<Rightarrow> state_db \<Rightarrow> bool" where
  "imported fid h db = (\<exists>e \<in> set (st_events db). xe_finding e = fid \<and> xe_hash e = h)"

lemma imported_iff: "imported fid h db \<longleftrightarrow> find_import fid h db \<noteq> None"
  by (auto simp: imported_def find_import_def find_None_mem)

lemma op_keeps_events:
  "\<exists>f t. st_events (run_state_op x db) = map f (st_events db) @ t \<and> (\<forall>e. xe_id (f e) = xe_id e
     \<and> xe_finding (f e) = xe_finding e \<and> xe_hash (f e) = xe_hash e \<and> xe_type (f e) = xe_type e
     \<and> xe_details (f e) = xe_details e \<and> (xe_delivered e \<noteq> None \<longrightarrow> f e = e))"
proof -
  have same: ?thesis if "st_events (run_state_op x db) = st_events db"
    using that by (intro exI [of _ id] exI [of _ "[]"]) simp
  show ?thesis
  proof (cases x)
    case (RecordImport f h now)
    show ?thesis
    proof (cases rule: import_cases [of f h now db])
      case (change row action)
      then have "st_events (run_state_op x db) =
        map id (st_events db) @ [import_event f (xf_id row) (py_str h) action now]" using RecordImport by simp
      then show ?thesis by (metis id_apply)
    qed (use RecordImport same in simp)
  next
    case (UpsertFinding f now)
    show ?thesis
      by (rule same, cases rule: upsert_cases [of f now db]) (use UpsertFinding in auto)
  next
    case (MarkDelivered eid now)
    let ?g = "\<lambda>e. if xe_id e = eid
      then e\<lparr>xe_delivered := (case xe_delivered e of None \<Rightarrow> Some now | Some t \<Rightarrow> Some t)\<rparr> else e"
    have g: "xe_delivered e \<noteq> None \<longrightarrow> ?g e = e" for e by (auto split: option.splits)
    show ?thesis
    proof (cases "rowcount (\<lambda>e. xe_id e = eid) (st_events db) = 1")
      case True
      then show ?thesis using MarkDelivered g
        by (intro exI [of _ ?g] exI [of _ "[]"]) (auto simp: mark_audit_delivered_def update_where_def)
    qed (rule same, use MarkDelivered in \<open>simp add: mark_audit_delivered_def\<close>)
  qed (rule same; auto simp: reserve_nonce_def begin_payload_def add_payload_def remember_payload_def
      commit_payload_def claim_pipeline_run_def set_run_def complete_pipeline_run_def fail_pipeline_run_def
      remember_pipeline_run_def Let_def split: option.splits)+
qed

lemma imported_op: "imported fid h db \<Longrightarrow> imported fid h (run_state_op x db)"
  using op_keeps_events [of x db] by (fastforce simp: imported_def)

lemma import_run: "snd (record_external_finding_import f h now db) = run_state_op (RecordImport f h now) db"
  by simp

lemma import_succeeds:
  assumes "record_external_finding_import f (JStr h) now db = (Inr (action, ev), db1)"
  obtains fid db' where "sql_text (dict_get ''finding_id'' f) = Inr fid" "digest_ok (JStr h)"
    "import_change f fid h now db = Inr (db1, action)" "imported fid h db1"
    "Inr ev = undelivered_event (find_import fid h db1)"
proof -
  obtain fid where fid: "sql_text (dict_get ''finding_id'' f) = Inr fid" "digest_ok (JStr h)"
      "import_change f fid h now db = Inr (db1, action)" "Inr ev = undelivered_event (find_import fid h db1)"
    using assms by (auto simp: record_external_finding_import_def outcome_simps split: prod.splits sum.splits)
  moreover have "imported fid h db1"
    using fid(3) by (cases "find_import fid h db")
      (auto simp: import_change_def imported_iff outcome_simps find_import_def find_append Let_def split: if_splits option.splits)
  ultimately show thesis using that by blast
qed

lemma imported_again:
  assumes "state_ok db" "imported fid h db" "digest_ok (JStr h)"
    and "sql_text (dict_get ''finding_id'' f) = Inr fid" "check_external f = Inr ()"
  obtains e where "filter (\<lambda>e. xe_finding e = fid \<and> xe_hash e = h) (st_events db) = [e]" "find_import fid h db = Some e"
    "record_external_finding_import f (JStr h) now db =
      (outcome_bind (undelivered_event (Some e)) (\<lambda>ev. Inr (''replayed'', ev)), db)"
proof -
  obtain e where e: "e \<in> set (st_events db)" "xe_finding e = fid" "xe_hash e = h"
    using assms(2) by (auto simp: imported_def)
  then have "filter (\<lambda>e. xe_finding e = fid \<and> xe_hash e = h) (st_events db) = [e]"
    and "find_import fid h db = Some e"
    using assms(1) filter_key_distinct [OF _ e(1), of "\<lambda>e. (xe_finding e, xe_hash e)"]
      find_key [OF _ e(1), of "\<lambda>e. (xe_finding e, xe_hash e)"]
    by (simp_all add: state_ok_def find_import_def)
  then show thesis using assms(3-5)
    by (intro that [of e]) (auto simp: record_external_finding_import_def import_change_def outcome_bind_def)
qed

text \<open>
  An import is recorded once: after \<open>record_external_finding_import\<close> succeeded for a finding and an
  evidence digest, importing the same pair again, after any other calls and with any clock, changes no
  table, answers \<open>replayed\<close> with the one event recorded for the pair, and that event is handed out only while it is undelivered.
\<close>

theorem imports_are_recorded_once:
  assumes "state_ok db" and "record_external_finding_import f (JStr h) now db = (Inr (action, ev), db1)"
    and "sql_text (dict_get ''finding_id'' f) = Inr fid" and "sql_text (dict_get ''finding_id'' f') = Inr fid"
    and "check_external f' = Inr ()"
  shows "\<exists>e. filter (\<lambda>e. xe_finding e = fid \<and> xe_hash e = h) (st_events (run_state_ops ops db1)) = [e]
    \<and> record_external_finding_import f' (JStr h) now' (run_state_ops ops db1) =
      (outcome_bind (undelivered_event (Some e)) (\<lambda>ev. Inr (''replayed'', ev)), run_state_ops ops db1)"
proof -
  let ?db2 = "run_state_ops ops db1"
  obtain h_ok: "digest_ok (JStr h)" and "imported fid h db1"
    using assms(3) by (auto intro: import_succeeds [OF assms(2)])
  moreover have "state_ok db1"
    using state_ok_op [OF assms(1), of "RecordImport f (JStr h) now"] assms(2) by simp
  ultimately have "state_ok db1 \<and> imported fid h db1" by blast
  then have "state_ok ?db2 \<and> imported fid h ?db2"
    by (rule run_state_ops_keeps) (simp add: state_ok_op imported_op)
  then have ok: "state_ok ?db2" "imported fid h ?db2" by blast+
  show ?thesis by (rule imported_again [OF ok h_ok assms(4,5)]) blast
qed

definition demo_finding :: "(string \<times> json) list" where
  "demo_finding = [(''finding_id'', JStr ''SEC-IR-1''), (''source'', JStr ''lab''), (''control_id'', JStr ''SEC-END-001''),
     (''asset_id'', JStr ''host-1''), (''title'', JStr ''Malware''), (''risk_owner'', JStr ''soc''),
     (''severity'', JStr ''high''), (''details'', JObj [])]"

definition demo_digest :: string where
  "demo_digest = replicate 64 (CHR ''a'')"

lemma demo_import:
  "\<exists>ev. record_external_finding_import demo_finding (JStr demo_digest) 5 empty_state =
     (Inr (''created'', ev), snd (record_external_finding_import demo_finding (JStr demo_digest) 5 empty_state))"
proof -
  have "json_wf (JObj [(''control_id'', JStr ''SEC-END-001''), (''source'', JStr ''lab'')])" by simp
  from json_roundtrip [OF _ this, of compact_ascii] show ?thesis
    by (simp add: record_external_finding_import_def check_external_def demo_finding_def finding_fields_def obj_get_def
      dict_get_def severity_names_def digest_ok_def demo_digest_def is_hex_def import_change_def find_import_def
      empty_state_def bound_finding_def find_external_def insert_row_def event_keys_def undelivered_event_def import_event_def
      Let_def list_all_iff)
qed

theorem imports_are_recorded_once_witness:
  "\<exists>e. filter (\<lambda>e. xe_finding e = ''SEC-IR-1'' \<and> xe_hash e = demo_digest) (st_events (run_state_ops [MarkDelivered ''x'' 9]
        (snd (record_external_finding_import demo_finding (JStr demo_digest) 5 empty_state)))) = [e]
    \<and> record_external_finding_import demo_finding (JStr demo_digest) 10 (run_state_ops [MarkDelivered ''x'' 9]
        (snd (record_external_finding_import demo_finding (JStr demo_digest) 5 empty_state))) =
      (outcome_bind (undelivered_event (Some e)) (\<lambda>ev. Inr (''replayed'', ev)), run_state_ops [MarkDelivered ''x'' 9]
        (snd (record_external_finding_import demo_finding (JStr demo_digest) 5 empty_state)))"
proof -
  obtain ev where "record_external_finding_import demo_finding (JStr demo_digest) 5 empty_state =
     (Inr (''created'', ev), snd (record_external_finding_import demo_finding (JStr demo_digest) 5 empty_state))"
    using demo_import by blast
  then show ?thesis
    by (rule imports_are_recorded_once [rotated])
      (simp_all add: state_ok_def empty_state_def demo_finding_def dict_get_def obj_get_def check_external_def
        finding_fields_def severity_names_def)
qed

end
