(* ===== verification/Bridge_Properties.thy ===== *)
theory Bridge_Properties
  imports Bridges State_Properties
begin

text \<open>
  The bridges' promises: only bundles under a trusted manifest digest are read, a bundle that was imported and
  delivered is a replay ever after, and the JML bridge accounts for every request it reads.
\<close>

section \<open>Bundles\<close>

lemma checked_records_ok:
  "checked_records files ds = Inr rs \<Longrightarrow>
     map fst rs = map fst ds \<and> (\<forall>(name, digest) \<in> set ds. \<exists>b. files name = Some b \<and> sha256_hex b = digest \<and> (name, b) \<in> set rs)"
proof (induction ds arbitrary: rs)
  case (Cons d ds)
  then show ?case
    by (cases d) (fastforce simp: outcome_simps read_regular_bytes_def split: option.splits)
qed simp

lemma read_bundle_ok:
  assumes "read_bundle files expected = Inr (finding, alert, verification, hashes, digest)"
  obtains manifest lines declared where "files manifest_name = Some manifest" "expected = Some (sha256_hex manifest)"
    and "utf8_decode manifest = Some lines" "declared_digests [] (py_splitlines lines) = Inr declared" "hashes = sort declared"
    and "set required_records \<subseteq> fst ` set declared" "digest = sha256_hex manifest"
    and "\<forall>(name, d) \<in> set declared. \<exists>b. files name = Some b \<and> sha256_hex b = d"
proof -
  obtain records where "verified_bundle_records files expected = Inr (records, hashes, digest)"
    using assms by (auto simp: read_bundle_def outcome_simps)
  then obtain manifest lines declared where "files manifest_name = Some manifest" "expected = Some (sha256_hex manifest)"
      "utf8_decode manifest = Some lines" "declared_digests [] (py_splitlines lines) = Inr declared"
      "digest = sha256_hex manifest" "set required_records \<subseteq> fst ` set declared" "hashes = sort declared"
    and checked: "checked_records files declared = Inr records"
    unfolding verified_bundle_records_def by (auto simp: outcome_simps read_regular_bytes_def split: option.splits)
  then show thesis using checked_records_ok [OF checked] by (intro that [of manifest]) auto
qed

section \<open>A run in steps\<close>

definition bundle_finding :: "bundle_files \<Rightarrow> string option \<Rightarrow> bool \<Rightarrow> fields option outcome" where
  "bundle_finding files expected require_pass =
     outcome_bind (read_bundle files expected) (\<lambda>(finding, alert, verification, hashes, digest).
     outcome_bind (normalize_minisoar_incident finding alert verification require_pass) (\<lambda>f.
       Inr (map_option (\<lambda>f. with_bundle f hashes digest) f)))"

lemma bundle_run:
  assumes "bundle_finding files expected require_pass = Inr (Some f)"
  shows "run_minisoar_bridge (Inr u) (Inr w) files expected require_pass env now now' st =
    import_incident env now now' (new_result\<lparr>br_read := True\<rparr>) f st"
  using assms by (auto simp: run_minisoar_bridge_def bundle_finding_def outcome_simps Let_def split: prod.splits)

lemma fail_result_simps [simp]:
  "br_errors (fail_result r m e) = 1" "br_finding (fail_result r m e) = br_finding r" "br_read (fail_result r m e) = br_read r"
  "br_replayed (fail_result r m e) = br_replayed r" "br_created (fail_result r m e) = br_created r"
  "br_reassessed (fail_result r m e) = br_reassessed r"
  by (simp_all add: fail_result_def)

lemma new_result_simps [simp]:
  "br_errors new_result = 0" "br_finding new_result = None" "\<not> br_replayed new_result" "\<not> br_read new_result"
  "\<not> br_created new_result" "\<not> br_reassessed new_result"
  by (simp_all add: new_result_def)

lemma apply_action_ok:
  "apply_action r fid action = Inr r' \<Longrightarrow> r' = r\<lparr>br_finding := Some fid, br_created := br_created r \<or> action = ''created'',
     br_reassessed := br_reassessed r \<or> action = ''reassessed'', br_replayed := br_replayed r \<or> action = ''replayed''\<rparr>"
  by (simp add: apply_action_def split: if_splits)

lemma deliver_cases:
  assumes "deliver_audit env now r event st = (Inr r', st')"
  shows "r' = r \<and> mark_audit_delivered (xe_id (fst event)) now (fst st) = (Inr (), fst st')
    \<or> br_errors r' = 1 \<and> (\<exists>m e. r' = fail_result r m e) \<and> fst st' = fst st"
  using assms by (auto simp: deliver_audit_def mark_audit_delivered_def Let_def split: sum.splits prod.splits if_splits)

text \<open>What a run that reached the storage did.\<close>

lemma import_incident_ok:
  assumes "import_incident env now now' r f st = (Inr r', st')" "br_finding r = None" "br_finding r' \<noteq> None"
  obtains h action event db r1 where "evidence_hash f = Inr h"
    "record_external_finding_import f (JStr h) now (fst st) = (Inr (action, event), db)"
    "apply_action r (dict_get ''finding_id'' f) action = Inr r1"
    "event = None \<and> r' = r1 \<and> st' = (db, snd st) \<or>
       (\<exists>ev. event = Some ev \<and> deliver_audit env now' r1 ev (db, snd st) = (Inr r', st'))"
  using assms by (auto simp: import_incident_def Let_def split: sum.splits prod.splits option.splits if_splits)

lemma run_reaches_storage:
  assumes "run_minisoar_bridge root storage files expected require_pass env now now' st = (Inr r, st')" "br_finding r \<noteq> None"
  obtains f where "bundle_finding files expected require_pass = Inr (Some f)" "root = Inr ()" "storage = Inr ()"
    "import_incident env now now' (new_result\<lparr>br_read := True\<rparr>) f st = (Inr r, st')"
  using assms
  by (auto simp: run_minisoar_bridge_def bundle_finding_def outcome_simps Let_def split: sum.splits prod.splits option.splits if_splits)

lemma dict_get_put: "dict_get k (dict_put k' v kvs) = (if k = k' then v else dict_get k kvs)"
  by (induction kvs) (auto simp: dict_get_def obj_get_def)

lemma bundle_finding_id:
  assumes "bundle_finding files expected require_pass = Inr (Some f)"
  obtains fid where "dict_get ''finding_id'' f = JStr fid"
proof -
  obtain finding alert verification g hashes digest where
    g: "normalize_minisoar_incident finding alert verification require_pass = Inr (Some g)" "f = with_bundle g hashes digest"
    using assms by (auto simp: bundle_finding_def outcome_simps)
  then have "\<exists>fid. dict_get ''finding_id'' g = JStr fid"
    by (auto simp: normalize_minisoar_incident_def checked_incident_def incident_finding_def outcome_simps Let_def dict_get_def
        obj_get_def split: json.splits if_splits option.splits prod.splits)
  then show thesis using that g(2) by (auto simp: with_bundle_def dict_get_put)
qed

definition delivered :: "string \<Rightarrow> string \<Rightarrow> state_db \<Rightarrow> bool" where
  "delivered fid h db = (\<exists>e \<in> set (st_events db). xe_finding e = fid \<and> xe_hash e = h \<and> xe_delivered e \<noteq> None)"

lemma delivered_op: "delivered fid h db \<Longrightarrow> delivered fid h (run_state_op x db)"
  using op_keeps_events [of x db] by (fastforce simp: delivered_def)

lemma mark_delivers:
  assumes "find_import fid h db = Some e" "mark_audit_delivered (xe_id e) now db = (Inr (), db')"
  shows "delivered fid h db'" and "st_findings db' = st_findings db"
proof -
  let ?f = "\<lambda>e. e\<lparr>xe_delivered := (case xe_delivered e of None \<Rightarrow> Some now | Some t \<Rightarrow> Some t)\<rparr>"
  have e: "e \<in> set (st_events db)" "xe_finding e = fid" "xe_hash e = h"
    using assms(1) by (auto simp: find_import_def find_Some_iff)
  have db': "st_events db' = update_where (\<lambda>x. xe_id x = xe_id e) ?f (st_events db)"
    using assms(2) by (auto simp: mark_audit_delivered_def split: if_splits)
  have "?f e \<in> set (st_events db')" unfolding db' update_where_def using e(1) by (auto simp: image_iff)
  moreover have "xe_finding (?f e) = fid \<and> xe_hash (?f e) = h \<and> xe_delivered (?f e) \<noteq> None"
    using e by (auto split: option.splits)
  ultimately show "delivered fid h db'" unfolding delivered_def by blast
  show "st_findings db' = st_findings db" using assms(2) by (auto simp: mark_audit_delivered_def split: if_splits)
qed

text \<open>What is in the tables after a run that reached the storage.\<close>

lemma import_incident_state:
  assumes "import_incident env now now' r f st = (Inr r', st')" "br_finding r = None" "br_finding r' \<noteq> None" "state_ok (fst st)"
    and "dict_get ''finding_id'' f = JStr fid"
  obtains h where "evidence_hash f = Inr h" "imported fid h (fst st')" "state_ok (fst st')" "br_finding r' = Some (JStr fid)"
    "br_errors r' = 0 \<Longrightarrow> delivered fid h (fst st')" "digest_ok (JStr h)" "check_external f = Inr ()"
proof -
  obtain h action event db r1 where h: "evidence_hash f = Inr h"
    and rec: "record_external_finding_import f (JStr h) now (fst st) = (Inr (action, event), db)"
    and r1: "apply_action r (dict_get ''finding_id'' f) action = Inr r1"
    and rest: "event = None \<and> r' = r1 \<and> st' = (db, snd st) \<or>
       (\<exists>ev. event = Some ev \<and> deliver_audit env now' r1 ev (db, snd st) = (Inr r', st'))"
    by (rule import_incident_ok [OF assms(1-3)])
  have "sql_text (dict_get ''finding_id'' f) = Inr fid" using assms(5) by simp
  then have h_ok: "digest_ok (JStr h)" and imp: "imported fid h db" and ev: "Inr event = undelivered_event (find_import fid h db)"
    by (auto intro: import_succeeds [OF rec])
  have ok: "state_ok db" using state_ok_op [OF assms(4), of "RecordImport f (JStr h) now"] rec by simp
  have chk: "check_external f = Inr ()"
    using rec by (auto simp: record_external_finding_import_def outcome_simps split: sum.splits prod.splits)
  show thesis
    using rest
  proof (elim disjE exE conjE)
    assume "event = None" and out: "r' = r1" "st' = (db, snd st)"
    moreover obtain e where "find_import fid h db = Some e" using imp by (auto simp: imported_iff)
    moreover from this have "e \<in> set (st_events db) \<and> xe_finding e = fid \<and> xe_hash e = h"
      by (auto simp: find_import_def find_Some_iff)
    ultimately have "delivered fid h db"
      using ev by (auto simp: delivered_def undelivered_event_def split: if_splits option.splits)
    then show thesis using that h imp ok h_ok chk out r1 assms(5) by (auto dest!: apply_action_ok)
  next
    fix ev' assume "event = Some ev'" and del: "deliver_audit env now' r1 ev' (db, snd st) = (Inr r', st')"
    then have found: "find_import fid h db = Some (fst ev')"
      using ev by (auto simp: undelivered_event_def split: option.splits if_splits)
    have r1': "br_finding r1 = Some (JStr fid)" using r1 assms(5) by (auto dest!: apply_action_ok)
    from deliver_cases [OF del] show thesis
    proof (elim disjE exE conjE)
      assume "r' = r1" and mark: "mark_audit_delivered (xe_id (fst ev')) now' (fst (db, snd st)) = (Inr (), fst st')"
      moreover have "state_ok (fst st')" "imported fid h (fst st')"
        using state_ok_op [OF ok, of "MarkDelivered (xe_id (fst ev')) now'"]
          imported_op [OF imp, of "MarkDelivered (xe_id (fst ev')) now'"] mark by simp_all
      moreover have "delivered fid h (fst st')" using mark by (intro mark_delivers(1) [OF found]) simp
      ultimately show thesis using that h h_ok chk r1' by auto
    next
      fix m e assume "br_errors r' = 1" "r' = fail_result r1 m e" "fst st' = fst (db, snd st)"
      then show thesis using that h imp ok h_ok chk r1' by auto
    qed
  qed
qed

section \<open>Replays\<close>

text \<open>The event of an import can be handed out, unless it is delivered.\<close>

definition readable :: "string \<Rightarrow> string \<Rightarrow> state_db \<Rightarrow> bool" where
  "readable fid h db = (\<exists>e \<in> set (st_events db). xe_finding e = fid \<and> xe_hash e = h
     \<and> (xe_delivered e \<noteq> None \<or> json_loads (xe_details e) \<noteq> None))"

lemma readable_op: "readable fid h db \<Longrightarrow> readable fid h (run_state_op x db)"
proof -
  assume "readable fid h db"
  then obtain e where e: "e \<in> set (st_events db)" "xe_finding e = fid" "xe_hash e = h"
    "xe_delivered e \<noteq> None \<or> json_loads (xe_details e) \<noteq> None" by (auto simp: readable_def)
  obtain f t where f: "st_events (run_state_op x db) = map f (st_events db) @ t" "xe_finding (f e) = xe_finding e"
    "xe_hash (f e) = xe_hash e" "xe_details (f e) = xe_details e" "xe_delivered e \<noteq> None \<longrightarrow> f e = e"
    using op_keeps_events [of x db] by blast
  then show ?thesis using e unfolding readable_def by (intro bexI [of _ "f e"]) auto
qed

lemma import_incident_readable:
  assumes "record_external_finding_import f (JStr h) now db = (Inr (action, event), db1)"
    and "sql_text (dict_get ''finding_id'' f) = Inr fid"
  shows "readable fid h db1"
proof -
  have imp: "imported fid h db1" and ev: "Inr event = undelivered_event (find_import fid h db1)"
    using assms(2) by (auto intro: import_succeeds [OF assms(1)])
  obtain e where e: "find_import fid h db1 = Some e" using imp by (auto simp: imported_iff)
  then have "e \<in> set (st_events db1)" "xe_finding e = fid" "xe_hash e = h"
    by (auto simp: find_import_def find_Some_iff)
  with e ev show ?thesis
    by (auto simp: readable_def undelivered_event_def split: option.splits if_splits intro!: bexI [of _ e])
qed

lemma replay_delivered:
  assumes "find_import fid h (fst st) = Some e" "xe_delivered e \<noteq> None" "digest_ok (JStr h)" "evidence_hash f = Inr h"
    and "dict_get ''finding_id'' f = JStr fid" "check_external f = Inr ()" "\<not> br_created r" "\<not> br_reassessed r"
  shows "import_incident env now now' r f st = (Inr (r\<lparr>br_finding := Some (JStr fid), br_replayed := True\<rparr>), st)"
proof -
  have "record_external_finding_import f (JStr h) now (fst st) = (Inr (''replayed'', None), fst st)"
    using assms by (auto simp: record_external_finding_import_def import_change_def undelivered_event_def outcome_bind_def)
  moreover have "apply_action r (dict_get ''finding_id'' f) ''replayed'' = Inr (r\<lparr>br_finding := Some (JStr fid), br_replayed := True\<rparr>)"
    using assms(5,7,8) by (simp add: apply_action_def)
  ultimately show ?thesis using assms(4) by (simp add: import_incident_def Let_def)
qed

lemma replayed_incident:
  assumes "state_ok (fst st)" "imported fid h (fst st)" "readable fid h (fst st)" "digest_ok (JStr h)" "evidence_hash f = Inr h"
    and "dict_get ''finding_id'' f = JStr fid" "check_external f = Inr ()" "br_finding r = None" "\<not> br_created r" "\<not> br_reassessed r"
    and "import_incident env now now' r f st = (Inr r', st')"
  shows "br_replayed r' \<and> \<not> br_created r' \<and> \<not> br_reassessed r' \<and> br_finding r' = Some (JStr fid)
    \<and> st_findings (fst st') = st_findings (fst st) \<and> (br_errors r' = 0 \<longrightarrow> br_errors r = 0 \<longrightarrow> delivered fid h (fst st'))
    \<and> (delivered fid h (fst st) \<longrightarrow> br_errors r = 0 \<longrightarrow> br_errors r' = 0 \<and> st' = st)"
proof -
  have sql: "sql_text (dict_get ''finding_id'' f) = Inr fid" using assms(6) by simp
  obtain e where one: "filter (\<lambda>e. xe_finding e = fid \<and> xe_hash e = h) (st_events (fst st)) = [e]" "find_import fid h (fst st) = Some e"
    and again: "record_external_finding_import f (JStr h) now (fst st) =
      (outcome_bind (undelivered_event (Some e)) (\<lambda>ev. Inr (''replayed'', ev)), fst st)"
    by (rule imported_again [OF assms(1,2,4) sql assms(7)])
  have only: "x = e" if "x \<in> set (st_events (fst st))" "xe_finding x = fid" "xe_hash x = h" for x
  proof -
    have "x \<in> set (filter (\<lambda>e. xe_finding e = fid \<and> xe_hash e = h) (st_events (fst st)))" using that by simp
    then show ?thesis unfolding one(1) by simp
  qed
  have e: "e \<in> set (st_events (fst st))" "xe_finding e = fid" "xe_hash e = h"
    using one(2) by (auto simp: find_import_def find_Some_iff)
  let ?r = "r\<lparr>br_finding := Some (JStr fid), br_replayed := True\<rparr>"
  have act: "apply_action r (dict_get ''finding_id'' f) ''replayed'' = Inr ?r"
    using assms(6,9,10) by (simp add: apply_action_def)
  show ?thesis
  proof (cases "xe_delivered e")
    case (Some t)
    then have "import_incident env now now' r f st = (Inr ?r, st)"
      by (intro replay_delivered [OF one(2)] assms) simp
    then show ?thesis using assms(9-11) e Some by (auto simp: delivered_def)
  next
    case None
    then obtain v where v: "json_loads (xe_details e) = Some v" using assms(3) only by (force simp: readable_def)
    have "import_incident env now now' r f st = deliver_audit env now' ?r (e, v) st"
      using assms(5) again act None v by (cases st) (simp add: import_incident_def undelivered_event_def Let_def)
    then have del: "deliver_audit env now' ?r (e, v) st = (Inr r', st')" using assms(11) by simp
    have not: "\<not> delivered fid h (fst st)" using only None by (auto simp: delivered_def)
    from deliver_cases [OF del] show ?thesis
    proof (elim disjE exE conjE)
      assume "r' = ?r" and "mark_audit_delivered (xe_id (fst (e, v))) now' (fst st) = (Inr (), fst st')"
      then show ?thesis using mark_delivers [OF one(2), of now' "fst st'"] assms(9,10) not by simp
    next
      fix m x assume "br_errors r' = 1" "r' = fail_result ?r m x" "fst st' = fst st"
      then show ?thesis using assms(9,10) not by simp
    qed
  qed
qed

text \<open>
  Bundles are imported once, and an import survives a failed audit delivery: when \<open>run_minisoar_bridge\<close> has persisted the finding
  of a bundle, with or without delivering its audit event, a later run on the same bundle, after any
  other calls on the store, is a replay of the same finding that writes no finding. If the first run had no error, the later one has none and changes neither
  tables nor log; if the later one has no error, the event of the import is delivered.
\<close>

theorem bundles_are_imported_once:
  assumes "state_ok db" and "run_minisoar_bridge root storage files expected required env now now' (db, log) = (Inr r, (db1, log1))"
    and "br_finding r \<noteq> None"
    and "run_minisoar_bridge root storage files expected required env2 n n' (run_state_ops ops db1, log2) = (Inr r', (db2, log2'))"
  shows "br_replayed r' \<and> \<not> br_created r' \<and> \<not> br_reassessed r' \<and> br_finding r' = br_finding r
    \<and> st_findings db2 = st_findings (run_state_ops ops db1)
    \<and> (br_errors r = 0 \<longrightarrow> br_errors r' = 0 \<and> db2 = run_state_ops ops db1 \<and> log2' = log2)
    \<and> (\<exists>f h fid. bundle_finding files expected required = Inr (Some f) \<and> evidence_hash f = Inr h
         \<and> br_finding r = Some (JStr fid) \<and> (br_errors r' = 0 \<longrightarrow> delivered fid h db2))"
proof -
  obtain f where f: "bundle_finding files expected required = Inr (Some f)" and ok: "root = Inr ()" "storage = Inr ()"
    and run: "import_incident env now now' (new_result\<lparr>br_read := True\<rparr>) f (db, log) = (Inr r, (db1, log1))"
    by (rule run_reaches_storage [OF assms(2,3)])
  obtain fid where fid: "dict_get ''finding_id'' f = JStr fid" by (rule bundle_finding_id [OF f])
  have st: "state_ok (fst (db, log))" and fresh: "br_finding (new_result\<lparr>br_read := True\<rparr>) = None" using assms(1) by simp_all
  obtain h where h: "evidence_hash f = Inr h" "imported fid h db1" "state_ok db1" "br_finding r = Some (JStr fid)"
      "br_errors r = 0 \<Longrightarrow> delivered fid h db1" "digest_ok (JStr h)" "check_external f = Inr ()"
    using import_incident_state [OF run fresh assms(3) st fid] by (metis fst_conv)
  have read: "readable fid h db1"
  proof (rule import_incident_ok [OF run fresh assms(3)])
    fix h' action event db' r1
    assume "evidence_hash f = Inr h'" and rec: "record_external_finding_import f (JStr h') now (fst (db, log)) = (Inr (action, event), db')"
      and del: "event = None \<and> r = r1 \<and> (db1, log1) = (db', snd (db, log)) \<or>
        (\<exists>ev. event = Some ev \<and> deliver_audit env now' r1 ev (db', snd (db, log)) = (Inr r, (db1, log1)))"
    then have h': "h' = h" using h(1) by simp
    have rd: "readable fid h db'" using import_incident_readable [OF rec] fid h' by simp
    from del show ?thesis
    proof (elim disjE exE conjE)
      fix ev assume "deliver_audit env now' r1 ev (db', snd (db, log)) = (Inr r, (db1, log1))"
      from deliver_cases [OF this] show ?thesis
        using rd readable_op [OF rd, of "MarkDelivered (xe_id (fst ev)) now'"] by auto
    qed (use rd in simp)
  qed
  let ?db = "run_state_ops ops db1"
  have "state_ok db1 \<and> imported fid h db1 \<and> readable fid h db1" using h read by blast
  then have keep: "state_ok ?db \<and> imported fid h ?db \<and> readable fid h ?db"
    by (rule run_state_ops_keeps) (simp add: state_ok_op imported_op readable_op)
  have kept: "delivered fid h ?db" if "br_errors r = 0"
    using h(5) [OF that] by (rule run_state_ops_keeps) (rule delivered_op)
  have "import_incident env2 n n' (new_result\<lparr>br_read := True\<rparr>) f (?db, log2) = (Inr r', (db2, log2'))"
    using assms(4) bundle_run [OF f] ok by simp
  from replayed_incident [OF _ _ _ h(6,1) fid h(7) fresh _ _ this] keep
  have "br_replayed r' \<and> \<not> br_created r' \<and> \<not> br_reassessed r' \<and> br_finding r' = Some (JStr fid)
    \<and> st_findings db2 = st_findings ?db \<and> (br_errors r' = 0 \<longrightarrow> delivered fid h db2)
    \<and> (delivered fid h ?db \<longrightarrow> br_errors r' = 0 \<and> (db2, log2') = (?db, log2))" by simp
  then show ?thesis using f h(1,4) kept by simp
qed

text \<open>
  C27. Only trusted bundles are read: a run of \<open>run_minisoar_bridge\<close> that answers \<open>bundle_read\<close> had a manifest with the digest
  that the caller trusts, and every file the manifest declares, the three records among them, was
  present with the declared digest. A run that did not read the bundle reports an error and changes neither tables nor log.
\<close>

theorem only_trusted_bundles_are_read:
  assumes "run_minisoar_bridge root storage files expected required env now now' st = (Inr r, st')"
  shows "if br_read r
    then \<exists>manifest lines declared. files manifest_name = Some manifest \<and> expected = Some (sha256_hex manifest)
      \<and> utf8_decode manifest = Some lines \<and> declared_digests [] (py_splitlines lines) = Inr declared
      \<and> set required_records \<subseteq> fst ` set declared
      \<and> list_all (\<lambda>(name, d). case files name of None \<Rightarrow> False | Some b \<Rightarrow> sha256_hex b = d) declared
    else br_errors r = 1 \<and> st' = st"
proof (cases "br_read r")
  case True
  obtain x where x: "read_bundle files expected = Inr x"
    using assms True by (auto simp: run_minisoar_bridge_def split: sum.splits if_splits)
  obtain finding alert verification hashes digest where "x = (finding, alert, verification, hashes, digest)" by (cases x)
  note read = x [unfolded this]
  show ?thesis by (rule read_bundle_ok [OF read]) (use True in \<open>fastforce simp: list_all_iff\<close>)
next
  case False
  have keeps: "br_read r' = br_read q" if "import_incident env now now' q f s = (Inr r', s')" for q f s r' s'
    using that by (auto simp: import_incident_def deliver_audit_def Let_def split: sum.splits prod.splits option.splits if_splits
        dest!: apply_action_ok)
  have "br_errors r = 1 \<and> st' = st"
    using assms False by (auto simp: run_minisoar_bridge_def Let_def split: sum.splits prod.splits option.splits if_splits dest!: keeps)
  with False show ?thesis by simp
qed

section \<open>JML requests\<close>

lemma upsert_stores:
  assumes "upsert_external_finding f now db = (Inr created, db')" "dict_get ''finding_id'' f = JStr fid"
  shows "fid \<in> xf_id ` set (st_findings db')" and "xf_id ` set (st_findings db) \<subseteq> xf_id ` set (st_findings db')"
    and "created \<longleftrightarrow> fid \<notin> xf_id ` set (st_findings db)"
proof -
  obtain row where row: "bound_finding f now None = Inr row"
    and res: "(case find_external (xf_id row) db of
          Some _ \<Rightarrow> Inr (db\<lparr>st_findings := update_where (\<lambda>r. xf_id r = xf_id row)
                      (\<lambda>r. (reassessed row r)\<lparr>xf_last_hash := xf_last_hash r\<rparr>) (st_findings db)\<rparr>, False)
        | None \<Rightarrow> Inr (db\<lparr>st_findings := st_findings db @ [row]\<rparr>, True)) = (Inr (db', created) :: (state_db \<times> bool) outcome)"
    using assms(1) by (auto simp: upsert_external_finding_def outcome_simps)
  have id: "xf_id row = fid" using bound_finding_id [OF row] assms(2) by simp
  have ids: "xf_id ` set (update_where (\<lambda>r. xf_id r = fid) (\<lambda>r. (reassessed row r)\<lparr>xf_last_hash := xf_last_hash r\<rparr>) t) = xf_id ` set t" for t
    using id by (simp add: set_keys_update)
  have "fid \<in> xf_id ` set (st_findings db') \<and> xf_id ` set (st_findings db) \<subseteq> xf_id ` set (st_findings db')
      \<and> (created \<longleftrightarrow> fid \<notin> xf_id ` set (st_findings db))"
  proof (cases "find_external fid db")
    case None
    then show ?thesis using res id find_external_None [of fid db] by auto
  next
    case (Some x)
    then have "fid \<in> xf_id ` set (st_findings db)" using find_external_None [of fid db] by auto
    moreover have "st_findings db' = update_where (\<lambda>r. xf_id r = fid) (\<lambda>r. (reassessed row r)\<lparr>xf_last_hash := xf_last_hash r\<rparr>) (st_findings db)"
      "\<not> created" using res id Some by auto
    ultimately show ?thesis using ids by simp
  qed
  then show "fid \<in> xf_id ` set (st_findings db')" "xf_id ` set (st_findings db) \<subseteq> xf_id ` set (st_findings db')"
    "created \<longleftrightarrow> fid \<notin> xf_id ` set (st_findings db)" by simp_all
qed

lemma jml_finding_id:
  "normalize_jml_request request verification executor = Inr (Some f) \<Longrightarrow> \<exists>fid. dict_get ''finding_id'' f = JStr fid"
  by (auto simp: normalize_jml_request_def jml_checked_def outcome_simps jml_finding_def dict_get_def obj_get_def Let_def
      split: json.splits if_splits option.splits)

definition jml_counts :: "jml_result \<Rightarrow> state_db \<Rightarrow> bool" where
  "jml_counts r db = (jr_read r = jr_created r + jr_reassessed r + jr_skipped r + jr_errors r
     \<and> length (jr_findings r) = jr_created r + jr_reassessed r \<and> set (jr_findings r) \<subseteq> (\<lambda>x. JStr (xf_id x)) ` set (st_findings db))"

lemma store_request_counts:
  assumes "store_request env now f r (db, log) = (stop, r', (db', log'))" "jml_counts (r\<lparr>jr_read := n\<rparr>) db"
    and "dict_get ''finding_id'' f = JStr fid" "stop = None"
  shows "jr_read r' = jr_read r \<and> jr_reason r' = jr_reason r \<and> jml_counts (r'\<lparr>jr_read := Suc n\<rparr>) db'"
proof -
  obtain created where up: "upsert_external_finding f now db = (Inr created, db')" and r': "r' = count_finding f created r"
    using assms(1,4) by (auto simp: store_request_def Let_def split: prod.splits sum.splits)
  note facts = upsert_stores [OF up assms(3)]
  have "(\<lambda>x. JStr (xf_id x)) ` set (st_findings db) \<subseteq> (\<lambda>x. JStr (xf_id x)) ` set (st_findings db')"
    using facts(2) by (auto simp: image_iff)
  then show ?thesis using assms(2,3) facts(1) r' by (auto simp: jml_counts_def count_finding_def Let_def)
qed

lemma bridge_requests_counts:
  assumes "bridge_requests jd tick rows r (db, log) = (None, r', (db', log'))" "jml_counts r db"
  shows "jml_counts r' db' \<and> jr_read r' = jr_read r + length rows \<and> jr_reason r' = jr_reason r"
  using assms
proof (induction rows arbitrary: r db log)
  case (Cons request rows)
  let ?r = "r\<lparr>jr_read := Suc (jr_read r)\<rparr>"
  let ?n = "normalize_jml_request (JObj request) (latest_verification jd (dict_get ''request_id'' request))
    (latest_execution_actor jd (dict_get ''request_id'' request))"
  consider (failed) e where "?n = Inl e" "type_error e \<or> value_error e" | (skip) "?n = Inr None" | (found) f where "?n = Inr (Some f)"
    using Cons.prems(1) by (cases ?n) (auto simp: Let_def split: if_splits option.splits)
  then show ?case
  proof cases
    case failed
    then have "bridge_requests jd tick rows (?r\<lparr>jr_errors := Suc (jr_errors r)\<rparr>) (db, log) = (None, r', (db', log'))"
      using Cons.prems(1) by (simp add: Let_def)
    from Cons.IH [OF this] Cons.prems(2) show ?thesis by (simp add: jml_counts_def)
  next
    case skip
    then have "bridge_requests jd tick rows (?r\<lparr>jr_skipped := Suc (jr_skipped r)\<rparr>) (db, log) = (None, r', (db', log'))"
      using Cons.prems(1) by (simp add: Let_def)
    from Cons.IH [OF this] Cons.prems(2) show ?thesis by (simp add: jml_counts_def)
  next
    case found
    obtain fid where fid: "dict_get ''finding_id'' f = JStr fid" using jml_finding_id [OF found] by blast
    obtain q db2 log2 where st: "store_request (snd (tick (Suc (jr_read r)))) (fst (tick (Suc (jr_read r)))) f ?r (db, log) = (None, q, (db2, log2))"
      and rest: "bridge_requests jd tick rows q (db2, log2) = (None, r', (db', log'))"
      using Cons.prems(1) found by (auto simp: Let_def split: prod.splits option.splits)
    have "jml_counts (?r\<lparr>jr_read := jr_read r\<rparr>) db" using Cons.prems(2) by simp
    note counted = store_request_counts [OF st this fid refl]
    moreover have "q\<lparr>jr_read := Suc (jr_read r)\<rparr> = q" using counted by (cases q) simp
    ultimately have q: "jr_read q = Suc (jr_read r)" "jr_reason q = jr_reason r" "jml_counts q db2" by simp_all
    from Cons.IH [OF rest q(3)] q show ?thesis by simp
  qed
qed simp

text \<open>
  The JML bridge accounts for every request: when \<open>run_jml_bridge\<close> returns without a database error, every selected request was
  read, and each is counted once as created, reassessed, skipped or in error; one
  finding id is listed per created or reassessed finding, and every listed finding is in the store.
\<close>

theorem jml_bridge_accounts_for_requests:
  assumes "run_jml_bridge (Some jd) request_id tick st = (Inr r, st')" "jr_reason r = None"
  shows "jr_read r = length (selected_requests jd request_id)
    \<and> jr_read r = jr_created r + jr_reassessed r + jr_skipped r + jr_errors r
    \<and> length (jr_findings r) = jr_created r + jr_reassessed r
    \<and> set (jr_findings r) \<subseteq> (\<lambda>x. JStr (xf_id x)) ` set (st_findings (fst st'))"
proof -
  obtain db log db' log' where st: "st = (db, log)" "st' = (db', log')" by (cases st, cases st')
  have "bridge_requests jd tick (selected_requests jd request_id) new_jml_result (db, log) = (None, r, (db', log'))"
    using assms st by (auto simp: run_jml_bridge_def split: prod.splits option.splits if_splits)
  from bridge_requests_counts [OF this] show ?thesis using st by (simp add: jml_counts_def new_jml_result_def)
qed

lemma jml_upsert:
  assumes "normalize_jml_request request verification executor = Inr (Some f)"
  obtains fid control row where "dict_get ''finding_id'' f = JStr fid" "dict_get ''control_id'' f = JStr control"
    "dict_get ''source'' f = JStr ''jml_automation''" "xf_id row = fid"
    "upsert_external_finding f now db = (case find_external fid db of
       Some _ \<Rightarrow> (Inr False, db\<lparr>st_findings := update_where (\<lambda>r. xf_id r = fid)
         (\<lambda>r. (reassessed row r)\<lparr>xf_last_hash := xf_last_hash r\<rparr>) (st_findings db)\<rparr>)
     | None \<Rightarrow> (Inr True, db\<lparr>st_findings := st_findings db @ [row]\<rparr>))"
proof -
  obtain t control rid user dept manager employee old verifier ex where
    f: "f = jml_finding t control rid user dept manager employee old verifier ex"
    using assms by (auto simp: normalize_jml_request_def jml_checked_def outcome_simps Let_def
        split: json.splits if_splits option.splits)
  have get: "dict_get ''finding_id'' f = JStr (''SEC-IAM-'' @ removeprefix ''JML-'' rid)" "dict_get ''source'' f = JStr ''jml_automation''"
    "dict_get ''control_id'' f = JStr control" "dict_get ''asset_id'' f = JStr (''AD:'' @ user)"
    "dict_get ''title'' f = JStr (jml_title t user (py_str old) dept)" "dict_get ''risk_owner'' f = JStr manager"
    "dict_get ''severity'' f = JStr (if t = ''leaver'' then ''high'' else ''medium'')"
    unfolding f jml_finding_def dict_get_def obj_get_def by simp_all
  have "list_all (\<lambda>k. obj_get k f \<noteq> None) finding_fields"
    unfolding f jml_finding_def finding_fields_def obj_get_def by simp
  then have "check_external f = Inr ()"
    unfolding check_external_def get by (simp add: severity_names_def list_all_iff filter_empty_conv)
  moreover obtain row where row: "bound_finding f now None = Inr row"
    unfolding bound_finding_def get by simp
  moreover have "xf_id row = ''SEC-IAM-'' @ removeprefix ''JML-'' rid" using bound_finding_id [OF row] get(1) by simp
  ultimately show thesis
    using get by (intro that [of _ control row]) (auto simp: upsert_external_finding_def split: option.splits)
qed

lemma append_refused:
  assumes "verify_log (Some s) = Inr (False, m)" "py_strip s \<noteq> []"
  shows "append_log env etype a target details (Some s) =
    (Inl (ValueError (''Refusing to append to invalid audit log: '' @ m)), Some s)"
  using assms by (simp add: append_log_def append_unlocked_def last_log_hash_def log_blank_def require_valid_def)

lemma append_fresh:
  "\<exists>r log. append_log env etype (ActorText a) target (Some [(''control_id'', JStr c), (''source'', JStr s)]) None = (Inr r, log)"
  by (simp add: append_log_def append_unlocked_def last_log_hash_def log_blank_def canonical_json_def record_fields_def Let_def)

end
