(* ===== verification/Bridge_Audit.thy ===== *)
theory Bridge_Audit
  imports Bridge_Properties Audit_Log_Theorems
begin

text \<open>
  What the JML bridge writes to the audit log over sequences of runs. A run only appends, in terms of \<open>append_log\<close>; once a finding is in
  the store it stays there, and no append of a later run reports its creation. So a creation whose append failed is never audited.
\<close>

definition not_created :: "string \<Rightarrow> audit_call \<Rightarrow> bool" where
  "not_created fid c = (case c of (env, etype, a, target, details) \<Rightarrow>
     \<not> (etype = ''bridge.jml.finding.created'' \<and> target = fid))"

definition stored :: "string \<Rightarrow> state_db \<Rightarrow> bool" where
  "stored fid db = (fid \<in> xf_id ` set (st_findings db))"

lemma stored_found: "stored fid db \<longleftrightarrow> find_external fid db \<noteq> None"
  using find_external_None [of fid db] by (simp add: stored_def)

lemma run_appends_append: "run_appends (xs @ ys) log = run_appends ys (run_appends xs log)"
  by (induction xs log rule: run_appends.induct) simp_all

lemma upsert_keeps_stored:
  assumes "upsert_external_finding f now db = (res, db')" "dict_get ''finding_id'' f = JStr i" "stored fid db"
  shows "stored fid db'" and "res = Inr True \<Longrightarrow> i \<noteq> fid"
proof -
  have "stored fid db' \<and> (res = Inr True \<longrightarrow> i \<noteq> fid)"
  proof (cases res)
    case (Inl e)
    then have "db' = db" using assms(1) by (auto simp: upsert_external_finding_def transact_def split: sum.splits)
    then show ?thesis using assms(3) Inl by simp
  next
    case (Inr created)
    show ?thesis using upsert_stores [OF assms(1) [unfolded Inr] assms(2)] assms(3) Inr by (auto simp: stored_def)
  qed
  then show "stored fid db'" "res = Inr True \<Longrightarrow> i \<noteq> fid" by blast+
qed

lemma store_request_appends:
  assumes "store_request env now f r (db, log) = (stop, r', (db', log'))" "dict_get ''finding_id'' f = JStr i" "stored fid db"
  shows "stored fid db' \<and> (\<exists>calls. log' = run_appends calls log \<and> list_all (not_created fid) calls)"
proof -
  obtain res db2 where up: "upsert_external_finding f now db = (res, db2)" by fastforce
  note keep = upsert_keeps_stored [OF up assms(2,3)]
  show ?thesis
  proof (cases res)
    case (Inl e)
    then have "db' = db2" "log' = run_appends [] log" using assms(1) up by (simp_all add: store_request_def)
    then show ?thesis using keep(1) by (intro conjI exI [of _ "[]"]) simp_all
  next
    case (Inr created)
    let ?call = "(env, jml_event_type created, ActorText ''jml-bridge-connector'', i,
      Some [(''control_id'', dict_get ''control_id'' f), (''source'', dict_get ''source'' f)]) :: audit_call"
    have "db' = db2" "log' = run_appends [?call] log"
      using assms(1,2) up Inr by (auto simp: store_request_def Let_def split: sum.splits prod.splits)
    moreover have "not_created fid ?call" using keep(2) Inr by (simp add: not_created_def jml_event_type_def)
    ultimately show ?thesis using keep(1) by (intro conjI exI [of _ "[?call]"]) simp_all
  qed
qed

lemma bridge_requests_appends:
  assumes "bridge_requests jd tick rows r (db, log) = (stop, r', (db', log'))" "stored fid db"
  shows "stored fid db' \<and> (\<exists>calls. log' = run_appends calls log \<and> list_all (not_created fid) calls)"
  using assms
proof (induction rows arbitrary: r db log)
  case Nil
  then show ?case by (intro conjI exI [of _ "[]"]) simp_all
next
  case (Cons request rows)
  let ?r = "r\<lparr>jr_read := Suc (jr_read r)\<rparr>"
  let ?n = "normalize_jml_request (JObj request) (latest_verification jd (dict_get ''request_id'' request))
    (latest_execution_actor jd (dict_get ''request_id'' request))"
  consider (failed) e where "?n = Inl e" "type_error e \<or> value_error e" | (stop) e where "?n = Inl e" "\<not> (type_error e \<or> value_error e)"
    | (skip) "?n = Inr None" | (found) f where "?n = Inr (Some f)"
    by (cases ?n) auto
  then show ?case
  proof cases
    case failed
    then show ?thesis using Cons.IH [of "?r\<lparr>jr_errors := Suc (jr_errors r)\<rparr>"] Cons.prems by (simp add: Let_def)
  next
    case stop
    then show ?thesis using Cons.prems by (intro conjI exI [of _ "[]"]) (simp_all add: Let_def)
  next
    case skip
    then show ?thesis using Cons.IH [of "?r\<lparr>jr_skipped := Suc (jr_skipped r)\<rparr>"] Cons.prems by (simp add: Let_def)
  next
    case found
    obtain i where i: "dict_get ''finding_id'' f = JStr i" using jml_finding_id [OF found] by blast
    obtain s q db2 log2 where st: "store_request (snd (tick (Suc (jr_read r)))) (fst (tick (Suc (jr_read r)))) f ?r (db, log) = (s, q, (db2, log2))"
      by (metis prod.collapse)
    note one = store_request_appends [OF st i Cons.prems(2)]
    show ?thesis
    proof (cases s)
      case None
      then have "bridge_requests jd tick rows q (db2, log2) = (stop, r', (db', log'))"
        using Cons.prems(1) found st by (simp add: Let_def)
      from Cons.IH [OF this] one obtain xs ys where "stored fid db'" "log2 = run_appends xs log" "list_all (not_created fid) xs"
        "log' = run_appends ys log2" "list_all (not_created fid) ys" by blast
      then show ?thesis by (intro conjI exI [of _ "xs @ ys"]) (simp_all add: run_appends_append)
    next
      case (Some e)
      then have "db' = db2" "log' = log2" using Cons.prems(1) found st by (simp_all add: Let_def)
      then show ?thesis using one by blast
    qed
  qed
qed

lemma run_jml_appends:
  assumes "stored fid db"
  shows "stored fid (fst (snd (run_jml_bridge opened request_id tick (db, log))))
    \<and> (\<exists>calls. snd (snd (run_jml_bridge opened request_id tick (db, log))) = run_appends calls log \<and> list_all (not_created fid) calls)"
proof (cases opened)
  case None
  then show ?thesis using assms by (intro conjI exI [of _ "[]"]) (simp_all add: run_jml_bridge_def)
next
  case (Some jd)
  obtain stop r db' log' where run: "bridge_requests jd tick (selected_requests jd request_id) new_jml_result (db, log) = (stop, r, (db', log'))"
    by (metis prod.collapse)
  have "snd (run_jml_bridge opened request_id tick (db, log)) = (db', log')"
    by (simp add: run_jml_bridge_def Some run split: option.split)
  then show ?thesis using bridge_requests_appends [OF run assms] by simp
qed

section \<open>Sequences of runs\<close>

text \<open>A run with the log it finds; the log may have been repaired or replaced since the run before.\<close>

type_synonym jml_run = "jml_db option \<times> string option \<times> (nat \<Rightarrow> int \<times> audit_env) \<times> string option"

fun store_after :: "jml_run list \<Rightarrow> state_db \<Rightarrow> state_db" where
  "store_after [] db = db"
| "store_after ((opened, request_id, tick, log) # runs) db =
     store_after runs (fst (snd (run_jml_bridge opened request_id tick (db, log))))"

lemma store_after_stored: "stored fid db \<Longrightarrow> stored fid (store_after runs db)"
  by (induction runs db rule: store_after.induct) (simp_all add: run_jml_appends)

text \<open>
  C28. A failed append loses the creation event: when the first request that \<open>run_jml_bridge\<close> selects makes a new finding and the audit
  log refuses the append, the run raises with the finding committed and the log as it was. From then on, after any further runs over any
  requests, with the log repaired or replaced between them in any way, the finding is in the store, and a run appends to the log it finds
  only records that are not the creation of this finding. The next run over the same requests with a fresh log appends first a record of
  its reassessment.
\<close>

theorem failed_append_loses_creation:
  assumes "selected_requests jd request_id = request # requests"
    and "normalize_jml_request (JObj request) (latest_verification jd (dict_get ''request_id'' request))
      (latest_execution_actor jd (dict_get ''request_id'' request)) = Inr (Some f)"
    and "dict_get ''finding_id'' f = JStr fid" "find_external fid db = None"
    and "verify_log (Some broken) = Inr (False, m)" "py_strip broken \<noteq> []"
  shows "\<exists>db1. run_jml_bridge (Some jd) request_id tick (db, Some broken) =
        (Inl (ValueError (''Refusing to append to invalid audit log: '' @ m)), (db1, Some broken))
    \<and> find_external fid db1 \<noteq> None
    \<and> (\<forall>runs opened request_id' tick' log. find_external fid (store_after runs db1) \<noteq> None
        \<and> (\<exists>calls. snd (snd (run_jml_bridge opened request_id' tick' (store_after runs db1, log))) = run_appends calls log
             \<and> list_all (not_created fid) calls))
    \<and> (\<exists>details calls. snd (snd (run_jml_bridge (Some jd) request_id tick2 (db1, None))) =
          run_appends ((snd (tick2 (Suc 0)), ''bridge.jml.finding.reassessed'', ActorText ''jml-bridge-connector'', fid, Some details) # calls) None
        \<and> log_lines (snd (append_log (snd (tick2 (Suc 0))) ''bridge.jml.finding.reassessed''
            (ActorText ''jml-bridge-connector'') fid (Some details) None)) \<noteq> [])"
proof -
  let ?n = "\<lambda>t. fst (t (Suc 0))" and ?e = "\<lambda>t. snd (t (Suc 0))"
  obtain control row where get: "dict_get ''control_id'' f = JStr control" "dict_get ''source'' f = JStr ''jml_automation''"
    and up: "xf_id row = fid" "upsert_external_finding f (?n tick) db = (Inr True, db\<lparr>st_findings := st_findings db @ [row]\<rparr>)"
    by (rule jml_upsert [OF assms(2), of "?n tick" db]) (use assms(3,4) in auto)
  define db1 where "db1 = db\<lparr>st_findings := st_findings db @ [row]\<rparr>"
  have there: "stored fid db1" using up(1) by (simp add: db1_def stored_def)
  have first: "run_jml_bridge (Some jd) request_id tick (db, Some broken) =
      (Inl (ValueError (''Refusing to append to invalid audit log: '' @ m)), (db1, Some broken))"
    using assms(1,2) up(2)
    by (simp add: run_jml_bridge_def store_request_def append_refused [OF assms(5,6)] Let_def
        new_jml_result_def db1_def sqlite_error_def)
  have later: "find_external fid (store_after runs db1) \<noteq> None
      \<and> (\<exists>calls. snd (snd (run_jml_bridge opened request_id' tick' (store_after runs db1, log))) = run_appends calls log
           \<and> list_all (not_created fid) calls)" for runs opened request_id' tick' log
    using store_after_stored [OF there, of runs] run_jml_appends [of fid "store_after runs db1" opened request_id' tick' log]
    by (simp add: stored_found)
  obtain db2 where again: "upsert_external_finding f (?n tick2) db1 = (Inr False, db2)"
    by (rule jml_upsert [OF assms(2), of "?n tick2" db1]) (use assms(3) there in \<open>auto simp: stored_found\<close>)
  let ?d = "[(''control_id'', JStr control), (''source'', JStr ''jml_automation'')]"
  let ?call = "(?e tick2, ''bridge.jml.finding.reassessed'', ActorText ''jml-bridge-connector'', fid, Some ?d) :: audit_call"
  obtain rec log where log: "append_log (?e tick2) ''bridge.jml.finding.reassessed'' (ActorText ''jml-bridge-connector'') fid
      (Some ?d) None = (Inr rec, log)"
    using append_fresh by blast
  have lines: "log_lines log \<noteq> []"
    using append_sound(3) [of None, OF _ log [unfolded append_log_def]]
    by (auto simp: log_lines_def log_sound_def dest!: split_from_Nil simp: py_splitlines_def)
  let ?q = "count_finding f False (new_jml_result\<lparr>jr_read := Suc 0\<rparr>)"
  have step: "store_request (?e tick2) (?n tick2) f (new_jml_result\<lparr>jr_read := Suc 0\<rparr>) (db1, None) = (None, ?q, (db2, log))"
    using again log get assms(3) by (simp add: store_request_def Let_def jml_event_type_def)
  obtain stop r db3 log3 where rest: "bridge_requests jd tick2 requests ?q (db2, log) = (stop, r, (db3, log3))"
    by (metis prod.collapse)
  have "stored fid db2" using upsert_keeps_stored(1) [OF again assms(3) there] .
  then obtain calls where calls: "log3 = run_appends calls log" using bridge_requests_appends [OF rest] by blast
  have "snd (run_jml_bridge (Some jd) request_id tick2 (db1, None)) = (db3, log3)"
    using assms(1,2) step rest by (simp add: run_jml_bridge_def Let_def new_jml_result_def split: option.split)
  then have "snd (snd (run_jml_bridge (Some jd) request_id tick2 (db1, None))) = run_appends (?call # calls) None"
    using calls log by simp
  then show ?thesis
    using first there later lines log by (intro exI [of _ db1] exI [of _ ?d] exI [of _ calls] conjI) (simp_all add: stored_found)
qed

end
