(* ===== verification/Contract_Properties.thy ===== *)
theory Contract_Properties
  imports Mini_Soar Governance_Core
begin

text \<open>
  What the contracts promise: an accepted alert passes the input checks of the governance core unchanged and has
  an unambiguous identity, and normalised asset contexts and remediation tickets normalise to themselves.
\<close>

section \<open>Accepted fields\<close>

lemma dict_get_Cons: "dict_get k ((k', v) # kvs) = (if k = k' then v else dict_get k kvs)"
  by (simp add: dict_get_def obj_get_def)

lemma dict_get_Nil [simp]: "dict_get k [] = JNull"
  by (simp add: dict_get_def obj_get_def)

lemma contract_text_ok [outcome_simps]:
  "contract_text label kvs name m = Inr s \<longleftrightarrow> dict_get name kvs = JStr s \<and> is_canonical_text (JStr s) m"
  by (cases "dict_get name kvs") (auto simp: contract_text_def is_canonical_text_def Let_def)

lemma contract_identifier_ok [outcome_simps]:
  "contract_identifier label kvs name = Inr s \<longleftrightarrow> dict_get name kvs = JStr s \<and> is_identifier (JStr s)"
  by (auto simp: contract_identifier_def outcome_simps dest: identifier_canonical)

lemma contract_source_ok [outcome_simps]:
  "contract_source label kvs = Inr s \<longleftrightarrow> dict_get ''source'' kvs = JStr s \<and> is_source_identifier (JStr s)"
  by (auto simp: contract_source_def lowercase_source_def outcome_simps dest: source_is_identifier)

lemma contract_time_ok:
  "contract_time label kvs name = Inr (s, t) \<Longrightarrow> s = utc_text t \<and> 0 \<le> t \<and> t < time_end"
  by (auto simp: contract_time_def outcome_simps dest: parse_utc_range)

lemma canonical_required_text:
  assumes "is_canonical_text (JStr s) m" "m \<le> limit"
  shows "required_text s field limit = Inr s"
proof -
  have s: "s \<noteq> []" "\<not> py_isspace (hd s)" "\<not> py_isspace (last s)" "length s \<le> m"
    using assms(1) by (auto simp: canonical_text_iff edge_char_def)
  then have "py_strip s = s" by (simp add: py_strip_def py_lstrip_id py_rstrip_id)
  with s assms(2) show ?thesis by (simp add: required_text_def)
qed

lemma identifier_accepted: "is_identifier (JStr s) \<Longrightarrow> identifier_of s field = Inr s"
  by (auto simp: identifier_of_def max_identifier_length_def dest!: identifier_canonical intro: canonical_required_text)

lemma severity_accepted: "s \<in> set severities \<Longrightarrow> severity_of s = Inr s"
  by (auto simp: severity_of_def severities_def py_lower_def lower_char_def)

lemma hex_identifier: "is_hex c \<Longrightarrow> identifier_char (upper_char c)"
  by (auto simp: is_hex_def upper_char_def identifier_char_def ascii_alnum_def ascii_upper_def ascii_lower_def
      is_digit_def between_def Let_def)

lemma short_id_accepted:
  assumes "is_identifier (JStr prefix)" "length prefix \<le> 112"
  shows "is_identifier (JStr (short_id prefix s))"
proof -
  have "list_all identifier_char (py_upper (take 16 (text_hash s)))"
    by (auto simp: list_all_iff py_upper_def text_hash_def sha256_hex_digits hex_identifier dest!: in_set_takeD)
  moreover have "length (py_upper (take 16 (text_hash s))) \<le> 16" by (simp add: py_upper_def)
  ultimately show ?thesis using assms by (auto simp: identifier_iff short_id_def)
qed

section \<open>Alerts\<close>

lemma alert_fields_ok:
  "alert_fields kvs = Inr (source, event, asset, title, owner) \<Longrightarrow>
     is_source_identifier (JStr source) \<and> is_identifier (JStr event) \<and> is_identifier (JStr asset)
       \<and> is_canonical_text (JStr title) 512 \<and> is_identifier (JStr owner)"
  by (auto simp: alert_fields_def alert_text_def lowercase_source_def outcome_simps split: if_splits)

lemma alert_event_ok:
  "alert_event kvs = Inr (kind, severity, code, observed, refs, control) \<Longrightarrow>
     control_by_kind kind = Some control \<and> severity \<in> set severities"
  by (auto simp: alert_event_def alert_text_def member_of_def outcome_simps split: option.splits)

definition alert_finding ::
    "string \<Rightarrow> string \<Rightarrow> string \<Rightarrow> string \<Rightarrow> string \<Rightarrow> string \<Rightarrow> string \<Rightarrow> string \<Rightarrow> json \<Rightarrow> string \<Rightarrow> json \<Rightarrow> json \<Rightarrow> string list \<Rightarrow> fields" where
  "alert_finding source control asset title owner severity event kind code observed ip user refs =
     [(''finding_id'', JStr (short_id ''SEC-ALERT-'' (alert_identity source event asset kind))),
      (''domain'', JStr ''security''), (''source'', JStr source), (''control_id'', JStr control),
      (''asset_id'', JStr asset), (''title'', JStr title), (''risk_owner'', JStr owner), (''severity'', JStr severity),
      (''details'', JObj [(''schema_version'', JStr ''security_alert.v1''), (''source_event_id'', JStr event),
        (''observed_at'', JStr observed), (''kind'', JStr kind), (''event_code'', code), (''source_ip'', ip),
        (''target_user'', user), (''evidence_refs'', JList (map JStr refs))])]"

lemma accepted_alert:
  assumes "normalize_security_alert v = Inr r"
  obtains source control asset title owner severity event kind code observed ip user refs
  where "r = alert_finding source control asset title owner severity event kind code observed ip user refs"
    and "is_source_identifier (JStr source)" "is_identifier (JStr event)" "is_identifier (JStr asset)"
    and "is_canonical_text (JStr title) 512" "is_identifier (JStr owner)"
    and "control_by_kind kind = Some control" "severity \<in> set severities"
  using assms unfolding normalize_security_alert_def
  by (auto simp: outcome_simps alert_finding_def [symmetric] split: prod.splits dest!: alert_fields_ok alert_event_ok)

lemma control_of_kind:
  "control_by_kind kind = Some control \<Longrightarrow> is_identifier (JStr control) \<and> CHR ''|'' \<notin> set kind"
  by (auto simp: control_by_kind_def identifier_iff identifier_char_def ascii_alnum_def ascii_upper_def is_digit_def
      between_def split: if_splits)

text \<open>The source, event, asset and kind a finding was made of.\<close>

definition details_of :: "fields \<Rightarrow> fields" where
  "details_of r = (case dict_get ''details'' r of JObj kvs \<Rightarrow> kvs | _ \<Rightarrow> [])"

definition field_text :: "string \<Rightarrow> fields \<Rightarrow> string" where
  "field_text k r = (case dict_get k r of JStr s \<Rightarrow> s | _ \<Rightarrow> [])"

definition alert_id_text :: "fields \<Rightarrow> string" where
  "alert_id_text r = alert_identity (field_text ''source'' r) (field_text ''source_event_id'' (details_of r))
     (field_text ''asset_id'' r) (field_text ''kind'' (details_of r))"

lemma alert_finding_fields:
  assumes "r = alert_finding source control asset title owner severity event kind code observed ip user refs"
  shows "dict_get ''finding_id'' r = JStr (short_id ''SEC-ALERT-'' (alert_identity source event asset kind))"
    and "dict_get ''source'' r = JStr source" "dict_get ''control_id'' r = JStr control"
    and "dict_get ''asset_id'' r = JStr asset" "dict_get ''title'' r = JStr title"
    and "dict_get ''risk_owner'' r = JStr owner" "dict_get ''severity'' r = JStr severity"
    and "dict_get ''source_event_id'' (details_of r) = JStr event" "dict_get ''kind'' (details_of r) = JStr kind"
  unfolding assms alert_finding_def details_of_def by (simp_all add: dict_get_Cons)

lemma alert_finding_texts:
  assumes "r = alert_finding source control asset title owner severity event kind code observed ip user refs"
  shows "field_text ''source'' r = source" "field_text ''asset_id'' r = asset"
    and "field_text ''source_event_id'' (details_of r) = event" "field_text ''kind'' (details_of r) = kind"
  unfolding field_text_def alert_finding_fields [OF assms] by simp_all

lemma joined_inject:
  "py_join [d] ps = py_join [d] qs \<Longrightarrow> ps \<noteq> [] \<Longrightarrow> qs \<noteq> [] \<Longrightarrow> d \<notin> set (concat (ps @ qs)) \<Longrightarrow> ps = qs"
  by (rule py_join_inject) auto

lemma alert_identity_inject:
  assumes "alert_identity s e a k = alert_identity s' e' a' k'"
    and "CHR ''|'' \<notin> set (concat [s, e, a, k, s', e', a', k'])"
  shows "s = s' \<and> e = e' \<and> a = a' \<and> k = k'"
proof -
  have "[''security_alert.v1'', s, e, a, k] = [''security_alert.v1'', s', e', a', k']"
    by (rule joined_inject [OF assms(1) [unfolded alert_identity_def identity_text_def]]) (use assms(2) in simp_all)
  then show ?thesis by simp
qed

text \<open>
  Accepted alerts enter governance: the finding \<open>normalize_security_alert_v1\<close> returns passes the input checks of
  \<open>create_finding\<close> with every field unchanged, and its finding id is made of an identity text that two
  accepted alerts share exactly when source, source event, asset and kind are the same.
\<close>

theorem accepted_alerts_enter_governance:
  assumes "normalize_security_alert v = Inr r" "normalize_security_alert v' = Inr r'"
    and "actor_role a = ''analyst'' \<or> actor_role a = ''admin''"
  shows "\<exists>fid control asset title owner severity.
      map (\<lambda>k. dict_get k r) [''finding_id'', ''control_id'', ''asset_id'', ''title'', ''risk_owner'', ''severity''] =
        map JStr [fid, control, asset, title, owner, severity]
    \<and> finding_inputs fid control asset title owner severity a = Inr (fid, control, asset, title, owner, severity)
    \<and> fid = short_id ''SEC-ALERT-'' (alert_id_text r)
    \<and> (alert_id_text r = alert_id_text r' \<longleftrightarrow>
         field_text ''source'' r = field_text ''source'' r' \<and> field_text ''asset_id'' r = field_text ''asset_id'' r'
       \<and> field_text ''source_event_id'' (details_of r) = field_text ''source_event_id'' (details_of r')
       \<and> field_text ''kind'' (details_of r) = field_text ''kind'' (details_of r'))"
proof -
  obtain source control asset title owner severity event kind code observed ip user refs where
    r: "r = alert_finding source control asset title owner severity event kind code observed ip user refs"
    and ids: "is_source_identifier (JStr source)" "is_identifier (JStr event)" "is_identifier (JStr asset)"
    and texts: "is_canonical_text (JStr title) 512" "is_identifier (JStr owner)"
    and cls: "control_by_kind kind = Some control" "severity \<in> set severities"
    by (rule accepted_alert [OF assms(1)])
  obtain source' control' asset' title' owner' severity' event' kind' code' observed' ip' user' refs' where
    r': "r' = alert_finding source' control' asset' title' owner' severity' event' kind' code' observed' ip' user' refs'"
    and ids': "is_source_identifier (JStr source')" "is_identifier (JStr event')" "is_identifier (JStr asset')"
    and cls': "control_by_kind kind' = Some control'"
    by (rule accepted_alert [OF assms(2)])
  note f = alert_finding_texts [OF r] and f' = alert_finding_texts [OF r']
  have "is_identifier (JStr ''SEC-ALERT-'')"
    by (simp add: identifier_iff identifier_char_def ascii_alnum_def ascii_upper_def between_def)
  then have fid: "is_identifier (JStr (short_id ''SEC-ALERT-'' x))" for x by (rule short_id_accepted) simp
  have "finding_inputs (short_id ''SEC-ALERT-'' (alert_id_text r)) control asset title owner severity a =
      Inr (short_id ''SEC-ALERT-'' (alert_id_text r), control, asset, title, owner, severity)"
    using assms(3) ids texts cls control_of_kind [OF cls(1)] fid
    by (auto simp: finding_inputs_def require_role_def identifier_accepted severity_accepted max_text_length_def
        canonical_required_text [of title 512])
  moreover have "CHR ''|'' \<notin> set (concat [source, event, asset, kind, source', event', asset', kind'])"
    using ids ids' control_of_kind [OF cls(1)] control_of_kind [OF cls'] by (simp add: source_is_identifier identifier_no_bar)
  then have "alert_id_text r = alert_id_text r' \<longleftrightarrow> source = source' \<and> event = event' \<and> asset = asset' \<and> kind = kind'"
    using alert_identity_inject [of source event asset kind source' event' asset' kind'] by (auto simp: alert_id_text_def f f')
  moreover have "map (\<lambda>k. dict_get k r) [''finding_id'', ''control_id'', ''asset_id'', ''title'', ''risk_owner'', ''severity''] =
      map JStr [short_id ''SEC-ALERT-'' (alert_id_text r), control, asset, title, owner, severity]"
    unfolding list.map alert_finding_fields [OF r] alert_id_text_def f ..
  ultimately show ?thesis unfolding f f' by blast
qed

definition demo_time :: string where "demo_time = ''0001-01-01T07:00:00.25+07:00''"

definition demo_alert :: fields where
  "demo_alert = [(''schema_version'', JStr ''security_alert.v1''), (''source'', JStr ''edr''),
     (''source_event_id'', JStr ''e1''), (''observed_at'', JStr demo_time), (''asset_id'', JStr ''srv''),
     (''kind'', JStr ''brute_force''), (''severity'', JStr ''high''), (''title'', JStr ''Logons''),
     (''risk_owner'', JStr ''olga''), (''event_code'', JInt 4625), (''evidence_refs'', JList [JStr ''urn:x''])]"

lemmas text_checks = canonical_text_iff identifier_iff source_identifier_iff edge_char_def inner_char_def control_char_def
  py_isspace_def identifier_char_def source_char_def ascii_alnum_def ascii_upper_def ascii_lower_def is_digit_def between_def

lemma demo_reference: "is_evidence_reference (JStr ''urn:x'')"
proof -
  have "edge_char (CHR ''x'')" by (simp add: edge_char_def control_char_def py_isspace_def)
  then have "fullmatch evidence_reference_rx ''urn:x''"
    by (simp add: fullmatch_def evidence_reference_rx_def r_text.simps r_plus_def r_opt_def evidence_host_rx_def host_label_rx_def)
  then show ?thesis by (simp add: is_evidence_reference_def text_checks)
qed

lemma demo_alert_get:
  "dict_get ''schema_version'' demo_alert = JStr ''security_alert.v1''" "dict_get ''source'' demo_alert = JStr ''edr''"
  "dict_get ''source_event_id'' demo_alert = JStr ''e1''" "dict_get ''observed_at'' demo_alert = JStr demo_time"
  "dict_get ''asset_id'' demo_alert = JStr ''srv''" "dict_get ''kind'' demo_alert = JStr ''brute_force''"
  "dict_get ''severity'' demo_alert = JStr ''high''" "dict_get ''title'' demo_alert = JStr ''Logons''"
  "dict_get ''risk_owner'' demo_alert = JStr ''olga''" "dict_get ''event_code'' demo_alert = JInt 4625"
  "dict_get ''evidence_refs'' demo_alert = JList [JStr ''urn:x'']" "dict_get ''source_ip'' demo_alert = JNull"
  "dict_get ''target_user'' demo_alert = JNull"
  unfolding demo_alert_def by (simp_all add: dict_get_Cons)

lemma demo_alert_accepted:
  "normalize_security_alert (JObj demo_alert) = Inr (alert_finding ''edr'' ''SEC-AUTH-001'' ''srv'' ''Logons'' ''olga'' ''high'' ''e1''
     ''brute_force'' (JInt 4625) (utc_text 250000) JNull JNull [''urn:x''])"
proof -
  have "contract_shape alert_label alert_allowed alert_required (JObj demo_alert) = Inr demo_alert"
    unfolding contract_shape_def demo_alert_def alert_allowed_def alert_required_def by simp
  then have shape: "alert_shape (JObj demo_alert) = Inr demo_alert"
    by (simp add: alert_shape_def schema_check_def demo_alert_get)
  have fields: "alert_fields demo_alert = Inr (''edr'', ''e1'', ''srv'', ''Logons'', ''olga'')"
    by (simp add: alert_fields_def alert_text_def contract_text_def demo_alert_get lowercase_source_def text_checks)
  have "alert_time (JStr demo_time) = Inr (utc_text 250000)" by (simp add: alert_time_def demo_time_def demo_utc)
  then have event: "alert_event demo_alert =
      Inr (''brute_force'', ''high'', JInt 4625, utc_text 250000, [''urn:x''], ''SEC-AUTH-001'')"
    using demo_reference
    by (simp add: alert_event_def alert_text_def contract_text_def demo_alert_get control_by_kind_def code_matches_def
        event_code_by_kind_def member_of_def severities_def alert_refs_def evidence_refs_def py_equal_def text_checks)
  have ctx: "alert_context demo_alert = Inr (JNull, JNull)" by (simp add: alert_context_def demo_alert_get)
  show ?thesis by (simp add: normalize_security_alert_def shape fields event ctx alert_finding_def)
qed

theorem accepted_alerts_enter_governance_witness:
  "\<exists>r fid control asset title owner severity. normalize_security_alert (JObj demo_alert) = Inr r
     \<and> finding_inputs fid control asset title owner severity \<lparr>actor_id = ''ana'', actor_role = ''analyst'', auth_method = ''oidc''\<rparr>
         = Inr (fid, control, asset, title, owner, severity) \<and> fid = short_id ''SEC-ALERT-'' (alert_id_text r)"
proof -
  let ?a = "\<lparr>actor_id = ''ana'', actor_role = ''analyst'', auth_method = ''oidc''\<rparr>"
  obtain r where r: "normalize_security_alert (JObj demo_alert) = Inr r" using demo_alert_accepted by blast
  have "actor_role ?a = ''analyst'' \<or> actor_role ?a = ''admin''" by simp
  from accepted_alerts_enter_governance [OF r r this] show ?thesis using r by blast
qed

section \<open>Normalised contexts\<close>

definition spans :: "(char \<Rightarrow> bool) \<Rightarrow> nat \<Rightarrow> rx \<Rightarrow> bool" where
  "spans p n r = (\<forall>s. matches r s \<longrightarrow> length s \<le> n \<and> list_all p s)"

lemma spans_seq: "spans p m a \<Longrightarrow> spans p n b \<Longrightarrow> spans p (m + n) (RSeq a b)"
  by (force simp: spans_def matches_seq)

lemma spans_opt: "spans p n a \<Longrightarrow> spans p n (r_opt a)"
  by (auto simp: spans_def)

lemma spans_class: "(\<And>c. q c \<Longrightarrow> p c) \<Longrightarrow> spans p n (r_times n (RChar q)) \<and> spans p n (r_upto n (RChar q)) \<and> spans p 1 (RChar q)"
  by (auto simp: spans_def list_all_iff elim: matches.cases)

lemma spans_text: "list_all p s \<Longrightarrow> spans p (length s) (r_text s)"
  by (auto simp: spans_def)

lemma normalized_time_spans: "spans edge_char (4 + (1 + (2 + (1 + (2 + (1 + (2 + (1 + (2 + (1 + (2 + ((1 + (1 + 5)) + 1)))))))))))) normalized_rfc3339_rx"
proof -
  have "is_digit c \<Longrightarrow> edge_char c" for c
    by (auto simp: is_digit_def edge_char_def control_char_def py_isspace_def Let_def)
  note cls = spans_class [of is_digit edge_char, OF this]
  have lit: "list_all edge_char [c] \<Longrightarrow> spans edge_char 1 (r_text [c])" for c using spans_text [of edge_char "[c]"] by simp
  show ?thesis
    unfolding normalized_rfc3339_rx_def Let_def r_seq.simps
    by (intro spans_seq spans_opt cls [THEN conjunct1] cls [THEN conjunct2, THEN conjunct1] cls [THEN conjunct2, THEN conjunct2] lit)
      (simp_all add: text_checks)
qed

lemma normalized_time_canonical:
  assumes "0 \<le> t" "t < time_end"
  shows "is_canonical_text (JStr (utc_text t)) 64"
proof -
  have "matches normalized_rfc3339_rx (utc_text t)" using utc_text_matches(1) [OF assms] by (simp add: fullmatch_iff)
  then have "length (utc_text t) \<le> 64 \<and> list_all edge_char (utc_text t)"
    using normalized_time_spans by (auto simp: spans_def)
  moreover have "utc_text t \<noteq> []" by (simp add: utc_text_def split: prod.splits)
  moreover have "edge_char c \<Longrightarrow> inner_char c" for c by (simp add: edge_char_def inner_char_def)
  ultimately show ?thesis by (auto simp: canonical_text_iff list_all_iff)
qed

lemma contract_time_again:
  assumes "contract_time label kvs name = Inr (s, t)" "dict_get name kvs' = JStr s"
  shows "contract_time label kvs' name = Inr (s, t)"
  using contract_time_ok [OF assms(1)] assms(2) by (auto simp: contract_time_def outcome_simps normalized_time_canonical parse_utc_text)

lemma approved_references_again: "approved_references label vs = Inr refs \<Longrightarrow> vs = map JStr refs"
  by (induction vs arbitrary: refs) (auto simp: outcome_simps is_evidence_reference_def split: if_splits json.splits)

lemma evidence_refs_again: "evidence_refs label v = Inr refs \<Longrightarrow> v = JList (map JStr refs)"
  by (auto simp: evidence_refs_def outcome_simps dest!: approved_references_again split: json.splits if_splits)

definition asset_context :: "string \<Rightarrow> string \<Rightarrow> string \<Rightarrow> json \<Rightarrow> string \<Rightarrow> string \<Rightarrow> string \<Rightarrow> string \<Rightarrow> string list \<Rightarrow> fields" where
  "asset_context source source_asset asset hostname owner criticality status observed refs =
     [(''schema_version'', JStr ''asset_context.v1''), (''source'', JStr source),
      (''source_asset_id'', JStr source_asset), (''asset_id'', JStr asset), (''hostname'', hostname),
      (''owner'', JStr owner), (''criticality'', JStr criticality), (''status'', JStr status),
      (''observed_at'', JStr observed), (''evidence_refs'', JList (map JStr refs))]"

lemma asset_context_get:
  assumes "kvs = asset_context source source_asset asset hostname owner criticality status observed refs"
  shows "dict_get ''schema_version'' kvs = JStr ''asset_context.v1''" "dict_get ''source'' kvs = JStr source"
    and "dict_get ''source_asset_id'' kvs = JStr source_asset" "dict_get ''asset_id'' kvs = JStr asset"
    and "dict_get ''hostname'' kvs = hostname" "dict_get ''owner'' kvs = JStr owner"
    and "dict_get ''criticality'' kvs = JStr criticality" "dict_get ''status'' kvs = JStr status"
    and "dict_get ''observed_at'' kvs = JStr observed" "dict_get ''evidence_refs'' kvs = JList (map JStr refs)"
  unfolding assms asset_context_def by (simp_all add: dict_get_Cons)

lemma asset_context_shape:
  "contract_shape asset_label (''hostname'' # asset_required) asset_required
     (JObj (asset_context source source_asset asset hostname owner criticality status observed refs)) =
   Inr (asset_context source source_asset asset hostname owner criticality status observed refs)"
  unfolding contract_shape_def asset_context_def asset_required_def by simp

lemma asset_fixed_point:
  assumes "normalize_asset_context payload = Inr r"
  shows "normalize_asset_context (JObj (tl r)) = Inr r"
proof -
  from assms obtain kvs source source_asset asset owner observed t criticality status refs where
    chk: "dict_get ''source'' kvs = JStr source \<and> is_source_identifier (JStr source)"
      "dict_get ''source_asset_id'' kvs = JStr source_asset \<and> is_identifier (JStr source_asset)"
      "dict_get ''asset_id'' kvs = JStr asset \<and> is_identifier (JStr asset)"
      "dict_get ''owner'' kvs = JStr owner \<and> is_identifier (JStr owner)"
      "is_canonical_text (JStr criticality) 16" "is_canonical_text (JStr status) 16"
      "criticality \<in> set severities" "status \<in> {''active'', ''inactive'', ''retired'', ''unknown''}"
      "dict_get ''hostname'' kvs = JNull \<or> is_canonical_text (dict_get ''hostname'' kvs) 255"
    and time: "contract_time asset_label kvs ''observed_at'' = Inr (observed, t)"
    and refs: "evidence_refs asset_label (dict_get ''evidence_refs'' kvs) = Inr refs"
    and r: "r = (''context_id'', JStr (short_id ''ASSET-CTX-'' (asset_identity source source_asset asset)))
        # asset_context source source_asset asset (dict_get ''hostname'' kvs) owner criticality status observed refs"
    unfolding normalize_asset_context_def by (auto simp: outcome_simps member_of_def asset_context_def split: prod.splits)
  define out where "out = asset_context source source_asset asset (dict_get ''hostname'' kvs) owner criticality status observed refs"
  note get = asset_context_get [OF out_def]
  have again: "contract_shape asset_label (''hostname'' # asset_required) asset_required (JObj out) = Inr out"
    unfolding out_def by (rule asset_context_shape)
  have steps: "contract_source asset_label out = Inr source"
    "contract_identifier asset_label out ''source_asset_id'' = Inr source_asset"
    "contract_identifier asset_label out ''asset_id'' = Inr asset" "contract_identifier asset_label out ''owner'' = Inr owner"
    "contract_text asset_label out ''criticality'' 16 = Inr criticality" "contract_text asset_label out ''status'' 16 = Inr status"
    "contract_time asset_label out ''observed_at'' = Inr (observed, t)"
    "evidence_refs asset_label (JList (map JStr refs)) = Inr refs"
    using chk refs evidence_refs_again [OF refs] contract_time_again [OF time get(9)]
    by (simp_all add: get contract_source_ok contract_identifier_ok contract_text_ok)
  show ?thesis
    unfolding r list.sel out_def [symmetric] normalize_asset_context_def using chk(7-9)
    by (simp add: again schema_check_def get steps member_of_def) (simp add: out_def asset_context_def)
qed

definition ticket_context where
  "ticket_context source ticket fid asset owner status priority created updated due refs =
     [(''schema_version'', JStr ''remediation_ticket.v1''), (''source'', JStr source),
      (''source_ticket_id'', JStr ticket), (''finding_id'', JStr fid), (''asset_id'', JStr asset),
      (''owner'', JStr owner), (''status'', JStr status), (''priority'', JStr priority),
      (''created_at'', JStr created), (''updated_at'', JStr updated), (''due_at'', JStr due),
      (''evidence_refs'', JList (map JStr refs))]"

lemma ticket_context_get:
  assumes "kvs = ticket_context source ticket fid asset owner status priority created updated due refs"
  shows "dict_get ''schema_version'' kvs = JStr ''remediation_ticket.v1''" "dict_get ''source'' kvs = JStr source"
    and "dict_get ''source_ticket_id'' kvs = JStr ticket" "dict_get ''finding_id'' kvs = JStr fid"
    and "dict_get ''asset_id'' kvs = JStr asset" "dict_get ''owner'' kvs = JStr owner"
    and "dict_get ''status'' kvs = JStr status" "dict_get ''priority'' kvs = JStr priority"
    and "dict_get ''created_at'' kvs = JStr created" "dict_get ''updated_at'' kvs = JStr updated"
    and "dict_get ''due_at'' kvs = JStr due" "dict_get ''evidence_refs'' kvs = JList (map JStr refs)"
  unfolding assms ticket_context_def by (simp_all add: dict_get_Cons)

lemma ticket_context_shape:
  "contract_shape ticket_label ticket_required ticket_required
     (JObj (ticket_context source ticket fid asset owner status priority created updated due refs)) =
   Inr (ticket_context source ticket fid asset owner status priority created updated due refs)"
  unfolding contract_shape_def ticket_context_def ticket_required_def by simp

lemma ticket_ok:
  assumes "normalize_remediation_ticket payload = Inr r"
  obtains kvs source ticket fid asset owner status priority created t1 updated t2 due t3 refs where
    "is_source_identifier (JStr source)" "is_identifier (JStr ticket)" "is_identifier (JStr fid)" "is_identifier (JStr asset)"
    "is_identifier (JStr owner)" "is_canonical_text (JStr status) 32" "is_canonical_text (JStr priority) 2"
    "status \<in> set ticket_statuses" "priority \<in> set [''P1'', ''P2'', ''P3'', ''P4'']"
    "contract_time ticket_label kvs ''created_at'' = Inr (created, t1)" "contract_time ticket_label kvs ''updated_at'' = Inr (updated, t2)"
    "contract_time ticket_label kvs ''due_at'' = Inr (due, t3)" "t1 \<le> t2" "t1 \<le> t3"
    "evidence_refs ticket_label (dict_get ''evidence_refs'' kvs) = Inr refs"
    "r = (''ticket_context_id'', JStr (short_id ''TICKET-CTX-'' (ticket_identity source ticket fid)))
       # ticket_context source ticket fid asset owner status priority created updated due refs"
  using assms unfolding normalize_remediation_ticket_def
  by (auto simp: outcome_simps member_of_def not_before_def ticket_context_def split: prod.splits)

lemma ticket_fixed_point:
  assumes "normalize_remediation_ticket payload = Inr r"
  shows "normalize_remediation_ticket (JObj (tl r)) = Inr r"
proof -
  obtain kvs source ticket fid asset owner status priority created t1 updated t2 due t3 refs where
    ids: "is_source_identifier (JStr source)" "is_identifier (JStr ticket)" "is_identifier (JStr fid)" "is_identifier (JStr asset)"
      "is_identifier (JStr owner)" "is_canonical_text (JStr status) 32" "is_canonical_text (JStr priority) 2"
    and cls: "status \<in> set ticket_statuses" "priority \<in> set [''P1'', ''P2'', ''P3'', ''P4'']"
    and times: "contract_time ticket_label kvs ''created_at'' = Inr (created, t1)"
      "contract_time ticket_label kvs ''updated_at'' = Inr (updated, t2)" "contract_time ticket_label kvs ''due_at'' = Inr (due, t3)"
      "t1 \<le> t2" "t1 \<le> t3"
    and refs: "evidence_refs ticket_label (dict_get ''evidence_refs'' kvs) = Inr refs"
    and r: "r = (''ticket_context_id'', JStr (short_id ''TICKET-CTX-'' (ticket_identity source ticket fid)))
        # ticket_context source ticket fid asset owner status priority created updated due refs"
    by (rule ticket_ok [OF assms])
  define out where "out = ticket_context source ticket fid asset owner status priority created updated due refs"
  note get = ticket_context_get [OF out_def]
  have again: "contract_shape ticket_label ticket_required ticket_required (JObj out) = Inr out"
    unfolding out_def by (rule ticket_context_shape)
  have steps: "contract_source ticket_label out = Inr source" "contract_identifier ticket_label out ''source_ticket_id'' = Inr ticket"
    "contract_identifier ticket_label out ''finding_id'' = Inr fid" "contract_identifier ticket_label out ''asset_id'' = Inr asset"
    "contract_identifier ticket_label out ''owner'' = Inr owner" "contract_text ticket_label out ''status'' 32 = Inr status"
    "contract_text ticket_label out ''priority'' 2 = Inr priority"
    "contract_time ticket_label out ''created_at'' = Inr (created, t1)" "contract_time ticket_label out ''updated_at'' = Inr (updated, t2)"
    "contract_time ticket_label out ''due_at'' = Inr (due, t3)" "evidence_refs ticket_label (JList (map JStr refs)) = Inr refs"
    using ids refs evidence_refs_again [OF refs] contract_time_again [OF times(1) get(9)] contract_time_again [OF times(2) get(10)]
      contract_time_again [OF times(3) get(11)]
    by (simp_all add: get contract_source_ok contract_identifier_ok contract_text_ok)
  show ?thesis
    unfolding r list.sel out_def [symmetric] normalize_remediation_ticket_def
    using cls times(4,5)
    by (simp add: again schema_check_def get steps member_of_def not_before_def) (simp add: out_def ticket_context_def)
qed

text \<open>
  Normalised contexts are fixed points: the record that \<open>normalize_asset_context_v1\<close> or
  \<open>normalize_remediation_ticket_v1\<close> returns, without its derived identifier, is accepted again and normalises to the same record with the
  same identifier.
\<close>

theorem normalized_contexts_are_fixed_points:
  assumes "contract = normalize_asset_context \<or> contract = normalize_remediation_ticket"
    and "contract payload = Inr r"
  shows "contract (JObj (tl r)) = Inr r"
  using assms asset_fixed_point ticket_fixed_point by auto

definition demo_asset :: fields where
  "demo_asset = asset_context ''cmdb'' ''a1'' ''srv'' JNull ''olga'' ''high'' ''active'' demo_time [''urn:x'']"

lemma demo_asset_accepted:
  "normalize_asset_context (JObj demo_asset) =
     Inr ((''context_id'', JStr (short_id ''ASSET-CTX-'' (asset_identity ''cmdb'' ''a1'' ''srv'')))
       # asset_context ''cmdb'' ''a1'' ''srv'' JNull ''olga'' ''high'' ''active'' (utc_text 250000) [''urn:x''])"
proof -
  note get = asset_context_get [OF demo_asset_def]
  have ids: "is_source_identifier (JStr ''cmdb'')" "is_identifier (JStr ''a1'')" "is_identifier (JStr ''srv'')" "is_identifier (JStr ''olga'')"
    and texts: "is_canonical_text (JStr ''high'') 16" "is_canonical_text (JStr ''active'') 16" "is_canonical_text (JStr demo_time) 64"
    by (simp_all add: text_checks demo_time_def)
  have steps: "contract_source asset_label demo_asset = Inr ''cmdb''"
    "contract_identifier asset_label demo_asset ''source_asset_id'' = Inr ''a1''"
    "contract_identifier asset_label demo_asset ''asset_id'' = Inr ''srv''" "contract_identifier asset_label demo_asset ''owner'' = Inr ''olga''"
    "contract_text asset_label demo_asset ''criticality'' 16 = Inr ''high''" "contract_text asset_label demo_asset ''status'' 16 = Inr ''active''"
    "contract_text asset_label demo_asset ''observed_at'' 64 = Inr demo_time"
    using ids texts by (simp_all add: get contract_source_ok contract_identifier_ok contract_text_ok)
  have "contract_time asset_label demo_asset ''observed_at'' = Inr (utc_text 250000, 250000)"
    using steps(7) by (simp add: contract_time_def) (simp add: demo_time_def demo_utc)
  moreover have "evidence_refs asset_label (JList [JStr ''urn:x'']) = Inr [''urn:x'']"
    using demo_reference by (simp add: evidence_refs_def)
  moreover have "contract_shape asset_label (''hostname'' # asset_required) asset_required (JObj demo_asset) = Inr demo_asset"
    unfolding demo_asset_def by (rule asset_context_shape)
  ultimately show ?thesis
    using steps by (simp add: normalize_asset_context_def schema_check_def get member_of_def severities_def asset_context_def)
qed

theorem normalized_contexts_are_fixed_points_witness:
  "normalize_asset_context (JObj (asset_context ''cmdb'' ''a1'' ''srv'' JNull ''olga'' ''high'' ''active'' (utc_text 250000) [''urn:x'']))
     = normalize_asset_context (JObj demo_asset)"
  using normalized_contexts_are_fixed_points [OF disjI1 [OF refl] demo_asset_accepted] demo_asset_accepted by simp

end
