(* ===== verification/Adapter_Properties.thy ===== *)
theory Adapter_Properties
  imports Contract_Properties
begin

text \<open>
  What the adapters promise: a JML request or a Mini-SOAR incident becomes a finding only when it is closed and
  verified by someone other than the one who executed it, and Mini-SOAR findings are bound to their alert by its hashes. The
  check for missing fields of Windows events misses absent ones.
\<close>

section \<open>JML requests\<close>

lemma jml_ok:
  assumes "normalize_jml_request (JObj request) (JObj verification) executor = Inr (Some r)"
  obtains t control rid user dept manager employee requester verifier ex where
    "dict_get ''status'' request = JStr ''closed''" "dict_get ''result'' verification = JStr ''passed''"
    "dict_get ''request_type'' request = JStr t" "jml_control t = Some control"
    "dict_get ''request_id'' request = JStr rid" "fullmatch request_id_rx rid" "dict_get ''request_id'' verification = JStr rid"
    "dict_get ''username'' request = JStr user"
    "dict_get ''requested_by'' request = JStr requester" "dict_get ''actor_id'' verification = JStr verifier"
    "is_canonical_text (JStr verifier) 128" "executor = JStr ex" "is_canonical_text (JStr ex) 128"
    "verifier \<noteq> requester" "verifier \<noteq> ex"
    "r = jml_finding t control rid user dept manager employee (dict_get ''old_department'' request) verifier ex"
proof -
  have "executor \<noteq> JNull \<and> is_canonical_text executor 128"
    using assms by (auto simp: normalize_jml_request_def jml_checked_def outcome_simps split: if_splits option.splits)
  then obtain ex where "executor = JStr ex" "is_canonical_text (JStr ex) 128" by (auto simp: canonical_text_iff)
  with assms that show ?thesis
    by (auto simp: normalize_jml_request_def jml_checked_def outcome_simps Let_def split: if_splits option.splits)
qed

lemma jml_finding_fields:
  assumes "r = jml_finding t control rid user dept manager employee old verifier ex"
  shows "dict_get ''control_id'' r = JStr control" "dict_get ''asset_id'' r = JStr (''AD:'' @ user)"
    and "dict_get ''finding_id'' r = JStr (''SEC-IAM-'' @ removeprefix ''JML-'' rid)"
    and "dict_get ''verifier_id'' (details_of r) = JStr verifier" "dict_get ''execution_actor_id'' (details_of r) = JStr ex"
  unfolding assms jml_finding_def details_of_def by (simp_all add: dict_get_Cons)

text \<open>
  JML findings are independently verified: \<open>normalize_jml_request\<close> returns a finding only for a closed request with a
  passed verification of the same request, whose verifier is neither the requester nor the
  execution actor; the finding names the control of the request type, the account, and the verifier and executor it was given.
\<close>

theorem jml_findings_are_independently_verified:
  assumes "normalize_jml_request (JObj request) (JObj verification) executor = Inr (Some r)"
  shows "\<exists>t control user verifier.
      dict_get ''status'' request = JStr ''closed'' \<and> dict_get ''result'' verification = JStr ''passed''
    \<and> dict_get ''request_id'' verification = dict_get ''request_id'' request
    \<and> dict_get ''request_type'' request = JStr t \<and> jml_control t = Some control
    \<and> dict_get ''actor_id'' verification = JStr verifier \<and> is_canonical_text (JStr verifier) 128
    \<and> dict_get ''requested_by'' request \<noteq> JStr verifier \<and> executor \<noteq> JStr verifier \<and> is_canonical_text executor 128
    \<and> dict_get ''username'' request = JStr user
    \<and> dict_get ''control_id'' r = JStr control \<and> dict_get ''asset_id'' r = JStr (''AD:'' @ user)
    \<and> dict_get ''verifier_id'' (details_of r) = JStr verifier \<and> dict_get ''execution_actor_id'' (details_of r) = executor"
  by (rule jml_ok [OF assms]) (use jml_finding_fields in fastforce)

definition demo_request :: fields where
  "demo_request = [(''status'', JStr ''closed''), (''request_type'', JStr ''leaver''), (''request_id'', JStr ''JML-1''),
     (''username'', JStr ''kim''), (''department'', JStr ''IT''), (''manager_id'', JStr ''m1''), (''employee_id'', JStr ''e1''),
     (''requested_by'', JStr ''hr1'')]"

definition demo_verification :: fields where
  "demo_verification = [(''result'', JStr ''passed''), (''request_id'', JStr ''JML-1''), (''actor_id'', JStr ''v1'')]"

lemma demo_jml:
  "normalize_jml_request (JObj demo_request) (JObj demo_verification) (JStr ''x1'') =
     Inr (Some (jml_finding ''leaver'' ''SEC-IAM-006'' ''JML-1'' ''kim'' ''IT'' ''m1'' ''e1'' JNull ''v1'' ''x1''))"
proof -
  have get: "dict_get ''status'' demo_request = JStr ''closed''" "dict_get ''request_type'' demo_request = JStr ''leaver''"
    "dict_get ''request_id'' demo_request = JStr ''JML-1''" "dict_get ''username'' demo_request = JStr ''kim''"
    "dict_get ''department'' demo_request = JStr ''IT''" "dict_get ''manager_id'' demo_request = JStr ''m1''"
    "dict_get ''employee_id'' demo_request = JStr ''e1''" "dict_get ''requested_by'' demo_request = JStr ''hr1''"
    "dict_get ''old_department'' demo_request = JNull" "dict_get ''result'' demo_verification = JStr ''passed''"
    "dict_get ''request_id'' demo_verification = JStr ''JML-1''" "dict_get ''actor_id'' demo_verification = JStr ''v1''"
    unfolding demo_request_def demo_verification_def by (simp_all add: dict_get_Cons)
  have "fullmatch request_id_rx ''JML-1''" "fullmatch username_rx ''kim''"
    by (simp_all add: fullmatch_iff request_id_rx_def username_rx_def matches_char_seq text_checks Let_def)
  then show ?thesis
    by (simp add: normalize_jml_request_def jml_checked_def contract_text_def get jml_control_def text_checks)
qed

theorem jml_findings_are_independently_verified_witness:
  "\<exists>r user. normalize_jml_request (JObj demo_request) (JObj demo_verification) (JStr ''x1'') = Inr (Some r)
     \<and> dict_get ''username'' demo_request = JStr user \<and> dict_get ''asset_id'' r = JStr (''AD:'' @ user)
     \<and> dict_get ''requested_by'' demo_request \<noteq> dict_get ''actor_id'' demo_verification"
  using jml_findings_are_independently_verified [OF demo_jml] demo_jml by auto

section \<open>Mini-SOAR incidents\<close>

lemma alert_parts_gates:
  "alert_parts al = Inr a \<Longrightarrow> soar_control (sa_kind a) \<noteq> None \<and> dict_get ''environment'' al = JStr ''synthetic-lab''
     \<and> dict_get ''supported'' al = JBool True \<and> dict_get ''asset_id'' al = JStr (sa_asset a)"
  by (auto simp: alert_parts_def soar_text_def outcome_simps)

lemma validated_alert_ok:
  assumes "validated_alert al = Inr a"
  obtains b where "alert_parts al = Inr b" "sa_kind a = sa_kind b" "sa_asset a = sa_asset b"
    and "sa_identity a = json_digest (identity_material b)" "sa_payload a = json_digest (source_payload b)"
    and "sa_id a = upstream_id ''ALT-'' (sa_identity a)"
    and "dict_get ''identity_hash'' al = JStr (sa_identity a)" "dict_get ''payload_hash'' al = JStr (sa_payload a)"
    and "dict_get ''alert_id'' al = JStr (sa_id a)"
  using assms by (auto simp: validated_alert_def soar_text_def outcome_simps)

lemma finding_fields_of_ok:
  "finding_fields_of f a = Inr (fid, executor, owner, severity, title) \<Longrightarrow>
     dict_get ''finding_id'' f = JStr fid \<and> fid = upstream_id ''FND-'' (sa_identity a)
       \<and> dict_get ''alert_id'' f = JStr (sa_id a) \<and> dict_get ''executor_id'' f = JStr executor"
  by (auto simp: finding_fields_of_def soar_text_def outcome_simps)

lemma validated_verifier_ok:
  "validated_verifier v fid passed = Inr verifier \<Longrightarrow>
     (if passed then \<exists>kvs w. v = JObj kvs \<and> dict_get ''finding_id'' kvs = JStr fid \<and> verifier = Some w \<and> dict_get ''verifier_id'' kvs = JStr w
      else verifier = None)"
  by (auto simp: validated_verifier_def soar_text_def outcome_simps split: json.splits)

lemma incident_finding_fields:
  assumes "r = incident_finding f a control fid executor owner severity title passed verifier"
  shows "dict_get ''control_id'' r = JStr control" "dict_get ''asset_id'' r = JStr (sa_asset a)"
    and "dict_get ''source_payload_hash'' (details_of r) = JStr (sa_payload a)"
    and "dict_get ''verification_passed'' (details_of r) = JBool passed"
    and "dict_get ''verifier_id'' (details_of r) = opt_json verifier" "dict_get ''execution_actor_id'' (details_of r) = JStr executor"
  unfolding assms incident_finding_def details_of_def by (simp_all add: dict_get_Cons)

lemma incident_ok:
  assumes "normalize_minisoar_incident (JObj f) (JObj al) v required = Inr (Some r)"
  obtains a fid executor owner severity title verifier control where
    "dict_get ''status'' f = JStr ''closed''" "required \<longrightarrow> verification_succeeded v" "validated_alert al = Inr a"
    "finding_fields_of f a = Inr (fid, executor, owner, severity, title)"
    "validated_verifier v fid (verification_succeeded v) = Inr verifier" "verifier \<noteq> Some executor"
    "soar_control (sa_kind a) = Some control"
    "r = incident_finding f a control fid executor owner severity title (verification_succeeded v) verifier"
  using assms
  by (auto simp: normalize_minisoar_incident_def checked_incident_def outcome_simps Let_def split: if_splits option.splits prod.splits)

text \<open>
  Mini-SOAR findings are bound to their alert and verified: \<open>normalize_minisoar_incident\<close> returns a finding only for a closed
  incident of a supported, synthetic alert whose identity and payload hashes are the digests of the alert's own
  fields, under the identifiers derived from them; the finding carries the payload hash, and a
  successful verification belongs to the finding and is by someone other than its executor. When a
  pass is required the verification has succeeded.
\<close>

theorem minisoar_findings_are_bound:
  assumes "normalize_minisoar_incident (JObj f) (JObj al) v required = Inr (Some r)"
  shows "\<exists>a identity executor.
      dict_get ''status'' f = JStr ''closed'' \<and> alert_parts al = Inr a \<and> soar_control (sa_kind a) \<noteq> None
    \<and> dict_get ''environment'' al = JStr ''synthetic-lab'' \<and> dict_get ''supported'' al = JBool True
    \<and> identity = json_digest (identity_material a) \<and> dict_get ''identity_hash'' al = JStr identity
    \<and> dict_get ''payload_hash'' al = JStr (json_digest (source_payload a))
    \<and> dict_get ''alert_id'' al = JStr (upstream_id ''ALT-'' identity) \<and> dict_get ''alert_id'' f = dict_get ''alert_id'' al
    \<and> dict_get ''finding_id'' f = JStr (upstream_id ''FND-'' identity)
    \<and> dict_get ''asset_id'' r = dict_get ''asset_id'' al
    \<and> dict_get ''source_payload_hash'' (details_of r) = dict_get ''payload_hash'' al
    \<and> dict_get ''executor_id'' f = JStr executor \<and> dict_get ''execution_actor_id'' (details_of r) = JStr executor
    \<and> (verification_succeeded v \<longrightarrow> (\<exists>kvs w. v = JObj kvs \<and> dict_get ''finding_id'' kvs = dict_get ''finding_id'' f
          \<and> dict_get ''verifier_id'' kvs = JStr w \<and> w \<noteq> executor \<and> dict_get ''verifier_id'' (details_of r) = JStr w))
    \<and> (required \<longrightarrow> verification_succeeded v)"
proof -
  obtain a fid executor owner severity title verifier control where
    top: "dict_get ''status'' f = JStr ''closed''" "required \<longrightarrow> verification_succeeded v"
    and a: "validated_alert al = Inr a"
    and fin: "finding_fields_of f a = Inr (fid, executor, owner, severity, title)"
    and ver: "validated_verifier v fid (verification_succeeded v) = Inr verifier" "verifier \<noteq> Some executor"
    and r: "r = incident_finding f a control fid executor owner severity title (verification_succeeded v) verifier"
    by (rule incident_ok [OF assms])
  obtain b where b: "alert_parts al = Inr b" "sa_asset a = sa_asset b"
    "sa_identity a = json_digest (identity_material b)" "sa_payload a = json_digest (source_payload b)"
    "sa_id a = upstream_id ''ALT-'' (sa_identity a)" "dict_get ''identity_hash'' al = JStr (sa_identity a)"
    "dict_get ''payload_hash'' al = JStr (sa_payload a)" "dict_get ''alert_id'' al = JStr (sa_id a)"
    by (rule validated_alert_ok [OF a])
  note parts = alert_parts_gates [OF b(1)] and fields = finding_fields_of_ok [OF fin]
    and out = incident_finding_fields [OF r]
  have "verification_succeeded v \<longrightarrow> (\<exists>kvs w. v = JObj kvs \<and> dict_get ''finding_id'' kvs = dict_get ''finding_id'' f
      \<and> dict_get ''verifier_id'' kvs = JStr w \<and> w \<noteq> executor \<and> dict_get ''verifier_id'' (details_of r) = JStr w)"
    using validated_verifier_ok [OF ver(1)] ver(2) fields out(5) by (auto simp: opt_json_def)
  then show ?thesis using top parts fields out b by (intro exI [of _ b] exI [of _ "sa_identity a"] exI [of _ executor]) simp
qed

definition demo_soar :: soar_alert where
  "demo_soar = \<lparr>sa_source = ''edr'', sa_event = ''e1'', sa_asset = ''srv'', sa_kind = ''malware'', sa_severity = ''high'',
     sa_identity = [], sa_id = [], sa_account = None, sa_ip = None, sa_detected = utc_text 250000,
     sa_source_detected = demo_time, sa_evidence = None, sa_message = ''Worm'', sa_environment = ''synthetic-lab'',
     sa_owner = ''olga'', sa_payload = []\<rparr>"

definition demo_identity :: string where "demo_identity = json_digest (identity_material demo_soar)"

definition demo_export :: fields where
  "demo_export = [(''alert_id'', JStr (upstream_id ''ALT-'' demo_identity)), (''asset_id'', JStr ''srv''),
     (''detected_at'', JStr demo_time), (''environment'', JStr ''synthetic-lab''), (''identity_hash'', JStr demo_identity),
     (''kind'', JStr ''malware''), (''message'', JStr ''Worm''), (''payload_hash'', JStr (json_digest (source_payload demo_soar))),
     (''risk_owner'', JStr ''olga''), (''severity'', JStr ''high''), (''source'', JStr ''edr''),
     (''source_event_id'', JStr ''e1''), (''supported'', JBool True)]"

definition demo_incident :: fields where
  "demo_incident = [(''alert_id'', JStr (upstream_id ''ALT-'' demo_identity)), (''executor_id'', JStr ''bob''),
     (''finding_id'', JStr (upstream_id ''FND-'' demo_identity)), (''risk_owner'', JStr ''olga''), (''severity'', JStr ''high''),
     (''status'', JStr ''closed''), (''title'', JStr ''Worm'')]"

definition demo_soar_pass :: fields where
  "demo_soar_pass = [(''finding_id'', JStr (upstream_id ''FND-'' demo_identity)), (''passed'', JBool True), (''verifier_id'', JStr ''eve'')]"

lemma hash_digest: "matches lower_digest_rx (text_hash t)"
  by (auto simp: lower_digest_rx_def list_all_iff text_hash_def sha256_hex_digits)

lemma hash_canonical: "is_canonical_text (JStr (text_hash t)) 64"
proof -
  have "is_hex c \<Longrightarrow> edge_char c \<and> inner_char c" for c
    by (auto simp: is_hex_def edge_char_def inner_char_def control_char_def py_isspace_def Let_def)
  moreover have "list_all is_hex (text_hash t)" by (auto simp: list_all_iff text_hash_def sha256_hex_digits)
  ultimately show ?thesis by (auto simp: canonical_text_iff list_all_iff)
qed

lemma upper_hex_char: "is_hex c \<Longrightarrow> upper_hex (upper_char c)"
  by (auto simp: is_hex_def upper_char_def upper_hex_def is_digit_def between_def Let_def)

lemma upstream_id_ok:
  assumes "prefix = ''ALT-'' \<or> prefix = ''FND-''"
  shows "fullmatch (upstream_id_rx prefix) (upstream_id prefix (text_hash t))"
    and "is_canonical_text (JStr (upstream_id prefix (text_hash t))) 20"
proof -
  let ?h = "py_upper (take 16 (text_hash t))"
  have h: "length ?h = 16" "list_all upper_hex ?h"
    by (auto simp: py_upper_def list_all_iff text_hash_def intro!: upper_hex_char dest!: in_set_takeD sha256_hex_digits)
  then show "fullmatch (upstream_id_rx prefix) (upstream_id prefix (text_hash t))"
    by (auto simp: fullmatch_iff upstream_id_rx_def upstream_id_def intro!: matches.seq)
  have "upper_hex c \<Longrightarrow> edge_char c \<and> inner_char c" for c
    by (auto simp: upper_hex_def is_digit_def between_def edge_char_def inner_char_def control_char_def py_isspace_def Let_def)
  moreover have "?h \<noteq> []" using h(1) by auto
  ultimately show "is_canonical_text (JStr (upstream_id prefix (text_hash t))) 20"
    using h assms by (auto simp: canonical_text_iff upstream_id_def list_all_iff text_checks)
qed

lemma demo_export_get:
  "dict_get ''source'' demo_export = JStr ''edr''" "dict_get ''source_event_id'' demo_export = JStr ''e1''"
  "dict_get ''asset_id'' demo_export = JStr ''srv''" "dict_get ''kind'' demo_export = JStr ''malware''"
  "dict_get ''severity'' demo_export = JStr ''high''" "dict_get ''detected_at'' demo_export = JStr demo_time"
  "dict_get ''message'' demo_export = JStr ''Worm''" "dict_get ''environment'' demo_export = JStr ''synthetic-lab''"
  "dict_get ''risk_owner'' demo_export = JStr ''olga''" "dict_get ''supported'' demo_export = JBool True"
  "dict_get ''identity_hash'' demo_export = JStr demo_identity"
  "dict_get ''alert_id'' demo_export = JStr (upstream_id ''ALT-'' demo_identity)"
  "dict_get ''payload_hash'' demo_export = JStr (json_digest (source_payload demo_soar))"
  "dict_get ''account'' demo_export = JNull" "dict_get ''source_ip'' demo_export = JNull"
  "dict_get ''evidence_ref'' demo_export = JNull"
  unfolding demo_export_def by (simp_all add: dict_get_Cons)

lemma demo_incident_get:
  "dict_get ''status'' demo_incident = JStr ''closed''"
  "dict_get ''finding_id'' demo_incident = JStr (upstream_id ''FND-'' demo_identity)"
  "dict_get ''alert_id'' demo_incident = JStr (upstream_id ''ALT-'' demo_identity)"
  "dict_get ''executor_id'' demo_incident = JStr ''bob''" "dict_get ''risk_owner'' demo_incident = JStr ''olga''"
  "dict_get ''severity'' demo_incident = JStr ''high''" "dict_get ''title'' demo_incident = JStr ''Worm''"
  "dict_get ''passed'' demo_soar_pass = JBool True" "dict_get ''verifier_id'' demo_soar_pass = JStr ''eve''"
  "dict_get ''finding_id'' demo_soar_pass = JStr (upstream_id ''FND-'' demo_identity)"
  unfolding demo_incident_def demo_soar_pass_def by (simp_all add: dict_get_Cons)

lemma demo_validated:
  "validated_alert demo_export = Inr (demo_soar\<lparr>sa_identity := demo_identity, sa_id := upstream_id ''ALT-'' demo_identity,
     sa_payload := json_digest (source_payload demo_soar)\<rparr>)"
proof -
  have time: "upstream_time demo_time = Inr (utc_text 250000)"
    using demo_datetime demo_to_utc by (simp add: upstream_time_def demo_time_def)
  have "is_canonical_text (JStr demo_time) 64" by (simp add: demo_time_def text_checks)
  then have "alert_parts demo_export = Inr demo_soar"
    by (simp add: alert_parts_def soar_text_def soar_optional_def contract_text_def demo_export_get soar_control_def severities_def
        time demo_soar_def) (simp add: text_checks)
  then show ?thesis
    using hash_canonical upstream_id_ok hash_digest
    by (simp add: validated_alert_def soar_text_def contract_text_def demo_export_get demo_identity_def json_digest_def
        fullmatch_iff)
qed

lemma demo_minisoar:
  "normalize_minisoar_incident (JObj demo_incident) (JObj demo_export) (JObj demo_soar_pass) True =
     Inr (Some (incident_finding demo_incident (demo_soar\<lparr>sa_identity := demo_identity,
       sa_id := upstream_id ''ALT-'' demo_identity, sa_payload := json_digest (source_payload demo_soar)\<rparr>) ''SEC-END-001''
       (upstream_id ''FND-'' demo_identity) ''bob'' ''olga'' ''high'' ''Worm'' True (Some ''eve'')))"
proof -
  have fields: "finding_fields_of demo_incident (demo_soar\<lparr>sa_identity := demo_identity,
      sa_id := upstream_id ''ALT-'' demo_identity, sa_payload := p\<rparr>) =
      Inr (upstream_id ''FND-'' demo_identity, ''bob'', ''olga'', ''high'', ''Worm'')" for p
    using upstream_id_ok [of "''FND-''"]
    by (simp add: finding_fields_of_def soar_text_def contract_text_def demo_incident_get demo_soar_def demo_identity_def
        json_digest_def) (simp add: text_checks)
  have "validated_verifier (JObj demo_soar_pass) (upstream_id ''FND-'' demo_identity) True = Inr (Some ''eve'')"
    by (simp add: validated_verifier_def soar_text_def contract_text_def demo_incident_get text_checks)
  then show ?thesis
    by (simp add: normalize_minisoar_incident_def checked_incident_def demo_export_get demo_incident_get demo_validated fields
        verification_succeeded_def) (simp add: demo_soar_def soar_control_def)
qed

theorem minisoar_findings_are_bound_witness:
  "\<exists>r a w. normalize_minisoar_incident (JObj demo_incident) (JObj demo_export) (JObj demo_soar_pass) True = Inr (Some r)
     \<and> alert_parts demo_export = Inr a \<and> dict_get ''payload_hash'' demo_export = JStr (json_digest (source_payload a))
     \<and> dict_get ''verifier_id'' demo_soar_pass = JStr w \<and> dict_get ''executor_id'' demo_incident \<noteq> JStr w"
proof -
  have "verification_succeeded (JObj demo_soar_pass)" by (simp add: verification_succeeded_def demo_incident_get)
  then show ?thesis using minisoar_findings_are_bound [OF demo_minisoar] demo_minisoar by fastforce
qed

section \<open>Windows events with absent fields\<close>

lemma event_code_present: "event_code (dict_get ''EventID'' event) = Inr (Some n) \<Longrightarrow> obj_get ''EventID'' event \<noteq> None"
  by (cases "obj_get ''EventID'' event") (simp_all add: dict_get_def)

text \<open>
  C26. The check for missing fields misses absent ones: a failed-logon Windows event in which computer, time, account and record id are all
  absent, with any source address or none and any status text but closed and resolved or none, is not refused as incomplete. The adapter puts
  \<open>None\<close> under the renamed keys and checks \<open>str(None)\<close>, so the event becomes a finding about the asset and the
  account called \<open>None\<close> at the time \<open>None\<close>, and all such events with the same address have the same finding id.
\<close>

theorem absent_windows_fields_are_accepted:
  assumes "event_code (dict_get ''EventID'' event) = Inr (Some 4625)"
    and "list_all (\<lambda>k. obj_get k event = None) [''Computer'', ''TimeCreated'', ''TargetUserName'', ''EventRecordID'']"
    and "obj_get ''IpAddress'' event = map_option JStr address"
    and "obj_get ''status'' event = map_option JStr status" and "status \<notin> {Some ''closed'', Some ''resolved''}"
  shows "\<exists>r. normalize_security_event event = Inr (Some r) \<and> dict_get ''asset_id'' r = JStr ''None''
    \<and> dict_get ''title'' r = JStr ''Failed logon detected for None'' \<and> dict_get ''timestamp'' (details_of r) = JStr ''None''
    \<and> dict_get ''finding_id'' r = JStr (short_id ''SEC-AUTH-''
        (''logwatcher||||'' @ (case address of None \<Rightarrow> [] | Some a \<Rightarrow> a) @ ''|None|None''))"
proof -
  let ?a = "case address of None \<Rightarrow> [] | Some a \<Rightarrow> a"
  let ?e = "[(''event_code'', JInt 4625), (''event_id'', JStr (''|||'' @ ?a)), (''asset_id'', JNull), (''timestamp'', JNull),
    (''account'', JNull), (''source_ip'', (case address of None \<Rightarrow> JNull | Some a \<Rightarrow> JStr a)), (''privileged'', JBool False),
    (''status'', JStr (case status of None \<Rightarrow> ''open'' | Some st \<Rightarrow> st))]"
  have "renamed_event event = Inr ?e"
    using assms(2-4) event_code_present [OF assms(1)]
    by (simp add: renamed_event_def windows_event_def assms(1))
      (simp add: dict_get_def dict_get_or_def text_of_def py_or_def truthy.simps py_lower_def split: option.split)
  moreover have "py_strip (''|||'' @ ?a) \<noteq> []"
    by (simp add: py_strip_def py_lstrip_id py_rstrip_def dropWhile_eq_Nil_conv py_isspace_def)
  moreover have "py_strip ''None'' \<noteq> []" by code_simp
  ultimately have "normalize_security_event event = Inr (Some (event_finding ?e False))"
    using assms(5)
    by (simp add: normalize_security_event_def dict_get_Cons status_done_def dict_get_or_def obj_get_def event_required_def
        text_of_def strict_bool_def split: option.splits)
  moreover have get: "dict_get ''event_id'' ?e = JStr (''|||'' @ ?a)" "dict_get ''asset_id'' ?e = JNull" "dict_get ''account'' ?e = JNull"
    "dict_get ''timestamp'' ?e = JNull" by (simp_all add: dict_get_Cons)
  have "dict_get ''asset_id'' (event_finding ?e False) = JStr ''None''"
    "dict_get ''title'' (event_finding ?e False) = JStr ''Failed logon detected for None''"
    "dict_get ''finding_id'' (event_finding ?e False) = JStr (short_id ''SEC-AUTH-'' (''logwatcher||||'' @ ?a @ ''|None|None''))"
    "dict_get ''timestamp'' (details_of (event_finding ?e False)) = JStr ''None''"
    unfolding event_finding_def Let_def get details_of_def by (simp_all add: dict_get_Cons)
  ultimately show ?thesis by blast
qed

theorem absent_windows_fields_are_accepted_witness:
  "\<exists>r. normalize_security_event [(''EventID'', JStr ''4625''), (''IpAddress'', JStr ''10.0.0.9'')] = Inr (Some r)
     \<and> dict_get ''asset_id'' r = JStr ''None''
     \<and> dict_get ''finding_id'' r = JStr (short_id ''SEC-AUTH-'' ''logwatcher||||10.0.0.9|None|None'')"
proof -
  let ?e = "[(''EventID'', JStr ''4625''), (''IpAddress'', JStr ''10.0.0.9'')]"
  have code: "event_code (dict_get ''EventID'' ?e) = Inr (Some 4625)"
    by (simp add: dict_get_Cons py_strip_def py_lstrip_id py_rstrip_id py_isspace_def py_isdigit_def isdigit_char_def int_of_digits_def is_digit_def
        read_nat_def digit_val_def)
  have "obj_get ''IpAddress'' ?e = map_option JStr (Some ''10.0.0.9'')" "obj_get ''status'' ?e = map_option JStr None"
    by (simp_all add: obj_get_def)
  from absent_windows_fields_are_accepted [OF code _ this] show ?thesis by (auto simp: obj_get_def)
qed

end
