(* ===== verification/Bridge_Examples.thy ===== *)
theory Bridge_Examples
  imports Bridge_Audit Adapter_Properties
begin

text \<open>
  Concrete runs of the bridges: one evidence bundle with a verified malware incident, imported into an
  empty store, and one closed request of a JML database. They apply the properties of the bridges at inputs where
  every hypothesis holds.
\<close>

section \<open>An evidence bundle\<close>

definition demo_bytes :: "fields \<Rightarrow> byte list" where
  "demo_bytes kvs = utf8_encode (json_dumps compact_ascii (JObj kvs))"

definition demo_line :: "string \<Rightarrow> fields \<Rightarrow> string" where
  "demo_line name kvs = sha256_hex (demo_bytes kvs) @ ''  '' @ name"

definition demo_lines :: "string list" where
  "demo_lines = [demo_line ''alert.json'' demo_export, demo_line ''finding.json'' demo_incident,
     demo_line ''verification.json'' demo_soar_pass]"

definition demo_manifest :: "byte list" where
  "demo_manifest = utf8_encode (concat (map (\<lambda>l. l @ [line_feed]) demo_lines))"

definition demo_bundle :: bundle_files where
  "demo_bundle name = map_of [(manifest_name, demo_manifest), (''alert.json'', demo_bytes demo_export),
     (''finding.json'', demo_bytes demo_incident), (''verification.json'', demo_bytes demo_soar_pass)] name"

lemma hex_rx_text: "matches q t \<Longrightarrow> matches (RSeq (r_times 64 (RChar is_hex)) q) (sha256_hex b @ t)"
  by (rule matches.seq) (simp_all add: list_all_iff sha256_hex_digits)

lemma demo_line_ok:
  assumes "name = ''alert.json'' \<or> name = ''finding.json'' \<or> name = ''verification.json''"
  shows "fullmatch sum_line_rx (demo_line name kvs)" "take 64 (demo_line name kvs) = sha256_hex (demo_bytes kvs)"
    "drop 66 (demo_line name kvs) = name" "no_break (demo_line name kvs)"
proof -
  have "matches (RSeq (RChar ascii_alnum) (r_upto 127 (RChar (\<lambda>c. ascii_alnum c \<or> c \<in> {CHR ''.'', CHR ''_'', CHR ''-''})))) name"
    using assms
    by (elim disjE; simp add: matches_char_seq ascii_alnum_def ascii_upper_def ascii_lower_def is_digit_def between_def)
  then show "fullmatch sum_line_rx (demo_line name kvs)"
    unfolding fullmatch_iff sum_line_rx_def demo_line_def r_seq.simps by (intro hex_rx_text) simp
  show "take 64 (demo_line name kvs) = sha256_hex (demo_bytes kvs)" "drop 66 (demo_line name kvs) = name"
    by (simp_all add: demo_line_def)
  have "is_hex c \<Longrightarrow> \<not> is_linebreak c" for c by (auto simp: is_hex_def is_linebreak_def Let_def)
  then have "no_break (sha256_hex b)" for b by (auto simp: no_break_def list_all_iff sha256_hex_digits)
  then show "no_break (demo_line name kvs)" using assms by (auto simp: demo_line_def is_linebreak_def)
qed

lemma demo_split: "py_splitlines (concat (map (\<lambda>l. l @ [line_feed]) demo_lines)) = demo_lines"
proof -
  have "py_splitlines (concat (map (\<lambda>l. l @ [line_feed]) ls)) = ls" if "\<And>l. l \<in> set ls \<Longrightarrow> no_break l" for ls
    unfolding py_splitlines_def using that by (induction ls) (auto simp: split_from_line)
  moreover have "no_break l" if "l \<in> set demo_lines" for l using that demo_line_ok(4) by (auto simp: demo_lines_def)
  ultimately show ?thesis by blast
qed

definition demo_declared :: "(string \<times> string) list" where
  "demo_declared = [(''alert.json'', sha256_hex (demo_bytes demo_export)), (''finding.json'', sha256_hex (demo_bytes demo_incident)),
     (''verification.json'', sha256_hex (demo_bytes demo_soar_pass))]"

lemma demo_fields_read:
  assumes "kvs = demo_export \<or> kvs = demo_incident \<or> kvs = demo_soar_pass"
  shows "json_loads (json_dumps compact_ascii (JObj kvs)) = Some (JObj kvs)"
proof -
  have "json_wf (JObj kvs) \<and> json_canon (JObj kvs) = JObj kvs"
    using assms by (auto simp: demo_export_def demo_incident_def demo_soar_pass_def)
  then show ?thesis using json_roundtrip [of compact_ascii "JObj kvs"] by simp
qed

lemma demo_read_bundle:
  "read_bundle demo_bundle (Some (sha256_hex demo_manifest)) =
     Inr (JObj demo_incident, JObj demo_export, JObj demo_soar_pass, demo_declared, sha256_hex demo_manifest)"
proof -
  have files: "demo_bundle manifest_name = Some demo_manifest" "demo_bundle ''alert.json'' = Some (demo_bytes demo_export)"
    "demo_bundle ''finding.json'' = Some (demo_bytes demo_incident)" "demo_bundle ''verification.json'' = Some (demo_bytes demo_soar_pass)"
    by (simp_all add: demo_bundle_def manifest_name_def)
  have "utf8_decode demo_manifest = Some (concat (map (\<lambda>l. l @ [line_feed]) demo_lines))" by (simp add: demo_manifest_def)
  moreover have "declared_digests [] demo_lines = Inr demo_declared"
    by (simp add: demo_lines_def demo_line_ok demo_declared_def)
  moreover have "checked_records demo_bundle demo_declared = Inr [(''alert.json'', demo_bytes demo_export),
      (''finding.json'', demo_bytes demo_incident), (''verification.json'', demo_bytes demo_soar_pass)]"
    by (simp add: demo_declared_def read_regular_bytes_def files)
  moreover have "sort demo_declared = demo_declared"
    by (simp add: demo_declared_def)
  moreover have "fullmatch lower_digest_rx (sha256_hex demo_manifest)"
    by (simp add: fullmatch_iff lower_digest_rx_def list_all_iff sha256_hex_digits)
  ultimately have "verified_bundle_records demo_bundle (Some (sha256_hex demo_manifest)) =
      Inr ([(''alert.json'', demo_bytes demo_export), (''finding.json'', demo_bytes demo_incident),
        (''verification.json'', demo_bytes demo_soar_pass)], demo_declared, sha256_hex demo_manifest)"
    by (simp add: verified_bundle_records_def read_regular_bytes_def files demo_split required_records_def) (simp add: demo_declared_def)
  then show ?thesis
    by (simp add: read_bundle_def bundle_json_def demo_bytes_def demo_fields_read)
qed

definition demo_alert_record :: soar_alert where
  "demo_alert_record = demo_soar\<lparr>sa_identity := demo_identity, sa_id := upstream_id ''ALT-'' demo_identity,
     sa_payload := json_digest (source_payload demo_soar)\<rparr>"

definition demo_id :: string where
  "demo_id = short_id ''SEC-IR-'' (incident_identity (upstream_id ''FND-'' demo_identity) ''SEC-END-001'' ''srv'')"

definition demo_found :: fields where
  "demo_found = with_bundle (incident_finding demo_incident demo_alert_record ''SEC-END-001'' (upstream_id ''FND-'' demo_identity)
     ''bob'' ''olga'' ''high'' ''Worm'' True (Some ''eve'')) demo_declared (sha256_hex demo_manifest)"

definition demo_hash :: string where
  "demo_hash = text_hash (json_dumps compact_utf8 (JObj demo_found))"

lemma demo_bundle_finding: "bundle_finding demo_bundle (Some (sha256_hex demo_manifest)) True = Inr (Some demo_found)"
  using demo_minisoar demo_read_bundle by (simp add: bundle_finding_def demo_found_def demo_alert_record_def)

lemma demo_found_get:
  "dict_get ''finding_id'' demo_found = JStr demo_id" "dict_get ''source'' demo_found = JStr ''minisoar_incident_response''"
  "dict_get ''control_id'' demo_found = JStr ''SEC-END-001''" "dict_get ''asset_id'' demo_found = JStr ''srv''"
  "dict_get ''title'' demo_found = JStr ''Incident response closed: Worm''" "dict_get ''risk_owner'' demo_found = JStr ''olga''"
  "dict_get ''severity'' demo_found = JStr ''high''"
  unfolding demo_found_def with_bundle_def incident_finding_def
  by (simp_all add: dict_get_put dict_get_Cons demo_id_def) (simp add: demo_alert_record_def demo_soar_def)+

lemma demo_found_ok:
  "evidence_hash demo_found = Inr demo_hash" "check_external demo_found = Inr ()" "digest_ok (JStr demo_hash)"
proof -
  have "json_finite (JObj demo_found)"
    unfolding demo_found_def with_bundle_def incident_finding_def finding_details_def
    by (simp add: dict_get_Cons demo_declared_def demo_incident_def opt_json_def) (simp add: demo_alert_record_def demo_soar_def)
  then show "evidence_hash demo_found = Inr demo_hash" by (simp add: evidence_hash_def canonical_json_def demo_hash_def)
  have "list_all (\<lambda>k. obj_get k demo_found \<noteq> None) finding_fields"
    unfolding demo_found_def with_bundle_def incident_finding_def finding_fields_def obj_get_def by simp
  then show "check_external demo_found = Inr ()"
    unfolding check_external_def demo_found_get by (simp add: severity_names_def list_all_iff filter_empty_conv)
  show "digest_ok (JStr demo_hash)"
    by (auto simp: digest_ok_def demo_hash_def list_all_iff text_hash_def sha256_hex_digits)
qed

lemma demo_event_details:
  "json_loads (json_dumps compact_ascii (JObj [(''control_id'', JStr c), (''source'', JStr s)])) =
     Some (JObj [(''control_id'', JStr c), (''source'', JStr s)])"
  using json_roundtrip [of compact_ascii "JObj [(''control_id'', JStr c), (''source'', JStr s)]"] by simp

lemma take_hash_kept: "0 < n \<Longrightarrow> py_strip (take n (text_hash t)) \<noteq> []"
proof -
  assume n: "0 < n"
  have "is_hex c \<Longrightarrow> \<not> py_isspace c" for c by (auto simp: is_hex_def py_isspace_def Let_def)
  then have all: "list_all (\<lambda>c. \<not> py_isspace c) (take n (text_hash t))"
    by (auto simp: list_all_iff text_hash_def dest!: in_set_takeD sha256_hex_digits)
  have ne: "take n (text_hash t) \<noteq> []" using n by simp
  have "\<not> py_isspace (hd (take n (text_hash t)))" "\<not> py_isspace (last (take n (text_hash t)))"
    using all hd_in_set [OF ne] last_in_set [OF ne] unfolding list_all_iff by blast+
  with ne show ?thesis by (simp add: py_strip_def py_lstrip_id py_rstrip_id)
qed

lemma demo_first_run:
  "\<exists>r db log. run_minisoar_bridge (Inr ()) (Inr ()) demo_bundle (Some (sha256_hex demo_manifest)) True env 5 6 (empty_state, None)
     = (Inr r, (db, log)) \<and> br_finding r = Some (JStr demo_id) \<and> br_created r \<and> br_errors r = 0"
proof -
  let ?r = "new_result\<lparr>br_read := True\<rparr>"
  obtain row where row: "bound_finding demo_found 5 (Some demo_hash) = Inr row" "xf_id row = demo_id"
    unfolding bound_finding_def demo_found_get by simp
  let ?e = "import_event demo_found demo_id demo_hash ''created'' 5"
  let ?d = "[(''control_id'', JStr ''SEC-END-001''), (''source'', JStr ''minisoar_incident_response'')]"
  define db where "db = empty_state\<lparr>st_findings := [row], st_events := [?e]\<rparr>"
  have "import_change demo_found demo_id demo_hash 5 empty_state = Inr (db, ''created'')"
    using row by (simp add: import_change_def find_import_def find_external_def empty_state_def insert_row_def event_keys_def db_def Let_def)
  moreover have "find_import demo_id demo_hash db = Some ?e" by (simp add: db_def find_import_def)
  moreover have "undelivered_event (Some ?e) = Inr (Some (?e, JObj ?d))"
    using demo_event_details by (simp add: undelivered_event_def) (simp add: import_event_def demo_found_get Let_def)
  ultimately have rec: "record_external_finding_import demo_found (JStr demo_hash) 5 empty_state =
      (Inr (''created'', Some (?e, JObj ?d)), db)"
    using demo_found_ok demo_found_get by (simp add: record_external_finding_import_def)
  have "py_strip (xe_id ?e) \<noteq> []" by (simp add: import_event_def import_event_id_def take_hash_kept Let_def)
  then have "\<exists>rec log. append_idempotent env (xe_id ?e) (xe_type ?e) soar_bridge_actor demo_id (Some ?d) None = (Inr (rec, True), log)"
    by (simp add: append_idempotent_def find_log_event_def log_blank_def append_unlocked_def last_log_hash_def canonical_json_def
        record_fields_def soar_bridge_actor_def Let_def)
  then obtain rc log where app: "append_idempotent env (xe_id ?e) (xe_type ?e) soar_bridge_actor demo_id (Some ?d) None = (Inr (rc, True), log)"
    by blast
  obtain db2 where mark: "mark_audit_delivered (xe_id ?e) 6 db = (Inr (), db2)"
    by (simp add: mark_audit_delivered_def db_def rowcount_def)
  have "import_incident env 5 6 ?r demo_found (empty_state, None) =
      (Inr (?r\<lparr>br_finding := Some (JStr demo_id), br_created := True\<rparr>), (db2, log))"
    using demo_found_ok(1) rec app mark
    by (simp add: import_incident_def demo_found_get apply_action_def deliver_audit_def Let_def)
  then show ?thesis using bundle_run [OF demo_bundle_finding] by simp
qed

definition demo_bridge_env :: audit_env where
  "demo_bridge_env = \<lparr>ae_recorded = ''2026-07-01T00:00:00Z'', ae_stamp = ''1782864000.0''\<rparr>"

definition demo_tick :: "int \<Rightarrow> nat \<Rightarrow> int \<times> audit_env" where
  "demo_tick now n = (now + int n, demo_bridge_env)"

theorem bundles_are_imported_once_witness:
  "\<exists>r db log r' db2. run_minisoar_bridge (Inr ()) (Inr ()) demo_bundle (Some (sha256_hex demo_manifest)) True demo_bridge_env 5 6 (empty_state, None)
     = (Inr r, (db, log)) \<and> br_created r
   \<and> run_minisoar_bridge (Inr ()) (Inr ()) demo_bundle (Some (sha256_hex demo_manifest)) True demo_bridge_env 7 8 (db, log) = (Inr r', (db2, log))
   \<and> br_replayed r' \<and> \<not> br_created r' \<and> db2 = db"
proof -
  let ?run = "run_minisoar_bridge (Inr ()) (Inr ()) demo_bundle (Some (sha256_hex demo_manifest)) True demo_bridge_env"
  obtain r db log where first: "?run 5 6 (empty_state, None) = (Inr r, (db, log))" "br_finding r = Some (JStr demo_id)"
      "br_created r" "br_errors r = 0" using demo_first_run by blast
  have ok: "state_ok empty_state" by (simp add: state_ok_def empty_state_def)
  have some: "br_finding r \<noteq> None" using first(2) by simp
  have "import_incident demo_bridge_env 5 6 (new_result\<lparr>br_read := True\<rparr>) demo_found (empty_state, None) = (Inr r, (db, log))"
    using first(1) bundle_run [OF demo_bundle_finding] by simp
  then obtain h where h: "evidence_hash demo_found = Inr h" "delivered demo_id h db" "state_ok db"
    by (rule import_incident_state) (use some ok demo_found_get(1) first(4) in auto)
  then obtain e where e: "e \<in> set (st_events db)" "xe_finding e = demo_id" "xe_hash e = demo_hash" "xe_delivered e \<noteq> None"
    using demo_found_ok(1) by (auto simp: delivered_def)
  have "find_import demo_id demo_hash db = Some e"
    using find_key [OF _ e(1), of "\<lambda>e. (xe_finding e, xe_hash e)"] h(3) e(2,3) by (simp add: state_ok_def find_import_def)
  then have second: "?run 7 8 (run_state_ops [] db, log) =
      (Inr (new_result\<lparr>br_read := True, br_finding := Some (JStr demo_id), br_replayed := True\<rparr>), (db, log))"
    using replay_delivered [of demo_id demo_hash "(db, log)" e demo_found "new_result\<lparr>br_read := True\<rparr>" demo_bridge_env 7 8]
      e(4) demo_found_ok demo_found_get(1) bundle_run [OF demo_bundle_finding] by simp
  from bundles_are_imported_once [OF ok first(1) some second] first(1,3) second show ?thesis by auto
qed

theorem only_trusted_bundles_are_read_witness:
  "\<exists>r st manifest. run_minisoar_bridge (Inr ()) (Inr ()) demo_bundle (Some (sha256_hex demo_manifest)) True demo_bridge_env 5 6 (empty_state, None)
     = (Inr r, st) \<and> br_read r \<and> demo_bundle manifest_name = Some manifest \<and> sha256_hex manifest = sha256_hex demo_manifest"
proof -
  obtain r st where run: "run_minisoar_bridge (Inr ()) (Inr ()) demo_bundle (Some (sha256_hex demo_manifest)) True demo_bridge_env 5 6
      (empty_state, None) = (Inr r, st)" "br_errors r = 0" using demo_first_run by blast
  from only_trusted_bundles_are_read [OF run(1)] run show ?thesis by (auto split: if_splits)
qed

section \<open>A JML request\<close>

definition demo_jml_db :: jml_db where
  "demo_jml_db = \<lparr>jd_requests = [demo_request], jd_verifications = [(1, demo_verification)],
     jd_executions = [(1, JStr ''JML-1'', JStr ''x1'')]\<rparr>"

lemma demo_jml_rows:
  "dict_get ''request_id'' demo_request = JStr ''JML-1''"
  "latest_verification demo_jml_db (JStr ''JML-1'') = JObj demo_verification"
  "latest_execution_actor demo_jml_db (JStr ''JML-1'') = JStr ''x1''"
  by (simp_all add: demo_request_def dict_get_Cons latest_verification_def latest_execution_actor_def demo_jml_db_def sql_same_def
      latest_def demo_verification_def)

definition demo_jml_finding :: fields where
  "demo_jml_finding = jml_finding ''leaver'' ''SEC-IAM-006'' ''JML-1'' ''kim'' ''IT'' ''m1'' ''e1'' JNull ''v1'' ''x1''"

lemma demo_jml_normalized:
  "normalize_jml_request (JObj demo_request) (latest_verification demo_jml_db (dict_get ''request_id'' demo_request))
     (latest_execution_actor demo_jml_db (dict_get ''request_id'' demo_request)) = Inr (Some demo_jml_finding)"
  using demo_jml by (simp add: demo_jml_rows demo_jml_finding_def)

lemma demo_jml_finding_id: "dict_get ''finding_id'' demo_jml_finding = JStr ''SEC-IAM-1''"
  by (simp add: demo_jml_finding_def jml_finding_def dict_get_Cons removeprefix_def)

lemma demo_refused_log: "verify_log (Some ''x'') = Inr (False, ''Audit log could not be parsed safely.'')"
proof -
  have "json_loads ''x'' = None" by code_simp
  then show ?thesis by (simp add: verify_log_def py_splitlines_def is_linebreak_def carriage_return_def)
qed

theorem failed_append_loses_creation_witness:
  "\<exists>db1 e details calls calls'. run_jml_bridge (Some demo_jml_db) None (demo_tick 5) (empty_state, Some ''x'') = (Inl e, (db1, Some ''x''))
     \<and> find_external ''SEC-IAM-1'' db1 \<noteq> None
     \<and> snd (snd (run_jml_bridge (Some demo_jml_db) None (demo_tick 9) (db1, None))) =
         run_appends ((snd (demo_tick 9 (Suc 0)), ''bridge.jml.finding.reassessed'', ActorText ''jml-bridge-connector'', ''SEC-IAM-1'',
           Some details) # calls) None
     \<and> find_external ''SEC-IAM-1'' (store_after [(Some demo_jml_db, None, demo_tick 9, None)] db1) \<noteq> None
     \<and> snd (snd (run_jml_bridge (Some demo_jml_db) None (demo_tick 11)
           (store_after [(Some demo_jml_db, None, demo_tick 9, None)] db1, None))) = run_appends calls' None
     \<and> list_all (not_created ''SEC-IAM-1'') calls'"
proof -
  have "selected_requests demo_jml_db None = [demo_request]" "find_external ''SEC-IAM-1'' empty_state = None" "py_strip ''x'' \<noteq> []"
    by (simp_all add: demo_jml_db_def selected_requests_def find_external_def empty_state_def py_strip_def py_lstrip_id py_rstrip_id py_isspace_def)
  from failed_append_loses_creation [OF this(1) demo_jml_normalized demo_jml_finding_id this(2) demo_refused_log this(3),
      of "demo_tick 5" "demo_tick 9"]
  show ?thesis by meson
qed

lemma demo_jml_run:
  "\<exists>r st. run_jml_bridge (Some demo_jml_db) None tick (empty_state, None) = (Inr r, st) \<and> jr_reason r = None \<and> jr_read r = 1"
proof -
  obtain control db where up: "dict_get ''control_id'' demo_jml_finding = JStr control"
      "dict_get ''source'' demo_jml_finding = JStr ''jml_automation''"
      "upsert_external_finding demo_jml_finding (fst (tick (Suc 0))) empty_state = (Inr True, db)"
    by (rule jml_upsert [OF demo_jml_normalized, of "fst (tick (Suc 0))" empty_state])
      (auto simp: find_external_def empty_state_def)
  obtain rc log where "append_log (snd (tick (Suc 0))) (jml_event_type True) (ActorText ''jml-bridge-connector'') ''SEC-IAM-1''
      (Some [(''control_id'', JStr control), (''source'', JStr ''jml_automation'')]) None = (Inr rc, log)"
    using append_fresh by blast
  moreover have "selected_requests demo_jml_db None = [demo_request]" by (simp add: selected_requests_def demo_jml_db_def)
  ultimately show ?thesis using up demo_jml_normalized demo_jml_finding_id
    by (simp add: run_jml_bridge_def store_request_def Let_def new_jml_result_def count_finding_def)
qed

theorem jml_bridge_accounts_for_requests_witness:
  "\<exists>r st. run_jml_bridge (Some demo_jml_db) None (demo_tick 5) (empty_state, None) = (Inr r, st) \<and> jr_read r = 1
     \<and> length (selected_requests demo_jml_db None) = 1 \<and> 1 = jr_created r + jr_reassessed r + jr_skipped r + jr_errors r"
proof -
  obtain r st where run: "run_jml_bridge (Some demo_jml_db) None (demo_tick 5) (empty_state, None) = (Inr r, st)" "jr_reason r = None" "jr_read r = 1"
    using demo_jml_run by blast
  from jml_bridge_accounts_for_requests [OF run(1,2)] run show ?thesis by auto
qed

end
