(* ===== verification/Evidence_Ledger.thy ===== *)
theory Evidence_Ledger
  imports Line_Chain Py_Values
begin

text \<open>
  Control evaluation and the evidence ledger of \<open>sentinelgrc.py\<close>. Controls and postures are decoded JSON values;
  a subscript of a dictionary raises \<open>KeyError\<close>, one of another value the error of its type. The ledger is the text of the
  file, \<open>None\<close> when it does not exist, one canonical ASCII record per line; the lock file makes an append one step. The time written
  into a record is an argument.
\<close>

section \<open>Control evaluation\<close>

definition severity_weight :: "string \<Rightarrow> int option" where
  "severity_weight s = map_of [(''low'', 1), (''medium'', 3), (''high'', 6), (''critical'', 10)] s"

definition criticality_multiplier :: "string \<Rightarrow> int option" where
  "criticality_multiplier s = map_of [(''low'', 1), (''medium'', 2), (''high'', 3), (''critical'', 4)] s"

definition ledger_json :: "json \<Rightarrow> string" where
  "ledger_json v = json_dumps compact_ascii v"

definition get_item :: "string \<Rightarrow> (string \<times> json) list \<Rightarrow> json outcome" where
  "get_item k kvs = (case obj_get k kvs of None \<Rightarrow> Inl (KeyError k) | Some v \<Rightarrow> Inr v)"

text \<open>\<open>posture.get(field)\<close> for a field name of any type.\<close>

definition get_field :: "json \<Rightarrow> (string \<times> json) list \<Rightarrow> json outcome" where
  "get_field field kvs =
     (if \<not> hashable field then Inl (OtherError ''TypeError'')
      else Inr (case field of JStr k \<Rightarrow> dict_get k kvs | _ \<Rightarrow> JNull))"

text \<open>Numbers on the scale of floats, and \<open>a <= b\<close> on them; a NaN is not ordered.\<close>

fun number_value :: "json \<Rightarrow> pyfloat option" where
  "number_value (JInt i) = Some (Fixed (i * 1000000))"
| "number_value (JBool b) = Some (Fixed (if b then 1000000 else 0))"
| "number_value (JFloat f) = Some f"
| "number_value _ = None"

fun float_le :: "pyfloat \<Rightarrow> pyfloat \<Rightarrow> bool" where
  "float_le NotANumber y = False"
| "float_le x NotANumber = False"
| "float_le (Infinite True) y = True"
| "float_le x (Infinite False) = True"
| "float_le (Fixed m) (Fixed n) = (m \<le> n)"
| "float_le _ _ = False"

definition is_measure :: "json \<Rightarrow> bool" where
  "is_measure v = (case v of JInt i \<Rightarrow> True | JFloat f \<Rightarrow> True | _ \<Rightarrow> False)"

definition within_limit :: "json \<Rightarrow> json \<Rightarrow> bool outcome" where
  "within_limit observed limit =
     (if \<not> is_measure observed then Inr False
      else case (number_value observed, number_value limit) of
        (Some x, Some y) \<Rightarrow> Inr (float_le x y)
      | _ \<Rightarrow> Inl (OtherError ''TypeError''))"

text \<open>The expected value as reported, and whether the control passed.\<close>

definition control_check :: "(string \<times> json) list \<Rightarrow> json \<Rightarrow> (json \<times> bool) outcome" where
  "control_check control observed =
     (case obj_get ''expected'' control of
        Some expected \<Rightarrow> Inr (expected, py_equal observed expected)
      | None \<Rightarrow>
          outcome_bind (get_item ''max_value'' control) (\<lambda>limit.
          outcome_bind (within_limit observed limit) (\<lambda>passed.
            Inr (JStr (''<= '' @ py_str limit), passed))))"

definition severity_item :: "json \<Rightarrow> int outcome" where
  "severity_item v =
     (if \<not> hashable v then Inl (OtherError ''TypeError'')
      else case v of
        JStr s \<Rightarrow> (case severity_weight s of None \<Rightarrow> Inl (KeyError s) | Some w \<Rightarrow> Inr w)
      | _ \<Rightarrow> Inl (KeyError (py_str v)))"

definition criticality_factor :: "string \<Rightarrow> int" where
  "criticality_factor s = (case criticality_multiplier s of None \<Rightarrow> 2 | Some m \<Rightarrow> m)"

definition risk_score :: "bool \<Rightarrow> json \<Rightarrow> string \<Rightarrow> int outcome" where
  "risk_score passed severity criticality =
     (if passed then Inr 0
      else outcome_bind (severity_item severity) (\<lambda>w. Inr (w * criticality_factor criticality)))"

definition criticality_of :: "(string \<times> json) list \<Rightarrow> string outcome" where
  "criticality_of posture =
     (case dict_get_or ''criticality'' (JStr ''medium'') posture of
        JStr s \<Rightarrow> Inr (py_lower s)
      | _ \<Rightarrow> Inl (OtherError ''AttributeError''))"

definition evaluate_fields :: "(string \<times> json) list \<Rightarrow> (string \<times> json) list \<Rightarrow> (string \<times> json) list outcome" where
  "evaluate_fields control posture =
     outcome_bind (get_item ''required_field'' control) (\<lambda>field.
     outcome_bind (get_field field posture) (\<lambda>observed.
     outcome_bind (control_check control observed) (\<lambda>(expected, passed).
     outcome_bind (get_item ''severity'' control) (\<lambda>severity.
     outcome_bind (criticality_of posture) (\<lambda>criticality.
     outcome_bind (risk_score passed severity criticality) (\<lambda>risk.
     outcome_bind (get_item ''id'' control) (\<lambda>cid.
     outcome_bind (get_item ''name'' control) (\<lambda>name.
     outcome_bind (get_item ''owner'' control) (\<lambda>owner.
     outcome_bind (get_item ''iso27002'' control) (\<lambda>iso.
     outcome_bind (get_item ''nist_csf'' control) (\<lambda>nist.
       Inr [(''control_id'', cid), (''control_name'', name), (''owner'', owner),
         (''framework_mapping'', JObj [(''iso27002'', iso), (''nist_csf'', nist)]),
         (''field'', field), (''expected'', expected), (''observed'', observed), (''passed'', JBool passed),
         (''severity'', severity), (''risk_score'', JInt risk)])))))))))))"

definition evaluate_control :: "json \<Rightarrow> json \<Rightarrow> (string \<times> json) list outcome" where
  "evaluate_control control posture =
     (case control of
        JObj c \<Rightarrow>
          (case posture of
             JObj p \<Rightarrow> evaluate_fields c p
           | _ \<Rightarrow> outcome_bind (get_item ''required_field'' c) (\<lambda>_. Inl (OtherError ''AttributeError'')))
      | _ \<Rightarrow> Inl (OtherError ''TypeError''))"

fun map_outcome :: "('a \<Rightarrow> 'b outcome) \<Rightarrow> 'a list \<Rightarrow> 'b list outcome" where
  "map_outcome f [] = Inr []"
| "map_outcome f (x # xs) = outcome_bind (f x) (\<lambda>y. outcome_bind (map_outcome f xs) (\<lambda>ys. Inr (y # ys)))"

section \<open>Evidence records\<close>

definition dict_update :: "(string \<times> json) list \<Rightarrow> (string \<times> json) list \<Rightarrow> (string \<times> json) list" where
  "dict_update kvs extra = foldl (\<lambda>d (k, v). dict_put k v d) kvs extra"

definition evidence_body ::
    "string \<Rightarrow> (string \<times> json) list \<Rightarrow> (string \<times> json) list list \<Rightarrow> json \<Rightarrow> (string \<times> json) list option \<Rightarrow> (string \<times> json) list" where
  "evidence_body recorded posture results previous extra =
     dict_update
       [(''schema_version'', JStr ''1.0''), (''recorded_at'', JStr recorded),
        (''asset'', JObj (map (\<lambda>k. (k, dict_get k posture))
           [''asset_id'', ''hostname'', ''owner'', ''criticality'', ''collected_at''])),
        (''results'', JList (map JObj results)), (''previous_hash'', previous)]
       (case extra of None \<Rightarrow> [] | Some e \<Rightarrow> e)"

definition build_evidence ::
    "string \<Rightarrow> (string \<times> json) list \<Rightarrow> (string \<times> json) list list \<Rightarrow> json \<Rightarrow> (string \<times> json) list option \<Rightarrow> (string \<times> json) list" where
  "build_evidence recorded posture results previous extra =
     (let body = evidence_body recorded posture results previous extra
      in dict_put ''record_hash'' (JStr (text_hash (ledger_json (JObj body)))) body)"

section \<open>The ledger\<close>

fun verify_records :: "nat \<Rightarrow> string \<Rightarrow> string list \<Rightarrow> bool \<times> string" where
  "verify_records n previous [] = (True, ''Ledger integrity verified.'')"
| "verify_records n previous (line # ls) =
     (case json_loads line of
        None \<Rightarrow> (False, ''Ledger could not be parsed safely.'')
      | Some (JObj kvs) \<Rightarrow>
          (let r = dict_pop ''record_hash'' kvs; h = text_hash (ledger_json (JObj r)) in
           if dict_get ''previous_hash'' r \<noteq> JStr previous \<or> dict_get ''record_hash'' kvs \<noteq> JStr h
           then (False, ''Ledger integrity failed at record '' @ show_nat n @ ''.'')
           else verify_records (Suc n) h ls)
      | Some _ \<Rightarrow> (False, ''Ledger record '' @ show_nat n @ '' is not an object.''))"

definition verify_ledger :: "string option \<Rightarrow> bool \<times> string" where
  "verify_ledger ledger =
     (case ledger of None \<Rightarrow> (True, ''Ledger is empty.'') | Some s \<Rightarrow> verify_records 1 genesis_hash (py_splitlines s))"

definition valid_ledger :: "string \<Rightarrow> string option \<Rightarrow> unit outcome" where
  "valid_ledger refusal ledger = (case verify_ledger ledger of (valid, message) \<Rightarrow>
     ensure valid (ValueError (refusal @ '' invalid ledger: '' @ message)))"

definition read_last_hash :: "string option \<Rightarrow> json outcome" where
  "read_last_hash ledger =
     outcome_bind (valid_ledger ''Refusing to append to'' ledger) (\<lambda>_.
       if log_blank ledger then Inr (JStr genesis_hash)
       else record_item (last (py_splitlines (py_strip (the ledger)))) ''record_hash'')"

definition append_evidence :: "(string \<times> json) list \<Rightarrow> string option \<Rightarrow> string option" where
  "append_evidence evidence ledger =
     Some ((case ledger of None \<Rightarrow> [] | Some s \<Rightarrow> s) @ ledger_json (JObj evidence) @ [line_feed])"

fun find_input :: "string \<Rightarrow> string list \<Rightarrow> (string \<times> json) list option outcome" where
  "find_input h [] = Inr None"
| "find_input h (line # ls) =
     (case json_loads line of
        None \<Rightarrow> Inl JSONDecodeError
      | Some (JObj kvs) \<Rightarrow> if dict_get ''input_hash'' kvs = JStr h then Inr (Some kvs) else find_input h ls
      | Some _ \<Rightarrow> Inl (OtherError ''AttributeError''))"

definition find_ledger_record :: "string option \<Rightarrow> string \<Rightarrow> (string \<times> json) list option outcome" where
  "find_ledger_record ledger h =
     (case ledger of
        None \<Rightarrow> Inr None
      | Some s \<Rightarrow> outcome_bind (valid_ledger ''Cannot inspect'' ledger) (\<lambda>_. find_input h (py_splitlines s)))"

definition append_evidence_atomic ::
    "string \<Rightarrow> (string \<times> json) list \<Rightarrow> (string \<times> json) list list \<Rightarrow> (string \<times> json) list option \<Rightarrow> string option
      \<Rightarrow> (string \<times> json) list outcome \<times> string option" where
  "append_evidence_atomic recorded posture results extra ledger =
     transact ledger
       (outcome_bind (valid_ledger ''Refusing to append to'' ledger) (\<lambda>_.
        outcome_bind (if log_blank ledger then Inr (JStr genesis_hash)
          else record_item (last (py_splitlines (the ledger))) ''record_hash'') (\<lambda>previous.
        let evidence = build_evidence recorded posture results previous extra
        in Inr (append_evidence evidence ledger, evidence))))"

section \<open>The command\<close>

text \<open>Iterating over the decoded catalogue.\<close>

definition iterate :: "json \<Rightarrow> json list outcome" where
  "iterate v =
     (case v of
        JList vs \<Rightarrow> Inr vs
      | JObj kvs \<Rightarrow> Inr (map (\<lambda>p. JStr (fst p)) kvs)
      | JStr s \<Rightarrow> Inr (map (\<lambda>c. JStr [c]) s)
      | _ \<Rightarrow> Inl (OtherError ''TypeError''))"

record evaluation_summary =
  su_asset :: json
  su_evaluated :: nat
  su_failed :: nat
  su_risk :: int
  su_queue :: "(string \<times> json) list list"
  su_hash :: json

definition failed_results :: "(string \<times> json) list list \<Rightarrow> (string \<times> json) list list" where
  "failed_results results = filter (\<lambda>r. dict_get ''passed'' r \<noteq> JBool True) results"

definition risk_of :: "(string \<times> json) list \<Rightarrow> int" where
  "risk_of r = (case dict_get ''risk_score'' r of JInt i \<Rightarrow> i | _ \<Rightarrow> 0)"

text \<open>The exit code and the printed summary. The record is appended before the host name is read.\<close>

definition evaluate ::
    "string \<Rightarrow> json \<Rightarrow> json \<Rightarrow> string option \<Rightarrow> (nat \<times> evaluation_summary) outcome \<times> string option" where
  "evaluate recorded controls posture ledger =
     (case outcome_bind (iterate controls) (map_outcome (\<lambda>c. evaluate_control c posture)) of
        Inl e \<Rightarrow> (Inl e, ledger)
      | Inr results \<Rightarrow>
          (case posture of
             JObj p \<Rightarrow>
               (case append_evidence_atomic recorded p results None ledger of
                  (Inl e, ledger') \<Rightarrow> (Inl e, ledger')
                | (Inr evidence, ledger') \<Rightarrow>
                    (let failed = failed_results results in
                     (outcome_bind (get_item ''hostname'' p) (\<lambda>host.
                        Inr (if failed = [] then 0 else 1,
                          \<lparr>su_asset = host, su_evaluated = length results, su_failed = length failed,
                           su_risk = sum_list (map risk_of failed), su_queue = failed,
                           su_hash = dict_get ''record_hash'' evidence\<rparr>)), ledger')))
           | _ \<Rightarrow> (case valid_ledger ''Refusing to append to'' ledger of
                 Inl e \<Rightarrow> (Inl e, ledger) | Inr _ \<Rightarrow> (Inl (OtherError ''AttributeError''), ledger))))"

end
