(* ===== verification/Ledger_Properties.thy ===== *)
theory Ledger_Properties
  imports Evidence_Ledger Audit_Log_Properties
begin

text \<open>
  Properties of the evidence ledger: control evaluation fails closed and its risk scores are bounded; appends keep the
  ledger verifiable whatever the texts in it, since records are written in ASCII; the last hash of a verified ledger
  determines its records up to collisions; appended evidence is found by its input hash; and a ledger that lost its last line
  feed verifies, accepts one more record and is unreadable after it.
\<close>

section \<open>Control results\<close>

lemma result_fields:
  assumes "evaluate_fields c p = Inr r"
  obtains field observed expected passed severity criticality risk where
    "get_item ''required_field'' c = Inr field" "get_field field p = Inr observed"
    "control_check c observed = Inr (expected, passed)" "get_item ''severity'' c = Inr severity"
    "criticality_of p = Inr criticality" "risk_score passed severity criticality = Inr risk"
    "dict_get ''observed'' r = observed" "dict_get ''passed'' r = JBool passed" "dict_get ''risk_score'' r = JInt risk"
  using assms by (auto simp: evaluate_fields_def outcome_simps dict_get_def obj_get_def)

lemma risk_bounds:
  assumes "risk_score passed severity criticality = Inr n"
  shows "0 \<le> n \<and> n \<le> 40 \<and> (passed \<longleftrightarrow> n = 0)"
proof (cases passed)
  case False
  then obtain w where w: "severity_item severity = Inr w" "n = w * criticality_factor criticality"
    using assms by (auto simp: risk_score_def outcome_simps)
  have "w \<in> {1, 3, 6, 10}"
    using w(1) by (auto simp: severity_item_def severity_weight_def split: json.splits option.splits if_splits)
  moreover have "criticality_factor criticality \<in> {1, 2, 3, 4}"
    by (auto simp: criticality_factor_def criticality_multiplier_def)
  ultimately show ?thesis using w(2) False by auto
qed (use assms in \<open>simp add: risk_score_def\<close>)

lemma equal_null: "py_equal JNull v \<Longrightarrow> v = JNull"
proof -
  have "json_canon (py_number v) = JNull \<Longrightarrow> v = JNull"
  proof (cases v)
    case (JFloat f)
    then show "json_canon (py_number v) = JNull \<Longrightarrow> v = JNull" by (cases f) (auto split: if_splits)
  qed auto
  then show "py_equal JNull v \<Longrightarrow> v = JNull" by (simp add: py_equal_def)
qed

text \<open>A measured value: an integer or a floating-point number, and never a boolean.\<close>

lemma within_limit_passes:
  "within_limit observed limit = Inr passed \<Longrightarrow> passed \<longleftrightarrow>
     (\<exists>x y. (observed = JFloat x \<or> (\<exists>i. observed = JInt i \<and> x = Fixed (i * 1000000))) \<and> number_value limit = Some y \<and> float_le x y)"
  by (cases observed) (auto simp: within_limit_def is_measure_def split: option.splits)

text \<open>
  C33. Controls fail closed and risk is bounded: a result reports the value the posture holds under the field of the control; its risk score
  is between 0 and 40 and is 0 exactly when the control passed. A control passes without an observed value only when its catalogue
  entry expects null, and a control with a maximum passes exactly for an integer or a floating-point number, booleans excluded, that is at
  most that maximum.
\<close>

theorem controls_fail_closed:
  assumes "evaluate_control (JObj c) (JObj p) = Inr r"
  shows "\<exists>passed n. dict_get ''passed'' r = JBool passed \<and> dict_get ''risk_score'' r = JInt n
    \<and> 0 \<le> n \<and> n \<le> 40 \<and> (passed \<longleftrightarrow> n = 0)
    \<and> (\<forall>k. dict_get ''required_field'' c = JStr k \<longrightarrow> dict_get ''observed'' r = dict_get k p)
    \<and> (passed \<longrightarrow> dict_get ''observed'' r = JNull \<longrightarrow> obj_get ''expected'' c = Some JNull)
    \<and> (obj_get ''expected'' c = None \<longrightarrow>
         (\<exists>limit. obj_get ''max_value'' c = Some limit \<and> (passed \<longleftrightarrow>
            (\<exists>x y. (dict_get ''observed'' r = JFloat x \<or> (\<exists>i. dict_get ''observed'' r = JInt i \<and> x = Fixed (i * 1000000)))
               \<and> number_value limit = Some y \<and> float_le x y))))"
proof -
  have "evaluate_fields c p = Inr r" using assms by (simp add: evaluate_control_def)
  then obtain field observed expected passed severity criticality risk where
    f: "get_item ''required_field'' c = Inr field" "get_field field p = Inr observed"
      "control_check c observed = Inr (expected, passed)" "risk_score passed severity criticality = Inr risk"
    and r: "dict_get ''observed'' r = observed" "dict_get ''passed'' r = JBool passed" "dict_get ''risk_score'' r = JInt risk"
    by (rule result_fields)
  have "\<forall>k. dict_get ''required_field'' c = JStr k \<longrightarrow> observed = dict_get k p"
    using f(1,2) by (auto simp: get_item_def dict_get_def get_field_def split: option.splits)
  moreover have "passed \<longrightarrow> observed = JNull \<longrightarrow> obj_get ''expected'' c = Some JNull"
    using f(3) by (auto simp: control_check_def outcome_simps within_limit_def is_measure_def split: option.splits dest: equal_null)
  moreover have "obj_get ''expected'' c = None \<longrightarrow>
      (\<exists>limit. obj_get ''max_value'' c = Some limit \<and> (passed \<longleftrightarrow>
         (\<exists>x y. (observed = JFloat x \<or> (\<exists>i. observed = JInt i \<and> x = Fixed (i * 1000000))) \<and> number_value limit = Some y \<and> float_le x y)))"
    using f(3) by (auto simp: control_check_def outcome_simps get_item_def split: option.splits dest!: within_limit_passes)
  ultimately show ?thesis unfolding r using risk_bounds [OF f(4)] by simp
qed

section \<open>Records of the ledger\<close>

interpretation el: line_chain compact_ascii "''record_hash''"
  by unfold_locales simp

lemma dict_get_text: "dict_get k kvs = JStr s \<longleftrightarrow> obj_get k kvs = Some (JStr s)"
  by (simp add: dict_get_def split: option.splits)

lemma verify_records_iff: "fst (verify_records n p ls) \<longleftrightarrow> chained compact_ascii ''record_hash'' p ls"
  by (induction n p ls rule: verify_records.induct)
    (auto simp: Let_def dict_get_text ledger_json_def split: option.splits json.splits)

lemma escape_ascii: "no_break (escape_char True c)"
proof -
  have hex: "n < 16 \<Longrightarrow> \<not> is_linebreak (hex_char n)" for n
    using is_hex_char [of n] by (auto simp: is_hex_def is_linebreak_def Let_def)
  have "ord_of c div 16 < 16" "ord_of c mod 16 < 16" using ord_of_less [of c] by (simp_all add: div_less_iff_less_mult)
  note digits = this [THEN hex]
  have lit: "\<not> is_linebreak backslash" "\<not> is_linebreak quote_char" "\<not> is_linebreak (CHR ''b'')" "\<not> is_linebreak (CHR ''t'')"
    "\<not> is_linebreak (CHR ''n'')" "\<not> is_linebreak (CHR ''f'')" "\<not> is_linebreak (CHR ''r'')" "\<not> is_linebreak (CHR ''u'')"
    "\<not> is_linebreak (CHR ''0'')"
    by (simp_all add: is_linebreak_def backslash_def quote_char_def Let_def)
  have other: "\<not> (ord_of c < 32 \<or> 127 \<le> ord_of c) \<Longrightarrow> \<not> is_linebreak c" by (auto simp: is_linebreak_def Let_def)
  show ?thesis unfolding escape_char_def Let_def using digits lit other by (simp split: if_split)
qed

lemma no_break_ascii: "no_break (json_print compact_ascii v)"
proof (induction v)
  case (JInt i)
  then show ?case by (simp add: show_int_def no_break_nat is_linebreak_def)
next
  case (JStr s)
  then show ?case
    by (auto simp: compact_ascii_def json_string_def quote_char_def is_linebreak_def intro!: no_break_concat escape_ascii)
next
  case (JList vs)
  then show ?case
    by (auto simp: compact_ascii_def is_linebreak_def list_all_iff intro!: no_break_join)
next
  case (JObj kvs)
  have str: "no_break (json_string True k)" for k
    by (auto simp: json_string_def quote_char_def is_linebreak_def intro!: no_break_concat escape_ascii)
  show ?case using JObj
    by (fastforce simp: compact_ascii_def is_linebreak_def list_all_iff str intro!: no_break_join)
qed (auto simp: no_break_float is_linebreak_def)

definition ledger_sound :: "string option \<Rightarrow> bool" where
  "ledger_sound ledger = (case ledger of None \<Rightarrow> True | Some s \<Rightarrow> terminated s \<and> fst (verify_ledger ledger))"

definition ledger_text :: "string option \<Rightarrow> string" where
  "ledger_text ledger = (case ledger of None \<Rightarrow> [] | Some s \<Rightarrow> s)"

definition ledger_lines :: "string option \<Rightarrow> string list" where
  "ledger_lines ledger = py_splitlines (ledger_text ledger)"

lemma ledger_chained: "fst (verify_ledger ledger) \<Longrightarrow> chained compact_ascii ''record_hash'' genesis_hash (ledger_lines ledger)"
  by (cases ledger) (simp_all add: verify_ledger_def verify_records_iff ledger_lines_def ledger_text_def py_splitlines_def)

lemma blank_ledger: "fst (verify_ledger ledger) \<Longrightarrow> log_blank ledger \<Longrightarrow> ledger_lines ledger = []"
proof (cases "ledger_lines ledger")
  case (Cons l ls)
  assume "fst (verify_ledger ledger)" and blank: "log_blank ledger"
  then have "chained compact_ascii ''record_hash'' genesis_hash (l # ls)" using ledger_chained Cons by metis
  then obtain kvs where "json_loads l = Some (JObj kvs)" by (rule el.chained_step)
  moreover have "json_loads l \<noteq> Some (JObj kvs)"
    by (rule blank_no_objects [of "ledger_text ledger"])
      (use Cons blank in \<open>auto simp: ledger_lines_def ledger_text_def log_blank_def py_splitlines_def split: option.splits\<close>)
  ultimately show "ledger_lines ledger = []" by blast
qed

text \<open>Every append to a verified ledger is accepted, and links to its last record.\<close>

definition next_evidence ::
    "string \<Rightarrow> (string \<times> json) list \<Rightarrow> (string \<times> json) list list \<Rightarrow> (string \<times> json) list option \<Rightarrow> string option \<Rightarrow> (string \<times> json) list" where
  "next_evidence recorded posture results extra ledger =
     build_evidence recorded posture results (JStr (chain_end ''record_hash'' genesis_hash (ledger_lines ledger))) extra"

lemma append_result:
  assumes "fst (verify_ledger ledger)"
  shows "append_evidence_atomic recorded posture results extra ledger =
    (Inr (next_evidence recorded posture results extra ledger),
     Some (ledger_text ledger @ ledger_json (JObj (next_evidence recorded posture results extra ledger)) @ [line_feed]))"
proof -
  have valid: "valid_ledger m ledger = Inr ()" for m using assms(1) by (cases "verify_ledger ledger") (simp add: valid_ledger_def)
  have "(if log_blank ledger then Inr (JStr genesis_hash) else record_item (last (py_splitlines (the ledger))) ''record_hash'') =
      Inr (JStr (chain_end ''record_hash'' genesis_hash (ledger_lines ledger)))"
  proof (cases "log_blank ledger")
    case True
    then show ?thesis using blank_ledger [OF assms(1)] by (simp add: chain_end_def)
  next
    case False
    then obtain s where s: "ledger = Some s" "py_strip s \<noteq> []" by (cases ledger) (auto simp: log_blank_def)
    then have "s \<noteq> []" by (auto simp: py_strip_def py_lstrip_def py_rstrip_def)
    then have "py_splitlines s \<noteq> []" using split_from_Nil [of "[]" s] by (auto simp: py_splitlines_def)
    then show ?thesis
      using el.chained_last [OF ledger_chained [OF assms(1)]] False s(1) by (simp add: ledger_lines_def ledger_text_def)
  qed
  then show ?thesis
    using valid by (simp add: append_evidence_atomic_def append_evidence_def ledger_text_def next_evidence_def Let_def)
qed

section \<open>Sequences of appends\<close>

type_synonym ledger_call = "string \<times> (string \<times> json) list \<times> (string \<times> json) list list \<times> (string \<times> json) list option"

text \<open>Values as Python builds them, with no extra field in the place of the two hashes.\<close>

fun clean_evidence :: "ledger_call \<Rightarrow> bool" where
  "clean_evidence (recorded, posture, results, extra) =
     (json_wf (JObj posture) \<and> list_all (\<lambda>r. json_wf (JObj r)) results
      \<and> (case extra of None \<Rightarrow> True
           | Some e \<Rightarrow> json_wf (JObj e) \<and> ''previous_hash'' \<notin> fst ` set e \<and> ''record_hash'' \<notin> fst ` set e))"

lemma dict_update_facts:
  assumes "json_wf (JObj kvs)" "json_wf (JObj e)"
  shows "json_wf (JObj (dict_update kvs e))" "fst ` set (dict_update kvs e) = fst ` set kvs \<union> fst ` set e"
    and "k \<notin> fst ` set e \<Longrightarrow> obj_get k (dict_update kvs e) = obj_get k kvs"
proof -
  have "list_all (\<lambda>(k, v). json_wf v) e" using assms(2) by simp
  then have "json_wf (JObj (dict_update kvs e)) \<and> fst ` set (dict_update kvs e) = fst ` set kvs \<union> fst ` set e
      \<and> (k \<notin> fst ` set e \<longrightarrow> obj_get k (dict_update kvs e) = obj_get k kvs)"
    using assms(1) unfolding dict_update_def
  proof (induction e arbitrary: kvs)
    case (Cons p e)
    obtain k' v where p: "p = (k', v)" by (cases p)
    have wf: "json_wf (JObj (dict_put k' v kvs))" by (rule json_wf_dict_put) (use Cons.prems p in simp_all)
    have "obj_get k (dict_put k' v kvs) = (if k = k' then Some v else obj_get k kvs)"
      by (induction kvs) (auto simp: obj_get_def)
    then show ?case using Cons.IH [OF _ wf] Cons.prems(1) p by (auto simp: keys_dict_put simp del: json_wf.simps)
  qed simp
  then show "json_wf (JObj (dict_update kvs e))" "fst ` set (dict_update kvs e) = fst ` set kvs \<union> fst ` set e"
    "k \<notin> fst ` set e \<Longrightarrow> obj_get k (dict_update kvs e) = obj_get k kvs" by blast+
qed

lemma dict_get_wf: "json_wf (JObj kvs) \<Longrightarrow> json_wf (dict_get k kvs)"
  by (auto simp: dict_get_def obj_get_def list_all_iff split: option.splits dest: map_of_SomeD)

lemma evidence_body_facts:
  assumes "clean_evidence (recorded, posture, results, extra)" and b_def: "b = evidence_body recorded posture results (JStr p) extra"
  shows "json_wf (JObj b)" "''record_hash'' \<notin> fst ` set b" "obj_get ''previous_hash'' b = Some (JStr p)"
proof -
  let ?e = "case extra of None \<Rightarrow> [] | Some e \<Rightarrow> e"
  let ?base = "[(''schema_version'', JStr ''1.0''), (''recorded_at'', JStr recorded),
        (''asset'', JObj (map (\<lambda>k. (k, dict_get k posture)) [''asset_id'', ''hostname'', ''owner'', ''criticality'', ''collected_at''])),
        (''results'', JList (map JObj results)), (''previous_hash'', JStr p)]"
  have base: "json_wf (JObj ?base)" using assms(1) dict_get_wf by (auto simp: list_all_iff simp del: json_wf.simps(2)) (auto simp: list_all_iff)
  have e: "json_wf (JObj ?e)" "''previous_hash'' \<notin> fst ` set ?e" "''record_hash'' \<notin> fst ` set ?e"
    using assms(1) by (auto split: option.splits)
  note f = dict_update_facts [OF base e(1)]
  show "json_wf (JObj b)" "''record_hash'' \<notin> fst ` set b" "obj_get ''previous_hash'' b = Some (JStr p)"
    using f(1,2) f(3) [OF e(2)] e(3) unfolding b_def evidence_body_def by (simp_all add: obj_get_def del: json_wf.simps)
qed

section \<open>One append\<close>

lemma ledger_sound_verified: "ledger_sound ledger \<Longrightarrow> fst (verify_ledger ledger)"
  by (cases ledger) (simp_all add: ledger_sound_def verify_ledger_def)

lemma sound_text: "ledger_sound ledger \<Longrightarrow> terminated (ledger_text ledger)"
  by (cases ledger) (simp_all add: ledger_sound_def ledger_text_def terminated_def)

lemma new_line:
  assumes "fst (verify_ledger ledger)" and "clean_evidence (recorded, posture, results, extra)"
  defines "p \<equiv> chain_end ''record_hash'' genesis_hash (ledger_lines ledger)"
  defines "e \<equiv> next_evidence recorded posture results extra ledger"
  shows "chained compact_ascii ''record_hash'' p [ledger_json (JObj e)]"
    and "json_loads (ledger_json (JObj e)) = Some (json_canon (JObj e))" and "json_wf (JObj e)"
    and "obj_get ''record_hash'' e = Some (JStr (text_hash (ledger_json (JObj (evidence_body recorded posture results (JStr p) extra)))))"
proof -
  let ?b = "evidence_body recorded posture results (JStr p) extra"
  note b = evidence_body_facts [OF assms(2) refl, of p]
  have e: "e = ?b @ [(''record_hash'', JStr (text_hash (json_dumps compact_ascii (JObj ?b))))]"
    using b(2) by (simp add: e_def p_def next_evidence_def build_evidence_def ledger_json_def dict_put_fresh Let_def)
  note new = el.chained_new [OF b]
  show "chained compact_ascii ''record_hash'' p [ledger_json (JObj e)]"
    "json_loads (ledger_json (JObj e)) = Some (json_canon (JObj e))"
    using new unfolding e ledger_json_def by simp_all
  show "json_wf (JObj e)" unfolding e using b(1,2) by (auto simp: list_all_iff)
  show "obj_get ''record_hash'' e = Some (JStr (text_hash (ledger_json (JObj ?b))))"
    unfolding e using b(2) by (simp add: obj_get_def ledger_json_def map_add_def map_of_eq_None_iff [THEN iffD2])
qed

lemma no_break_ledger: "no_break (ledger_json v)"
  by (simp add: ledger_json_def json_dumps_def no_break_ascii)

lemma append_keeps_ledger:
  assumes "ledger_sound ledger" and "clean_evidence (recorded, posture, results, extra)"
    and "append_evidence_atomic recorded posture results extra ledger = (r, ledger')"
  defines "e \<equiv> next_evidence recorded posture results extra ledger"
  shows "r = Inr e" and "ledger_sound ledger'" and "ledger_lines ledger' = ledger_lines ledger @ [ledger_json (JObj e)]"
proof -
  note ok = ledger_sound_verified [OF assms(1)]
  note res = append_result [OF ok, of recorded posture results extra, folded e_def, unfolded assms(3)]
  then show "r = Inr e" by simp
  have written: "ledger' = Some (ledger_text ledger @ ledger_json (JObj e) @ [line_feed])" using res by simp
  have lines: "py_splitlines (ledger_text ledger @ ledger_json (JObj e) @ [line_feed]) = ledger_lines ledger @ [ledger_json (JObj e)]"
    using splitlines_append [OF sound_text [OF assms(1)]] splitlines_line [OF no_break_ledger] by (simp add: ledger_lines_def)
  then show "ledger_lines ledger' = ledger_lines ledger @ [ledger_json (JObj e)]" by (simp add: written ledger_lines_def ledger_text_def)
  show "ledger_sound ledger'"
    using lines new_line(1) [OF ok assms(2), folded e_def] el.chained_append [OF ledger_chained [OF ok]]
    by (simp add: ledger_sound_def written verify_ledger_def verify_records_iff terminated_def)
qed

text \<open>Reading a ledger past its last line feed.\<close>

lemma split_unterminated: "no_break l \<Longrightarrow> acc @ l \<noteq> [] \<Longrightarrow> split_from acc l = [rev acc @ l]"
proof (induction l arbitrary: acc)
  case (Cons c l)
  then have "c \<noteq> carriage_return" "\<not> is_linebreak c" by (auto simp: no_break_def)
  with Cons show ?case by (simp add: no_break_def)
qed simp

lemma verify_unreadable:
  "chained compact_ascii ''record_hash'' p xs \<Longrightarrow> json_loads l = None \<Longrightarrow>
     verify_records n p (xs @ [l]) = (False, ''Ledger could not be parsed safely.'')"
proof (induction xs arbitrary: n p)
  case (Cons x xs)
  obtain kvs where k: "json_loads x = Some (JObj kvs)" "line_fields x = kvs"
    "obj_get ''previous_hash'' (dict_pop ''record_hash'' kvs) = Some (JStr p)"
    "obj_get ''record_hash'' kvs = Some (JStr (text_hash (json_dumps compact_ascii (JObj (dict_pop ''record_hash'' kvs)))))"
    "chained compact_ascii ''record_hash'' (text_field ''record_hash'' (line_fields x)) xs" by (rule el.chained_step [OF Cons.prems(1)])
  then show ?case using Cons.IH [OF k(5) Cons.prems(2), of "Suc n"]
    by (simp add: ledger_json_def dict_get_text text_field_def Let_def)
qed simp

section \<open>Promises of the ledger\<close>

fun append_all :: "ledger_call list \<Rightarrow> string option \<Rightarrow> string option" where
  "append_all [] ledger = ledger"
| "append_all ((recorded, posture, results, extra) # calls) ledger =
     append_all calls (snd (append_evidence_atomic recorded posture results extra ledger))"

lemma append_all_sound:
  "list_all clean_evidence calls \<Longrightarrow> ledger_sound ledger \<Longrightarrow>
     ledger_sound (append_all calls ledger)
     \<and> (\<exists>new. ledger_lines (append_all calls ledger) = ledger_lines ledger @ new \<and> length new = length calls)"
proof (induction calls arbitrary: ledger)
  case (Cons call calls)
  obtain recorded posture results extra where c: "call = (recorded, posture, results, extra)" by (cases call) auto
  obtain r ledger' where run: "append_evidence_atomic recorded posture results extra ledger = (r, ledger')" by fastforce
  have clean: "clean_evidence (recorded, posture, results, extra)" using Cons.prems(1) c by simp
  note keep = append_keeps_ledger [OF Cons.prems(2) clean run]
  obtain new where "ledger_sound (append_all calls ledger')"
      "ledger_lines (append_all calls ledger') = ledger_lines ledger' @ new" "length new = length calls"
    using Cons.IH [OF _ keep(2)] Cons.prems(1) by auto
  then show ?case using keep(3) by (intro conjI exI [of _ "_ # new"]) (simp_all add: c run)
qed simp

text \<open>
  C37. The ledger stays verifiable: after any sequence of appends to a ledger that verifies and ends with a line feed (or
  does not exist), the ledger verifies, its old lines are unchanged, and exactly one line was added per call, whatever characters the
  texts of the evidence contain.
\<close>

theorem ledger_stays_verifiable:
  assumes "ledger_sound ledger" and "list_all clean_evidence calls"
  shows "fst (verify_ledger (append_all calls ledger))
    \<and> take (length (ledger_lines ledger)) (ledger_lines (append_all calls ledger)) = ledger_lines ledger
    \<and> length (ledger_lines (append_all calls ledger)) = length (ledger_lines ledger) + length calls"
  using append_all_sound [OF assms(2,1)] ledger_sound_verified by auto

text \<open>
  Tamper evidence of the ledger: two ledgers that verify and end in the same record hash contain the same records in
  the same order, unless two different records among them have the same SHA-256 hash or one has the all-zero hash of the first link.
\<close>

theorem ledger_tamper_evident:
  assumes "fst (verify_ledger (Some s))" and "fst (verify_ledger (Some t))"
    and "chain_end ''record_hash'' genesis_hash (py_splitlines s) = chain_end ''record_hash'' genesis_hash (py_splitlines t)"
  shows "map record_of_line (py_splitlines s) = map record_of_line (py_splitlines t)
    \<or> collision (hashed_text compact_ascii ''record_hash'' ` (set (py_splitlines s) \<union> set (py_splitlines t)))
    \<or> (\<exists>l \<in> set (py_splitlines s) \<union> set (py_splitlines t). text_hash (hashed_text compact_ascii ''record_hash'' l) = genesis_hash)"
  using el.same_end_same_records [OF ledger_chained [OF assms(1)] ledger_chained [OF assms(2)]] assms(3)
  by (simp add: ledger_lines_def ledger_text_def)

lemma find_input_chain:
  "chained compact_ascii ''record_hash'' p ls \<Longrightarrow>
     find_input h ls = Inr (map_option line_fields (find (\<lambda>l. dict_get ''input_hash'' (line_fields l) = JStr h) ls))"
proof (induction ls arbitrary: p)
  case (Cons l ls)
  obtain kvs where k: "json_loads l = Some (JObj kvs)" "line_fields l = kvs"
    "chained compact_ascii ''record_hash'' (text_field ''record_hash'' (line_fields l)) ls" by (rule el.chained_step [OF Cons.prems])
  then show ?case using Cons.IH [OF k(3)] by simp
qed simp

lemma find_ledger_lines:
  assumes "fst (verify_ledger (Some s))"
  shows "find_ledger_record (Some s) h =
    Inr (map_option line_fields (find (\<lambda>l. dict_get ''input_hash'' (line_fields l) = JStr h) (ledger_lines (Some s))))"
proof -
  have "valid_ledger m (Some s) = Inr ()" for m using assms by (cases "verify_ledger (Some s)") (simp add: valid_ledger_def)
  then show ?thesis
    using find_input_chain [OF ledger_chained [OF assms]] by (simp add: find_ledger_record_def ledger_lines_def ledger_text_def)
qed

text \<open>
  Appended evidence is found by its input hash: after an append whose extra fields carry an input hash, looking that
  hash up succeeds and returns a record with it; when no earlier record had the hash, it is the record just appended, with its fields in the
  order of their names.
\<close>

theorem appended_evidence_is_found:
  assumes "ledger_sound ledger" and "clean_evidence (recorded, posture, results, extra)"
    and "append_evidence_atomic recorded posture results extra ledger = (Inr e, ledger')"
    and "obj_get ''input_hash'' e = Some (JStr h)"
  shows "\<exists>r. find_ledger_record ledger' h = Inr (Some r) \<and> dict_get ''input_hash'' r = JStr h
    \<and> (find_ledger_record ledger h = Inr None \<longrightarrow> JObj r = json_canon (JObj e))"
proof -
  note keep = append_keeps_ledger [OF assms(1-3)]
  have e: "e = next_evidence recorded posture results extra ledger" using keep(1) by simp
  note new = new_line [OF ledger_sound_verified [OF assms(1)] assms(2), folded e]
  let ?P = "\<lambda>l. dict_get ''input_hash'' (line_fields l) = JStr h" and ?l = "ledger_json (JObj e)"
  have fields: "JObj (line_fields ?l) = json_canon (JObj e)" using new(2) by (simp add: line_fields_def)
  have "obj_get ''input_hash'' (sort_key fst (map canon_pair e)) = Some (JStr h)"
    using map_of_canon [of e "''input_hash''"] new(3) assms(4) by simp
  then have P: "?P ?l" using fields by (simp add: json_canon_obj dict_get_def del: json_canon.simps)
  obtain s where s: "ledger' = Some s" using append_result [OF ledger_sound_verified [OF assms(1)]] assms(3) by auto
  have lines: "ledger_lines (Some s) = ledger_lines ledger @ [?l]" using keep(3) e s by simp
  note found = find_ledger_lines [OF ledger_sound_verified [OF keep(2) [unfolded s]], of h, unfolded lines find_append]
  show ?thesis
  proof (cases "find ?P (ledger_lines ledger)")
    case None
    then show ?thesis using found P fields s by simp
  next
    case (Some l)
    then have "?P l" by (auto simp: find_Some_iff)
    moreover have "find_ledger_record ledger h \<noteq> Inr None"
    proof (cases ledger)
      case None
      then show ?thesis using Some by (simp add: ledger_lines_def ledger_text_def py_splitlines_def)
    next
      case (Some u)
      then show ?thesis
        using find_ledger_lines [OF ledger_sound_verified [OF assms(1), unfolded Some]] \<open>find ?P (ledger_lines ledger) = _\<close> by simp
    qed
    ultimately show ?thesis using found Some s by simp
  qed
qed

text \<open>
  C38. A ledger whose final line feed was lost is silently damaged by the next append: it still verifies, the append succeeds
  and returns a record, but it is written on the line of the record before it, and from then on the ledger is refused as unparsable.
\<close>

theorem unterminated_ledger_breaks:
  assumes "ledger_sound ledger" and "clean_evidence (recorded, posture, results, extra)"
    and "append_evidence_atomic recorded posture results extra ledger = (Inr e, Some (s @ [line_feed]))"
    and "clean_evidence (recorded', posture', results', extra')"
  shows "fst (verify_ledger (Some s))
    \<and> (\<exists>e' ledger'. append_evidence_atomic recorded' posture' results' extra' (Some s) = (Inr e', Some ledger')
        \<and> verify_ledger (Some ledger') = (False, ''Ledger could not be parsed safely.''))"
proof -
  note keep = append_keeps_ledger [OF assms(1-3)]
  have e: "e = next_evidence recorded posture results extra ledger" using keep(1) by simp
  note new = new_line [OF ledger_sound_verified [OF assms(1)] assms(2), folded e]
  let ?l = "ledger_json (JObj e)"
  have s: "s = ledger_text ledger @ ?l"
    using append_result [OF ledger_sound_verified [OF assms(1)], of recorded posture results extra] assms(3) e by simp
  have closed: "terminated (ledger_text ledger)" by (rule sound_text [OF assms(1)])
  have brace: "\<exists>t. ledger_json (JObj kvs) = CHR ''{'' # t" for kvs by (simp add: ledger_json_def json_dumps_def)
  have one: "py_splitlines ?l = [?l]"
    using split_unterminated [OF no_break_ledger [of "JObj e"], of "[]"] brace [of e] unfolding py_splitlines_def by auto
  have lines: "ledger_lines (Some s) = ledger_lines ledger @ [?l]"
    using splitlines_append [OF closed] one by (simp add: s ledger_lines_def ledger_text_def)
  have ver: "fst (verify_ledger (Some s))"
    using lines ledger_sound_verified [OF keep(2)] keep(3) e
    by (simp add: verify_ledger_def verify_records_iff ledger_lines_def ledger_text_def)
  let ?e = "next_evidence recorded' posture' results' extra' (Some s)"
  have res: "append_evidence_atomic recorded' posture' results' extra' (Some s) = (Inr ?e, Some (s @ ledger_json (JObj ?e) @ [line_feed]))"
    using append_result [OF ver] by (simp add: ledger_text_def)
  obtain t where t: "ledger_json (JObj ?e) = CHR ''{'' # t" using brace by blast
  have "py_splitlines (s @ ledger_json (JObj ?e) @ [line_feed]) = ledger_lines ledger @ [?l @ ledger_json (JObj ?e)]"
    using splitlines_append [OF closed] splitlines_line [of "?l @ ledger_json (JObj ?e)"]
    by (simp add: s ledger_lines_def no_break_ledger)
  moreover have "json_loads (?l @ ledger_json (JObj ?e)) = None"
    unfolding t unfolding ledger_json_def by (rule two_objects_unreadable) (simp, rule new(3))
  ultimately have "verify_ledger (Some (s @ ledger_json (JObj ?e) @ [line_feed])) = (False, ''Ledger could not be parsed safely.'')"
    using verify_unreadable [OF ledger_chained [OF ledger_sound_verified [OF assms(1)]]] by (simp add: verify_ledger_def)
  then show ?thesis using ver res by blast
qed

end
