(* ===== verification/Ledger_Examples.thy ===== *)
theory Ledger_Examples
  imports Ledger_Properties
begin

text \<open>
  A control, a posture and two appends to a new ledger: the properties of the ledger at inputs where every hypothesis
  holds. The second append carries a text with a line separator and an input hash.
\<close>

definition demo_control :: "(string \<times> json) list" where
  "demo_control = [(''id'', JStr ''C-7''), (''name'', JStr ''Patch age''), (''owner'', JStr ''ops''), (''iso27002'', JStr ''8.8''),
     (''nist_csf'', JStr ''ID.RA''), (''required_field'', JStr ''patch_age_days''), (''max_value'', JInt 30), (''severity'', JStr ''high'')]"

definition demo_posture :: "(string \<times> json) list" where
  "demo_posture = [(''asset_id'', JStr ''A-1''), (''hostname'', JStr ''lap-1''), (''criticality'', JStr ''High''),
     (''patch_age_days'', JInt 31)]"

lemma demo_result:
  "\<exists>r. evaluate_control (JObj demo_control) (JObj demo_posture) = Inr r \<and> dict_get ''risk_score'' r = JInt 18
     \<and> dict_get ''observed'' r = JInt 31"
proof -
  have "(case evaluate_control (JObj demo_control) (JObj demo_posture) of
      Inr r \<Rightarrow> dict_get ''risk_score'' r = JInt 18 \<and> dict_get ''observed'' r = JInt 31 | Inl e \<Rightarrow> False)" by code_simp
  then show ?thesis by (auto split: sum.splits)
qed

text \<open>A measured value above the maximum fails, and so does a boolean, which Python would compare as 1.\<close>

theorem controls_fail_closed_witness:
  "\<exists>r r'. evaluate_control (JObj demo_control) (JObj demo_posture) = Inr r \<and> dict_get ''observed'' r = JInt 31
     \<and> dict_get ''passed'' r = JBool False \<and> dict_get ''risk_score'' r = JInt 18
     \<and> evaluate_control (JObj demo_control) (JObj [(''patch_age_days'', JBool True)]) = Inr r' \<and> dict_get ''passed'' r' = JBool False"
proof -
  obtain r where r: "evaluate_control (JObj demo_control) (JObj demo_posture) = Inr r" "dict_get ''risk_score'' r = JInt 18"
    "dict_get ''observed'' r = JInt 31"
    using demo_result by blast
  have "(case evaluate_control (JObj demo_control) (JObj [(''patch_age_days'', JBool True)]) of Inr r \<Rightarrow> True | Inl e \<Rightarrow> False)"
    by code_simp
  then obtain r' where r': "evaluate_control (JObj demo_control) (JObj [(''patch_age_days'', JBool True)]) = Inr r'"
    by (auto split: sum.splits)
  have none: "obj_get ''expected'' demo_control = None" and field: "dict_get ''required_field'' demo_control = JStr ''patch_age_days''"
    by (simp_all add: demo_control_def obj_get_def dict_get_def)
  have "dict_get ''observed'' r' = JBool True"
    using controls_fail_closed [OF r'] field by (auto simp: dict_get_def obj_get_def)
  then have "dict_get ''passed'' r' = JBool False" using controls_fail_closed [OF r'] none by auto
  moreover have "dict_get ''passed'' r = JBool False" using controls_fail_closed [OF r(1)] r(2) by auto
  ultimately show ?thesis using r r' by blast
qed

definition demo_evidence :: "string \<Rightarrow> ledger_call" where
  "demo_evidence h = (''2026-07-01T00:00:00Z'', demo_posture, [], Some [(''input_hash'', JStr h), (''note'', JStr (''a'' @ [next_line] @ ''b''))])"

lemma demo_clean: "clean_evidence (demo_evidence h)"
  by (simp add: demo_evidence_def demo_posture_def)

lemma None_sound: "ledger_sound None"
  by (simp add: ledger_sound_def)

theorem ledger_stays_verifiable_witness:
  "fst (verify_ledger (append_all [demo_evidence ''h1'', demo_evidence ''h2''] None))
    \<and> length (ledger_lines (append_all [demo_evidence ''h1'', demo_evidence ''h2''] None)) = 2"
proof -
  have "list_all clean_evidence [demo_evidence ''h1'', demo_evidence ''h2'']" using demo_clean by simp
  from ledger_stays_verifiable [OF None_sound this] show ?thesis by (simp add: ledger_lines_def ledger_text_def py_splitlines_def)
qed

lemma demo_ledger_append:
  "\<exists>e s. append_evidence_atomic ''2026-07-01T00:00:00Z'' demo_posture [] (Some [(''input_hash'', JStr ''h1'')]) None
       = (Inr e, Some (s @ [line_feed])) \<and> obj_get ''input_hash'' e = Some (JStr ''h1'') \<and> ledger_sound (Some (s @ [line_feed]))"
proof -
  let ?x = "Some [(''input_hash'', JStr ''h1'')]"
  let ?e = "next_evidence ''2026-07-01T00:00:00Z'' demo_posture [] ?x None"
  have clean: "clean_evidence (''2026-07-01T00:00:00Z'', demo_posture, [], ?x)" by (simp add: demo_posture_def)
  have run: "append_evidence_atomic ''2026-07-01T00:00:00Z'' demo_posture [] ?x None = (Inr ?e, Some (ledger_json (JObj ?e) @ [line_feed]))"
    using append_result [OF ledger_sound_verified [OF None_sound]] by (simp add: ledger_text_def)
  have "obj_get ''input_hash'' ?e = Some (JStr ''h1'')"
    by (simp add: next_evidence_def build_evidence_def evidence_body_def dict_update_def obj_get_def Let_def)
  then show ?thesis using run append_keeps_ledger(2) [OF None_sound clean run] by blast
qed

theorem ledger_tamper_evident_witness:
  "\<exists>s. s \<noteq> [] \<and> fst (verify_ledger (Some s)) \<and> (map record_of_line (py_splitlines s) = map record_of_line (py_splitlines s)
    \<or> collision (hashed_text compact_ascii ''record_hash'' ` set (py_splitlines s))
    \<or> (\<exists>l \<in> set (py_splitlines s). text_hash (hashed_text compact_ascii ''record_hash'' l) = genesis_hash))"
proof -
  obtain s where "ledger_sound (Some (s @ [line_feed]))" using demo_ledger_append by blast
  then have ver: "fst (verify_ledger (Some (s @ [line_feed])))" by (rule ledger_sound_verified)
  from ledger_tamper_evident [OF this this refl] show ?thesis using ver by (intro exI [of _ "s @ [line_feed]"]) auto
qed

theorem appended_evidence_is_found_witness:
  "\<exists>e ledger r. append_evidence_atomic ''2026-07-01T00:00:00Z'' demo_posture [] (Some [(''input_hash'', JStr ''h1'')]) None = (Inr e, ledger)
     \<and> find_ledger_record ledger ''h1'' = Inr (Some r) \<and> JObj r = json_canon (JObj e)"
proof -
  obtain e s where run: "append_evidence_atomic ''2026-07-01T00:00:00Z'' demo_posture [] (Some [(''input_hash'', JStr ''h1'')]) None
       = (Inr e, Some (s @ [line_feed]))" "obj_get ''input_hash'' e = Some (JStr ''h1'')" using demo_ledger_append by blast
  have clean: "clean_evidence (''2026-07-01T00:00:00Z'', demo_posture, [], Some [(''input_hash'', JStr ''h1'')])"
    by (simp add: demo_posture_def)
  have "find_ledger_record None ''h1'' = Inr None" by (simp add: find_ledger_record_def)
  with appended_evidence_is_found [OF None_sound clean run] show ?thesis using run(1) by blast
qed

theorem unterminated_ledger_breaks_witness:
  "\<exists>s e ledger. fst (verify_ledger (Some s))
     \<and> append_evidence_atomic ''2026-07-02T00:00:00Z'' demo_posture [] None (Some s) = (Inr e, Some ledger)
     \<and> verify_ledger (Some ledger) = (False, ''Ledger could not be parsed safely.'')"
proof -
  obtain e s where run: "append_evidence_atomic ''2026-07-01T00:00:00Z'' demo_posture [] (Some [(''input_hash'', JStr ''h1'')]) None
       = (Inr e, Some (s @ [line_feed]))" using demo_ledger_append by blast
  have clean: "clean_evidence (''2026-07-01T00:00:00Z'', demo_posture, [], Some [(''input_hash'', JStr ''h1'')])"
    "clean_evidence (''2026-07-02T00:00:00Z'', demo_posture, [], None)" by (simp_all add: demo_posture_def)
  from unterminated_ledger_breaks [OF None_sound clean(1) run clean(2)] show ?thesis by blast
qed

end
