(* ===== verification/Agent_Keys.thy ===== *)
theory Agent_Keys
  imports Patterns Py_Values Governance_Types
begin

text \<open>
  The key registry of \<open>scripts/agent_keys.py\<close>: one row per agent key with its status and the route scopes as JSON text. The
  secrets are held outside, in the decoded environment variable. Random suffixes, secrets and the time are
  arguments. Shown: what a registered key may do, and that a revoked key stays revoked and may do nothing.
\<close>

datatype key_status = KeyActive | KeyRevoked

record key_row =
  ak_id :: string
  ak_agent :: string
  ak_status :: key_status
  ak_created :: string
  ak_revoked :: "string option"
  ak_scopes :: string

definition posture_scope :: string where "posture_scope = ''posture:write''"
definition asset_scope :: string where "asset_scope = ''asset-context:write''"
definition ticket_scope :: string where "ticket_scope = ''remediation-ticket:write''"

definition allowed_scopes :: "string list" where
  "allowed_scopes = [posture_scope, asset_scope, ticket_scope]"

definition key_id_char :: "char \<Rightarrow> bool" where
  "key_id_char c = (ascii_alnum c \<or> c \<in> {CHR ''.'', CHR ''_'', CHR ''-''})"

definition key_id_rx :: rx where
  "key_id_rx = RSeq (RChar key_id_char) (r_upto 127 (RChar key_id_char))"

text \<open>No scopes given means posture only; an empty list is refused.\<close>

definition canonical_scopes :: "string list option \<Rightarrow> string list outcome" where
  "canonical_scopes scopes =
     (let selected = (case scopes of None \<Rightarrow> [posture_scope] | Some ss \<Rightarrow> sort (remdups ss)) in
      if selected = [] \<or> list_ex (\<lambda>s. s \<notin> set allowed_scopes) selected
      then Inl (ValueError ''agent key scopes must use the approved route-scope allowlist.'') else Inr selected)"

definition scopes_text :: "string list \<Rightarrow> string" where
  "scopes_text ss = json_dumps spaced_ascii (JList (map JStr ss))"

definition key_constraints :: "(string \<times> (key_row \<Rightarrow> key_row \<Rightarrow> bool)) list" where
  "key_constraints = [(''agent_keys.key_id'', \<lambda>a b. ak_id a = ak_id b)]"

text \<open>\<open>key_id or f"{agent_id}-{secrets.token_hex(6)}"\<close>.\<close>

definition chosen_key :: "string \<Rightarrow> string option \<Rightarrow> string \<Rightarrow> string" where
  "chosen_key agent key token = (if key = None \<or> key = Some [] then agent @ ''-'' @ token else the key)"

definition new_key :: "string \<Rightarrow> string \<Rightarrow> string list \<Rightarrow> string \<Rightarrow> key_row" where
  "new_key kid agent scopes now = \<lparr>ak_id = kid, ak_agent = agent, ak_status = KeyActive, ak_created = now,
     ak_revoked = None, ak_scopes = scopes_text scopes\<rparr>"

definition register ::
    "string \<Rightarrow> string option \<Rightarrow> string list option \<Rightarrow> string \<Rightarrow> string \<Rightarrow> string \<Rightarrow> key_row list
      \<Rightarrow> (string \<times> string) outcome \<times> key_row list" where
  "register agent key scopes token secret now t =
     (let kid = chosen_key agent key token in
      transact t
        (outcome_bind (canonical_scopes scopes) (\<lambda>selected.
         outcome_bind (ensure (py_strip agent \<noteq> [] \<and> fullmatch key_id_rx kid)
           (ValueError ''agent_id and key_id must use non-empty safe identifiers.'')) (\<lambda>_.
         outcome_bind (insert_row key_constraints (new_key kid agent selected now) t) (\<lambda>t'.
           Inr (t', (kid, secret)))))))"

definition revoke :: "string \<Rightarrow> string \<Rightarrow> key_row list \<Rightarrow> key_row list" where
  "revoke kid now t = update_where (\<lambda>r. ak_id r = kid) (\<lambda>r. r\<lparr>ak_status := KeyRevoked, ak_revoked := Some now\<rparr>) t"

definition find_agent_key :: "string \<Rightarrow> key_row list \<Rightarrow> key_row option" where
  "find_agent_key kid t = List.find (\<lambda>r. ak_id r = kid) t"

definition is_active :: "string \<Rightarrow> key_row list \<Rightarrow> bool" where
  "is_active kid t = (case find_agent_key kid t of None \<Rightarrow> False | Some r \<Rightarrow> ak_status r = KeyActive)"

definition is_authorized :: "string \<Rightarrow> string \<Rightarrow> key_row list \<Rightarrow> bool" where
  "is_authorized kid scope t =
     (if scope \<notin> set allowed_scopes then False
      else case find_agent_key kid t of
        None \<Rightarrow> False
      | Some r \<Rightarrow> if ak_status r \<noteq> KeyActive then False
          else (case json_loads (ak_scopes r) of Some (JList vs) \<Rightarrow> JStr scope \<in> set vs | _ \<Rightarrow> False))"

definition resolve_secret :: "string \<Rightarrow> (string \<times> json) list \<Rightarrow> key_row list \<Rightarrow> byte list option" where
  "resolve_secret kid secrets t =
     (if \<not> is_active kid t then None
      else case dict_get kid secrets of
        JStr s \<Rightarrow> if s = [] then None else Some (utf8_encode s)
      | _ \<Rightarrow> None)"

section \<open>Registered and revoked keys\<close>

lemma key_id_iff: "fullmatch key_id_rx s \<longleftrightarrow> 1 \<le> length s \<and> length s \<le> 128 \<and> list_all key_id_char s"
  by (cases s) (auto simp: key_id_rx_def fullmatch_iff matches_char_seq)

lemma scopes_read_back: "json_loads (scopes_text ss) = Some (JList (map JStr ss))"
proof -
  have "json_loads (json_dumps spaced_ascii (JList (map JStr ss))) = Some (json_canon (JList (map JStr ss)))"
    by (rule json_roundtrip) (simp_all add: list_all_iff)
  then show ?thesis by (simp add: scopes_text_def)
qed

datatype key_op =
    RegisterKey string "string option" "string list option" string string string
  | RevokeKey string string

fun run_key_op :: "key_op \<Rightarrow> key_row list \<Rightarrow> key_row list" where
  "run_key_op (RegisterKey agent key scopes token secret now) t = snd (register agent key scopes token secret now t)"
| "run_key_op (RevokeKey kid now) t = revoke kid now t"

lemma find_revoke:
  "find_agent_key kid (revoke k now t) =
     map_option (\<lambda>r. if ak_id r = k then r\<lparr>ak_status := KeyRevoked, ak_revoked := Some now\<rparr> else r) (find_agent_key kid t)"
  by (induction t) (auto simp: find_agent_key_def revoke_def update_where_def)

lemma insert_key:
  "insert_row key_constraints r t = Inr t' \<longleftrightarrow> t' = t @ [r] \<and> find_agent_key (ak_id r) t = None"
  by (auto simp: insert_row_ok key_constraints_def find_agent_key_def find_None_iff)

lemma register_cases:
  "snd (register agent key scopes token secret now t) = t \<or>
     (\<exists>r. snd (register agent key scopes token secret now t) = t @ [r])"
proof (cases "canonical_scopes scopes")
  case (Inr selected)
  let ?kid = "chosen_key agent key token"
  show ?thesis
  proof (cases "py_strip agent \<noteq> [] \<and> fullmatch key_id_rx ?kid")
    case True
    show ?thesis
    proof (cases "insert_row key_constraints (new_key ?kid agent selected now) t")
      case ok: (Inr t')
      then have "t' = t @ [new_key ?kid agent selected now]" by (simp only: insert_key)
      then show ?thesis using True ok by (auto simp: register_def Let_def Inr)
    qed (use True in \<open>simp add: register_def Let_def Inr\<close>)
  qed (use Inr in \<open>auto simp: register_def Let_def\<close>)
qed (simp add: register_def Let_def)

lemma revoked_step:
  assumes "find_agent_key kid t = Some r" "ak_status r = KeyRevoked"
  shows "\<exists>r'. find_agent_key kid (run_key_op k t) = Some r' \<and> ak_status r' = KeyRevoked"
proof (cases k)
  case (RegisterKey agent key scopes token secret now)
  have "find_agent_key kid (t @ [x]) = Some r" for x using assms(1) by (simp add: find_agent_key_def find_append)
  then show ?thesis using register_cases [of agent key scopes token secret now t] assms RegisterKey by auto
next
  case (RevokeKey k now)
  then show ?thesis using assms by (simp add: find_revoke)
qed

lemma revoked_stays:
  "find_agent_key kid t = Some r \<Longrightarrow> ak_status r = KeyRevoked \<Longrightarrow>
     \<exists>r'. find_agent_key kid (fold run_key_op ks t) = Some r' \<and> ak_status r' = KeyRevoked"
proof (induction ks arbitrary: t r)
  case (Cons k ks)
  then show ?case using revoked_step [OF Cons.prems, of k] by auto
qed simp

text \<open>
  A revoked key stays revoked: after a revocation of a registered key, and whatever registrations and revocations
  follow, the key has no secret and no authorization.
\<close>

theorem revoked_keys_stay_revoked:
  assumes "find_agent_key kid t \<noteq> None"
  shows "resolve_secret kid secrets (fold run_key_op ks (revoke kid now t)) = None
    \<and> \<not> is_authorized kid scope (fold run_key_op ks (revoke kid now t))"
proof -
  obtain r where r: "find_agent_key kid t = Some r" using assms by blast
  then have "ak_id r = kid" by (auto simp: find_agent_key_def find_Some_iff)
  with r have "find_agent_key kid (revoke kid now t) = Some (r\<lparr>ak_status := KeyRevoked, ak_revoked := Some now\<rparr>)"
    by (simp add: find_revoke)
  from revoked_stays [OF this, of ks] show ?thesis by (auto simp: resolve_secret_def is_active_def is_authorized_def)
qed

text \<open>A registered key is authorized for exactly the scopes it was registered with.\<close>

lemma registered_scopes:
  assumes "register agent key scopes token secret now t = (Inr (kid, s), t')"
  obtains selected where "canonical_scopes scopes = Inr selected" "s = secret" "is_active kid t'"
    "\<And>scope. is_authorized kid scope t' \<longleftrightarrow> scope \<in> set selected"
proof -
  obtain selected where sel: "canonical_scopes scopes = Inr selected" "s = secret"
    and ins: "insert_row key_constraints (new_key kid agent selected now) t = Inr t'"
    using assms by (auto simp: register_def Let_def outcome_simps)
  let ?r = "new_key kid agent selected now"
  have found: "find_agent_key kid t' = Some ?r"
    using ins by (auto simp: insert_key find_agent_key_def find_append new_key_def)
  have sub: "set selected \<subseteq> set allowed_scopes" using sel(1) by (auto simp: canonical_scopes_def Let_def list_ex_iff split: if_splits)
  have "is_authorized kid scope t' \<longleftrightarrow> scope \<in> set selected" for scope
    using sub by (auto simp: is_authorized_def found scopes_read_back new_key_def)
  moreover have "is_active kid t'" by (simp add: is_active_def found new_key_def)
  ultimately show thesis using that sel by blast
qed

end
