(* ===== verification/Publication.thy ===== *)
theory Publication
  imports State_Store
begin

text \<open>
  Evidence files and the repair of interrupted publications, \<open>publication_reconciliation.py\<close>. A directory is a list of named
  entries; an entry is a regular file with its bytes, something else (a link, a directory), or a file whose reading fails. A
  payload is reserved as pending, its file is written, and it is committed; a crash in between leaves it pending. The sweep commits a
  pending payload when its file has the reserved hash. The clock reading is an argument, in microseconds.
\<close>

section \<open>Files\<close>

datatype file_entry = Regular "byte list" | Special | Unreadable

type_synonym directory = "(string \<times> file_entry) list"

definition os_error :: py_error where "os_error = OtherError ''OSError''"

text \<open>\<open>Path.stem\<close> and the pattern \<open>*.json\<close>.\<close>

definition path_stem :: "string \<Rightarrow> string" where
  "path_stem name =
     (let ext = length (takeWhile (\<lambda>c. c \<noteq> CHR ''.'') (rev name)) in
      if CHR ''.'' \<notin> set name \<or> ext = 0 \<or> Suc ext = length name then name
      else take (length name - Suc ext) name)"

definition json_names :: "directory \<Rightarrow> string list" where
  "json_names d = sort (filter (endswith ''.json'') (map fst d))"

definition is_evidence_filename :: "string \<Rightarrow> bool" where
  "is_evidence_filename s = (length s = 24 \<and> list_all is_hex s)"

definition read_evidence_bytes :: "directory \<Rightarrow> string \<Rightarrow> byte list option outcome" where
  "read_evidence_bytes d name =
     (case map_of d name of
        None \<Rightarrow> Inl os_error
      | Some Unreadable \<Rightarrow> Inl os_error
      | Some Special \<Rightarrow> Inr None
      | Some (Regular b) \<Rightarrow> Inr (Some b))"

definition read_verified_evidence :: "directory \<Rightarrow> string \<Rightarrow> string \<Rightarrow> byte list option outcome" where
  "read_verified_evidence d name expected =
     outcome_bind (read_evidence_bytes d name) (\<lambda>found.
       Inr (case found of None \<Rightarrow> None | Some b \<Rightarrow> if sha256_hex b \<noteq> expected then None else Some b))"

section \<open>The sweep\<close>

definition pending_candidate :: "state_db \<Rightarrow> directory \<Rightarrow> string \<Rightarrow> int \<Rightarrow> int \<Rightarrow> payload_row option outcome" where
  "pending_candidate db d name grace now =
     (let evidence = path_stem name in
      if \<not> is_evidence_filename evidence then Inr None
      else case find_payload_by_evidence_id evidence db of
        None \<Rightarrow> Inr None
      | Some r \<Rightarrow>
          if pl_status r = PayloadCommitted then Inr None
          else if now - pl_accepted r < seconds grace then Inr None
          else outcome_bind (read_verified_evidence d name (pl_hash r)) (\<lambda>found.
                 Inr (if found = None then None else Some r)))"

definition reconcile_candidate :: "directory \<Rightarrow> int \<Rightarrow> int \<Rightarrow> string \<Rightarrow> state_db \<Rightarrow> string option \<times> state_db" where
  "reconcile_candidate d grace now name db =
     (case pending_candidate db d name grace now of
        Inr (Some r) \<Rightarrow>
          (case commit_payload (pl_hash r) (path_stem name) db of
             (committed, db') \<Rightarrow> (if committed then Some (path_stem name) else None, db'))
      | _ \<Rightarrow> (None, db))"

fun reconcile_names :: "directory \<Rightarrow> int \<Rightarrow> int \<Rightarrow> string list \<Rightarrow> state_db \<Rightarrow> string list \<times> state_db" where
  "reconcile_names d grace now [] db = ([], db)"
| "reconcile_names d grace now (name # names) db =
     (case reconcile_candidate d grace now name db of
        (found, db') \<Rightarrow>
          (case reconcile_names d grace now names db' of
             (ids, db'') \<Rightarrow> ((case found of None \<Rightarrow> ids | Some e \<Rightarrow> e # ids), db'')))"

text \<open>A directory that cannot be listed is \<open>None\<close>.\<close>

fun reconcile_directories :: "directory option list \<Rightarrow> int \<Rightarrow> int \<Rightarrow> state_db \<Rightarrow> string list \<times> state_db" where
  "reconcile_directories [] grace now db = ([], db)"
| "reconcile_directories (d # ds) grace now db =
     (case (case d of None \<Rightarrow> ([], db) | Some d \<Rightarrow> reconcile_names d grace now (json_names d) db) of
        (ids, db') \<Rightarrow> (case reconcile_directories ds grace now db' of (ids', db'') \<Rightarrow> (ids @ ids', db'')))"

definition reconcile_pending_publications ::
    "directory option list \<Rightarrow> int \<Rightarrow> int \<Rightarrow> state_db \<Rightarrow> string list outcome \<times> state_db" where
  "reconcile_pending_publications ds grace now db =
     (if grace < 0 then (Inl (ValueError ''grace_seconds must not be negative''), db)
      else case reconcile_directories ds grace now db of (ids, db') \<Rightarrow> (Inr ids, db'))"

end
