(* ===== verification/Ingestion.thy ===== *)
theory Ingestion
  imports "HOL-Library.AList" Agent_Keys Publication Connectors Finding_Connectors
begin

text \<open>
  The authenticated ingestion of \<open>scripts/ingestion_api.py\<close>: postures, asset contexts and remediation tickets sent by agents over
  HTTP. A request is its path, its headers and the bytes that arrive; the server has the key registry, the decoded secrets, the state
  store and one inbox directory per record type. \<open>do_POST\<close> answers with a status and a JSON body, or lets an
  exception pass that the handler does not catch. The outcome of the file operations is an argument, so that a full disk or
  a crash after the rename is a run of the model. Header texts are Latin-1, as \<open>http.server\<close> decodes them; bodies with text outside
  Latin-1 are not represented.
\<close>

section \<open>Errors of a request\<close>

datatype http_error = IngestionError string nat | Raised py_error

type_synonym 'a http = "http_error + 'a"

definition http_bind :: "'a http \<Rightarrow> ('a \<Rightarrow> 'b http) \<Rightarrow> 'b http" where
  "http_bind m f = (case m of Inl e \<Rightarrow> Inl e | Inr x \<Rightarrow> f x)"

definition lift_http :: "'a outcome \<Rightarrow> 'a http" where
  "lift_http m = (case m of Inl e \<Rightarrow> Inl (Raised e) | Inr x \<Rightarrow> Inr x)"

definition require :: "bool \<Rightarrow> string \<Rightarrow> nat \<Rightarrow> unit http" where
  "require b m status = (if b then Inr () else Inl (IngestionError m status))"

named_theorems http_simps \<open>evaluation of requests\<close>

lemma http_bind_Inl [simp]: "http_bind (Inl e) f = Inl e" by (simp add: http_bind_def)
lemma http_bind_Inr [simp]: "http_bind (Inr x) f = f x" by (simp add: http_bind_def)

lemma http_bind_eq_Inr [http_simps]: "http_bind m f = Inr y \<longleftrightarrow> (\<exists>x. m = Inr x \<and> f x = Inr y)"
  by (cases m) auto

lemma lift_http_eq_Inr [http_simps]: "lift_http m = Inr x \<longleftrightarrow> m = Inr x"
  by (cases m) (simp_all add: lift_http_def)

lemma require_eq_Inr [http_simps]: "require b m n = Inr u \<longleftrightarrow> b"
  by (simp add: require_def)

lemma http_bind_eq_Inl [http_simps]: "http_bind m f = Inl e \<longleftrightarrow> m = Inl e \<or> (\<exists>x. m = Inr x \<and> f x = Inl e)"
  by (cases m) auto

lemma lift_http_eq_Inl [http_simps]: "lift_http m = Inl e \<longleftrightarrow> (\<exists>e'. m = Inl e' \<and> e = Raised e')"
  by (cases m) (auto simp: lift_http_def)

lemma require_eq_Inl [http_simps]: "require b m n = Inl e \<longleftrightarrow> \<not> b \<and> e = IngestionError m n"
  by (auto simp: require_def)

section \<open>Signatures and credentials\<close>

definition max_body_bytes :: int where "max_body_bytes = 64 * 1024"
definition max_clock_skew :: int where "max_clock_skew = 300"

definition make_signature :: "byte list \<Rightarrow> string \<Rightarrow> string \<Rightarrow> byte list \<Rightarrow> string" where
  "make_signature secret timestamp nonce body =
     hex_encode (hmac_sha256 secret
       (utf8_encode timestamp @ utf8_encode [line_feed] @ utf8_encode nonce @ utf8_encode [line_feed] @ body))"

definition nonce_char :: "char \<Rightarrow> bool" where
  "nonce_char c = (ascii_alnum c \<or> c \<in> {CHR ''_'', CHR ''-''})"

definition nonce_rx :: rx where
  "nonce_rx = RSeq (r_times 16 (RChar nonce_char)) (r_upto 48 (RChar nonce_char))"

definition parse_authorization :: "string \<Rightarrow> (string \<times> string) outcome" where
  "parse_authorization value =
     (if take 5 value \<noteq> ''HMAC '' then Inl (ValueError ''Missing HMAC authorization.'')
      else let credential = py_strip (drop 5 value) in
        if CHR '':'' \<notin> set credential then Inl (ValueError ''Key ID is required.'')
        else let kid = takeWhile (\<lambda>c. c \<noteq> CHR '':'') credential; signature = drop (Suc (length kid)) credential in
          if \<not> fullmatch key_id_rx kid \<or> \<not> fullmatch digest_rx signature
          then Inl (ValueError ''Invalid HMAC credential.'') else Inr (kid, signature))"

text \<open>\<open>int(text)\<close>: surrounding space, a sign, and digits that single underscores may separate.\<close>

fun digit_groups :: "string \<Rightarrow> bool" where
  "digit_groups [] = False"
| "digit_groups [c] = is_digit c"
| "digit_groups (c # d # s) = (is_digit c \<and> (if d = CHR ''_'' then digit_groups s else digit_groups (d # s)))"

definition py_int :: "string \<Rightarrow> int outcome" where
  "py_int s =
     (let t = py_strip s; signed = t \<noteq> [] \<and> hd t \<in> {CHR ''+'', CHR ''-''}; body = (if signed then tl t else t);
          digits = filter (\<lambda>c. c \<noteq> CHR ''_'') body in
      if \<not> digit_groups body then Inl (ValueError (''invalid literal for int() with base 10: '' @ repr_text s))
      else outcome_bind (int_of_digits digits) (\<lambda>i. Inr (if signed \<and> hd t = CHR ''-'' then - i else i)))"

section \<open>Postures\<close>

definition required_posture :: "string list" where
  "required_posture = [''asset_id'', ''bitlocker_system_drive'', ''collected_at'', ''days_since_last_update'',
     ''defender_realtime_enabled'', ''firewall_all_profiles_enabled'', ''hostname'', ''schema_version'']"

definition allowed_posture :: "string list" where
  "allowed_posture = required_posture @ [''os'', ''os_version'', ''domain'', ''checks'', ''owner'', ''criticality'']"

definition validate_posture_shape :: "fields \<Rightarrow> unit outcome" where
  "validate_posture_shape p =
     (let missing = filter (\<lambda>k. obj_get k p = None) required_posture;
          unknown = sort (remdups (filter (\<lambda>k. k \<notin> set allowed_posture) (map fst p))) in
      if missing \<noteq> [] then Inl (ValueError (''Missing required fields: '' @ text_list missing))
      else if unknown \<noteq> [] then Inl (ValueError (''Unknown fields: '' @ text_list unknown))
      else if dict_get ''schema_version'' p \<noteq> JStr ''1.0'' then Inl (ValueError ''Unsupported posture schema version.'')
      else Inr ())"

definition validate_identity_fields :: "fields \<Rightarrow> unit outcome" where
  "validate_identity_fields p =
     (if \<not> is_canonical_text (dict_get ''asset_id'' p) 128 \<or> \<not> is_identifier (dict_get ''asset_id'' p)
      then Inl (ValueError ''asset_id must be a canonical identifier.'')
      else ensure (is_canonical_text (dict_get ''hostname'' p) 255) (ValueError ''hostname is invalid.''))"

definition validate_collection_time :: "json \<Rightarrow> unit outcome" where
  "validate_collection_time v =
     (case parse_rfc3339 v ''posture'' ''collected_at'' of
        Inl _ \<Rightarrow> Inl (ValueError ''collected_at must be an ISO-8601 timestamp.'')
      | Inr _ \<Rightarrow> Inr ())"

fun validate_boolean_fields :: "string list \<Rightarrow> fields \<Rightarrow> unit outcome" where
  "validate_boolean_fields [] p = Inr ()"
| "validate_boolean_fields (k # ks) p =
     (case dict_get k p of JBool b \<Rightarrow> validate_boolean_fields ks p | _ \<Rightarrow> Inl (ValueError (k @ '' must be boolean.'')))"

definition posture_booleans :: "string list" where
  "posture_booleans = [''bitlocker_system_drive'', ''firewall_all_profiles_enabled'', ''defender_realtime_enabled'']"

definition validate_update_age :: "json \<Rightarrow> unit outcome" where
  "validate_update_age v =
     ensure (case v of JNull \<Rightarrow> True | JInt i \<Rightarrow> 0 \<le> i | _ \<Rightarrow> False)
       (ValueError ''days_since_last_update must be a non-negative integer or null.'')"

definition validate_optional_text :: "fields \<Rightarrow> string \<Rightarrow> nat \<Rightarrow> unit outcome" where
  "validate_optional_text p k maximum =
     (case obj_get k p of
        None \<Rightarrow> Inr ()
      | Some v \<Rightarrow> ensure (v = JNull \<or> is_canonical_text v maximum)
          (ValueError (k @ '' must be null or canonical text up to '' @ show_nat maximum @ '' characters.'')))"

definition validate_required_text_when_present :: "fields \<Rightarrow> string \<Rightarrow> nat \<Rightarrow> unit outcome" where
  "validate_required_text_when_present p k maximum =
     (case obj_get k p of
        None \<Rightarrow> Inr ()
      | Some v \<Rightarrow> ensure (is_canonical_text v maximum)
          (ValueError (k @ '' must be canonical text up to '' @ show_nat maximum @ '' characters.'')))"

definition validate_posture_context :: "fields \<Rightarrow> unit outcome" where
  "validate_posture_context p =
     outcome_bind (validate_optional_text p ''os'' 128) (\<lambda>_.
     outcome_bind (validate_optional_text p ''os_version'' 128) (\<lambda>_.
     outcome_bind (validate_required_text_when_present p ''owner'' 128) (\<lambda>_.
     outcome_bind (ensure (case dict_get ''domain'' p of JNull \<Rightarrow> True | JBool b \<Rightarrow> True | _ \<Rightarrow> False)
       (ValueError ''domain must be boolean or null.'')) (\<lambda>_.
       ensure (case obj_get ''criticality'' p of None \<Rightarrow> True | Some v \<Rightarrow> v \<in> JStr ` set severity_names)
         (ValueError ''criticality must be low, medium, high, or critical.'')))))"

definition check_keys :: "string list" where
  "check_keys = [''name'', ''passed'', ''value'', ''error'']"

definition validate_posture_check :: "json \<Rightarrow> unit outcome" where
  "validate_posture_check v =
     (case v of
        JObj kvs \<Rightarrow>
          outcome_bind (ensure (set (map fst kvs) = set check_keys)
            (ValueError ''each check must contain only name, passed, value, and error.'')) (\<lambda>_.
          outcome_bind (ensure (is_canonical_text (dict_get ''name'' kvs) 128)
            (ValueError ''check name must be canonical text up to 128 characters.'')) (\<lambda>_.
          outcome_bind (ensure (case dict_get ''passed'' kvs of JBool b \<Rightarrow> True | _ \<Rightarrow> False)
            (ValueError ''check passed must be boolean.'')) (\<lambda>_.
            ensure (dict_get ''error'' kvs = JNull \<or> is_canonical_text (dict_get ''error'' kvs) 512)
              (ValueError ''check error must be null or canonical text up to 512 characters.''))))
      | _ \<Rightarrow> Inl (ValueError ''each check must contain only name, passed, value, and error.''))"

fun validate_checks :: "json list \<Rightarrow> unit outcome" where
  "validate_checks [] = Inr ()"
| "validate_checks (v # vs) = outcome_bind (validate_posture_check v) (\<lambda>_. validate_checks vs)"

definition validate_posture_checks :: "json \<Rightarrow> unit outcome" where
  "validate_posture_checks v =
     (case v of
        JList vs \<Rightarrow> if 128 < length vs then Inl (ValueError ''checks must be an array with at most 128 items.'')
          else validate_checks vs
      | _ \<Rightarrow> Inl (ValueError ''checks must be an array with at most 128 items.''))"

definition validate_posture :: "json \<Rightarrow> unit outcome" where
  "validate_posture v =
     (case v of
        JObj p \<Rightarrow>
          outcome_bind (validate_posture_shape p) (\<lambda>_.
          outcome_bind (validate_identity_fields p) (\<lambda>_.
          outcome_bind (validate_collection_time (dict_get ''collected_at'' p)) (\<lambda>_.
          outcome_bind (validate_boolean_fields posture_booleans p) (\<lambda>_.
          outcome_bind (validate_update_age (dict_get ''days_since_last_update'' p)) (\<lambda>_.
          outcome_bind (validate_posture_context p) (\<lambda>_.
            case obj_get ''checks'' p of None \<Rightarrow> Inr () | Some checks \<Rightarrow> validate_posture_checks checks))))))
      | _ \<Rightarrow> Inl (ValueError ''Posture payload must be a JSON object.''))"

section \<open>Nonces held in memory\<close>

type_synonym nonce_table = "(string \<times> int) list"

definition memory_reserve :: "string \<Rightarrow> int \<Rightarrow> int \<Rightarrow> nonce_table \<Rightarrow> bool \<times> nonce_table" where
  "memory_reserve nonce ttl now t =
     (case map_of t nonce of
        Some expires \<Rightarrow> if now < expires then (False, t) else (True, AList.update nonce (now + seconds ttl) t)
      | None \<Rightarrow> (True, AList.update nonce (now + seconds ttl) t))"

section \<open>Authentication\<close>

text \<open>The clock reading is in seconds, as the code truncates it; the nonce is reserved last, in the store given.\<close>

definition authenticate_request ::
    "(string \<Rightarrow> int \<Rightarrow> int \<Rightarrow> 'st \<Rightarrow> bool \<times> 'st) \<Rightarrow> byte list \<Rightarrow> string \<Rightarrow> string \<Rightarrow> string \<Rightarrow> byte list \<Rightarrow> int
      \<Rightarrow> 'st \<Rightarrow> unit http \<times> 'st" where
  "authenticate_request reserve secret authorization timestamp nonce body now st =
     (case http_bind (case py_int timestamp of Inl _ \<Rightarrow> Inl (IngestionError ''Invalid timestamp.'' 401) | Inr t \<Rightarrow> Inr t) (\<lambda>t.
           http_bind (require (\<bar>now - t\<bar> \<le> max_clock_skew) ''Timestamp outside replay window.'' 401) (\<lambda>_.
           http_bind (require (fullmatch nonce_rx nonce) ''Invalid nonce.'' 401) (\<lambda>_.
           http_bind (case parse_authorization authorization of
               Inl (ValueError m) \<Rightarrow> Inl (IngestionError m 401) | Inl e \<Rightarrow> Inl (Raised e) | Inr (kid, signature) \<Rightarrow> Inr signature)
             (\<lambda>supplied.
           http_bind (lift_http (compare_digest supplied (make_signature secret timestamp nonce body))) (\<lambda>genuine.
             require genuine ''Invalid signature.'' 401))))) of
        Inl e \<Rightarrow> (Inl e, st)
      | Inr _ \<Rightarrow>
          (case reserve nonce max_clock_skew (seconds now) st of
             (fresh, st') \<Rightarrow> (require fresh ''Replay detected.'' 401, st')))"

section \<open>The server\<close>

record http_request =
  rq_path :: string
  rq_content_type :: "string option"
  rq_content_length :: "string option"
  rq_timestamp :: "string option"
  rq_nonce :: "string option"
  rq_authorization :: "string option"
  rq_received :: "byte list"

record server =
  sv_keys :: "key_row list"
  sv_secrets :: fields
  sv_state :: state_db
  sv_inbox :: "string \<Rightarrow> directory"

definition header :: "string \<Rightarrow> string option \<Rightarrow> string" where
  "header d v = (case v of None \<Rightarrow> d | Some s \<Rightarrow> s)"

definition request_body :: "http_request \<Rightarrow> byte list http" where
  "request_body rq =
     http_bind (require (take 16 (py_lower (header [] (rq_content_type rq))) = ''application/json'')
       ''Content-Type must be application/json.'' 400) (\<lambda>_.
     http_bind (lift_http (py_int (header ''0'' (rq_content_length rq)))) (\<lambda>length.
     http_bind (require (1 \<le> length \<and> length \<le> max_body_bytes) ''Payload size is not allowed.'' 413) (\<lambda>_.
     let body = take (nat length) (rq_received rq) in
     http_bind (require (int (List.length body) = length) ''Incomplete request body.'' 400) (\<lambda>_. Inr body))))"

text \<open>The key identifier, the secret and the signature offered.\<close>

definition request_key :: "http_request \<Rightarrow> server \<Rightarrow> (string \<times> string \<times> byte list) http" where
  "request_key rq sv =
     http_bind (lift_http (parse_authorization (header [] (rq_authorization rq)))) (\<lambda>(kid, signature).
       case resolve_secret kid (sv_secrets sv) (sv_keys sv) of
         None \<Rightarrow> Inl (IngestionError ''Unknown or revoked key.'' 401)
       | Some secret \<Rightarrow> Inr (kid, signature, secret))"

definition read_authenticated_body :: "http_request \<Rightarrow> string \<Rightarrow> int \<Rightarrow> server \<Rightarrow> byte list http \<times> server" where
  "read_authenticated_body rq scope now sv =
     (case http_bind (request_body rq) (\<lambda>body. http_bind (request_key rq sv) (\<lambda>key. Inr (body, key))) of
        Inl e \<Rightarrow> (Inl e, sv)
      | Inr (body, kid, signature, secret) \<Rightarrow>
          (case authenticate_request reserve_nonce secret (''HMAC '' @ kid @ '':'' @ signature)
                  (header [] (rq_timestamp rq)) (header [] (rq_nonce rq)) body now (sv_state sv) of
             (r, db) \<Rightarrow>
               (http_bind r (\<lambda>_. http_bind (require (is_authorized kid scope (sv_keys sv)) ''Key is not authorized for this route.'' 403)
                  (\<lambda>_. Inr body)), sv\<lparr>sv_state := db\<rparr>)))"

section \<open>Publication of a body\<close>

text \<open>
  The file operations: all succeed, the write or the rename fails and leaves no file, or the file is in place and the synchronisation of
  its directory fails.
\<close>

datatype write_result = Written | NotWritten | NotSynced

definition evidence_file :: "string \<Rightarrow> string" where
  "evidence_file eid = eid @ ''.json''"

definition put_file :: "string \<Rightarrow> byte list \<Rightarrow> directory \<Rightarrow> directory" where
  "put_file name b d = AList.update name (Regular b) d"

definition write_evidence :: "string \<Rightarrow> string \<Rightarrow> byte list \<Rightarrow> write_result \<Rightarrow> server \<Rightarrow> unit outcome \<times> server" where
  "write_evidence kind eid body io sv =
     (if io = NotWritten then (Inl os_error, sv)
      else (if io = NotSynced then Inl os_error else Inr (),
        sv\<lparr>sv_inbox := (sv_inbox sv)(kind := put_file (evidence_file eid) body (sv_inbox sv kind))\<rparr>))"

definition publish_new :: "string \<Rightarrow> string \<Rightarrow> string \<Rightarrow> byte list \<Rightarrow> write_result \<Rightarrow> int \<Rightarrow> server \<Rightarrow> unit outcome \<times> server" where
  "publish_new kind h eid body io now sv =
     (case begin_payload h eid now (sv_state sv) of
        (Inl e, db) \<Rightarrow> (Inl e, sv\<lparr>sv_state := db\<rparr>)
      | (Inr _, db) \<Rightarrow>
          (case write_evidence kind eid body io (sv\<lparr>sv_state := db\<rparr>) of
             (Inl e, sv') \<Rightarrow> (Inl e, sv')
           | (Inr _, sv') \<Rightarrow>
               (case commit_payload h eid (sv_state sv') of
                  (committed, db') \<Rightarrow>
                    (if committed \<or> get_evidence_id h db' = Some eid then Inr ()
                     else Inl (OtherError ''OperationalError''), sv'\<lparr>sv_state := db'\<rparr>))))"

text \<open>The status reported and the evidence identifier.\<close>

definition persist_validated_body ::
    "string \<Rightarrow> byte list \<Rightarrow> write_result \<Rightarrow> int \<Rightarrow> server \<Rightarrow> (string \<times> string) outcome \<times> server" where
  "persist_validated_body kind body io now sv =
     (let h = sha256_hex body; eid = take 24 h in
      case get_evidence_id h (sv_state sv) of
        Some existing \<Rightarrow> (Inr (''duplicate'', existing), sv)
      | None \<Rightarrow>
          (case publish_new kind h eid body io now sv of
             (Inl e, sv') \<Rightarrow> (Inl e, sv') | (Inr _, sv') \<Rightarrow> (Inr (''accepted'', eid), sv')))"

definition decode_body :: "byte list \<Rightarrow> json outcome" where
  "decode_body body = (case Option.bind (utf8_decode body) json_loads of None \<Rightarrow> Inl JSONDecodeError | Some v \<Rightarrow> Inr v)"

text \<open>What a route stores, and the fields it adds to the response.\<close>

definition posture_record :: "byte list \<Rightarrow> (byte list \<times> fields) outcome" where
  "posture_record body =
     outcome_bind (decode_body body) (\<lambda>v. outcome_bind (validate_posture v) (\<lambda>_.
       Inr (body, [(''record_type'', JStr ''posture'')])))"

definition portfolio_record :: "string \<Rightarrow> string \<Rightarrow> (json \<Rightarrow> fields outcome) \<Rightarrow> byte list \<Rightarrow> (byte list \<times> fields) outcome" where
  "portfolio_record kind identity normalizer body =
     outcome_bind (decode_body body) (\<lambda>v. outcome_bind (normalizer v) (\<lambda>r.
       Inr (utf8_encode (json_dumps compact_ascii (JObj r)),
            [(''record_type'', JStr kind), (identity, dict_get identity r)])))"

record route =
  rt_kind :: string
  rt_scope :: string
  rt_record :: "byte list \<Rightarrow> (byte list \<times> fields) outcome"

definition route_of :: "string \<Rightarrow> route option" where
  "route_of path = map_of
     [(''/v1/posture'', \<lparr>rt_kind = ''posture'', rt_scope = posture_scope, rt_record = posture_record\<rparr>),
      (''/v1/asset-context'', \<lparr>rt_kind = ''asset_context'', rt_scope = asset_scope,
         rt_record = portfolio_record ''asset_context'' ''context_id'' normalize_asset_context\<rparr>),
      (''/v1/remediation-ticket'', \<lparr>rt_kind = ''remediation_ticket'', rt_scope = ticket_scope,
         rt_record = portfolio_record ''remediation_ticket'' ''ticket_context_id'' normalize_remediation_ticket\<rparr>)] path"

type_synonym response = "nat \<times> fields"

definition accept_request :: "route \<Rightarrow> http_request \<Rightarrow> write_result \<Rightarrow> int \<Rightarrow> server \<Rightarrow> response http \<times> server" where
  "accept_request rt rq io now sv =
     (case read_authenticated_body rq (rt_scope rt) now sv of
        (Inl e, sv') \<Rightarrow> (Inl e, sv')
      | (Inr body, sv') \<Rightarrow>
          (case rt_record rt body of
             Inl e \<Rightarrow> (Inl (Raised e), sv')
           | Inr (canonical, extra) \<Rightarrow>
               (case persist_validated_body (rt_kind rt) canonical io (seconds now) sv' of
                  (Inl e, sv'') \<Rightarrow> (Inl (Raised e), sv'')
                | (Inr (status, eid), sv'') \<Rightarrow>
                    (Inr (202, [(''status'', JStr status), (''evidence_id'', JStr eid)] @ extra), sv''))))"

definition error_body :: "string \<Rightarrow> fields" where
  "error_body m = [(''error'', JStr m)]"

text \<open>Storage errors are \<open>OSError\<close> and the errors of the database driver.\<close>

definition storage_error :: "py_error \<Rightarrow> bool" where
  "storage_error e = (case e of IntegrityError _ \<Rightarrow> True
     | OtherError name \<Rightarrow> name \<in> {''OSError'', ''OperationalError'', ''ProgrammingError''} | _ \<Rightarrow> False)"

definition answer :: "response http \<Rightarrow> response outcome" where
  "answer r =
     (case r of
        Inr x \<Rightarrow> Inr x
      | Inl (IngestionError m status) \<Rightarrow> Inr (status, error_body m)
      | Inl (Raised e) \<Rightarrow>
          (case e of
             JSONDecodeError \<Rightarrow> Inr (400, error_body ''invalid_json'')
           | ValueError m \<Rightarrow> Inr (400, error_body m)
           | _ \<Rightarrow> if storage_error e then Inr (503, error_body ''Evidence storage is unavailable.'') else Inl e))"

definition do_POST :: "http_request \<Rightarrow> write_result \<Rightarrow> int \<Rightarrow> server \<Rightarrow> response outcome \<times> server" where
  "do_POST rq io now sv =
     (case route_of (rq_path rq) of
        None \<Rightarrow> (Inr (404, error_body ''not_found''), sv)
      | Some rt \<Rightarrow> (case accept_request rt rq io now sv of (r, sv') \<Rightarrow> (answer r, sv')))"

text \<open>The sweep of a starting server, without grace, and the one of the \<open>reconcile\<close> command.\<close>

definition inbox_kinds :: "string list" where
  "inbox_kinds = [''posture'', ''asset_context'', ''remediation_ticket'']"

definition run_reconcile :: "int \<Rightarrow> int \<Rightarrow> server \<Rightarrow> string list outcome \<times> server" where
  "run_reconcile grace now sv =
     (case reconcile_pending_publications (map (\<lambda>k. Some (sv_inbox sv k)) inbox_kinds) grace now (sv_state sv) of
        (r, db) \<Rightarrow> (r, sv\<lparr>sv_state := db\<rparr>))"

definition initialize_runtime :: "int \<Rightarrow> server \<Rightarrow> string list outcome \<times> server" where
  "initialize_runtime now sv = run_reconcile 0 now sv"

end
