(* ===== verification/Publication_Properties.thy ===== *)
theory Publication_Properties
  imports Publication State_Properties
begin

text \<open>
  The sweep over interrupted publications: it only commits pending payloads whose file has the reserved hash, it leaves everything else of
  the state alone, and it does commit every such payload that is old enough.
\<close>

section \<open>What a sweep changes\<close>

definition commit_where :: "(string \<Rightarrow> string \<Rightarrow> bool) \<Rightarrow> state_db \<Rightarrow> state_db" where
  "commit_where P db = db\<lparr>st_payloads :=
     update_where (\<lambda>r. P (pl_hash r) (pl_evidence r)) (\<lambda>r. r\<lparr>pl_status := PayloadCommitted\<rparr>) (st_payloads db)\<rparr>"

definition verified_in :: "directory option list \<Rightarrow> string \<Rightarrow> string \<Rightarrow> bool" where
  "verified_in ds h e \<longleftrightarrow> is_evidence_filename e
     \<and> (\<exists>d name b. Some d \<in> set ds \<and> map_of d name = Some (Regular b) \<and> sha256_hex b = h \<and> path_stem name = e)"

lemma commit_where_none [simp]: "commit_where (\<lambda>h e. False) db = db"
  by (simp add: commit_where_def update_where_def)

lemma commit_where_twice: "commit_where Q (commit_where P db) = commit_where (\<lambda>h e. P h e \<or> Q h e) db"
  by (simp add: commit_where_def update_where_def)

lemma commit_payload_where: "snd (commit_payload h e db) = commit_where (\<lambda>h' e'. h' = h \<and> e' = e) db"
  by (simp add: commit_payload_def commit_where_def Let_def)

lemma verified_read:
  "read_verified_evidence d name h = Inr (Some b) \<longleftrightarrow> map_of d name = Some (Regular b) \<and> sha256_hex b = h"
  by (cases "map_of d name"; cases "the (map_of d name)") (auto simp: read_verified_evidence_def read_evidence_bytes_def)

lemma candidate_ok:
  assumes "pending_candidate db d name grace now = Inr (Some r)"
  shows "find_payload_by_evidence_id (path_stem name) db = Some r" "pl_status r = PayloadPending"
    "seconds grace \<le> now - pl_accepted r" "Some d \<in> set ds \<Longrightarrow> verified_in ds (pl_hash r) (path_stem name)"
proof -
  have f: "is_evidence_filename (path_stem name)" "find_payload_by_evidence_id (path_stem name) db = Some r"
    "pl_status r \<noteq> PayloadCommitted" "seconds grace \<le> now - pl_accepted r"
    and "\<exists>b. read_verified_evidence d name (pl_hash r) = Inr (Some b)"
    using assms by (auto simp: pending_candidate_def Let_def outcome_simps split: if_splits option.splits)
  then show "find_payload_by_evidence_id (path_stem name) db = Some r" "seconds grace \<le> now - pl_accepted r"
    "Some d \<in> set ds \<Longrightarrow> verified_in ds (pl_hash r) (path_stem name)" by (auto simp: verified_read verified_in_def)
  show "pl_status r = PayloadPending" using f(3) by (cases "pl_status r") simp_all
qed

lemma reconcile_candidate_commits:
  assumes "Some d \<in> set ds"
  obtains P where "snd (reconcile_candidate d grace now name db) = commit_where P db" "\<And>h e. P h e \<Longrightarrow> verified_in ds h e"
proof (cases "pending_candidate db d name grace now")
  case (Inr found)
  show thesis
  proof (cases found)
    case (Some r)
    let ?P = "\<lambda>h e. h = pl_hash r \<and> e = path_stem name"
    have "snd (reconcile_candidate d grace now name db) = commit_where ?P db"
      using Inr Some commit_payload_where [of "pl_hash r" "path_stem name" db]
      by (simp add: reconcile_candidate_def case_prod_beta)
    then show thesis using that candidate_ok(4) [OF Inr [unfolded Some] assms] by blast
  qed (use Inr that [of "\<lambda>h e. False"] in \<open>simp add: reconcile_candidate_def\<close>)
qed (use that [of "\<lambda>h e. False"] in \<open>simp add: reconcile_candidate_def\<close>)

lemma reconcile_names_commits:
  assumes "Some d \<in> set ds"
  shows "\<exists>P. snd (reconcile_names d grace now names db) = commit_where P db \<and> (\<forall>h e. P h e \<longrightarrow> verified_in ds h e)"
proof (induction names arbitrary: db)
  case (Cons name names)
  obtain found db1 where one: "reconcile_candidate d grace now name db = (found, db1)" by fastforce
  obtain P where P: "db1 = commit_where P db" "\<And>h e. P h e \<Longrightarrow> verified_in ds h e"
    using reconcile_candidate_commits [OF assms, of grace now name db] unfolding one by auto
  obtain Q where Q: "snd (reconcile_names d grace now names db1) = commit_where Q db1" "\<forall>h e. Q h e \<longrightarrow> verified_in ds h e"
    using Cons.IH by blast
  have "snd (reconcile_names d grace now (name # names) db) = commit_where (\<lambda>h e. P h e \<or> Q h e) db"
    using Q(1) P(1) by (simp add: one commit_where_twice case_prod_beta)
  then show ?case using P(2) Q(2) by blast
qed (auto intro: exI [of _ "\<lambda>h e. False"])

lemma reconcile_directories_commits:
  "set ds \<subseteq> set all \<Longrightarrow> \<exists>P. snd (reconcile_directories ds grace now db) = commit_where P db \<and> (\<forall>h e. P h e \<longrightarrow> verified_in all h e)"
proof (induction ds arbitrary: db)
  case (Cons d ds)
  obtain ids db1 where one: "(case d of None \<Rightarrow> ([], db) | Some d \<Rightarrow> reconcile_names d grace now (json_names d) db) = (ids, db1)" by fastforce
  have "\<exists>P. db1 = commit_where P db \<and> (\<forall>h e. P h e \<longrightarrow> verified_in all h e)"
  proof (cases d)
    case None
    then show ?thesis using one by (intro exI [of _ "\<lambda>h e. False"]) simp
  next
    case (Some d')
    then show ?thesis using one reconcile_names_commits [of d' all grace now "json_names d'" db] Cons.prems by auto
  qed
  then obtain P where P: "db1 = commit_where P db" "\<forall>h e. P h e \<longrightarrow> verified_in all h e" by blast
  obtain Q where Q: "snd (reconcile_directories ds grace now db1) = commit_where Q db1" "\<forall>h e. Q h e \<longrightarrow> verified_in all h e"
    using Cons.IH Cons.prems by (meson set_subset_Cons subset_trans)
  have "snd (reconcile_directories (d # ds) grace now db) = commit_where (\<lambda>h e. P h e \<or> Q h e) db"
    using Q(1) P(1) by (simp add: one commit_where_twice case_prod_beta)
  then show ?case using P(2) Q(2) by blast
qed (auto intro: exI [of _ "\<lambda>h e. False"])

text \<open>
  A sweep commits verified evidence only: it changes nothing but the status of payloads, and each payload it touches has, in
  one of the directories, a regular file named by its evidence identifier whose bytes have the reserved hash.
\<close>

theorem sweeps_commit_verified_evidence:
  "\<exists>P. snd (reconcile_pending_publications ds grace now db) = commit_where P db \<and> (\<forall>h e. P h e \<longrightarrow> verified_in ds h e)"
  using reconcile_directories_commits [of ds ds grace now db]
  by (auto simp: reconcile_pending_publications_def split: prod.splits intro: exI [of _ "\<lambda>h e. False"])

section \<open>What a sweep repairs\<close>

text \<open>A reservation that a sweep at this time may commit, and one that is committed.\<close>

definition repairable :: "int \<Rightarrow> int \<Rightarrow> string \<Rightarrow> string \<Rightarrow> state_db \<Rightarrow> bool" where
  "repairable grace now h e db \<longleftrightarrow>
     (\<exists>r \<in> set (st_payloads db). pl_hash r = h \<and> pl_evidence r = e \<and> pl_accepted r + seconds grace \<le> now)
     \<and> (\<forall>r \<in> set (st_payloads db). pl_evidence r = e \<longrightarrow> pl_hash r = h \<and> pl_accepted r + seconds grace \<le> now)"

definition committed_as :: "string \<Rightarrow> string \<Rightarrow> state_db \<Rightarrow> bool" where
  "committed_as h e db \<longleftrightarrow>
     (\<exists>r \<in> set (st_payloads db). pl_hash r = h \<and> pl_evidence r = e \<and> pl_status r = PayloadCommitted)"

definition marked :: "(string \<Rightarrow> string \<Rightarrow> bool) \<Rightarrow> payload_row \<Rightarrow> payload_row" where
  "marked P r = (if P (pl_hash r) (pl_evidence r) then r\<lparr>pl_status := PayloadCommitted\<rparr> else r)"

lemma marked_columns [simp]:
  "pl_hash (marked P r) = pl_hash r" "pl_evidence (marked P r) = pl_evidence r" "pl_accepted (marked P r) = pl_accepted r"
  "pl_status (marked P r) = PayloadCommitted \<longleftrightarrow> pl_status r = PayloadCommitted \<or> P (pl_hash r) (pl_evidence r)"
  by (simp_all add: marked_def)

lemma commit_where_rows: "st_payloads (commit_where P db) = map (marked P) (st_payloads db)"
  by (simp add: commit_where_def update_where_def marked_def [abs_def])

lemma repairable_commit [simp]: "repairable grace now h e (commit_where P db) = repairable grace now h e db"
  by (simp add: repairable_def commit_where_rows)

lemma committed_commit: "committed_as h e db \<Longrightarrow> committed_as h e (commit_where P db)"
  by (fastforce simp: committed_as_def commit_where_rows)

lemma committed_found:
  assumes "committed_as h e db" "distinct (map pl_hash (st_payloads db))"
  shows "get_evidence_id h db = Some e"
proof -
  obtain r where r: "r \<in> set (st_payloads db)" "pl_hash r = h" "pl_evidence r = e" "pl_status r = PayloadCommitted"
    using assms(1) by (auto simp: committed_as_def)
  then obtain x where x: "List.find (\<lambda>r. pl_hash r = h \<and> pl_status r = PayloadCommitted) (st_payloads db) = Some x"
    by (cases "List.find (\<lambda>r. pl_hash r = h \<and> pl_status r = PayloadCommitted) (st_payloads db)") (auto simp: find_None_iff)
  then have "x \<in> set (st_payloads db)" "pl_hash x = h" by (auto simp: find_Some_iff)
  then have "x = r" using assms(2) r by (auto simp: distinct_map inj_on_def)
  then show ?thesis using x r(3) by (simp add: get_evidence_id_def)
qed

lemma candidate_repaired:
  assumes "repairable grace now h (path_stem name) db" "map_of d name = Some (Regular b)" "sha256_hex b = h"
    and "is_evidence_filename (path_stem name)"
  shows "committed_as h (path_stem name) (snd (reconcile_candidate d grace now name db))"
proof -
  let ?e = "path_stem name"
  obtain r where r: "find_payload_by_evidence_id ?e db = Some r"
    using assms(1) by (cases "find_payload_by_evidence_id ?e db") (auto simp: find_payload_by_evidence_id_def repairable_def find_None_iff)
  then have "r \<in> set (st_payloads db)" "pl_evidence r = ?e" by (auto simp: find_payload_by_evidence_id_def find_Some_iff)
  then have row: "r \<in> set (st_payloads db)" "pl_evidence r = ?e" "pl_hash r = h" "pl_accepted r + seconds grace \<le> now"
    using assms(1) by (auto simp: repairable_def)
  show ?thesis
  proof (cases "pl_status r")
    case PayloadCommitted
    then have "reconcile_candidate d grace now name db = (None, db)"
      using r assms(4) by (simp add: reconcile_candidate_def pending_candidate_def)
    then show ?thesis using row PayloadCommitted by (auto simp: committed_as_def)
  next
    case PayloadPending
    have "read_verified_evidence d name h = Inr (Some b)" using assms(2,3) by (simp add: verified_read)
    then have "pending_candidate db d name grace now = Inr (Some r)"
      using r row assms(4) PayloadPending by (simp add: pending_candidate_def)
    then have "snd (reconcile_candidate d grace now name db) = commit_where (\<lambda>h' e'. h' = h \<and> e' = ?e) db"
      using commit_payload_where [of h ?e db] row(3) by (simp add: reconcile_candidate_def case_prod_beta)
    then show ?thesis using row by (auto simp: committed_as_def commit_where_rows)
  qed
qed

lemma names_repaired:
  assumes "map_of d name = Some (Regular b)" "sha256_hex b = h" "is_evidence_filename (path_stem name)"
  shows "repairable grace now h (path_stem name) db \<Longrightarrow> name \<in> set names \<Longrightarrow>
    committed_as h (path_stem name) (snd (reconcile_names d grace now names db))"
proof (induction names arbitrary: db)
  case (Cons n names)
  obtain found db1 where one: "reconcile_candidate d grace now n db = (found, db1)" by fastforce
  obtain P where P: "db1 = commit_where P db"
    using reconcile_candidate_commits [of d "[Some d]" grace now n db] unfolding one by auto
  obtain Q where Q: "snd (reconcile_names d grace now names db1) = commit_where Q db1"
    using reconcile_names_commits [of d "[Some d]" grace now names db1] by auto
  have run: "snd (reconcile_names d grace now (n # names) db) = commit_where Q db1" using Q by (simp add: one case_prod_beta)
  show ?case
  proof (cases "n = name")
    case True
    then have "committed_as h (path_stem name) db1"
      using candidate_repaired [OF Cons.prems(1) assms] one by simp
    then show ?thesis unfolding run by (rule committed_commit)
  next
    case False
    then show ?thesis using Cons.IH [of db1] Cons.prems run Q by (simp add: P)
  qed
qed simp

lemma directories_repaired:
  assumes "map_of d name = Some (Regular b)" "sha256_hex b = h" "is_evidence_filename (path_stem name)" "endswith ''.json'' name"
  shows "repairable grace now h (path_stem name) db \<Longrightarrow> Some d \<in> set ds \<Longrightarrow>
    committed_as h (path_stem name) (snd (reconcile_directories ds grace now db))"
proof (induction ds arbitrary: db)
  case (Cons x ds)
  obtain ids db1 where one: "(case x of None \<Rightarrow> ([], db) | Some d \<Rightarrow> reconcile_names d grace now (json_names d) db) = (ids, db1)" by fastforce
  obtain P where P: "db1 = commit_where P db"
    using reconcile_directories_commits [of "[x]" "[x]" grace now db] one by (auto simp: case_prod_beta)
  obtain Q where Q: "snd (reconcile_directories ds grace now db1) = commit_where Q db1"
    using reconcile_directories_commits [of ds ds grace now db1] by auto
  have run: "snd (reconcile_directories (x # ds) grace now db) = commit_where Q db1" using Q by (simp add: one case_prod_beta)
  show ?case
  proof (cases "x = Some d")
    case True
    have "name \<in> set (json_names d)"
      using imageI [OF map_of_SomeD [OF assms(1)], of fst] assms(4) by (simp add: json_names_def)
    moreover have "reconcile_names d grace now (json_names d) db = (ids, db1)" using one True by simp
    ultimately have "committed_as h (path_stem name) db1" using names_repaired [OF assms(1-3) Cons.prems(1)] by fastforce
    then show ?thesis unfolding run by (rule committed_commit)
  next
    case False
    then show ?thesis using Cons.IH [of db1] Cons.prems run Q by (simp add: P)
  qed
qed simp

end
