(* ===== verification/Ingestion_Properties.thy ===== *)
theory Ingestion_Properties
  imports Ingestion Publication_Properties
begin

text \<open>
  Properties of the ingestion API: what an accepted request proves about its sender and about the store; that a refused
  request leaves no trace but its nonce; that a publication interrupted by a crash is repaired when the server starts; and
  that the replay protection ends before the time window of a request does.
\<close>

section \<open>Authentication\<close>

lemma key_id_no_space: "key_id_char c \<Longrightarrow> \<not> py_isspace c \<and> c \<noteq> CHR '':''"
  by (auto simp: key_id_char_def ascii_alnum_def ascii_upper_def ascii_lower_def between_def is_digit_def py_isspace_def)

lemma hex_no_space: "is_hex c \<Longrightarrow> \<not> py_isspace c"
  by (auto simp: is_hex_def py_isspace_def Let_def)

lemma digest_iff: "fullmatch digest_rx s \<longleftrightarrow> length s = 64 \<and> list_all is_hex s"
  by (simp add: digest_rx_def fullmatch_iff)

lemma parse_again:
  assumes "parse_authorization v = Inr (kid, s)"
  shows "parse_authorization (''HMAC '' @ kid @ '':'' @ s) = Inr (kid, s)"
proof -
  have ok: "fullmatch key_id_rx kid" "fullmatch digest_rx s" using assms by (auto simp: parse_authorization_def Let_def split: if_splits)
  then have k: "kid \<noteq> []" "list_all key_id_char kid" and d: "s \<noteq> []" "list_all is_hex s" by (auto simp: key_id_iff digest_iff)
  have "\<not> py_isspace (hd kid)" using k key_id_no_space by (cases kid) auto
  moreover have "\<not> py_isspace (last s)" using d hex_no_space by (cases s rule: rev_cases) auto
  ultimately have strip: "py_strip (kid @ '':'' @ s) = kid @ '':'' @ s" using k(1) d(1)
    by (simp add: py_strip_def py_lstrip_id py_rstrip_id)
  have "takeWhile (\<lambda>c. c \<noteq> CHR '':'') (kid @ '':'' @ s) = kid"
    using k(2) key_id_no_space by (subst takeWhile_append2) (auto simp: list_all_iff)
  then show ?thesis using ok strip by (simp add: parse_authorization_def Let_def)
qed

lemma authenticated_request:
  assumes "authenticate_request reserve secret authorization timestamp nonce body now st = (Inr (), st')"
  obtains t kid where "py_int timestamp = Inr t" "\<bar>now - t\<bar> \<le> max_clock_skew" "fullmatch nonce_rx nonce"
    "parse_authorization authorization = Inr (kid, make_signature secret timestamp nonce body)"
    "reserve nonce max_clock_skew (seconds now) st = (True, st')"
  using assms
  by (auto simp: authenticate_request_def http_simps compare_digest_def require_def split: sum.splits prod.splits if_splits py_error.splits)

lemma authenticated_again:
  assumes "authenticate_request reserve secret authorization timestamp nonce body now st = (Inr (), st')"
    and "py_int timestamp = Inr t" "\<bar>now' - t\<bar> \<le> max_clock_skew"
    and "reserve' nonce max_clock_skew (seconds now') st2 = (True, st3)"
  shows "authenticate_request reserve' secret authorization timestamp nonce body now' st2 = (Inr (), st3)"
  using assms
  by (auto simp: authenticate_request_def require_def lift_http_def split: sum.splits prod.splits if_splits py_error.splits)

text \<open>The nonces held in memory keep the contract of the stores that admit an identity once.\<close>

interpretation mg: replay_guard memory_reserve "\<lambda>t k now. \<exists>e. map_of t k = Some e \<and> now < e" "\<lambda>ttl now t. t < now + seconds ttl"
proof
  fix t k ttl now u k'
  show "\<exists>e. map_of t k = Some e \<and> now < e \<Longrightarrow> \<not> fst (memory_reserve k ttl now t)"
    by (auto simp: memory_reserve_def)
  show "fst (memory_reserve k ttl now t) \<Longrightarrow> u < now + seconds ttl \<Longrightarrow>
      \<exists>e. map_of (snd (memory_reserve k ttl now t)) k = Some e \<and> u < e"
    by (auto simp: memory_reserve_def update_conv' split: option.splits if_splits)
  show "\<exists>e. map_of t k = Some e \<and> u < e \<Longrightarrow> \<exists>e. map_of t k = Some e \<and> now < e \<Longrightarrow>
      \<exists>e. map_of (snd (memory_reserve k' ttl now t)) k = Some e \<and> u < e"
    by (auto simp: memory_reserve_def update_conv' split: option.splits)
qed

text \<open>The keys, the signature and the time of an authenticated request.\<close>

definition authentic :: "http_request \<Rightarrow> string \<Rightarrow> int \<Rightarrow> server \<Rightarrow> byte list \<Rightarrow> bool" where
  "authentic rq scope now sv body \<longleftrightarrow> request_body rq = Inr body
     \<and> (\<exists>kid secret t. parse_authorization (header [] (rq_authorization rq)) =
            Inr (kid, make_signature secret (header [] (rq_timestamp rq)) (header [] (rq_nonce rq)) body)
          \<and> resolve_secret kid (sv_secrets sv) (sv_keys sv) = Some secret \<and> is_authorized kid scope (sv_keys sv)
          \<and> py_int (header [] (rq_timestamp rq)) = Inr t \<and> \<bar>now - t\<bar> \<le> 300)"

lemma authenticated_body:
  assumes "read_authenticated_body rq scope now sv = (Inr body, sv')"
  shows "authentic rq scope now sv body"
    and "reserve_nonce (header [] (rq_nonce rq)) 300 (seconds now) (sv_state sv) = (True, sv_state sv')"
    and "sv' = sv\<lparr>sv_state := sv_state sv'\<rparr>"
proof -
  obtain kid signature secret where key: "request_body rq = Inr body"
    "parse_authorization (header [] (rq_authorization rq)) = Inr (kid, signature)"
    "resolve_secret kid (sv_secrets sv) (sv_keys sv) = Some secret" "is_authorized kid scope (sv_keys sv)"
    and auth: "authenticate_request reserve_nonce secret (''HMAC '' @ kid @ '':'' @ signature)
        (header [] (rq_timestamp rq)) (header [] (rq_nonce rq)) body now (sv_state sv) = (Inr (), sv_state sv')"
    and sv': "sv' = sv\<lparr>sv_state := sv_state sv'\<rparr>"
    using assms by (auto simp: read_authenticated_body_def request_key_def http_simps split: sum.splits prod.splits option.splits)
  from sv' show "sv' = sv\<lparr>sv_state := sv_state sv'\<rparr>" .
  obtain t where t: "py_int (header [] (rq_timestamp rq)) = Inr t" "\<bar>now - t\<bar> \<le> max_clock_skew"
      "signature = make_signature secret (header [] (rq_timestamp rq)) (header [] (rq_nonce rq)) body"
    and res: "reserve_nonce (header [] (rq_nonce rq)) max_clock_skew (seconds now) (sv_state sv) = (True, sv_state sv')"
    using authenticated_request [OF auth] parse_again [OF key(2)] by auto
  from res show "reserve_nonce (header [] (rq_nonce rq)) 300 (seconds now) (sv_state sv) = (True, sv_state sv')"
    by (simp add: max_clock_skew_def)
  show "authentic rq scope now sv body" using key t by (auto simp: authentic_def max_clock_skew_def)
qed

section \<open>Publication\<close>

lemma inbox_file [simp]: "map_of (put_file name b d) name = Some (Regular b)"
  by (simp add: put_file_def update_conv')

lemma begin_committed:
  assumes "begin_payload h eid now db = (Inr created, db')" "get_evidence_id h db = None"
  shows "get_evidence_id h db' = None" "\<exists>r \<in> set (st_payloads db'). pl_hash r = h \<and> pl_evidence r = eid"
proof -
  have found: "map_option pl_evidence (find_payload h (st_payloads db')) = Some eid"
    and rows: "st_payloads db' = st_payloads db \<or>
      st_payloads db' = st_payloads db @ [\<lparr>pl_hash = h, pl_evidence = eid, pl_accepted = now, pl_status = PayloadPending\<rparr>]"
    using assms(1) by (auto simp: begin_payload_def add_payload_def split: if_splits)
  show "get_evidence_id h db' = None"
    using assms(2) rows by (auto simp: get_evidence_id_def find_append)
  show "\<exists>r \<in> set (st_payloads db'). pl_hash r = h \<and> pl_evidence r = eid"
    using found by (auto simp: find_payload_def find_Some_iff)
qed

lemma commit_found:
  assumes "get_evidence_id h db = None" "\<exists>r \<in> set (st_payloads db). pl_hash r = h \<and> pl_evidence r = eid"
  shows "get_evidence_id h (snd (commit_payload h eid db)) = Some eid"
proof -
  let ?db = "snd (commit_payload h eid db)" and ?P = "\<lambda>r. pl_hash r = h \<and> pl_status r = PayloadCommitted"
  have rows: "st_payloads ?db = map (marked (\<lambda>h' e'. h' = h \<and> e' = eid)) (st_payloads db)"
    by (simp add: commit_payload_where commit_where_rows)
  have none: "\<forall>r \<in> set (st_payloads db). \<not> ?P r" using assms(1) by (auto simp: get_evidence_id_def find_None_iff)
  obtain x where x: "List.find ?P (st_payloads ?db) = Some x"
    using assms(2) by (cases "List.find ?P (st_payloads ?db)") (auto simp: rows find_None_iff)
  then have "x \<in> set (st_payloads ?db)" "?P x" by (auto simp: find_Some_iff)
  then have "pl_evidence x = eid" using none by (auto simp: rows)
  then show ?thesis using x by (simp add: get_evidence_id_def)
qed

lemma persisted:
  assumes "persist_validated_body kind body io now sv = (Inr (status, eid), sv')"
  shows "get_evidence_id (sha256_hex body) (sv_state sv') = Some eid"
    and "status = ''duplicate'' \<and> sv' = sv \<or>
      status = ''accepted'' \<and> io = Written \<and> eid = take 24 (sha256_hex body) \<and> sv_keys sv' = sv_keys sv
      \<and> sv_secrets sv' = sv_secrets sv \<and> st_nonces (sv_state sv') = st_nonces (sv_state sv)
      \<and> sv_inbox sv' = (sv_inbox sv)(kind := put_file (evidence_file eid) body (sv_inbox sv kind))"
proof -
  let ?h = "sha256_hex body"
  have "get_evidence_id ?h (sv_state sv') = Some eid \<and> (status = ''duplicate'' \<and> sv' = sv \<or>
      status = ''accepted'' \<and> io = Written \<and> eid = take 24 ?h \<and> sv_keys sv' = sv_keys sv
      \<and> sv_secrets sv' = sv_secrets sv \<and> st_nonces (sv_state sv') = st_nonces (sv_state sv)
      \<and> sv_inbox sv' = (sv_inbox sv)(kind := put_file (evidence_file eid) body (sv_inbox sv kind)))"
  proof (cases "get_evidence_id ?h (sv_state sv)")
    case None
    then have run: "publish_new kind ?h (take 24 ?h) body io now sv = (Inr (), sv')" and st: "status = ''accepted''" "eid = take 24 ?h"
      using assms by (auto simp: persist_validated_body_def Let_def split: prod.splits sum.splits)
    obtain created db where b: "begin_payload ?h (take 24 ?h) now (sv_state sv) = (Inr created, db)"
      using run by (cases "begin_payload ?h (take 24 ?h) now (sv_state sv)"; cases "fst (begin_payload ?h (take 24 ?h) now (sv_state sv))")
        (simp_all add: publish_new_def)
    have io: "io = Written" using run b by (cases io) (simp_all add: publish_new_def write_evidence_def)
    have sv': "sv' = sv\<lparr>sv_state := snd (commit_payload ?h (take 24 ?h) db),
        sv_inbox := (sv_inbox sv)(kind := put_file (evidence_file (take 24 ?h)) body (sv_inbox sv kind))\<rparr>"
      using run b io by (cases "commit_payload ?h (take 24 ?h) db") (auto simp: publish_new_def write_evidence_def split: if_splits)
    have "st_nonces (snd (commit_payload ?h (take 24 ?h) db)) = st_nonces (sv_state sv)"
      using b by (auto simp: commit_payload_def begin_payload_def add_payload_def Let_def split: if_splits)
    then show ?thesis using commit_found [OF begin_committed [OF b None]] io st by (simp add: sv')
  qed (use assms in \<open>simp add: persist_validated_body_def Let_def\<close>)
  then show "get_evidence_id ?h (sv_state sv') = Some eid"
    "status = ''duplicate'' \<and> sv' = sv \<or> status = ''accepted'' \<and> io = Written \<and> eid = take 24 ?h \<and> sv_keys sv' = sv_keys sv
      \<and> sv_secrets sv' = sv_secrets sv \<and> st_nonces (sv_state sv') = st_nonces (sv_state sv)
      \<and> sv_inbox sv' = (sv_inbox sv)(kind := put_file (evidence_file eid) body (sv_inbox sv kind))" by blast+
qed

section \<open>Requests\<close>

lemma request_statuses:
  "read_authenticated_body rq scope now sv = (Inl (IngestionError m n), sv') \<Longrightarrow> n \<in> {400, 401, 403, 413}"
  by (auto simp: read_authenticated_body_def request_body_def request_key_def authenticate_request_def http_simps Let_def
      split: sum.splits prod.splits option.splits py_error.splits)

lemma answer_ok: "answer res = Inr (202, r) \<Longrightarrow> res = Inr (202, r) \<or> (\<exists>m. res = Inl (IngestionError m 202))"
  by (auto simp: answer_def split: sum.splits http_error.splits py_error.splits if_splits)

lemma accepted_request:
  assumes "do_POST rq io now sv = (Inr (202, r), sv')"
  obtains rt body canonical extra status eid sv1 where "route_of (rq_path rq) = Some rt"
    "read_authenticated_body rq (rt_scope rt) now sv = (Inr body, sv1)" "rt_record rt body = Inr (canonical, extra)"
    "persist_validated_body (rt_kind rt) canonical io (seconds now) sv1 = (Inr (status, eid), sv')"
    "r = [(''status'', JStr status), (''evidence_id'', JStr eid)] @ extra"
proof -
  obtain rt where rt: "route_of (rq_path rq) = Some rt" using assms by (auto simp: do_POST_def split: option.splits)
  obtain res where run: "accept_request rt rq io now sv = (res, sv')" "answer res = Inr (202, r)"
    using assms rt by (auto simp: do_POST_def split: prod.splits)
  have "res \<noteq> Inl (IngestionError m 202)" for m
    using run(1) request_statuses [of rq "rt_scope rt" now sv m 202]
    by (auto simp: accept_request_def split: sum.splits prod.splits)
  then have "\<exists>x. res = Inr x" using answer_ok [OF run(2)] by blast
  then have ok: "accept_request rt rq io now sv = (Inr (202, r), sv')" using run by (auto simp: answer_def)
  show thesis
    using ok that [OF rt] by (auto simp: accept_request_def split: sum.splits prod.splits)
qed

text \<open>
  C29. Accepted evidence is authentic and stored: when a request is answered with 202, its body carries the signature of an
  active key with the scope of the route, made with that key's secret over its timestamp, its nonce and its bytes; the timestamp is within five minutes
  of the server's clock; and the record of the route is committed under the evidence identifier of the response. When the response says
  accepted, the file of that identifier in the inbox of the route holds exactly that record.
\<close>

theorem accepted_evidence_is_authentic_and_stored:
  assumes "do_POST rq io now sv = (Inr (202, r), sv')"
  shows "\<exists>rt body canonical extra eid. route_of (rq_path rq) = Some rt \<and> authentic rq (rt_scope rt) now sv body
    \<and> rt_record rt body = Inr (canonical, extra) \<and> dict_get ''evidence_id'' r = JStr eid
    \<and> get_evidence_id (sha256_hex canonical) (sv_state sv') = Some eid
    \<and> (dict_get ''status'' r = JStr ''accepted'' \<longrightarrow> eid = take 24 (sha256_hex canonical)
         \<and> map_of (sv_inbox sv' (rt_kind rt)) (evidence_file eid) = Some (Regular canonical))"
proof -
  obtain rt body canonical extra status eid sv1 where a: "route_of (rq_path rq) = Some rt"
    "read_authenticated_body rq (rt_scope rt) now sv = (Inr body, sv1)" "rt_record rt body = Inr (canonical, extra)"
    "persist_validated_body (rt_kind rt) canonical io (seconds now) sv1 = (Inr (status, eid), sv')"
    "r = [(''status'', JStr status), (''evidence_id'', JStr eid)] @ extra" by (rule accepted_request [OF assms])
  have "dict_get ''evidence_id'' r = JStr eid" "dict_get ''status'' r = JStr status" by (simp_all add: a(5) dict_get_def obj_get_def)
  then show ?thesis using a(1,3) authenticated_body(1) [OF a(2)] persisted [OF a(4)] by fastforce
qed

definition same_but_nonces :: "server \<Rightarrow> server \<Rightarrow> bool" where
  "same_but_nonces sv sv' \<longleftrightarrow> (\<exists>t. sv' = sv\<lparr>sv_state := (sv_state sv)\<lparr>st_nonces := t\<rparr>\<rparr>)"

lemma reserve_changes_nonces: "\<exists>t. snd (reserve_nonce n ttl now db) = db\<lparr>st_nonces := t\<rparr>"
  by (cases db) (auto simp: reserve_nonce_def Let_def)

lemma read_changes_nonces: "same_but_nonces sv (snd (read_authenticated_body rq scope now sv))"
proof -
  have refl: "same_but_nonces sv sv" unfolding same_but_nonces_def by (rule exI [of _ "st_nonces (sv_state sv)"]) simp
  have "\<exists>t. snd (authenticate_request reserve_nonce secret a ts nonce body now db) = db\<lparr>st_nonces := t\<rparr>" for secret a ts nonce body db
    using reserve_changes_nonces [of nonce max_clock_skew "seconds now" db] exI [of _ "st_nonces db"]
    by (auto simp: authenticate_request_def split: sum.splits prod.splits)
  then show ?thesis using refl
    by (auto simp: read_authenticated_body_def same_but_nonces_def split: sum.splits prod.splits) (metis snd_conv)+
qed

lemma persist_errors: "persist_validated_body kind body io now sv = (Inl e, sv') \<Longrightarrow> storage_error e"
  by (auto simp: persist_validated_body_def publish_new_def begin_payload_def write_evidence_def Let_def storage_error_def os_error_def
      split: option.splits prod.splits sum.splits if_splits)

text \<open>
  C30. A refused request leaves no trace: unless it is answered with 202 or the storage failed (503), a request changes
  nothing of the server but the table of nonces.
\<close>

theorem refused_requests_leave_no_trace:
  assumes "do_POST rq io now sv = (answered, sv')"
    and "\<forall>r. answered \<noteq> Inr (202, r)" and "\<forall>r. answered \<noteq> Inr (503, r)"
  shows "same_but_nonces sv sv'"
proof (cases "route_of (rq_path rq)")
  case None
  then have "sv' = sv" using assms(1) by (simp add: do_POST_def)
  then show ?thesis unfolding same_but_nonces_def by (intro exI [of _ "st_nonces (sv_state sv)"]) simp
next
  case (Some rt)
  obtain res where run: "accept_request rt rq io now sv = (res, sv')" "answered = answer res"
    using assms(1) Some by (auto simp: do_POST_def split: prod.splits)
  obtain b sv1 where read: "read_authenticated_body rq (rt_scope rt) now sv = (b, sv1)" by fastforce
  have "sv' = sv1"
  proof (cases b)
    case (Inr body)
    show ?thesis
    proof (cases "rt_record rt body")
      case (Inr ce)
      obtain canonical extra where ce: "ce = (canonical, extra)" by (cases ce)
      obtain p sv2 where p: "persist_validated_body (rt_kind rt) canonical io (seconds now) sv1 = (p, sv2)" by fastforce
      show ?thesis
      proof (cases p)
        case (Inl e)
        then have "answer res = Inr (503, error_body ''Evidence storage is unavailable.'')"
          using run(1) read \<open>b = Inr body\<close> Inr ce p persist_errors [OF p [unfolded Inl]]
          by (auto simp: accept_request_def answer_def storage_error_def split: py_error.splits)
        then show ?thesis using assms(3) run(2) by simp
      next
        case (Inr se)
        then show ?thesis using run read \<open>b = Inr body\<close> \<open>rt_record rt body = _\<close> ce p assms(2)
          by (cases se) (auto simp: accept_request_def answer_def)
      qed
    qed (use run(1) read Inr in \<open>simp add: accept_request_def\<close>)
  qed (use run(1) read in \<open>simp add: accept_request_def\<close>)
  then show ?thesis using read_changes_nonces [of sv rq "rt_scope rt" now] read by simp
qed

lemma read_again:
  assumes "read_authenticated_body rq scope now sv = (Inr body, sv1)" and "sv_keys sv2 = sv_keys sv" "sv_secrets sv2 = sv_secrets sv"
    and "py_int (header [] (rq_timestamp rq)) = Inr t" "\<bar>now' - t\<bar> \<le> 300"
    and "reserve_nonce (header [] (rq_nonce rq)) 300 (seconds now') (sv_state sv2) = (True, db)"
  shows "read_authenticated_body rq scope now' sv2 = (Inr body, sv2\<lparr>sv_state := db\<rparr>)"
proof -
  obtain kid signature secret where key: "request_body rq = Inr body"
    "parse_authorization (header [] (rq_authorization rq)) = Inr (kid, signature)"
    "resolve_secret kid (sv_secrets sv) (sv_keys sv) = Some secret" "is_authorized kid scope (sv_keys sv)"
    and auth: "authenticate_request reserve_nonce secret (''HMAC '' @ kid @ '':'' @ signature)
        (header [] (rq_timestamp rq)) (header [] (rq_nonce rq)) body now (sv_state sv) = (Inr (), sv_state sv1)"
    using assms(1) by (auto simp: read_authenticated_body_def request_key_def http_simps split: sum.splits prod.splits option.splits)
  have "authenticate_request reserve_nonce secret (''HMAC '' @ kid @ '':'' @ signature)
        (header [] (rq_timestamp rq)) (header [] (rq_nonce rq)) body now' (sv_state sv2) = (Inr (), db)"
    by (rule authenticated_again [OF auth assms(4)]) (use assms(5,6) in \<open>simp_all add: max_clock_skew_def\<close>)
  then show ?thesis using key assms(2,3) by (simp add: read_authenticated_body_def request_key_def require_def lift_http_def)
qed

lemma nonce_expired:
  assumes "reserve_nonce n ttl now db = (True, db')" "now + seconds ttl \<le> now'" "st_nonces db2 = st_nonces db'"
  shows "\<exists>db3. reserve_nonce n ttl now' db2 = (True, db3) \<and> st_payloads db3 = st_payloads db2"
proof -
  let ?live = "filter (\<lambda>r. \<not> nc_expires r \<le> now) (st_nonces db)"
  have new: "\<not> list_ex (\<lambda>r. nc_nonce r = n) ?live"
    "st_nonces db' = ?live @ [\<lparr>nc_nonce = n, nc_expires = now + seconds ttl\<rparr>]"
    using assms(1) by (auto simp: reserve_nonce_def Let_def split: if_splits)
  have "\<not> list_ex (\<lambda>r. nc_nonce r = n) (filter (\<lambda>r. \<not> nc_expires r \<le> now') (st_nonces db2))"
    using new(1) assms(2) by (auto simp: assms(3) new(2) list_ex_iff)
  then show ?thesis by (simp add: reserve_nonce_def Let_def)
qed

text \<open>
  C31. The replay protection ends before the window does: a nonce is kept for five minutes from its use, but a request dated
  in the future stays within the window for longer. Such a request, accepted once, is accepted again when its nonce has expired and
  its timestamp is still within five minutes of the clock; the second answer calls the evidence a duplicate.
\<close>

theorem early_requests_can_be_replayed:
  assumes "do_POST rq io now sv = (Inr (202, r), sv')" and "py_int (header [] (rq_timestamp rq)) = Inr t"
    and "now + 300 \<le> now'" and "now' \<le> t + 300"
  shows "\<exists>r' sv''. do_POST rq io' now' sv' = (Inr (202, r'), sv'') \<and> dict_get ''status'' r' = JStr ''duplicate''
    \<and> dict_get ''evidence_id'' r' = dict_get ''evidence_id'' r"
proof -
  obtain rt body canonical extra status eid sv1 where a: "route_of (rq_path rq) = Some rt"
    "read_authenticated_body rq (rt_scope rt) now sv = (Inr body, sv1)" "rt_record rt body = Inr (canonical, extra)"
    "persist_validated_body (rt_kind rt) canonical io (seconds now) sv1 = (Inr (status, eid), sv')"
    "r = [(''status'', JStr status), (''evidence_id'', JStr eid)] @ extra" by (rule accepted_request [OF assms(1)])
  have "authentic rq (rt_scope rt) now sv body" by (rule authenticated_body(1) [OF a(2)])
  then have "\<bar>now - t\<bar> \<le> 300" using assms(2) by (auto simp: authentic_def)
  then have time: "\<bar>now' - t\<bar> \<le> 300" using assms(3,4) by linarith
  have kept: "sv_keys sv' = sv_keys sv" "sv_secrets sv' = sv_secrets sv" "st_nonces (sv_state sv') = st_nonces (sv_state sv1)"
    using persisted(2) [OF a(4)] arg_cong [OF authenticated_body(3) [OF a(2)], of sv_keys]
      arg_cong [OF authenticated_body(3) [OF a(2)], of sv_secrets] by auto
  have "seconds now + seconds 300 \<le> seconds now'" using assms(3) by (simp add: seconds_def)
  then obtain db3 where fresh: "reserve_nonce (header [] (rq_nonce rq)) 300 (seconds now') (sv_state sv') = (True, db3)"
    and rows: "st_payloads db3 = st_payloads (sv_state sv')"
    using nonce_expired [OF authenticated_body(2) [OF a(2)] _ kept(3)] by blast
  note again = read_again [OF a(2) kept(1,2) assms(2) time fresh]
  have "get_evidence_id (sha256_hex canonical) db3 = Some eid"
    using persisted(1) [OF a(4)] rows by (simp add: get_evidence_id_def)
  then have "do_POST rq io' now' sv' =
      (Inr (202, [(''status'', JStr ''duplicate''), (''evidence_id'', JStr eid)] @ extra), sv'\<lparr>sv_state := db3\<rparr>)"
    by (simp add: do_POST_def accept_request_def answer_def a(1,3) again persist_validated_body_def Let_def)
  then show ?thesis by (simp add: a(5) dict_get_def obj_get_def)
qed

lemma stem_of_file: "e \<noteq> [] \<Longrightarrow> path_stem (e @ ''.json'') = e"
  by (simp add: path_stem_def Let_def)

text \<open>
  C32. Interrupted publications are repaired: when the file of a new payload is in place but the request failed before
  the payload was committed, a server that starts with this state commits it, provided no other payload shares the evidence identifier.
\<close>

theorem interrupted_publications_are_repaired:
  assumes "publish_new kind (sha256_hex body) (take 24 (sha256_hex body)) body NotSynced accepted sv = (Inl os_error, sv')"
    and "kind \<in> set inbox_kinds" and "state_ok (sv_state sv')" and "accepted \<le> now"
    and "\<forall>r \<in> set (st_payloads (sv_state sv')). pl_evidence r = take 24 (sha256_hex body)
           \<longrightarrow> pl_hash r = sha256_hex body \<and> pl_accepted r \<le> now"
  shows "get_evidence_id (sha256_hex body) (sv_state (snd (initialize_runtime now sv'))) = Some (take 24 (sha256_hex body))"
proof -
  let ?h = "sha256_hex body" and ?e = "take 24 (sha256_hex body)"
  let ?name = "evidence_file ?e" and ?ds = "map (\<lambda>k. Some (sv_inbox sv' k)) inbox_kinds"
  obtain created db where b: "begin_payload ?h ?e accepted (sv_state sv) = (Inr created, db)"
    using assms(1) by (cases "begin_payload ?h ?e accepted (sv_state sv)"; cases "fst (begin_payload ?h ?e accepted (sv_state sv))")
      (auto simp: publish_new_def begin_payload_def os_error_def split: if_splits prod.splits)
  have sv': "sv_state sv' = db" "sv_inbox sv' kind = put_file ?name body (sv_inbox sv kind)"
    using assms(1) b by (auto simp: publish_new_def write_evidence_def)
  have "map_option pl_evidence (find_payload ?h (st_payloads db)) = Some ?e"
    using b by (auto simp: begin_payload_def split: prod.splits if_splits)
  then have row: "\<exists>r \<in> set (st_payloads db). pl_hash r = ?h \<and> pl_evidence r = ?e" by (auto simp: find_payload_def find_Some_iff)
  have stem: "path_stem ?name = ?e" and json: "endswith ''.json'' ?name" and named: "is_evidence_filename ?e"
    using stem_of_file [of ?e] by (simp_all add: evidence_file_def endswith_def is_evidence_filename_def list_all_iff)
      (auto dest!: in_set_takeD intro: sha256_hex_digits)
  have "repairable 0 now ?h (path_stem ?name) db"
    using row assms(5) unfolding stem repairable_def sv'(1) by (fastforce simp: seconds_def)
  moreover have "Some (sv_inbox sv' kind) \<in> set ?ds" using assms(2) by simp
  moreover have "map_of (sv_inbox sv' kind) ?name = Some (Regular body)" by (simp add: sv'(2))
  ultimately have "committed_as ?h ?e (snd (reconcile_directories ?ds 0 now db))"
    using directories_repaired [of "sv_inbox sv' kind" ?name body ?h 0 now db ?ds] json named by (simp add: stem)
  moreover obtain P where P: "snd (reconcile_directories ?ds 0 now db) = commit_where P db"
    using reconcile_directories_commits [of ?ds ?ds 0 now db] by auto
  moreover have "distinct (map pl_hash (st_payloads (commit_where P db)))"
    using assms(3) by (simp add: sv'(1) state_ok_def commit_where_rows o_def)
  ultimately have "get_evidence_id ?h (snd (reconcile_directories ?ds 0 now db)) = Some ?e" using committed_found by metis
  then show ?thesis
    by (simp add: initialize_runtime_def run_reconcile_def reconcile_pending_publications_def sv'(1) case_prod_beta)
qed

end
