(* ===== verification/Ingestion_Examples.thy ===== *)
theory Ingestion_Examples
  imports Ingestion_Properties Contract_Properties
begin

text \<open>
  A posture sent by an agent whose clock is 200 seconds fast, and a publication that is interrupted after its file was written:
  the properties of the ingestion API at inputs where every hypothesis holds.
\<close>

definition demo_posture_sent :: fields where
  "demo_posture_sent = [(''asset_id'', JStr ''A-1''), (''bitlocker_system_drive'', JBool True),
     (''collected_at'', JStr ''0001-01-01T07:00:00.25+07:00''), (''days_since_last_update'', JInt 3),
     (''defender_realtime_enabled'', JBool True), (''firewall_all_profiles_enabled'', JBool False), (''hostname'', JStr ''lap-1''),
     (''schema_version'', JStr ''1.0'')]"

definition demo_posture_bytes :: "byte list" where
  "demo_posture_bytes = utf8_encode (json_dumps compact_ascii (JObj demo_posture_sent))"

lemma demo_posture_length: "length demo_posture_bytes = 234"
  by code_simp

lemma demo_posture_valid: "validate_posture (JObj demo_posture_sent) = Inr ()"
proof -
  have shape: "validate_posture_shape demo_posture_sent = Inr ()"
    by (simp add: validate_posture_shape_def demo_posture_sent_def required_posture_def allowed_posture_def obj_get_def dict_get_def)
  have ids: "validate_identity_fields demo_posture_sent = Inr ()"
    by (simp add: validate_identity_fields_def demo_posture_sent_def dict_get_def obj_get_def text_checks)
  have time: "validate_collection_time (JStr ''0001-01-01T07:00:00.25+07:00'') = Inr ()"
    using demo_utc [of "''posture''" "''collected_at''"] by (auto simp: validate_collection_time_def parse_utc_def outcome_simps)
  have rest: "validate_boolean_fields posture_booleans demo_posture_sent = Inr ()"
    "validate_posture_context demo_posture_sent = Inr ()" "obj_get ''checks'' demo_posture_sent = None"
    by (simp_all add: posture_booleans_def demo_posture_sent_def dict_get_def obj_get_def validate_posture_context_def
        validate_optional_text_def validate_required_text_when_present_def)
  have "dict_get ''collected_at'' demo_posture_sent = JStr ''0001-01-01T07:00:00.25+07:00''"
    "dict_get ''days_since_last_update'' demo_posture_sent = JInt 3"
    by (simp_all add: demo_posture_sent_def dict_get_def obj_get_def)
  then show ?thesis using shape ids time rest by (simp add: validate_posture_def validate_update_age_def)
qed

lemma demo_posture_read: "posture_record demo_posture_bytes = Inr (demo_posture_bytes, [(''record_type'', JStr ''posture'')])"
proof -
  have "json_loads (json_dumps compact_ascii (JObj demo_posture_sent)) = Some (json_canon (JObj demo_posture_sent))"
    by (rule json_roundtrip) (simp_all add: demo_posture_sent_def)
  moreover have "json_canon (JObj demo_posture_sent) = JObj demo_posture_sent" by code_simp
  ultimately show ?thesis using demo_posture_valid by (simp add: posture_record_def decode_body_def demo_posture_bytes_def)
qed

definition demo_signature :: string where
  "demo_signature = make_signature (utf8_encode ''sk'') ''1200'' ''nonce-0123456789'' demo_posture_bytes"

definition demo_post :: http_request where
  "demo_post = \<lparr>rq_path = ''/v1/posture'', rq_content_type = Some ''application/json'', rq_content_length = Some ''234'',
     rq_timestamp = Some ''1200'', rq_nonce = Some ''nonce-0123456789'',
     rq_authorization = Some (''HMAC '' @ ''k1'' @ '':'' @ demo_signature), rq_received = demo_posture_bytes\<rparr>"

definition demo_agent_key :: key_row where
  "demo_agent_key = new_key ''k1'' ''agent-1'' [posture_scope] ''2026-06-01T00:00:00Z''"

definition demo_server :: server where
  "demo_server = \<lparr>sv_keys = [demo_agent_key], sv_secrets = [(''k1'', JStr ''sk'')], sv_state = empty_state,
     sv_inbox = (\<lambda>_. [])\<rparr>"

lemma demo_ints: "py_int ''1200'' = Inr 1200" "py_int ''234'' = Inr 234" "fullmatch nonce_rx ''nonce-0123456789''"
  by code_simp+

lemma demo_sent: "\<exists>r sv'. do_POST demo_post Written 1000 demo_server = (Inr (202, r), sv')"
proof -
  have sig: "length demo_signature = 64" "list_all is_hex demo_signature"
    by (auto simp: demo_signature_def make_signature_def hmac_sha256_def Let_def list_all_iff dest: hex_encode_digits)
  have parsed: "parse_authorization (''HMAC '' @ ''k1'' @ '':'' @ demo_signature) = Inr (''k1'', demo_signature)"
  proof -
    have ne: "demo_signature \<noteq> []" using sig(1) by auto
    then have "\<not> py_isspace (last demo_signature)" using sig(2) hex_no_space by (auto simp: list_all_iff)
    then have "py_strip (''k1'' @ '':'' @ demo_signature) = ''k1'' @ '':'' @ demo_signature"
      using ne by (simp add: py_strip_def py_lstrip_id py_rstrip_id py_isspace_def)
    moreover have "fullmatch key_id_rx ''k1''" by code_simp
    ultimately show ?thesis using sig by (simp add: parse_authorization_def digest_iff)
  qed
  have key: "resolve_secret ''k1'' (sv_secrets demo_server) (sv_keys demo_server) = Some (utf8_encode ''sk'')"
    "is_authorized ''k1'' posture_scope (sv_keys demo_server)"
    by (simp_all add: resolve_secret_def is_active_def is_authorized_def find_agent_key_def demo_server_def demo_agent_key_def new_key_def
        dict_get_def obj_get_def scopes_read_back allowed_scopes_def)
  have body: "request_body demo_post = Inr demo_posture_bytes"
  proof -
    have "take 16 (py_lower ''application/json'') = ''application/json''" by code_simp
    then show ?thesis
      by (simp add: request_body_def demo_post_def header_def demo_ints lift_http_def require_def max_body_bytes_def demo_posture_length)
  qed
  have ascii: "compare_digest demo_signature demo_signature = Inr True"
    using sig(2) by (auto simp: compare_digest_def list_all_iff is_hex_def Let_def)
  obtain db where nonce: "reserve_nonce ''nonce-0123456789'' 300 (seconds 1000) empty_state = (True, db)"
    "st_payloads db = []" by (simp add: reserve_nonce_def empty_state_def)
  have auth: "authenticate_request reserve_nonce (utf8_encode ''sk'') (''HMAC '' @ ''k1'' @ '':'' @ demo_signature)
      ''1200'' ''nonce-0123456789'' demo_posture_bytes 1000 empty_state = (Inr (), db)"
    using parsed demo_ints ascii nonce(1)
    by (simp add: authenticate_request_def require_def lift_http_def max_clock_skew_def demo_signature_def)
  have read: "read_authenticated_body demo_post posture_scope 1000 demo_server =
      (Inr demo_posture_bytes, demo_server\<lparr>sv_state := db\<rparr>)"
    using body key parsed auth
    by (simp add: read_authenticated_body_def request_key_def demo_post_def header_def lift_http_def require_def demo_server_def)
  have starts: "\<exists>db'. begin_payload h e t db = (Inr True, db')" for h e t
    using nonce(2) by (simp add: begin_payload_def add_payload_def find_payload_def)
  have route: "route_of (rq_path demo_post) =
      Some \<lparr>rt_kind = ''posture'', rt_scope = posture_scope, rt_record = posture_record\<rparr>" by (simp add: route_of_def demo_post_def)
  let ?h = "sha256_hex demo_posture_bytes"
  obtain db' where b: "begin_payload ?h (take 24 ?h) (seconds 1000) db = (Inr True, db')" using starts by blast
  have none: "get_evidence_id ?h db = None" using nonce(2) by (simp add: get_evidence_id_def)
  have "get_evidence_id ?h (snd (commit_payload ?h (take 24 ?h) db')) = Some (take 24 ?h)"
    by (rule commit_found [OF begin_committed [OF b none]])
  then have "\<exists>x sv'. persist_validated_body ''posture'' demo_posture_bytes Written (seconds 1000) (demo_server\<lparr>sv_state := db\<rparr>) = (Inr x, sv')"
    using none b by (auto simp: persist_validated_body_def publish_new_def write_evidence_def Let_def split: prod.splits)
  then show ?thesis
    using route read demo_posture_read by (auto simp: do_POST_def accept_request_def answer_def)
qed

theorem accepted_evidence_is_authentic_and_stored_witness:
  "\<exists>r sv' canonical eid. do_POST demo_post Written 1000 demo_server = (Inr (202, r), sv') \<and> dict_get ''evidence_id'' r = JStr eid
     \<and> authentic demo_post posture_scope 1000 demo_server canonical \<and> get_evidence_id (sha256_hex canonical) (sv_state sv') = Some eid"
proof -
  obtain r sv' where run: "do_POST demo_post Written 1000 demo_server = (Inr (202, r), sv')" using demo_sent by blast
  from accepted_evidence_is_authentic_and_stored [OF run] obtain rt body canonical extra eid where
    f: "route_of (rq_path demo_post) = Some rt" "authentic demo_post (rt_scope rt) 1000 demo_server body"
    "rt_record rt body = Inr (canonical, extra)" "dict_get ''evidence_id'' r = JStr eid"
    "get_evidence_id (sha256_hex canonical) (sv_state sv') = Some eid" by blast
  have rt: "rt = \<lparr>rt_kind = ''posture'', rt_scope = posture_scope, rt_record = posture_record\<rparr>"
    using f(1) by (simp add: route_of_def demo_post_def)
  then have "canonical = body" using f(3) by (auto simp: posture_record_def outcome_simps)
  then show ?thesis using run f rt by auto
qed

theorem refused_requests_leave_no_trace_witness:
  "\<exists>b sv'. do_POST (demo_post\<lparr>rq_content_type := None\<rparr>) Written 1000 demo_server = (Inr (400, b), sv') \<and> same_but_nonces demo_server sv'"
proof -
  have route: "route_of ''/v1/posture'' =
      Some \<lparr>rt_kind = ''posture'', rt_scope = posture_scope, rt_record = posture_record\<rparr>" by (simp add: route_of_def)
  have run: "do_POST (demo_post\<lparr>rq_content_type := None\<rparr>) Written 1000 demo_server =
      (Inr (400, error_body ''Content-Type must be application/json.''), demo_server)"
    by (simp add: do_POST_def accept_request_def read_authenticated_body_def request_body_def route demo_post_def header_def
        require_def answer_def py_lower_def)
  from refused_requests_leave_no_trace [OF run] run show ?thesis by auto
qed

theorem early_requests_can_be_replayed_witness:
  "\<exists>r sv' r' sv''. do_POST demo_post Written 1000 demo_server = (Inr (202, r), sv')
     \<and> do_POST demo_post Written 1400 sv' = (Inr (202, r'), sv'') \<and> dict_get ''status'' r' = JStr ''duplicate''"
proof -
  obtain r sv' where run: "do_POST demo_post Written 1000 demo_server = (Inr (202, r), sv')" using demo_sent by blast
  have "py_int (header [] (rq_timestamp demo_post)) = Inr 1200" by (simp add: demo_post_def header_def demo_ints)
  from early_requests_can_be_replayed [OF run this, of 1400 Written] run show ?thesis by auto
qed

theorem interrupted_publications_are_repaired_witness:
  "\<exists>sv'. publish_new ''posture'' (sha256_hex [1]) (take 24 (sha256_hex [1])) [1] NotSynced 5 demo_server = (Inl os_error, sv')
     \<and> get_evidence_id (sha256_hex [1]) (sv_state sv') = None
     \<and> get_evidence_id (sha256_hex [1]) (sv_state (snd (initialize_runtime 6 sv'))) = Some (take 24 (sha256_hex [1]))"
proof -
  let ?h = "sha256_hex [1]" and ?e = "take 24 (sha256_hex [1])"
  obtain sv' where run: "publish_new ''posture'' ?h ?e [1] NotSynced 5 demo_server = (Inl os_error, sv')"
    and rows: "st_payloads (sv_state sv') = [\<lparr>pl_hash = ?h, pl_evidence = ?e, pl_accepted = 5, pl_status = PayloadPending\<rparr>]"
    and ok: "state_ok (sv_state sv')"
    by (simp add: publish_new_def begin_payload_def add_payload_def find_payload_def write_evidence_def demo_server_def empty_state_def
        state_ok_def)
  have "get_evidence_id ?h (sv_state sv') = None" using rows by (simp add: get_evidence_id_def)
  with interrupted_publications_are_repaired [OF run _ ok, of 6] run rows show ?thesis by (auto simp: inbox_kinds_def)
qed

end
