(* ===== verification/Path_Policy.thy ===== *)
theory Path_Policy
  imports Patterns Py_Values "HOL-Library.AList"
begin

text \<open>
  The path boundaries of \<open>path_security.py\<close> and \<open>scripts/path_policy.py\<close>. An absolute path is the list of its components.
  The file system is a parameter: the current directory, the home directories and where an absolute path leads when its links and its dots are
  followed. The files written under a root are a list of paths with their texts; how far a write gets is an argument.
\<close>

section \<open>Paths\<close>

record filesystem =
  fs_cwd :: "string list"
  fs_home :: "string \<Rightarrow> (string list) option"
  fs_real :: "string list \<Rightarrow> string list"

record pypath =
  pp_absolute :: bool
  pp_parts :: "string list"

definition slash :: char where "slash = CHR ''/''"

definition path_of :: "string \<Rightarrow> pypath" where
  "path_of s = \<lparr>pp_absolute = (take 1 s = [slash]),
     pp_parts = filter (\<lambda>p. p \<noteq> [] \<and> p \<noteq> ''.'') (split_at slash s)\<rparr>"

definition path_text :: "string list \<Rightarrow> string" where
  "path_text ps = slash # py_join [slash] ps"

text \<open>\<open>Path.expanduser\<close>: a relative path that starts with a tilde and a user name.\<close>

definition expanduser :: "filesystem \<Rightarrow> pypath \<Rightarrow> pypath outcome" where
  "expanduser fs p =
     (case pp_parts p of
        (CHR ''~'' # user) # rest \<Rightarrow>
          if pp_absolute p then Inr p
          else (case fs_home fs user of
                  None \<Rightarrow> Inl (RuntimeError ''Could not determine home directory.'')
                | Some home \<Rightarrow> Inr \<lparr>pp_absolute = True, pp_parts = home @ rest\<rparr>)
      | _ \<Rightarrow> Inr p)"

definition resolve_path :: "filesystem \<Rightarrow> string \<Rightarrow> (string list) outcome" where
  "resolve_path fs value =
     outcome_bind (expanduser fs (path_of value)) (\<lambda>p.
       Inr (fs_real fs (if pp_absolute p then pp_parts p else fs_cwd fs @ pp_parts p)))"

text \<open>The root is given resolved, as every caller keeps it.\<close>

definition resolve_under_root :: "filesystem \<Rightarrow> string \<Rightarrow> string list \<Rightarrow> string \<Rightarrow> (string list) outcome" where
  "resolve_under_root fs value root purpose =
     (if py_strip value = [] then Inl (ValueError (purpose @ '' must be a non-empty filesystem path''))
      else if char_of (0 :: nat) \<in> set value then Inl (ValueError (purpose @ '' contains a null byte''))
      else outcome_bind (expanduser fs (path_of value)) (\<lambda>supplied.
        let resolved = fs_real fs (if pp_absolute supplied then pp_parts supplied else root @ pp_parts supplied)
        in if take (length root) resolved = root then Inr resolved
           else Inl (ValueError (purpose @ '' must remain under '' @ path_text root))))"

definition relative_text :: "string list \<Rightarrow> string list \<Rightarrow> string" where
  "relative_text root resolved = py_join [slash] (drop (length root) resolved)"

section \<open>Output names\<close>

definition evidence_tail_char :: "char \<Rightarrow> bool" where
  "evidence_tail_char c = (ascii_alnum c \<or> c \<in> set ''._-'')"

definition evidence_id_rx :: rx where
  "evidence_id_rx = RSeq (RChar ascii_alnum) (r_upto 126 (RChar evidence_tail_char))"

definition windows_reserved_names :: "string list" where
  "windows_reserved_names =
     [''CON'', ''PRN'', ''AUX'', ''NUL''] @ map (\<lambda>i. ''COM'' @ show_nat i) [1..<10] @ map (\<lambda>i. ''LPT'' @ show_nat i) [1..<10]"

definition validate_evidence_id :: "string \<Rightarrow> string \<Rightarrow> string outcome" where
  "validate_evidence_id value purpose =
     (if \<not> fullmatch evidence_id_rx value
      then Inl (ValueError (purpose @ '' must be 1-127 ASCII letters, digits, dots, underscores, or hyphens''))
      else if py_upper (hd (split_at (CHR ''.'') value)) \<in> set windows_reserved_names
      then Inl (ValueError (purpose @ '' is a reserved filesystem name''))
      else Inr value)"

definition output_families :: "string list" where
  "output_families = [''remediation'', ''tickets'', ''reports'']"

definition fixed_outputs :: "string list" where
  "fixed_outputs =
     [''runtime/remediation-queue.json'', ''runtime/tickets.json'', ''runtime/executive-report.json'',
      ''runtime/staging-assurance/offline-report.json'', ''runtime/staging-assurance/offline-evidence.json'',
      ''runtime/staging-assurance/load-soak-evidence.json'',
      ''runtime/staging-assurance/hermetic-recovery-evidence.json'',
      ''runtime/staging-assurance/security-assessment-evidence.json'',
      ''remediation.json'', ''tickets.json'', ''report.json'']"

text \<open>The match of the pattern of worker outputs: whether it has the runtime prefix, the family and the evidence identifier.\<close>

definition output_match :: "string \<Rightarrow> (bool \<times> string \<times> string) option" where
  "output_match relative =
     (let parts = split_at slash relative; prefixed = (take 1 parts = [''runtime'']) in
      case (if prefixed then drop 1 parts else parts) of
        [family, name] \<Rightarrow>
          if family \<in> set output_families \<and> endswith ''.json'' name \<and> 5 < length name
          then Some (prefixed, family, take (length name - 5) name) else None
      | _ \<Rightarrow> None)"

definition selected_output :: "string \<Rightarrow> string \<Rightarrow> (string list) outcome" where
  "selected_output relative purpose =
     (if relative \<in> set fixed_outputs then Inr (split_at slash relative)
      else case output_match relative of
        None \<Rightarrow> Inl (ValueError (purpose @ '' is not an allowed runtime output''))
      | Some (prefixed, family, evidence) \<Rightarrow>
          outcome_bind (validate_evidence_id evidence ''output evidence ID'') (\<lambda>eid.
            Inr ((if prefixed then [''runtime''] else []) @ [family, eid @ ''.json''])))"

definition allowed_output_path :: "filesystem \<Rightarrow> string \<Rightarrow> string list \<Rightarrow> string \<Rightarrow> (string list) outcome" where
  "allowed_output_path fs value root purpose =
     outcome_bind (resolve_under_root fs value root purpose) (\<lambda>resolved.
     outcome_bind (selected_output (relative_text root resolved) purpose) (\<lambda>selected. Inr (root @ selected)))"

definition resolve_worker_output_directory :: "filesystem \<Rightarrow> string \<Rightarrow> string list \<Rightarrow> string \<Rightarrow> string \<Rightarrow> (string list) outcome" where
  "resolve_worker_output_directory fs value root family purpose =
     (if family \<notin> set output_families then Inl (ValueError ''worker output family is not allowed'')
      else outcome_bind (resolve_under_root fs value root purpose) (\<lambda>resolved.
        if relative_text root resolved \<in> {family, ''runtime/'' @ family} then Inr resolved
        else Inl (ValueError (purpose @ '' is not an allowed runtime output directory''))))"

definition require_exact_output :: "string \<Rightarrow> string \<Rightarrow> string \<Rightarrow> unit outcome" where
  "require_exact_output value expected purpose =
     ensure (replace_char backslash slash value = expected) (ValueError (purpose @ '' must be exactly '' @ expected))"

section \<open>Writing\<close>

text \<open>A write that fails leaves the file as it was, or with a part of the text, since opening it for writing empties it.\<close>

datatype file_write = FileWritten | FileRefused | FileTorn string

type_synonym text_files = "(string list \<times> string) list"

definition write_text_under_root ::
    "filesystem \<Rightarrow> string \<Rightarrow> string list \<Rightarrow> string \<Rightarrow> string \<Rightarrow> file_write \<Rightarrow> text_files \<Rightarrow> (string list) outcome \<times> text_files" where
  "write_text_under_root fs value root content purpose io files =
     (case allowed_output_path fs value root purpose of
        Inl e \<Rightarrow> (Inl e, files)
      | Inr path \<Rightarrow>
          (case io of
             FileWritten \<Rightarrow> (Inr path, AList.update path content files)
           | FileRefused \<Rightarrow> (Inl (OtherError ''OSError''), files)
           | FileTorn part \<Rightarrow> (Inl (OtherError ''OSError''), AList.update path part files)))"

section \<open>Confinement\<close>

lemma take_is_prefix: "take (length ys) xs = ys \<Longrightarrow> \<exists>rest. xs = ys @ rest"
  by (metis append_take_drop_id)

lemma resolved_under_root: "resolve_under_root fs value root purpose = Inr p \<Longrightarrow> \<exists>rest. p = root @ rest"
  by (auto simp: resolve_under_root_def Let_def outcome_simps take_is_prefix split: if_splits)

lemma evidence_id_form:
  assumes "validate_evidence_id value purpose = Inr eid"
  shows "eid = value \<and> eid \<noteq> [] \<and> length eid \<le> 127 \<and> list_all evidence_tail_char eid \<and> ascii_alnum (hd eid)
    \<and> py_upper (hd (split_at (CHR ''.'') eid)) \<notin> set windows_reserved_names"
  using assms by (auto simp: validate_evidence_id_def fullmatch_iff evidence_id_rx_def matches_char_seq evidence_tail_char_def
      split: if_splits)

lemma output_match_form: "output_match relative = Some (prefixed, family, evidence) \<Longrightarrow> family \<in> set output_families"
  by (auto simp: output_match_def Let_def split: list.splits if_splits)

text \<open>
  Output paths are confined: a path that is accepted for writing is a fixed output below the root, or a file of one of the three
  output families named by an identifier of letters, digits, dots, underscores and hyphens that starts with a letter or a digit and is no
  reserved device name; whatever links the file system has and whatever the value says.
\<close>

definition portable_id :: "string \<Rightarrow> bool" where
  "portable_id eid = (eid \<noteq> [] \<and> length eid \<le> 127 \<and> ascii_alnum (hd eid) \<and> list_all evidence_tail_char eid
     \<and> py_upper (hd (split_at (CHR ''.'') eid)) \<notin> set windows_reserved_names)"

theorem outputs_are_confined:
  assumes "allowed_output_path fs value root purpose = Inr path"
  shows "\<exists>selected. path = root @ selected \<and> (selected \<in> split_at slash ` set fixed_outputs
    \<or> (\<exists>prefix family eid. prefix \<in> {[], [''runtime'']} \<and> family \<in> set output_families \<and> portable_id eid
         \<and> selected = prefix @ [family, eid @ ''.json'']))"
  using assms unfolding allowed_output_path_def selected_output_def portable_id_def
  by (auto simp: outcome_simps dest!: evidence_id_form output_match_form split: if_splits option.splits prod.splits)

end
