(* ===== verification/Remediation.thy ===== *)
theory Remediation
  imports Evidence_Ledger Calendar Leased_Queue
begin

text \<open>
  The remediation queue and its exceptions, \<open>scripts/governance.py\<close>, and the tickets made from it, \<open>scripts/workflow.py\<close>.
  Catalogues, registries, queues and reviews are decoded JSON values; dates are ordinals of days and instants are microseconds, and both the
  current day and the creation time are arguments. A queue is returned changed where the code changes it in place.
\<close>

section \<open>Values of any type\<close>

definition subscript :: "string \<Rightarrow> json \<Rightarrow> json outcome" where
  "subscript k v = (case v of JObj kvs \<Rightarrow> get_item k kvs | _ \<Rightarrow> Inl (OtherError ''TypeError''))"

definition attribute_get :: "string \<Rightarrow> json \<Rightarrow> json \<Rightarrow> json outcome" where
  "attribute_get k d v = (case v of JObj kvs \<Rightarrow> Inr (dict_get_or k d kvs) | _ \<Rightarrow> Inl (OtherError ''AttributeError''))"

text \<open>The fields of a value that is known to be a dictionary.\<close>

definition fields_of :: "json \<Rightarrow> (string \<times> json) list" where
  "fields_of v = (case v of JObj kvs \<Rightarrow> kvs | _ \<Rightarrow> [])"

text \<open>A dictionary whose keys are any hashable values, equal as Python compares them.\<close>

definition key_put :: "json \<Rightarrow> json \<Rightarrow> (json \<times> json) list \<Rightarrow> (json \<times> json) list" where
  "key_put k v d =
     (if list_ex (\<lambda>p. py_equal (fst p) k) d then map (\<lambda>p. if py_equal (fst p) k then (fst p, v) else p) d else d @ [(k, v)])"

definition key_get :: "json \<Rightarrow> (json \<times> json) list \<Rightarrow> json option outcome" where
  "key_get k d =
     (if hashable k then Inr (map_option snd (find (\<lambda>p. py_equal (fst p) k) d)) else Inl (OtherError ''TypeError''))"

section \<open>The remediation queue\<close>

definition asset_entry :: "json \<Rightarrow> (json \<times> json) outcome" where
  "asset_entry asset =
     outcome_bind (subscript ''asset_id'' asset) (\<lambda>k.
     outcome_bind (ensure (hashable k) (OtherError ''TypeError'')) (\<lambda>_. Inr (k, asset)))"

definition index_assets :: "json \<Rightarrow> (json \<times> json) list outcome" where
  "index_assets assets =
     outcome_bind (iterate assets) (\<lambda>rows.
     outcome_bind (map_outcome asset_entry rows) (\<lambda>entries. Inr (foldl (\<lambda>d (k, v). key_put k v d) [] entries)))"

definition registered_asset :: "json \<Rightarrow> (string \<times> json) list \<Rightarrow> (string \<times> json) list outcome" where
  "registered_asset assets posture =
     outcome_bind (index_assets assets) (\<lambda>d.
     outcome_bind (key_get (dict_get ''asset_id'' posture) d) (\<lambda>found.
       case found of
         Some (JObj a) \<Rightarrow> Inr a
       | _ \<Rightarrow> Inl (ValueError (''Asset '' @ py_str (dict_get ''asset_id'' posture) @ '' is not registered.''))))"

definition finding_name :: "json \<Rightarrow> json \<Rightarrow> string" where
  "finding_name aid cid = py_str aid @ '':'' @ py_str cid"

text \<open>The finding of a control, if it failed.\<close>

definition finding_of :: "(string \<times> json) list \<Rightarrow> (string \<times> json) list \<Rightarrow> json \<Rightarrow> (string \<times> json) list list outcome" where
  "finding_of asset posture control =
     outcome_bind (get_item ''criticality'' asset) (\<lambda>criticality.
     outcome_bind (evaluate_control control (JObj (dict_put ''criticality'' criticality posture))) (\<lambda>r.
       if dict_get ''passed'' r = JBool True then Inr []
       else outcome_bind (get_item ''asset_id'' asset) (\<lambda>aid.
            outcome_bind (subscript ''id'' control) (\<lambda>cid.
              Inr [[(''finding_id'', JStr (finding_name aid cid)), (''asset'', JObj asset), (''control'', JObj r),
                (''status'', JStr ''open''), (''due_date'', JNull), (''exception'', JNull)]]))))"

definition finding_risk :: "(string \<times> json) list \<Rightarrow> int" where
  "finding_risk f = (case dict_get ''control'' f of JObj r \<Rightarrow> risk_of r | _ \<Rightarrow> 0)"

definition build_remediation_queue ::
    "string \<Rightarrow> json \<Rightarrow> (string \<times> json) list \<Rightarrow> json \<Rightarrow> (string \<times> json) list outcome" where
  "build_remediation_queue today controls posture assets =
     outcome_bind (registered_asset assets posture) (\<lambda>asset.
     outcome_bind (iterate controls) (\<lambda>cs.
     outcome_bind (map_outcome (finding_of asset posture) cs) (\<lambda>found.
     outcome_bind (get_item ''asset_id'' asset) (\<lambda>aid.
       Inr [(''schema_version'', JStr ''1.0''), (''generated_on'', JStr today), (''asset_id'', aid),
         (''risk_score'', JInt (sum_list (map finding_risk (concat found)))),
         (''findings'', JList (map JObj (concat found)))]))))"

section \<open>Exceptions\<close>

definition date_fromisoformat :: "string \<Rightarrow> nat option" where
  "date_fromisoformat s = (if length s \<in> {7, 8, 10} then date_ordinal s else None)"

definition granted_exception :: "string \<Rightarrow> string \<Rightarrow> string \<Rightarrow> (string \<times> json) list \<Rightarrow> (string \<times> json) list" where
  "granted_exception approver reason expires_on finding =
     dict_put ''exception'' (JObj [(''approver'', JStr approver), (''reason'', JStr reason), (''expires_on'', JStr expires_on)])
       (dict_put ''status'' (JStr ''accepted-risk'') finding)"

fun approve_first :: "string \<Rightarrow> ((string \<times> json) list \<Rightarrow> (string \<times> json) list) \<Rightarrow> json list \<Rightarrow> json list outcome" where
  "approve_first fid grant [] = Inl (ValueError (''Finding '' @ fid @ '' was not found.''))"
| "approve_first fid grant (f # fs) =
     outcome_bind (subscript ''finding_id'' f) (\<lambda>x.
       if x = JStr fid
       then (case f of
               JObj kvs \<Rightarrow>
                 if dict_get ''status'' kvs \<noteq> JStr ''open'' then Inl (ValueError ''Only open findings can receive an exception.'')
                 else Inr (JObj (grant kvs) # fs)
             | _ \<Rightarrow> Inl (OtherError ''TypeError''))
       else outcome_bind (approve_first fid grant fs) (\<lambda>fs'. Inr (f # fs')))"

definition approve_exception ::
    "nat \<Rightarrow> (string \<times> json) list \<Rightarrow> string \<Rightarrow> string \<Rightarrow> string \<Rightarrow> string \<Rightarrow> (string \<times> json) list outcome" where
  "approve_exception today queue fid approver reason expires_on =
     (if py_strip approver = [] \<or> py_strip reason = []
      then Inl (ValueError ''Approver and reason are required for an exception.'')
      else case date_fromisoformat expires_on of
        None \<Rightarrow> Inl (ValueError ''expires_on must use YYYY-MM-DD format.'')
      | Some expiry \<Rightarrow>
          if expiry \<le> today then Inl (ValueError ''Exception expiry must be in the future.'')
          else outcome_bind (get_item ''findings'' queue) (\<lambda>v.
               outcome_bind (iterate v) (\<lambda>fs.
               outcome_bind (approve_first fid (granted_exception approver reason expires_on) fs) (\<lambda>fs'.
                 Inr (dict_put ''findings'' (JList fs') queue)))))"

definition reopened :: "(string \<times> json) list \<Rightarrow> (string \<times> json) list" where
  "reopened finding = dict_put ''exception_status'' (JStr ''expired'') (dict_put ''status'' (JStr ''open'') finding)"

definition expire_one :: "nat \<Rightarrow> json \<Rightarrow> json outcome" where
  "expire_one today finding =
     outcome_bind (attribute_get ''exception'' JNull finding) (\<lambda>x.
     outcome_bind (attribute_get ''expires_on'' JNull (py_or x (JObj []))) (\<lambda>expires_on.
       case finding of
         JObj kvs \<Rightarrow>
           if dict_get ''status'' kvs = JStr ''accepted-risk'' \<and> truthy expires_on
           then (case expires_on of
                   JStr s \<Rightarrow>
                     (case date_fromisoformat s of
                        None \<Rightarrow> Inl (ValueError ''Invalid isoformat string'')
                      | Some expiry \<Rightarrow> Inr (JObj (if expiry \<le> today then reopened kvs else kvs)))
                 | _ \<Rightarrow> Inl (OtherError ''TypeError''))
           else Inr finding
       | _ \<Rightarrow> Inl (OtherError ''AttributeError'')))"

definition expire_exceptions :: "nat \<Rightarrow> (string \<times> json) list \<Rightarrow> (string \<times> json) list outcome" where
  "expire_exceptions today queue =
     outcome_bind (iterate (dict_get_or ''findings'' (JList []) queue)) (\<lambda>fs.
     outcome_bind (map_outcome (expire_one today) fs) (\<lambda>fs'.
       Inr (case obj_get ''findings'' queue of Some (JList _) \<Rightarrow> dict_put ''findings'' (JList fs') queue | _ \<Rightarrow> queue)))"

section \<open>Tickets\<close>

text \<open>Minutes to the response and hours to the resolution.\<close>

definition sla :: "string \<Rightarrow> (int \<times> int) option" where
  "sla priority = map_of [(''critical'', (15, 4)), (''high'', (30, 8)), (''medium'', (240, 24)), (''low'', (480, 72))] priority"

definition sla_item :: "json \<Rightarrow> (int \<times> int) outcome" where
  "sla_item priority =
     (if \<not> hashable priority then Inl (OtherError ''TypeError'')
      else case priority of
        JStr s \<Rightarrow> (case sla s of None \<Rightarrow> Inl (KeyError s) | Some due \<Rightarrow> Inr due)
      | _ \<Rightarrow> Inl (KeyError (py_str priority)))"

definition ticket_id :: "string \<Rightarrow> string" where
  "ticket_id source = ''SG-'' @ py_upper (take 12 (text_hash source))"

definition source_ticket_id :: "json \<Rightarrow> string outcome" where
  "source_ticket_id source = (case source of JStr s \<Rightarrow> Inr (ticket_id s) | _ \<Rightarrow> Inl (OtherError ''AttributeError''))"

definition due_text :: "int \<Rightarrow> int \<Rightarrow> string outcome" where
  "due_text created delay =
     (let t = created + seconds delay in if t < time_end then Inr (utc_text t) else Inl overflow_error)"

definition ticket_asset :: "json \<Rightarrow> json outcome" where
  "ticket_asset asset =
     outcome_bind (map_outcome (\<lambda>k. outcome_bind (attribute_get k JNull asset) (\<lambda>v. Inr (k, v)))
       [''asset_id'', ''hostname'', ''business_service'', ''criticality'']) (\<lambda>kvs. Inr (JObj kvs))"

definition make_ticket :: "json \<Rightarrow> string \<Rightarrow> json \<Rightarrow> json \<Rightarrow> json \<Rightarrow> json \<Rightarrow> int \<Rightarrow> (string \<times> json) list outcome" where
  "make_ticket source title priority owner evidence_ref asset created =
     outcome_bind (sla_item priority) (\<lambda>(minutes, hours).
     outcome_bind (source_ticket_id source) (\<lambda>tid.
     outcome_bind (due_text created (minutes * 60)) (\<lambda>response.
     outcome_bind (due_text created (hours * 3600)) (\<lambda>resolution.
     outcome_bind (ticket_asset asset) (\<lambda>about.
       Inr [(''ticket_id'', JStr tid), (''source'', source), (''title'', JStr title), (''priority'', priority),
         (''owner'', owner), (''status'', JStr ''open''), (''created_at'', JStr (utc_text created)),
         (''response_due_at'', JStr response), (''resolution_due_at'', JStr resolution), (''asset'', about),
         (''evidence_ref'', evidence_ref), (''auto_remediation'', JBool False)])))))"

definition finding_ticket :: "int \<Rightarrow> json \<Rightarrow> (string \<times> json) list list outcome" where
  "finding_ticket created finding =
     outcome_bind (attribute_get ''status'' JNull finding) (\<lambda>status.
       if status \<noteq> JStr ''open'' then Inr []
       else outcome_bind (subscript ''control'' finding) (\<lambda>control.
            outcome_bind (subscript ''finding_id'' finding) (\<lambda>fid.
            outcome_bind (subscript ''control_name'' control) (\<lambda>name.
            outcome_bind (subscript ''severity'' control) (\<lambda>severity.
            outcome_bind (subscript ''owner'' control) (\<lambda>owner.
            outcome_bind (subscript ''asset'' finding) (\<lambda>asset.
            outcome_bind (make_ticket fid (''Remediate control: '' @ py_str name) severity owner fid asset created) (\<lambda>t.
              Inr [t]))))))))"

text \<open>The priority and the title of the review of an account, if one is due.\<close>

definition account_review :: "(string \<times> json) list \<Rightarrow> (string \<times> string) outcome option" where
  "account_review user =
     (let titled = (\<lambda>priority label. outcome_bind (get_item ''sam_account_name'' user) (\<lambda>name.
            Inr (priority, ''Review stale '' @ label @ '' account: '' @ py_str name))) in
      if \<not> truthy (dict_get ''stale'' user) then None
      else if truthy (dict_get ''privileged'' user) then Some (titled ''critical'' ''privileged'')
      else if truthy (dict_get ''enabled'' user) then Some (titled ''high'' ''enabled'')
      else None)"

definition account_source :: "(string \<times> json) list \<Rightarrow> json \<Rightarrow> string" where
  "account_source review name = ''AD:'' @ py_str name @ '':'' @ py_str (dict_get ''reviewed_at'' review)"

definition account_ticket :: "(string \<times> json) list \<Rightarrow> int \<Rightarrow> json \<Rightarrow> (string \<times> json) list list outcome" where
  "account_ticket review created user =
     (case user of
        JObj u \<Rightarrow>
          (case account_review u of
             None \<Rightarrow> Inr []
           | Some due \<Rightarrow>
               outcome_bind due (\<lambda>(priority, title).
               outcome_bind (get_item ''sam_account_name'' u) (\<lambda>name.
               let source = JStr (account_source review name) in
               outcome_bind (make_ticket source title (JStr priority) (JStr ''Identity Governance'') source
                 (JObj [(''asset_id'', JNull), (''hostname'', JNull), (''business_service'', JStr ''Identity''),
                    (''criticality'', JStr priority)]) created) (\<lambda>t. Inr [t]))))
      | _ \<Rightarrow> Inl (OtherError ''AttributeError''))"

definition generate_tickets :: "json \<Rightarrow> json \<Rightarrow> int \<Rightarrow> (string \<times> json) list outcome" where
  "generate_tickets remediation access_review created =
     outcome_bind (attribute_get ''findings'' (JList []) remediation) (\<lambda>v.
     outcome_bind (iterate v) (\<lambda>findings.
     outcome_bind (map_outcome (finding_ticket created) findings) (\<lambda>controls.
     outcome_bind (attribute_get ''users'' (JList []) access_review) (\<lambda>w.
     outcome_bind (iterate w) (\<lambda>users.
     outcome_bind (map_outcome (account_ticket (case access_review of JObj r \<Rightarrow> r | _ \<Rightarrow> []) created) users) (\<lambda>accounts.
       Inr [(''schema_version'', JStr ''1.0''), (''generated_at'', JStr (utc_text created)),
         (''tickets'', JList (map JObj (concat controls @ concat accounts))), (''auto_remediation'', JBool False)]))))))"

end
