(* ===== verification/Pipeline.thy ===== *)
theory Pipeline
  imports Remediation Path_Policy State_Store Governance_Core
begin

text \<open>
  The governance pipeline, \<open>scripts/pipeline.py\<close>: one run takes a posture, the control catalogue, the asset registry and an access
  review through evaluation, the governance database, the evidence ledger, the tickets and the report. The world holds what a run touches: the ingestion state,
  the ledger, the audit log, the governance database and the output files. The generated values of a run, its clock readings and how far each
  file write gets are its environment. Opening the governance database changes nothing of one that was opened before, so it is not a step.
\<close>

section \<open>Steps that change the world\<close>

type_synonym ('w, 'a) step = "'w \<Rightarrow> 'a outcome \<times> 'w"

definition step_bind :: "('w, 'a) step \<Rightarrow> ('a \<Rightarrow> ('w, 'b) step) \<Rightarrow> ('w, 'b) step" where
  "step_bind m f w = (case m w of (Inl e, w') \<Rightarrow> (Inl e, w') | (Inr x, w') \<Rightarrow> f x w')"

definition pure_step :: "'a outcome \<Rightarrow> ('w, 'a) step" where
  "pure_step r w = (r, w)"

record pipeline_world =
  pw_state :: state_db
  pw_ledger :: "string option"
  pw_audit :: "string option"
  pw_gov :: gov
  pw_files :: text_files

section \<open>Output text\<close>

text \<open>\<open>json.dumps(value, indent=2)\<close>\<close>

definition new_line :: "nat \<Rightarrow> string" where
  "new_line depth = line_feed # replicate (2 * depth) (CHR '' '')"

fun json_pretty :: "nat \<Rightarrow> json \<Rightarrow> string" where
  "json_pretty n (JList vs) =
     (if vs = [] then ''[]''
      else ''['' @ new_line (Suc n) @ py_join ('','' @ new_line (Suc n)) (map (json_pretty (Suc n)) vs) @ new_line n @ '']'')"
| "json_pretty n (JObj kvs) =
     (if kvs = [] then ''{}''
      else ''{'' @ new_line (Suc n)
        @ py_join ('','' @ new_line (Suc n)) (map (\<lambda>(k, v). json_string True k @ '': '' @ json_pretty (Suc n) v) kvs)
        @ new_line n @ ''}'')"
| "json_pretty n v = json_print compact_ascii v"

definition write_json ::
    "filesystem \<Rightarrow> string \<Rightarrow> (string \<times> json) list \<Rightarrow> string list \<Rightarrow> file_write \<Rightarrow> (pipeline_world, string list) step" where
  "write_json fs path value root io w =
     (case write_text_under_root fs path root (json_pretty 0 (JObj value) @ [line_feed]) ''pipeline output path'' io (pw_files w) of
        (r, files) \<Rightarrow> (r, w\<lparr>pw_files := files\<rparr>))"

section \<open>Settings\<close>

record pipeline_args =
  pa_ledger :: string
  pa_remediation :: string
  pa_tickets :: string
  pa_report :: string
  pa_state_db :: string
  pa_audit :: "string option"
  pa_governance :: "string option"
  pa_lease_seconds :: int
  pa_runtime_root :: "string option"

record pipeline_paths =
  pt_root :: "string list"
  pt_ledger :: string
  pt_remediation :: string
  pt_tickets :: string
  pt_report :: string
  pt_state_db :: string
  pt_audit :: "string option"
  pt_governance :: "string option"

definition given :: "string option \<Rightarrow> bool" where
  "given v = (case v of None \<Rightarrow> False | Some s \<Rightarrow> s \<noteq> [])"

text \<open>\<open>getenv\<close> reads the environment of the process.\<close>

definition configured_governance_database :: "(string \<Rightarrow> string option) \<Rightarrow> string option \<Rightarrow> string option outcome" where
  "configured_governance_database getenv explicit =
     (let mode = py_lower (case getenv ''SENTINEL_STORAGE'' of None \<Rightarrow> ''legacy'' | Some m \<Rightarrow> m);
          configured = (if given explicit then explicit else getenv ''SENTINEL_GOVERNANCE_DB'') in
      if mode \<notin> {''legacy'', ''governance''} then Inl (ValueError ''SENTINEL_STORAGE must be legacy or governance'')
      else Inr (if mode = ''governance'' \<and> \<not> given configured then Some ''runtime/governance.db'' else configured))"

definition output_root :: "filesystem \<Rightarrow> pipeline_args \<Rightarrow> (string list) outcome" where
  "output_root fs a =
     (case pa_runtime_root a of
        Some root \<Rightarrow> resolve_path fs root
      | None \<Rightarrow> outcome_bind (resolve_path fs (pa_state_db a)) (\<lambda>p. Inr (butlast p)))"

definition resolved_text :: "filesystem \<Rightarrow> string list \<Rightarrow> string \<Rightarrow> string \<Rightarrow> string outcome" where
  "resolved_text fs root value purpose = outcome_bind (resolve_under_root fs value root purpose) (\<lambda>p. Inr (path_text p))"

definition resolved_option :: "filesystem \<Rightarrow> string list \<Rightarrow> string option \<Rightarrow> string \<Rightarrow> string option outcome" where
  "resolved_option fs root value purpose =
     (if given value then outcome_bind (resolved_text fs root (the value) purpose) (\<lambda>p. Inr (Some p)) else Inr None)"

definition resolve_pipeline_paths :: "filesystem \<Rightarrow> pipeline_args \<Rightarrow> string option \<Rightarrow> pipeline_paths outcome" where
  "resolve_pipeline_paths fs a governance =
     outcome_bind (output_root fs a) (\<lambda>root.
     outcome_bind (resolved_text fs root (pa_ledger a) ''ledger path'') (\<lambda>ledger.
     outcome_bind (resolved_text fs root (pa_remediation a) ''remediation path'') (\<lambda>remediation.
     outcome_bind (resolved_text fs root (pa_tickets a) ''tickets path'') (\<lambda>tickets.
     outcome_bind (resolved_text fs root (pa_report a) ''report path'') (\<lambda>report.
     outcome_bind (resolved_text fs root (pa_state_db a) ''state database path'') (\<lambda>state_path.
     outcome_bind (resolved_option fs root (pa_audit a) ''audit log path'') (\<lambda>audit.
     outcome_bind (resolved_option fs root governance ''governance database path'') (\<lambda>gov_path.
       Inr \<lparr>pt_root = root, pt_ledger = ledger, pt_remediation = remediation, pt_tickets = tickets, pt_report = report,
         pt_state_db = state_path, pt_audit = audit, pt_governance = gov_path\<rparr>))))))))"

section \<open>A run\<close>

record run_env =
  re_claimed :: int
  re_today :: string
  re_upserts :: "nat \<Rightarrow> Governance_Types.env \<times> Governance_Types.env"
  re_recorded :: string
  re_created :: int
  re_remediation :: file_write
  re_tickets :: file_write
  re_report :: file_write
  re_completed :: int
  re_audit :: audit_env
  re_failed :: int
  re_message :: "py_error \<Rightarrow> string"

text \<open>\<open>str(error)\<close>; the texts of the library's own errors are the environment's.\<close>

definition message_text :: "(py_error \<Rightarrow> string) \<Rightarrow> py_error \<Rightarrow> string" where
  "message_text library e =
     (case e of
        ValueError m \<Rightarrow> m | PermissionError m \<Rightarrow> m | RuntimeError m \<Rightarrow> m | KeyError k \<Rightarrow> repr_text k
      | _ \<Rightarrow> library e)"

definition validate_pipeline_inputs :: "json \<Rightarrow> json \<Rightarrow> json \<Rightarrow> unit outcome" where
  "validate_pipeline_inputs posture controls assets =
     (case posture of
        JObj p \<Rightarrow>
          if \<not> truthy (dict_get ''asset_id'' p) \<or> \<not> truthy (dict_get ''hostname'' p)
          then Inl (ValueError ''Posture must contain asset_id and hostname.'')
          else (case (controls, assets) of
                  (JList _, JList _) \<Rightarrow> Inr ()
                | _ \<Rightarrow> Inl (ValueError ''Controls and assets must be JSON arrays.''))
      | _ \<Rightarrow> Inl (ValueError ''Posture must contain asset_id and hostname.''))"

definition input_hash :: "json \<Rightarrow> json \<Rightarrow> json \<Rightarrow> json \<Rightarrow> string" where
  "input_hash posture controls assets review =
     text_hash (ledger_json (JObj [(''posture'', posture), (''controls'', controls), (''assets'', assets), (''access_review'', review)]))"

definition run_name :: "string \<Rightarrow> string" where
  "run_name h = ''PL-'' @ py_upper (take 12 h)"

definition effective_review :: "json \<Rightarrow> json" where
  "effective_review access_review =
     py_or access_review (JObj [(''schema_version'', JStr ''1.0''), (''users'', JList [])])"

definition pipeline_actor :: actor where
  "pipeline_actor = \<lparr>actor_id = ''sentinelgrc-pipeline'', actor_role = ''analyst'', auth_method = ''system''\<rparr>"

definition queue_findings :: "(string \<times> json) list \<Rightarrow> (string \<times> json) list list" where
  "queue_findings queue = (case dict_get ''findings'' queue of JList vs \<Rightarrow> map fields_of vs | _ \<Rightarrow> [])"

text \<open>One finding of the queue, entered into the governance database.\<close>

definition enter_finding ::
    "Governance_Types.env \<times> Governance_Types.env \<Rightarrow> (string \<times> json) list \<Rightarrow> (gov, finding) step" where
  "enter_finding envs item =
     (let control = fields_of (dict_get ''control'' item); fid = dict_get ''finding_id'' item in
      upsert_finding (fst envs) (snd envs) (py_str fid)
        (py_str (py_or (dict_get ''control_id'' control) (py_or (dict_get ''id'' control) (JStr ''legacy''))))
        (py_str (dict_get ''asset_id'' (fields_of (dict_get ''asset'' item))))
        (py_str (py_or (dict_get ''control_name'' control) fid))
        (py_str (py_or (dict_get ''owner'' control) (JStr ''Security Operations'')))
        (py_str (py_or (dict_get ''severity'' control) (JStr ''medium'')))
        pipeline_actor)"

fun enter_findings ::
    "(nat \<Rightarrow> Governance_Types.env \<times> Governance_Types.env) \<Rightarrow> nat \<Rightarrow> (string \<times> json) list list \<Rightarrow> (gov, unit) step" where
  "enter_findings envs n [] s = (Inr (), s)"
| "enter_findings envs n (item # items) s = step_bind (enter_finding (envs n) item) (\<lambda>_. enter_findings envs (Suc n) items) s"

definition enter_queue :: "run_env \<Rightarrow> pipeline_paths \<Rightarrow> (string \<times> json) list \<Rightarrow> (pipeline_world, unit) step" where
  "enter_queue env paths queue w =
     (if pt_governance paths = None then (Inr (), w)
      else case enter_findings (re_upserts env) 0 (queue_findings queue) (pw_gov w) of
        (r, s) \<Rightarrow> (r, w\<lparr>pw_gov := s\<rparr>))"

text \<open>The record of the input: found, or appended.\<close>

definition ledger_record ::
    "run_env \<Rightarrow> string \<Rightarrow> (string \<times> json) list \<Rightarrow> (string \<times> json) list list \<Rightarrow> (pipeline_world, (string \<times> json) list) step" where
  "ledger_record env h posture results w =
     (case find_ledger_record (pw_ledger w) h of
        Inl e \<Rightarrow> (Inl e, w)
      | Inr (Some r) \<Rightarrow> (Inr r, w)
      | Inr None \<Rightarrow>
          (case append_evidence_atomic (re_recorded env) posture results
                  (Some [(''input_hash'', JStr h), (''pipeline_run_id'', JStr (run_name h))]) (pw_ledger w) of
             (r, ledger) \<Rightarrow> (r, w\<lparr>pw_ledger := ledger\<rparr>)))"

definition ticket_count :: "(string \<times> json) list \<Rightarrow> nat" where
  "ticket_count tickets = (case dict_get ''tickets'' tickets of JList ts \<Rightarrow> length ts | _ \<Rightarrow> 0)"

definition executive_report ::
    "string \<Rightarrow> int \<Rightarrow> (string \<times> json) list \<Rightarrow> (string \<times> json) list list \<Rightarrow> (string \<times> json) list
       \<Rightarrow> (string \<times> json) list \<Rightarrow> json \<Rightarrow> bool \<Rightarrow> (string \<times> json) list outcome" where
  "executive_report rid created asset results queue tickets evidence_hash included =
     outcome_bind (map_outcome (\<lambda>k. outcome_bind (get_item k asset) (\<lambda>v. Inr (k, v)))
         [''asset_id'', ''hostname'', ''business_service'', ''criticality'']) (\<lambda>about.
       Inr [(''schema_version'', JStr ''1.0''), (''run_id'', JStr rid), (''generated_at'', JStr (utc_text created)),
         (''asset'', JObj about), (''controls_evaluated'', JInt (int (length results))),
         (''controls_failed'', JInt (int (length (failed_results results)))),
         (''risk_score'', JInt (sum_list (map risk_of (failed_results results)))),
         (''open_findings'', JInt (int (length (filter (\<lambda>f. dict_get ''status'' f = JStr ''open'') (queue_findings queue))))),
         (''tickets_created'', JInt (int (ticket_count tickets))), (''evidence_hash'', evidence_hash),
         (''access_review_included'', JBool included)])"

definition complete_run :: "run_env \<Rightarrow> string \<Rightarrow> json \<Rightarrow> pipeline_paths \<Rightarrow> (pipeline_world, unit) step" where
  "complete_run env h evidence_hash paths w =
     (case sql_text evidence_hash of
        Inl e \<Rightarrow> (Inl e, w)
      | Inr r \<Rightarrow> (Inr (), w\<lparr>pw_state := complete_pipeline_run h r (pt_remediation paths) (pt_tickets paths) (pt_report paths)
                          (re_completed env) (pw_state w)\<rparr>))"

definition audit_completion ::
    "run_env \<Rightarrow> string \<Rightarrow> json \<Rightarrow> json \<Rightarrow> nat \<Rightarrow> pipeline_paths \<Rightarrow> (pipeline_world, unit) step" where
  "audit_completion env rid aid evidence_hash tickets paths w =
     (if pt_audit paths = None then (Inr (), w)
      else case append_log (re_audit env) ''pipeline.completed'' (ActorText ''sentinelgrc-worker'') rid
             (Some [(''asset_id'', aid), (''evidence_hash'', evidence_hash), (''tickets_created'', JInt (int tickets))]) (pw_audit w) of
        (r, log) \<Rightarrow> (outcome_bind r (\<lambda>_. Inr ()), w\<lparr>pw_audit := log\<rparr>))"

definition accepted_result ::
    "string \<Rightarrow> json \<Rightarrow> pipeline_paths \<Rightarrow> nat \<Rightarrow> nat \<Rightarrow> (string \<times> json) list" where
  "accepted_result h evidence_hash paths failed tickets =
     [(''status'', JStr ''accepted''), (''run_id'', JStr (run_name h)), (''input_hash'', JStr h), (''ledger_record_hash'', evidence_hash),
      (''remediation_path'', JStr (pt_remediation paths)), (''tickets_path'', JStr (pt_tickets paths)),
      (''report_path'', JStr (pt_report paths)), (''controls_failed'', JInt (int failed)), (''tickets_created'', JInt (int tickets))]"

definition execute_pipeline ::
    "filesystem \<Rightarrow> run_env \<Rightarrow> (string \<times> json) list \<Rightarrow> json \<Rightarrow> json \<Rightarrow> json \<Rightarrow> bool \<Rightarrow> string \<Rightarrow> pipeline_paths
       \<Rightarrow> (pipeline_world, (string \<times> json) list) step" where
  "execute_pipeline fs env posture controls assets review included h paths =
     step_bind (pure_step (registered_asset assets posture)) (\<lambda>asset.
     step_bind (pure_step (get_item ''criticality'' asset)) (\<lambda>criticality.
     step_bind (pure_step (outcome_bind (iterate controls)
       (map_outcome (\<lambda>c. evaluate_control c (JObj (dict_put ''criticality'' criticality posture)))))) (\<lambda>results.
     step_bind (pure_step (build_remediation_queue (re_today env) controls posture assets)) (\<lambda>queue.
     step_bind (enter_queue env paths queue) (\<lambda>_.
     step_bind (ledger_record env h posture results) (\<lambda>r.
     step_bind (pure_step (generate_tickets (JObj queue) review (re_created env))) (\<lambda>tickets.
     step_bind (write_json fs (pt_remediation paths) queue (pt_root paths) (re_remediation env)) (\<lambda>_.
     step_bind (write_json fs (pt_tickets paths) tickets (pt_root paths) (re_tickets env)) (\<lambda>_.
     step_bind (pure_step (executive_report (run_name h) (re_created env) asset results queue tickets
       (dict_get ''record_hash'' r) included)) (\<lambda>report.
     step_bind (write_json fs (pt_report paths) report (pt_root paths) (re_report env)) (\<lambda>_.
     step_bind (complete_run env h (dict_get ''record_hash'' r) paths) (\<lambda>_.
     step_bind (audit_completion env (run_name h) (dict_get ''asset_id'' asset) (dict_get ''record_hash'' r)
       (ticket_count tickets) paths) (\<lambda>_.
       pure_step (Inr (accepted_result h (dict_get ''record_hash'' r) paths
         (length (failed_results results)) (ticket_count tickets))))))))))))))))"

definition duplicate_result :: "string \<Rightarrow> pipeline_paths \<Rightarrow> state_db \<Rightarrow> (string \<times> json) list" where
  "duplicate_result h paths db =
     (let existing = get_pipeline_run h db;
          column = (\<lambda>f d. JStr (case existing of None \<Rightarrow> d | Some r \<Rightarrow> f r)) in
      [(''status'', JStr ''duplicate''), (''run_id'', JStr (run_name h)), (''input_hash'', JStr h),
       (''ledger_record_hash'', (case existing of None \<Rightarrow> JNull | Some r \<Rightarrow> JStr (pr_ledger r))),
       (''remediation_path'', column pr_remediation (pt_remediation paths)),
       (''tickets_path'', column pr_tickets (pt_tickets paths)), (''report_path'', column pr_report (pt_report paths))])"

text \<open>A run whose paths and inputs are accepted: claimed, executed, and marked as failed when anything was raised.\<close>

definition claimed_run ::
    "filesystem \<Rightarrow> run_env \<Rightarrow> (string \<times> json) list \<Rightarrow> json \<Rightarrow> json \<Rightarrow> json \<Rightarrow> int \<Rightarrow> pipeline_paths
       \<Rightarrow> (pipeline_world, (string \<times> json) list) step" where
  "claimed_run fs env posture controls assets access_review lease paths w =
     (let review = effective_review access_review; h = input_hash (JObj posture) controls assets review in
      case claim_pipeline_run h (re_claimed env) lease (pw_state w) of
        (False, db) \<Rightarrow> (Inr (duplicate_result h paths db), w\<lparr>pw_state := db\<rparr>)
      | (True, db) \<Rightarrow>
          (case execute_pipeline fs env posture controls assets review (truthy access_review) h paths (w\<lparr>pw_state := db\<rparr>) of
             (Inr r, w') \<Rightarrow> (Inr r, w')
           | (Inl e, w') \<Rightarrow>
               (Inl e, w'\<lparr>pw_state := fail_pipeline_run h (message_text (re_message env) e) (re_failed env) (pw_state w')\<rparr>)))"

definition run_pipeline ::
    "filesystem \<Rightarrow> (string \<Rightarrow> string option) \<Rightarrow> pipeline_args \<Rightarrow> run_env \<Rightarrow> json \<Rightarrow> json \<Rightarrow> json \<Rightarrow> json
       \<Rightarrow> (pipeline_world, (string \<times> json) list) step" where
  "run_pipeline fs getenv a env posture controls assets access_review w =
     (case outcome_bind (configured_governance_database getenv (pa_governance a)) (\<lambda>governance.
           outcome_bind (resolve_pipeline_paths fs a governance) (\<lambda>paths.
           outcome_bind (validate_pipeline_inputs posture controls assets) (\<lambda>_. Inr paths))) of
        Inl e \<Rightarrow> (Inl e, w)
      | Inr paths \<Rightarrow> claimed_run fs env (fields_of posture) controls assets access_review (pa_lease_seconds a) paths w)"

end
