(* ===== verification/Pipeline_Worker.thy ===== *)
theory Pipeline_Worker
  imports Pipeline Job_Queue Ingestion
begin

text \<open>
  The inbox worker, \<open>scripts/pipeline_worker.py\<close>: a pass validates the names in the inbox, repairs interrupted publications, enqueues
  the evidence it may read and processes jobs until none is ready. Processing a job renews its lease, reads the evidence and checks it against
  the committed hash, runs the pipeline and completes the job. The heartbeat thread is the list of its renewals before and after the reading: the
  time of each, or \<open>None\<close> for a database error. How the process of a worker ends at its test failpoint is a result of its own.
\<close>

section \<open>Settings\<close>

record worker_options =
  wo_max_attempts :: int
  wo_retry_delay :: int
  wo_audit :: "string option"
  wo_lease_seconds :: int
  wo_runtime_root :: "string option"
  wo_governance :: "string option"

definition failpoint_after_commit :: string where
  "failpoint_after_commit = ''after_pipeline_commit_before_queue_ack''"

definition env_text :: "(string \<Rightarrow> string option) \<Rightarrow> string \<Rightarrow> string \<Rightarrow> string" where
  "env_text getenv name d = py_strip (case getenv name of None \<Rightarrow> d | Some s \<Rightarrow> s)"

definition configured_test_failpoint :: "(string \<Rightarrow> string option) \<Rightarrow> string option outcome" where
  "configured_test_failpoint getenv =
     (let failpoint = env_text getenv ''SENTINEL_FAILPOINT'' [] in
      if failpoint = [] then Inr None
      else if py_lower (env_text getenv ''SENTINEL_ENABLE_TEST_FAILPOINTS'' []) \<noteq> ''true''
        then Inl (RuntimeError ''SENTINEL_FAILPOINT requires SENTINEL_ENABLE_TEST_FAILPOINTS=true'')
      else if py_lower (env_text getenv ''SENTINEL_ENV'' ''lab'') \<noteq> ''lab''
        then Inl (RuntimeError ''test failpoints are allowed only in SENTINEL_ENV=lab'')
      else if failpoint \<noteq> failpoint_after_commit then Inl (RuntimeError (''unsupported SENTINEL_FAILPOINT: '' @ failpoint))
      else Inr (Some failpoint))"

definition min_worker_lease_seconds :: int where
  "min_worker_lease_seconds = 30 * 2"

definition validate_worker_run_options :: "worker_options \<Rightarrow> unit outcome" where
  "validate_worker_run_options opts =
     (if wo_lease_seconds opts < min_worker_lease_seconds
      then Inl (ValueError (''lease_seconds must be at least '' @ show_int min_worker_lease_seconds
        @ '' to keep the heartbeat cadence ahead of the shared SQLite lock timeout''))
      else if wo_max_attempts opts < 1 then Inl (ValueError ''max_attempts must be at least 1'')
      else if wo_retry_delay opts < 0 then Inl (ValueError ''retry_delay must not be negative'')
      else Inr ())"

text \<open>The directories as the command line gives them, and as they are resolved.\<close>

record worker_dirs =
  wd_inbox :: string
  wd_ledger :: string
  wd_state_db :: string
  wd_remediation :: string
  wd_tickets :: string
  wd_reports :: string

record worker_paths =
  wp_inbox :: "string list"
  wp_root :: "string list"
  wp_ledger :: string
  wp_state_db :: string
  wp_remediation :: "string list"
  wp_tickets :: "string list"
  wp_reports :: "string list"
  wp_audit :: "string option"
  wp_governance :: "string option"

definition resolve_worker_paths ::
    "filesystem \<Rightarrow> (string \<Rightarrow> string option) \<Rightarrow> worker_dirs \<Rightarrow> worker_options \<Rightarrow> worker_paths outcome" where
  "resolve_worker_paths fs getenv d opts =
     outcome_bind (resolve_path fs (wd_inbox d)) (\<lambda>inbox.
     outcome_bind (case wo_runtime_root opts of None \<Rightarrow> Inr (butlast inbox) | Some root \<Rightarrow> resolve_path fs root) (\<lambda>root.
     outcome_bind (case wo_audit opts of None \<Rightarrow> Inr None
       | Some a \<Rightarrow> outcome_bind (resolved_text fs root a ''audit log path'') (\<lambda>p. Inr (Some p))) (\<lambda>audit.
     outcome_bind (configured_governance_database getenv (wo_governance opts)) (\<lambda>governance.
     outcome_bind (resolved_text fs root (wd_ledger d) ''ledger path'') (\<lambda>ledger.
     outcome_bind (resolved_text fs root (wd_state_db d) ''state database path'') (\<lambda>state_path.
     outcome_bind (resolve_worker_output_directory fs (wd_remediation d) root ''remediation'' ''remediation directory'') (\<lambda>remediation.
     outcome_bind (resolve_worker_output_directory fs (wd_tickets d) root ''tickets'' ''tickets directory'') (\<lambda>tickets.
     outcome_bind (resolve_worker_output_directory fs (wd_reports d) root ''reports'' ''reports directory'') (\<lambda>reports.
     outcome_bind (case governance of None \<Rightarrow> Inr None
       | Some g \<Rightarrow> outcome_bind (resolved_text fs root g ''governance database path'') (\<lambda>p. Inr (Some p))) (\<lambda>gov_path.
       Inr \<lparr>wp_inbox = inbox, wp_root = root, wp_ledger = ledger, wp_state_db = state_path, wp_remediation = remediation,
         wp_tickets = tickets, wp_reports = reports, wp_audit = audit, wp_governance = gov_path\<rparr>))))))))))"

section \<open>Reading the evidence of a job\<close>

definition path_suffix :: "string \<Rightarrow> string" where
  "path_suffix name = drop (length (path_stem name)) name"

definition validated_inbox_item :: "filesystem \<Rightarrow> string \<Rightarrow> string list \<Rightarrow> (string list) outcome" where
  "validated_inbox_item fs value inbox =
     outcome_bind (resolve_under_root fs value inbox ''inbox payload path'') (\<lambda>p.
       if p = [] \<or> butlast p \<noteq> inbox \<or> py_lower (path_suffix (last p)) \<noteq> ''.json''
       then Inl (ValueError ''inbox payload must be a top-level JSON file'')
       else outcome_bind (validate_evidence_id (path_stem (last p)) ''inbox evidence ID'') (\<lambda>_. Inr p))"

definition read_claimed_payload :: "directory \<Rightarrow> string \<Rightarrow> state_db \<Rightarrow> byte list outcome" where
  "read_claimed_payload d name db =
     (case find_payload_by_evidence_id (path_stem name) db of
        None \<Rightarrow>
          outcome_bind (read_evidence_bytes d name) (\<lambda>found.
            case found of None \<Rightarrow> Inl (ValueError ''inbox payload must be a regular readable file'') | Some b \<Rightarrow> Inr b)
      | Some r \<Rightarrow>
          if pl_status r \<noteq> PayloadCommitted then Inl (ValueError ''managed inbox payload is not committed'')
          else outcome_bind (read_verified_evidence d name (pl_hash r)) (\<lambda>found.
            case found of None \<Rightarrow> Inl (ValueError ''managed inbox payload failed committed hash verification'') | Some b \<Rightarrow> Inr b))"

section \<open>One job\<close>

record worker_world =
  ww_pipeline :: pipeline_world
  ww_jobs :: "job list"
  ww_inbox :: directory

record job_env =
  je_renewed :: "int option"
  je_reading :: "int option list"
  je_run :: run_env
  je_running :: "int option list"
  je_finished :: int

text \<open>Whether the lease was lost, and the jobs after the renewals.\<close>

fun heartbeats :: "nat \<Rightarrow> string \<Rightarrow> int \<Rightarrow> int option list \<Rightarrow> job list \<Rightarrow> bool \<times> job list" where
  "heartbeats jid worker lease [] t = (False, t)"
| "heartbeats jid worker lease (None # bs) t = (True, t)"
| "heartbeats jid worker lease (Some now # bs) t =
     (case renew_job jid worker lease now t of
        (Inr True, t') \<Rightarrow> heartbeats jid worker lease bs t'
      | (_, t') \<Rightarrow> (True, t'))"

datatype job_result = Exited | Raised py_error | Reported "(string \<times> json) list"

definition report_of :: "string \<Rightarrow> string \<Rightarrow> (string \<times> json) list" where
  "report_of file status = [(''file'', JStr file), (''status'', JStr status)]"

text \<open>The failure reported to the queue by the outermost handler, and by the handlers of the reading.\<close>

definition fail_and_report ::
    "worker_options \<Rightarrow> string \<Rightarrow> job \<Rightarrow> string \<Rightarrow> int \<Rightarrow> worker_world \<Rightarrow> job_result \<times> worker_world" where
  "fail_and_report opts worker jb m now w =
     (case fail_job (jb_id jb) worker m (wo_max_attempts opts) (wo_retry_delay opts) now (ww_jobs w) of
        (Inl e, t) \<Rightarrow> (Raised e, w\<lparr>ww_jobs := t\<rparr>)
      | (Inr st, t) \<Rightarrow>
          (Reported (report_of (jb_path jb) ''error'' @ [(''queue_status'', JStr st), (''error'', JStr m)]), w\<lparr>ww_jobs := t\<rparr>))"

definition refuse_evidence ::
    "worker_options \<Rightarrow> string \<Rightarrow> job \<Rightarrow> job_env \<Rightarrow> py_error \<Rightarrow> worker_world \<Rightarrow> job_result \<times> worker_world" where
  "refuse_evidence opts worker jb env e w =
     (let text_of_error = message_text (re_message (je_run env));
          handled = (\<lambda>m attempts delay.
            case fail_job (jb_id jb) worker m attempts delay (je_finished env) (ww_jobs w) of
              (Inl e', t) \<Rightarrow> fail_and_report opts worker jb (text_of_error e') (je_finished env) (w\<lparr>ww_jobs := t\<rparr>)
            | (Inr st, t) \<Rightarrow>
                (Reported (report_of (jb_path jb) ''error'' @ [(''queue_status'', JStr st), (''error'', JStr m)]), w\<lparr>ww_jobs := t\<rparr>)) in
      if e = os_error then handled ''evidence storage is temporarily unavailable'' (wo_max_attempts opts) (wo_retry_delay opts)
      else case e of
        ValueError m \<Rightarrow> handled m 1 0
      | _ \<Rightarrow> fail_and_report opts worker jb (text_of_error e) (je_finished env) w)"

definition job_args :: "worker_paths \<Rightarrow> worker_options \<Rightarrow> string \<Rightarrow> pipeline_args" where
  "job_args paths opts stem =
     \<lparr>pa_ledger = wp_ledger paths, pa_remediation = path_text (wp_remediation paths @ [stem @ ''.json'']),
      pa_tickets = path_text (wp_tickets paths @ [stem @ ''.json'']), pa_report = path_text (wp_reports paths @ [stem @ ''.json'']),
      pa_state_db = wp_state_db paths, pa_audit = wp_audit paths, pa_governance = wp_governance paths,
      pa_lease_seconds = wo_lease_seconds opts, pa_runtime_root = Some (path_text (wp_root paths))\<rparr>"

text \<open>After a pipeline run that returned: the failpoint, the end of the heartbeat and the completion.\<close>

definition finish_job ::
    "worker_options \<Rightarrow> string \<Rightarrow> job \<Rightarrow> job_env \<Rightarrow> string option \<Rightarrow> string \<Rightarrow> (string \<times> json) list \<Rightarrow> worker_world
       \<Rightarrow> job_result \<times> worker_world" where
  "finish_job opts worker jb env failpoint file r w =
     (case heartbeats (jb_id jb) worker (wo_lease_seconds opts) (je_running env) (ww_jobs w) of
        (lost, t) \<Rightarrow>
          if failpoint = Some failpoint_after_commit then (Exited, w\<lparr>ww_jobs := t\<rparr>)
          else if lost then (Reported (report_of file ''lease_lost''), w\<lparr>ww_jobs := t\<rparr>)
          else (case complete_job (jb_id jb) worker (je_finished env) t of
             (Inl e, t') \<Rightarrow> fail_and_report opts worker jb (message_text (re_message (je_run env)) e) (je_finished env) (w\<lparr>ww_jobs := t'\<rparr>)
           | (Inr owned, t') \<Rightarrow>
               (Reported (if owned then (''file'', JStr file) # r else report_of file ''lease_lost''), w\<lparr>ww_jobs := t'\<rparr>)))"

text \<open>What a worker is configured with.\<close>

record worker_config =
  wc_options :: worker_options
  wc_paths :: worker_paths
  wc_controls :: json
  wc_assets :: json
  wc_review :: json
  wc_failpoint :: "string option"
  wc_worker :: string

definition run_evidence ::
    "filesystem \<Rightarrow> (string \<Rightarrow> string option) \<Rightarrow> worker_config \<Rightarrow> job_env \<Rightarrow> job \<Rightarrow> string list \<Rightarrow> byte list \<Rightarrow> worker_world
       \<Rightarrow> job_result \<times> worker_world" where
  "run_evidence fs getenv c env jb p bytes w =
     (let failed = (\<lambda>e w. case heartbeats (jb_id jb) (wc_worker c) (wo_lease_seconds (wc_options c)) (je_running env) (ww_jobs w) of
            (lost, t) \<Rightarrow> fail_and_report (wc_options c) (wc_worker c) jb (message_text (re_message (je_run env)) e) (je_finished env)
                          (w\<lparr>ww_jobs := t\<rparr>)) in
      case decode_body bytes of
        Inl e \<Rightarrow> failed e w
      | Inr posture \<Rightarrow>
          (case run_pipeline fs getenv (job_args (wc_paths c) (wc_options c) (path_stem (last p))) (je_run env) posture
                  (wc_controls c) (wc_assets c) (wc_review c) (ww_pipeline w) of
             (Inl e, pw) \<Rightarrow> failed e (w\<lparr>ww_pipeline := pw\<rparr>)
           | (Inr r, pw) \<Rightarrow>
               finish_job (wc_options c) (wc_worker c) jb env (wc_failpoint c) (path_text p) r (w\<lparr>ww_pipeline := pw\<rparr>)))"

definition process_claimed_job ::
    "filesystem \<Rightarrow> (string \<Rightarrow> string option) \<Rightarrow> worker_config \<Rightarrow> job_env \<Rightarrow> job \<Rightarrow> worker_world \<Rightarrow> job_result \<times> worker_world" where
  "process_claimed_job fs getenv c env jb w =
     (let lost = Reported (report_of (jb_path jb) ''lease_lost''); lease = wo_lease_seconds (wc_options c) in
      case je_renewed env of
        None \<Rightarrow> (lost, w)
      | Some renewed \<Rightarrow>
          (case renew_job (jb_id jb) (wc_worker c) lease renewed (ww_jobs w) of
             (Inl e, t) \<Rightarrow> (Raised e, w\<lparr>ww_jobs := t\<rparr>)
           | (Inr False, t) \<Rightarrow> (lost, w\<lparr>ww_jobs := t\<rparr>)
           | (Inr True, t) \<Rightarrow>
               (case heartbeats (jb_id jb) (wc_worker c) lease (je_reading env) t of
                  (stopped, t') \<Rightarrow>
                    let w' = w\<lparr>ww_jobs := t'\<rparr> in
                    (case outcome_bind (validated_inbox_item fs (jb_path jb) (wp_inbox (wc_paths c))) (\<lambda>p.
                          outcome_bind (read_claimed_payload (ww_inbox w) (last p) (pw_state (ww_pipeline w))) (\<lambda>b. Inr (p, b))) of
                       Inl e \<Rightarrow> refuse_evidence (wc_options c) (wc_worker c) jb env e w'
                     | Inr (p, bytes) \<Rightarrow> if stopped then (lost, w') else run_evidence fs getenv c env jb p bytes w'))))"

section \<open>One pass\<close>

text \<open>The jobs of a pass: whether it ended, its results and the world. Each claim has its time, the steps of a job their environment.\<close>

datatype pass_end = PassEnded | PassExited | PassRaised py_error

fun process_jobs ::
    "filesystem \<Rightarrow> (string \<Rightarrow> string option) \<Rightarrow> worker_config \<Rightarrow> (int \<times> job_env) list \<Rightarrow> worker_world
       \<Rightarrow> pass_end option \<times> (string \<times> json) list list \<times> worker_world" where
  "process_jobs fs getenv c [] w = (None, [], w)"
| "process_jobs fs getenv c ((now, env) # envs) w =
     (case claim_job (wc_worker c) (wo_lease_seconds (wc_options c)) now (ww_jobs w) of
        (Inl e, t) \<Rightarrow> (Some (PassRaised e), [], w\<lparr>ww_jobs := t\<rparr>)
      | (Inr None, t) \<Rightarrow> (Some PassEnded, [], w\<lparr>ww_jobs := t\<rparr>)
      | (Inr (Some jb), t) \<Rightarrow>
          (case process_claimed_job fs getenv c env jb (w\<lparr>ww_jobs := t\<rparr>) of
             (Exited, w') \<Rightarrow> (Some PassExited, [], w')
           | (Raised e, w') \<Rightarrow> (Some (PassRaised e), [], w')
           | (Reported r, w') \<Rightarrow>
               (case process_jobs fs getenv c envs w' of (ended, rs, w'') \<Rightarrow> (ended, r # rs, w''))))"

text \<open>Every name of the inbox, and the enqueueing of the evidence that may be read; identifiers and times are the database's.\<close>

definition inbox_path :: "worker_paths \<Rightarrow> string \<Rightarrow> string" where
  "inbox_path paths name = path_text (wp_inbox paths @ [name])"

definition check_names :: "filesystem \<Rightarrow> worker_paths \<Rightarrow> directory \<Rightarrow> unit outcome" where
  "check_names fs paths d =
     outcome_bind (map_outcome (\<lambda>name. validated_inbox_item fs (inbox_path paths name) (wp_inbox paths)) (json_names d)) (\<lambda>_. Inr ())"

definition enqueue_evidence :: "worker_paths \<Rightarrow> state_db \<Rightarrow> nat \<times> int \<Rightarrow> string \<Rightarrow> job list \<Rightarrow> job list" where
  "enqueue_evidence paths db row name t =
     (case find_payload_by_evidence_id (path_stem name) db of
        Some r \<Rightarrow>
          if pl_status r = PayloadCommitted then snd (enqueue_job (fst row) (inbox_path paths name) (snd row) t) else t
      | None \<Rightarrow> snd (enqueue_job (fst row) (inbox_path paths name) (snd row) t))"

fun enqueue_inbox :: "worker_paths \<Rightarrow> state_db \<Rightarrow> (nat \<Rightarrow> nat \<times> int) \<Rightarrow> nat \<Rightarrow> string list \<Rightarrow> job list \<Rightarrow> job list" where
  "enqueue_inbox paths db rows n [] t = t"
| "enqueue_inbox paths db rows n (name # names) t =
     enqueue_inbox paths db rows (Suc n) names (enqueue_evidence paths db (rows n) name t)"

record pass_env =
  pe_swept :: int
  pe_rows :: "nat \<Rightarrow> nat \<times> int"
  pe_jobs :: "(int \<times> job_env) list"
  pe_worker :: string

text \<open>What a pass prepares before its first claim.\<close>

definition prepare_pass :: "worker_config \<Rightarrow> pass_env \<Rightarrow> worker_world \<Rightarrow> worker_world" where
  "prepare_pass c env w =
     (let pw = ww_pipeline w;
          db = snd (reconcile_pending_publications [Some (ww_inbox w)] 300 (pe_swept env) (pw_state pw)) in
      w\<lparr>ww_pipeline := pw\<lparr>pw_state := db\<rparr>,
        ww_jobs := enqueue_inbox (wc_paths c) db (pe_rows env) 0 (json_names (ww_inbox w)) (ww_jobs w)\<rparr>)"

definition process_inbox_once ::
    "filesystem \<Rightarrow> (string \<Rightarrow> string option) \<Rightarrow> worker_dirs \<Rightarrow> worker_options \<Rightarrow> json \<Rightarrow> json \<Rightarrow> json \<Rightarrow> pass_env \<Rightarrow> worker_world
       \<Rightarrow> pass_end option \<times> (string \<times> json) list list \<times> worker_world" where
  "process_inbox_once fs getenv d opts controls assets review env w =
     (case outcome_bind (validate_worker_run_options opts) (\<lambda>_.
           outcome_bind (configured_test_failpoint getenv) (\<lambda>failpoint.
           outcome_bind (resolve_worker_paths fs getenv d opts) (\<lambda>paths.
           outcome_bind (check_names fs paths (ww_inbox w)) (\<lambda>_.
             Inr \<lparr>wc_options = opts, wc_paths = paths, wc_controls = controls, wc_assets = assets, wc_review = review,
               wc_failpoint = failpoint, wc_worker = ''worker-'' @ pe_worker env\<rparr>)))) of
        Inl e \<Rightarrow> (Some (PassRaised e), [], w)
      | Inr c \<Rightarrow> process_jobs fs getenv c (pe_jobs env) (prepare_pass c env w))"

definition one_shot_exit_code :: "(string \<times> json) list list \<Rightarrow> nat" where
  "one_shot_exit_code results =
     (if list_all (\<lambda>r. dict_get ''status'' r \<in> {JStr ''accepted'', JStr ''duplicate''}) results then 0 else 1)"

end
