(* ===== verification/Remediation_Properties.thy ===== *)
theory Remediation_Properties
  imports Remediation Ledger_Properties
begin

text \<open>
  Properties of the remediation queue and its tickets: the queue holds exactly the failed controls, with their risk; an exception is
  granted only on an open finding for a limited time and ends on its day; and every open finding and every stale account that can
  sign in gets exactly one ticket, whose identifier depends on its source alone.
\<close>

section \<open>Lists of outcomes\<close>

lemma map_outcome_Cons [outcome_simps]:
  "map_outcome f (x # xs) = Inr ys \<longleftrightarrow> (\<exists>z zs. f x = Inr z \<and> map_outcome f xs = Inr zs \<and> ys = z # zs)"
  by (auto simp: outcome_simps)

lemma map_outcome_all2: "map_outcome f xs = Inr ys \<longleftrightarrow> list_all2 (\<lambda>x y. f x = Inr y) xs ys"
proof (induction xs arbitrary: ys)
  case (Cons x xs)
  then show ?case by (cases ys) (auto simp: outcome_simps)
qed auto

lemma map_outcome_map: "map_outcome f xs = Inr ys \<Longrightarrow> (\<And>x y. f x = Inr y \<Longrightarrow> g y = h x) \<Longrightarrow> map g ys = map h xs"
  by (induction xs arbitrary: ys) (auto simp: outcome_simps)

section \<open>Dictionaries\<close>

lemma obj_get_put: "obj_get k (dict_put k' v kvs) = (if k = k' then Some v else obj_get k kvs)"
  by (induction kvs) (auto simp: obj_get_def)

lemma obj_get_Cons: "obj_get k ((k', v) # kvs) = (if k = k' then Some v else obj_get k kvs)" "obj_get k [] = None"
  by (simp_all add: obj_get_def)

lemma field_get_Cons: "dict_get k ((k', v) # kvs) = (if k = k' then v else dict_get k kvs)" "dict_get k [] = JNull"
  by (simp_all add: dict_get_def obj_get_Cons)

lemma field_get_put: "dict_get k (dict_put k' v kvs) = (if k = k' then v else dict_get k kvs)"
  by (simp add: dict_get_def obj_get_put)

section \<open>The queue\<close>

lemma finding_of_result:
  assumes "finding_of a p c = Inr fs"
  obtains r where "evaluate_control c (JObj (dict_put ''criticality'' (dict_get ''criticality'' a) p)) = Inr r"
    "map (dict_get ''control'') fs = map JObj (failed_results [r])" "map finding_risk fs = map risk_of (failed_results [r])"
    "\<forall>f \<in> set fs. dict_get ''status'' f = JStr ''open'' \<and> dict_get ''asset'' f = JObj a"
proof -
  obtain criticality r where c: "get_item ''criticality'' a = Inr criticality"
    "evaluate_control c (JObj (dict_put ''criticality'' criticality p)) = Inr r"
    and rest: "(if dict_get ''passed'' r = JBool True then Inr []
       else outcome_bind (get_item ''asset_id'' a) (\<lambda>aid.
            outcome_bind (subscript ''id'' c) (\<lambda>cid.
              Inr [[(''finding_id'', JStr (finding_name aid cid)), (''asset'', JObj a), (''control'', JObj r),
                (''status'', JStr ''open''), (''due_date'', JNull), (''exception'', JNull)]]))) = Inr fs"
    using assms unfolding finding_of_def outcome_bind_eq_Inr by blast
  have "dict_get ''criticality'' a = criticality" using c(1) by (auto simp: get_item_def dict_get_def split: option.splits)
  then show thesis
    using c(2) rest by (intro that [of r]) (auto simp: outcome_simps failed_results_def finding_risk_def field_get_Cons split: if_splits)
qed

text \<open>
  C34. The queue holds the failed controls: the findings of a queue are the failed results of the catalogue, evaluated with the
  criticality of the registered asset whatever the posture claims, in the order of the catalogue; each is open and carries that asset; and the
  risk score of the queue is the sum of the scores of its findings.
\<close>

theorem queue_holds_failed_controls:
  assumes "build_remediation_queue today (JList controls) posture assets = Inr q"
  shows "\<exists>a results findings. registered_asset assets posture = Inr a
    \<and> map_outcome (\<lambda>c. evaluate_control c (JObj (dict_put ''criticality'' (dict_get ''criticality'' a) posture))) controls = Inr results
    \<and> dict_get ''findings'' q = JList (map JObj findings)
    \<and> map (dict_get ''control'') findings = map JObj (failed_results results)
    \<and> (\<forall>f \<in> set findings. dict_get ''status'' f = JStr ''open'' \<and> dict_get ''asset'' f = JObj a)
    \<and> dict_get ''risk_score'' q = JInt (sum_list (map risk_of (failed_results results)))"
proof -
  obtain a found aid where q: "registered_asset assets posture = Inr a" "map_outcome (finding_of a posture) controls = Inr found"
    "q = [(''schema_version'', JStr ''1.0''), (''generated_on'', JStr today), (''asset_id'', aid),
         (''risk_score'', JInt (sum_list (map finding_risk (concat found)))), (''findings'', JList (map JObj (concat found)))]"
    using assms by (auto simp: build_remediation_queue_def iterate_def outcome_simps)
  let ?eval = "\<lambda>c. evaluate_control c (JObj (dict_put ''criticality'' (dict_get ''criticality'' a) posture))"
  have "\<exists>results. map_outcome ?eval controls = Inr results \<and> map (dict_get ''control'') (concat found) = map JObj (failed_results results)
      \<and> map finding_risk (concat found) = map risk_of (failed_results results)
      \<and> (\<forall>f \<in> set (concat found). dict_get ''status'' f = JStr ''open'' \<and> dict_get ''asset'' f = JObj a)"
    using q(2)
  proof (induction controls arbitrary: found)
    case (Cons c cs)
    obtain fs rest where f: "finding_of a posture c = Inr fs" "map_outcome (finding_of a posture) cs = Inr rest" "found = fs # rest"
      using Cons.prems by (auto simp: outcome_simps)
    obtain r where r: "?eval c = Inr r" "map (dict_get ''control'') fs = map JObj (failed_results [r])"
      "map finding_risk fs = map risk_of (failed_results [r])"
      "\<forall>f \<in> set fs. dict_get ''status'' f = JStr ''open'' \<and> dict_get ''asset'' f = JObj a" by (rule finding_of_result [OF f(1)])
    obtain results where "map_outcome ?eval cs = Inr results"
      "map (dict_get ''control'') (concat rest) = map JObj (failed_results results)"
      "map finding_risk (concat rest) = map risk_of (failed_results results)"
      "\<forall>f \<in> set (concat rest). dict_get ''status'' f = JStr ''open'' \<and> dict_get ''asset'' f = JObj a" using Cons.IH [OF f(2)] by auto
    then show ?case using r unfolding f(3) by (intro exI [of _ "r # results"]) (auto simp: failed_results_def)
  qed (simp add: failed_results_def)
  then obtain results where res: "map_outcome ?eval controls = Inr results"
    "map (dict_get ''control'') (concat found) = map JObj (failed_results results)"
    "map finding_risk (concat found) = map risk_of (failed_results results)"
    "\<forall>f \<in> set (concat found). dict_get ''status'' f = JStr ''open'' \<and> dict_get ''asset'' f = JObj a" by blast
  have "dict_get ''findings'' q = JList (map JObj (concat found))" "dict_get ''risk_score'' q = JInt (sum_list (map risk_of (failed_results results)))"
    by (simp_all add: q(3) res(3) dict_get_def obj_get_Cons)
  then show ?thesis using q(1) res(1,2,4) by blast
qed

section \<open>Exceptions\<close>

lemma approve_first_result:
  "approve_first fid grant fs = Inr fs' \<Longrightarrow> \<exists>before kvs after. fs = before @ JObj kvs # after \<and> fs' = before @ JObj (grant kvs) # after
     \<and> dict_get ''finding_id'' kvs = JStr fid \<and> dict_get ''status'' kvs = JStr ''open''"
proof (induction fid grant fs arbitrary: fs' rule: approve_first.induct)
  case (2 fid grant f fs)
  obtain x where x: "subscript ''finding_id'' f = Inr x" using "2.prems" by (auto simp: outcome_simps)
  show ?case
  proof (cases "x = JStr fid")
    case True
    obtain kvs where kvs: "f = JObj kvs" using x by (auto simp: subscript_def split: json.splits)
    then have "dict_get ''finding_id'' kvs = JStr fid"
      using x True by (auto simp: subscript_def get_item_def dict_get_def split: option.splits)
    moreover have "dict_get ''status'' kvs = JStr ''open''" "fs' = [] @ JObj (grant kvs) # fs"
      using "2.prems" x True kvs by (auto split: if_splits)
    ultimately show ?thesis using kvs by (metis append_Nil)
  next
    case False
    then obtain rest where "approve_first fid grant fs = Inr rest" "fs' = f # rest"
      using "2.prems" x by (auto simp: outcome_simps)
    then show ?thesis using "2.IH" [OF False] by (metis append_Cons)
  qed
qed simp

lemma map_outcome_middle:
  assumes "f y = Inr y'"
  shows "map_outcome f (xs @ y # ys) =
     outcome_bind (map_outcome f xs) (\<lambda>xs'. outcome_bind (map_outcome f ys) (\<lambda>ys'. Inr (xs' @ y' # ys')))"
proof (induction xs)
  case Nil
  show ?case by (cases "map_outcome f ys") (simp_all add: assms)
next
  case (Cons x xs)
  then show ?case by (cases "f x"; cases "map_outcome f xs"; cases "map_outcome f ys") simp_all
qed

text \<open>An expiry run over a queue that holds a granted exception.\<close>

lemma expire_granted:
  assumes "date_fromisoformat expires_on = Some expiry"
  shows "expire_one day (JObj (granted_exception approver reason expires_on kvs)) =
     Inr (JObj ((if expiry \<le> day then reopened else id) (granted_exception approver reason expires_on kvs)))"
proof -
  have "expires_on \<noteq> []" using assms by (auto simp: date_fromisoformat_def split: if_splits)
  then show ?thesis using assms
    by (simp add: expire_one_def attribute_get_def dict_get_or_def granted_exception_def obj_get_put field_get_put py_or_def obj_get_Cons)
qed

lemma expire_queue:
  assumes "date_fromisoformat expires_on = Some expiry"
    and "queue' = dict_put ''findings'' (JList (pre @ JObj (granted_exception approver reason expires_on kvs) # post)) queue"
  shows "expire_exceptions day queue' =
     outcome_bind (map_outcome (expire_one day) pre) (\<lambda>bs. outcome_bind (map_outcome (expire_one day) post) (\<lambda>as.
       Inr (dict_put ''findings'' (JList (bs @ JObj ((if expiry \<le> day then reopened else id)
         (granted_exception approver reason expires_on kvs)) # as)) queue')))"
proof -
  have "obj_get ''findings'' queue' = Some (JList (pre @ JObj (granted_exception approver reason expires_on kvs) # post))"
    by (simp add: assms(2) obj_get_put)
  then show ?thesis
    by (cases "map_outcome (expire_one day) pre"; cases "map_outcome (expire_one day) post")
      (simp_all add: expire_exceptions_def dict_get_or_def iterate_def
        map_outcome_middle [where f = "expire_one day", OF expire_granted [OF assms(1)]])
qed

text \<open>
  C36. Exceptions are limited: an exception is granted only on an open finding, with an approver and a reason that are not blank and an
  expiry date after the current day; it records the three, gives the finding the accepted risk and changes no other finding. An expiry run
  over the whole queue, on any day, leaves the granted finding as it is before the expiry date and opens it again from that date on; the run
  fails only where another finding of the queue cannot be read.
\<close>

theorem exceptions_end:
  assumes "approve_exception today queue fid approver reason expires_on = Inr queue'"
  shows "\<exists>expiry before kvs after granted. py_strip approver \<noteq> [] \<and> py_strip reason \<noteq> []
    \<and> date_fromisoformat expires_on = Some expiry \<and> today < expiry
    \<and> dict_get ''finding_id'' kvs = JStr fid \<and> dict_get ''status'' kvs = JStr ''open''
    \<and> dict_get ''findings'' queue = JList (before @ JObj kvs # after)
    \<and> dict_get ''findings'' queue' = JList (before @ JObj granted # after)
    \<and> dict_get ''finding_id'' granted = JStr fid \<and> dict_get ''status'' granted = JStr ''accepted-risk''
    \<and> dict_get ''exception'' granted =
        JObj [(''approver'', JStr approver), (''reason'', JStr reason), (''expires_on'', JStr expires_on)]
    \<and> (\<forall>day. expire_exceptions day queue' =
          outcome_bind (map_outcome (expire_one day) before) (\<lambda>bs. outcome_bind (map_outcome (expire_one day) after) (\<lambda>as.
            Inr (dict_put ''findings'' (JList (bs @ JObj (if expiry \<le> day
              then dict_put ''exception_status'' (JStr ''expired'') (dict_put ''status'' (JStr ''open'') granted)
              else granted) # as)) queue'))))"
proof -
  obtain expiry v fs fs' where a: "date_fromisoformat expires_on = Some expiry" "today < expiry" "get_item ''findings'' queue = Inr v"
    "iterate v = Inr fs" "approve_first fid (granted_exception approver reason expires_on) fs = Inr fs'"
    "queue' = dict_put ''findings'' (JList fs') queue" and named: "py_strip approver \<noteq> []" "py_strip reason \<noteq> []"
    using assms by (auto simp: approve_exception_def outcome_simps not_le split: option.splits if_splits)
  obtain before kvs after where f: "fs = before @ JObj kvs # after"
    "fs' = before @ JObj (granted_exception approver reason expires_on kvs) # after"
    "dict_get ''finding_id'' kvs = JStr fid" "dict_get ''status'' kvs = JStr ''open''"
    using approve_first_result [OF a(5)] by blast
  have "JObj kvs \<in> set fs" by (simp add: f(1))
  then have "v = JList fs" using a(4) by (auto simp: iterate_def split: json.splits)
  then have "dict_get ''findings'' queue = JList fs" using a(3) by (auto simp: get_item_def dict_get_def split: option.splits)
  moreover have "dict_get ''findings'' queue' = JList fs'" by (simp add: a(6) field_get_put)
  moreover have "expire_exceptions day queue' =
      outcome_bind (map_outcome (expire_one day) before) (\<lambda>bs. outcome_bind (map_outcome (expire_one day) after) (\<lambda>as.
        Inr (dict_put ''findings'' (JList (bs @ JObj (if expiry \<le> day
          then dict_put ''exception_status'' (JStr ''expired'') (dict_put ''status'' (JStr ''open'') (granted_exception approver reason expires_on kvs))
          else granted_exception approver reason expires_on kvs) # as)) queue')))" for day
    using expire_queue [OF a(1) a(6) [unfolded f(2)], of day] by (simp add: reopened_def)
  ultimately show ?thesis using a(1,2) f named
    by (intro exI [of _ expiry] exI [of _ before] exI [of _ kvs] exI [of _ after]
        exI [of _ "granted_exception approver reason expires_on kvs"] conjI allI) (simp_all add: granted_exception_def field_get_put)
qed

section \<open>Tickets\<close>

definition open_finding :: "json \<Rightarrow> bool" where
  "open_finding v = (dict_get ''status'' (fields_of v) = JStr ''open'')"

definition review_due :: "json \<Rightarrow> bool" where
  "review_due v = (truthy (dict_get ''stale'' (fields_of v))
     \<and> (truthy (dict_get ''privileged'' (fields_of v)) \<or> truthy (dict_get ''enabled'' (fields_of v))))"

text \<open>A ticket for a source: open, never remediated automatically, with the due times of its priority.\<close>

definition ticket_for :: "int \<Rightarrow> json \<Rightarrow> (string \<times> json) list \<Rightarrow> bool" where
  "ticket_for created source t \<longleftrightarrow> dict_get ''source'' t = source \<and> dict_get ''status'' t = JStr ''open''
     \<and> dict_get ''auto_remediation'' t = JBool False
     \<and> (\<exists>s. source = JStr s \<and> dict_get ''ticket_id'' t = JStr (ticket_id s))
     \<and> (\<exists>priority minutes hours. dict_get ''priority'' t = JStr priority \<and> sla priority = Some (minutes, hours)
          \<and> dict_get ''response_due_at'' t = JStr (utc_text (created + seconds (minutes * 60)))
          \<and> dict_get ''resolution_due_at'' t = JStr (utc_text (created + seconds (hours * 3600)))
          \<and> created + seconds (hours * 3600) < time_end)"

lemma made_ticket: "make_ticket source title priority owner ref asset created = Inr t \<Longrightarrow> ticket_for created source t"
  by (auto simp: make_ticket_def ticket_for_def outcome_simps field_get_Cons source_ticket_id_def sla_item_def due_text_def Let_def
      split: json.splits option.splits if_splits)

lemma finding_ticket_result:
  "finding_ticket created f = Inr ts \<Longrightarrow>
     list_all2 (ticket_for created) (map (\<lambda>f. dict_get ''finding_id'' (fields_of f)) (filter open_finding [f])) ts"
  by (cases f) (auto simp: finding_ticket_def outcome_simps attribute_get_def subscript_def get_item_def open_finding_def fields_of_def
      dict_get_or_def dict_get_def split: option.splits if_splits dest!: made_ticket)

lemma account_ticket_result:
  assumes "account_ticket review created u = Inr ts"
  shows "list_all2 (ticket_for created)
    (map (\<lambda>u. JStr (account_source review (dict_get ''sam_account_name'' (fields_of u)))) (filter review_due [u])) ts"
proof -
  obtain kvs where u: "u = JObj kvs" using assms by (auto simp: account_ticket_def split: json.splits)
  show ?thesis using assms unfolding u
    by (auto simp: account_ticket_def account_review_def outcome_simps get_item_def review_due_def fields_of_def dict_get_def Let_def
        split: option.splits if_splits dest!: made_ticket)
qed

lemma concat_tickets:
  assumes "map_outcome f xs = Inr tss" "\<And>x ts. f x = Inr ts \<Longrightarrow> list_all2 P (map g (filter Q [x])) ts"
  shows "list_all2 P (map g (filter Q xs)) (concat tss)"
  using assms(1)
proof (induction xs arbitrary: tss)
  case (Cons x xs)
  then obtain ts rest where x: "f x = Inr ts" "map_outcome f xs = Inr rest" "tss = ts # rest" by (auto simp: outcome_simps)
  have "list_all2 P (map g (filter Q [x]) @ map g (filter Q xs)) (ts @ concat rest)"
    by (rule list_all2_appendI [OF assms(2) [OF x(1)] Cons.IH [OF x(2)]])
  then show ?case by (cases "Q x") (simp_all add: x(3))
qed simp

text \<open>
  C35. Open work gets tickets: the tickets of a run are, in this order, one for each open finding and one for each stale account that
  is privileged or enabled, and no other; each is open, asks for no automatic remediation, has an identifier that depends on its source alone
  and the due times of its priority.
\<close>

theorem open_work_gets_tickets:
  assumes "generate_tickets (JObj remediation) (JObj review) created = Inr r"
    and "dict_get_or ''findings'' (JList []) remediation = JList fs" and "dict_get_or ''users'' (JList []) review = JList us"
  shows "\<exists>tickets. dict_get ''tickets'' r = JList (map JObj tickets) \<and> list_all2 (ticket_for created)
    (map (\<lambda>f. dict_get ''finding_id'' (fields_of f)) (filter open_finding fs)
      @ map (\<lambda>u. JStr (account_source review (dict_get ''sam_account_name'' (fields_of u)))) (filter review_due us)) tickets"
proof -
  obtain controls accounts where t: "map_outcome (finding_ticket created) fs = Inr controls"
    "map_outcome (account_ticket review created) us = Inr accounts"
    "dict_get ''tickets'' r = JList (map JObj (concat controls @ concat accounts))"
    using assms by (auto simp: generate_tickets_def attribute_get_def iterate_def outcome_simps field_get_Cons)
  have "list_all2 (ticket_for created) (map (\<lambda>f. dict_get ''finding_id'' (fields_of f)) (filter open_finding fs)) (concat controls)"
    by (rule concat_tickets [OF t(1) finding_ticket_result])
  moreover have "list_all2 (ticket_for created)
      (map (\<lambda>u. JStr (account_source review (dict_get ''sam_account_name'' (fields_of u)))) (filter review_due us)) (concat accounts)"
    by (rule concat_tickets [OF t(2) account_ticket_result])
  ultimately show ?thesis using t(3) list_all2_appendI by blast
qed

end
