(* ===== verification/Pipeline_Properties.thy ===== *)
theory Pipeline_Properties
  imports Pipeline Remediation_Properties State_Properties
begin

text \<open>
  Properties of pipeline runs: whatever the sequence of runs, failed ones included, the ledger stays verifiable and holds at most one
  record of every input; an accepted run has its record in the ledger and is completed in the state; and a run that raises is marked as
  failed and can be claimed again.
\<close>

section \<open>Steps\<close>

definition keeps :: "('w \<Rightarrow> bool) \<Rightarrow> ('w, 'a) step \<Rightarrow> bool" where
  "keeps P m \<longleftrightarrow> (\<forall>w. P w \<longrightarrow> P (snd (m w)))"

lemma keepsD: "keeps P m \<Longrightarrow> m w = (r, w') \<Longrightarrow> P w \<Longrightarrow> P w'"
  unfolding keeps_def by (metis snd_conv)

lemma step_bind_Inr [outcome_simps]:
  "step_bind m f w = (Inr y, w') \<longleftrightarrow> (\<exists>x w1. m w = (Inr x, w1) \<and> f x w1 = (Inr y, w'))"
  by (auto simp: step_bind_def split: prod.splits sum.splits)

lemma pure_step_Inr [outcome_simps]: "pure_step r w = (Inr y, w') \<longleftrightarrow> r = Inr y \<and> w' = w"
  by (auto simp: pure_step_def)

lemma keeps_pure [intro]: "keeps P (pure_step r)"
  by (simp add: keeps_def pure_step_def)

lemma keeps_bind: "keeps P m \<Longrightarrow> (\<And>x w w'. m w = (Inr x, w') \<Longrightarrow> keeps P (f x)) \<Longrightarrow> keeps P (step_bind m f)"
  unfolding keeps_def step_bind_def by (force split: prod.splits sum.splits)

lemma keeps_bind_pure: "(\<And>x. r = Inr x \<Longrightarrow> keeps P (f x)) \<Longrightarrow> keeps P (step_bind (pure_step r) f)"
  by (rule keeps_bind) (auto simp: pure_step_def)

section \<open>Well-formed values\<close>

lemma wf_field: "json_wf (JObj kvs) \<Longrightarrow> get_item k kvs = Inr v \<Longrightarrow> json_wf v"
  using dict_get_wf [of kvs k] by (auto simp: get_item_def dict_get_def split: option.splits)

lemma results_wf:
  assumes "json_wf c" "json_wf (JObj p)" "evaluate_control c (JObj p) = Inr r"
  shows "json_wf (JObj r)"
proof -
  obtain kvs where c: "c = JObj kvs" using assms(3) by (auto simp: evaluate_control_def split: json.splits)
  have field: "json_wf observed" if "get_field v p = Inr observed" for v observed
    using that assms(2) by (auto simp: get_field_def dict_get_wf split: json.splits if_splits simp del: json_wf.simps(2))
  have check: "json_wf expected" if "control_check kvs v = Inr (expected, passed)" for v expected passed
    using that wf_field [OF assms(1) [unfolded c], of "''expected''"]
    by (auto simp: control_check_def outcome_simps get_item_def split: option.splits)
  have "evaluate_fields kvs p = Inr r" using assms(3) by (simp add: evaluate_control_def c)
  then show ?thesis
    unfolding evaluate_fields_def
    by (clarsimp simp: outcome_simps simp del: json_wf.simps) (simp add: wf_field [OF assms(1) [unfolded c]] field check)
qed

lemma key_put_values: "snd ` set (key_put k v d) \<subseteq> insert v (snd ` set d)"
  by (auto simp: key_put_def)

lemma index_values: "snd ` set (foldl (\<lambda>d (k, v). key_put k v d) d entries) \<subseteq> snd ` set d \<union> snd ` set entries"
proof (induction entries arbitrary: d)
  case (Cons e es)
  obtain k v where e: "e = (k, v)" by (cases e)
  show ?case using Cons.IH [of "key_put k v d"] key_put_values [of k v d] by (auto simp: e)
qed simp

lemma registered_asset_listed:
  assumes "registered_asset (JList assets) p = Inr a"
  shows "JObj a \<in> set assets"
proof -
  obtain entries where e: "map_outcome asset_entry assets = Inr entries"
    and found: "\<exists>k. (k, JObj a) \<in> set (foldl (\<lambda>d (k, v). key_put k v d) [] entries)"
    using assms
    by (auto simp: registered_asset_def index_assets_def iterate_def key_get_def outcome_simps find_Some_iff
        split: if_splits option.splits json.splits dest!: nth_mem) (metis prod.collapse)
  have "map snd entries = map id assets"
    by (rule map_outcome_map [OF e]) (auto simp: asset_entry_def outcome_simps)
  then have "snd ` set entries = set assets" by (metis list.set_map map_idI id_apply)
  then show ?thesis using found index_values [of "[]" entries] by force
qed

section \<open>One record of every input\<close>

definition recorded_inputs :: "string option \<Rightarrow> string list" where
  "recorded_inputs ledger =
     concat (map (\<lambda>l. case dict_get ''input_hash'' (line_fields l) of JStr h \<Rightarrow> [h] | _ \<Rightarrow> []) (ledger_lines ledger))"

definition ledger_once :: "string option \<Rightarrow> bool" where
  "ledger_once ledger \<longleftrightarrow> ledger_sound ledger \<and> distinct (recorded_inputs ledger)"

lemma unrecorded:
  assumes "ledger_sound ledger" "find_ledger_record ledger h = Inr None"
  shows "h \<notin> set (recorded_inputs ledger)"
proof (cases ledger)
  case None
  then show ?thesis by (simp add: recorded_inputs_def ledger_lines_def ledger_text_def py_splitlines_def)
next
  case (Some s)
  then show ?thesis
    using find_ledger_lines [of s h] ledger_sound_verified [OF assms(1)] assms(2)
    by (auto simp: recorded_inputs_def find_None_iff split: json.splits)
qed

lemma recorded:
  assumes "ledger_sound ledger" "find_ledger_record ledger h = Inr (Some r)"
  shows "h \<in> set (recorded_inputs ledger)"
proof (cases ledger)
  case (Some s)
  then show ?thesis
    using find_ledger_lines [of s h] ledger_sound_verified [OF assms(1)] assms(2)
    by (auto simp: recorded_inputs_def find_Some_iff split: json.splits) (metis nth_mem)
qed (use assms(2) in \<open>simp add: find_ledger_record_def\<close>)

lemma extra_field: "obj_get ''input_hash'' (build_evidence recorded posture results previous
    (Some [(''input_hash'', JStr h), (''pipeline_run_id'', JStr rid)])) = Some (JStr h)"
  by (simp add: build_evidence_def evidence_body_def dict_update_def obj_get_put obj_get_Cons Let_def)

text \<open>The step that records the input.\<close>

lemma canon_text:
  assumes "json_wf (JObj e)" "obj_get k e = Some (JStr v)"
  shows "obj_get k (sort_key fst (map canon_pair e)) = Some (JStr v)"
  using map_of_canon [of e k] assms by simp

lemma record_step:
  assumes "ledger_once (pw_ledger w)" "json_wf (JObj posture)" "list_all (\<lambda>r. json_wf (JObj r)) results"
    and "ledger_record env h posture results w = (Inr r, w')"
  shows "ledger_once (pw_ledger w')" and "\<exists>r'. find_ledger_record (pw_ledger w') h = Inr (Some r')
    \<and> dict_get ''record_hash'' r' = dict_get ''record_hash'' r"
proof -
  have sound: "ledger_sound (pw_ledger w)" using assms(1) by (simp add: ledger_once_def)
  obtain found where found: "find_ledger_record (pw_ledger w) h = Inr found"
    using assms(4) by (auto simp: ledger_record_def split: sum.splits)
  have "ledger_once (pw_ledger w') \<and> (\<exists>r'. find_ledger_record (pw_ledger w') h = Inr (Some r')
    \<and> dict_get ''record_hash'' r' = dict_get ''record_hash'' r)"
  proof (cases found)
    case (Some r')
    then show ?thesis using assms(1,4) found by (auto simp: ledger_record_def)
  next
    case None
    let ?extra = "Some [(''input_hash'', JStr h), (''pipeline_run_id'', JStr (run_name h))]"
    obtain ledger' where run: "append_evidence_atomic (re_recorded env) posture results ?extra (pw_ledger w) = (Inr r, ledger')"
      and w': "pw_ledger w' = ledger'"
      using assms(4) found None by (auto simp: ledger_record_def split: prod.splits)
    have clean: "clean_evidence (re_recorded env, posture, results, ?extra)" using assms(2,3) by simp
    note keep = append_keeps_ledger [OF sound clean run]
    have r: "r = next_evidence (re_recorded env) posture results ?extra (pw_ledger w)" using keep(1) by simp
    note new = new_line [OF ledger_sound_verified [OF sound] clean, folded r]
    have h: "obj_get ''input_hash'' r = Some (JStr h)" unfolding r next_evidence_def by (rule extra_field)
    have fields: "line_fields (ledger_json (JObj r)) = sort_key fst (map canon_pair r)"
      using new(2) by (simp add: line_fields_def json_canon_obj del: json_canon.simps)
    have "dict_get ''input_hash'' (line_fields (ledger_json (JObj r))) = JStr h"
      using canon_text [OF new(3) h] by (simp add: fields dict_get_def)
    then have "recorded_inputs ledger' = recorded_inputs (pw_ledger w) @ [h]" using keep(3) r by (simp add: recorded_inputs_def)
    then have once: "ledger_once ledger'"
      using keep(2) assms(1) unrecorded [OF sound found [unfolded None]] by (simp add: ledger_once_def)
    obtain r' where r': "find_ledger_record ledger' h = Inr (Some r')" "JObj r' = json_canon (JObj r)"
      using appended_evidence_is_found [OF sound clean run h] found None by auto
    have "r' = sort_key fst (map canon_pair r)" using r'(2) by (simp add: json_canon_obj del: json_canon.simps)
    then have "dict_get ''record_hash'' r' = dict_get ''record_hash'' r"
      using canon_text [OF new(3) new(4)] new(4) by (simp add: dict_get_def)
    then show ?thesis using once r'(1) w' by blast
  qed
  then show "ledger_once (pw_ledger w')" "\<exists>r'. find_ledger_record (pw_ledger w') h = Inr (Some r')
    \<and> dict_get ''record_hash'' r' = dict_get ''record_hash'' r" by blast+
qed

lemma record_failure: "ledger_record env h posture results w = (Inl e, w') \<Longrightarrow> pw_ledger w' = pw_ledger w"
  by (auto simp: ledger_record_def append_evidence_atomic_def Let_def transact_def split: sum.splits option.splits prod.splits)

section \<open>What the other steps leave alone\<close>

lemma other_steps:
  "enter_queue env paths queue w = (r, w') \<Longrightarrow> pw_ledger w' = pw_ledger w \<and> pw_state w' = pw_state w"
  "write_json fs path value root io w = (s, w') \<Longrightarrow> pw_ledger w' = pw_ledger w \<and> pw_state w' = pw_state w"
  "complete_run env h v paths w = (t, w') \<Longrightarrow> pw_ledger w' = pw_ledger w"
  "audit_completion env rid aid v n paths w = (u, w') \<Longrightarrow> pw_ledger w' = pw_ledger w \<and> pw_state w' = pw_state w"
  "ledger_record env h posture results w = (x, w') \<Longrightarrow> pw_state w' = pw_state w"
  by (auto simp: enter_queue_def write_json_def complete_run_def audit_completion_def ledger_record_def
      split: if_splits prod.splits sum.splits option.splits)

abbreviation keeps_ledger :: "(pipeline_world, 'a) step \<Rightarrow> bool" where
  "keeps_ledger m \<equiv> keeps (\<lambda>w. ledger_once (pw_ledger w)) m"

lemma keeps_ledger_others [intro]:
  "keeps_ledger (enter_queue env paths queue)" "keeps_ledger (write_json fs path value root io)"
  "keeps_ledger (complete_run env h v paths)" "keeps_ledger (audit_completion env rid aid v n paths)"
  unfolding keeps_def using other_steps by (metis surjective_pairing)+

lemma keeps_ledger_record:
  assumes "json_wf (JObj posture)" "list_all (\<lambda>r. json_wf (JObj r)) results"
  shows "keeps_ledger (ledger_record env h posture results)"
  unfolding keeps_def
proof (intro allI impI)
  fix w :: pipeline_world
  assume "ledger_once (pw_ledger w)"
  then show "ledger_once (pw_ledger (snd (ledger_record env h posture results w)))"
    using record_step(1) [OF _ assms] record_failure
    by (cases "ledger_record env h posture results w"; cases "fst (ledger_record env h posture results w)") fastforce+
qed

lemma evaluated_wf:
  assumes "list_all json_wf controls" "json_wf (JObj p)" "map_outcome (\<lambda>c. evaluate_control c (JObj p)) controls = Inr results"
  shows "list_all (\<lambda>r. json_wf (JObj r)) results"
  using assms(1,3) by (induction controls arbitrary: results) (auto simp: outcome_simps results_wf [OF _ assms(2)] simp del: json_wf.simps)

lemma run_results_wf:
  assumes "json_wf (JObj posture)" "list_all json_wf controls" "list_all json_wf assets"
    and "registered_asset (JList assets) posture = Inr asset" "get_item ''criticality'' asset = Inr criticality"
    and "outcome_bind (iterate (JList controls))
       (map_outcome (\<lambda>c. evaluate_control c (JObj (dict_put ''criticality'' criticality posture)))) = Inr results"
  shows "list_all (\<lambda>r. json_wf (JObj r)) results"
proof -
  have "json_wf (JObj asset)" using registered_asset_listed [OF assms(4)] assms(3) by (simp add: list_all_iff del: json_wf.simps)
  then have "json_wf criticality" using wf_field assms(5) by blast
  then have p: "json_wf (JObj (dict_put ''criticality'' criticality posture))" using json_wf_dict_put assms(1) by blast
  show ?thesis by (rule evaluated_wf [OF assms(2) p]) (use assms(6) in \<open>simp add: iterate_def\<close>)
qed

lemma execute_keeps_ledger:
  assumes "json_wf (JObj posture)" "list_all json_wf controls" "list_all json_wf assets"
  shows "keeps_ledger (execute_pipeline fs env posture (JList controls) (JList assets) review included h paths)"
  unfolding execute_pipeline_def
  by (rule keeps_bind_pure, rule keeps_bind_pure, rule keeps_bind_pure,
      (intro keeps_bind keeps_pure keeps_ledger_others keeps_ledger_record assms(1); rule run_results_wf [OF assms]; assumption))

lemma run_keeps_ledger:
  assumes "json_wf posture" "json_wf controls" "json_wf assets"
  shows "keeps_ledger (run_pipeline fs getenv a env posture controls assets access_review)"
  unfolding keeps_def
proof (intro allI impI)
  fix w :: pipeline_world
  assume once: "ledger_once (pw_ledger w)"
  let ?m = "outcome_bind (configured_governance_database getenv (pa_governance a)) (\<lambda>governance.
           outcome_bind (resolve_pipeline_paths fs a governance) (\<lambda>paths.
           outcome_bind (validate_pipeline_inputs posture controls assets) (\<lambda>_. Inr paths)))"
  show "ledger_once (pw_ledger (snd (run_pipeline fs getenv a env posture controls assets access_review w)))"
  proof (cases ?m)
    case (Inr paths)
    then have "validate_pipeline_inputs posture controls assets = Inr ()" by (auto simp: outcome_simps)
    then obtain p cs rows where v: "posture = JObj p" "controls = JList cs" "assets = JList rows"
      by (auto simp: validate_pipeline_inputs_def split: json.splits if_splits)
    have keep: "keeps_ledger (execute_pipeline fs env p (JList cs) (JList rows) review included h paths)" for review included h
      by (rule execute_keeps_ledger) (use assms v in simp_all)
    then show ?thesis using Inr once keepsD [OF keep]
      by (simp add: run_pipeline_def claimed_run_def v fields_of_def Let_def split: prod.split bool.split sum.split)
  qed (use once in \<open>simp add: run_pipeline_def\<close>)
qed

section \<open>Sequences of runs\<close>

type_synonym pipeline_call = "pipeline_args \<times> run_env \<times> json \<times> json \<times> json \<times> json"

fun run_all :: "filesystem \<Rightarrow> (string \<Rightarrow> string option) \<Rightarrow> pipeline_call list \<Rightarrow> pipeline_world \<Rightarrow> pipeline_world" where
  "run_all fs getenv [] w = w"
| "run_all fs getenv ((a, env, posture, controls, assets, review) # calls) w =
     run_all fs getenv calls (snd (run_pipeline fs getenv a env posture controls assets review w))"

fun wf_call :: "pipeline_call \<Rightarrow> bool" where
  "wf_call (a, env, posture, controls, assets, review) \<longleftrightarrow> json_wf posture \<and> json_wf controls \<and> json_wf assets"


section \<open>Accepted runs\<close>

lemma found_hash:
  assumes "ledger_sound ledger" "find_ledger_record ledger h = Inr (Some r)"
  shows "\<exists>x. dict_get ''record_hash'' r = JStr x"
proof (cases ledger)
  case (Some s)
  have chain: "chained compact_ascii ''record_hash'' genesis_hash (ledger_lines (Some s))"
    using ledger_chained [OF ledger_sound_verified [OF assms(1)]] Some by simp
  obtain l where l: "l \<in> set (ledger_lines (Some s))" "r = line_fields l"
    using find_ledger_lines [of s h] ledger_sound_verified [OF assms(1)] assms(2) Some
    by (auto simp: find_Some_iff dest: nth_mem)
  have "chained compact_ascii ''record_hash'' p ls \<Longrightarrow> l \<in> set ls \<Longrightarrow> \<exists>x. dict_get ''record_hash'' (line_fields l) = JStr x" for p ls
  proof (induction ls arbitrary: p)
    case (Cons y ys)
    show ?case by (rule el.chained_step [OF Cons.prems(1)]) (use Cons in \<open>auto simp: dict_get_def\<close>)
  qed simp
  then show ?thesis using chain l by blast
qed (use assms(2) in \<open>simp add: find_ledger_record_def\<close>)

lemma complete_step: "complete_run env h v paths w = (Inr u, w') \<Longrightarrow> \<exists>x. sql_text v = Inr x \<and> pw_state w' =
    complete_pipeline_run h x (pt_remediation paths) (pt_tickets paths) (pt_report paths) (re_completed env) (pw_state w)"
  by (auto simp: complete_run_def split: sum.splits)

lemma execute_result:
  assumes "execute_pipeline fs env posture controls assets review included h paths w = (Inr r, w')"
  obtains asset criticality results evidence w1 w2 v failed tickets where
    "registered_asset assets posture = Inr asset" "get_item ''criticality'' asset = Inr criticality"
    "outcome_bind (iterate controls)
       (map_outcome (\<lambda>c. evaluate_control c (JObj (dict_put ''criticality'' criticality posture)))) = Inr results"
    "ledger_record env h posture results w1 = (Inr evidence, w2)" "pw_ledger w1 = pw_ledger w" "pw_ledger w' = pw_ledger w2"
    "pw_state w' = complete_pipeline_run h v (pt_remediation paths) (pt_tickets paths) (pt_report paths) (re_completed env) (pw_state w)"
    "sql_text (dict_get ''record_hash'' evidence) = Inr v"
    "r = accepted_result h (dict_get ''record_hash'' evidence) paths failed tickets"
proof -
  obtain asset criticality results queue u1 w1 evidence w2 tickets p1 w3 p2 w4 report p3 w5 u2 w6 u3 where s:
    "registered_asset assets posture = Inr asset" "get_item ''criticality'' asset = Inr criticality"
    "outcome_bind (iterate controls)
       (map_outcome (\<lambda>c. evaluate_control c (JObj (dict_put ''criticality'' criticality posture)))) = Inr results"
    and steps: "enter_queue env paths queue w = (Inr u1, w1)" "ledger_record env h posture results w1 = (Inr evidence, w2)"
      "write_json fs (pt_remediation paths) queue (pt_root paths) (re_remediation env) w2 = (Inr p1, w3)"
      "write_json fs (pt_tickets paths) tickets (pt_root paths) (re_tickets env) w3 = (Inr p2, w4)"
      "write_json fs (pt_report paths) report (pt_root paths) (re_report env) w4 = (Inr p3, w5)"
      "complete_run env h (dict_get ''record_hash'' evidence) paths w5 = (Inr u2, w6)"
      "audit_completion env (run_name h) (dict_get ''asset_id'' asset) (dict_get ''record_hash'' evidence)
         (ticket_count tickets) paths w6 = (Inr u3, w')"
    and r: "r = accepted_result h (dict_get ''record_hash'' evidence) paths (length (failed_results results)) (ticket_count tickets)"
    using assms unfolding execute_pipeline_def step_bind_Inr pure_step_Inr sum.inject by blast
  obtain v where v: "sql_text (dict_get ''record_hash'' evidence) = Inr v" and w6: "pw_state w6 =
      complete_pipeline_run h v (pt_remediation paths) (pt_tickets paths) (pt_report paths) (re_completed env) (pw_state w5)"
    using complete_step [OF steps(6)] by blast
  note frame = other_steps(1) [OF steps(1)] other_steps(5) [OF steps(2)] other_steps(2) [OF steps(3)] other_steps(2) [OF steps(4)]
    other_steps(2) [OF steps(5)] other_steps(3) [OF steps(6)] other_steps(4) [OF steps(7)]
  show thesis by (rule that [OF s steps(2) _ _ _ v r]) (use frame w6 in simp_all)
qed

lemma claimed_row: "claim_pipeline_run h now l db = (True, db') \<Longrightarrow> \<exists>row. get_pipeline_run h db' = Some row"
  by (auto simp: claim_pipeline_run_def Let_def get_run_update split: option.splits if_splits)
    (auto simp: get_pipeline_run_def find_append new_run_def)

definition prepared ::
    "filesystem \<Rightarrow> (string \<Rightarrow> string option) \<Rightarrow> pipeline_args \<Rightarrow> json \<Rightarrow> json \<Rightarrow> json \<Rightarrow> pipeline_paths outcome" where
  "prepared fs getenv a posture controls assets =
     outcome_bind (configured_governance_database getenv (pa_governance a)) (\<lambda>governance.
     outcome_bind (resolve_pipeline_paths fs a governance) (\<lambda>paths.
     outcome_bind (validate_pipeline_inputs posture controls assets) (\<lambda>_. Inr paths)))"

lemma run_prepared:
  "run_pipeline fs getenv a env posture controls assets access_review w =
     (case prepared fs getenv a posture controls assets of
        Inl e \<Rightarrow> (Inl e, w)
      | Inr paths \<Rightarrow> claimed_run fs env (fields_of posture) controls assets access_review (pa_lease_seconds a) paths w)"
  by (simp add: run_pipeline_def prepared_def)

lemma prepared_inputs:
  assumes "prepared fs getenv a posture controls assets = Inr paths"
  obtains p cs rows where "posture = JObj p" "controls = JList cs" "assets = JList rows"
  using assms by (auto simp: prepared_def outcome_simps validate_pipeline_inputs_def split: json.splits if_splits)

text \<open>The hash of the inputs of a run.\<close>

definition run_hash :: "json \<Rightarrow> json \<Rightarrow> json \<Rightarrow> json \<Rightarrow> string" where
  "run_hash posture controls assets access_review = input_hash (JObj (fields_of posture)) controls assets (effective_review access_review)"

lemma accepted_run:
  assumes "run_pipeline fs getenv a env posture controls assets access_review w = (Inr r, w')"
    and "dict_get ''status'' r = JStr ''accepted''"
  obtains paths db where "prepared fs getenv a posture controls assets = Inr paths"
    "claim_pipeline_run (run_hash posture controls assets access_review) (re_claimed env) (pa_lease_seconds a) (pw_state w) = (True, db)"
    "execute_pipeline fs env (fields_of posture) controls assets (effective_review access_review) (truthy access_review)
       (run_hash posture controls assets access_review) paths (w\<lparr>pw_state := db\<rparr>) = (Inr r, w')"
proof -
  obtain paths where p: "prepared fs getenv a posture controls assets = Inr paths"
    using assms(1) by (auto simp: run_prepared split: sum.splits)
  obtain c db where c: "claim_pipeline_run (run_hash posture controls assets access_review) (re_claimed env) (pa_lease_seconds a) (pw_state w) = (c, db)"
    by fastforce
  have "dict_get ''status'' (duplicate_result h paths db') \<noteq> JStr ''accepted''" for h db'
    by (simp add: duplicate_result_def Let_def field_get_Cons)
  then have "c" using assms p c
    by (cases c) (auto simp: run_prepared claimed_run_def run_hash_def [symmetric] Let_def split: prod.splits)
  then show thesis
    using assms(1) p c by (intro that [of paths db])
      (auto simp: run_prepared claimed_run_def run_hash_def [symmetric] Let_def split: prod.splits sum.splits)
qed

lemma accepted_run_facts:
  assumes "run_pipeline fs getenv a env posture controls assets access_review w = (Inr r, w')"
    and "dict_get ''status'' r = JStr ''accepted''" and "ledger_once (pw_ledger w)"
    and "json_wf posture" "json_wf controls" "json_wf assets"
  shows "\<exists>row evidence. get_pipeline_run (run_hash posture controls assets access_review) (pw_state w') = Some row
    \<and> pr_status row = RunCompleted
    \<and> find_ledger_record (pw_ledger w') (run_hash posture controls assets access_review) = Inr (Some evidence)
    \<and> dict_get ''record_hash'' evidence = JStr (pr_ledger row) \<and> dict_get ''ledger_record_hash'' r = JStr (pr_ledger row)
    \<and> (\<exists>paths. prepared fs getenv a posture controls assets = Inr paths)"
proof -
  let ?h = "run_hash posture controls assets access_review"
  obtain paths db where run: "prepared fs getenv a posture controls assets = Inr paths"
    "claim_pipeline_run ?h (re_claimed env) (pa_lease_seconds a) (pw_state w) = (True, db)"
    "execute_pipeline fs env (fields_of posture) controls assets (effective_review access_review) (truthy access_review)
       ?h paths (w\<lparr>pw_state := db\<rparr>) = (Inr r, w')" by (rule accepted_run [OF assms(1,2)])
  obtain p cs rows where v: "posture = JObj p" "controls = JList cs" "assets = JList rows" by (rule prepared_inputs [OF run(1)])
  obtain asset criticality results evidence w1 w2 x failed tickets where e:
    "registered_asset assets (fields_of posture) = Inr asset" "get_item ''criticality'' asset = Inr criticality"
    "outcome_bind (iterate controls)
       (map_outcome (\<lambda>c. evaluate_control c (JObj (dict_put ''criticality'' criticality (fields_of posture))))) = Inr results"
    "ledger_record env ?h (fields_of posture) results w1 = (Inr evidence, w2)" "pw_ledger w1 = pw_ledger (w\<lparr>pw_state := db\<rparr>)"
    "pw_ledger w' = pw_ledger w2"
    "pw_state w' = complete_pipeline_run ?h x (pt_remediation paths) (pt_tickets paths) (pt_report paths) (re_completed env)
       (pw_state (w\<lparr>pw_state := db\<rparr>))" "sql_text (dict_get ''record_hash'' evidence) = Inr x"
    "r = accepted_result ?h (dict_get ''record_hash'' evidence) paths failed tickets"
    by (rule execute_result [OF run(3)])
  have wf: "json_wf (JObj p)" "list_all json_wf cs" "list_all json_wf rows" using assms(4-6) by (simp_all add: v)
  have results: "list_all (\<lambda>r. json_wf (JObj r)) results"
    by (rule run_results_wf [OF wf]) (use e(1-3) in \<open>simp_all add: v fields_of_def\<close>)
  have once: "ledger_once (pw_ledger w1)" using assms(3) e(5) by simp
  note rec = record_step [OF once _ results e(4)]
  have pw: "json_wf (JObj (fields_of posture))" using wf(1) by (simp add: v fields_of_def)
  obtain evidence' where found: "find_ledger_record (pw_ledger w') ?h = Inr (Some evidence')"
    "dict_get ''record_hash'' evidence' = dict_get ''record_hash'' evidence" using rec(2) [OF pw] e(6) by auto
  have sound: "ledger_sound (pw_ledger w')" using rec(1) [OF pw] e(6) by (simp add: ledger_once_def)
  have x: "dict_get ''record_hash'' evidence = JStr x" using found_hash [OF sound found(1)] found(2) e(8) by auto
  obtain row where row: "get_pipeline_run ?h db = Some row" using claimed_row [OF run(2)] by blast
  have completed: "get_pipeline_run ?h (pw_state w') = Some (row\<lparr>pr_status := RunCompleted, pr_ledger := x, pr_remediation := pt_remediation paths,
      pr_tickets := pt_tickets paths, pr_report := pt_report paths, pr_processed := re_completed env, pr_error := None, pr_lease_until := 0\<rparr>)"
    using row by (simp add: e(7) complete_pipeline_run_def get_run_update)
  show ?thesis
    using completed found x run(1) by (intro exI conjI) (auto simp: e(9) accepted_result_def field_get_Cons)
qed

section \<open>Failed runs\<close>

abbreviation keeps_run :: "string \<Rightarrow> (pipeline_world, 'a) step \<Rightarrow> bool" where
  "keeps_run h m \<equiv> keeps (\<lambda>w. get_pipeline_run h (pw_state w) \<noteq> None) m"

lemma keeps_run_steps:
  "keeps_run h (enter_queue env paths queue)" "keeps_run h (write_json fs path value root io)"
  "keeps_run h (audit_completion env rid aid v n paths)" "keeps_run h (ledger_record env h' posture results)"
  "keeps_run h (complete_run env h' v paths)"
proof -
  show "keeps_run h (enter_queue env paths queue)" "keeps_run h (write_json fs path value root io)"
    "keeps_run h (audit_completion env rid aid v n paths)" "keeps_run h (ledger_record env h' posture results)"
    unfolding keeps_def using other_steps by (metis surjective_pairing)+
qed (auto simp: keeps_def complete_run_def complete_pipeline_run_def get_run_update split: sum.splits)

lemma keeps_row: "keeps_run h (execute_pipeline fs env posture controls assets review included h' paths)"
  unfolding execute_pipeline_def by (intro keeps_bind keeps_pure keeps_run_steps)

text \<open>
  C39. Failed runs can be retried: a run that raises either changed nothing, because its settings or inputs were refused, or left
  its input marked as failed with the first 2,000 characters of the message, and then the next claim of the input is granted at any time.
\<close>

theorem failed_runs_can_be_retried:
  assumes "run_pipeline fs getenv a env posture controls assets access_review w = (Inl e, w')"
  shows "w' = w \<or> (\<exists>row. get_pipeline_run (run_hash posture controls assets access_review) (pw_state w') = Some row
    \<and> pr_status row = RunFailed \<and> pr_error row = Some (take 2000 (message_text (re_message env) e))
    \<and> (\<forall>now lease. fst (claim_pipeline_run (run_hash posture controls assets access_review) now lease (pw_state w'))))"
proof (cases "prepared fs getenv a posture controls assets")
  case (Inl e')
  then show ?thesis using assms by (simp add: run_prepared)
next
  case (Inr paths)
  let ?h = "run_hash posture controls assets access_review"
  let ?run = "execute_pipeline fs env (fields_of posture) controls assets (effective_review access_review) (truthy access_review) ?h paths"
  obtain db w1 where run: "claim_pipeline_run ?h (re_claimed env) (pa_lease_seconds a) (pw_state w) = (True, db)"
    "?run (w\<lparr>pw_state := db\<rparr>) = (Inl e, w1)"
    "w' = w1\<lparr>pw_state := fail_pipeline_run ?h (message_text (re_message env) e) (re_failed env) (pw_state w1)\<rparr>"
    using assms Inr
    by (auto simp: run_prepared claimed_run_def run_hash_def [symmetric] Let_def split: prod.splits bool.splits sum.splits)
  have "get_pipeline_run ?h (pw_state w1) \<noteq> None"
    by (rule keepsD [OF keeps_row run(2)]) (use claimed_row [OF run(1)] in auto)
  then obtain row where row: "get_pipeline_run ?h (pw_state w1) = Some row" by blast
  then show ?thesis by (simp add: run(3) fail_pipeline_run_def get_run_update claim_pipeline_run_def Let_def)
qed

end
