(* ===== verification/Worker_Progress.thy ===== *)
theory Worker_Progress
  imports Pipeline_Worker Job_Properties
begin

text \<open>
  A worker pass ends: every job it claims is completed, dead or retried one time less, unless its lease was lost. The rows of the queue
  are compared row by row before and after a job; the potential of a row is the number of attempts it has left.
\<close>

section \<open>Rows before and after\<close>

definition rows_related :: "(job \<Rightarrow> job \<Rightarrow> bool) \<Rightarrow> nat \<Rightarrow> job list \<Rightarrow> job list \<Rightarrow> bool" where
  "rows_related P k = list_all2 (\<lambda>x y. jb_id y = jb_id x \<and> (if jb_id x = k then P x y else y = x))"

lemma related_ids: "rows_related P k t t' \<Longrightarrow> map jb_id t' = map jb_id t"
  unfolding rows_related_def by (induction rule: list_all2_induct) auto

lemma related_trans:
  assumes "rows_related P k t t1" "rows_related Q k t1 t2" "\<And>x y z. P x y \<Longrightarrow> Q y z \<Longrightarrow> R x z"
  shows "rows_related R k t t2"
  using assms(1,2) unfolding rows_related_def by (rule list_all2_trans [rotated]) (use assms(3) in \<open>auto split: if_splits\<close>)

lemma related_mono: "rows_related P k t t' \<Longrightarrow> (\<And>x y. P x y \<Longrightarrow> Q x y) \<Longrightarrow> rows_related Q k t t'"
  unfolding rows_related_def by (erule list_all2_mono) auto

lemma related_refl: "(\<And>x. x \<in> set t \<Longrightarrow> jb_id x = k \<Longrightarrow> P x x) \<Longrightarrow> rows_related P k t t"
  unfolding rows_related_def by (rule list.rel_refl_strong) auto

lemma related_update:
  assumes "\<And>x. jb_id (f x) = jb_id x" "\<And>x. x \<in> set t \<Longrightarrow> jb_id x = k \<Longrightarrow> g x \<Longrightarrow> P x (f x)" "\<And>x. x \<in> set t \<Longrightarrow> jb_id x = k \<Longrightarrow> \<not> g x \<Longrightarrow> P x x"
  shows "rows_related P k t (update_where (\<lambda>x. jb_id x = k \<and> g x) f t)"
  using assms(2,3) unfolding rows_related_def
  by (induction t) (auto simp: assms(1))

lemma one_row:
  assumes "rowcount (\<lambda>x. jb_id x = k \<and> g x) t = 1" "distinct (map jb_id t)" "x \<in> set t" "jb_id x = k"
  shows "g x"
proof -
  have "\<exists>y \<in> set t. jb_id y = k \<and> g y" using assms(1) rowcount_zero [of "\<lambda>x. jb_id x = k \<and> g x" t] by auto
  then show ?thesis using key_unique [OF assms(2)] assms(3,4) by metis
qed

section \<open>The operations of the queue\<close>

definition same_progress :: "job \<Rightarrow> job \<Rightarrow> bool" where
  "same_progress x y \<longleftrightarrow> jb_status y = jb_status x \<and> jb_attempts y = jb_attempts x"

lemma same_progress_trans: "same_progress x y \<Longrightarrow> same_progress y z \<Longrightarrow> same_progress x z"
  by (simp add: same_progress_def)

definition settled_row :: "int \<Rightarrow> job \<Rightarrow> job \<Rightarrow> bool" where
  "settled_row limit x y \<longleftrightarrow> jb_attempts y = jb_attempts x \<and> jb_status x = Running
     \<and> (jb_status y = Completed \<or> jb_status y = Dead \<or> (jb_status y = Pending \<and> int (jb_attempts y) < limit))"

lemma renew_progress: "renew_job k worker lease now t = (r, t') \<Longrightarrow> rows_related same_progress k t t'"
  by (auto simp: renew_job_def update_row_def same_progress_def job_extend_def split: if_splits
      intro!: related_refl related_update)

lemma heartbeats_progress: "heartbeats k worker lease bs t = (lost, t') \<Longrightarrow> rows_related same_progress k t t'"
proof (induction k worker lease bs t arbitrary: lost t' rule: heartbeats.induct)
  case (3 jid worker lease now bs t)
  obtain r t1 where run: "renew_job jid worker lease now t = (r, t1)" by fastforce
  note first = renew_progress [OF run]
  show ?case
  proof (cases "r = Inr True")
    case True
    have "rows_related same_progress jid t1 t'" using "3.IH" [OF run [symmetric] True] "3.prems" run True by simp
    then show ?thesis by (rule related_trans [OF first _ same_progress_trans])
  next
    case False
    then have "t' = t1" using "3.prems" run by (auto split: sum.splits bool.splits)
    then show ?thesis using first by simp
  qed
qed (auto simp: same_progress_def intro!: related_refl)

lemma accepted_update:
  assumes "update_row jb_id k g f t = (True, t')" "distinct (map jb_id t)" "\<And>x. jb_id (f x) = jb_id x" "\<And>x. g x \<Longrightarrow> P x (f x)"
  shows "rows_related P k t t'"
proof -
  have u: "rowcount (\<lambda>x. jb_id x = k \<and> g x) t = 1" "t' = update_where (\<lambda>x. jb_id x = k \<and> g x) f t"
    using assms(1) by (simp_all add: update_row_def)
  show ?thesis unfolding u(2)
  proof (rule related_update)
    fix x assume "x \<in> set t" "jb_id x = k" "\<not> g x"
    then show "P x x" using one_row [OF u(1) assms(2)] by blast
  qed (use assms(3,4) in auto)
qed

lemma complete_progress:
  assumes "complete_job k worker now t = (r, t')" "distinct (map jb_id t)"
  shows "if r = Inr True then rows_related (settled_row limit) k t t' else t' = t"
proof (cases "py_strip worker = []")
  case False
  obtain ok t1 where u: "update_row jb_id k (job_held worker now) job_complete t = (ok, t1)" by fastforce
  then have r: "r = Inr ok" "t' = t1" using assms(1) False by (simp_all add: complete_job_def)
  show ?thesis
  proof (cases ok)
    case True
    have "rows_related (settled_row limit) k t t1"
      by (rule accepted_update [OF _ assms(2), of k "job_held worker now" job_complete])
        (use u True in \<open>simp_all add: settled_row_def job_complete_def job_held_def\<close>)
    then show ?thesis using r True by simp
  next
    case False
    then show ?thesis using r update_row_refused [OF assms(2), of k "job_held worker now" job_complete t1] u by simp
  qed
qed (use assms(1) in \<open>auto simp: complete_job_def\<close>)

lemma fail_progress:
  assumes "fail_job k worker m limit delay now t = (r, t')" "distinct (map jb_id t)"
  shows "t' = t \<and> (r = Inr ''lease_lost'' \<or> (\<exists>e. r = Inl e)) \<or> rows_related (settled_row limit) k t t'"
proof -
  obtain ok t1 where u: "update_row jb_id k (job_held worker now) (job_retry limit delay m now) t = (ok, t1)" by fastforce
  have step: "settled_row limit x (job_retry limit delay m now x)" if "job_held worker now x" for x
    using that by (simp add: settled_row_def job_retry_def job_held_def retry_status_def Let_def)
  show ?thesis
  proof (cases ok)
    case True
    have "rows_related (settled_row limit) k t t1"
      by (rule accepted_update [OF _ assms(2), of k "job_held worker now" "job_retry limit delay m now"])
        (use u True step in \<open>simp_all add: job_retry_def Let_def\<close>)
    then show ?thesis using assms(1) u by (auto simp: fail_job_def split: if_splits option.splits)
  next
    case False
    then have "t1 = t" using u update_row_refused [OF assms(2), of k "job_held worker now" "job_retry limit delay m now" t1] False by simp
    then show ?thesis using assms(1) u False by (auto simp: fail_job_def split: if_splits option.splits)
  qed
qed

definition claimed_row :: "job \<Rightarrow> job \<Rightarrow> bool" where
  "claimed_row x y \<longleftrightarrow> jb_attempts y = jb_attempts x + 1 \<and> jb_status y = Running \<and> jb_status x \<in> {Pending, Running}"

lemma claim_progress:
  assumes "claim_job worker lease now t = (Inr (Some jb), t')" "distinct (map jb_id t)"
  shows "rows_related claimed_row (jb_id jb) t t'" and "jb_id jb \<in> set (map jb_id t)"
proof -
  obtain r where r: "select_first jb_id (job_ready now) t = Some r" "jb = r\<lparr>jb_attempts := jb_attempts r + 1\<rparr>"
    "t' = update_where (\<lambda>x. jb_id x = jb_id r) (job_grant worker (now + seconds lease)) t"
    using assms(1) by (auto simp: claim_job_def split: if_splits option.splits)
  have row: "r \<in> set t" "job_ready now r" using select_first_Some [OF r(1)] by auto
  have ready: "jb_status x \<in> {Pending, Running}" if "x \<in> set t" "jb_id x = jb_id r" for x
    using key_unique [OF assms(2) that(1) row(1) that(2)] row(2) by (auto simp: job_ready_def)
  have "rows_related claimed_row (jb_id r) t (update_where (\<lambda>x. jb_id x = jb_id r \<and> True) (job_grant worker (now + seconds lease)) t)"
    by (rule related_update) (use ready in \<open>auto simp: claimed_row_def job_grant_def\<close>)
  then show "rows_related claimed_row (jb_id jb) t t'" by (simp add: r(2,3))
  show "jb_id jb \<in> set (map jb_id t)" using row(1) by (simp add: r(2))
qed

section \<open>One job\<close>

text \<open>A result that reports a lost lease.\<close>

definition lost_lease :: "(string \<times> json) list \<Rightarrow> bool" where
  "lost_lease r \<longleftrightarrow> dict_get ''status'' r = JStr ''lease_lost'' \<or> dict_get ''queue_status'' r = JStr ''lease_lost''"

definition job_progress :: "int \<Rightarrow> nat \<Rightarrow> job_result \<Rightarrow> job list \<Rightarrow> job list \<Rightarrow> bool" where
  "job_progress limit k r t t' \<longleftrightarrow>
     rows_related same_progress k t t' \<and> (\<forall>fields. r = Reported fields \<longrightarrow> lost_lease fields)
     \<or> rows_related (settled_row limit) k t t'"

lemma progress_after:
  assumes "rows_related same_progress k t t1" "job_progress limit k r t1 t2"
  shows "job_progress limit k r t t2"
  using assms(2) unfolding job_progress_def
proof (elim disjE conjE)
  assume a: "rows_related same_progress k t1 t2" "\<forall>fields. r = Reported fields \<longrightarrow> lost_lease fields"
  have "rows_related same_progress k t t2" by (rule related_trans [OF assms(1) a(1)], erule (1) same_progress_trans)
  then show "rows_related same_progress k t t2 \<and> (\<forall>fields. r = Reported fields \<longrightarrow> lost_lease fields) \<or> rows_related (settled_row limit) k t t2"
    using a(2) by blast
next
  assume "rows_related (settled_row limit) k t1 t2"
  then have "rows_related (settled_row limit) k t t2"
    by (rule related_trans [OF assms(1), where R = "settled_row limit"]) (auto simp: same_progress_def settled_row_def)
  then show "rows_related same_progress k t t2 \<and> (\<forall>fields. r = Reported fields \<longrightarrow> lost_lease fields) \<or> rows_related (settled_row limit) k t t2" ..
qed

lemma same_refl: "rows_related same_progress k t t"
  by (rule related_refl) (simp add: same_progress_def)

lemma fail_job_progress:
  assumes "distinct (map jb_id t)" "fail_job k worker m limit' delay now t = (r, t')" "1 \<le> limit" "limit' \<le> limit"
    and "\<And>st. r = Inr st \<Longrightarrow> res = Reported (report_of file ''error'' @ [(''queue_status'', JStr st), (''error'', JStr m)])"
    and "\<And>e. r = Inl e \<Longrightarrow> res = Raised e"
  shows "job_progress limit k res t t'"
proof -
  have "rows_related (settled_row limit) k t t'" if "rows_related (settled_row limit') k t t'"
    by (rule related_mono [OF that]) (use assms(4) in \<open>auto simp: settled_row_def\<close>)
  moreover have "job_progress limit k res t t" if "r = Inr ''lease_lost'' \<or> (\<exists>e. r = Inl e)"
    using that assms(5,6) same_refl by (auto simp: job_progress_def lost_lease_def report_of_def dict_get_def obj_get_def)
  ultimately show ?thesis using fail_progress [OF assms(2,1)] by (auto simp: job_progress_def)
qed

lemma same_job_progress: "rows_related same_progress k t t' \<Longrightarrow> (\<And>fields. r = Reported fields \<Longrightarrow> lost_lease fields) \<Longrightarrow> job_progress limit k r t t'"
  by (simp add: job_progress_def)

lemma lost_report [simp]: "lost_lease (report_of file ''lease_lost'')"
  by (simp add: lost_lease_def report_of_def dict_get_def obj_get_def)

lemma report_progress:
  assumes "fail_and_report opts worker jb m now w = (r, w')" "distinct (map jb_id (ww_jobs w))" "1 \<le> wo_max_attempts opts"
  shows "job_progress (wo_max_attempts opts) (jb_id jb) r (ww_jobs w) (ww_jobs w')"
proof -
  obtain x t where f: "fail_job (jb_id jb) worker m (wo_max_attempts opts) (wo_retry_delay opts) now (ww_jobs w) = (x, t)" by fastforce
  have "job_progress (wo_max_attempts opts) (jb_id jb) r (ww_jobs w) t"
    by (rule fail_job_progress [OF assms(2) f assms(3) order_refl, of r "jb_path jb"]) (use assms(1) f in \<open>auto simp: fail_and_report_def\<close>)
  then show ?thesis using assms(1) f by (auto simp: fail_and_report_def split: sum.splits)
qed

lemma refuse_progress:
  assumes "refuse_evidence opts worker jb env e w = (r, w')" "distinct (map jb_id (ww_jobs w))" "1 \<le> wo_max_attempts opts"
  shows "job_progress (wo_max_attempts opts) (jb_id jb) r (ww_jobs w) (ww_jobs w')"
proof -
  let ?msg = "message_text (re_message (je_run env))"
  define handled where "handled m attempts delay =
      (case fail_job (jb_id jb) worker m attempts delay (je_finished env) (ww_jobs w) of
         (Inl e', t) \<Rightarrow> fail_and_report opts worker jb (?msg e') (je_finished env) (w\<lparr>ww_jobs := t\<rparr>)
       | (Inr st, t) \<Rightarrow> (Reported (report_of (jb_path jb) ''error'' @ [(''queue_status'', JStr st), (''error'', JStr m)]), w\<lparr>ww_jobs := t\<rparr>))"
    for m attempts delay
  have handled: "job_progress (wo_max_attempts opts) (jb_id jb) r (ww_jobs w) (ww_jobs w')"
    if run: "handled m attempts delay = (r, w')" and le: "attempts \<le> wo_max_attempts opts" for m attempts delay
  proof -
    obtain x t where f: "fail_job (jb_id jb) worker m attempts delay (je_finished env) (ww_jobs w) = (x, t)" by fastforce
    show ?thesis
    proof (cases x)
      case (Inl e')
      then have "t = ww_jobs w" using f by (auto simp: fail_job_def split: if_splits option.splits prod.splits)
      then have "fail_and_report opts worker jb (?msg e') (je_finished env) w = (r, w')" using run f Inl by (simp add: handled_def)
      then show ?thesis by (rule report_progress [OF _ assms(2,3)])
    next
      case (Inr st)
      then have "w' = w\<lparr>ww_jobs := t\<rparr>" "r = Reported (report_of (jb_path jb) ''error'' @ [(''queue_status'', JStr st), (''error'', JStr m)])"
        using run f by (simp_all add: handled_def)
      then show ?thesis using fail_job_progress [OF assms(2) f assms(3) le, of r "jb_path jb"] Inr by simp
    qed
  qed
  show ?thesis
    using assms(1) handled [of _ "wo_max_attempts opts"] handled [of _ 1] report_progress [OF _ assms(2,3)] assms(3)
    unfolding refuse_evidence_def handled_def [symmetric] Let_def by (auto split: if_splits py_error.splits)
qed

lemma finish_progress:
  assumes "finish_job opts worker jb env failpoint file result w = (r, w')" "distinct (map jb_id (ww_jobs w))" "1 \<le> wo_max_attempts opts"
  shows "job_progress (wo_max_attempts opts) (jb_id jb) r (ww_jobs w) (ww_jobs w')"
proof -
  obtain lost t where h: "heartbeats (jb_id jb) worker (wo_lease_seconds opts) (je_running env) (ww_jobs w) = (lost, t)" by fastforce
  note beat = heartbeats_progress [OF h]
  have ids: "distinct (map jb_id t)" using related_ids [OF beat] assms(2) by simp
  show ?thesis
  proof (cases "failpoint = Some failpoint_after_commit \<or> lost")
    case True
    then show ?thesis using assms(1) h beat by (auto simp: finish_job_def split: if_splits intro!: same_job_progress)
  next
    case False
    obtain x t1 where c: "complete_job (jb_id jb) worker (je_finished env) t = (x, t1)" by fastforce
    note step = complete_progress [OF c ids, of "wo_max_attempts opts"]
    have "job_progress (wo_max_attempts opts) (jb_id jb) r t (ww_jobs w')"
    proof (cases x)
      case (Inl e)
      then have "fail_and_report opts worker jb (message_text (re_message (je_run env)) e) (je_finished env) (w\<lparr>ww_jobs := t\<rparr>) = (r, w')"
        using assms(1) h c False step by (simp add: finish_job_def)
      from report_progress [OF this _ assms(3)] show ?thesis using ids by simp
    next
      case (Inr owned)
      then show ?thesis using assms(1) h c False step same_refl
        by (cases owned) (auto simp: finish_job_def job_progress_def)
    qed
    then show ?thesis by (rule progress_after [OF beat])
  qed
qed

lemma evidence_progress:
  assumes "run_evidence fs getenv c env jb p bytes w = (r, w')" "distinct (map jb_id (ww_jobs w))" "1 \<le> wo_max_attempts (wc_options c)"
  shows "job_progress (wo_max_attempts (wc_options c)) (jb_id jb) r (ww_jobs w) (ww_jobs w')"
proof -
  let ?opts = "wc_options c" and ?worker = "wc_worker c"
  obtain lost t where h: "heartbeats (jb_id jb) ?worker (wo_lease_seconds ?opts) (je_running env) (ww_jobs w) = (lost, t)" by fastforce
  note beat = heartbeats_progress [OF h]
  have ids: "distinct (map jb_id t)" using related_ids [OF beat] assms(2) by simp
  have failed: "job_progress (wo_max_attempts ?opts) (jb_id jb) r (ww_jobs w) (ww_jobs w')"
    if "fail_and_report ?opts ?worker jb m (je_finished env) (v\<lparr>ww_jobs := t\<rparr>) = (r, w')" for m v
    by (rule progress_after [OF beat], use report_progress [OF that _ assms(3)] ids in simp)
  show ?thesis
  proof (cases "decode_body bytes")
    case (Inl e)
    then show ?thesis using failed assms(1) h by (simp add: run_evidence_def)
  next
    case (Inr posture)
    obtain res pw where run: "run_pipeline fs getenv (job_args (wc_paths c) ?opts (path_stem (last p))) (je_run env) posture
        (wc_controls c) (wc_assets c) (wc_review c) (ww_pipeline w) = (res, pw)" by fastforce
    show ?thesis
    proof (cases res)
      case (Inl e)
      then have "fail_and_report ?opts ?worker jb (message_text (re_message (je_run env)) e) (je_finished env)
          ((w\<lparr>ww_pipeline := pw\<rparr>)\<lparr>ww_jobs := t\<rparr>) = (r, w')"
        using assms(1) h run \<open>decode_body bytes = _\<close> by (simp add: run_evidence_def)
      then show ?thesis by (rule failed)
    next
      case (Inr result)
      then have "finish_job ?opts ?worker jb env (wc_failpoint c) (path_text p) result (w\<lparr>ww_pipeline := pw\<rparr>) = (r, w')"
        using assms(1) run \<open>decode_body bytes = _\<close> by (simp add: run_evidence_def Let_def)
      from finish_progress [OF this _ assms(3)] show ?thesis using assms(2) by simp
    qed
  qed
qed

lemma process_progress:
  assumes "process_claimed_job fs getenv c env jb w = (r, w')" "distinct (map jb_id (ww_jobs w))" "1 \<le> wo_max_attempts (wc_options c)"
  shows "job_progress (wo_max_attempts (wc_options c)) (jb_id jb) r (ww_jobs w) (ww_jobs w')"
proof (cases "je_renewed env")
  case None
  then show ?thesis using assms(1) same_refl by (auto simp: process_claimed_job_def intro!: same_job_progress)
next
  case (Some renewed)
  obtain x t where n: "renew_job (jb_id jb) (wc_worker c) (wo_lease_seconds (wc_options c)) renewed (ww_jobs w) = (x, t)" by fastforce
  note first = renew_progress [OF n]
  show ?thesis
  proof (cases "x = Inr True")
    case False
    then show ?thesis using assms(1) Some n first
      by (cases x) (auto simp: process_claimed_job_def Let_def intro!: same_job_progress)
  next
    case True
    obtain stopped t1 where h: "heartbeats (jb_id jb) (wc_worker c) (wo_lease_seconds (wc_options c)) (je_reading env) t = (stopped, t1)"
      by fastforce
    have beat: "rows_related same_progress (jb_id jb) (ww_jobs w) t1"
      by (rule related_trans [OF first heartbeats_progress [OF h]], erule (1) same_progress_trans)
    have ids: "distinct (map jb_id t1)" using related_ids [OF beat] assms(2) by simp
    let ?found = "outcome_bind (validated_inbox_item fs (jb_path jb) (wp_inbox (wc_paths c))) (\<lambda>p.
        outcome_bind (read_claimed_payload (ww_inbox w) (last p) (pw_state (ww_pipeline w))) (\<lambda>b. Inr (p, b)))"
    show ?thesis
    proof (cases ?found)
      case (Inl e)
      then have "refuse_evidence (wc_options c) (wc_worker c) jb env e (w\<lparr>ww_jobs := t1\<rparr>) = (r, w')"
        using assms(1) Some n True h by (simp add: process_claimed_job_def Let_def)
      from refuse_progress [OF this _ assms(3)] show ?thesis by (intro progress_after [OF beat]) (simp add: ids)
    next
      case (Inr pb)
      obtain p bytes where pb: "pb = (p, bytes)" by (cases pb)
      show ?thesis
      proof (cases stopped)
        case True
        then show ?thesis using assms(1) Some n \<open>x = Inr True\<close> h Inr pb beat
          by (auto simp: process_claimed_job_def Let_def intro!: same_job_progress)
      next
        case False
        then have "run_evidence fs getenv c env jb p bytes (w\<lparr>ww_jobs := t1\<rparr>) = (r, w')"
          using assms(1) Some n \<open>x = Inr True\<close> h Inr pb by (simp add: process_claimed_job_def Let_def)
        from evidence_progress [OF this _ assms(3)] show ?thesis by (intro progress_after [OF beat]) (simp add: ids)
      qed
    qed
  qed
qed

section \<open>A pass\<close>

text \<open>The attempts a row has left, at least one while it is open.\<close>

definition job_weight :: "int \<Rightarrow> job \<Rightarrow> nat" where
  "job_weight limit r = (if jb_status r \<in> {Pending, Running} then nat (max 1 (limit - int (jb_attempts r))) else 0)"

definition queue_weight :: "int \<Rightarrow> job list \<Rightarrow> nat" where
  "queue_weight limit t = sum_list (map (job_weight limit) t)"

lemma weight_mono:
  "rows_related P k t t' \<Longrightarrow> (\<And>x y. P x y \<Longrightarrow> job_weight limit y \<le> job_weight limit x) \<Longrightarrow> queue_weight limit t' \<le> queue_weight limit t"
  unfolding rows_related_def queue_weight_def
  by (induction rule: list_all2_induct) (fastforce split: if_splits)+

lemma weight_less:
  assumes "rows_related P k t t'" "\<And>x y. P x y \<Longrightarrow> job_weight limit y < job_weight limit x" "k \<in> set (map jb_id t)"
  shows "queue_weight limit t' < queue_weight limit t"
  using assms(1,3) unfolding rows_related_def queue_weight_def
proof (induction rule: list_all2_induct)
  case (Cons x xs y ys)
  have all: "rows_related P k xs ys" using Cons.hyps unfolding rows_related_def by blast
  have le: "sum_list (map (job_weight limit) ys) \<le> sum_list (map (job_weight limit) xs)"
    using weight_mono [OF all, of limit] assms(2) unfolding queue_weight_def by (meson less_imp_le)
  show ?case
  proof (cases "jb_id x = k")
    case True
    then show ?thesis using Cons.hyps(1) assms(2) [of x y] le by simp
  next
    case False
    then show ?thesis using Cons by auto
  qed
qed simp

lemma settled_weight:
  assumes "claimed_row x y" "settled_row limit y z"
  shows "job_weight limit z < job_weight limit x"
  using assms by (auto simp: claimed_row_def settled_row_def job_weight_def)

lemma claimed_weight:
  assumes "claimed_row x y" "same_progress y z"
  shows "job_weight limit z \<le> job_weight limit x"
  using assms by (auto simp: claimed_row_def same_progress_def job_weight_def)

lemma one_job_weight:
  assumes "claim_job worker lease now t = (Inr (Some jb), t1)" "distinct (map jb_id t)"
    and "job_progress limit (jb_id jb) (Reported result) t1 t2"
  shows "queue_weight limit t2 + (if lost_lease result then 0 else 1) \<le> queue_weight limit t"
proof -
  note claim = claim_progress [OF assms(1,2)]
  let ?both = "\<lambda>Q x z. \<exists>y. claimed_row x y \<and> Q y z"
  consider "rows_related same_progress (jb_id jb) t1 t2" "lost_lease result" | "rows_related (settled_row limit) (jb_id jb) t1 t2"
    using assms(3) unfolding job_progress_def by blast
  then show ?thesis
  proof cases
    case 1
    have "rows_related (?both same_progress) (jb_id jb) t t2" by (rule related_trans [OF claim(1) 1(1)]) blast
    then have "queue_weight limit t2 \<le> queue_weight limit t" by (rule weight_mono) (use claimed_weight in blast)
    then show ?thesis using 1(2) by simp
  next
    case 2
    have "rows_related (?both (settled_row limit)) (jb_id jb) t t2" by (rule related_trans [OF claim(1) 2]) blast
    then have "queue_weight limit t2 < queue_weight limit t" by (rule weight_less) (use settled_weight claim(2) in blast)+
    then show ?thesis by simp
  qed
qed

lemma process_jobs_bound:
  "process_jobs fs getenv c envs w = (None, results, w') \<Longrightarrow> distinct (map jb_id (ww_jobs w)) \<Longrightarrow>
     1 \<le> wo_max_attempts (wc_options c) \<Longrightarrow>
     length results = length envs \<and> queue_weight (wo_max_attempts (wc_options c)) (ww_jobs w') + length (filter (\<lambda>r. \<not> lost_lease r) results)
       \<le> queue_weight (wo_max_attempts (wc_options c)) (ww_jobs w)"
proof (induction fs getenv c envs w arbitrary: results w' rule: process_jobs.induct)
  case (2 fs getenv c now env envs w)
  obtain x t where claim: "claim_job (wc_worker c) (wo_lease_seconds (wc_options c)) now (ww_jobs w) = (x, t)" by fastforce
  obtain jb where x: "x = Inr (Some jb)" using "2.prems"(1) claim by (auto split: sum.splits option.splits)
  obtain r w1 where run: "process_claimed_job fs getenv c env jb (w\<lparr>ww_jobs := t\<rparr>) = (r, w1)" by fastforce
  obtain fields where r: "r = Reported fields" using "2.prems"(1) claim x run by (auto split: job_result.splits)
  obtain rest where rest: "process_jobs fs getenv c envs w1 = (None, rest, w')" "results = fields # rest"
    using "2.prems"(1) claim x run r by (auto split: prod.splits)
  have ids: "distinct (map jb_id t)"
    using related_ids [OF claim_progress(1) [OF claim [unfolded x] "2.prems"(2)]] "2.prems"(2) by simp
  have step: "job_progress (wo_max_attempts (wc_options c)) (jb_id jb) (Reported fields) t (ww_jobs w1)"
    using process_progress [OF run [unfolded r] _ "2.prems"(3)] ids by simp
  have ids1: "distinct (map jb_id (ww_jobs w1))" using step ids related_ids unfolding job_progress_def by metis
  have IH: "length rest = length envs \<and> queue_weight (wo_max_attempts (wc_options c)) (ww_jobs w') + length (filter (\<lambda>r. \<not> lost_lease r) rest)
      \<le> queue_weight (wo_max_attempts (wc_options c)) (ww_jobs w1)"
    by (rule "2.IH" [OF claim [symmetric] x refl run [symmetric] r rest(1) ids1 "2.prems"(3)])
  then show ?case using one_job_weight [OF claim [unfolded x] "2.prems"(2) step] rest(2) by (auto split: if_splits)
qed simp

lemma weight_bound: "1 \<le> limit \<Longrightarrow> queue_weight limit t \<le> length t * nat limit"
proof (induction t)
  case (Cons r t)
  have "job_weight limit r \<le> nat limit" using Cons.prems by (auto simp: job_weight_def intro!: nat_mono)
  then show ?case using Cons by (simp add: queue_weight_def)
qed (simp add: queue_weight_def)

text \<open>
  C13. A pass over the inbox ends: as long as it has not ended, the number of jobs it processed without losing a lease is at most the
  number of its queued jobs times the attempts each may have. So a pass whose workers keep their leases ends after that many jobs.
\<close>

theorem passes_end:
  assumes "process_jobs fs getenv c envs w = (None, results, w')" and "distinct (map jb_id (ww_jobs w))"
    and "1 \<le> wo_max_attempts (wc_options c)"
  shows "length results = length envs
    \<and> length (filter (\<lambda>r. \<not> lost_lease r) results) \<le> length (ww_jobs w) * nat (wo_max_attempts (wc_options c))"
  using process_jobs_bound [OF assms] weight_bound [OF assms(3), of "ww_jobs w"] by linarith

end
