(* ===== verification/Worker_Properties.thy ===== *)
theory Worker_Properties
  imports Worker_Progress Pipeline_Properties Ingestion_Properties
begin

text \<open>
  Properties of the inbox worker: a job that is reported as accepted was read from verified evidence, recorded in the ledger and completed;
  evidence that is not committed or does not have its committed hash never reaches the pipeline; postures accepted over HTTP are read with
  the accepted bytes; and a job that meets the interrupted run of another worker is completed although its evidence was not processed.
\<close>

section \<open>What a job does\<close>

definition unfinished :: "(string \<times> json) list \<Rightarrow> bool" where
  "unfinished r \<longleftrightarrow> dict_get ''status'' r \<in> {JStr ''lease_lost'', JStr ''error''}"

definition job_done :: "nat \<Rightarrow> job list \<Rightarrow> bool" where
  "job_done k t \<longleftrightarrow> (\<exists>y \<in> set t. jb_id y = k \<and> jb_status y = Completed)"

lemma unfinished_reports [simp]:
  "unfinished (report_of file ''lease_lost'')" "unfinished (report_of file ''error'' @ rest)"
  by (simp_all add: unfinished_def report_of_def field_get_Cons)

lemma report_effect:
  assumes "fail_and_report opts worker jb m now w = (r, w')"
  shows "ww_pipeline w' = ww_pipeline w \<and> (\<forall>f. r = Reported f \<longrightarrow> unfinished f)"
  using assms by (auto simp: fail_and_report_def split: prod.splits sum.splits)

lemma refuse_effect:
  assumes "refuse_evidence opts worker jb env e w = (r, w')"
  shows "ww_pipeline w' = ww_pipeline w \<and> (\<forall>f. r = Reported f \<longrightarrow> unfinished f)"
  using assms unfolding refuse_evidence_def Let_def
  by (auto split: if_splits py_error.splits prod.splits sum.splits dest!: report_effect)

lemma completed_row:
  assumes "complete_job k worker now t = (Inr True, t')"
  shows "job_done k t'"
proof -
  have u: "rowcount (\<lambda>x. jb_id x = k \<and> job_held worker now x) t = 1"
    "t' = update_where (\<lambda>x. jb_id x = k \<and> job_held worker now x) job_complete t"
    using assms by (auto simp: complete_job_def update_row_def split: if_splits)
  then obtain x where "x \<in> set t" "jb_id x = k \<and> job_held worker now x"
    using rowcount_zero [of "\<lambda>x. jb_id x = k \<and> job_held worker now x" t] by auto
  then have "job_complete x \<in> set t'" "jb_id (job_complete x) = k" "jb_status (job_complete x) = Completed"
    by (auto simp: u(2) set_update_where job_complete_def)
  then show ?thesis unfolding job_done_def by blast
qed

lemma finish_effect:
  assumes "finish_job opts worker jb env failpoint file result w = (r, w')"
  shows "ww_pipeline w' = ww_pipeline w
    \<and> (\<forall>f. r = Reported f \<longrightarrow> unfinished f \<or> (f = (''file'', JStr file) # result \<and> job_done (jb_id jb) (ww_jobs w')))"
  using assms unfolding finish_job_def
  by (auto split: if_splits prod.splits sum.splits dest!: report_effect completed_row)

definition evidence_of :: "filesystem \<Rightarrow> worker_config \<Rightarrow> job \<Rightarrow> worker_world \<Rightarrow> (string list \<times> byte list) outcome" where
  "evidence_of fs c jb w =
     outcome_bind (validated_inbox_item fs (jb_path jb) (wp_inbox (wc_paths c))) (\<lambda>p.
     outcome_bind (read_claimed_payload (ww_inbox w) (last p) (pw_state (ww_pipeline w))) (\<lambda>b. Inr (p, b)))"

definition job_run ::
    "filesystem \<Rightarrow> (string \<Rightarrow> string option) \<Rightarrow> worker_config \<Rightarrow> job_env \<Rightarrow> string list \<Rightarrow> json \<Rightarrow> (pipeline_world, (string \<times> json) list) step" where
  "job_run fs getenv c env p posture =
     run_pipeline fs getenv (job_args (wc_paths c) (wc_options c) (path_stem (last p))) (je_run env) posture
       (wc_controls c) (wc_assets c) (wc_review c)"

lemma run_evidence_effect:
  assumes "run_evidence fs getenv c env jb p bytes w = (r, w')"
  shows "(ww_pipeline w' = ww_pipeline w \<and> (\<forall>f. r = Reported f \<longrightarrow> unfinished f))
    \<or> (\<exists>posture res. decode_body bytes = Inr posture \<and> job_run fs getenv c env p posture (ww_pipeline w) = (res, ww_pipeline w')
         \<and> (\<forall>f. r = Reported f \<longrightarrow> unfinished f \<or> (\<exists>result. res = Inr result \<and> f = (''file'', JStr (path_text p)) # result
              \<and> job_done (jb_id jb) (ww_jobs w'))))"
proof -
  obtain lost t where h: "heartbeats (jb_id jb) (wc_worker c) (wo_lease_seconds (wc_options c)) (je_running env) (ww_jobs w) = (lost, t)"
    by fastforce
  show ?thesis
  proof (cases "decode_body bytes")
    case (Inl e)
    then have "fail_and_report (wc_options c) (wc_worker c) jb (message_text (re_message (je_run env)) e) (je_finished env)
        (w\<lparr>ww_jobs := t\<rparr>) = (r, w')" using assms h by (simp add: run_evidence_def)
    from report_effect [OF this] show ?thesis by simp
  next
    case (Inr posture)
    obtain res pw where run: "job_run fs getenv c env p posture (ww_pipeline w) = (res, pw)" by fastforce
    have "ww_pipeline w' = pw \<and> (\<forall>f. r = Reported f \<longrightarrow> unfinished f \<or> (\<exists>result. res = Inr result
        \<and> f = (''file'', JStr (path_text p)) # result \<and> job_done (jb_id jb) (ww_jobs w')))"
    proof (cases res)
      case (Inl e)
      then have "fail_and_report (wc_options c) (wc_worker c) jb (message_text (re_message (je_run env)) e) (je_finished env)
          ((w\<lparr>ww_pipeline := pw\<rparr>)\<lparr>ww_jobs := t\<rparr>) = (r, w')"
        using assms h run \<open>decode_body bytes = _\<close> by (simp add: run_evidence_def job_run_def)
      from report_effect [OF this] show ?thesis by simp
    next
      case (Inr result)
      then have "finish_job (wc_options c) (wc_worker c) jb env (wc_failpoint c) (path_text p) result (w\<lparr>ww_pipeline := pw\<rparr>) = (r, w')"
        using assms run \<open>decode_body bytes = _\<close> by (simp add: run_evidence_def job_run_def Let_def)
      from finish_effect [OF this] Inr show ?thesis by simp
    qed
    then show ?thesis using Inr run by blast
  qed
qed

lemma process_effect:
  assumes "process_claimed_job fs getenv c env jb w = (r, w')"
  shows "(ww_pipeline w' = ww_pipeline w \<and> (\<forall>f. r = Reported f \<longrightarrow> unfinished f))
    \<or> (\<exists>p bytes posture res. evidence_of fs c jb w = Inr (p, bytes) \<and> decode_body bytes = Inr posture
         \<and> job_run fs getenv c env p posture (ww_pipeline w) = (res, ww_pipeline w')
         \<and> (\<forall>f. r = Reported f \<longrightarrow> unfinished f \<or> (\<exists>result. res = Inr result \<and> f = (''file'', JStr (path_text p)) # result
              \<and> job_done (jb_id jb) (ww_jobs w'))))"
proof (cases "je_renewed env")
  case None
  then show ?thesis using assms by (auto simp: process_claimed_job_def)
next
  case (Some renewed)
  obtain x t where n: "renew_job (jb_id jb) (wc_worker c) (wo_lease_seconds (wc_options c)) renewed (ww_jobs w) = (x, t)" by fastforce
  obtain stopped t1 where h: "heartbeats (jb_id jb) (wc_worker c) (wo_lease_seconds (wc_options c)) (je_reading env) t = (stopped, t1)"
    by fastforce
  show ?thesis
  proof (cases "x = Inr True")
    case False
    then show ?thesis using assms Some n by (cases x) (auto simp: process_claimed_job_def Let_def)
  next
    case True
    show ?thesis
    proof (cases "evidence_of fs c jb w")
      case (Inl e)
      then have "refuse_evidence (wc_options c) (wc_worker c) jb env e (w\<lparr>ww_jobs := t1\<rparr>) = (r, w')"
        using assms Some n True h by (simp add: process_claimed_job_def evidence_of_def Let_def)
      from refuse_effect [OF this] show ?thesis by simp
    next
      case (Inr pb)
      obtain p bytes where pb: "evidence_of fs c jb w = Inr (p, bytes)" using Inr by (cases pb) simp
      have "(if stopped then (Reported (report_of (jb_path jb) ''lease_lost''), w\<lparr>ww_jobs := t1\<rparr>)
          else run_evidence fs getenv c env jb p bytes (w\<lparr>ww_jobs := t1\<rparr>)) = (r, w')"
        using assms Some n True h pb by (simp add: process_claimed_job_def evidence_of_def Let_def)
      then show ?thesis using pb run_evidence_effect [of fs getenv c env jb p bytes "w\<lparr>ww_jobs := t1\<rparr>" r w']
        by (cases stopped) auto
    qed
  qed
qed

section \<open>Evidence that may be processed\<close>

lemma read_evidence_result: "read_evidence_bytes d name = Inr (Some b) \<longleftrightarrow> map_of d name = Some (Regular b)"
  by (auto simp: read_evidence_bytes_def split: option.splits file_entry.splits)

lemma read_payload_result:
  assumes "read_claimed_payload d name db = Inr b"
  shows "map_of d name = Some (Regular b)"
    and "find_payload_by_evidence_id (path_stem name) db = Some row \<Longrightarrow> pl_status row = PayloadCommitted \<and> sha256_hex b = pl_hash row"
  using assms by (auto simp: read_claimed_payload_def read_verified_evidence_def outcome_simps read_evidence_result split: option.splits if_splits)

lemma decoded_wf: "decode_body bytes = Inr posture \<Longrightarrow> json_wf posture"
  using json_loads_wf by (auto simp: decode_body_def bind_eq_Some_conv split: option.splits)

text \<open>
  Unverified evidence is never processed: when the evidence of a job belongs to a publication that is not committed, or its
  file does not have the committed hash, the job ends without touching the pipeline and reports no success.
\<close>

theorem unverified_evidence_is_not_processed:
  assumes "process_claimed_job fs getenv c env jb w = (r, w')"
    and "validated_inbox_item fs (jb_path jb) (wp_inbox (wc_paths c)) = Inr p"
    and "find_payload_by_evidence_id (path_stem (last p)) (pw_state (ww_pipeline w)) = Some row"
    and "pl_status row \<noteq> PayloadCommitted \<or> (\<forall>b. map_of (ww_inbox w) (last p) = Some (Regular b) \<longrightarrow> sha256_hex b \<noteq> pl_hash row)"
  shows "ww_pipeline w' = ww_pipeline w \<and> (\<forall>f. r = Reported f \<longrightarrow> unfinished f)"
proof -
  have "evidence_of fs c jb w \<noteq> Inr (p', b)" for p' b
    using read_payload_result [of "ww_inbox w" "last p" "pw_state (ww_pipeline w)" b] assms(2-4)
    by (auto simp: evidence_of_def outcome_simps)
  then show ?thesis using process_effect [OF assms(1)] by blast
qed


section \<open>The ledger over a pass\<close>

lemma process_keeps_ledger:
  assumes "process_claimed_job fs getenv c env jb w = (r, w')" "ledger_once (pw_ledger (ww_pipeline w))"
    and "json_wf (wc_controls c)" "json_wf (wc_assets c)"
  shows "ledger_once (pw_ledger (ww_pipeline w'))"
  using process_effect [OF assms(1)]
proof (elim disjE exE conjE)
  fix p bytes posture res
  assume d: "decode_body bytes = Inr posture" "job_run fs getenv c env p posture (ww_pipeline w) = (res, ww_pipeline w')"
  have "json_wf posture" by (rule decoded_wf [OF d(1)])
  then show "ledger_once (pw_ledger (ww_pipeline w'))"
    by (rule keepsD [OF run_keeps_ledger [OF _ assms(3,4)] d(2) [unfolded job_run_def] assms(2)])
qed (use assms(2) in simp)

lemma jobs_keep_ledger:
  "process_jobs fs getenv c envs w = (ended, results, w') \<Longrightarrow> ledger_once (pw_ledger (ww_pipeline w)) \<Longrightarrow>
     json_wf (wc_controls c) \<Longrightarrow> json_wf (wc_assets c) \<Longrightarrow> ledger_once (pw_ledger (ww_pipeline w'))"
proof (induction fs getenv c envs w arbitrary: ended results w' rule: process_jobs.induct)
  case (2 fs getenv c now env envs w)
  obtain x t where claim: "claim_job (wc_worker c) (wo_lease_seconds (wc_options c)) now (ww_jobs w) = (x, t)" by fastforce
  show ?case
  proof (cases "\<exists>jb. x = Inr (Some jb)")
    case False
    then show ?thesis using "2.prems" claim by (auto split: sum.splits option.splits)
  next
    case True
    then obtain jb where x: "x = Inr (Some jb)" by blast
    obtain r w1 where run: "process_claimed_job fs getenv c env jb (w\<lparr>ww_jobs := t\<rparr>) = (r, w1)" by fastforce
    have once: "ledger_once (pw_ledger (ww_pipeline w1))"
      by (rule process_keeps_ledger [OF run _ "2.prems"(3,4)]) (simp add: "2.prems"(2))
    show ?thesis
    proof (cases r)
      case (Reported fields)
      then obtain rest where "process_jobs fs getenv c envs w1 = (ended, rest, w')"
        using "2.prems"(1) claim x run by (auto split: prod.splits)
      from "2.IH" [OF claim [symmetric] x refl run [symmetric] Reported this once "2.prems"(3,4)] show ?thesis .
    qed (use "2.prems"(1) claim x run once in simp_all)
  qed
qed simp

text \<open>
  A pass records every input at most once: whatever happens to its jobs, lost leases, failures, crashes at the failpoint and repeated
  evidence included, a pass over the inbox leaves a ledger that verifies and has at most one record of every input.
\<close>

theorem passes_record_inputs_once:
  assumes "ledger_once (pw_ledger (ww_pipeline w))" and "json_wf controls" "json_wf assets"
    and "process_inbox_once fs getenv d opts controls assets review env w = (ended, results, w')"
  shows "fst (verify_ledger (pw_ledger (ww_pipeline w'))) \<and> distinct (recorded_inputs (pw_ledger (ww_pipeline w')))"
proof -
  let ?config = "outcome_bind (validate_worker_run_options opts) (\<lambda>_.
           outcome_bind (configured_test_failpoint getenv) (\<lambda>failpoint.
           outcome_bind (resolve_worker_paths fs getenv d opts) (\<lambda>paths.
           outcome_bind (check_names fs paths (ww_inbox w)) (\<lambda>_.
             Inr \<lparr>wc_options = opts, wc_paths = paths, wc_controls = controls, wc_assets = assets, wc_review = review,
               wc_failpoint = failpoint, wc_worker = ''worker-'' @ pe_worker env\<rparr>))))"
  have "ledger_once (pw_ledger (ww_pipeline w'))"
  proof (cases ?config)
    case (Inl e)
    then show ?thesis using assms(1,4) by (simp add: process_inbox_once_def)
  next
    case (Inr c)
    then have c: "wc_controls c = controls" "wc_assets c = assets" by (auto simp: outcome_simps)
    have run: "process_jobs fs getenv c (pe_jobs env) (prepare_pass c env w) = (ended, results, w')"
      using assms(4) Inr by (simp add: process_inbox_once_def)
    show ?thesis by (rule jobs_keep_ledger [OF run]) (simp_all add: c assms(1-3) prepare_pass_def Let_def)
  qed
  then show ?thesis by (simp add: ledger_once_def ledger_sound_verified)
qed

section \<open>Interrupted runs\<close>

lemma updated_row: "x \<in> set t \<Longrightarrow> P x \<Longrightarrow> f x \<in> set (update_where P f t)"
  by (force simp: set_update_where)

lemma job_args_lease [simp]: "pa_lease_seconds (job_args paths opts stem) = wo_lease_seconds opts"
  by (simp add: job_args_def)

lemma held_renewal:
  assumes "distinct (map jb_id t)" "jr \<in> set t" "job_held worker now jr" "py_strip worker \<noteq> []" "0 < lease"
  shows "renew_job (jb_id jr) worker lease now t =
    (Inr True, update_where (\<lambda>x. jb_id x = jb_id jr \<and> job_held worker now x) (job_extend (now + seconds lease)) t)"
  using assms rowcount_key [OF assms(1), of "jb_id jr" "job_held worker now"] by (auto simp: renew_job_def update_row_def)

lemma held_completion:
  assumes "distinct (map jb_id t)" "jr \<in> set t" "job_held worker now jr" "py_strip worker \<noteq> []"
  shows "complete_job (jb_id jr) worker now t =
    (Inr True, update_where (\<lambda>x. jb_id x = jb_id jr \<and> job_held worker now x) job_complete t)"
  using assms rowcount_key [OF assms(1), of "jb_id jr" "job_held worker now"] by (auto simp: complete_job_def update_row_def)

text \<open>
  C40. A job may be completed without its evidence: when the run of its input was claimed by a worker that crashed or lost its lease, and
  the lease of that run has not ended, the next worker takes the answer for a duplicate. It completes the job and reports success although
  the state, the ledger and the outputs are unchanged, and the same evidence is never queued again.
\<close>

theorem interrupted_runs_lose_evidence:
  assumes "distinct (map jb_id (ww_jobs w))" and "jr \<in> set (ww_jobs w)" and "jb_id jb = jb_id jr"
    and "je_renewed env = Some renewed" and "job_held (wc_worker c) renewed jr" and "je_reading env = []" and "je_running env = []"
    and "je_finished env < renewed + seconds (wo_lease_seconds (wc_options c))" and "0 < wo_lease_seconds (wc_options c)"
    and "py_strip (wc_worker c) \<noteq> []" and "wc_failpoint c = None"
    and "evidence_of fs c jb w = Inr (p, bytes)" and "decode_body bytes = Inr posture"
    and "prepared fs getenv (job_args (wc_paths c) (wc_options c) (path_stem (last p))) posture (wc_controls c) (wc_assets c) = Inr paths"
    and "get_pipeline_run (run_hash posture (wc_controls c) (wc_assets c) (wc_review c)) (pw_state (ww_pipeline w)) = Some run"
    and "pr_status run = RunRunning" and "re_claimed (je_run env) < pr_lease_until run"
  shows "\<exists>f w'. process_claimed_job fs getenv c env jb w = (Reported f, w') \<and> dict_get ''status'' f = JStr ''duplicate''
    \<and> one_shot_exit_code [f] = 0 \<and> ww_pipeline w' = ww_pipeline w \<and> job_done (jb_id jb) (ww_jobs w')
    \<and> (\<forall>jid now. enqueue_job jid (jb_path jr) now (ww_jobs w') = (False, ww_jobs w'))"
proof -
  let ?worker = "wc_worker c" and ?lease = "wo_lease_seconds (wc_options c)" and ?pw = "ww_pipeline w"
  let ?h = "run_hash posture (wc_controls c) (wc_assets c) (wc_review c)"
  let ?t = "update_where (\<lambda>x. jb_id x = jb_id jr \<and> job_held ?worker renewed x) (job_extend (renewed + seconds ?lease)) (ww_jobs w)"
  let ?t' = "update_where (\<lambda>x. jb_id x = jb_id jr \<and> job_held ?worker (je_finished env) x) job_complete ?t"
  let ?jr = "job_extend (renewed + seconds ?lease) jr"
  let ?f = "(''file'', JStr (path_text p)) # duplicate_result ?h paths (pw_state ?pw)"
  have renew: "renew_job (jb_id jb) ?worker ?lease renewed (ww_jobs w) = (Inr True, ?t)"
    unfolding assms(3) by (rule held_renewal [OF assms(1,2,5,10,9)])
  have row: "?jr \<in> set ?t" "jb_id ?jr = jb_id jr" "job_held ?worker (je_finished env) ?jr"
    using assms(2,5,8) by (auto simp: set_update_where job_extend_def job_held_def)
  have ids: "distinct (map jb_id ?t)" using assms(1) by (simp add: map_update_where job_extend_def)
  have complete: "complete_job (jb_id jb) ?worker (je_finished env) ?t = (Inr True, ?t')"
    using held_completion [OF ids row(1,3) assms(10)] by (simp only: row(2) assms(3))
  have claim: "claim_pipeline_run ?h (re_claimed (je_run env)) ?lease (pw_state ?pw) = (False, pw_state ?pw)"
    using assms(15-17) by (simp add: claim_pipeline_run_def Let_def)
  have run: "run_pipeline fs getenv (job_args (wc_paths c) (wc_options c) (path_stem (last p))) (je_run env) posture (wc_controls c)
      (wc_assets c) (wc_review c) ?pw = (Inr (duplicate_result ?h paths (pw_state ?pw)), ?pw)"
    using claim by (simp add: run_prepared assms(14) claimed_run_def run_hash_def [symmetric] Let_def)
  have process: "process_claimed_job fs getenv c env jb w = (Reported ?f, w\<lparr>ww_jobs := ?t'\<rparr>)"
    by (simp add: process_claimed_job_def evidence_of_def [symmetric] assms(4,6,7,11,12,13) renew complete run_evidence_def run finish_job_def Let_def)
  have row': "job_complete ?jr \<in> set ?t'" by (rule updated_row) (use row in simp_all)
  have "jb_path (job_complete ?jr) = jb_path jr" "jb_id (job_complete ?jr) = jb_id jb" "jb_status (job_complete ?jr) = Completed"
    using assms(3) by (simp_all add: job_complete_def job_extend_def)
  then have "job_done (jb_id jb) ?t'" "list_ex (\<lambda>r. jb_path r = jb_path jr \<or> jb_id r = jid) ?t'" for jid
    using row' unfolding job_done_def list_ex_iff by blast+
  then have "job_done (jb_id jb) ?t'" "enqueue_job jid (jb_path jr) now ?t' = (False, ?t')" for jid now
    by (simp_all add: enqueue_job_def)
  moreover have "dict_get ''status'' ?f = JStr ''duplicate''" by (simp add: duplicate_result_def Let_def field_get_Cons)
  ultimately show ?thesis using process by (auto simp: one_shot_exit_code_def)
qed

section \<open>From the request to the pipeline\<close>

text \<open>
  C12. Accepted postures reach the pipeline: when a request stored a new posture, a worker over the same state and inbox reads for its
  evidence identifier exactly the bytes of the request, provided no other payload shares the identifier.
\<close>

theorem postures_reach_the_pipeline:
  assumes "do_POST rq io now sv = (Inr (202, r), sv')" and "dict_get ''status'' r = JStr ''accepted''"
    and "route_of (rq_path rq) = Some rt" and "rt_record rt = posture_record" and "dict_get ''evidence_id'' r = JStr eid"
    and "\<forall>x \<in> set (st_payloads (sv_state sv')). \<forall>y \<in> set (st_payloads (sv_state sv')). pl_evidence x = pl_evidence y \<longrightarrow> x = y"
  shows "\<exists>body posture. authentic rq (rt_scope rt) now sv body \<and> decode_body body = Inr posture \<and> validate_posture posture = Inr ()
    \<and> read_claimed_payload (sv_inbox sv' (rt_kind rt)) (evidence_file eid) (sv_state sv') = Inr body"
proof -
  obtain body canonical extra status eid' sv1 where a: "read_authenticated_body rq (rt_scope rt) now sv = (Inr body, sv1)"
    "rt_record rt body = Inr (canonical, extra)" "persist_validated_body (rt_kind rt) canonical io (seconds now) sv1 = (Inr (status, eid'), sv')"
    "r = [(''status'', JStr status), (''evidence_id'', JStr eid')] @ extra"
  proof -
    obtain rt' body canonical extra status eid' sv1 where b: "route_of (rq_path rq) = Some rt'"
      "read_authenticated_body rq (rt_scope rt') now sv = (Inr body, sv1)" "rt_record rt' body = Inr (canonical, extra)"
      "persist_validated_body (rt_kind rt') canonical io (seconds now) sv1 = (Inr (status, eid'), sv')"
      "r = [(''status'', JStr status), (''evidence_id'', JStr eid')] @ extra" by (rule accepted_request [OF assms(1)])
    then have "rt' = rt" using assms(3) by simp
    then show thesis using that b by blast
  qed
  have status: "status = ''accepted''" "eid' = eid" using assms(2,5) by (simp_all add: a(4) field_get_Cons)
  obtain posture where posture: "decode_body body = Inr posture" "validate_posture posture = Inr ()" "canonical = body"
    using a(2) assms(4) by (auto simp: posture_record_def outcome_simps)
  note stored = persisted [OF a(3), unfolded status]
  have eid: "eid = take 24 (sha256_hex body)" and
    stored_file: "map_of (sv_inbox sv' (rt_kind rt)) (evidence_file eid) = Some (Regular body)"
    using stored(2) posture(3) by (auto simp: put_file_def update_conv')
  obtain x where x: "x \<in> set (st_payloads (sv_state sv'))" "pl_hash x = sha256_hex body" "pl_status x = PayloadCommitted" "pl_evidence x = eid"
    using stored(1) posture(3) by (auto simp: get_evidence_id_def find_Some_iff dest!: nth_mem)
  obtain y where y: "find_payload_by_evidence_id eid (sv_state sv') = Some y"
    using x(1,4) find_None_mem [of "\<lambda>z. pl_evidence z = eid" "st_payloads (sv_state sv')"]
    by (cases "find_payload_by_evidence_id eid (sv_state sv')") (auto simp: find_payload_by_evidence_id_def)
  then have "y \<in> set (st_payloads (sv_state sv'))" "pl_evidence y = eid"
    using find_Some_mem [of "\<lambda>z. pl_evidence z = eid" "st_payloads (sv_state sv')" y] by (simp_all add: find_payload_by_evidence_id_def)
  then have "y = x" using assms(6) x(1,4) by auto
  moreover have "length eid = 24" unfolding eid by simp
  then have "eid \<noteq> []" by (cases eid) simp_all
  then have "path_stem (evidence_file eid) = eid" unfolding evidence_file_def by (rule stem_of_file)
  ultimately have "read_claimed_payload (sv_inbox sv' (rt_kind rt)) (evidence_file eid) (sv_state sv') = Inr body"
    using y x stored_file by (simp add: read_claimed_payload_def read_verified_evidence_def read_evidence_bytes_def)
  then show ?thesis using posture authenticated_body(1) [OF a(1)] by blast
qed

end
