(* ===== verification/Pipeline_Records.thy ===== *)
theory Pipeline_Records
  imports Pipeline_Properties
begin

text \<open>
  An accepted run is recorded for good, as far as complete runs go: whatever runs follow, over any inputs and with any outcome, leave
  its row in the state and its record in the ledger as they are, and a further run over its input is a duplicate.
\<close>

section \<open>The record of an input stays\<close>

lemma appended_keeps_found:
  assumes "ledger_sound ledger" and "clean_evidence (recorded, posture, results, extra)"
    and "append_evidence_atomic recorded posture results extra ledger = (r, ledger')"
    and "find_ledger_record ledger h = Inr (Some ev)"
  shows "find_ledger_record ledger' h = Inr (Some ev)"
proof -
  obtain s where s: "ledger = Some s" using assms(4) by (cases ledger) (auto simp: find_ledger_record_def)
  note keep = append_keeps_ledger [OF assms(1-3)]
  have "ledger_lines ledger' \<noteq> []" using keep(3) by simp
  then obtain t where t: "ledger' = Some t"
    by (cases ledger') (auto simp: ledger_lines_def ledger_text_def py_splitlines_def)
  let ?found = "find (\<lambda>l. dict_get ''input_hash'' (line_fields l) = JStr h) (ledger_lines ledger)"
  have "find_ledger_record (Some s) h = Inr (map_option line_fields ?found)"
    using find_ledger_lines [of s h] ledger_sound_verified [OF assms(1)] by (simp add: s)
  then have "map_option line_fields ?found = Some ev" using assms(4) by (simp add: s)
  then obtain y where "?found = Some y" by blast
  then show ?thesis
    using assms(4) keep(3) find_ledger_lines [of s h] find_ledger_lines [of t h]
      ledger_sound_verified [OF assms(1)] ledger_sound_verified [OF keep(2)]
    by (auto simp: s t find_append split: option.splits)
qed

definition record_kept :: "string \<Rightarrow> (string \<times> json) list \<Rightarrow> pipeline_world \<Rightarrow> bool" where
  "record_kept h ev w \<longleftrightarrow> ledger_once (pw_ledger w) \<and> find_ledger_record (pw_ledger w) h = Inr (Some ev)"

lemma keeps_record_others:
  "keeps (record_kept h ev) (enter_queue env paths queue)" "keeps (record_kept h ev) (write_json fs path value root io)"
  "keeps (record_kept h ev) (complete_run env h' v paths)" "keeps (record_kept h ev) (audit_completion env rid aid v n paths)"
  unfolding keeps_def record_kept_def using other_steps by (metis surjective_pairing)+

lemma keeps_record_ledger:
  assumes "json_wf (JObj posture)" "list_all (\<lambda>r. json_wf (JObj r)) results"
  shows "keeps (record_kept h ev) (ledger_record env h' posture results)"
  unfolding keeps_def
proof (intro allI impI)
  fix w :: pipeline_world
  assume kept: "record_kept h ev w"
  let ?extra = "Some [(''input_hash'', JStr h'), (''pipeline_run_id'', JStr (run_name h'))]"
  obtain r w' where run: "ledger_record env h' posture results w = (r, w')" by fastforce
  obtain q ledger' where app: "append_evidence_atomic (re_recorded env) posture results ?extra (pw_ledger w) = (q, ledger')" by fastforce
  have clean: "clean_evidence (re_recorded env, posture, results, ?extra)" using assms by simp
  have sound: "ledger_sound (pw_ledger w)" using kept by (simp add: record_kept_def ledger_once_def)
  have "find_ledger_record ledger' h = Inr (Some ev)"
    by (rule appended_keeps_found [OF sound clean app]) (use kept in \<open>simp add: record_kept_def\<close>)
  then have "find_ledger_record (pw_ledger w') h = Inr (Some ev)"
    using run app kept by (auto simp: ledger_record_def record_kept_def split: sum.splits option.splits)
  moreover have "ledger_once (pw_ledger w')"
    using keepsD [OF keeps_ledger_record [OF assms] run] kept by (simp add: record_kept_def)
  ultimately show "record_kept h ev (snd (ledger_record env h' posture results w))" by (simp add: run record_kept_def)
qed

lemma execute_keeps_record:
  assumes "json_wf (JObj posture)" "list_all json_wf controls" "list_all json_wf assets"
  shows "keeps (record_kept h ev) (execute_pipeline fs env posture (JList controls) (JList assets) review included h' paths)"
  unfolding execute_pipeline_def
  by (rule keeps_bind_pure, rule keeps_bind_pure, rule keeps_bind_pure,
      (intro keeps_bind keeps_pure keeps_record_others keeps_record_ledger assms(1); rule run_results_wf [OF assms]; assumption))

section \<open>The row of a completed run stays\<close>

definition row_kept :: "string \<Rightarrow> run_row \<Rightarrow> pipeline_world \<Rightarrow> bool" where
  "row_kept h row w \<longleftrightarrow> get_pipeline_run h (pw_state w) = Some row"

lemma keeps_row_steps:
  "keeps (row_kept h row) (enter_queue env paths queue)" "keeps (row_kept h row) (write_json fs path value root io)"
  "keeps (row_kept h row) (audit_completion env rid aid v n paths)" "keeps (row_kept h row) (ledger_record env h' posture results)"
  unfolding keeps_def row_kept_def using other_steps by (metis surjective_pairing)+

lemma keeps_row_complete: "h' \<noteq> h \<Longrightarrow> keeps (row_kept h row) (complete_run env h' v paths)"
  by (auto simp: keeps_def row_kept_def complete_run_def complete_pipeline_run_def get_run_update split: sum.splits)

lemma execute_keeps_row:
  "h' \<noteq> h \<Longrightarrow> keeps (row_kept h row) (execute_pipeline fs env posture controls assets review included h' paths)"
  unfolding execute_pipeline_def by (intro keeps_bind keeps_pure keeps_row_steps keeps_row_complete)

lemma claim_other:
  "h' \<noteq> h \<Longrightarrow> get_pipeline_run h (snd (claim_pipeline_run h' now lease db)) = get_pipeline_run h db"
  by (auto simp: claim_pipeline_run_def Let_def get_run_update split: option.splits)
    (auto simp: get_pipeline_run_def find_append new_run_def split: option.splits)

lemma claim_completed:
  "get_pipeline_run h db = Some row \<Longrightarrow> pr_status row = RunCompleted \<Longrightarrow> claim_pipeline_run h now lease db = (False, db)"
  by (simp add: claim_pipeline_run_def Let_def)

lemma completed_is_duplicate:
  assumes "row_kept (run_hash posture controls assets review) row w" "pr_status row = RunCompleted"
    and "prepared fs getenv a posture controls assets = Inr paths"
  shows "run_pipeline fs getenv a env posture controls assets review w =
     (Inr (duplicate_result (run_hash posture controls assets review) paths (pw_state w)), w)"
  using assms claim_completed [of "run_hash posture controls assets review" "pw_state w" row]
  by (simp add: run_prepared claimed_run_def run_hash_def [symmetric] row_kept_def Let_def)

definition recorded_run :: "string \<Rightarrow> run_row \<Rightarrow> (string \<times> json) list \<Rightarrow> pipeline_world \<Rightarrow> bool" where
  "recorded_run h row ev w \<longleftrightarrow> pr_status row = RunCompleted \<and> row_kept h row w \<and> record_kept h ev w"

lemma run_keeps_recorded:
  assumes "json_wf posture" "json_wf controls" "json_wf assets" and kept: "recorded_run h row ev w"
  shows "recorded_run h row ev (snd (run_pipeline fs getenv a env posture controls assets review w))"
proof (cases "prepared fs getenv a posture controls assets")
  case (Inr paths)
  let ?h = "run_hash posture controls assets review"
  obtain p cs rows where v: "posture = JObj p" "controls = JList cs" "assets = JList rows" by (rule prepared_inputs [OF Inr])
  show ?thesis
  proof (cases "?h = h")
    case True
    then have "row_kept ?h row w" "pr_status row = RunCompleted" using kept by (simp_all add: recorded_run_def)
    from completed_is_duplicate [OF this Inr] show ?thesis using kept by simp
  next
    case False
    obtain c db where c: "claim_pipeline_run ?h (re_claimed env) (pa_lease_seconds a) (pw_state w) = (c, db)" by fastforce
    let ?m = "execute_pipeline fs env p (JList cs) (JList rows) (effective_review review) (truthy review) ?h paths"
    have db: "get_pipeline_run h db = Some row" using claim_other [OF False, of "re_claimed env" "pa_lease_seconds a" "pw_state w"] c kept
      by (simp add: recorded_run_def row_kept_def)
    obtain r w1 where m: "?m (w\<lparr>pw_state := db\<rparr>) = (r, w1)" by fastforce
    have wf: "json_wf (JObj p)" "list_all json_wf cs" "list_all json_wf rows" using assms(1-3) by (simp_all add: v)
    have "row_kept h row w1" by (rule keepsD [OF execute_keeps_row [OF False] m]) (simp add: row_kept_def db)
    moreover have "record_kept h ev w1" by (rule keepsD [OF execute_keeps_record [OF wf] m])
      (use kept in \<open>simp add: recorded_run_def record_kept_def\<close>)
    moreover have "pr_status row = RunCompleted" using kept by (simp add: recorded_run_def)
    moreover have hash: "input_hash (JObj p) (JList cs) (JList rows) (effective_review review) = ?h"
      by (simp add: run_hash_def v fields_of_def)
    ultimately show ?thesis
      using c m kept db False Inr
      by (cases c; cases r) (simp_all add: run_prepared claimed_run_def hash Let_def recorded_run_def row_kept_def
          record_kept_def fail_pipeline_run_def get_run_update fields_of_def [of "JObj p"] v)
  qed
qed (use kept in \<open>simp add: run_prepared\<close>)

lemma run_all_keeps_recorded:
  "list_all wf_call calls \<Longrightarrow> recorded_run h row ev w \<Longrightarrow> recorded_run h row ev (run_all fs getenv calls w)"
proof (induction calls arbitrary: w)
  case (Cons c calls)
  obtain a env posture controls assets review where c: "c = (a, env, posture, controls, assets, review)" by (cases c) auto
  then show ?case using Cons run_keeps_recorded [of posture controls assets] by simp
qed simp


end
