(* ===== verification/Pipeline_Examples.thy ===== *)
theory Pipeline_Examples
  imports Pipeline_Records Worker_Properties Ingestion_Examples Ledger_Examples
begin

text \<open>
  One control, one registered asset and an empty world: the properties of the remediation queue, the tickets, the pipeline and the
  worker at inputs where every hypothesis holds.
\<close>

section \<open>Paths, queue, exceptions and tickets\<close>

definition demo_fs :: filesystem where
  "demo_fs = \<lparr>fs_cwd = [''srv''], fs_home = (\<lambda>_. None), fs_real = (\<lambda>p. p)\<rparr>"

theorem outputs_are_confined_witness:
  "allowed_output_path demo_fs ''runtime/tickets/ev-1.json'' [''srv''] ''path'' = Inr [''srv'', ''runtime'', ''tickets'', ''ev-1.json'']
   \<and> portable_id ''ev-1''"
proof -
  have run: "allowed_output_path demo_fs ''runtime/tickets/ev-1.json'' [''srv''] ''path'' = Inr [''srv'', ''runtime'', ''tickets'', ''ev-1.json'']"
    by code_simp
  have "[''runtime'', ''tickets'', ''ev-1.json''] \<notin> split_at slash ` set fixed_outputs" by code_simp
  then show ?thesis using outputs_are_confined [OF run] run by (auto simp: Cons_eq_append_conv)
qed

definition demo_asset :: "(string \<times> json) list" where
  "demo_asset = [(''asset_id'', JStr ''A-1''), (''hostname'', JStr ''lap-1''), (''business_service'', JStr ''Sales''), (''criticality'', JStr ''high'')]"

definition demo_assets :: json where
  "demo_assets = JList [JObj demo_asset]"

lemma demo_queue:
  "\<exists>q. build_remediation_queue ''2026-07-01'' (JList [JObj demo_control]) demo_posture demo_assets = Inr q \<and> dict_get ''risk_score'' q = JInt 18"
proof -
  have "(case build_remediation_queue ''2026-07-01'' (JList [JObj demo_control]) demo_posture demo_assets of
      Inr q \<Rightarrow> dict_get ''risk_score'' q = JInt 18 | Inl e \<Rightarrow> False)" by code_simp
  then show ?thesis by (auto split: sum.splits)
qed

theorem queue_holds_failed_controls_witness:
  "\<exists>q found. build_remediation_queue ''2026-07-01'' (JList [JObj demo_control]) demo_posture demo_assets = Inr q
     \<and> dict_get ''findings'' q = JList (map JObj found) \<and> length found = 1"
proof -
  obtain q where q: "build_remediation_queue ''2026-07-01'' (JList [JObj demo_control]) demo_posture demo_assets = Inr q"
    "dict_get ''risk_score'' q = JInt 18" using demo_queue by blast
  from queue_holds_failed_controls [OF q(1)] obtain a results found where f:
    "map_outcome (\<lambda>c. evaluate_control c (JObj (dict_put ''criticality'' (dict_get ''criticality'' a) demo_posture))) [JObj demo_control] = Inr results"
    "dict_get ''findings'' q = JList (map JObj found)" "map (dict_get ''control'') found = map JObj (failed_results results)"
    "dict_get ''risk_score'' q = JInt (sum_list (map risk_of (failed_results results)))" by blast
  then obtain x where "results = [x]" by (auto simp: outcome_simps)
  then have "length (failed_results results) \<le> 1" "failed_results results \<noteq> []" using f(4) q(2) by (auto simp: failed_results_def)
  then have "length (failed_results results) = 1" by (cases "failed_results results") auto
  then have "length found = 1" using arg_cong [OF f(3), of length] by simp
  then show ?thesis using q(1) f(2) by blast
qed

definition demo_findings_queue :: "(string \<times> json) list" where
  "demo_findings_queue = [(''findings'', JList [JObj [(''finding_id'', JStr ''A-1:C-7''), (''status'', JStr ''open''), (''exception'', JNull)]])]"

theorem exceptions_end_witness:
  "\<exists>q' granted. approve_exception 20 demo_findings_queue ''A-1:C-7'' ''ciso'' ''vendor fix pending'' ''0001-01-31'' = Inr q'
     \<and> dict_get ''findings'' q' = JList [JObj granted] \<and> dict_get ''status'' granted = JStr ''accepted-risk''
     \<and> (\<exists>q''. expire_exceptions 30 q' = Inr q'' \<and> dict_get ''findings'' q'' = JList [JObj granted])
     \<and> (\<exists>q'' kvs. expire_exceptions 31 q' = Inr q'' \<and> dict_get ''findings'' q'' = JList [JObj kvs]
          \<and> dict_get ''status'' kvs = JStr ''open'')"
proof -
  have date: "date_fromisoformat ''0001-01-31'' = Some 31"
    by (simp add: date_fromisoformat_def date_ordinal_def iso_date_def iso_calendar_def digits_nat_def read_nat_def digit_val_def is_digit_def
        calendar_date_ok_def days_in_month_def ordinal_def days_before_year_def days_before_month_def Let_def)
  have "\<exists>q'. approve_exception 20 demo_findings_queue ''A-1:C-7'' ''ciso'' ''vendor fix pending'' ''0001-01-31'' = Inr q'"
  proof -
    have "py_strip ''ciso'' \<noteq> []" "py_strip ''vendor fix pending'' \<noteq> []" by code_simp+
    then show ?thesis
      by (simp add: approve_exception_def date demo_findings_queue_def get_item_def obj_get_def iterate_def subscript_def dict_get_def)
  qed
  then obtain q' where q': "approve_exception 20 demo_findings_queue ''A-1:C-7'' ''ciso'' ''vendor fix pending'' ''0001-01-31'' = Inr q'" by blast
  from exceptions_end [OF q'] obtain expiry before kvs after granted where
    f: "dict_get ''findings'' demo_findings_queue = JList (before @ JObj kvs # after)"
      "dict_get ''findings'' q' = JList (before @ JObj granted # after)" "dict_get ''status'' granted = JStr ''accepted-risk''"
      "date_fromisoformat ''0001-01-31'' = Some expiry"
      "\<forall>day. expire_exceptions day q' =
          outcome_bind (map_outcome (expire_one day) before) (\<lambda>bs. outcome_bind (map_outcome (expire_one day) after) (\<lambda>as.
            Inr (dict_put ''findings'' (JList (bs @ JObj (if expiry \<le> day
              then dict_put ''exception_status'' (JStr ''expired'') (dict_put ''status'' (JStr ''open'') granted)
              else granted) # as)) q')))" by blast
  have "\<exists>x. dict_get ''findings'' demo_findings_queue = JList [x]"
    by (simp add: demo_findings_queue_def dict_get_def obj_get_def)
  then have one: "before = []" "after = []" using f(1) by (auto simp: append_eq_Cons_conv)
  have "expiry = 31" using f(4) date by simp
  then show ?thesis using q' f(2,3,5) by (simp add: one field_get_put)
qed

definition demo_remediation :: "(string \<times> json) list" where
  "demo_remediation = [(''findings'', JList [JObj [(''finding_id'', JStr ''A-1:C-7''), (''asset'', JObj demo_asset), (''status'', JStr ''open''),
     (''control'', JObj [(''control_name'', JStr ''Patch age''), (''severity'', JStr ''high''), (''owner'', JStr ''ops'')])]])]"

definition demo_review :: "(string \<times> json) list" where
  "demo_review = [(''reviewed_at'', JStr ''2026-06-30''), (''users'', JList
     [JObj [(''sam_account_name'', JStr ''svc''), (''stale'', JBool True), (''privileged'', JBool True)],
      JObj [(''sam_account_name'', JStr ''ann''), (''stale'', JBool False), (''enabled'', JBool True)]])]"

theorem open_work_gets_tickets_witness:
  "\<exists>r tickets. generate_tickets (JObj demo_remediation) (JObj demo_review) 0 = Inr r
     \<and> dict_get ''tickets'' r = JList (map JObj tickets) \<and> map (dict_get ''source'') tickets = [JStr ''A-1:C-7'', JStr ''AD:svc:2026-06-30'']"
proof -
  have lists: "dict_get_or ''findings'' (JList []) demo_remediation = JList [JObj [(''finding_id'', JStr ''A-1:C-7''), (''asset'', JObj demo_asset),
      (''status'', JStr ''open''), (''control'', JObj [(''control_name'', JStr ''Patch age''), (''severity'', JStr ''high''), (''owner'', JStr ''ops'')])]]"
    "dict_get_or ''users'' (JList []) demo_review = JList
     [JObj [(''sam_account_name'', JStr ''svc''), (''stale'', JBool True), (''privileged'', JBool True)],
      JObj [(''sam_account_name'', JStr ''ann''), (''stale'', JBool False), (''enabled'', JBool True)]]"
    by (simp_all add: demo_remediation_def demo_review_def dict_get_or_def obj_get_def)
  note unfolds = attribute_get_def subscript_def get_item_def dict_get_or_def dict_get_def obj_get_def make_ticket_def sla_item_def sla_def
    source_ticket_id_def due_text_def time_end_def day_us_def seconds_def ticket_asset_def demo_asset_def
  obtain t1 where t1: "finding_ticket 0 (JObj [(''finding_id'', JStr ''A-1:C-7''), (''asset'', JObj demo_asset), (''status'', JStr ''open''),
     (''control'', JObj [(''control_name'', JStr ''Patch age''), (''severity'', JStr ''high''), (''owner'', JStr ''ops'')])]) = Inr t1"
    by (simp add: finding_ticket_def unfolds)
  obtain t2 where t2: "account_ticket demo_review 0 (JObj [(''sam_account_name'', JStr ''svc''), (''stale'', JBool True), (''privileged'', JBool True)]) = Inr t2"
    by (simp add: account_ticket_def account_review_def unfolds Let_def)
  have t3: "account_ticket demo_review 0 (JObj [(''sam_account_name'', JStr ''ann''), (''stale'', JBool False), (''enabled'', JBool True)]) = Inr []"
    by (simp add: account_ticket_def account_review_def unfolds Let_def)
  have "\<exists>r. generate_tickets (JObj demo_remediation) (JObj demo_review) 0 = Inr r"
    by (simp add: generate_tickets_def attribute_get_def lists iterate_def t1 t2 t3)
  then obtain r where r: "generate_tickets (JObj demo_remediation) (JObj demo_review) 0 = Inr r" by blast
  from open_work_gets_tickets [OF r lists] obtain tickets where t: "dict_get ''tickets'' r = JList (map JObj tickets)"
    "list_all2 (ticket_for 0) [JStr ''A-1:C-7'', JStr ''AD:svc:2026-06-30''] tickets"
    by (auto simp: open_finding_def review_due_def fields_of_def dict_get_def obj_get_def account_source_def demo_review_def)
  then show ?thesis using r by (auto simp: list_all2_Cons1 ticket_for_def)
qed

section \<open>A pipeline run\<close>

definition demo_pass_control :: "(string \<times> json) list" where
  "demo_pass_control = dict_put ''max_value'' (JInt 60) demo_control"

definition demo_input :: "(string \<times> json) list" where
  "demo_input = [(''asset_id'', JStr ''A-1''), (''criticality'', JStr ''low''), (''hostname'', JStr ''lap-1''), (''patch_age_days'', JInt 31)]"

definition demo_args :: pipeline_args where
  "demo_args = \<lparr>pa_ledger = ''/srv/ledger.jsonl'', pa_remediation = ''/srv/remediation/ev-1.json'', pa_tickets = ''/srv/tickets/ev-1.json'',
     pa_report = ''/srv/reports/ev-1.json'', pa_state_db = ''/srv/state.db'', pa_audit = None, pa_governance = None, pa_lease_seconds = 300,
     pa_runtime_root = Some ''/srv''\<rparr>"

definition demo_upsert_env :: Governance_Types.env where
  "demo_upsert_env = \<lparr>clock = 0, clock2 = 0, row_uuid = [], event_uuid = [], outbox_uuid = [], export_uuid = []\<rparr>"

definition demo_run_env :: run_env where
  "demo_run_env = \<lparr>re_claimed = 10, re_today = ''2026-07-01'', re_upserts = (\<lambda>_. (demo_upsert_env, demo_upsert_env)),
     re_recorded = ''2026-07-01T00:00:00Z'', re_created = 0, re_remediation = FileWritten, re_tickets = FileWritten, re_report = FileWritten,
     re_completed = 20, re_audit = \<lparr>ae_recorded = [], ae_stamp = []\<rparr>, re_failed = 30, re_message = (\<lambda>_. ''error'')\<rparr>"

definition demo_pipeline_world :: pipeline_world where
  "demo_pipeline_world = \<lparr>pw_state = empty_state, pw_ledger = None, pw_audit = None, pw_gov = empty_gov, pw_files = []\<rparr>"

definition demo_paths :: pipeline_paths where
  "demo_paths = \<lparr>pt_root = [''srv''], pt_ledger = ''/srv/ledger.jsonl'', pt_remediation = ''/srv/remediation/ev-1.json'',
     pt_tickets = ''/srv/tickets/ev-1.json'', pt_report = ''/srv/reports/ev-1.json'', pt_state_db = ''/srv/state.db'',
     pt_audit = None, pt_governance = None\<rparr>"

lemma demo_prepared:
  "prepared demo_fs (\<lambda>_. None) demo_args (JObj demo_input) (JList [JObj demo_pass_control]) demo_assets = Inr demo_paths"
  by code_simp

lemma demo_outputs:
  "allowed_output_path demo_fs (pt_remediation demo_paths) [''srv''] ''pipeline output path'' = Inr [''srv'', ''remediation'', ''ev-1.json'']"
  "allowed_output_path demo_fs (pt_tickets demo_paths) [''srv''] ''pipeline output path'' = Inr [''srv'', ''tickets'', ''ev-1.json'']"
  "allowed_output_path demo_fs (pt_report demo_paths) [''srv''] ''pipeline output path'' = Inr [''srv'', ''reports'', ''ev-1.json'']"
  by code_simp+

lemma demo_evaluated:
  "registered_asset demo_assets demo_input = Inr demo_asset" "get_item ''criticality'' demo_asset = Inr (JStr ''high'')"
  "\<exists>r. outcome_bind (iterate (JList [JObj demo_pass_control])) (map_outcome (\<lambda>c. evaluate_control c
      (JObj (dict_put ''criticality'' (JStr ''high'') demo_input)))) = Inr [r] \<and> dict_get ''passed'' r = JBool True"
  "\<exists>q. build_remediation_queue ''2026-07-01'' (JList [JObj demo_pass_control]) demo_input demo_assets = Inr q
      \<and> dict_get ''findings'' q = JList []"
proof -
  show "registered_asset demo_assets demo_input = Inr demo_asset" by code_simp
  show "get_item ''criticality'' demo_asset = Inr (JStr ''high'')" by code_simp
  have "(case outcome_bind (iterate (JList [JObj demo_pass_control])) (map_outcome (\<lambda>c. evaluate_control c
      (JObj (dict_put ''criticality'' (JStr ''high'') demo_input)))) of Inr [r] \<Rightarrow> dict_get ''passed'' r = JBool True | _ \<Rightarrow> False)" by code_simp
  then show "\<exists>r. outcome_bind (iterate (JList [JObj demo_pass_control])) (map_outcome (\<lambda>c. evaluate_control c
      (JObj (dict_put ''criticality'' (JStr ''high'') demo_input)))) = Inr [r] \<and> dict_get ''passed'' r = JBool True"
    by (auto split: sum.splits list.splits)
  have "(case build_remediation_queue ''2026-07-01'' (JList [JObj demo_pass_control]) demo_input demo_assets of
      Inr q \<Rightarrow> dict_get ''findings'' q = JList [] | Inl e \<Rightarrow> False)" by code_simp
  then show "\<exists>q. build_remediation_queue ''2026-07-01'' (JList [JObj demo_pass_control]) demo_input demo_assets = Inr q
      \<and> dict_get ''findings'' q = JList []" by (auto split: sum.splits)
qed

lemma demo_write:
  assumes "allowed_output_path demo_fs path [''srv''] ''pipeline output path'' = Inr q"
  shows "\<exists>w'. write_json demo_fs path value [''srv''] FileWritten w = (Inr q, w')"
  using assms by (simp add: write_json_def write_text_under_root_def)

lemma demo_executed:
  assumes "pw_ledger w = None"
  shows "\<exists>r w'. execute_pipeline demo_fs demo_run_env demo_input (JList [JObj demo_pass_control]) demo_assets (effective_review JNull)
      included h demo_paths w = (Inr r, w') \<and> dict_get ''status'' r = JStr ''accepted''"
proof -
  obtain res where res: "outcome_bind (iterate (JList [JObj demo_pass_control])) (map_outcome (\<lambda>c. evaluate_control c
      (JObj (dict_put ''criticality'' (JStr ''high'') demo_input)))) = Inr [res]" "dict_get ''passed'' res = JBool True"
    using demo_evaluated(3) by blast
  obtain q where q: "build_remediation_queue (re_today demo_run_env) (JList [JObj demo_pass_control]) demo_input demo_assets = Inr q"
    "dict_get ''findings'' q = JList []" using demo_evaluated(4) by (auto simp: demo_run_env_def)
  have upsert: "enter_queue demo_run_env demo_paths q w = (Inr (), w)" by (simp add: enter_queue_def demo_paths_def)
  let ?extra = "Some [(''input_hash'', JStr h), (''pipeline_run_id'', JStr (run_name h))]"
  let ?e = "next_evidence (re_recorded demo_run_env) demo_input [res] ?extra None"
  have wf: "json_wf (JObj res)"
  proof -
    have "evaluate_control (JObj demo_pass_control) (JObj (dict_put ''criticality'' (JStr ''high'') demo_input)) = Inr res"
      using res(1) by (auto simp: iterate_def outcome_simps)
    moreover have "json_wf (JObj demo_pass_control)" "json_wf (JObj (dict_put ''criticality'' (JStr ''high'') demo_input))" by code_simp+
    ultimately show ?thesis using results_wf by blast
  qed
  have clean: "clean_evidence (re_recorded demo_run_env, demo_input, [res], ?extra)" using wf by (simp add: demo_input_def)
  obtain ledger where "append_evidence_atomic (re_recorded demo_run_env) demo_input [res] ?extra None = (Inr ?e, ledger)"
    using append_result [OF ledger_sound_verified [OF None_sound]] by blast
  then obtain w1 where kept: "ledger_record demo_run_env h demo_input [res] w = (Inr ?e, w1)"
    using assms by (auto simp: ledger_record_def find_ledger_record_def)
  obtain x where x: "dict_get ''record_hash'' ?e = JStr x"
    using new_line(4) [OF ledger_sound_verified [OF None_sound] clean] by (auto simp: dict_get_def)
  have tickets: "generate_tickets (JObj q) (effective_review JNull) (re_created demo_run_env) =
      Inr [(''schema_version'', JStr ''1.0''), (''generated_at'', JStr (utc_text 0)), (''tickets'', JList []), (''auto_remediation'', JBool False)]"
  proof -
    have "dict_get_or ''findings'' (JList []) q = JList []" using q(2) by (auto simp: dict_get_def dict_get_or_def split: option.splits)
    then show ?thesis
      by (simp add: generate_tickets_def attribute_get_def iterate_def effective_review_def py_or_def dict_get_or_def obj_get_Cons demo_run_env_def)
  qed
  have root: "pt_root demo_paths = [''srv'']" and io: "re_remediation demo_run_env = FileWritten" "re_tickets demo_run_env = FileWritten"
    "re_report demo_run_env = FileWritten" by (simp_all add: demo_paths_def demo_run_env_def)
  have report: "\<exists>rep. executive_report rid created demo_asset [res] q t v inc = Inr rep" for rid created t v inc
    by (simp add: executive_report_def demo_asset_def get_item_def obj_get_Cons)
  note wr = demo_write [OF demo_outputs(1)] demo_write [OF demo_outputs(2)] demo_write [OF demo_outputs(3)]
  have complete: "\<exists>w'. complete_run demo_run_env h (JStr x) demo_paths w = (Inr (), w')" for w by (simp add: complete_run_def)
  have audit: "audit_completion demo_run_env rid aid v n demo_paths w = (Inr (), w)" for rid aid v n w
    by (simp add: audit_completion_def demo_paths_def)
  obtain w2 where w2: "write_json demo_fs (pt_remediation demo_paths) q [''srv''] FileWritten w1 = (Inr [''srv'', ''remediation'', ''ev-1.json''], w2)"
    using wr(1) by blast
  let ?t = "[(''schema_version'', JStr ''1.0''), (''generated_at'', JStr (utc_text 0)), (''tickets'', JList []), (''auto_remediation'', JBool False)]"
  obtain w3 where w3: "write_json demo_fs (pt_tickets demo_paths) ?t [''srv''] FileWritten w2 = (Inr [''srv'', ''tickets'', ''ev-1.json''], w3)"
    using wr(2) by blast
  obtain rep where rep: "executive_report (run_name h) (re_created demo_run_env) demo_asset [res] q ?t (JStr x) included = Inr rep"
    using report by blast
  obtain w4 where w4: "write_json demo_fs (pt_report demo_paths) rep [''srv''] FileWritten w3 = (Inr [''srv'', ''reports'', ''ev-1.json''], w4)"
    using wr(3) by blast
  obtain w5 where w5: "complete_run demo_run_env h (JStr x) demo_paths w4 = (Inr (), w5)" using complete by blast
  show ?thesis
    by (simp add: execute_pipeline_def step_bind_def pure_step_def demo_evaluated(1,2) res(1) q(1) upsert kept tickets root io w2 w3 x rep w4 w5 audit)
      (simp add: accepted_result_def field_get_Cons)
qed

lemma demo_accepted:
  assumes "pw_ledger w = None" "get_pipeline_run (run_hash (JObj demo_input) (JList [JObj demo_pass_control]) demo_assets JNull) (pw_state w) = None"
  shows "\<exists>r w'. run_pipeline demo_fs (\<lambda>_. None) demo_args demo_run_env (JObj demo_input) (JList [JObj demo_pass_control]) demo_assets JNull w
      = (Inr r, w') \<and> dict_get ''status'' r = JStr ''accepted''"
proof -
  let ?h = "run_hash (JObj demo_input) (JList [JObj demo_pass_control]) demo_assets JNull"
  obtain db where db: "claim_pipeline_run ?h 10 300 (pw_state w) = (True, db)" using assms(2) by (simp add: claim_pipeline_run_def)
  have "pw_ledger (w\<lparr>pw_state := db\<rparr>) = None" using assms(1) by simp
  from demo_executed [OF this, of False ?h] obtain r w' where
    "execute_pipeline demo_fs demo_run_env demo_input (JList [JObj demo_pass_control]) demo_assets (effective_review JNull) False ?h
       demo_paths (w\<lparr>pw_state := db\<rparr>) = (Inr r, w')" "dict_get ''status'' r = JStr ''accepted''" by blast
  moreover have "re_claimed demo_run_env = 10" "pa_lease_seconds demo_args = 300" by (simp_all add: demo_run_env_def demo_args_def)
  ultimately show ?thesis using db
    by (simp add: run_prepared demo_prepared claimed_run_def run_hash_def [symmetric] fields_of_def Let_def)
      (simp add: run_hash_def fields_of_def)
qed

definition demo_call :: pipeline_call where
  "demo_call = (demo_args, demo_run_env, JObj demo_input, JList [JObj demo_pass_control], demo_assets, JNull)"

lemma demo_wf: "json_wf (JObj demo_input)" "json_wf (JList [JObj demo_pass_control])" "json_wf demo_assets"
  by code_simp+

lemma None_once: "ledger_once None"
  by (simp add: ledger_once_def None_sound recorded_inputs_def ledger_lines_def ledger_text_def py_splitlines_def)

abbreviation demo_hash :: string where
  "demo_hash \<equiv> run_hash (JObj demo_input) (JList [JObj demo_pass_control]) demo_assets JNull"

lemma demo_world_fresh: "pw_ledger demo_pipeline_world = None" "get_pipeline_run h (pw_state demo_pipeline_world) = None"
  by (simp_all add: demo_pipeline_world_def empty_state_def get_pipeline_run_def)



theorem failed_runs_can_be_retried_witness:
  "\<exists>e w' row. run_pipeline demo_fs (\<lambda>_. None) demo_args demo_run_env (JObj demo_input) (JList []) (JList []) JNull demo_pipeline_world = (Inl e, w')
     \<and> get_pipeline_run (run_hash (JObj demo_input) (JList []) (JList []) JNull) (pw_state w') = Some row \<and> pr_status row = RunFailed"
proof -
  let ?h = "run_hash (JObj demo_input) (JList []) (JList []) JNull"
  have prep: "prepared demo_fs (\<lambda>_. None) demo_args (JObj demo_input) (JList []) (JList []) = Inr demo_paths" by code_simp
  obtain e where e: "registered_asset (JList []) demo_input = Inl e" by (simp add: registered_asset_def index_assets_def iterate_def
      key_get_def demo_input_def field_get_Cons)
  let ?db = "empty_state\<lparr>st_runs := [new_run ?h 10 (10 + seconds 300)]\<rparr>" and ?w = "demo_pipeline_world"
  have claim: "claim_pipeline_run ?h 10 300 (pw_state ?w) = (True, ?db)"
    by (simp add: claim_pipeline_run_def get_pipeline_run_def empty_state_def demo_pipeline_world_def)
  have raised: "execute_pipeline demo_fs demo_run_env demo_input (JList []) (JList []) review inc ?h demo_paths w = (Inl e, w)" for review inc w
    by (simp add: execute_pipeline_def step_bind_def pure_step_def e)
  have times: "re_claimed demo_run_env = 10" "pa_lease_seconds demo_args = 300" by (simp_all add: demo_run_env_def demo_args_def)
  have hash: "input_hash (JObj demo_input) (JList []) (JList []) (effective_review JNull) = ?h" by (simp add: run_hash_def fields_of_def)
  obtain w' where run: "run_pipeline demo_fs (\<lambda>_. None) demo_args demo_run_env (JObj demo_input) (JList []) (JList []) JNull ?w = (Inl e, w')"
    and st: "pw_state w' = fail_pipeline_run ?h (message_text (re_message demo_run_env) e) (re_failed demo_run_env) ?db"
    using claim raised by (simp add: run_prepared prep claimed_run_def hash times Let_def fields_of_def [of "JObj demo_input"])
  have "st_runs (pw_state w') \<noteq> []" by (simp add: st fail_pipeline_run_def set_run_def)
  then have w': "w' \<noteq> ?w" by (auto simp: demo_pipeline_world_def empty_state_def)
  from failed_runs_can_be_retried [OF run] run w' show ?thesis by blast
qed

end
