(* ===== verification/Worker_Examples.thy ===== *)
theory Worker_Examples
  imports Pipeline_Examples Governance_Opening Governance_Examples
begin

text \<open>
  A worker with one job over one file of its inbox: the properties of the worker and of the path from a request to the pipeline at
  inputs where every hypothesis holds.
\<close>

definition demo_input_bytes :: "byte list" where
  "demo_input_bytes = utf8_encode (json_dumps compact_ascii (JObj demo_input))"

definition demo_options :: worker_options where
  "demo_options = \<lparr>wo_max_attempts = 3, wo_retry_delay = 60, wo_audit = None, wo_lease_seconds = 300, wo_runtime_root = Some ''/srv'',
     wo_governance = None\<rparr>"

definition demo_worker_paths :: worker_paths where
  "demo_worker_paths = \<lparr>wp_inbox = [''srv'', ''inbox''], wp_root = [''srv''], wp_ledger = ''/srv/ledger.jsonl'', wp_state_db = ''/srv/state.db'',
     wp_remediation = [''srv'', ''remediation''], wp_tickets = [''srv'', ''tickets''], wp_reports = [''srv'', ''reports''],
     wp_audit = None, wp_governance = None\<rparr>"

definition demo_config :: worker_config where
  "demo_config = \<lparr>wc_options = demo_options, wc_paths = demo_worker_paths, wc_controls = JList [JObj demo_pass_control],
     wc_assets = demo_assets, wc_review = JNull, wc_failpoint = None, wc_worker = ''worker-1''\<rparr>"

definition demo_job_row :: job where
  "demo_job_row = \<lparr>jb_id = 1, jb_path = ''/srv/inbox/ev-1.json'', jb_status = Running, jb_attempts = 1, jb_available = 0,
     jb_locked_until = Some (seconds 300), jb_worker = Some ''worker-1'', jb_error = None\<rparr>"

definition demo_job_env :: job_env where
  "demo_job_env = \<lparr>je_renewed = Some 5, je_reading = [], je_run = demo_run_env, je_running = [], je_finished = 40\<rparr>"

definition demo_worker_world :: "pipeline_world \<Rightarrow> worker_world" where
  "demo_worker_world pw = \<lparr>ww_pipeline = pw, ww_jobs = [demo_job_row], ww_inbox = [(''ev-1.json'', Regular demo_input_bytes)]\<rparr>"

lemma demo_decoded: "decode_body demo_input_bytes = Inr (JObj demo_input)"
proof -
  have "json_loads (json_dumps compact_ascii (JObj demo_input)) = Some (json_canon (JObj demo_input))"
    by (rule json_roundtrip) (simp_all add: demo_input_def)
  moreover have "json_canon (JObj demo_input) = JObj demo_input" by code_simp
  ultimately show ?thesis by (simp add: decode_body_def demo_input_bytes_def)
qed

lemma demo_item: "validated_inbox_item demo_fs ''/srv/inbox/ev-1.json'' [''srv'', ''inbox''] = Inr [''srv'', ''inbox'', ''ev-1.json'']"
  "path_stem ''ev-1.json'' = ''ev-1''"
  by code_simp+

lemma demo_job_args: "job_args demo_worker_paths demo_options ''ev-1'' = demo_args"
  by code_simp

lemma demo_evidence_of:
  assumes "st_payloads (pw_state pw) = []"
  shows "evidence_of demo_fs demo_config demo_job_row (demo_worker_world pw) = Inr ([''srv'', ''inbox'', ''ev-1.json''], demo_input_bytes)"
  using assms
  by (simp add: evidence_of_def demo_config_def demo_worker_paths_def demo_job_row_def demo_item demo_worker_world_def read_claimed_payload_def
      find_payload_by_evidence_id_def read_evidence_bytes_def)

lemma demo_config_prepared:
  "prepared demo_fs (\<lambda>_. None) (job_args (wc_paths demo_config) (wc_options demo_config) (path_stem (last [''srv'', ''inbox'', ''ev-1.json''])))
     (JObj demo_input) (wc_controls demo_config) (wc_assets demo_config) = Inr demo_paths"
  using demo_prepared by (simp add: demo_config_def demo_job_args demo_item)

text \<open>A world in which another worker claimed the run of the input and crashed.\<close>

definition demo_crashed :: pipeline_world where
  "demo_crashed = demo_pipeline_world\<lparr>pw_state := empty_state\<lparr>st_runs := [new_run demo_hash 0 (seconds 300)]\<rparr>\<rparr>"

theorem interrupted_runs_lose_evidence_witness:
  "\<exists>f w'. process_claimed_job demo_fs (\<lambda>_. None) demo_config demo_job_env demo_job_row (demo_worker_world demo_crashed) = (Reported f, w')
     \<and> dict_get ''status'' f = JStr ''duplicate'' \<and> job_done 1 (ww_jobs w') \<and> pw_ledger (ww_pipeline w') = None"
proof -
  have strip: "py_strip ''worker-1'' \<noteq> []" by code_simp
  have "\<exists>f w'. process_claimed_job demo_fs (\<lambda>_. None) demo_config demo_job_env demo_job_row (demo_worker_world demo_crashed) = (Reported f, w')
     \<and> dict_get ''status'' f = JStr ''duplicate'' \<and> one_shot_exit_code [f] = 0 \<and> ww_pipeline w' = ww_pipeline (demo_worker_world demo_crashed)
     \<and> job_done (jb_id demo_job_row) (ww_jobs w')
     \<and> (\<forall>jid now. enqueue_job jid (jb_path demo_job_row) now (ww_jobs w') = (False, ww_jobs w'))"
  proof (rule interrupted_runs_lose_evidence [where renewed = 5 and posture = "JObj demo_input" and paths = demo_paths
        and run = "new_run demo_hash 0 (seconds 300)"])
    show "evidence_of demo_fs demo_config demo_job_row (demo_worker_world demo_crashed) = Inr ([''srv'', ''inbox'', ''ev-1.json''], demo_input_bytes)"
      by (rule demo_evidence_of) (simp add: demo_crashed_def empty_state_def)
    show "prepared demo_fs (\<lambda>_. None) (job_args (wc_paths demo_config) (wc_options demo_config)
        (path_stem (last [''srv'', ''inbox'', ''ev-1.json'']))) (JObj demo_input) (wc_controls demo_config) (wc_assets demo_config) = Inr demo_paths"
      by (rule demo_config_prepared)
  qed (use strip demo_decoded in \<open>simp_all add: demo_worker_world_def demo_job_row_def demo_job_env_def demo_config_def demo_options_def job_held_def
      seconds_def demo_crashed_def get_pipeline_run_def new_run_def demo_run_env_def\<close>)
  then show ?thesis by (auto simp: demo_worker_world_def demo_crashed_def demo_pipeline_world_def demo_job_row_def)
qed


definition demo_pending :: pipeline_world where
  "demo_pending = demo_pipeline_world\<lparr>pw_state := empty_state\<lparr>st_payloads :=
     [\<lparr>pl_hash = ''h'', pl_evidence = ''ev-1'', pl_accepted = 0, pl_status = PayloadPending\<rparr>]\<rparr>\<rparr>"

theorem unverified_evidence_is_not_processed_witness:
  "\<exists>r w'. process_claimed_job demo_fs (\<lambda>_. None) demo_config demo_job_env demo_job_row (demo_worker_world demo_pending) = (r, w')
     \<and> ww_pipeline w' = demo_pending"
proof -
  obtain r w' where run: "process_claimed_job demo_fs (\<lambda>_. None) demo_config demo_job_env demo_job_row (demo_worker_world demo_pending) = (r, w')"
    by fastforce
  have item: "validated_inbox_item demo_fs (jb_path demo_job_row) (wp_inbox (wc_paths demo_config)) = Inr [''srv'', ''inbox'', ''ev-1.json'']"
    by (simp add: demo_job_row_def demo_config_def demo_worker_paths_def demo_item)
  have row: "find_payload_by_evidence_id (path_stem (last [''srv'', ''inbox'', ''ev-1.json''])) (pw_state (ww_pipeline (demo_worker_world demo_pending)))
      = Some \<lparr>pl_hash = ''h'', pl_evidence = ''ev-1'', pl_accepted = 0, pl_status = PayloadPending\<rparr>"
    by (simp add: demo_item demo_worker_world_def demo_pending_def find_payload_by_evidence_id_def)
  from unverified_evidence_is_not_processed [OF run item row] run show ?thesis by (auto simp: demo_worker_world_def)
qed

definition demo_dirs :: worker_dirs where
  "demo_dirs = \<lparr>wd_inbox = ''/srv/inbox'', wd_ledger = ''/srv/ledger.jsonl'', wd_state_db = ''/srv/state.db'', wd_remediation = ''/srv/remediation'',
     wd_tickets = ''/srv/tickets'', wd_reports = ''/srv/reports''\<rparr>"

definition demo_pass_env :: pass_env where
  "demo_pass_env = \<lparr>pe_swept = 0, pe_rows = (\<lambda>n. (n + 1, 0)), pe_jobs = [(seconds 400, demo_job_env), (seconds 500, demo_job_env)], pe_worker = ''1''\<rparr>"

theorem passes_record_inputs_once_witness:
  "\<exists>ended results w'. process_inbox_once demo_fs (\<lambda>_. None) demo_dirs demo_options (JList [JObj demo_pass_control]) demo_assets JNull demo_pass_env
       (demo_worker_world demo_pipeline_world) = (ended, results, w')
     \<and> fst (verify_ledger (pw_ledger (ww_pipeline w'))) \<and> distinct (recorded_inputs (pw_ledger (ww_pipeline w')))"
proof -
  obtain ended results w' where run: "process_inbox_once demo_fs (\<lambda>_. None) demo_dirs demo_options (JList [JObj demo_pass_control]) demo_assets
      JNull demo_pass_env (demo_worker_world demo_pipeline_world) = (ended, results, w')" by (rule prod_cases3)
  have "ledger_once (pw_ledger (ww_pipeline (demo_worker_world demo_pipeline_world)))"
    by (simp add: demo_worker_world_def demo_world_fresh None_once)
  from passes_record_inputs_once [OF this demo_wf(2,3) run] run show ?thesis by blast
qed

theorem passes_end_witness:
  "\<exists>results w'. process_jobs demo_fs (\<lambda>_. None) demo_config [(seconds 400, demo_job_env\<lparr>je_renewed := None\<rparr>)] (demo_worker_world demo_pipeline_world)
       = (None, results, w') \<and> length results = 1 \<and> length (filter (\<lambda>r. \<not> lost_lease r) results) \<le> 3"
proof -
  have strip: "py_strip ''worker-1'' \<noteq> []" by code_simp
  have "\<exists>jb t. claim_job ''worker-1'' 300 (seconds 400) [demo_job_row] = (Inr (Some jb), t)"
    using strip by (simp add: claim_job_def select_first_def job_ready_def demo_job_row_def seconds_def)
  then obtain jb t where claim: "claim_job ''worker-1'' 300 (seconds 400) [demo_job_row] = (Inr (Some jb), t)" by blast
  then obtain results w' where run: "process_jobs demo_fs (\<lambda>_. None) demo_config [(seconds 400, demo_job_env\<lparr>je_renewed := None\<rparr>)]
      (demo_worker_world demo_pipeline_world) = (None, results, w')"
    by (simp add: demo_config_def demo_options_def demo_worker_world_def process_claimed_job_def Let_def)
  from passes_end [OF run] run show ?thesis by (auto simp: demo_worker_world_def demo_config_def demo_options_def)
qed

theorem opening_changes_nothing_witness:
  "events demo_created \<noteq> [] \<and> backfill_event_sequences (events demo_created) = Some (events demo_created)
   \<and> backfill_audit_exports demo_created = Inr (exports demo_created)"
  using opening_changes_nothing [OF demo_history(2), of demo_created] demo_events by auto

lemma empty_publication:
  assumes "st_payloads (sv_state sv) = []" "publish_new kind h eid body io t sv = (Inr u, sv')"
  shows "st_payloads (sv_state sv') = [\<lparr>pl_hash = h, pl_evidence = eid, pl_accepted = t, pl_status = PayloadCommitted\<rparr>]"
    and "st_runs (sv_state sv') = st_runs (sv_state sv)" "st_findings (sv_state sv') = st_findings (sv_state sv)"
    "st_events (sv_state sv') = st_events (sv_state sv)" "st_nonces (sv_state sv') = st_nonces (sv_state sv)"
  using assms
  by (auto simp: publish_new_def begin_payload_def add_payload_def find_payload_def write_evidence_def commit_payload_def Let_def
      split: if_splits prod.splits sum.splits)

theorem postures_reach_the_pipeline_witness:
  "\<exists>r sv' eid body. do_POST demo_post Written 1000 demo_server = (Inr (202, r), sv') \<and> dict_get ''evidence_id'' r = JStr eid
     \<and> authentic demo_post posture_scope 1000 demo_server body
     \<and> read_claimed_payload (sv_inbox sv' ''posture'') (evidence_file eid) (sv_state sv') = Inr body"
proof -
  let ?rt = "\<lparr>rt_kind = ''posture'', rt_scope = posture_scope, rt_record = posture_record\<rparr>"
  obtain r sv' where run: "do_POST demo_post Written 1000 demo_server = (Inr (202, r), sv')" using demo_sent by blast
  have route: "route_of (rq_path demo_post) = Some ?rt" by (simp add: route_of_def demo_post_def)
  obtain rt body canonical extra status eid sv1 where a: "route_of (rq_path demo_post) = Some rt"
    "read_authenticated_body demo_post (rt_scope rt) 1000 demo_server = (Inr body, sv1)" "rt_record rt body = Inr (canonical, extra)"
    "persist_validated_body (rt_kind rt) canonical Written (seconds 1000) sv1 = (Inr (status, eid), sv')"
    "r = [(''status'', JStr status), (''evidence_id'', JStr eid)] @ extra" by (rule accepted_request [OF run])
  have "same_but_nonces demo_server sv1" using read_changes_nonces [of demo_server demo_post "rt_scope rt" 1000] a(2) by simp
  then obtain n where n: "sv1 = demo_server\<lparr>sv_state := (sv_state demo_server)\<lparr>st_nonces := n\<rparr>\<rparr>" by (auto simp: same_but_nonces_def)
  have empty: "st_payloads (sv_state sv1) = []" "get_evidence_id h (sv_state sv1) = None" for h
    by (simp_all add: n demo_server_def empty_state_def get_evidence_id_def)
  obtain u where published: "publish_new (rt_kind rt) (sha256_hex canonical) (take 24 (sha256_hex canonical)) canonical Written (seconds 1000) sv1 = (Inr u, sv')"
    and status: "status = ''accepted''" using a(4) empty(2)
    by (auto simp: persist_validated_body_def Let_def split: prod.splits sum.splits)
  note rows = empty_publication [OF empty(1) published]
  have "dict_get ''status'' r = JStr ''accepted''" "dict_get ''evidence_id'' r = JStr eid" by (simp_all add: a(5) status field_get_Cons)
  from postures_reach_the_pipeline [OF run this(1) route _ this(2)] rows(1) run this(2) show ?thesis by auto
qed

end
