(* ===== verification/Spec2Isabelle.thy ===== *)
theory Spec2Isabelle
  imports Governance_Guards Governance_Examples Governance_Opening Queue_Examples Audit_Examples Connectors Bridge_Examples Ledger_Examples Agent_Keys Publication Ingestion Publication_Properties Ingestion_Properties Ingestion_Examples Path_Policy Remediation Pipeline Pipeline_Worker Remediation_Properties Pipeline_Properties Worker_Progress Worker_Properties Pipeline_Examples Worker_Examples
begin

text \<open>
  Verification library of SentinelGRC, a governance, risk and compliance program written in Python. The theories model the product's own
  code under \<open>src/\<close>: definitions are translated function by function and keep their names (a clash with a name of the library gets a
  suffix); theorems state what the code promises. Every definition computes, so that examples are evaluated by simplification.

  The program and its theories.
  \<^item> Evidence enters through \<open>scripts/ingestion_api.py\<close> (\<open>Ingestion\<close>): a signed request is authenticated against the keys of
    \<open>scripts/agent_keys.py\<close> (\<open>Agent_Keys\<close>), validated, and published as one file and one row of the state
    \<open>state_store.py\<close> (\<open>State_Store\<close>). \<open>publication_reconciliation.py\<close> (\<open>Publication\<close>) repairs interrupted publications.
  \<^item> \<open>scripts/pipeline_worker.py\<close> (\<open>Pipeline_Worker\<close>) turns the files of the inbox into jobs of \<open>job_queue.py\<close> or
    \<open>postgres_runtime_state.py\<close> (\<open>Job_Queue\<close>) and runs \<open>scripts/pipeline.py\<close> (\<open>Pipeline\<close>) on each: control evaluation and the
    evidence ledger of \<open>sentinelgrc.py\<close> (\<open>Evidence_Ledger\<close>), the remediation queue of \<open>scripts/governance.py\<close> and the tickets of
    \<open>scripts/workflow.py\<close> (\<open>Remediation\<close>), output files inside the boundary of \<open>path_security.py\<close> and \<open>scripts/path_policy.py\<close>
    (\<open>Path_Policy\<close>), and a record in the audit log \<open>audit_log.py\<close> (\<open>Audit_Log\<close>).
  \<^item> \<open>governance_core.py\<close> (\<open>Governance_Types\<close>, \<open>Governance_Core\<close>) holds the findings and their lifecycle. Each operation is a check
    on the state it read and a transaction that writes one event, one outbox row and one audit export. \<open>Governance_Opening\<close> covers the
    constructor on an existing database.
  \<^item> \<open>outbox_delivery.py\<close> and \<open>outbox_worker.py\<close> (\<open>Outbox_Delivery\<close>), \<open>audit_delivery.py\<close> and \<open>audit_worker.py\<close>
    (\<open>Audit_Delivery\<close>) and \<open>audit_archive.py\<close> (\<open>Audit_Archive\<close>) deliver these rows; \<open>evidence_store.py\<close> (\<open>Evidence_Store\<close>) keeps
    evidence under its digest. \<open>Delivery_System\<close> composes the core with both delivery queues on one database.
  \<^item> Records of other systems: \<open>connectors.py\<close> (\<open>Connectors\<close>); \<open>security_event_connector.py\<close> and \<open>jml_connector.py\<close>
    (\<open>Finding_Connectors\<close>); \<open>minisoar_connector.py\<close> (\<open>Mini_Soar\<close>); \<open>scripts/bridge_minisoar.py\<close> and \<open>scripts/bridge_jml.py\<close>
    (\<open>Bridges\<close>); the contracts \<open>contract_validation.py\<close>, \<open>portfolio_contracts.py\<close> and \<open>security_alert_contract.py\<close>
    (\<open>Contract_Validation\<close>, \<open>External_Contracts\<close>).
  \<^item> The language and its library: exceptions, tables and results (\<open>Prelude\<close>), text and bytes (\<open>Py_Text\<close>, \<open>Py_Values\<close>), JSON
    (\<open>Json\<close>, \<open>Json_Roundtrip\<close>), dates (\<open>Calendar\<close>), regular expressions (\<open>Patterns\<close>) and SHA-256 (\<open>Sha256\<close>).

  State and operations. A SQL table is a list of rows in the order of insertion, a database a record of tables; an operation maps its
  arguments, its environment (clock, generated identifiers) and the state to a result and a new state. An exception is a value of
  \<open>py_error\<close> on the left of a sum. A transaction is one step; the check of a governance operation is a step of its own, so that histories
  (\<open>Governance_Steps\<close>) cover a check whose answer is stale when the transaction commits.

  Contracts as locales. \<open>hash_chain\<close> and \<open>fresh_chain\<close> (\<open>Hash_Chain\<close>) hold the lemmas on chains of hashed records;
  \<open>line_chain\<close> (\<open>Line_Chain\<close>) those on files of such records; both are interpreted on the governance events, the audit log and the evidence
  ledger. \<open>leased_queue\<close> and its extensions (\<open>Leased_Queue\<close>) state exclusive processing under leases, interpreted on both job queues,
  the outbox and the audit exports. \<open>replay_guard\<close> (\<open>Replay_Guard\<close>) states single admission, interpreted on the nonces of both ingestion
  stores and on the event stores. \<open>evidence_backend\<close> and \<open>audit_backend\<close> are the stores, interpreted on memory and directory stores.

  What is shown.
  \<^item> Governance (\<open>Governance_Chain\<close>, \<open>Governance_Duties\<close>, \<open>Governance_Lifecycle\<close>, \<open>Governance_Guards\<close>): the event chain of
    every reachable database verifies, a change of it is found unless two texts have one hash, operations refine the documented lifecycle,
    closure is backed by an approved treatment and independent verification, every operation asks for its roles and statuses and writes its
    records and one event, failed operations change nothing, and a stale check can be exploited.
  \<^item> Delivery (\<open>Outbox_Properties\<close>, \<open>Export_Properties\<close>, \<open>Delivery_System\<close>, \<open>Job_Properties\<close>): order, exclusive claims, progress.
  \<^item> Logs (\<open>Audit_Log_Properties\<close>, \<open>Audit_Log_Theorems\<close>, \<open>Ledger_Properties\<close>): appends keep a log verifiable; the exact texts and
    endings of a file for which they do not.
  \<^item> Ingestion (\<open>State_Properties\<close>, \<open>Publication_Properties\<close>, \<open>Ingestion_Properties\<close>): accepted evidence is authentic and stored,
    refused requests leave nothing but a nonce, interrupted publications are repaired, early requests can be replayed.
  \<^item> Pipeline (\<open>Remediation_Properties\<close>, \<open>Pipeline_Properties\<close>, \<open>Pipeline_Records\<close>, \<open>Worker_Progress\<close>,
    \<open>Worker_Properties\<close>): over sequences of complete runs every input is recorded at most once and an accepted run stays recorded;
    failed runs can be retried, a pass over the inbox ends, an accepted posture is read
    unchanged by the worker, and an interrupted run can lose its evidence.
  \<^item> Contracts and connectors (\<open>Contract_Properties\<close>, \<open>Adapter_Properties\<close>, \<open>Bridge_Properties\<close>, \<open>Bridge_Audit\<close>): accepted forms,
    instants of timestamps, single import, trusted bundles, and what the JML bridge audits over sequences of runs.
  The theories with \<open>Examples\<close> in their name evaluate each theorem with hypotheses at a concrete input.

  Bounds and fuel. The JSON reader recurses on fuel above twice the length of its text; \<open>json_value_fuel\<close> shows that more fuel gives the same
  result. The activation of the write-ahead log is bounded by its deadline. A pass of a
  worker recurses on a list of environments, one for each claim, and tells whether it ended; \<open>passes_end\<close> bounds the claims needed.

  Limits of the model. A character is one code point below 256, so that text properties do not speak of the separators U+2028 and U+2029 or of
  the characters U+200B and U+FEFF that the contracts exclude. A pipeline run is one step, although the code looks the input up in the ledger
  and appends to it under separate locks and other runs can come between: the properties of runs are about sequences of complete runs; claims,
  completions and failures of runs in the state do interleave (\<open>State_Properties\<close>). Floating-point numbers are exact, in millionths. Writers under a file lock or in
  a SQL transaction are single steps. How far a write gets, clock readings and generated identifiers are arguments. The file system enters as a
  function that resolves links, services and cryptography outside \<open>src/\<close> (Azure clients, secrets) as parameters with named hypotheses.

  Not modelled: process loops, sockets, TLS, argument parsing and schema upgrades (I/O); the gate harnesses, collectors and Azure validators of
  the release process, which drive and measure the program and hold no state of it; token, certificate and envelope
  checks, which wrap cryptography that is not under \<open>src/\<close>; PostgreSQL adapters and migrations, which are SQL text; static catalogues and reports.
\<close>

end
